(* ===== verification/Prelude.thy ===== *)
theory Prelude
  imports Main "HOL-Library.AList" "HOL-Library.Multiset" "HOL-Library.List_Lexorder" "HOL-Library.Char_ord"
begin

text \<open>
  Shared material of the development: comparison results and the stable sort of the Rust
  standard library (\<open>Vec::sort_by\<close>), association lists as the model of hash and tree
  maps, and the collections of rewrite rules that the component theories fill.
\<close>

named_theorems time_consts \<open>the millisecond constants of the program\<close>
named_theorems frame_simps \<open>fields an operation leaves alone\<close>

subsection \<open>Comparators and the stable sort\<close>

text \<open>\<open>std::cmp::Ordering\<close> with \<open>reverse\<close> and \<open>then_with\<close>.\<close>

datatype ordering = Less | Equal | Greater

fun ord_reverse :: "ordering \<Rightarrow> ordering" where
  "ord_reverse Less = Greater"
| "ord_reverse Equal = Equal"
| "ord_reverse Greater = Less"

definition then_with :: "ordering \<Rightarrow> ordering \<Rightarrow> ordering" where
  "then_with c d = (if c = Equal then d else c)"

definition cmp_of :: "'a::linorder \<Rightarrow> 'a \<Rightarrow> ordering" where
  "cmp_of a b = (if a < b then Less else if a = b then Equal else Greater)"

text \<open>
  \<open>sort_by cmp\<close> is insertion sort: an element moves left past exactly the elements that
  compare strictly greater, which is what stability of \<open>Vec::sort_by\<close> means.
\<close>

fun insert_by :: "('a \<Rightarrow> 'a \<Rightarrow> ordering) \<Rightarrow> 'a \<Rightarrow> 'a list \<Rightarrow> 'a list" where
  "insert_by cmp x [] = [x]"
| "insert_by cmp x (y # ys) =
     (if cmp x y = Greater then y # insert_by cmp x ys else x # y # ys)"

fun sort_by :: "('a \<Rightarrow> 'a \<Rightarrow> ordering) \<Rightarrow> 'a list \<Rightarrow> 'a list" where
  "sort_by cmp [] = []"
| "sort_by cmp (x # xs) = insert_by cmp x (sort_by cmp xs)"

lemma set_insert_by [simp]: "set (insert_by cmp x xs) = insert x (set xs)"
  by (induction xs) auto

lemma set_sort_by [simp]: "set (sort_by cmp xs) = set xs"
  by (induction xs) auto

lemma mset_insert_by: "mset (insert_by cmp x xs) = add_mset x (mset xs)"
  by (induction xs) auto

lemma mset_sort_by [simp]: "mset (sort_by cmp xs) = mset xs"
  by (induction xs) (auto simp: mset_insert_by)

lemma length_sort_by [simp]: "length (sort_by cmp xs) = length xs"
  using mset_sort_by by (metis size_mset)

lemma sort_by_eq_Nil [simp]: "sort_by cmp xs = [] \<longleftrightarrow> xs = []"
  using length_sort_by [of cmp xs] by (metis length_0_conv)

text \<open>
  The contract of a comparator: a total preorder. Whoever sorts relies on it, whoever
  builds a comparator provides it.
\<close>

locale preorder_cmp =
  fixes cmp :: "'a \<Rightarrow> 'a \<Rightarrow> ordering"
  assumes cmp_rev: "cmp b a = ord_reverse (cmp a b)"
    and cmp_le_trans: "cmp a b \<noteq> Greater \<Longrightarrow> cmp b c \<noteq> Greater \<Longrightarrow> cmp a c \<noteq> Greater"
begin

lemma cmp_refl: "cmp a a = Equal"
  using cmp_rev [of a a] by (cases "cmp a a") auto

lemma cmp_not_le: "cmp a b = Greater \<Longrightarrow> cmp b a = Less"
  using cmp_rev [of b a] by simp

lemma cmp_total: "cmp a b \<noteq> Greater \<or> cmp b a \<noteq> Greater"
  using cmp_rev [of b a] by (cases "cmp a b") auto

lemma sorted_insert_by:
  "sorted_wrt (\<lambda>a b. cmp a b \<noteq> Greater) xs \<Longrightarrow>
   sorted_wrt (\<lambda>a b. cmp a b \<noteq> Greater) (insert_by cmp x xs)"
proof (induction xs)
  case Nil
  then show ?case by simp
next
  case (Cons y ys)
  show ?case
  proof (cases "cmp x y = Greater")
    case True
    then have "cmp y x \<noteq> Greater" by (simp add: cmp_not_le)
    with Cons True show ?thesis by auto
  next
    case False
    with Cons.prems show ?thesis using cmp_le_trans [of x y] by auto
  qed
qed

lemma sorted_sort_by: "sorted_wrt (\<lambda>a b. cmp a b \<noteq> Greater) (sort_by cmp xs)"
  by (induction xs) (auto intro: sorted_insert_by)

text \<open>The first element of the sorted list is a least one.\<close>

lemma hd_sort_by_least:
  assumes "x \<in> set xs"
  shows "cmp (hd (sort_by cmp xs)) x \<noteq> Greater"
proof -
  from assms have "sort_by cmp xs \<noteq> []" by auto
  then obtain y ys where eq: "sort_by cmp xs = y # ys" by (cases "sort_by cmp xs") auto
  have "sorted_wrt (\<lambda>a b. cmp a b \<noteq> Greater) (y # ys)"
    using sorted_sort_by [of xs] by (simp add: eq)
  moreover have "x \<in> set (y # ys)" using assms set_sort_by [of cmp xs] by (simp add: eq)
  ultimately show ?thesis by (auto simp: eq cmp_refl)
qed

text \<open>Stability: the elements equivalent to any given one keep their order.\<close>

lemma filter_insert_by:
  "filter (\<lambda>y. cmp y p = Equal) (insert_by cmp x xs) =
   (if cmp x p = Equal then [x] else []) @ filter (\<lambda>y. cmp y p = Equal) xs"
proof (induction xs)
  case Nil
  then show ?case by simp
next
  case (Cons y ys)
  show ?case
  proof (cases "cmp x y = Greater \<and> cmp x p = Equal \<and> cmp y p = Equal")
    case True
    then have "cmp p y \<noteq> Greater" using cmp_rev [of p y] by simp
    with True have "cmp x y \<noteq> Greater" using cmp_le_trans [of x p y] by simp
    with True show ?thesis by simp
  next
    case False
    with Cons.IH show ?thesis by auto
  qed
qed

lemma sort_by_stable:
  "filter (\<lambda>y. cmp y p = Equal) (sort_by cmp xs) = filter (\<lambda>y. cmp y p = Equal) xs"
  by (induction xs) (auto simp: filter_insert_by)

end

text \<open>Comparators built from keys, and chained with \<open>then_with\<close>, keep the contract.\<close>

lemma cmp_of_simps:
  "cmp_of a b = Less \<longleftrightarrow> a < b"
  "cmp_of a b = Equal \<longleftrightarrow> a = b"
  "cmp_of a b = Greater \<longleftrightarrow> b < a"
  by (auto simp: cmp_of_def)

lemma preorder_cmp_of_key:
  fixes k :: "'a \<Rightarrow> 'b::linorder"
  shows "preorder_cmp (\<lambda>a b. cmp_of (k a) (k b))"
  by unfold_locales (auto simp: cmp_of_def split: if_splits)

lemma then_with_Greater:
  "then_with c d = Greater \<longleftrightarrow> c = Greater \<or> c = Equal \<and> d = Greater"
  by (auto simp: then_with_def)

lemma ord_reverse_eq [simp]:
  "ord_reverse c = Less \<longleftrightarrow> c = Greater"
  "ord_reverse c = Equal \<longleftrightarrow> c = Equal"
  "ord_reverse c = Greater \<longleftrightarrow> c = Less"
  by (cases c; simp)+

lemma preorder_cmp_then_with:
  assumes "preorder_cmp c" and "preorder_cmp d"
  shows "preorder_cmp (\<lambda>a b. then_with (c a b) (d a b))"
proof
  fix a b
  show "then_with (c b a) (d b a) = ord_reverse (then_with (c a b) (d a b))"
    using preorder_cmp.cmp_rev [OF assms(1), of b a] preorder_cmp.cmp_rev [OF assms(2), of b a]
    by (auto simp: then_with_def)
next
  fix a b e
  assume ab: "then_with (c a b) (d a b) \<noteq> Greater" and be: "then_with (c b e) (d b e) \<noteq> Greater"
  have c_ab: "c a b \<noteq> Greater" and c_be: "c b e \<noteq> Greater"
    using ab be by (auto simp: then_with_Greater)
  then have c_ae: "c a e \<noteq> Greater" using preorder_cmp.cmp_le_trans [OF assms(1)] by blast
  show "then_with (c a e) (d a e) \<noteq> Greater"
  proof (cases "c a e = Equal")
    case False
    with c_ae show ?thesis by (simp add: then_with_Greater)
  next
    case True
    then have "c e a = Equal" using preorder_cmp.cmp_rev [OF assms(1), of e a] by simp
    then have "c b a \<noteq> Greater" "c e b \<noteq> Greater"
      using c_ab c_be preorder_cmp.cmp_le_trans [OF assms(1), of b e a]
        preorder_cmp.cmp_le_trans [OF assms(1), of e a b] by simp_all
    then have "c a b = Equal" "c b e = Equal"
      using c_ab c_be preorder_cmp.cmp_rev [OF assms(1), of b a]
        preorder_cmp.cmp_rev [OF assms(1), of e b] by (cases "c a b"; cases "c b e"; simp)+
    then have "d a e \<noteq> Greater"
      using ab be preorder_cmp.cmp_le_trans [OF assms(2), of a b e]
      by (auto simp: then_with_Greater)
    with True show ?thesis by (simp add: then_with_Greater)
  qed
qed

subsection \<open>Association lists as maps\<close>

text \<open>
  A \<open>HashMap\<close> is an association list with distinct keys whose order stands for the
  unspecified iteration order. \<open>AList.update\<close> overwrites in place or appends,
  \<open>AList.delete\<close> removes the key, \<open>map_of\<close> looks it up. A \<open>BTreeMap\<close> is the
  same with strictly increasing keys; \<open>bt_insert\<close> keeps them so.
\<close>

abbreviation al_keys :: "('k \<times> 'v) list \<Rightarrow> 'k list" where
  "al_keys m \<equiv> map fst m"

abbreviation al_vals :: "('k \<times> 'v) list \<Rightarrow> 'v list" where
  "al_vals m \<equiv> map snd m"

abbreviation al_has :: "('k \<times> 'v) list \<Rightarrow> 'k \<Rightarrow> bool" where
  "al_has m k \<equiv> map_of m k \<noteq> None"

fun bt_insert :: "'k::linorder \<Rightarrow> 'v \<Rightarrow> ('k \<times> 'v) list \<Rightarrow> ('k \<times> 'v) list" where
  "bt_insert k v [] = [(k, v)]"
| "bt_insert k v ((k', v') # m) =
     (if k < k' then (k, v) # (k', v') # m
      else if k = k' then (k, v) # m
      else (k', v') # bt_insert k v m)"

definition bt_inv :: "('k::linorder \<times> 'v) list \<Rightarrow> bool" where
  "bt_inv m \<longleftrightarrow> sorted_wrt (<) (al_keys m)"

lemma map_of_bt_insert [simp]: "map_of (bt_insert k v m) = (map_of m)(k \<mapsto> v)"
  by (induction k v m rule: bt_insert.induct) (auto simp: fun_eq_iff)

lemma set_keys_bt_insert [simp]: "fst ` set (bt_insert k v m) = insert k (fst ` set m)"
  by (induction k v m rule: bt_insert.induct) (simp_all add: insert_commute)

lemma bt_inv_Nil [simp]: "bt_inv []"
  by (simp add: bt_inv_def)

lemma bt_inv_insert: "bt_inv m \<Longrightarrow> bt_inv (bt_insert k v m)"
proof (induction k v m rule: bt_insert.induct)
  case (1 k v)
  then show ?case by (simp add: bt_inv_def)
next
  case (2 k v k' v' m)
  have inv: "\<And>a ms. bt_inv (a # ms) \<longleftrightarrow> (\<forall>x \<in> fst ` set ms. fst a < x) \<and> bt_inv ms"
    for a :: "'b \<times> 'a" and ms by (auto simp: bt_inv_def)
  show ?case using 2 by (auto simp: inv)
qed

lemma bt_inv_distinct: "bt_inv m \<Longrightarrow> distinct (al_keys m)"
  unfolding bt_inv_def by (metis sorted_wrt_iff_nth_less distinct_conv_nth nat_neq_iff order_less_irrefl)

lemma bt_inv_filter: "bt_inv m \<Longrightarrow> bt_inv (filter P m)"
  unfolding bt_inv_def by (induction m) auto

lemma bt_inv_delete: "bt_inv m \<Longrightarrow> bt_inv (AList.delete k m)"
  by (simp add: AList.delete_eq bt_inv_filter)

lemma map_of_filter_key [simp]:
  "map_of (filter (\<lambda>(k, v). P k) m) = (\<lambda>k. if P k then map_of m k else None)"
  by (induction m) (auto simp: fun_eq_iff)

text \<open>The laws of a map that a component relies on, whatever the representation.\<close>

locale map_store =
  fixes lookup :: "'m \<Rightarrow> 'k \<Rightarrow> 'v option"
    and put :: "'k \<Rightarrow> 'v \<Rightarrow> 'm \<Rightarrow> 'm"
    and del :: "'k \<Rightarrow> 'm \<Rightarrow> 'm"
    and inv :: "'m \<Rightarrow> bool"
  assumes lookup_put: "inv m \<Longrightarrow> lookup (put k v m) = (lookup m)(k \<mapsto> v)"
    and lookup_del: "inv m \<Longrightarrow> lookup (del k m) = (lookup m)(k := None)"
    and inv_put: "inv m \<Longrightarrow> inv (put k v m)"
    and inv_del: "inv m \<Longrightarrow> inv (del k m)"
begin

text \<open>Moving a value to a fresh key, as a rename does.\<close>

lemma lookup_move:
  assumes "inv m" and "lookup m old = Some v" and "lookup m new = None"
  shows "lookup (put new v (del old m)) = (\<lambda>k. if k = new then Some v else if k = old then None else lookup m k)"
  using assms by (auto simp: lookup_put lookup_del inv_del)

lemma dom_move:
  assumes "inv m" and "lookup m old = Some v" and "lookup m new = None"
  shows "dom (lookup (put new v (del old m))) = insert new (dom (lookup m) - {old})"
  using assms by (auto simp: lookup_put lookup_del inv_del split: if_splits)

end

interpretation bt: map_store map_of bt_insert AList.delete "bt_inv :: ('k::linorder \<times> 'v) list \<Rightarrow> bool"
  by unfold_locales (auto simp: bt_inv_insert bt_inv_delete delete_conv)

interpretation hm: map_store map_of AList.update AList.delete "\<lambda>m. distinct (al_keys m)"
  by unfold_locales (auto simp: update_conv delete_conv distinct_update distinct_delete)

subsection \<open>Options\<close>

text \<open>\<open>Option::or\<close> and \<open>Option::filter\<close>.\<close>

definition opt_or :: "'a option \<Rightarrow> 'a option \<Rightarrow> 'a option" where
  "opt_or a b = (case a of None \<Rightarrow> b | Some x \<Rightarrow> Some x)"

definition opt_filter :: "('a \<Rightarrow> bool) \<Rightarrow> 'a option \<Rightarrow> 'a option" where
  "opt_filter P a = (case a of None \<Rightarrow> None | Some x \<Rightarrow> if P x then Some x else None)"

definition unwrap_or :: "'a \<Rightarrow> 'a option \<Rightarrow> 'a" where
  "unwrap_or d a = (case a of None \<Rightarrow> d | Some x \<Rightarrow> x)"

lemma opt_or_simps [simp]: "opt_or None b = b" "opt_or (Some x) b = Some x" "opt_or a None = a"
  by (auto simp: opt_or_def split: option.splits)

lemma opt_or_eq_None [simp]: "opt_or a b = None \<longleftrightarrow> a = None \<and> b = None"
  by (cases a) auto

lemma opt_filter_simps [simp]:
  "opt_filter P None = None" "opt_filter P (Some x) = (if P x then Some x else None)"
  by (simp_all add: opt_filter_def)

lemma opt_filter_eq_Some [simp]: "opt_filter P a = Some x \<longleftrightarrow> a = Some x \<and> P x"
  by (cases a) auto

lemma unwrap_or_simps [simp]: "unwrap_or d None = d" "unwrap_or d (Some x) = x"
  by (simp_all add: unwrap_or_def)

text \<open>\<open>Iterator::find\<close> and \<open>find_map\<close>.\<close>

fun find_map :: "('a \<Rightarrow> 'b option) \<Rightarrow> 'a list \<Rightarrow> 'b option" where
  "find_map f [] = None"
| "find_map f (x # xs) = (case f x of Some y \<Rightarrow> Some y | None \<Rightarrow> find_map f xs)"

lemma find_map_SomeD: "find_map f xs = Some y \<Longrightarrow> \<exists>x \<in> set xs. f x = Some y"
  by (induction xs) (auto split: option.splits)

lemma find_map_None [simp]: "find_map f xs = None \<longleftrightarrow> (\<forall>x \<in> set xs. f x = None)"
  by (induction xs) (auto split: option.splits)

lemma find_SomeD: "List.find P xs = Some x \<Longrightarrow> x \<in> set xs \<and> P x"
  by (induction xs) (auto split: if_splits)

lemma find_None [simp]: "List.find P xs = None \<longleftrightarrow> (\<forall>x \<in> set xs. \<not> P x)"
  by (induction xs) auto

text \<open>\<open>Iterator::min\<close> and \<open>max\<close> on options of integers.\<close>

definition opt_min :: "'a::linorder list \<Rightarrow> 'a option" where
  "opt_min xs = (case xs of [] \<Rightarrow> None | y # ys \<Rightarrow> Some (fold min ys y))"

definition opt_max :: "'a::linorder list \<Rightarrow> 'a option" where
  "opt_max xs = (case xs of [] \<Rightarrow> None | y # ys \<Rightarrow> Some (fold max ys y))"

lemma fold_min_le: "fold min ys (y::'a::linorder) \<le> y \<and> (\<forall>x \<in> set ys. fold min ys y \<le> x)"
proof (induction ys arbitrary: y)
  case (Cons a ys)
  from Cons.IH [of "min a y"] show ?case by auto
qed simp

lemma fold_max_ge: "y \<le> fold max ys (y::'a::linorder) \<and> (\<forall>x \<in> set ys. x \<le> fold max ys y)"
proof (induction ys arbitrary: y)
  case (Cons a ys)
  from Cons.IH [of "max a y"] show ?case by auto
qed simp

lemma fold_max_mem: "fold max ys (y::'a::linorder) \<in> insert y (set ys)"
  by (induction ys arbitrary: y) (auto simp: max_def)

lemma fold_min_mem: "fold min ys (y::'a::linorder) \<in> insert y (set ys)"
  by (induction ys arbitrary: y) (auto simp: min_def)

lemma opt_max_SomeD: "opt_max xs = Some m \<Longrightarrow> m \<in> set xs \<and> (\<forall>x \<in> set xs. x \<le> m)"
  using fold_max_mem fold_max_ge by (fastforce simp: opt_max_def split: list.splits)

lemma opt_min_SomeD: "opt_min xs = Some m \<Longrightarrow> m \<in> set xs \<and> (\<forall>x \<in> set xs. m \<le> x)"
  using fold_min_mem fold_min_le by (fastforce simp: opt_min_def split: list.splits)

subsection \<open>Results\<close>

text \<open>\<open>Result<T, E>\<close> is \<open>'e + 't\<close>; \<open>?\<close> is \<open>res_bind\<close>.\<close>

fun res_bind :: "'e + 'a \<Rightarrow> ('a \<Rightarrow> 'e + 'b) \<Rightarrow> 'e + 'b" where
  "res_bind (Inl e) f = Inl e"
| "res_bind (Inr x) f = f x"

lemma res_bind_Inr [simp]: "res_bind r f = Inr y \<longleftrightarrow> (\<exists>x. r = Inr x \<and> f x = Inr y)"
  by (cases r) auto

text \<open>A loop over checks, the first error wins.\<close>

fun try_all :: "('a \<Rightarrow> 'e + unit) \<Rightarrow> 'a list \<Rightarrow> 'e + unit" where
  "try_all f [] = Inr ()"
| "try_all f (x # xs) = res_bind (f x) (\<lambda>_. try_all f xs)"

lemma try_all_Inr: "try_all f xs = Inr u \<longleftrightarrow> (\<forall>x \<in> set xs. f x = Inr ())"
  by (induction xs) auto

definition ensure :: "bool \<Rightarrow> 'e \<Rightarrow> 'e + unit" where
  "ensure b e = (if b then Inr () else Inl e)"

lemma ensure_Inr [simp]: "ensure b e = Inr u \<longleftrightarrow> b"
  by (simp add: ensure_def)

end
