(* ===== verification/Float64.thy ===== *)
theory Float64
  imports Complex_Main Rust_Std
begin

text \<open>
  \<open>f64\<close> as the program observes it: finite values, the two infinities and NaN, with the
  IEEE comparisons (every comparison with NaN is false), \<open>max\<close>/\<open>min\<close>/\<open>clamp\<close> as the
  Rust standard library defines them, and the saturating cast to \<open>i64\<close>. Finite arithmetic
  is exact: rounding and the sign of zero are not modelled.
\<close>

datatype f64 = Fin rat | PInf | NInf | NaN

fun is_finite :: "f64 \<Rightarrow> bool" where
  "is_finite (Fin _) = True"
| "is_finite _ = False"

fun f_lt :: "f64 \<Rightarrow> f64 \<Rightarrow> bool" where
  "f_lt (Fin x) (Fin y) = (x < y)"
| "f_lt (Fin _) PInf = True"
| "f_lt NInf (Fin _) = True"
| "f_lt NInf PInf = True"
| "f_lt _ _ = False"

definition f_le :: "f64 \<Rightarrow> f64 \<Rightarrow> bool" where
  "f_le a b \<longleftrightarrow> f_lt a b \<or> a = b \<and> a \<noteq> NaN"

abbreviation f_ge :: "f64 \<Rightarrow> f64 \<Rightarrow> bool" where
  "f_ge a b \<equiv> f_le b a"

definition f_partial_cmp :: "f64 \<Rightarrow> f64 \<Rightarrow> ordering option" where
  "f_partial_cmp a b =
     (if a = NaN \<or> b = NaN then None
      else if f_lt a b then Some Less else if a = b then Some Equal else Some Greater)"

text \<open>\<open>f64::max\<close> and \<open>f64::min\<close> ignore a NaN argument; \<open>clamp\<close> keeps it.\<close>

definition f_max :: "f64 \<Rightarrow> f64 \<Rightarrow> f64" where
  "f_max a b = (if a = NaN then b else if b = NaN then a else if f_lt a b then b else a)"

definition f_min :: "f64 \<Rightarrow> f64 \<Rightarrow> f64" where
  "f_min a b = (if a = NaN then b else if b = NaN then a else if f_lt b a then b else a)"

definition f_clamp :: "f64 \<Rightarrow> f64 \<Rightarrow> f64 \<Rightarrow> f64" where
  "f_clamp v lo hi = (if f_lt v lo then lo else if f_lt hi v then hi else v)"

fun f_neg :: "f64 \<Rightarrow> f64" where
  "f_neg (Fin x) = Fin (- x)"
| "f_neg PInf = NInf"
| "f_neg NInf = PInf"
| "f_neg NaN = NaN"

fun f_add :: "f64 \<Rightarrow> f64 \<Rightarrow> f64" where
  "f_add (Fin x) (Fin y) = Fin (x + y)"
| "f_add NaN _ = NaN"
| "f_add _ NaN = NaN"
| "f_add PInf NInf = NaN"
| "f_add NInf PInf = NaN"
| "f_add PInf _ = PInf"
| "f_add _ PInf = PInf"
| "f_add NInf _ = NInf"
| "f_add _ NInf = NInf"

definition f_sub :: "f64 \<Rightarrow> f64 \<Rightarrow> f64" where
  "f_sub a b = f_add a (f_neg b)"

definition f_sign :: "f64 \<Rightarrow> rat" where
  "f_sign a = (case a of Fin x \<Rightarrow> sgn x | PInf \<Rightarrow> 1 | NInf \<Rightarrow> -1 | NaN \<Rightarrow> 0)"

definition f_inf_of :: "rat \<Rightarrow> f64" where
  "f_inf_of s = (if 0 < s then PInf else if s < 0 then NInf else NaN)"

definition f_mul :: "f64 \<Rightarrow> f64 \<Rightarrow> f64" where
  "f_mul a b =
     (case (a, b) of
        (NaN, _) \<Rightarrow> NaN
      | (_, NaN) \<Rightarrow> NaN
      | (Fin x, Fin y) \<Rightarrow> Fin (x * y)
      | _ \<Rightarrow> f_inf_of (f_sign a * f_sign b))"

text \<open>Division by zero gives the infinity of the dividend's sign (zeros are positive here).\<close>

definition f_div :: "f64 \<Rightarrow> f64 \<Rightarrow> f64" where
  "f_div a b =
     (case (a, b) of
        (NaN, _) \<Rightarrow> NaN
      | (_, NaN) \<Rightarrow> NaN
      | (Fin x, Fin y) \<Rightarrow> if y = 0 then f_inf_of (sgn x) else Fin (x / y)
      | (Fin x, _) \<Rightarrow> Fin 0
      | (_, Fin y) \<Rightarrow> f_inf_of (f_sign a * (if y < 0 then -1 else 1))
      | _ \<Rightarrow> NaN)"

definition f_abs :: "f64 \<Rightarrow> f64" where
  "f_abs a = (case a of Fin x \<Rightarrow> Fin \<bar>x\<bar> | NInf \<Rightarrow> PInf | _ \<Rightarrow> a)"

definition f_of_int :: "int \<Rightarrow> f64" where
  "f_of_int n = Fin (of_int n)"

text \<open>\<open>as i64\<close>: truncation, saturating, NaN to 0.\<close>

definition rat_trunc :: "rat \<Rightarrow> int" where
  "rat_trunc x = (if x < 0 then - \<lfloor>- x\<rfloor> else \<lfloor>x\<rfloor>)"

definition f_to_i64 :: "f64 \<Rightarrow> int" where
  "f_to_i64 a =
     (case a of Fin x \<Rightarrow> clamp i64_min i64_max (rat_trunc x)
      | PInf \<Rightarrow> i64_max | NInf \<Rightarrow> i64_min | NaN \<Rightarrow> 0)"

text \<open>\<open>{:.0}\<close>: nearest integer, ties to even.\<close>

definition round_half_even :: "rat \<Rightarrow> int" where
  "round_half_even x =
     (let n = \<lfloor>x\<rfloor>; d = x - of_int n
      in if d < 1 / 2 then n else if 1 / 2 < d then n + 1 else if even n then n else n + 1)"

definition fmt0 :: "f64 \<Rightarrow> string" where
  "fmt0 a =
     (case a of
        Fin x \<Rightarrow> (if x < 0 then ''-'' else '''') @ show_nat (nat (round_half_even \<bar>x\<bar>))
      | PInf \<Rightarrow> ''inf'' | NInf \<Rightarrow> ''-inf'' | NaN \<Rightarrow> ''NaN'')"

subsection \<open>\<open>str::parse::<f64>\<close>\<close>

text \<open>
  \<open>[sign] (inf | infinity | nan | Number)\<close> with \<open>Number\<close> a decimal mantissa that has at
  least one digit, and an optional exponent.
\<close>

definition split_sign :: "string \<Rightarrow> bool \<times> string" where
  "split_sign s =
     (case s of
        c # r \<Rightarrow> if c = CHR ''-'' then (True, r) else if c = CHR ''+'' then (False, r) else (False, s)
      | [] \<Rightarrow> (False, s))"

definition digits_val :: "string \<Rightarrow> nat" where
  "digits_val s = foldl (\<lambda>n c. 10 * n + digit_val c) 0 s"

definition parse_exponent :: "string \<Rightarrow> int option" where
  "parse_exponent s =
     (case s of
        [] \<Rightarrow> Some 0
      | c # r \<Rightarrow>
          if lower_char c = CHR ''e'' then
            (case split_sign r of
               (neg, ds) \<Rightarrow> map_option (\<lambda>n. if neg then - int n else int n) (parse_digits ds))
          else None)"

definition pow10 :: "int \<Rightarrow> rat" where
  "pow10 e = (if 0 \<le> e then 10 ^ nat e else 1 / 10 ^ nat (- e))"

definition parse_decimal :: "string \<Rightarrow> rat option" where
  "parse_decimal s =
     (let ip = takeWhile is_digit s; r = dropWhile is_digit s;
          (fp, r') = (case r of c # t \<Rightarrow> if c = CHR ''.'' then (takeWhile is_digit t, dropWhile is_digit t)
                                         else ([], r)
                      | [] \<Rightarrow> ([], []))
      in if ip = [] \<and> fp = [] then None
         else map_option (\<lambda>e. of_nat (digits_val (ip @ fp)) * pow10 (e - int (length fp)))
                (parse_exponent r'))"

definition parse_f64 :: "string \<Rightarrow> f64 option" where
  "parse_f64 s =
     (case split_sign s of
        (neg, r) \<Rightarrow>
          let l = to_lower r; sg = (\<lambda>v. if neg then f_neg v else v)
          in if l = ''inf'' \<or> l = ''infinity'' then Some (sg PInf)
             else if l = ''nan'' then Some NaN
             else map_option (\<lambda>x. sg (Fin x)) (parse_decimal r))"

subsection \<open>Order\<close>

lemma f_lt_irrefl [simp]: "\<not> f_lt a a"
  by (cases a) auto

lemma f_lt_NaN [simp]: "\<not> f_lt NaN b" "\<not> f_lt a NaN"
  by (cases b; simp) (cases a; simp)

lemma f_lt_trans: "f_lt a b \<Longrightarrow> f_lt b c \<Longrightarrow> f_lt a c"
  by (cases a; cases b; cases c) auto

lemma f_lt_linear: "a \<noteq> NaN \<Longrightarrow> b \<noteq> NaN \<Longrightarrow> f_lt a b \<or> a = b \<or> f_lt b a"
  by (cases a; cases b) auto

lemma f_lt_asym: "f_lt a b \<Longrightarrow> \<not> f_lt b a"
  by (cases a; cases b) auto

lemma f_le_Fin [simp]: "f_le (Fin x) (Fin y) \<longleftrightarrow> x \<le> y"
  by (auto simp: f_le_def)

lemma f_le_refl: "a \<noteq> NaN \<Longrightarrow> f_le a a"
  by (simp add: f_le_def)

lemma f_le_NaN [simp]: "\<not> f_le NaN b" "\<not> f_le a NaN"
  by (auto simp: f_le_def)

lemma f_le_trans: "f_le a b \<Longrightarrow> f_le b c \<Longrightarrow> f_le a c"
  by (auto simp: f_le_def dest: f_lt_trans)

lemma f_not_le: "a \<noteq> NaN \<Longrightarrow> b \<noteq> NaN \<Longrightarrow> \<not> f_le a b \<longleftrightarrow> f_lt b a"
  by (cases a; cases b) (auto simp: f_le_def)

lemma f_not_lt: "a \<noteq> NaN \<Longrightarrow> b \<noteq> NaN \<Longrightarrow> \<not> f_lt a b \<longleftrightarrow> f_le b a"
  by (cases a; cases b) (auto simp: f_le_def)

lemma f_max_ge: "a \<noteq> NaN \<Longrightarrow> f_le a (f_max a b)" "b \<noteq> NaN \<Longrightarrow> f_le b (f_max a b)"
  by (cases a; cases b; auto simp: f_max_def f_le_def)+

lemma f_max_cases: "f_max a b = a \<or> f_max a b = b"
  by (auto simp: f_max_def)

lemma f_max_NaN [simp]: "f_max a b = NaN \<longleftrightarrow> a = NaN \<and> b = NaN"
  by (auto simp: f_max_def)

lemma f_add_mono_left: "f_le a b \<Longrightarrow> is_finite m \<Longrightarrow> f_le (f_add a m) (f_add b m)"
  by (cases a; cases b; cases m) (auto simp: f_le_def)

end
