(* ===== verification/Json_Value.thy ===== *)
theory Json_Value
  imports Float64
begin

text \<open>
  \<open>serde_json::Value\<close> with the crate's \<open>preserve_order\<close> feature, which the build turns on:
  an object is an insertion-ordered map, \<open>insert\<close> overwrites in place or appends, \<open>remove\<close>
  is a swap-remove. Parsing and printing JSON text is code of that crate and a parameter of
  the definitions that need it.
\<close>

datatype json =
    JNull
  | JBool bool
  | JInt int
  | JReal f64
  | JStr string
  | JArr "json list"
  | JObj "(string \<times> json) list"

type_synonym obj = "(string \<times> json) list"

fun j_get :: "string \<Rightarrow> json \<Rightarrow> json option" where
  "j_get k (JObj m) = map_of m k"
| "j_get k _ = None"

fun as_str :: "json \<Rightarrow> string option" where
  "as_str (JStr s) = Some s"
| "as_str _ = None"

fun as_array :: "json \<Rightarrow> json list option" where
  "as_array (JArr xs) = Some xs"
| "as_array _ = None"

fun as_object :: "json \<Rightarrow> obj option" where
  "as_object (JObj m) = Some m"
| "as_object _ = None"

fun as_bool :: "json \<Rightarrow> bool option" where
  "as_bool (JBool b) = Some b"
| "as_bool _ = None"

fun as_i64 :: "json \<Rightarrow> int option" where
  "as_i64 (JInt n) = (if i64_range n then Some n else None)"
| "as_i64 _ = None"

fun as_u64 :: "json \<Rightarrow> nat option" where
  "as_u64 (JInt n) = (if 0 \<le> n then Some (nat n) else None)"
| "as_u64 _ = None"

fun as_f64 :: "json \<Rightarrow> f64 option" where
  "as_f64 (JInt n) = Some (f_of_int n)"
| "as_f64 (JReal x) = Some x"
| "as_f64 _ = None"

fun is_number :: "json \<Rightarrow> bool" where
  "is_number (JInt _) = True"
| "is_number (JReal _) = True"
| "is_number _ = False"

fun is_array :: "json \<Rightarrow> bool" where
  "is_array (JArr _) = True"
| "is_array _ = False"

fun is_object :: "json \<Rightarrow> bool" where
  "is_object (JObj _) = True"
| "is_object _ = False"

text \<open>\<open>Value::pointer("/a/b")\<close> on object steps.\<close>

fun j_pointer :: "string list \<Rightarrow> json \<Rightarrow> json option" where
  "j_pointer [] v = Some v"
| "j_pointer (k # ks) v = Option.bind (j_get k v) (j_pointer ks)"

definition get_str :: "string \<Rightarrow> json \<Rightarrow> string option" where
  "get_str k v = Option.bind (j_get k v) as_str"

definition obj_insert :: "string \<Rightarrow> json \<Rightarrow> obj \<Rightarrow> obj" where
  "obj_insert k v m = AList.update k v m"

text \<open>Swap-remove: the last entry takes the place of the removed one.\<close>

fun obj_remove :: "string \<Rightarrow> obj \<Rightarrow> obj" where
  "obj_remove k [] = []"
| "obj_remove k ((k', v) # m) =
     (if k = k' then (if m = [] then [] else last m # butlast m)
      else (k', v) # obj_remove k m)"

lemma map_of_obj_insert [simp]: "map_of (obj_insert k v m) = (map_of m)(k \<mapsto> v)"
  by (simp add: obj_insert_def update_conv')

lemma distinct_obj_insert: "distinct (al_keys m) \<Longrightarrow> distinct (al_keys (obj_insert k v m))"
  by (simp add: obj_insert_def distinct_update)

lemma mset_swap: "m \<noteq> [] \<Longrightarrow> mset (last m # butlast m) = mset m"
  by (metis append_butlast_last_id mset.simps(2) mset_append union_mset_add_mset_right
        add.right_neutral mset.simps(1))

lemma mset_obj_remove:
  "distinct (al_keys m) \<Longrightarrow> mset (obj_remove k m) = mset (filter (\<lambda>(k', v). k' \<noteq> k) m)"
proof (induction k m rule: obj_remove.induct)
  case (1 k)
  then show ?case by simp
next
  case (2 k k' v m)
  show ?case
  proof (cases "k = k'")
    case True
    with 2(2) have "filter (\<lambda>(k', v). k' \<noteq> k) m = m"
      by (auto simp: filter_id_conv image_iff)
    with True show ?thesis by (cases "m = []") (auto simp: mset_swap simp del: mset.simps)
  next
    case False
    with 2 show ?thesis by auto
  qed
qed

lemma distinct_obj_remove: "distinct (al_keys m) \<Longrightarrow> distinct (al_keys (obj_remove k m))"
proof -
  assume d: "distinct (al_keys m)"
  have "mset (al_keys (obj_remove k m)) = mset (al_keys (filter (\<lambda>(k', v). k' \<noteq> k) m))"
    using mset_obj_remove [OF d, of k] by simp
  moreover have "distinct (al_keys (filter (\<lambda>(k', v). k' \<noteq> k) m))"
    using d by (induction m) auto
  ultimately show ?thesis by (metis mset_eq_imp_distinct_iff)
qed

lemma map_of_obj_remove:
  "distinct (al_keys m) \<Longrightarrow> map_of (obj_remove k m) = (map_of m)(k := None)"
proof -
  assume d: "distinct (al_keys m)"
  have s: "set (obj_remove k m) = set (filter (\<lambda>(k', v). k' \<noteq> k) m)"
    using mset_obj_remove [OF d] by (metis set_mset_mset)
  have "map_of (obj_remove k m) = map_of (filter (\<lambda>(k', v). k' \<noteq> k) m)"
    using d s by (intro map_of_eqI) (auto simp: distinct_obj_remove map_of_inject_set
        intro!: map_of_inject_set [THEN iffD2])
  then show ?thesis using map_of_filter_key [of "\<lambda>x. x \<noteq> k" m] by (auto simp: fun_eq_iff)
qed

interpretation js: map_store map_of obj_insert obj_remove "\<lambda>m. distinct (al_keys m)"
  by unfold_locales (auto simp: map_of_obj_remove distinct_obj_insert distinct_obj_remove)

end
