(* ===== verification/Model_Family.thy ===== *)
theory Model_Family
  imports Json_Value
begin

text \<open>
  \<open>src/model.rs\<close>: model families and their quota buckets, the case-insensitive glob of
  routes and blocked models, and the model names a request body carries.
\<close>

datatype family = Fable | Sonnet | Opus | Haiku | Other

definition family_of :: "string option \<Rightarrow> family" where
  "family_of model =
     (case model of
        None \<Rightarrow> Other
      | Some m \<Rightarrow>
          let l = to_lower m
          in if contains l ''fable'' then Fable
             else if contains l ''sonnet'' then Sonnet
             else if contains l ''opus'' then Opus
             else if contains l ''haiku'' then Haiku
             else Other)"

fun family_label :: "family \<Rightarrow> string" where
  "family_label Fable = ''fable''"
| "family_label Sonnet = ''sonnet''"
| "family_label Opus = ''opus''"
| "family_label Haiku = ''haiku''"
| "family_label Other = ''other''"

definition BUCKET_5H :: string where "BUCKET_5H = ''unified5h''"
definition BUCKET_7D :: string where "BUCKET_7D = ''unified7d''"
definition BUCKET_7D_FABLE :: string where "BUCKET_7D_FABLE = ''unified7dFable''"
definition BUCKET_7D_SONNET :: string where "BUCKET_7D_SONNET = ''unified7dSonnet''"

definition WEEKLY_BUCKETS :: "string list" where
  "WEEKLY_BUCKETS = [BUCKET_7D, BUCKET_7D_FABLE, BUCKET_7D_SONNET]"

lemmas bucket_defs = BUCKET_5H_def BUCKET_7D_def BUCKET_7D_FABLE_def BUCKET_7D_SONNET_def

definition weekly_bucket_for :: "string option \<Rightarrow> string" where
  "weekly_bucket_for model =
     (case family_of model of
        Fable \<Rightarrow> BUCKET_7D_FABLE
      | Sonnet \<Rightarrow> BUCKET_7D_SONNET
      | _ \<Rightarrow> BUCKET_7D)"

definition is_weekly_bucket :: "string \<Rightarrow> bool" where
  "is_weekly_bucket b \<longleftrightarrow> b \<in> set WEEKLY_BUCKETS"

lemma weekly_bucket_for_weekly: "is_weekly_bucket (weekly_bucket_for m)"
  by (simp add: is_weekly_bucket_def WEEKLY_BUCKETS_def weekly_bucket_for_def split: family.split)

lemma family_of_case: "family_of (Some (to_lower m)) = family_of (Some m)"
  by (simp add: family_of_def)

subsection \<open>Globs\<close>

text \<open>\<open>rec\<close> of \<open>glob_matches\<close>: a star tries every split of the rest of the text.\<close>

fun glob_rec :: "string \<Rightarrow> string \<Rightarrow> bool" where
  "glob_rec [] m = (m = [])"
| "glob_rec (g # gs) m =
     (if g = CHR ''*'' then list_ex (\<lambda>i. glob_rec gs (drop i m)) [0..<Suc (length m)]
      else (case m of [] \<Rightarrow> False | c # cs \<Rightarrow> lower_char g = lower_char c \<and> glob_rec gs cs))"

definition glob_matches :: "string \<Rightarrow> string \<Rightarrow> bool" where
  "glob_matches glob model = glob_rec glob model"

definition any_glob_matches :: "string list \<Rightarrow> string \<Rightarrow> bool" where
  "any_glob_matches globs model = list_ex (\<lambda>g. glob_matches g model) globs"

text \<open>The language of a glob, as a relation.\<close>

inductive glob_lang :: "string \<Rightarrow> string \<Rightarrow> bool" where
  gl_end: "glob_lang [] []"
| gl_star: "glob_lang gs t \<Longrightarrow> glob_lang (CHR ''*'' # gs) (s @ t)"
| gl_char: "glob_lang gs t \<Longrightarrow> g \<noteq> CHR ''*'' \<Longrightarrow> lower_char g = lower_char c \<Longrightarrow>
     glob_lang (g # gs) (c # t)"

inductive_cases gl_NilE: "glob_lang [] m"
inductive_cases gl_ConsE: "glob_lang (g # gs) m"

lemma glob_rec_lang: "glob_rec g m \<longleftrightarrow> glob_lang g m"
proof
  show "glob_rec g m \<Longrightarrow> glob_lang g m"
  proof (induction g arbitrary: m)
    case Nil
    then show ?case by (auto intro: glob_lang.intros)
  next
    case (Cons g gs)
    show ?case
    proof (cases "g = CHR ''*''")
      case True
      with Cons.prems obtain i where "glob_rec gs (drop i m)"
        by (auto simp: list_ex_iff simp del: upt_Suc)
      then have "glob_lang (CHR ''*'' # gs) (take i m @ drop i m)"
        by (intro glob_lang.intros Cons.IH)
      with True show ?thesis by simp
    next
      case False
      with Cons show ?thesis by (auto split: list.splits intro: glob_lang.intros)
    qed
  qed
next
  show "glob_lang g m \<Longrightarrow> glob_rec g m"
  proof (induction rule: glob_lang.induct)
    case (gl_star gs t s)
    have "length s \<in> set [0..<Suc (length (s @ t))]" by simp
    moreover have "glob_rec gs (drop (length s) (s @ t))" using gl_star by simp
    ultimately have "list_ex (\<lambda>i. glob_rec gs (drop i (s @ t))) [0..<Suc (length (s @ t))]"
      unfolding list_ex_iff by blast
    then show ?case by simp
  qed auto
qed

lemma glob_lang_star_append:
  "glob_lang (CHR ''*'' # gs) m \<longleftrightarrow> (\<exists>s t. m = s @ t \<and> glob_lang gs t)"
  by (auto intro: glob_lang.intros elim!: gl_ConsE)

lemma glob_lang_all: "glob_lang ''*'' m"
  using glob_lang_star_append [of "[]" m] by (auto intro: gl_end)

lemma glob_lang_word:
  "CHR ''*'' \<notin> set w \<Longrightarrow>
   glob_lang (w @ gs) m \<longleftrightarrow> (\<exists>u t. m = u @ t \<and> eq_ignore_case u w \<and> glob_lang gs t)"
proof (induction w arbitrary: m)
  case Nil
  then show ?case by (simp add: eq_ignore_case_def to_lower_def)
next
  case (Cons c w)
  then have c: "c \<noteq> CHR ''*''" and w: "CHR ''*'' \<notin> set w" by auto
  have step: "glob_lang (c # w @ gs) m \<longleftrightarrow>
      (\<exists>d r. m = d # r \<and> lower_char c = lower_char d \<and> glob_lang (w @ gs) r)"
    using c by (auto intro: glob_lang.intros elim!: gl_ConsE)
  show ?case
  proof
    assume "glob_lang ((c # w) @ gs) m"
    then obtain d u t where "m = d # u @ t" "lower_char c = lower_char d"
        "eq_ignore_case u w" "glob_lang gs t"
      using step Cons.IH [OF w] by auto
    then show "\<exists>u t. m = u @ t \<and> eq_ignore_case u (c # w) \<and> glob_lang gs t"
      by (intro exI [of _ "d # u"] exI [of _ t]) (simp add: eq_ignore_case_def to_lower_def)
  next
    assume "\<exists>u t. m = u @ t \<and> eq_ignore_case u (c # w) \<and> glob_lang gs t"
    then obtain u' t where m: "m = u' @ t" "eq_ignore_case u' (c # w)" and t: "glob_lang gs t"
      by blast
    then obtain d u where "u' = d # u" "lower_char d = lower_char c" "eq_ignore_case u w"
      by (auto simp: eq_ignore_case_def to_lower_def map_eq_Cons_conv)
    with m t have "m = d # (u @ t)" "lower_char c = lower_char d" "eq_ignore_case u w" by simp_all
    with t show "glob_lang ((c # w) @ gs) m"
      using step Cons.IH [OF w, of "u @ t"] by (metis append_Cons)
  qed
qed

text \<open>A glob \<open>*w*\<close> whose middle holds no star, the shape every route of the
  documentation uses, matches exactly the model names that hold \<open>w\<close> somewhere up to ASCII
  case; a glob with no star matches exactly its own name up to case.\<close>

theorem glob_star_word_star:
  assumes w: "CHR ''*'' \<notin> set w"
  shows "(glob_matches (CHR ''*'' # w @ ''*'') m \<longleftrightarrow> (\<exists>a u b. m = a @ u @ b \<and> eq_ignore_case u w)) \<and>
         (glob_matches w m \<longleftrightarrow> eq_ignore_case m w)"
proof
  have "glob_lang (w @ ''*'') t \<longleftrightarrow> (\<exists>u b. t = u @ b \<and> eq_ignore_case u w)" for t
    by (simp only: glob_lang_word [OF w] glob_lang_all simp_thms)
  then show "glob_matches (CHR ''*'' # w @ ''*'') m \<longleftrightarrow> (\<exists>a u b. m = a @ u @ b \<and> eq_ignore_case u w)"
    unfolding glob_matches_def glob_rec_lang
    using glob_lang_star_append [of "w @ ''*''" m] by metis
  have "glob_lang [] t \<longleftrightarrow> t = []" for t
    by (auto intro: gl_end elim: gl_NilE)
  then show "glob_matches w m \<longleftrightarrow> eq_ignore_case m w"
    using glob_lang_word [OF w, of "[]" m] by (simp add: glob_matches_def glob_rec_lang)
qed

theorem glob_star_word_star_witness:
  "CHR ''*'' \<notin> set ''fable'' \<and> glob_matches ''*fable*'' ''claude-FABLE-5'' \<and> \<not> glob_matches ''fable'' ''fables''"
proof -
  have "CHR ''*'' \<notin> set ''fable''" by simp
  note g = glob_star_word_star [OF this]
  have "eq_ignore_case ''FABLE'' ''fable''" by code_simp
  then have "\<exists>a u b. ''claude-FABLE-5'' = a @ u @ b \<and> eq_ignore_case u ''fable''"
    by (intro exI [of _ "''claude-''"] exI [of _ "''FABLE''"] exI [of _ "''-5''"]) simp
  moreover have "\<not> eq_ignore_case ''fables'' ''fable''" by code_simp
  ultimately show ?thesis using g by simp
qed

subsection \<open>Models named in a request body\<close>

text \<open>
  \<open>request_model\<close>, \<open>advisor_model\<close> and \<open>models_in_body\<close>; \<open>parse\<close> is
  \<open>serde_json::from_slice\<close>.
\<close>

definition model_of :: "json \<Rightarrow> string option" where
  "model_of v = Option.bind (j_get ''model'' v) as_str"

definition advisor_of_tool :: "json \<Rightarrow> string option" where
  "advisor_of_tool t =
     Option.bind (get_str ''type'' t)
       (\<lambda>ty. if starts_with ''advisor'' (to_lower ty) then get_str ''model'' t else None)"

definition advisor_of :: "json \<Rightarrow> string option" where
  "advisor_of v = Option.bind (Option.bind (j_get ''tools'' v) as_array) (find_map advisor_of_tool)"

definition request_model :: "(string \<Rightarrow> json option) \<Rightarrow> string \<Rightarrow> string option" where
  "request_model parse body = Option.bind (parse body) model_of"

definition advisor_model :: "(string \<Rightarrow> json option) \<Rightarrow> string \<Rightarrow> string option" where
  "advisor_model parse body = Option.bind (parse body) advisor_of"

definition models_in_body :: "(string \<Rightarrow> json option) \<Rightarrow> string \<Rightarrow> string option \<times> string option" where
  "models_in_body parse body =
     (case parse body of None \<Rightarrow> (None, None) | Some v \<Rightarrow> (model_of v, advisor_of v))"

lemma models_in_body_both:
  "models_in_body parse body = (request_model parse body, advisor_model parse body)"
  by (simp add: models_in_body_def request_model_def advisor_model_def split: option.split)

end
