(* ===== verification/Environment.thy ===== *)
theory Environment
  imports Json_Value
begin

text \<open>
  What the program calls but does not contain: the process environment, the \<open>url\<close>,
  \<open>chrono\<close>, \<open>serde_json\<close>, \<open>regex\<close>, \<open>base64\<close> and \<open>percent-encoding\<close>
  crates and the home directory. Each is a field of one record that the definitions take as
  an argument, so every theorem holds for every behaviour of these functions.
\<close>

record ext =
  getenv :: "string \<Rightarrow> string option"
  \<comment> \<open>\<open>Url::parse(u).ok().and_then(|p| p.host_str())\<close>\<close>
  url_host :: "string \<Rightarrow> string option"
  \<comment> \<open>scheme of a URL, \<open>None\<close> when it does not parse\<close>
  url_scheme :: "string \<Rightarrow> string option"
  \<comment> \<open>\<open>DateTime::parse_from_rfc3339(s).timestamp_millis()\<close>\<close>
  parse_iso_ms :: "string \<Rightarrow> int option"
  \<comment> \<open>\<open>DateTime::parse_from_rfc2822(s)\<close>, in seconds since the epoch\<close>
  parse_rfc2822 :: "string \<Rightarrow> int option"
  \<comment> \<open>\<open>serde_json::from_slice\<close> and \<open>to_vec\<close>\<close>
  json_parse :: "string \<Rightarrow> json option"
  json_print :: "json \<Rightarrow> string"
  percent_decode :: "string \<Rightarrow> string"
  base64_decode :: "string \<Rightarrow> string option"
  \<comment> \<open>\<open>Regex::new(r).is_ok_and(|re| re.is_match(s))\<close>, and whether \<open>r\<close> compiles\<close>
  regex_match :: "string \<Rightarrow> string \<Rightarrow> bool"
  regex_ok :: "string \<Rightarrow> bool"
  \<comment> \<open>\<open>Url::parse(u)\<close> with its decoded query pairs\<close>
  url_query :: "string \<Rightarrow> (string \<times> string) list option"
  home_dir :: "string option"
  \<comment> \<open>\<open>to_rfc3339\<close> of a time in milliseconds\<close>
  iso_of :: "int \<Rightarrow> string"

text \<open>An environment in which nothing parses, for closed examples.\<close>

definition ext0 :: ext where
  "ext0 = \<lparr>getenv = (\<lambda>_. None), url_host = (\<lambda>u. if u = ''https://api.anthropic.com'' then Some ''api.anthropic.com'' else None),
     url_scheme = (\<lambda>u. if starts_with ''https:'' u then Some ''https'' else None),
     parse_iso_ms = (\<lambda>_. None), parse_rfc2822 = (\<lambda>_. None),
     json_parse = (\<lambda>_. None), json_print = (\<lambda>_. []), percent_decode = (\<lambda>s. s),
     base64_decode = (\<lambda>_. None), regex_match = (\<lambda>_ _. False), regex_ok = (\<lambda>_. True),
     url_query = (\<lambda>_. None), home_dir = None,
     iso_of = (\<lambda>_. [])\<rparr>"

end
