(* ===== verification/Quota.thy ===== *)
theory Quota
  imports Model_Family Environment
begin

text \<open>
  \<open>src/quota.rs\<close>: the quota buckets of an account, how response headers and the usage
  endpoint feed them, and when a reading is dropped. Times are milliseconds since the epoch.
\<close>

record bucket =
  utilization :: "f64 option"
  reset_at :: "int option"
  seen_at :: "int option"

definition bucket_default :: bucket where
  "bucket_default = \<lparr>utilization = None, reset_at = None, seen_at = None\<rparr>"

definition is_reset :: "bucket \<Rightarrow> int \<Rightarrow> bool" where
  "is_reset b now = (case reset_at b of Some r \<Rightarrow> r \<le> now | None \<Rightarrow> False)"

definition SAME_WINDOW_SLOP_MS :: int where [time_consts]: "SAME_WINDOW_SLOP_MS = 5 * 60 * 1000"

record quota =
  unified5h :: bucket
  unified7d :: bucket
  unified7d_fable :: bucket
  unified7d_sonnet :: bucket
  scoped_weekly :: "(string \<times> bucket) list"
  unified_status :: "string option"
  unified_status_seen_at :: "int option"
  tokens_limit :: "int option"
  tokens_remaining :: "int option"
  requests_limit :: "int option"
  requests_remaining :: "int option"
  resets_at :: "string option"
  spend :: "json option"

definition quota_default :: quota where
  "quota_default =
     \<lparr>unified5h = bucket_default, unified7d = bucket_default, unified7d_fable = bucket_default,
      unified7d_sonnet = bucket_default, scoped_weekly = [], unified_status = None,
      unified_status_seen_at = None, tokens_limit = None, tokens_remaining = None,
      requests_limit = None, requests_remaining = None, resets_at = None, spend = None\<rparr>"

definition family_stale_ms :: "ext \<Rightarrow> int" where
  "family_stale_ms E =
     unwrap_or (30 * 60 * 1000) (Option.bind (getenv E ''CORRALL_FAMILY_STALE_MS'') parse_i64)"

subsection \<open>Buckets by key\<close>

definition bucket_of :: "quota \<Rightarrow> string \<Rightarrow> bucket option" where
  "bucket_of q key =
     (if key = BUCKET_5H then Some (unified5h q)
      else if key = BUCKET_7D then Some (unified7d q)
      else if key = BUCKET_7D_FABLE then Some (unified7d_fable q)
      else if key = BUCKET_7D_SONNET then Some (unified7d_sonnet q)
      else map_of (scoped_weekly q) key)"

text \<open>Writing through \<open>bucket_mut\<close>: only the four fixed keys have a place.\<close>

definition bucket_mut :: "string \<Rightarrow> (bucket \<Rightarrow> bucket) \<Rightarrow> quota \<Rightarrow> quota" where
  "bucket_mut key f q =
     (if key = BUCKET_5H then q\<lparr>unified5h := f (unified5h q)\<rparr>
      else if key = BUCKET_7D then q\<lparr>unified7d := f (unified7d q)\<rparr>
      else if key = BUCKET_7D_FABLE then q\<lparr>unified7d_fable := f (unified7d_fable q)\<rparr>
      else if key = BUCKET_7D_SONNET then q\<lparr>unified7d_sonnet := f (unified7d_sonnet q)\<rparr>
      else q)"

definition gating_weekly :: "quota \<Rightarrow> string \<Rightarrow> f64 option" where
  "gating_weekly q weekly_key =
     (let shared = utilization (unified7d q)
      in if weekly_key = BUCKET_7D then shared
         else (case (Option.bind (bucket_of q weekly_key) utilization, shared) of
                 (Some a, Some b) \<Rightarrow> Some (f_max a b)
               | (a, None) \<Rightarrow> a
               | (None, b) \<Rightarrow> b))"

lemma bucket_key_distinct [simp]:
  "BUCKET_5H \<noteq> BUCKET_7D" "BUCKET_5H \<noteq> BUCKET_7D_FABLE" "BUCKET_5H \<noteq> BUCKET_7D_SONNET"
  "BUCKET_7D \<noteq> BUCKET_7D_FABLE" "BUCKET_7D \<noteq> BUCKET_7D_SONNET" "BUCKET_7D_FABLE \<noteq> BUCKET_7D_SONNET"
  "BUCKET_7D \<noteq> BUCKET_5H" "BUCKET_7D_FABLE \<noteq> BUCKET_5H" "BUCKET_7D_SONNET \<noteq> BUCKET_5H"
  "BUCKET_7D_FABLE \<noteq> BUCKET_7D" "BUCKET_7D_SONNET \<noteq> BUCKET_7D" "BUCKET_7D_SONNET \<noteq> BUCKET_7D_FABLE"
  by (simp_all add: bucket_defs)

lemma bucket_of_simps [simp]:
  "bucket_of q BUCKET_5H = Some (unified5h q)"
  "bucket_of q BUCKET_7D = Some (unified7d q)"
  "bucket_of q BUCKET_7D_FABLE = Some (unified7d_fable q)"
  "bucket_of q BUCKET_7D_SONNET = Some (unified7d_sonnet q)"
  by (simp_all add: bucket_of_def)

text \<open>The shared weekly reading never outranks the gate: whichever reading is known, the gate
  is at least as high.\<close>

lemma gating_weekly_upper:
  assumes "Option.bind (bucket_of q key) utilization = Some u \<or> utilization (unified7d q) = Some u"
    and "u \<noteq> NaN" and "key \<in> set WEEKLY_BUCKETS"
  shows "\<exists>g. gating_weekly q key = Some g \<and> f_le u g"
  using assms
  by (auto simp: gating_weekly_def WEEKLY_BUCKETS_def Let_def f_max_ge f_le_refl split: option.splits)

subsection \<open>Expiry\<close>

fun clear_reset_windows :: "int \<Rightarrow> string list \<Rightarrow> quota \<times> bool \<Rightarrow> quota \<times> bool" where
  "clear_reset_windows now [] (q, changed) = (q, changed)"
| "clear_reset_windows now (key # keys) (q, changed) =
     (case bucket_of q key of
        Some b \<Rightarrow>
          if is_reset b now
          then clear_reset_windows now keys (bucket_mut key (\<lambda>_. bucket_default) q, True)
          else clear_reset_windows now keys (q, changed)
      | None \<Rightarrow> clear_reset_windows now keys (q, changed))"

definition stale_spent :: "int \<Rightarrow> int \<Rightarrow> f64 \<Rightarrow> bucket \<Rightarrow> bool" where
  "stale_spent now stale th b =
     (case (utilization b, seen_at b) of
        (Some u, Some seen) \<Rightarrow> f_ge u th \<and> now - seen > stale
      | _ \<Rightarrow> False)"

fun clear_stale_families ::
  "int \<Rightarrow> int \<Rightarrow> (string \<Rightarrow> f64) \<Rightarrow> string list \<Rightarrow> quota \<times> bool \<Rightarrow> quota \<times> bool" where
  "clear_stale_families now stale threshold_for [] (q, changed) = (q, changed)"
| "clear_stale_families now stale threshold_for (key # keys) (q, changed) =
     (case bucket_of q key of
        Some b \<Rightarrow>
          if stale_spent now stale (threshold_for key) b
          then clear_stale_families now stale threshold_for keys (bucket_mut key (\<lambda>_. bucket_default) q, True)
          else clear_stale_families now stale threshold_for keys (q, changed)
      | None \<Rightarrow> clear_stale_families now stale threshold_for keys (q, changed))"

definition clear_expired :: "ext \<Rightarrow> int \<Rightarrow> (string \<Rightarrow> f64) \<Rightarrow> quota \<Rightarrow> quota \<times> bool" where
  "clear_expired E now threshold_for q0 =
     (let (q, changed) = clear_reset_windows now [BUCKET_5H, BUCKET_7D, BUCKET_7D_FABLE, BUCKET_7D_SONNET] (q0, False);
          (q, changed) = clear_stale_families now (family_stale_ms E) threshold_for
                           [BUCKET_7D_FABLE, BUCKET_7D_SONNET] (q, changed);
          q = q\<lparr>scoped_weekly := filter (\<lambda>(_, b). \<not> is_reset b now) (scoped_weekly q)\<rparr>;
          q = (case unified_status_seen_at q of
                 Some seen \<Rightarrow>
                   if now - seen > 60 * 60 * 1000
                   then q\<lparr>unified_status := None, unified_status_seen_at := None\<rparr> else q
               | None \<Rightarrow> q)
      in (q, changed))"

text \<open>What \<open>clear_expired\<close> means, bucket by bucket.\<close>

definition bucket_due :: "ext \<Rightarrow> int \<Rightarrow> (string \<Rightarrow> f64) \<Rightarrow> quota \<Rightarrow> string \<Rightarrow> bool" where
  "bucket_due E now th q key =
     (case bucket_of q key of
        None \<Rightarrow> False
      | Some b \<Rightarrow> is_reset b now
          \<or> key \<in> {BUCKET_7D_FABLE, BUCKET_7D_SONNET} \<and> stale_spent now (family_stale_ms E) (th key) b)"

lemma is_reset_default [simp]: "\<not> is_reset bucket_default now"
  by (simp add: is_reset_def bucket_default_def)

lemma stale_spent_default [simp]: "\<not> stale_spent now st th bucket_default"
  by (simp add: stale_spent_def bucket_default_def)

lemma clear_expired_eqs:
  fixes E now th q
  defines "q' \<equiv> fst (clear_expired E now th q)"
  shows "unified5h q' = (if bucket_due E now th q BUCKET_5H then bucket_default else unified5h q)"
    and "unified7d q' = (if bucket_due E now th q BUCKET_7D then bucket_default else unified7d q)"
    and "unified7d_fable q' =
          (if bucket_due E now th q BUCKET_7D_FABLE then bucket_default else unified7d_fable q)"
    and "unified7d_sonnet q' =
          (if bucket_due E now th q BUCKET_7D_SONNET then bucket_default else unified7d_sonnet q)"
    and "scoped_weekly q' = filter (\<lambda>(_, b). \<not> is_reset b now) (scoped_weekly q)"
  unfolding q'_def clear_expired_def bucket_due_def
  by (simp_all add: bucket_mut_def Let_def split: option.split)

lemma clear_expired_changed:
  "snd (clear_expired E now th q) =
     list_ex (bucket_due E now th q) [BUCKET_5H, BUCKET_7D, BUCKET_7D_FABLE, BUCKET_7D_SONNET]"
  unfolding clear_expired_def bucket_due_def
  by (simp add: bucket_mut_def Let_def split: option.split)

text \<open>After \<open>clear_expired\<close> no window that has rolled over is left in any of the four fixed
  buckets or in a scoped one, a spent family reading older than the staleness limit is gone, a
  bucket that was neither is untouched, and the result says whether a fixed bucket changed.\<close>

theorem clear_expired_correct:
  assumes "key \<in> {BUCKET_5H, BUCKET_7D, BUCKET_7D_FABLE, BUCKET_7D_SONNET}"
    and "clear_expired E now th q = (q', changed)"
  shows "bucket_of q' key = (if bucket_due E now th q key then Some bucket_default else bucket_of q key)
       \<and> \<not> is_reset (the (bucket_of q' key)) now
       \<and> scoped_weekly q' = filter (\<lambda>(_, b). \<not> is_reset b now) (scoped_weekly q)
       \<and> changed = list_ex (bucket_due E now th q) [BUCKET_5H, BUCKET_7D, BUCKET_7D_FABLE, BUCKET_7D_SONNET]"
proof -
  have q': "q' = fst (clear_expired E now th q)" and c: "changed = snd (clear_expired E now th q)"
    using assms(2) by simp_all
  have "\<not> bucket_due E now th q key \<Longrightarrow> bucket_of q key = Some b \<Longrightarrow> \<not> is_reset b now" for b
    by (simp add: bucket_due_def)
  then show ?thesis
    using assms(1) unfolding q' c by (auto simp: clear_expired_eqs clear_expired_changed)
qed

definition spent_quota :: quota where
  "spent_quota = quota_default\<lparr>unified5h := \<lparr>utilization = Some (Fin 1), reset_at = Some 10, seen_at = Some 1\<rparr>\<rparr>"

theorem clear_expired_correct_witness:
  "BUCKET_5H \<in> {BUCKET_5H, BUCKET_7D, BUCKET_7D_FABLE, BUCKET_7D_SONNET} \<and>
   clear_expired ext0 11 (\<lambda>_. Fin 1) spent_quota = (quota_default, True) \<and>
   bucket_of quota_default BUCKET_5H = Some bucket_default"
proof -
  have e: "clear_expired ext0 11 (\<lambda>_. Fin 1) spent_quota = (quota_default, True)"
    by (simp add: clear_expired_def spent_quota_def quota_default_def bucket_default_def is_reset_def
        stale_spent_def bucket_mut_def Let_def)
  have d: "bucket_due ext0 11 (\<lambda>_. Fin 1) spent_quota BUCKET_5H"
    by (simp add: bucket_due_def spent_quota_def is_reset_def)
  show ?thesis using clear_expired_correct [OF _ e, of BUCKET_5H] e d by simp
qed

definition soonest_reset :: "ext \<Rightarrow> quota \<Rightarrow> int option" where
  "soonest_reset E q =
     (case opt_min (List.map_filter id [reset_at (unified5h q), reset_at (unified7d q)]) of
        Some r \<Rightarrow> Some r
      | None \<Rightarrow> Option.bind (resets_at q) (parse_iso_ms E))"

subsection \<open>Response headers\<close>

type_synonym headers = "(string \<times> string) list"

text \<open>The readers \<open>f\<close>, \<open>secs\<close> and \<open>i\<close> of \<open>apply_headers\<close>.\<close>

definition hdr_f :: "headers \<Rightarrow> string \<Rightarrow> f64 option" where
  "hdr_f h k = Option.bind (map_of h k) (\<lambda>v. parse_f64 (trim v))"

definition hdr_i :: "headers \<Rightarrow> string \<Rightarrow> int option" where
  "hdr_i h k = Option.bind (map_of h k) (\<lambda>v. parse_i64 (trim v))"

definition hdr_secs :: "headers \<Rightarrow> string \<Rightarrow> int option" where
  "hdr_secs h k = map_option (\<lambda>s. i64_wrap (s * 1000)) (hdr_i h k)"

definition read_util :: "f64 option \<Rightarrow> int \<Rightarrow> bucket \<Rightarrow> bucket" where
  "read_util u now b =
     (case u of Some x \<Rightarrow> b\<lparr>utilization := Some x, seen_at := Some now\<rparr> | None \<Rightarrow> b)"

definition read_reset :: "int option \<Rightarrow> bucket \<Rightarrow> bucket" where
  "read_reset r b = (case r of Some x \<Rightarrow> b\<lparr>reset_at := Some x\<rparr> | None \<Rightarrow> b)"

definition read_status :: "string option \<Rightarrow> int \<Rightarrow> quota \<Rightarrow> quota" where
  "read_status s now q =
     (if s = None then q else q\<lparr>unified_status := s, unified_status_seen_at := Some now\<rparr>)"

definition apply_headers :: "headers \<Rightarrow> int \<Rightarrow> quota \<Rightarrow> quota" where
  "apply_headers h now q0 =
     (let q = unified5h_update (read_util (hdr_f h ''anthropic-ratelimit-unified-5h-utilization'') now) q0;
          q = unified5h_update (read_reset (hdr_secs h ''anthropic-ratelimit-unified-5h-reset'')) q;
          q = unified7d_update (read_util (hdr_f h ''anthropic-ratelimit-unified-7d-utilization'') now) q;
          q = unified7d_update (read_reset (hdr_secs h ''anthropic-ratelimit-unified-7d-reset'')) q;
          q = unified7d_fable_update
                (read_util (hdr_f h ''anthropic-ratelimit-unified-7d_oi-utilization'') now) q;
          q = unified7d_fable_update (read_reset (hdr_secs h ''anthropic-ratelimit-unified-7d_oi-reset'')) q;
          q = read_status (map_of h ''anthropic-ratelimit-unified-status'') now q;
          q = tokens_limit_update (opt_or (hdr_i h ''anthropic-ratelimit-tokens-limit'')) q;
          q = tokens_remaining_update (opt_or (hdr_i h ''anthropic-ratelimit-tokens-remaining'')) q;
          q = requests_limit_update (opt_or (hdr_i h ''anthropic-ratelimit-requests-limit'')) q;
          q = requests_remaining_update (opt_or (hdr_i h ''anthropic-ratelimit-requests-remaining'')) q
      in resets_at_update
           (opt_or (opt_or (map_of h ''anthropic-ratelimit-tokens-reset'')
                           (map_of h ''anthropic-ratelimit-requests-reset''))) q)"

lemma read_status_frame [simp]:
  "unified5h (read_status s now q) = unified5h q"
  "unified7d (read_status s now q) = unified7d q"
  "unified7d_fable (read_status s now q) = unified7d_fable q"
  "unified7d_sonnet (read_status s now q) = unified7d_sonnet q"
  "scoped_weekly (read_status s now q) = scoped_weekly q"
  "spend (read_status s now q) = spend q"
  by (simp_all add: read_status_def)

text \<open>A response without the family's headers leaves the family's reading alone, and the scoped
  and Sonnet readings never come from response headers.\<close>

lemma apply_headers_frame [frame_simps]:
  "unified7d_sonnet (apply_headers h now q) = unified7d_sonnet q"
  "scoped_weekly (apply_headers h now q) = scoped_weekly q"
  "spend (apply_headers h now q) = spend q"
  by (simp_all add: apply_headers_def Let_def)

lemma apply_headers_5h [simp]:
  "unified5h (apply_headers h now q) =
     read_reset (hdr_secs h ''anthropic-ratelimit-unified-5h-reset'')
       (read_util (hdr_f h ''anthropic-ratelimit-unified-5h-utilization'') now (unified5h q))"
  "unified7d (apply_headers h now q) =
     read_reset (hdr_secs h ''anthropic-ratelimit-unified-7d-reset'')
       (read_util (hdr_f h ''anthropic-ratelimit-unified-7d-utilization'') now (unified7d q))"
  "unified7d_fable (apply_headers h now q) =
     read_reset (hdr_secs h ''anthropic-ratelimit-unified-7d_oi-reset'')
       (read_util (hdr_f h ''anthropic-ratelimit-unified-7d_oi-utilization'') now (unified7d_fable q))"
  by (simp_all add: apply_headers_def Let_def)

subsection \<open>The usage endpoint\<close>

record usage_payload =
  five_hour :: "bucket option"
  seven_day :: "bucket option"
  seven_day_sonnet :: "bucket option"
  seven_day_fable :: "bucket option"
  up_scoped_weekly :: "(string \<times> bucket) list"
  scoped_listed :: bool
  up_spend :: "json option"

definition same_window :: "bucket \<Rightarrow> bucket \<Rightarrow> bool" where
  "same_window dst b =
     (case (reset_at dst, reset_at b) of
        (Some d, Some s) \<Rightarrow> \<bar>s - d\<bar> \<le> SAME_WINDOW_SLOP_MS | _ \<Rightarrow> False)"

definition reads_lower :: "bucket \<Rightarrow> bucket \<Rightarrow> bool" where
  "reads_lower dst b =
     (case (utilization dst, utilization b) of (Some d, Some s) \<Rightarrow> f_lt s d | _ \<Rightarrow> False)"

text \<open>The closure \<open>set\<close> of \<open>apply_usage\<close>.\<close>

definition usage_set :: "int \<Rightarrow> bucket \<Rightarrow> bucket option \<Rightarrow> bucket" where
  "usage_set now dst src =
     (case src of
        None \<Rightarrow> dst
      | Some b \<Rightarrow>
          if same_window dst b \<and> reads_lower dst b then dst
          else (let dst' = (if utilization b \<noteq> None
                            then dst\<lparr>utilization := utilization b, seen_at := Some now\<rparr> else dst)
                in dst'\<lparr>reset_at := reset_at b\<rparr>))"

definition apply_usage :: "usage_payload \<Rightarrow> int \<Rightarrow> quota \<Rightarrow> quota" where
  "apply_usage u now q0 =
     (let q = q0\<lparr>unified5h := usage_set now (unified5h q0) (five_hour u)\<rparr>;
          q = q\<lparr>unified7d := usage_set now (unified7d q) (seven_day u)\<rparr>;
          q = (if scoped_listed u then
                 (let q = q\<lparr>unified7d_fable :=
                            (if seven_day_fable u \<noteq> None then usage_set now (unified7d_fable q) (seven_day_fable u)
                             else bucket_default)\<rparr>;
                      q = q\<lparr>unified7d_sonnet :=
                            (if seven_day_sonnet u \<noteq> None then usage_set now (unified7d_sonnet q) (seven_day_sonnet u)
                             else bucket_default)\<rparr>
                  in q\<lparr>scoped_weekly := map (\<lambda>(k, b). (k, b\<lparr>seen_at := Some now\<rparr>)) (up_scoped_weekly u)\<rparr>)
               else
                 q\<lparr>unified7d_fable := usage_set now (unified7d_fable q) (seven_day_fable u),
                   unified7d_sonnet := usage_set now (unified7d_sonnet q) (seven_day_sonnet u)\<rparr>)
      in (if up_spend u \<noteq> None then q\<lparr>spend := up_spend u\<rparr> else q))"

lemma apply_usage_buckets [simp]:
  "unified5h (apply_usage u now q) = usage_set now (unified5h q) (five_hour u)"
  "unified7d (apply_usage u now q) = usage_set now (unified7d q) (seven_day u)"
  by (simp_all add: apply_usage_def Let_def)

lemma usage_set_no_lower:
  assumes "utilization dst = Some d" and "src = Some b" and "same_window dst b"
  shows "\<exists>d'. utilization (usage_set now dst src) = Some d' \<and> \<not> f_lt d' d"
  using assms by (auto simp: usage_set_def reads_lower_def Let_def split: option.splits)

lemma usage_set_new_window:
  assumes "src = Some b" and "\<not> same_window dst b" and "utilization b = Some u"
  shows "usage_set now dst src = \<lparr>utilization = Some u, reset_at = reset_at b, seen_at = Some now\<rparr>"
  using assms by (simp add: usage_set_def Let_def)

text \<open>Utilization only grows within a window: a usage report for the same 5h (or 7d) window, up
  to the slop between the two clocks, never lowers the reading an account is held at, while a
  report for another window replaces the reading by the reported one.\<close>

theorem apply_usage_monotone:
  assumes "utilization (unified5h q) = Some d"
    and "five_hour p = Some b" and "utilization b = Some s"
  shows "if same_window (unified5h q) b
         then \<exists>d'. utilization (unified5h (apply_usage p now q)) = Some d' \<and> \<not> f_lt d' d \<and>
                   (\<not> f_lt s d \<longrightarrow> d' = s)
         else unified5h (apply_usage p now q) =
                \<lparr>utilization = Some s, reset_at = reset_at b, seen_at = Some now\<rparr>"
  using assms usage_set_new_window [OF assms(2) _ assms(3)]
  by (auto simp: usage_set_def reads_lower_def Let_def)

definition held_quota :: quota where
  "held_quota = quota_default\<lparr>unified5h := \<lparr>utilization = Some (Fin (98/100)), reset_at = Some 1790838000000, seen_at = Some 1\<rparr>\<rparr>"

definition lagging_probe :: usage_payload where
  "lagging_probe =
     \<lparr>five_hour = Some \<lparr>utilization = Some (Fin (93/100)), reset_at = Some 1790838000349, seen_at = None\<rparr>,
      seven_day = None, seven_day_sonnet = None, seven_day_fable = None, up_scoped_weekly = [],
      scoped_listed = False, up_spend = None\<rparr>"

theorem apply_usage_monotone_witness:
  "\<exists>d'. utilization (unified5h (apply_usage lagging_probe 2 held_quota)) = Some d' \<and> \<not> f_lt d' (Fin (98/100))"
proof -
  have w: "same_window (unified5h held_quota)
      \<lparr>utilization = Some (Fin (93/100)), reset_at = Some 1790838000349, seen_at = None\<rparr>"
    by (simp add: same_window_def held_quota_def SAME_WINDOW_SLOP_MS_def)
  show ?thesis
    using apply_usage_monotone [of held_quota "Fin (98/100)" lagging_probe _ "Fin (93/100)" 2] w
    by (simp add: held_quota_def lagging_probe_def)
qed

text \<open>API-key accounts: the used fraction of a limit.\<close>

definition used_fraction :: "int option \<Rightarrow> int option \<Rightarrow> f64 option" where
  "used_fraction limit remaining =
     (case (limit, remaining) of
        (Some l, Some r) \<Rightarrow> if l > 0 then Some (f_sub (Fin 1) (f_div (f_of_int r) (f_of_int l))) else None
      | _ \<Rightarrow> None)"

definition tokens_used :: "quota \<Rightarrow> f64 option" where
  "tokens_used q = used_fraction (tokens_limit q) (tokens_remaining q)"

definition requests_used :: "quota \<Rightarrow> f64 option" where
  "requests_used q = used_fraction (requests_limit q) (requests_remaining q)"

lemma used_fraction_bounds:
  "used_fraction (Some l) (Some r) = Some u \<Longrightarrow> 0 \<le> r \<Longrightarrow> r \<le> l \<Longrightarrow> f_le (Fin 0) u \<and> f_le u (Fin 1)"
  by (auto simp: used_fraction_def f_sub_def f_div_def f_of_int_def split: if_splits)

subsection \<open>Normalising the usage payload\<close>

definition j_first :: "string list \<Rightarrow> json \<Rightarrow> json option" where
  "j_first ks v = find_map (\<lambda>k. j_get k v) ks"

definition num_or_str :: "json \<Rightarrow> f64 option" where
  "num_or_str p = opt_or (as_f64 p) (Option.bind (as_str p) parse_f64)"

text \<open>Seconds below \<open>1e12\<close>, milliseconds above.\<close>

definition epoch_ms :: "f64 \<Rightarrow> int" where
  "epoch_ms n = (if f_lt n (Fin (10 ^ 12)) then f_to_i64 (f_mul n (Fin 1000)) else f_to_i64 n)"

definition parse_reset :: "ext \<Rightarrow> json \<Rightarrow> int option" where
  "parse_reset E r =
     (case as_f64 r of
        Some n \<Rightarrow> Some (epoch_ms n)
      | None \<Rightarrow>
          (case as_str r of
             Some s \<Rightarrow> (case parse_f64 (trim s) of Some n \<Rightarrow> Some (epoch_ms n) | None \<Rightarrow> parse_iso_ms E s)
           | None \<Rightarrow> None))"

definition normalize_bucket :: "ext \<Rightarrow> json option \<Rightarrow> bucket option" where
  "normalize_bucket E v =
     (case v of
        Some (JObj m) \<Rightarrow>
          let pct = Option.bind (j_first [''used_percentage'', ''utilization'', ''usedPercentage'', ''percent''] (JObj m)) num_or_str;
              reset = Option.bind (j_first [''resets_at'', ''resetsAt'', ''reset_at'', ''resetAt''] (JObj m)) (parse_reset E)
          in Some \<lparr>utilization = map_option (\<lambda>p. f_div p (Fin 100)) pct, reset_at = reset, seen_at = None\<rparr>
      | _ \<Rightarrow> None)"

definition money :: "json option \<Rightarrow> f64 option" where
  "money m =
     Option.bind m (\<lambda>m. Option.bind (j_get ''amount_minor'' m) num_or_str)"

definition j_opt :: "('a \<Rightarrow> json) \<Rightarrow> 'a option \<Rightarrow> json" where
  "j_opt f a = (case a of None \<Rightarrow> JNull | Some x \<Rightarrow> f x)"

definition normalize_spend :: "json \<Rightarrow> json option" where
  "normalize_spend data =
     (let extra = opt_filter is_object (j_get ''extra_usage'' data);
          spend = opt_filter is_object (j_get ''spend'' data);
          used = Option.bind spend (j_get ''used'');
          limit = Option.bind spend (j_get ''limit'');
          currency = Option.bind
            (opt_or (opt_or (Option.bind used (j_get ''currency'')) (Option.bind limit (j_get ''currency'')))
               (Option.bind extra (j_get ''currency''))) as_str;
          exponent = unwrap_or 2 (Option.bind
            (opt_or (opt_or (Option.bind used (j_get ''exponent'')) (Option.bind limit (j_get ''exponent'')))
               (Option.bind extra (j_get ''decimal_places''))) as_i64);
          flag = (\<lambda>k. unwrap_or False (Option.bind (Option.bind extra (j_get k)) as_bool))
      in if extra = None \<and> spend = None then None
         else Some (JObj
           [(''enabled'', JBool (flag ''is_enabled'')),
            (''usedMinor'', j_opt JReal (money used)),
            (''limitMinor'', j_opt JReal (money limit)),
            (''currency'', j_opt JStr currency),
            (''exponent'', JInt exponent),
            (''userDisabled'', JBool (flag ''user_disabled'')),
            (''disabledReason'', j_opt JStr (Option.bind (Option.bind extra (j_get ''disabled_reason'')) as_str))]))"

text \<open>One entry of \<open>limits[]\<close>: a weekly one with a model display name lands in the scoped map.\<close>

definition scoped_entry :: "ext \<Rightarrow> json \<Rightarrow> (string \<times> bucket) list \<Rightarrow> (string \<times> bucket) list" where
  "scoped_entry E l scoped =
     (if Option.bind (j_get ''group'' l) as_str \<noteq> Some ''weekly'' then scoped
      else (case Option.bind (j_pointer [''scope'', ''model'', ''display_name''] l) as_str of
              None \<Rightarrow> scoped
            | Some name \<Rightarrow>
                (case normalize_bucket E (Some l) of
                   Some b \<Rightarrow> bt_insert (to_lower name) b scoped
                 | None \<Rightarrow> scoped)))"

definition normalize_usage :: "ext \<Rightarrow> json \<Rightarrow> usage_payload" where
  "normalize_usage E data =
     (let listed = (case j_get ''limits'' data of Some v \<Rightarrow> is_array v | None \<Rightarrow> False);
          limits = unwrap_or [] (Option.bind (j_get ''limits'' data) as_array);
          scoped = fold (scoped_entry E) limits [];
          find_needle = (\<lambda>needle. map_option snd (List.find (\<lambda>(k, _). contains k needle) scoped))
      in \<lparr>five_hour = normalize_bucket E (j_get ''five_hour'' data),
          seven_day = normalize_bucket E (j_get ''seven_day'' data),
          seven_day_sonnet =
            opt_or (normalize_bucket E (j_get ''seven_day_sonnet'' data)) (find_needle ''sonnet''),
          seven_day_fable = find_needle ''fable'',
          up_scoped_weekly = scoped,
          scoped_listed = listed,
          up_spend = normalize_spend data\<rparr>)"

lemma scoped_entry_inv: "bt_inv m \<Longrightarrow> bt_inv (scoped_entry E l m)"
  by (auto simp: scoped_entry_def bt_inv_insert split: option.splits)

lemma normalize_usage_scoped_inv: "bt_inv (up_scoped_weekly (normalize_usage E data))"
proof -
  have "bt_inv m \<Longrightarrow> bt_inv (fold (scoped_entry E) ls m)" for ls m
    by (induction ls arbitrary: m) (auto simp: scoped_entry_inv)
  then show ?thesis by (simp add: normalize_usage_def Let_def)
qed

end
