(* ===== verification/Security.thy ===== *)
theory Security
  imports Float64 "HOL-Library.Word"
begin

unbundle bit_operations_syntax

text \<open>
  \<open>src/security.rs\<close>: key comparison, loopback and private addresses with the standard
  library's address parser, redaction, text made safe for a terminal, and the atomic private
  write as a sequence of file-system steps.
\<close>

subsection \<open>Key comparison\<close>

text \<open>\<open>ct_eq\<close>: the second string is copied into a buffer of the first one's length, and both
  the bytes and the lengths have to agree.\<close>

definition ct_eq :: "string \<Rightarrow> string \<Rightarrow> bool" where
  "ct_eq a b =
     (if a = [] \<or> b = [] then False
      else (let len_ok = (length a = length b);
                padded = map (\<lambda>i. if i < length b then b ! i else CHR 0x00) [0..<length a]
            in a = padded \<and> len_ok))"

lemma ct_eq_iff: "ct_eq a b \<longleftrightarrow> a = b \<and> a \<noteq> []"
proof -
  have "map (\<lambda>i. if i < length b then b ! i else CHR 0x00) [0..<length b] = b"
    by (rule nth_equalityI) auto
  then show ?thesis by (auto simp: ct_eq_def)
qed

subsection \<open>Addresses\<close>

datatype ip = V4 "8 word" "8 word" "8 word" "8 word" | V6 "16 word list"

definition v4_loopback :: "8 word \<Rightarrow> bool" where
  "v4_loopback a \<longleftrightarrow> a = 127"

definition is_private_v4 :: "8 word \<Rightarrow> 8 word \<Rightarrow> 8 word \<Rightarrow> 8 word \<Rightarrow> bool" where
  "is_private_v4 a b c d \<longleftrightarrow>
     (a = 10 \<or> a = 172 \<and> 16 \<le> b \<and> b \<le> 31 \<or> a = 192 \<and> b = 168)
     \<or> v4_loopback a
     \<or> (a = 169 \<and> b = 254)
     \<or> (a = 255 \<and> b = 255 \<and> c = 255 \<and> d = 255)
     \<or> (a = 192 \<and> b = 0 \<and> c = 2 \<or> a = 198 \<and> b = 51 \<and> c = 100 \<or> a = 203 \<and> b = 0 \<and> c = 113)
     \<or> (a = 0 \<and> b = 0 \<and> c = 0 \<and> d = 0)
     \<or> (224 \<le> a \<and> a \<le> 239)
     \<or> a = 0
     \<or> (a = 100 \<and> 64 \<le> b \<and> b \<le> 127)
     \<or> (a = 169 \<and> b = 254 \<and> c = 169 \<and> d = 254)"

definition v6_loopback :: "16 word list \<Rightarrow> bool" where
  "v6_loopback s \<longleftrightarrow> s = [0, 0, 0, 0, 0, 0, 0, 1]"

definition is_private_v6 :: "16 word list \<Rightarrow> bool" where
  "is_private_v6 s \<longleftrightarrow>
     v6_loopback s
     \<or> s = [0, 0, 0, 0, 0, 0, 0, 0]
     \<or> (hd s AND 0xff00) = 0xff00
     \<or> (hd s AND 0xfe00) = 0xfc00
     \<or> (hd s AND 0xffc0) = 0xfe80"

definition hi8 :: "16 word \<Rightarrow> 8 word" where "hi8 w = ucast (drop_bit 8 w)"
definition lo8 :: "16 word \<Rightarrow> 8 word" where "lo8 w = ucast w"

definition v4_mapped :: "16 word list \<Rightarrow> (8 word \<times> 8 word \<times> 8 word \<times> 8 word) option" where
  "v4_mapped s =
     (if length s = 8 \<and> take 6 s = [0, 0, 0, 0, 0, 0xffff]
      then Some (hi8 (s ! 6), lo8 (s ! 6), hi8 (s ! 7), lo8 (s ! 7)) else None)"

fun is_loopback_ip :: "ip \<Rightarrow> bool" where
  "is_loopback_ip (V4 a b c d) = v4_loopback a"
| "is_loopback_ip (V6 s) =
     (v6_loopback s \<or> (case v4_mapped s of Some (a, b, c, d) \<Rightarrow> v4_loopback a | None \<Rightarrow> False))"

fun is_private_ip :: "ip \<Rightarrow> bool" where
  "is_private_ip (V4 a b c d) = is_private_v4 a b c d"
| "is_private_ip (V6 s) =
     (case v4_mapped s of Some (a, b, c, d) \<Rightarrow> is_private_v4 a b c d | None \<Rightarrow> is_private_v6 s)"

lemma v4_loopback_private: "v4_loopback a \<Longrightarrow> is_private_v4 a b c d"
  by (simp add: is_private_v4_def)

lemma v6_loopback_private: "v6_loopback s \<Longrightarrow> is_private_v6 s \<and> v4_mapped s = None"
  by (simp add: is_private_v6_def v6_loopback_def v4_mapped_def)

lemma loopback_is_private: "is_loopback_ip ip \<Longrightarrow> is_private_ip ip"
  by (cases ip) (auto simp: v4_loopback_private v6_loopback_private split: option.splits)

subsection \<open>The standard library's address parser\<close>

definition parse_octet :: "string \<Rightarrow> 8 word option" where
  "parse_octet s =
     (if length s \<le> 3 \<and> (length s \<le> 1 \<or> hd s \<noteq> CHR ''0'')
      then map_option of_nat (opt_filter (\<lambda>n. n \<le> 255) (parse_digits s)) else None)"

definition parse_v4 :: "string \<Rightarrow> ip option" where
  "parse_v4 s =
     (case map parse_octet (split_on CHR ''.'' s) of
        [Some a, Some b, Some c, Some d] \<Rightarrow> Some (V4 a b c d)
      | _ \<Rightarrow> None)"

definition hex_val :: "char \<Rightarrow> nat option" where
  "hex_val c =
     (if is_digit c then Some (digit_val c)
      else (let n = of_char (lower_char c) in if 97 \<le> n \<and> n \<le> 102 then Some (n - 87) else None))"

definition parse_hex16 :: "string \<Rightarrow> 16 word option" where
  "parse_hex16 s =
     (if 1 \<le> length s \<and> length s \<le> 4 \<and> list_all (\<lambda>c. hex_val c \<noteq> None) s
      then Some (of_nat (foldl (\<lambda>n c. 16 * n + the (hex_val c)) 0 s)) else None)"

text \<open>Colon-separated groups; where allowed, the last one may be a dotted quad worth two.\<close>

fun parse_groups :: "bool \<Rightarrow> string list \<Rightarrow> 16 word list option" where
  "parse_groups v4 [] = Some []"
| "parse_groups v4 [g] =
     (case parse_hex16 g of
        Some w \<Rightarrow> Some [w]
      | None \<Rightarrow>
          (case (v4, parse_v4 g) of
             (True, Some (V4 a b c d)) \<Rightarrow>
               Some [push_bit 8 (ucast a) OR ucast b, push_bit 8 (ucast c) OR ucast d]
           | _ \<Rightarrow> None))"
| "parse_groups v4 (g # gs) =
     (case (parse_hex16 g, parse_groups v4 gs) of (Some w, Some ws) \<Rightarrow> Some (w # ws) | _ \<Rightarrow> None)"

definition groups_of :: "string \<Rightarrow> string list" where
  "groups_of s = (if s = [] then [] else split_on CHR '':'' s)"

definition parse_v6 :: "string \<Rightarrow> ip option" where
  "parse_v6 s =
     (case find_sub ''::'' s of
        None \<Rightarrow>
          (case parse_groups True (groups_of s) of
             Some ws \<Rightarrow> if length ws = 8 then Some (V6 ws) else None
           | None \<Rightarrow> None)
      | Some i \<Rightarrow>
          (case (parse_groups False (groups_of (take i s)), parse_groups True (groups_of (drop (i + 2) s))) of
             (Some h, Some t) \<Rightarrow>
               if length h + length t \<le> 7
               then Some (V6 (h @ replicate (8 - length h - length t) 0 @ t)) else None
           | _ \<Rightarrow> None))"

definition parse_ip :: "string \<Rightarrow> ip option" where
  "parse_ip s = opt_or (parse_v4 s) (parse_v6 s)"

lemma parse_v6_length: "parse_v6 s = Some (V6 ws) \<Longrightarrow> length ws = 8"
  by (auto simp: parse_v6_def split: option.splits if_splits)

definition is_unspecified :: "ip \<Rightarrow> bool" where
  "is_unspecified ip = (ip = V4 0 0 0 0 \<or> ip = V6 [0, 0, 0, 0, 0, 0, 0, 0])"

definition strip_brackets :: "string \<Rightarrow> string" where
  "strip_brackets s = trim_end_matches CHR '']'' (trim_start_matches CHR ''['' (trim s))"

definition is_loopback_host :: "string \<Rightarrow> bool" where
  "is_loopback_host host =
     (let h = strip_brackets host
      in if eq_ignore_case h ''localhost'' then True
         else (case parse_ip h of Some ip \<Rightarrow> is_loopback_ip ip | None \<Rightarrow> False))"

subsection \<open>Redaction and safe text\<close>

text \<open>The ellipsis is the three bytes of U+2026.\<close>

definition ellipsis :: string where
  "ellipsis = [CHR 0xE2, CHR 0x80, CHR 0xA6]"

definition redact :: "string \<Rightarrow> string" where
  "redact secret = (if length secret \<le> 12 then ''***'' else take 10 secret @ ellipsis)"

text \<open>A redacted secret of more than twelve bytes shows ten of them, a shorter one none.\<close>

lemma redact_prefix:
  "redact secret = ''***'' \<or> (\<exists>p. redact secret = p @ ellipsis \<and> length p = 10 \<and> 12 < length secret)"
  by (auto simp: redact_def)

text \<open>\<open>safe_text\<close> works on Unicode scalar values, here as numbers.\<close>

definition is_control_char :: "nat \<Rightarrow> bool" where
  "is_control_char c \<longleftrightarrow> c < 32 \<or> 127 \<le> c \<and> c \<le> 159"

fun safe_text_go :: "nat \<Rightarrow> nat list \<Rightarrow> nat list \<Rightarrow> nat list" where
  "safe_text_go mx [] out = out"
| "safe_text_go mx (ch # s) out =
     (if mx \<le> length out then out @ [0x2026]
      else safe_text_go mx s
             (out @ [if is_control_char ch \<or> ch = 0x7f \<or> (0x80 \<le> ch \<and> ch \<le> 0x9f) then 0x20 else ch]))"

definition safe_text :: "nat list \<Rightarrow> nat \<Rightarrow> nat list" where
  "safe_text s mx = safe_text_go mx s []"

lemma safe_text_go_eq:
  "length out \<le> mx \<Longrightarrow>
   safe_text_go mx s out =
     out @ map (\<lambda>ch. if is_control_char ch then 0x20 else ch) (take (mx - length out) s)
     @ (if mx - length out < length s then [0x2026] else [])"
proof (induction mx s out rule: safe_text_go.induct)
  case (1 mx out)
  then show ?case by simp
next
  case (2 mx ch s out)
  show ?case
  proof (cases "mx \<le> length out")
    case True
    with 2(2) show ?thesis by simp
  next
    case False
    then obtain k where k: "mx - length out = Suc k" "mx - Suc (length out) = k"
      by (metis Suc_diff_Suc diff_Suc_Suc not_less minus_nat.simps(1) Suc_diff_le not_less_eq_eq diff_Suc_1')
    have c: "(is_control_char ch \<or> ch = 0x7f \<or> 0x80 \<le> ch \<and> ch \<le> 0x9f) = is_control_char ch"
      by (auto simp: is_control_char_def)
    show ?thesis using 2(1) False k c by (simp add: not_le)
  qed
qed

text \<open>What reaches a terminal or a log through \<open>safe_text\<close> holds no control character, C1
  control or delete, is at most \<open>max\<close> characters and the ellipsis that marks the cut, and
  is the text itself when that was short and clean.\<close>

theorem safe_text_spec:
  "list_all (\<lambda>c. \<not> is_control_char c) (safe_text s mx)
   \<and> length (safe_text s mx) \<le> Suc mx
   \<and> (length s \<le> mx \<and> list_all (\<lambda>c. \<not> is_control_char c) s \<longrightarrow> safe_text s mx = s)"
proof -
  have eq: "safe_text s mx = map (\<lambda>ch. if is_control_char ch then 0x20 else ch) (take mx s)
      @ (if mx < length s then [0x2026] else [])"
    by (simp add: safe_text_def safe_text_go_eq)
  have "\<not> is_control_char 0x20" "\<not> is_control_char 0x2026" by (simp_all add: is_control_char_def)
  moreover have "list_all (\<lambda>c. \<not> is_control_char c) s \<Longrightarrow>
      map (\<lambda>ch. if is_control_char ch then 0x20 else ch) s = s"
    by (intro map_idI) (auto simp: list_all_iff)
  ultimately show ?thesis unfolding eq by (auto simp: list_all_iff)
qed

theorem safe_text_spec_witness: "safe_text [72, 105] 5 = [72, 105] \<and> safe_text [27, 65, 66, 67] 3 = [32, 65, 66, 0x2026]"
proof -
  have "safe_text [72, 105] 5 = [72, 105]"
    using safe_text_spec [of "[72, 105]" 5] by (simp add: is_control_char_def)
  moreover have "safe_text [27, 65, 66, 67] 3 = [32, 65, 66, 0x2026]"
    by (simp add: safe_text_def is_control_char_def)
  ultimately show ?thesis by simp
qed

end
