(* ===== verification/Credentials.thy ===== *)
theory Credentials
  imports Quota Security
begin

text \<open>
  \<open>src/oauth.rs\<close> and the credential half of \<open>src/codex.rs\<close>: where tokens may be sent,
  what a token response and a credentials file say, the login callback and the pasted code.
  The network is a parameter (the reply to each attempt), and so is the decoder serde derives
  for the credentials file; \<open>now\<close> is the clock.
\<close>

subsection \<open>Hosts\<close>

definition is_anthropic_host :: "string \<Rightarrow> bool" where
  "is_anthropic_host host =
     (let h = to_lower host
      in h = ''api.anthropic.com'' \<or> ends_with ''.anthropic.com'' h
         \<or> h = ''platform.claude.com'' \<or> ends_with ''.claude.com'' h)"

definition CODEX_CREDENTIALS_PATH :: string where "CODEX_CREDENTIALS_PATH = ''~/.codex/auth.json''"
definition CODEX_UPSTREAM :: string where "CODEX_UPSTREAM = ''https://chatgpt.com''"
definition CODEX_HOST :: string where "CODEX_HOST = ''chatgpt.com''"
definition CODEX_NEVER_INTERCEPT :: string where "CODEX_NEVER_INTERCEPT = ''ab.chatgpt.com''"
definition CODEX_PATH_PREFIX :: string where "CODEX_PATH_PREFIX = ''/backend-api/codex''"

definition is_codex_host :: "string \<Rightarrow> bool" where
  "is_codex_host host = (let h = to_lower host in h = CODEX_HOST \<or> h = ''auth.openai.com'')"

definition is_codex_path :: "string \<Rightarrow> bool" where
  "is_codex_path path \<longleftrightarrow> path = CODEX_PATH_PREFIX \<or> starts_with (CODEX_PATH_PREFIX @ ''/'') path"

subsection \<open>Token responses\<close>

record tokens =
  tk_access :: string
  tk_refresh :: "string option"
  tk_expires_at :: int
  tk_refresh_expires_at :: "int option"

datatype refresh_error = Rejected nat | Transient

definition is_auth_rejection :: "refresh_error \<Rightarrow> bool" where
  "is_auth_rejection e = (case e of Rejected _ \<Rightarrow> True | Transient \<Rightarrow> False)"

definition normalize_expires_at :: "json option \<Rightarrow> int option" where
  "normalize_expires_at v =
     (case Option.bind v as_f64 of
        None \<Rightarrow> None
      | Some n \<Rightarrow>
          if f_le n (Fin 0) then None
          else Some (if f_lt n (Fin (10 ^ 12)) then f_to_i64 (f_mul n (Fin 1000)) else f_to_i64 n))"

definition tokens_from_response :: "int \<Rightarrow> json \<Rightarrow> string option \<Rightarrow> tokens option" where
  "tokens_from_response now data fallback =
     (case get_str ''access_token'' data of
        None \<Rightarrow> None
      | Some access \<Rightarrow>
          Some \<lparr>tk_access = access,
            tk_refresh = opt_or (get_str ''refresh_token'' data) fallback,
            tk_expires_at =
              (case normalize_expires_at (j_get ''expires_at'' data) of
                 Some e \<Rightarrow> e
               | None \<Rightarrow> i64_wrap (now + i64_wrap (unwrap_or 3600 (Option.bind (j_get ''expires_in'' data) as_i64) * 1000))),
            tk_refresh_expires_at =
              map_option (\<lambda>s. i64_wrap (now + i64_wrap (s * 1000)))
                (opt_filter (\<lambda>s. 0 < s) (Option.bind (j_get ''refresh_token_expires_in'' data) as_i64))\<rparr>)"

definition is_expiring_soon :: "int \<Rightarrow> int option \<Rightarrow> int \<Rightarrow> bool" where
  "is_expiring_soon now expires_at threshold =
     (case expires_at of None \<Rightarrow> True | Some e \<Rightarrow> e - now < threshold)"

text \<open>One HTTP exchange with the token endpoint: no reply, or a status and the decoded body.\<close>

datatype http_reply = NetError | Reply nat "json option"

definition is_success :: "nat \<Rightarrow> bool" where "is_success st \<longleftrightarrow> 200 \<le> st \<and> st < 300"
definition is_server_error :: "nat \<Rightarrow> bool" where "is_server_error st \<longleftrightarrow> 500 \<le> st \<and> st < 600"

fun refresh_attempts :: "int \<Rightarrow> string \<Rightarrow> http_reply list \<Rightarrow> refresh_error + tokens" where
  "refresh_attempts now rt [] = Inl Transient"
| "refresh_attempts now rt (NetError # rs) = refresh_attempts now rt rs"
| "refresh_attempts now rt (Reply st body # rs) =
     (if is_success st
      then (case Option.bind body (\<lambda>d. tokens_from_response now d (Some rt)) of
              Some t \<Rightarrow> Inr t | None \<Rightarrow> Inl Transient)
      else if is_server_error st then refresh_attempts now rt rs
      else Inl (Rejected st))"

text \<open>\<open>replies n\<close> is the reply to attempt \<open>n\<close>; the loop makes at most three.\<close>

definition oauth_refresh :: "int \<Rightarrow> (nat \<Rightarrow> http_reply) \<Rightarrow> string \<Rightarrow> refresh_error + tokens" where
  "oauth_refresh now replies rt = refresh_attempts now rt (map replies [0..<3])"

record profile =
  pr_account_uuid :: "string option"
  pr_email :: "string option"
  pr_display_name :: "string option"
  pr_org_uuid :: "string option"
  pr_org_name :: "string option"
  pr_organization_type :: "string option"
  pr_rate_limit_tier :: "string option"
  pr_seat_tier :: "string option"
  pr_has_claude_max :: "bool option"
  pr_has_claude_pro :: "bool option"

definition normalize_profile :: "json \<Rightarrow> profile" where
  "normalize_profile d =
     (let s = (\<lambda>p. Option.bind (j_pointer p d) as_str); b = (\<lambda>p. Option.bind (j_pointer p d) as_bool)
      in \<lparr>pr_account_uuid = s [''account'', ''uuid''], pr_email = s [''account'', ''email''],
          pr_display_name = s [''account'', ''display_name''],
          pr_org_uuid = s [''organization'', ''uuid''], pr_org_name = s [''organization'', ''name''],
          pr_organization_type = s [''organization'', ''organization_type''],
          pr_rate_limit_tier = s [''organization'', ''rate_limit_tier''],
          pr_seat_tier = s [''organization'', ''seat_tier''],
          pr_has_claude_max = b [''account'', ''has_claude_max''],
          pr_has_claude_pro = b [''account'', ''has_claude_pro'']\<rparr>)"

datatype usage_result = UsageOk usage_payload | UsageUnauthorized | UsageRateLimited | UsageError

definition fetch_usage :: "ext \<Rightarrow> http_reply \<Rightarrow> usage_result" where
  "fetch_usage E r =
     (case r of
        NetError \<Rightarrow> UsageError
      | Reply st body \<Rightarrow>
          if st = 401 then UsageUnauthorized
          else if st = 429 then UsageRateLimited
          else if \<not> is_success st then UsageError
          else (case body of Some v \<Rightarrow> UsageOk (normalize_usage E v) | None \<Rightarrow> UsageError))"

subsection \<open>Credential files\<close>

record imported =
  im_access :: "string option"
  im_refresh :: "string option"
  im_expires_at :: "int option"
  im_refresh_expires_at :: "int option"
  im_subscription_type :: "string option"
  im_rate_limit_tier :: "string option"

definition expand_home :: "ext \<Rightarrow> string \<Rightarrow> string" where
  "expand_home E p =
     (case (strip_prefix ''~/'' p, home_dir E) of (Some rest, Some h) \<Rightarrow> if starts_with ''/'' rest then rest else h @ ''/'' @ rest
      | _ \<Rightarrow> p)"

definition oauth_parse_credentials ::
  "ext \<Rightarrow> (json \<Rightarrow> imported option) \<Rightarrow> string \<Rightarrow> imported option" where
  "oauth_parse_credentials E decode raw =
     Option.bind (json_parse E raw) (\<lambda>v.
     Option.bind (decode (unwrap_or v (j_get ''claudeAiOauth'' v))) (\<lambda>c.
       Some (case im_expires_at c of
               Some e \<Rightarrow> if 0 < e \<and> e < 10 ^ 12 then c\<lparr>im_expires_at := Some (e * 1000)\<rparr> else c
             | None \<Rightarrow> c)))"

text \<open>\<open>fs\<close> is the content of the files at the moment of the read.\<close>

definition oauth_import ::
  "ext \<Rightarrow> (json \<Rightarrow> imported option) \<Rightarrow> (string \<Rightarrow> string option) \<Rightarrow> string \<Rightarrow> imported option" where
  "oauth_import E decode fs path =
     Option.bind (fs (expand_home E path)) (oauth_parse_credentials E decode)"

record codex_credentials =
  cc_access :: "string option"
  cc_refresh :: "string option"
  cc_account_id :: "string option"
  cc_email :: "string option"
  cc_plan_type :: "string option"
  cc_expires_at :: "int option"

definition jwt_claims :: "ext \<Rightarrow> string \<Rightarrow> json option" where
  "jwt_claims E token =
     (case split_on CHR ''.'' token of
        _ # payload # _ \<Rightarrow>
          Option.bind (base64_decode E (trim_end_matches CHR ''='' payload)) (json_parse E)
      | _ \<Rightarrow> None)"

definition creds_from :: "ext \<Rightarrow> int \<Rightarrow> json \<Rightarrow> codex_credentials" where
  "creds_from E now tokens =
     (let claims = unwrap_or JNull (Option.bind (get_str ''id_token'' tokens) (jwt_claims E));
          auth = unwrap_or JNull (j_get ''https://api.openai.com/auth'' claims);
          access = get_str ''access_token'' tokens
      in \<lparr>cc_access = access, cc_refresh = get_str ''refresh_token'' tokens,
          cc_account_id = opt_or (get_str ''chatgpt_account_id'' auth) (get_str ''account_id'' tokens),
          cc_email = get_str ''email'' claims,
          cc_plan_type = get_str ''chatgpt_plan_type'' auth,
          cc_expires_at =
            opt_or
              (map_option (\<lambda>e. i64_wrap (e * 1000))
                (Option.bind (Option.bind access (jwt_claims E)) (\<lambda>c. Option.bind (j_get ''exp'' c) as_i64)))
              (map_option (\<lambda>s. i64_wrap (now + i64_wrap (s * 1000)))
                (Option.bind (j_get ''expires_in'' tokens) as_i64))\<rparr>)"

definition codex_parse_credentials :: "ext \<Rightarrow> int \<Rightarrow> string \<Rightarrow> codex_credentials option" where
  "codex_parse_credentials E now raw =
     map_option (\<lambda>v. creds_from E now (unwrap_or v (j_get ''tokens'' v))) (json_parse E raw)"

definition codex_import :: "ext \<Rightarrow> int \<Rightarrow> (string \<Rightarrow> string option) \<Rightarrow> string \<Rightarrow> codex_credentials option" where
  "codex_import E now fs path = Option.bind (fs (expand_home E path)) (codex_parse_credentials E now)"

definition codex_refresh :: "ext \<Rightarrow> int \<Rightarrow> http_reply \<Rightarrow> string \<Rightarrow> refresh_error + tokens" where
  "codex_refresh E now r rt =
     (case r of
        NetError \<Rightarrow> Inl Transient
      | Reply st body \<Rightarrow>
          if \<not> is_success st then (if is_server_error st then Inl Transient else Inl (Rejected st))
          else (case body of
                  None \<Rightarrow> Inl Transient
                | Some data \<Rightarrow>
                    let c = creds_from E now data
                    in (case cc_access c of
                          None \<Rightarrow> Inl Transient
                        | Some a \<Rightarrow>
                            Inr \<lparr>tk_access = a, tk_refresh = opt_or (cc_refresh c) (Some rt),
                                 tk_expires_at = unwrap_or (now + 3600 * 1000) (cc_expires_at c),
                                 tk_refresh_expires_at = None\<rparr>)))"

subsection \<open>Login\<close>

datatype login_error = EmptyInput | StateMismatch | NotACode | OauthError string

text \<open>The last pair with a key wins, as in the loop over \<open>query_pairs\<close>.\<close>

definition last_pair :: "string \<Rightarrow> (string \<times> string) list \<Rightarrow> string option" where
  "last_pair k ps = map_of (rev ps) k"

definition code_char :: "char \<Rightarrow> bool" where
  "code_char c \<longleftrightarrow> is_alnum c \<or> c \<in> set ''-_.''"

definition parse_auth_code :: "ext \<Rightarrow> string \<Rightarrow> string \<Rightarrow> login_error + (string \<times> string)" where
  "parse_auth_code E input expected =
     (let t = trim input
      in if t = [] then Inl EmptyInput
         else (case Option.bind (url_query E t) (\<lambda>ps. map_option (\<lambda>c. (c, last_pair ''state'' ps)) (last_pair ''code'' ps)) of
            Some (c, state) \<Rightarrow>
              (case state of
                 Some s \<Rightarrow> if s \<noteq> expected then Inl StateMismatch else Inr (c, expected)
               | None \<Rightarrow> Inr (c, expected))
          | None \<Rightarrow>
              (case map_option (\<lambda>(c, s). (trim c, trim s)) (split_once CHR ''#'' t) of
                 Some (c, s) \<Rightarrow>
                   if c \<noteq> [] then (if s \<noteq> [] \<and> s \<noteq> expected then Inl StateMismatch else Inr (c, expected))
                   else if list_all code_char t then Inr (t, expected) else Inl NotACode
               | None \<Rightarrow> if list_all code_char t then Inr (t, expected) else Inl NotACode)))"

text \<open>
  A connection the callback listener accepts: the peer, and its request line read as method,
  path and query pairs (\<open>None\<close> when the line or the URL does not parse).
\<close>

record callback_conn =
  cb_peer :: ip
  cb_request :: "(string \<times> string \<times> (string \<times> string) list) option"

datatype callback_result = Waiting | LoginFailed string | LoginCode string

fun callback_server :: "string \<Rightarrow> callback_conn list \<Rightarrow> callback_result" where
  "callback_server expected [] = Waiting"
| "callback_server expected (cn # cns) =
     (if \<not> is_loopback_ip (cb_peer cn) then callback_server expected cns
      else (case cb_request cn of
         None \<Rightarrow> callback_server expected cns
       | Some (meth, path, ps) \<Rightarrow>
           if meth \<noteq> ''GET'' then callback_server expected cns
           else if path \<noteq> ''/callback'' then callback_server expected cns
           else if last_pair ''state'' ps \<noteq> Some expected then callback_server expected cns
           else (case last_pair ''error'' ps of
                   Some e \<Rightarrow> LoginFailed e
                 | None \<Rightarrow>
                     (case last_pair ''code'' ps of
                        Some c \<Rightarrow> LoginCode c
                      | None \<Rightarrow> callback_server expected cns))))"

text \<open>A connection that knows the state the login was started with.\<close>

definition authentic :: "string \<Rightarrow> callback_conn \<Rightarrow> bool" where
  "authentic expected cn \<longleftrightarrow> is_loopback_ip (cb_peer cn) \<and>
     (\<exists>ps. cb_request cn = Some (''GET'', ''/callback'', ps) \<and> last_pair ''state'' ps = Some expected)"

lemma callback_skips: "\<not> authentic expected cn \<Longrightarrow>
    callback_server expected (cn # cns) = callback_server expected cns"
  by (auto simp: authentic_def split: option.splits)

text \<open>A login ends, with a code or with an error, only through a connection from loopback that
  presents the state it was started with: connections that do not are as if they had never
  been made, so no other peer can complete or abort it.\<close>

theorem callback_only_authentic:
  "callback_server expected cns = callback_server expected (filter (authentic expected) cns)
   \<and> (callback_server expected cns \<noteq> Waiting \<longrightarrow> (\<exists>cn \<in> set cns. authentic expected cn))"
proof -
  have eq: "callback_server expected cns = callback_server expected (filter (authentic expected) cns)"
  proof (induction cns)
    case (Cons cn cns)
    show ?case
    proof (cases "authentic expected cn")
      case True
      with Cons.IH show ?thesis by (auto simp: authentic_def split: option.splits)
    next
      case False
      with Cons.IH callback_skips [OF False, of cns] show ?thesis by (simp del: callback_server.simps)
    qed
  qed simp
  moreover have "\<exists>cn \<in> set cns. authentic expected cn" if "callback_server expected cns \<noteq> Waiting"
  proof (rule ccontr)
    assume "\<not> (\<exists>cn \<in> set cns. authentic expected cn)"
    then have "filter (authentic expected) cns = []" by (simp add: filter_empty_conv)
    with eq that show False by simp
  qed
  ultimately show ?thesis by blast
qed

theorem callback_only_authentic_witness:
  "\<exists>cn \<in> set [\<lparr>cb_peer = V4 10 0 0 1, cb_request = Some (''GET'', ''/callback'', [(''error'', ''x'')])\<rparr>,
       \<lparr>cb_peer = V4 127 0 0 1, cb_request = Some (''GET'', ''/callback'', [(''state'', ''s''), (''code'', ''c'')])\<rparr>].
     authentic ''s'' cn"
proof -
  let ?cns = "[\<lparr>cb_peer = V4 10 0 0 1, cb_request = Some (''GET'', ''/callback'', [(''error'', ''x'')])\<rparr>,
       \<lparr>cb_peer = V4 127 0 0 1, cb_request = Some (''GET'', ''/callback'', [(''state'', ''s''), (''code'', ''c'')])\<rparr>]"
  have "callback_server ''s'' ?cns = LoginCode ''c''" by code_simp
  then have "callback_server ''s'' ?cns \<noteq> Waiting" by simp
  with callback_only_authentic [of "''s''" ?cns] show ?thesis by blast
qed

text \<open>A refresh is called rejected only on a final answer of the endpoint, never on network or
  server trouble, and a token it returns always carries a refresh token.\<close>

lemma refresh_attempts_Rejected:
  "refresh_attempts now rt rs = Inl (Rejected st) \<Longrightarrow>
   \<exists>body. Reply st body \<in> set rs \<and> \<not> is_success st \<and> \<not> is_server_error st"
  by (induction now rt rs rule: refresh_attempts.induct) (auto split: if_splits option.splits)

lemma refresh_attempts_Inr:
  "refresh_attempts now rt rs = Inr t \<Longrightarrow> tk_refresh t \<noteq> None"
  by (induction now rt rs rule: refresh_attempts.induct)
    (auto simp: tokens_from_response_def bind_eq_Some_conv opt_or_def split: if_splits option.splits)

end
