(* ===== verification/Codex.thy ===== *)
theory Codex
  imports Credentials
begin

text \<open>
  \<open>src/codex.rs\<close>: the \<open>x-codex-*\<close> quota headers. Limits arrive in families of two
  windows; a window is classified by its length, never by its position.
\<close>

definition FIVE_HOUR_MINUTES :: f64 where "FIVE_HOUR_MINUTES = Fin 300"
definition SEVEN_DAY_MINUTES :: f64 where "SEVEN_DAY_MINUTES = Fin 10080"

definition near :: "f64 \<Rightarrow> f64 \<Rightarrow> bool" where
  "near v target = f_le (f_abs (f_sub v target)) (f_mul target (Fin (1 / 10)))"

record window =
  w_used_percent :: "f64 option"
  w_minutes :: "f64 option"
  w_reset_at :: "int option"

definition window_default :: window where
  "window_default = \<lparr>w_used_percent = None, w_minutes = None, w_reset_at = None\<rparr>"

record family_windows =
  fw_name :: "string option"
  fw_windows :: "(string \<times> window) list"

definition family_windows_default :: family_windows where
  "family_windows_default = \<lparr>fw_name = None, fw_windows = []\<rparr>"

type_synonym families = "(string \<times> family_windows) list"

definition CODEX_FIELDS :: "string list" where
  "CODEX_FIELDS = [''used-percent'', ''window-minutes'', ''reset-at'']"

text \<open>The family and the window a header name addresses.\<close>

definition window_slot :: "string \<Rightarrow> (string \<times> string) option" where
  "window_slot head =
     (case rsplit_once CHR ''-'' head of
        Some (s, p) \<Rightarrow>
          if p = ''primary'' \<or> p = ''secondary'' then Some (s, p)
          else if head = ''primary'' \<or> head = ''secondary'' then Some ([], head) else None
      | None \<Rightarrow> if head = ''primary'' \<or> head = ''secondary'' then Some ([], head) else None)"

definition set_window_field :: "string \<Rightarrow> string \<Rightarrow> window \<Rightarrow> window" where
  "set_window_field field v w =
     (if field = ''used-percent'' then w\<lparr>w_used_percent := parse_f64 v\<rparr>
      else if field = ''window-minutes'' then w\<lparr>w_minutes := parse_f64 v\<rparr>
      else w\<lparr>w_reset_at := map_option (\<lambda>r. i64_wrap (r * 1000)) (opt_filter (\<lambda>r. 0 < r) (parse_i64 v))\<rparr>)"

definition family_entry :: "string \<Rightarrow> families \<Rightarrow> family_windows" where
  "family_entry slug fams = unwrap_or family_windows_default (map_of fams slug)"

definition note_field :: "string \<Rightarrow> string \<Rightarrow> string \<Rightarrow> families \<Rightarrow> families" where
  "note_field rest v field fams =
     (case strip_suffix (''-'' @ field) rest of
        None \<Rightarrow> fams
      | Some head \<Rightarrow>
          (case window_slot head of
             None \<Rightarrow> fams
           | Some (slug, pos) \<Rightarrow>
               let f = family_entry slug fams;
                   w = unwrap_or window_default (map_of (fw_windows f) pos)
               in bt_insert slug (f\<lparr>fw_windows := bt_insert pos (set_window_field field v w) (fw_windows f)\<rparr>) fams))"

definition note_header :: "families \<Rightarrow> string \<times> string \<Rightarrow> families" where
  "note_header fams = (\<lambda>(k, v0).
     (case strip_prefix ''x-codex-'' k of
        None \<Rightarrow> fams
      | Some rest \<Rightarrow>
          let v = trim v0
          in if v = [] then fams
             else (case strip_suffix ''-limit-name'' rest of
                     Some slug \<Rightarrow> bt_insert slug ((family_entry slug fams)\<lparr>fw_name := Some v\<rparr>) fams
                   | None \<Rightarrow> fold (note_field rest v) CODEX_FIELDS fams)))"

definition collect_families :: "(string \<times> string) list \<Rightarrow> families" where
  "collect_families h = foldl note_header [] h"

fun classify_windows ::
  "int \<Rightarrow> (string \<times> window) list \<Rightarrow> bucket option \<times> bucket option \<Rightarrow> bucket option \<times> bucket option" where
  "classify_windows now [] acc = acc"
| "classify_windows now ((_, w) # ws) (five, weekly) =
     classify_windows now ws
       (case (w_minutes w, w_used_percent w) of
          (Some m, Some p) \<Rightarrow>
            (let b = \<lparr>utilization = Some (f_div p (Fin 100)), reset_at = w_reset_at w, seen_at = Some now\<rparr>
             in if near m FIVE_HOUR_MINUTES then (Some b, weekly)
                else if near m SEVEN_DAY_MINUTES then (five, Some b) else (five, weekly))
        | _ \<Rightarrow> (five, weekly))"

definition classify :: "int \<Rightarrow> family_windows \<Rightarrow> bucket option \<times> bucket option" where
  "classify now f = classify_windows now (fw_windows f) (None, None)"

definition apply_account_family :: "int \<Rightarrow> families \<Rightarrow> quota \<Rightarrow> quota" where
  "apply_account_family now fams q =
     (case map_of fams [] of
        None \<Rightarrow> q
      | Some acct \<Rightarrow>
          (case classify now acct of
             (five, weekly) \<Rightarrow>
               unified7d_update (\<lambda>b. unwrap_or b weekly) (unified5h_update (\<lambda>b. unwrap_or b five) q)))"

definition apply_scoped_family :: "int \<Rightarrow> quota \<Rightarrow> string \<times> family_windows \<Rightarrow> quota" where
  "apply_scoped_family now q = (\<lambda>(slug, f).
     if slug = [] then q
     else (case snd (classify now f) of
             None \<Rightarrow> q
           | Some b \<Rightarrow> scoped_weekly_update (bt_insert (to_lower (unwrap_or slug (fw_name f))) b) q))"

definition apply_codex_headers :: "(string \<times> string) list \<Rightarrow> int \<Rightarrow> quota \<Rightarrow> quota" where
  "apply_codex_headers h now q =
     (let fams = collect_families h
      in foldl (apply_scoped_family now) (apply_account_family now fams q) fams)"

subsection \<open>What the headers can change\<close>

lemma near_disjoint: "near m FIVE_HOUR_MINUTES \<Longrightarrow> \<not> near m SEVEN_DAY_MINUTES"
  by (cases m) (auto simp: near_def FIVE_HOUR_MINUTES_def SEVEN_DAY_MINUTES_def f_abs_def f_sub_def
      f_mul_def f_le_def abs_if split: if_splits)

definition fresh_bucket :: "int \<Rightarrow> bucket option \<Rightarrow> bool" where
  "fresh_bucket now b \<longleftrightarrow> (case b of Some x \<Rightarrow> seen_at x = Some now \<and> utilization x \<noteq> None | None \<Rightarrow> True)"

lemma classify_windows_fresh:
  "classify_windows now ws acc = acc' \<Longrightarrow> fresh_bucket now (fst acc) \<Longrightarrow> fresh_bucket now (snd acc) \<Longrightarrow>
   fresh_bucket now (fst acc') \<and> fresh_bucket now (snd acc')"
  by (induction now ws acc arbitrary: acc' rule: classify_windows.induct)
    (auto simp: fresh_bucket_def Let_def split: option.splits if_splits)

lemma apply_account_family_frame [frame_simps]:
  "scoped_weekly (apply_account_family now fams q) = scoped_weekly q"
  "unified7d_fable (apply_account_family now fams q) = unified7d_fable q"
  "unified7d_sonnet (apply_account_family now fams q) = unified7d_sonnet q"
  "tokens_limit (apply_account_family now fams q) = tokens_limit q"
  "tokens_remaining (apply_account_family now fams q) = tokens_remaining q"
  "spend (apply_account_family now fams q) = spend q"
  by (auto simp: apply_account_family_def split: option.splits prod.splits)

lemma apply_scoped_family_frame [frame_simps]:
  "unified5h (apply_scoped_family now q sf) = unified5h q"
  "unified7d (apply_scoped_family now q sf) = unified7d q"
  "unified7d_fable (apply_scoped_family now q sf) = unified7d_fable q"
  "unified7d_sonnet (apply_scoped_family now q sf) = unified7d_sonnet q"
  "tokens_limit (apply_scoped_family now q sf) = tokens_limit q"
  "tokens_remaining (apply_scoped_family now q sf) = tokens_remaining q"
  "spend (apply_scoped_family now q sf) = spend q"
  by (auto simp: apply_scoped_family_def split: option.splits prod.splits)

lemma scoped_fold_frame [frame_simps]:
  "unified5h (foldl (apply_scoped_family now) q fams) = unified5h q"
  "unified7d (foldl (apply_scoped_family now) q fams) = unified7d q"
  "unified7d_fable (foldl (apply_scoped_family now) q fams) = unified7d_fable q"
  "unified7d_sonnet (foldl (apply_scoped_family now) q fams) = unified7d_sonnet q"
  by (induction fams arbitrary: q) (simp_all add: frame_simps)

text \<open>A header that does not start with \<open>x-codex-\<close> leaves the families alone.\<close>

lemma note_header_other: "strip_prefix ''x-codex-'' k = None \<Longrightarrow> note_header fams (k, v) = fams"
  by (simp add: note_header_def)

lemma collect_families_other:
  "\<forall>(k, v) \<in> set h. strip_prefix ''x-codex-'' k = None \<Longrightarrow> foldl note_header fams h = fams"
  by (induction h arbitrary: fams) (auto simp: note_header_other)

text \<open>Quota headers of a Codex reply touch exactly the windows they speak of: the two
  account-wide buckets change only to a reading taken now from the unnamed family, the fable
  and sonnet buckets of the Anthropic families never change, and a reply without
  \<open>x-codex-\<close> headers changes nothing.\<close>

theorem apply_codex_headers_scope:
  shows "(let q' = apply_codex_headers h now q
     in (unified5h q' = unified5h q \<or> fresh_bucket now (Some (unified5h q')))
      \<and> (unified7d q' = unified7d q \<or> fresh_bucket now (Some (unified7d q')))
      \<and> (map_of (collect_families h) [] = None \<longrightarrow> unified5h q' = unified5h q \<and> unified7d q' = unified7d q)
      \<and> unified7d_fable q' = unified7d_fable q \<and> unified7d_sonnet q' = unified7d_sonnet q
      \<and> ((\<forall>(k, v) \<in> set h. strip_prefix ''x-codex-'' k = None) \<longrightarrow> q' = q))"
proof -
  let ?fams = "collect_families h" and ?q1 = "apply_account_family now (collect_families h) q"
  have 1: "(unified5h ?q1 = unified5h q \<or> fresh_bucket now (Some (unified5h ?q1)))
      \<and> (unified7d ?q1 = unified7d q \<or> fresh_bucket now (Some (unified7d ?q1)))"
  proof (cases "map_of ?fams []")
    case None
    then show ?thesis by (simp add: apply_account_family_def)
  next
    case (Some acct)
    obtain five weekly where c: "classify now acct = (five, weekly)" by (rule prod.exhaust)
    from classify_windows_fresh [OF c [unfolded classify_def]]
    have "fresh_bucket now five" "fresh_bucket now weekly" by (simp_all add: fresh_bucket_def)
    with Some c show ?thesis
      by (cases five; cases weekly) (simp_all add: apply_account_family_def)
  qed
  have 2: "map_of ?fams [] = None \<longrightarrow> unified5h ?q1 = unified5h q \<and> unified7d ?q1 = unified7d q"
    by (simp add: apply_account_family_def)
  have 3: "apply_codex_headers h now q = q" if "\<forall>(k, v) \<in> set h. strip_prefix ''x-codex-'' k = None"
    using collect_families_other [OF that, of "[]"]
    by (simp add: apply_codex_headers_def collect_families_def apply_account_family_def)
  show ?thesis
    using 1 2 3 by (simp add: apply_codex_headers_def Let_def frame_simps)
qed

theorem apply_codex_headers_scope_witness:
  "utilization (unified5h (apply_codex_headers
     [(''x-codex-primary-used-percent'', ''40''), (''x-codex-primary-window-minutes'', ''300'')] 9 quota_default)) = Some (Fin (2 / 5))
   \<and> apply_codex_headers [(''retry-after'', ''1'')] 9 quota_default = quota_default"
proof -
  have "utilization (unified5h (apply_codex_headers
     [(''x-codex-primary-used-percent'', ''40''), (''x-codex-primary-window-minutes'', ''300'')] 9 quota_default)) = Some (Fin (2 / 5))"
    by code_simp
  moreover have "\<forall>(k, v) \<in> set [(''retry-after'', ''1'')]. strip_prefix ''x-codex-'' k = None" by code_simp
  ultimately show ?thesis
    using apply_codex_headers_scope [of "[(''retry-after'', ''1'')]" 9 quota_default] unfolding Let_def by blast
qed

end
