(* ===== verification/Config.thy ===== *)
theory Config
  imports Environment Security
begin

text \<open>
  \<open>src/config.rs\<close>: the configuration document, its migration to pools, the invariants a
  load establishes, account lookup, and the persisted state. A \<open>BTreeMap\<close> is a sorted
  association list; decoding JSON into these records (derived code of \<open>serde\<close>) and the
  generators of keys and ids are parameters.
\<close>

definition DEFAULT_UPSTREAM :: string where "DEFAULT_UPSTREAM = ''https://api.anthropic.com''"
definition DEFAULT_SWITCH_THRESHOLD :: f64 where "DEFAULT_SWITCH_THRESHOLD = Fin (98 / 100)"
definition DEFAULT_POOL :: string where "DEFAULT_POOL = ''default''"
definition MAX_POOL_NAME_LEN :: nat where "MAX_POOL_NAME_LEN = 32"

subsection \<open>Thresholds\<close>

datatype threshold = Single f64 | Table "(string \<times> f64) list"

definition clamp01 :: "f64 \<Rightarrow> f64" where
  "clamp01 v = (if \<not> is_finite v then DEFAULT_SWITCH_THRESHOLD else f_clamp v (Fin 0) (Fin 1))"

fun for_bucket :: "threshold \<Rightarrow> string \<Rightarrow> f64" where
  "for_bucket (Single v) bucket = clamp01 v"
| "for_bucket (Table t) bucket =
     (case opt_or (map_of t bucket) (map_of t ''default'') of
        Some v \<Rightarrow> clamp01 v | None \<Rightarrow> DEFAULT_SWITCH_THRESHOLD)"

fun cap_for :: "threshold \<Rightarrow> string \<Rightarrow> f64 option" where
  "cap_for (Single v) bucket = Some (clamp01 v)"
| "cap_for (Table t) bucket = map_option clamp01 (opt_or (map_of t bucket) (map_of t ''default''))"

lemma default_threshold_bounds: "\<exists>x. DEFAULT_SWITCH_THRESHOLD = Fin x \<and> 0 \<le> x \<and> x \<le> 1"
  unfolding DEFAULT_SWITCH_THRESHOLD_def by (intro exI conjI, rule refl) auto

lemma clamp01_bounds: "\<exists>x. clamp01 v = Fin x \<and> 0 \<le> x \<and> x \<le> 1"
  by (cases v) (auto simp: clamp01_def f_clamp_def default_threshold_bounds)

lemma for_bucket_bounds: "\<exists>x. for_bucket t b = Fin x \<and> 0 \<le> x \<and> x \<le> 1"
  by (cases t) (auto simp: clamp01_bounds default_threshold_bounds split: option.splits)

lemma cap_for_bounds: "cap_for t b = Some c \<Longrightarrow> \<exists>x. c = Fin x \<and> 0 \<le> x \<and> x \<le> 1"
  using clamp01_bounds by (cases t) auto

subsection \<open>The document\<close>

record client_key =
  ck_name :: string
  ck_key :: string

record usage_dimension =
  ud_name :: string
  ud_header :: string

record proxy_config =
  px_port :: nat
  px_host :: "string option"
  px_api_key :: string
  px_client_keys :: "client_key list"
  px_require_key_on_loopback :: bool
  px_session_detail :: bool
  px_usage_dimensions :: "usage_dimension list"
  px_max_body_bytes :: nat

datatype account_type = Oauth | Apikey

record account_config =
  ac_id :: "string option"
  ac_name :: string
  ac_kind :: account_type
  ac_account_uuid :: "string option"
  ac_org_uuid :: "string option"
  ac_org_name :: "string option"
  ac_email :: "string option"
  ac_priority :: int
  ac_disabled :: bool
  ac_access_token :: "string option"
  ac_refresh_token :: "string option"
  ac_expires_at :: "int option"
  ac_refresh_token_expires_at :: "int option"
  ac_api_key :: "string option"
  ac_import_from :: "string option"
  ac_upstream :: "string option"
  ac_model_map :: "(string \<times> string) list option"
  ac_strip_request_fields :: "string list"
  ac_max_usage :: "threshold option"
  ac_rate_limit_tier :: "string option"
  ac_seat_tier :: "string option"
  ac_subscription_type :: "string option"
  ac_provider :: "string option"
  ac_account_id :: "string option"
  ac_plan_type :: "string option"

definition account_config_default :: account_config where
  "account_config_default =
     \<lparr>ac_id = None, ac_name = [], ac_kind = Oauth, ac_account_uuid = None, ac_org_uuid = None,
      ac_org_name = None, ac_email = None, ac_priority = 0, ac_disabled = False,
      ac_access_token = None, ac_refresh_token = None, ac_expires_at = None,
      ac_refresh_token_expires_at = None, ac_api_key = None, ac_import_from = None,
      ac_upstream = None, ac_model_map = None, ac_strip_request_fields = [], ac_max_usage = None,
      ac_rate_limit_tier = None, ac_seat_tier = None, ac_subscription_type = None,
      ac_provider = None, ac_account_id = None, ac_plan_type = None\<rparr>"

definition is_codex :: "account_config \<Rightarrow> bool" where
  "is_codex c \<longleftrightarrow> ac_provider c = Some ''codex''"

record expiry_routing =
  er_enabled :: bool
  er_tolerance :: f64
  er_preempt :: bool

definition expiry_default :: expiry_routing where
  "expiry_default = \<lparr>er_enabled = False, er_tolerance = Fin (3 / 2), er_preempt = True\<rparr>"

record session_titles =
  ti_enabled :: bool
  ti_width :: nat
  ti_projects_dir :: "string option"

definition session_titles_default :: session_titles where
  "session_titles_default = \<lparr>ti_enabled = False, ti_width = 18, ti_projects_dir = None\<rparr>"

record route_config =
  rt_name :: string
  rt_patterns :: "string list"
  rt_accounts :: "string list"
  rt_bucket :: "string option"
  rt_color :: "string option"

record storm_ramp =
  sr_enabled :: bool
  sr_start_conc :: nat
  sr_step_conc :: nat
  sr_step_ms :: nat
  sr_window_ms :: nat

definition storm_default :: storm_ramp where
  "storm_default =
     \<lparr>sr_enabled = True, sr_start_conc = 1, sr_step_conc = 1, sr_step_ms = 250, sr_window_ms = 30000\<rparr>"

record mitm_config =
  mc_http1_only :: bool
  mc_allow_tunnel :: bool
  mc_tunnel_allow :: "string list"

definition mitm_default :: mitm_config where
  "mitm_default = \<lparr>mc_http1_only = True, mc_allow_tunnel = False, mc_tunnel_allow = []\<rparr>"

datatype event_logging = EvHide | EvBlock | EvShow
datatype log_level = LogBody | LogHeaders | LogOff

record pool_match =
  pm_paths :: "string list"
  pm_remotes :: "string list"
  pm_env :: "(string \<times> string) list"

record pool_config =
  pc_switch_threshold :: threshold
  pc_hold_seconds :: nat
  pc_distribute_sessions :: bool
  pc_quota_probe_seconds :: nat
  pc_blocked_models :: "string list"
  pc_accounts :: "account_config list"
  pc_routes :: "route_config list"
  pc_storm_ramp :: storm_ramp
  pc_expiry_routing :: expiry_routing
  pc_soonest_reset :: bool
  pc_match_rules :: "pool_match option"
  pc_extra :: "(string \<times> json) list"

definition pool_default :: pool_config where
  "pool_default =
     \<lparr>pc_switch_threshold = Single DEFAULT_SWITCH_THRESHOLD, pc_hold_seconds = 0,
      pc_distribute_sessions = False, pc_quota_probe_seconds = 0, pc_blocked_models = [],
      pc_accounts = [], pc_routes = [], pc_storm_ramp = storm_default,
      pc_expiry_routing = expiry_default, pc_soonest_reset = False, pc_match_rules = None,
      pc_extra = []\<rparr>"

record config =
  cf_proxy :: proxy_config
  cf_upstream :: string
  cf_default_pool :: string
  cf_pools :: "(string \<times> pool_config) list"
  cf_event_logging :: event_logging
  cf_session_titles :: session_titles
  cf_warmup_seconds :: nat
  cf_update_check :: bool
  cf_mitm :: mitm_config
  cf_log_dir :: "string option"
  cf_log_level :: log_level
  cf_log_max_body_bytes :: nat
  cf_log_retention_hours :: nat
  cf_upstream_proxy :: "string option"
  cf_no_proxy :: "string option"
  cf_extra :: "(string \<times> json) list"

text \<open>\<open>key\<close> is the value \<open>new_api_key\<close> draws.\<close>

definition proxy_default :: "string \<Rightarrow> proxy_config" where
  "proxy_default key =
     \<lparr>px_port = 3456, px_host = None, px_api_key = key, px_client_keys = [],
      px_require_key_on_loopback = False, px_session_detail = False, px_usage_dimensions = [],
      px_max_body_bytes = 64 * 1024 * 1024\<rparr>"

definition config_default :: "string \<Rightarrow> config" where
  "config_default key =
     \<lparr>cf_proxy = proxy_default key, cf_upstream = DEFAULT_UPSTREAM, cf_default_pool = DEFAULT_POOL,
      cf_pools = [(DEFAULT_POOL, pool_default)], cf_event_logging = EvHide,
      cf_session_titles = session_titles_default, cf_warmup_seconds = 0,
      cf_update_check = True, cf_mitm = mitm_default, cf_log_dir = None, cf_log_level = LogBody,
      cf_log_max_body_bytes = 262144, cf_log_retention_hours = 72, cf_upstream_proxy = None,
      cf_no_proxy = None, cf_extra = []\<rparr>"

text \<open>Every error the module raises.\<close>

datatype cfg_error =
    PoolNameEmpty | PoolNameTooLong | PoolNameChars | PoolNameHyphen
  | BadRegex | NotAUrl | PlainHttp | BadScheme
  | KeyTooShort | NoPools | NoDefaultPool | EmptyAccountName | ClientKeyTooShort | ReservedHeader
  | PoolExists | NoSuchPool | AmbiguousAccount "nat list"
  | LegacyConfig | ReadFailed | ParseFailed

subsection \<open>Pool names and match rules\<close>

definition pool_name_char :: "char \<Rightarrow> bool" where
  "pool_name_char b \<longleftrightarrow> is_lower b \<or> is_digit b \<or> b = CHR ''-''"

definition validate_pool_name :: "string \<Rightarrow> cfg_error + unit" where
  "validate_pool_name name =
     (if name = [] then Inl PoolNameEmpty
      else if MAX_POOL_NAME_LEN < length name then Inl PoolNameTooLong
      else if \<not> list_all pool_name_char name then Inl PoolNameChars
      else if starts_with ''-'' name \<or> ends_with ''-'' name then Inl PoolNameHyphen
      else Inr ())"

definition pool_match_is_empty :: "pool_match \<Rightarrow> bool" where
  "pool_match_is_empty m \<longleftrightarrow> pm_paths m = [] \<and> pm_remotes m = [] \<and> pm_env m = []"

definition pool_match_validate :: "ext \<Rightarrow> pool_match \<Rightarrow> cfg_error + unit" where
  "pool_match_validate E m =
     res_bind (try_all (\<lambda>r. ensure (regex_ok E r) BadRegex) (pm_remotes m))
       (\<lambda>_. try_all (\<lambda>(k, r). if r = [] then Inr () else ensure (regex_ok E r) BadRegex) (pm_env m))"

subsection \<open>Migration of a pre-pools document\<close>

definition LEGACY_POOL_KEYS :: "string list" where
  "LEGACY_POOL_KEYS =
     [''switchThreshold'', ''holdSeconds'', ''distributeSessions'', ''quotaProbeSeconds'',
      ''blockedModels'', ''accounts'', ''routes'', ''stormRamp'', ''expiryRouting'']"

fun move_keys :: "string list \<Rightarrow> obj \<times> obj \<Rightarrow> obj \<times> obj" where
  "move_keys [] (obj, pool) = (obj, pool)"
| "move_keys (k # ks) (obj, pool) =
     (case map_of obj k of
        Some v \<Rightarrow> move_keys ks (obj_remove k obj, obj_insert k v pool)
      | None \<Rightarrow> move_keys ks (obj, pool))"

definition blank_default_pool :: "obj \<Rightarrow> bool" where
  "blank_default_pool obj =
     (case Option.bind (map_of obj ''defaultPool'') as_str of Some s \<Rightarrow> trim s = [] | None \<Rightarrow> True)"

definition migrate_pools :: "json \<Rightarrow> json \<times> bool" where
  "migrate_pools doc =
     (case doc of
        JObj obj0 \<Rightarrow>
          let (obj, changed) =
                (if map_of obj0 ''pools'' = None
                 then (case move_keys LEGACY_POOL_KEYS (obj0, []) of
                         (obj, pool) \<Rightarrow>
                           (obj_insert ''pools'' (JObj (obj_insert DEFAULT_POOL (JObj pool) [])) obj, True))
                 else (obj0, False));
              (obj, changed) =
                (if blank_default_pool obj
                 then (obj_insert ''defaultPool'' (JStr DEFAULT_POOL) obj, True) else (obj, changed))
          in (JObj obj, changed)
      | _ \<Rightarrow> (doc, False))"

definition needs_api_key :: "json \<Rightarrow> bool" where
  "needs_api_key doc =
     (case Option.bind (Option.bind (j_get ''proxy'' doc) (j_get ''apiKey'')) as_str of
        Some k \<Rightarrow> trim k = [] | None \<Rightarrow> True)"

lemma move_keys_lookup:
  assumes "distinct (al_keys obj)" and "move_keys ks (obj, pool) = (obj', pool')" and "distinct ks"
    and "\<forall>k \<in> set ks. map_of pool k = None"
  shows "map_of obj' = (\<lambda>k. if k \<in> set ks then None else map_of obj k)
       \<and> map_of pool' = (\<lambda>k. if k \<in> set ks then map_of obj k else map_of pool k)"
  using assms
proof (induction ks arbitrary: obj pool)
  case Nil
  then show ?case by simp
next
  case (Cons k ks)
  show ?case
  proof (cases "map_of obj k")
    case None
    with Cons have "map_of obj' = (\<lambda>k. if k \<in> set ks then None else map_of obj k)
       \<and> map_of pool' = (\<lambda>k. if k \<in> set ks then map_of obj k else map_of pool k)" by simp
    with None Cons.prems show ?thesis by (auto simp: fun_eq_iff)
  next
    case (Some v)
    let ?o = "obj_remove k obj" and ?p = "obj_insert k v pool"
    have "map_of obj' = (\<lambda>k. if k \<in> set ks then None else map_of ?o k)
       \<and> map_of pool' = (\<lambda>k. if k \<in> set ks then map_of ?o k else map_of ?p k)"
      using Cons.prems Some by (intro Cons.IH) (auto simp: distinct_obj_remove)
    with Some Cons.prems show ?thesis by (auto simp: fun_eq_iff map_of_obj_remove)
  qed
qed

lemma LEGACY_distinct: "distinct LEGACY_POOL_KEYS" "''pools'' \<notin> set LEGACY_POOL_KEYS"
  "''defaultPool'' \<notin> set LEGACY_POOL_KEYS"
  by (simp_all add: LEGACY_POOL_KEYS_def)

lemma trim_DEFAULT_POOL: "trim DEFAULT_POOL = DEFAULT_POOL"
  by (simp add: DEFAULT_POOL_def trim_def trim_start_def trim_end_def is_ws_def)

text \<open>Migrating a pre-pools document loses nothing and happens once: every legacy key moves
  with its value into the default pool, every other key stays, the result names a default
  pool, and migrating it again changes nothing.\<close>

theorem migrate_pools_lossless:
  assumes "distinct (al_keys obj)" and "map_of obj ''pools'' = None"
  shows "\<exists>obj' pool. migrate_pools (JObj obj) = (JObj obj', True)
     \<and> map_of obj' ''pools'' = Some (JObj [(DEFAULT_POOL, JObj pool)])
     \<and> map_of pool = (\<lambda>k. if k \<in> set LEGACY_POOL_KEYS then map_of obj k else None)
     \<and> (\<forall>k. k \<notin> set LEGACY_POOL_KEYS \<and> k \<noteq> ''pools'' \<and> k \<noteq> ''defaultPool'' \<longrightarrow> map_of obj' k = map_of obj k)
     \<and> \<not> blank_default_pool obj'
     \<and> migrate_pools (JObj obj') = (JObj obj', False)"
proof -
  obtain o1 pool where mv: "move_keys LEGACY_POOL_KEYS (obj, []) = (o1, pool)" by fastforce
  note lk = move_keys_lookup [OF assms(1) mv LEGACY_distinct(1), simplified]
  define o2 where "o2 = obj_insert ''pools'' (JObj [(DEFAULT_POOL, JObj pool)]) o1"
  define o3 where "o3 = (if blank_default_pool o2 then obj_insert ''defaultPool'' (JStr DEFAULT_POOL) o2 else o2)"
  have m: "migrate_pools (JObj obj) = (JObj o3, True)"
    using assms(2) by (simp add: migrate_pools_def mv o2_def o3_def obj_insert_def)
  have nb: "\<not> blank_default_pool o3"
    by (simp add: o3_def blank_default_pool_def trim_DEFAULT_POOL) (simp add: DEFAULT_POOL_def)
  have p3: "map_of o3 ''pools'' = Some (JObj [(DEFAULT_POOL, JObj pool)])"
    by (simp add: o3_def o2_def)
  have again: "migrate_pools (JObj o3) = (JObj o3, False)"
    using nb p3 by (simp add: migrate_pools_def)
  have rest: "map_of o3 k = map_of obj k"
    if "k \<notin> set LEGACY_POOL_KEYS" "k \<noteq> ''pools''" "k \<noteq> ''defaultPool''" for k
    using that lk by (simp add: o3_def o2_def)
  have pl: "map_of pool = (\<lambda>k. if k \<in> set LEGACY_POOL_KEYS then map_of obj k else None)"
    using lk by (simp add: fun_eq_iff)
  show ?thesis
    by (intro exI [of _ o3] exI [of _ pool] conjI allI impI m nb p3 again pl rest) simp_all
qed

theorem migrate_pools_lossless_witness:
  "\<exists>obj' pool. migrate_pools (JObj [(''holdSeconds'', JInt 5), (''upstream'', JStr ''u'')]) = (JObj obj', True)
     \<and> map_of pool ''holdSeconds'' = Some (JInt 5) \<and> map_of obj' ''upstream'' = Some (JStr ''u'')"
proof -
  have d: "distinct (al_keys [(''holdSeconds'', JInt 5), (''upstream'', JStr ''u'')])"
    and p: "map_of [(''holdSeconds'', JInt 5), (''upstream'', JStr ''u'')] ''pools'' = None" by simp_all
  have "''upstream'' \<notin> set LEGACY_POOL_KEYS" "''holdSeconds'' \<in> set LEGACY_POOL_KEYS"
    by (simp_all add: LEGACY_POOL_KEYS_def)
  moreover have "''upstream'' \<noteq> ''pools''" "''upstream'' \<noteq> ''defaultPool''" by simp_all
  moreover obtain obj' pool where
      "migrate_pools (JObj [(''holdSeconds'', JInt 5), (''upstream'', JStr ''u'')]) = (JObj obj', True)"
      "map_of pool = (\<lambda>k. if k \<in> set LEGACY_POOL_KEYS
         then map_of [(''holdSeconds'', JInt 5), (''upstream'', JStr ''u'')] k else None)"
      "\<forall>k. k \<notin> set LEGACY_POOL_KEYS \<and> k \<noteq> ''pools'' \<and> k \<noteq> ''defaultPool'' \<longrightarrow>
         map_of obj' k = map_of [(''holdSeconds'', JInt 5), (''upstream'', JStr ''u'')] k"
    using migrate_pools_lossless [OF d p] by blast
  ultimately show ?thesis by (intro exI [of _ obj'] exI [of _ pool]) simp
qed

end
