(* ===== verification/Config_Ops.thy ===== *)
theory Config_Ops
  imports Config
begin

text \<open>
  \<open>src/config.rs\<close>, continued: what a load fixes up and rejects, pool bookkeeping, the
  resolution of account handles, and the persisted state file.
\<close>

subsection \<open>Account ids\<close>

definition all_accounts :: "config \<Rightarrow> (string \<times> account_config) list" where
  "all_accounts c = concat (map (\<lambda>(name, p). map (Pair name) (pc_accounts p)) (cf_pools c))"

text \<open>\<open>uuid n\<close> is the \<open>n\<close>-th id \<open>Uuid::new_v4\<close> issues; \<open>seen\<close> is the set of ids so far.\<close>

definition id_is_fresh :: "string list \<Rightarrow> account_config \<Rightarrow> bool" where
  "id_is_fresh seen a =
     (\<not> (case ac_id a of Some i \<Rightarrow> i \<noteq> [] \<and> i \<notin> set seen | None \<Rightarrow> False))"

fun ids_accounts ::
  "(nat \<Rightarrow> string) \<Rightarrow> account_config list \<Rightarrow> nat \<times> string list \<times> bool \<Rightarrow>
   account_config list \<times> nat \<times> string list \<times> bool" where
  "ids_accounts uuid [] (n, seen, ch) = ([], n, seen, ch)"
| "ids_accounts uuid (a # as) (n, seen, ch) =
     (if id_is_fresh seen a
      then (case ids_accounts uuid as (Suc n, uuid n # seen, True) of
              (as', st) \<Rightarrow> (a\<lparr>ac_id := Some (uuid n)\<rparr> # as', st))
      else (case ids_accounts uuid as (n, the (ac_id a) # seen, ch) of (as', st) \<Rightarrow> (a # as', st)))"

fun ids_pools ::
  "(nat \<Rightarrow> string) \<Rightarrow> (string \<times> pool_config) list \<Rightarrow> nat \<times> string list \<times> bool \<Rightarrow>
   (string \<times> pool_config) list \<times> nat \<times> string list \<times> bool" where
  "ids_pools uuid [] st = ([], st)"
| "ids_pools uuid ((name, p) # ps) st =
     (case ids_accounts uuid (pc_accounts p) st of
        (as, st') \<Rightarrow>
          (case ids_pools uuid ps st' of (ps', st'') \<Rightarrow> ((name, p\<lparr>pc_accounts := as\<rparr>) # ps', st'')))"

definition ensure_account_ids :: "(nat \<Rightarrow> string) \<Rightarrow> config \<Rightarrow> config \<times> bool" where
  "ensure_account_ids uuid c =
     (case ids_pools uuid (cf_pools c) (0, [], False) of
        (ps, _, _, ch) \<Rightarrow> (c\<lparr>cf_pools := ps\<rparr>, ch))"

definition config_ids :: "config \<Rightarrow> string option list" where
  "config_ids c = map (\<lambda>(_, a). ac_id a) (all_accounts c)"

definition ids_unique :: "config \<Rightarrow> bool" where
  "ids_unique c \<longleftrightarrow> distinct (config_ids c) \<and> None \<notin> set (config_ids c) \<and> Some [] \<notin> set (config_ids c)"

definition pools_ids :: "(string \<times> pool_config) list \<Rightarrow> string option list" where
  "pools_ids ps = concat (map (\<lambda>(_, p). map ac_id (pc_accounts p)) ps)"

lemma config_ids_pools: "config_ids c = pools_ids (cf_pools c)"
proof -
  have "map (\<lambda>(_, a). ac_id a) (concat (map (\<lambda>(name, p). map (Pair name) (pc_accounts p)) ps)) = pools_ids ps"
    for ps by (induction ps) (auto simp: pools_ids_def)
  then show ?thesis by (simp add: config_ids_def all_accounts_def)
qed

text \<open>The random ids never repeat and never hit an id already in the file.\<close>

definition uuid_fresh :: "(nat \<Rightarrow> string) \<Rightarrow> config \<Rightarrow> bool" where
  "uuid_fresh uuid c \<longleftrightarrow> inj uuid \<and> (\<forall>n. uuid n \<noteq> [] \<and> Some (uuid n) \<notin> set (config_ids c))"

text \<open>The loop invariant: \<open>seen\<close> is duplicate free, holds no empty id, and any generated id in
  it was generated before.\<close>

definition ids_inv :: "(nat \<Rightarrow> string) \<Rightarrow> nat \<Rightarrow> string list \<Rightarrow> bool" where
  "ids_inv uuid n seen \<longleftrightarrow> distinct seen \<and> [] \<notin> set seen \<and> (\<forall>m. uuid m \<in> set seen \<longrightarrow> m < n)"

lemma ids_accounts_spec:
  assumes "inj uuid" and "\<And>m. uuid m \<noteq> []" and "\<And>m. Some (uuid m) \<notin> set (map ac_id as)"
    and "ids_inv uuid n seen" and "ids_accounts uuid as (n, seen, ch) = (as', n', seen', ch')"
  shows "ids_inv uuid n' seen' \<and> map Some seen' = rev (map ac_id as') @ map Some seen"
  using assms
proof (induction as arbitrary: n seen ch as')
  case Nil
  then show ?case by simp
next
  case (Cons a as)
  show ?case
  proof (cases "id_is_fresh seen a")
    case True
    then obtain bs where bs: "ids_accounts uuid as (Suc n, uuid n # seen, True) = (bs, n', seen', ch')"
        "as' = a\<lparr>ac_id := Some (uuid n)\<rparr> # bs"
      using Cons.prems(5) by (auto split: prod.splits)
    have "[] \<noteq> uuid n" using Cons.prems(2) [of n] by metis
    then have "ids_inv uuid (Suc n) (uuid n # seen)"
      using Cons.prems(1,4) by (auto simp: ids_inv_def inj_def less_Suc_eq)
    with Cons.IH [OF Cons.prems(1,2) _ _ bs(1)] Cons.prems(3) bs(2) show ?thesis by auto
  next
    case False
    then obtain i where i: "ac_id a = Some i" "i \<noteq> []" "i \<notin> set seen"
      by (auto simp: id_is_fresh_def split: option.splits)
    obtain bs where bs: "ids_accounts uuid as (n, i # seen, ch) = (bs, n', seen', ch')" "as' = a # bs"
      using Cons.prems(5) False i by (auto split: prod.splits)
    have "ids_inv uuid n (i # seen)"
      using Cons.prems(3,4) i by (auto simp: ids_inv_def)
    with Cons.IH [OF Cons.prems(1,2) _ _ bs(1)] Cons.prems(3) bs(2) i show ?thesis by auto
  qed
qed

lemma ids_pools_spec:
  assumes "inj uuid" and "\<And>m. uuid m \<noteq> []" and "\<And>m. Some (uuid m) \<notin> set (pools_ids ps)"
    and "ids_inv uuid n seen" and "ids_pools uuid ps (n, seen, ch) = (ps', n', seen', ch')"
  shows "ids_inv uuid n' seen' \<and> map Some seen' = rev (pools_ids ps') @ map Some seen"
  using assms
proof (induction ps arbitrary: n seen ch ps')
  case Nil
  then show ?case by (simp add: pools_ids_def)
next
  case (Cons x ps)
  obtain name p where x: "x = (name, p)" by (cases x)
  obtain as n1 seen1 ch1 where 1: "ids_accounts uuid (pc_accounts p) (n, seen, ch) = (as, n1, seen1, ch1)"
    by (cases "ids_accounts uuid (pc_accounts p) (n, seen, ch)") auto
  obtain qs where 2: "ids_pools uuid ps (n1, seen1, ch1) = (qs, n', seen', ch')"
      "ps' = (name, p\<lparr>pc_accounts := as\<rparr>) # qs"
    using Cons.prems(5) x 1 by (auto split: prod.splits)
  have a: "ids_inv uuid n1 seen1 \<and> map Some seen1 = rev (map ac_id as) @ map Some seen"
    using Cons.prems(3) x by (intro ids_accounts_spec [OF Cons.prems(1,2) _ Cons.prems(4) 1])
      (auto simp: pools_ids_def)
  have "ids_inv uuid n' seen' \<and> map Some seen' = rev (pools_ids qs) @ map Some seen1"
    using Cons.prems(3) a x by (intro Cons.IH [OF Cons.prems(1,2) _ _ 2(1)]) (auto simp: pools_ids_def)
  with a 2(2) show ?case by (simp add: pools_ids_def)
qed

lemma ids_accounts_noop:
  assumes "distinct (map ac_id as)" and "None \<notin> set (map ac_id as)" and "Some [] \<notin> set (map ac_id as)"
    and "set (map ac_id as) \<inter> Some ` set seen = {}"
  shows "ids_accounts uuid as (n, seen, ch) = (as, n, rev (map (the \<circ> ac_id) as) @ seen, ch)"
  using assms
proof (induction as arbitrary: seen)
  case (Cons a as)
  obtain i where i: "ac_id a = Some i" using Cons.prems(2) by (cases "ac_id a") auto
  have ne: "i \<noteq> []" using Cons.prems(3) i by auto
  have ns: "i \<notin> set seen" using Cons.prems(4) i by auto
  have "ids_accounts uuid as (n, i # seen, ch) = (as, n, rev (map (the \<circ> ac_id) as) @ i # seen, ch)"
    using Cons.prems i by (intro Cons.IH) auto
  with i ne ns show ?case by (simp add: id_is_fresh_def)
qed simp

lemma ids_pools_noop:
  assumes "distinct (pools_ids ps)" and "None \<notin> set (pools_ids ps)" and "Some [] \<notin> set (pools_ids ps)"
    and "set (pools_ids ps) \<inter> Some ` set seen = {}"
  shows "\<exists>seen'. ids_pools uuid ps (n, seen, ch) = (ps, n, seen', ch)"
  using assms
proof (induction ps arbitrary: seen)
  case (Cons x ps)
  obtain name p where x: "x = (name, p)" by (cases x)
  have ids: "pools_ids (x # ps) = map ac_id (pc_accounts p) @ pools_ids ps"
    by (simp add: pools_ids_def x)
  let ?s = "rev (map (the \<circ> ac_id) (pc_accounts p)) @ seen"
  have 1: "ids_accounts uuid (pc_accounts p) (n, seen, ch) = (pc_accounts p, n, ?s, ch)"
    using Cons.prems unfolding ids by (intro ids_accounts_noop) (simp_all add: Int_Un_distrib2)
  have none: "None \<notin> ac_id ` set (pc_accounts p)" using Cons.prems(2) by (simp add: ids)
  have "Some (the (ac_id a)) = ac_id a" if "a \<in> set (pc_accounts p)" for a
  proof (cases "ac_id a")
    case None
    have "None \<in> ac_id ` set (pc_accounts p)" using None [symmetric] that by (rule image_eqI)
    with none show ?thesis by blast
  qed simp
  then have "Some ` set (map (the \<circ> ac_id) (pc_accounts p)) = set (map ac_id (pc_accounts p))"
    by (simp add: image_image cong: image_cong_simp)
  then have sub: "Some ` set ?s \<subseteq> set (map ac_id (pc_accounts p)) \<union> Some ` set seen"
    by (simp only: set_append set_rev image_Un order_refl)
  have "set (map ac_id (pc_accounts p)) \<inter> set (pools_ids ps) = {}"
    and "set (pools_ids ps) \<inter> Some ` set seen = {}"
    using Cons.prems(1,4) unfolding ids by (simp_all add: Int_Un_distrib2)
  with sub have "set (pools_ids ps) \<inter> Some ` set ?s = {}" by blast
  then obtain seen' where "ids_pools uuid ps (n, ?s, ch) = (ps, n, seen', ch)"
    using Cons.IH Cons.prems unfolding ids by fastforce
  with 1 show ?case by (simp add: x)
qed simp

lemma ensured_ids:
  assumes "uuid_fresh uuid c" and "ensure_account_ids uuid c = (c', ch)"
  shows "ids_unique c' \<and> (\<exists>ps. c' = c\<lparr>cf_pools := ps\<rparr>)"
proof -
  obtain ps n' seen' where r: "ids_pools uuid (cf_pools c) (0, [], False) = (ps, n', seen', ch)"
      "c' = c\<lparr>cf_pools := ps\<rparr>"
    using assms(2) by (auto simp: ensure_account_ids_def split: prod.splits)
  have "ids_inv uuid n' seen' \<and> map Some seen' = rev (pools_ids ps) @ map Some []"
    using assms(1) by (intro ids_pools_spec [OF _ _ _ _ r(1)])
      (auto simp: uuid_fresh_def config_ids_pools ids_inv_def)
  then have "distinct seen'" "[] \<notin> set seen'" "pools_ids ps = rev (map Some seen')"
    by (auto simp: ids_inv_def)
  then show ?thesis by (auto simp: ids_unique_def config_ids_pools r(2) distinct_map)
qed

lemma ids_unique_ensured:
  "ensure_account_ids uuid c = (c', ch) \<Longrightarrow> uuid_fresh uuid c \<Longrightarrow> ids_unique c'"
  using ensured_ids by blast

lemma ensure_account_ids_noop:
  assumes "ids_unique c"
  shows "ensure_account_ids uuid c = (c, False)"
proof -
  have "\<exists>s. ids_pools uuid (cf_pools c) (0, [], False) = (cf_pools c, 0, s, False)"
    using assms by (intro ids_pools_noop) (simp_all add: ids_unique_def config_ids_pools)
  then show ?thesis by (auto simp: ensure_account_ids_def)
qed

text \<open>After \<open>ensure_account_ids\<close> every account of the file has a non-empty id and no two
  accounts of any pools share one, and running it again issues nothing, so ids do not churn
  from one load to the next.\<close>

theorem ensure_account_ids_unique:
  assumes "uuid_fresh uuid c" and "ensure_account_ids uuid c = (c', ch)"
  shows "ids_unique c' \<and> ensure_account_ids uuid' c' = (c', False)"
  using ensured_ids [OF assms] ensure_account_ids_noop by blast

theorem ensure_account_ids_unique_witness:
  "ids_unique (fst (ensure_account_ids (\<lambda>n. replicate (Suc n) CHR ''x'')
     (config_default ''k''\<lparr>cf_pools := [(''default'', pool_default\<lparr>pc_accounts :=
        [account_config_default, account_config_default\<lparr>ac_id := Some ''a''\<rparr>,
         account_config_default\<lparr>ac_id := Some ''a''\<rparr>]\<rparr>)]\<rparr>)))"
  (is "ids_unique (fst (ensure_account_ids ?u ?c))")
proof -
  have "inj ?u" by (metis (no_types, lifting) injI length_replicate nat.inject)
  then have f: "uuid_fresh ?u ?c"
    by (simp add: uuid_fresh_def config_ids_def all_accounts_def account_config_default_def pool_default_def)
  obtain c' ch where e: "ensure_account_ids ?u ?c = (c', ch)" by (rule prod.exhaust)
  from ensure_account_ids_unique [OF f e] show ?thesis unfolding e by simp
qed

end
