(* ===== verification/Config_Load.thy ===== *)
theory Config_Load
  imports Config_Ops
begin

text \<open>
  \<open>src/config.rs\<close>, continued: \<open>Config::load_from\<close> with the invariants it
  establishes, pool bookkeeping, the resolution of account handles and the persisted state.
\<close>

subsection \<open>Pools\<close>

definition ensure_pools :: "config \<Rightarrow> config" where
  "ensure_pools c0 =
     (let c = (if trim (cf_default_pool c0) = [] then c0\<lparr>cf_default_pool := DEFAULT_POOL\<rparr> else c0)
      in if cf_pools c = [] then c\<lparr>cf_pools := bt_insert (cf_default_pool c) pool_default []\<rparr>
         else if map_of (cf_pools c) (cf_default_pool c) = None
         then c\<lparr>cf_default_pool := fst (hd (cf_pools c))\<rparr>
         else c)"

definition config_pool :: "config \<Rightarrow> string \<Rightarrow> pool_config option" where
  "config_pool c name = map_of (cf_pools c) name"

definition pool_or_default :: "config \<Rightarrow> string option \<Rightarrow> pool_config" where
  "pool_or_default c name =
     unwrap_or pool_default
       (opt_or (opt_or (Option.bind name (map_of (cf_pools c))) (map_of (cf_pools c) (cf_default_pool c)))
          (case cf_pools c of [] \<Rightarrow> None | (_, p) # _ \<Rightarrow> Some p))"

definition pool_names :: "config \<Rightarrow> string list" where
  "pool_names c =
     (let names = sort (filter (\<lambda>k. k \<noteq> cf_default_pool c) (al_keys (cf_pools c)))
      in if al_has (cf_pools c) (cf_default_pool c) then cf_default_pool c # names else names)"

definition ensure_pool :: "string \<Rightarrow> config \<Rightarrow> cfg_error + config" where
  "ensure_pool name c =
     res_bind (validate_pool_name name)
       (\<lambda>_. Inr (if al_has (cf_pools c) name then c
                 else c\<lparr>cf_pools := bt_insert name pool_default (cf_pools c)\<rparr>))"

definition rename_pool :: "string \<Rightarrow> string \<Rightarrow> config \<Rightarrow> cfg_error + config" where
  "rename_pool old new c =
     (if old = new then Inr c
      else res_bind (validate_pool_name new) (\<lambda>_.
        if al_has (cf_pools c) new then Inl PoolExists
        else (case map_of (cf_pools c) old of
                None \<Rightarrow> Inl NoSuchPool
              | Some pool \<Rightarrow>
                  Inr (c\<lparr>cf_pools := bt_insert new pool (AList.delete old (cf_pools c)),
                         cf_default_pool := (if cf_default_pool c = old then new else cf_default_pool c)\<rparr>))))"

definition pools_ok :: "config \<Rightarrow> bool" where
  "pools_ok c \<longleftrightarrow> bt_inv (cf_pools c) \<and> al_has (cf_pools c) (cf_default_pool c)"

lemma ensure_pools_ok: "bt_inv (cf_pools c) \<Longrightarrow> pools_ok (ensure_pools c)"
  by (cases "cf_pools c") (auto simp: ensure_pools_def pools_ok_def Let_def bt_inv_def)

lemma pool_or_default_ok:
  "pools_ok c \<Longrightarrow> pool_or_default c name =
     (case Option.bind name (map_of (cf_pools c)) of
        Some p \<Rightarrow> p | None \<Rightarrow> the (map_of (cf_pools c) (cf_default_pool c)))"
  by (auto simp: pool_or_default_def pools_ok_def split: option.splits)

text \<open>Renaming a pool succeeds exactly when the new name is legal and free and the old one
  exists (a rename to itself always does); it then moves that pool and no other, the
  default-pool pointer follows, and the map stays sorted with the default pool in it.\<close>

theorem rename_pool_correct:
  assumes "pools_ok c"
  shows "((\<exists>c'. rename_pool old new c = Inr c') \<longleftrightarrow>
            old = new \<or> validate_pool_name new = Inr () \<and> config_pool c new = None \<and> config_pool c old \<noteq> None)
       \<and> (\<forall>c'. rename_pool old new c = Inr c' \<longrightarrow>
            pools_ok c'
            \<and> config_pool c' = (\<lambda>k. if k = new then config_pool c old
                                   else if k = old then None else config_pool c k)
            \<and> cf_default_pool c' = (if cf_default_pool c = old then new else cf_default_pool c))"
proof -
  have inv: "bt_inv (cf_pools c)" using assms by (simp add: pools_ok_def)
  note move = bt.lookup_move [OF inv]
  have 1: "(\<exists>c'. rename_pool old new c = Inr c') \<longleftrightarrow>
            old = new \<or> validate_pool_name new = Inr () \<and> config_pool c new = None \<and> config_pool c old \<noteq> None"
    by (auto simp: rename_pool_def config_pool_def split: option.splits)
  have 2: "pools_ok c' \<and> config_pool c' = (\<lambda>k. if k = new then config_pool c old
                                   else if k = old then None else config_pool c k)
            \<and> cf_default_pool c' = (if cf_default_pool c = old then new else cf_default_pool c)"
    if r: "rename_pool old new c = Inr c'" for c'
  proof (cases "old = new")
    case True
    with r assms show ?thesis by (auto simp: rename_pool_def)
  next
    case False
    with r obtain pool where n: "map_of (cf_pools c) new = None" and o: "map_of (cf_pools c) old = Some pool"
      and c': "c' = c\<lparr>cf_pools := bt_insert new pool (AList.delete old (cf_pools c)),
                 cf_default_pool := (if cf_default_pool c = old then new else cf_default_pool c)\<rparr>"
      by (auto simp: rename_pool_def split: option.splits if_splits)
    have "bt_inv (cf_pools c')" using inv by (simp add: c' bt.inv_put bt.inv_del)
    with assms n o False show ?thesis
      by (simp add: c' pools_ok_def config_pool_def move [OF o n] fun_eq_iff del: map_of_bt_insert)
  qed
  from 1 2 show ?thesis by blast
qed

theorem rename_pool_correct_witness:
  "\<exists>c'. rename_pool ''default'' ''work'' (config_default ''k'') = Inr c'
     \<and> pools_ok c' \<and> cf_default_pool c' = ''work'' \<and> config_pool c' ''work'' = Some pool_default"
proof -
  have ok: "pools_ok (config_default ''k'')"
    by (simp add: pools_ok_def config_default_def bt_inv_def)
  have v: "validate_pool_name ''work'' = Inr ()" by code_simp
  have d: "config_pool (config_default ''k'') ''work'' = None"
    "config_pool (config_default ''k'') ''default'' = Some pool_default"
    "cf_default_pool (config_default ''k'') = ''default''"
    by (simp_all add: config_default_def config_pool_def DEFAULT_POOL_def)
  from rename_pool_correct [OF ok, of "''default''" "''work''"] v d show ?thesis by auto
qed

subsection \<open>Addresses\<close>

definition bind_host :: "ext \<Rightarrow> config \<Rightarrow> string" where
  "bind_host E c =
     unwrap_or ''127.0.0.1''
       (opt_or (opt_filter (\<lambda>h. h \<noteq> []) (getenv E ''CORRALL_HOST'')) (px_host (cf_proxy c)))"

definition dial_host :: "ext \<Rightarrow> config \<Rightarrow> string" where
  "dial_host E c =
     (let h = strip_brackets (bind_host E c);
          wildcard = (h = [] \<or> (case parse_ip h of Some ip \<Rightarrow> is_unspecified ip | None \<Rightarrow> False))
      in if wildcard \<or> eq_ignore_case h ''localhost'' then ''127.0.0.1'' else h)"

definition dial_authority :: "ext \<Rightarrow> config \<Rightarrow> string" where
  "dial_authority E c =
     (let h = dial_host E c; port = show_nat (px_port (cf_proxy c))
      in if contains h '':'' then ''['' @ h @ '']:'' @ port else h @ '':'' @ port)"

subsection \<open>Validation\<close>

definition validate_upstream :: "ext \<Rightarrow> string \<Rightarrow> cfg_error + unit" where
  "validate_upstream E u =
     (case url_scheme E u of
        None \<Rightarrow> Inl NotAUrl
      | Some s \<Rightarrow>
          if s = ''https'' then Inr ()
          else if s = ''http''
          then ensure (is_loopback_host (unwrap_or [] (url_host E u))) PlainHttp
          else Inl BadScheme)"

definition RESERVED_DIMENSION_HEADERS :: "string list" where
  "RESERVED_DIMENSION_HEADERS =
     [''authorization'', ''proxy-authorization'', ''cookie'', ''x-api-key'', ''x-app'',
      ''x-claude-code-session-id'', ''x-claude-code-agent-id'', ''x-claude-code-parent-agent-id'',
      ''x-anthropic-additional-protection'', ''host'', ''content-length'']"

definition validate_account :: "ext \<Rightarrow> account_config \<Rightarrow> cfg_error + unit" where
  "validate_account E a =
     res_bind (case ac_upstream a of Some u \<Rightarrow> validate_upstream E u | None \<Rightarrow> Inr ())
       (\<lambda>_. ensure (trim (ac_name a) \<noteq> []) EmptyAccountName)"

definition validate_pool :: "ext \<Rightarrow> string \<times> pool_config \<Rightarrow> cfg_error + unit" where
  "validate_pool E = (\<lambda>(name, p).
     res_bind (validate_pool_name name) (\<lambda>_.
     res_bind (case pc_match_rules p of Some m \<Rightarrow> pool_match_validate E m | None \<Rightarrow> Inr ()) (\<lambda>_.
     try_all (validate_account E) (pc_accounts p))))"

definition config_validate :: "ext \<Rightarrow> config \<Rightarrow> cfg_error + unit" where
  "config_validate E c =
     res_bind (ensure (is_loopback_host (bind_host E c) \<or> 16 \<le> length (trim (px_api_key (cf_proxy c)))) KeyTooShort) (\<lambda>_.
     res_bind (validate_upstream E (cf_upstream c)) (\<lambda>_.
     res_bind (ensure (cf_pools c \<noteq> []) NoPools) (\<lambda>_.
     res_bind (ensure (al_has (cf_pools c) (cf_default_pool c)) NoDefaultPool) (\<lambda>_.
     res_bind (try_all (validate_pool E) (cf_pools c)) (\<lambda>_.
     res_bind (try_all (\<lambda>k. ensure (16 \<le> length (ck_key k)) ClientKeyTooShort) (px_client_keys (cf_proxy c))) (\<lambda>_.
     try_all (\<lambda>d. ensure (to_lower (ud_header d) \<notin> set RESERVED_DIMENSION_HEADERS) ReservedHeader)
       (px_usage_dimensions (cf_proxy c))))))))"

text \<open>What validation promises.\<close>

definition safe_upstream :: "ext \<Rightarrow> string \<Rightarrow> bool" where
  "safe_upstream E u \<longleftrightarrow>
     url_scheme E u = Some ''https'' \<or>
     url_scheme E u = Some ''http'' \<and> is_loopback_host (unwrap_or [] (url_host E u))"

lemma validate_upstream_ok: "validate_upstream E u = Inr () \<longleftrightarrow> safe_upstream E u"
  by (auto simp: validate_upstream_def safe_upstream_def split: option.splits)

lemma validate_pool_okD:
  assumes "validate_pool E (name, p) = Inr ()"
  shows "validate_pool_name name = Inr ()"
    and "a \<in> set (pc_accounts p) \<Longrightarrow> ac_upstream a = Some u \<Longrightarrow> safe_upstream E u"
    and "a \<in> set (pc_accounts p) \<Longrightarrow> trim (ac_name a) \<noteq> []"
  using assms by (fastforce simp: validate_pool_def try_all_Inr validate_account_def validate_upstream_ok)+

subsection \<open>Loading\<close>

text \<open>\<open>decode\<close> is serde's \<open>from_value\<close>; \<open>key\<close> and \<open>uuid\<close> are the values the random
  generators draw; \<open>legacy\<close> says that a pre-rename file lies beside the missing one. The
  second component of a result is what is written back.\<close>

datatype file_read = NotFound | ReadError | Bytes string

definition load_from ::
  "ext \<Rightarrow> (json \<Rightarrow> config option) \<Rightarrow> string \<Rightarrow> (nat \<Rightarrow> string) \<Rightarrow> bool \<Rightarrow> file_read \<Rightarrow>
   cfg_error + (config \<times> config option) option" where
  "load_from E decode key uuid legacy file =
     (case file of
        NotFound \<Rightarrow> if legacy then Inl LegacyConfig else Inr None
      | ReadError \<Rightarrow> Inl ReadFailed
      | Bytes raw \<Rightarrow>
          (case json_parse E raw of
             None \<Rightarrow> Inl ParseFailed
           | Some doc0 \<Rightarrow>
               (case migrate_pools doc0 of (doc, migrated) \<Rightarrow>
                  let keyless = needs_api_key doc
                  in (case decode doc of
                        None \<Rightarrow> Inl ParseFailed
                      | Some c0 \<Rightarrow>
                          let c1 = (if keyless then c0\<lparr>cf_proxy := (cf_proxy c0)\<lparr>px_api_key := key\<rparr>\<rparr> else c0)
                          in (case ensure_account_ids uuid (ensure_pools c1) of (c, ids_issued) \<Rightarrow>
                                res_bind (config_validate E c) (\<lambda>_.
                                  Inr (Some (c, if migrated \<or> keyless \<or> ids_issued then Some c else None))))))))"

definition load_or_create ::
  "ext \<Rightarrow> (json \<Rightarrow> config option) \<Rightarrow> string \<Rightarrow> (nat \<Rightarrow> string) \<Rightarrow> bool \<Rightarrow> file_read \<Rightarrow>
   cfg_error + (config \<times> config option)" where
  "load_or_create E decode key uuid legacy file =
     res_bind (load_from E decode key uuid legacy file) (\<lambda>r.
       case r of Some cw \<Rightarrow> Inr cw | None \<Rightarrow> Inr (config_default key, Some (config_default key)))"

text \<open>Everything the router relies on after a load.\<close>

definition config_wf :: "ext \<Rightarrow> config \<Rightarrow> bool" where
  "config_wf E c \<longleftrightarrow>
     pools_ok c \<and> ids_unique c
     \<and> (is_loopback_host (bind_host E c) \<or> 16 \<le> length (trim (px_api_key (cf_proxy c))))
     \<and> safe_upstream E (cf_upstream c)
     \<and> (\<forall>(name, p) \<in> set (cf_pools c). validate_pool_name name = Inr ()
          \<and> (\<forall>a \<in> set (pc_accounts p). trim (ac_name a) \<noteq> []
               \<and> (\<forall>u. ac_upstream a = Some u \<longrightarrow> safe_upstream E u)))"

lemma ids_pools_keys: "ids_pools uuid ps st = (ps', st') \<Longrightarrow> al_keys ps' = al_keys ps"
proof (induction ps arbitrary: st ps')
  case (Cons x ps)
  obtain name p where "x = (name, p)" by (cases x)
  with Cons show ?case by (auto split: prod.splits)
qed simp

lemma ensure_account_ids_pools_ok:
  assumes "pools_ok c" and "ensure_account_ids uuid c = (c', ch)"
  shows "pools_ok c'"
proof -
  obtain ps st where "ids_pools uuid (cf_pools c) (0, [], False) = (ps, st)" "c' = c\<lparr>cf_pools := ps\<rparr>"
    using assms(2) by (auto simp: ensure_account_ids_def split: prod.splits)
  with ids_pools_keys [OF this(1)] have k: "al_keys (cf_pools c') = al_keys (cf_pools c)"
    and d: "cf_default_pool c' = cf_default_pool c" by simp_all
  have "al_has (cf_pools c') k \<longleftrightarrow> al_has (cf_pools c) k" for k
    using arg_cong [OF k, of set] by (metis map_of_eq_None_iff list.set_map)
  with assms(1) k d show ?thesis by (simp add: pools_ok_def bt_inv_def)
qed

lemma load_from_cases:
  assumes "load_from E decode key uuid legacy file = Inr (Some (c, w))"
  obtains c1 ch where "ensure_account_ids uuid (ensure_pools c1) = (c, ch)"
    "config_validate E c = Inr ()" "ch \<Longrightarrow> w = Some c" "w = None \<or> w = Some c"
    "\<exists>raw doc0 doc c0. file = Bytes raw \<and> json_parse E raw = Some doc0 \<and> doc = fst (migrate_pools doc0)
       \<and> decode doc = Some c0 \<and> cf_pools c1 = cf_pools c0
       \<and> px_api_key (cf_proxy c1) = (if needs_api_key doc then key else px_api_key (cf_proxy c0))
       \<and> (needs_api_key doc \<or> snd (migrate_pools doc0) \<longrightarrow> w = Some c)"
  using assms unfolding load_from_def
  by (auto simp: Let_def split: option.splits prod.splits if_splits file_read.splits)

lemma ids_accounts_unchanged:
  "ids_accounts uuid as (n, seen, ch) = (as', n', seen', ch') \<Longrightarrow> (ch \<longrightarrow> ch') \<and> (\<not> ch' \<longrightarrow> as' = as)"
proof (induction as arbitrary: n seen ch as')
  case (Cons a as)
  then show ?case by (fastforce split: if_splits prod.splits)
qed simp

lemma ids_pools_unchanged:
  "ids_pools uuid ps st = (ps', n', seen', ch') \<Longrightarrow> (snd (snd st) \<longrightarrow> ch') \<and> (\<not> ch' \<longrightarrow> ps' = ps)"
proof (induction ps arbitrary: st ps')
  case (Cons x ps)
  obtain name p where x: "x = (name, p)" by (cases x)
  obtain n seen ch where st: "st = (n, seen, ch)" by (cases st)
  obtain as n1 seen1 ch1 where 1: "ids_accounts uuid (pc_accounts p) st = (as, n1, seen1, ch1)"
    by (cases "ids_accounts uuid (pc_accounts p) st")
  obtain qs where 2: "ids_pools uuid ps (n1, seen1, ch1) = (qs, n', seen', ch')"
    using Cons.prems 1 by (auto simp: x split: prod.splits)
  then have "ps' = (name, p\<lparr>pc_accounts := as\<rparr>) # qs" using Cons.prems 1 by (simp add: x)
  with Cons.IH [OF 2] ids_accounts_unchanged [OF 1 [unfolded st]] show ?case by (auto simp: x st)
qed simp

lemma ensure_account_ids_unchanged: "ensure_account_ids uuid c = (c', False) \<Longrightarrow> c' = c"
  by (auto simp: ensure_account_ids_def split: prod.splits dest: ids_pools_unchanged)

text \<open>What is not written back is what the file holds.\<close>

lemma load_from_silent:
  assumes "load_from E decode key uuid legacy file = Inr (Some (c, None))"
  shows "\<exists>raw doc c0. file = Bytes raw \<and> json_parse E raw = Some doc \<and> \<not> snd (migrate_pools doc)
     \<and> decode (fst (migrate_pools doc)) = Some c0 \<and> c = ensure_pools c0"
  using assms unfolding load_from_def
  by (auto simp: Let_def split: option.splits prod.splits if_splits file_read.splits dest: ensure_account_ids_unchanged)

text \<open>C38: Whatever file it reads, a load that returns a configuration returns one the router can
  run on: the default pool exists, account ids are unique and non-empty, no listener off
  loopback is without a key of at least 16 characters, and every upstream that will receive
  credentials is \<open>https\<close> or a loopback address. What the load had to fill in is written back, and it is the
  configuration returned: always when the file had the old shape or no proxy key, and when nothing is written
  then no account was given an id, and the configuration is what the file holds, up to the default pool that is
  put in or chosen when the file names none of its own. What is relied on is that decoding yields the pools as an
  ordered map and that the ids drawn are new.\<close>

theorem load_from_wf:
  assumes "load_from E decode key uuid legacy file = Inr (Some (c, w))"
    and "\<And>doc c0. decode doc = Some c0 \<Longrightarrow> bt_inv (cf_pools c0)"
    and "\<And>doc c0. decode doc = Some c0 \<Longrightarrow> uuid_fresh uuid c0"
  shows "config_wf E c \<and> (w = None \<or> w = Some c)
     \<and> (\<forall>raw doc0. file = Bytes raw \<and> json_parse E raw = Some doc0 \<and>
          (snd (migrate_pools doc0) \<or> needs_api_key (fst (migrate_pools doc0))) \<longrightarrow> w = Some c)
     \<and> (w = None \<longrightarrow> (\<exists>raw doc c0. file = Bytes raw \<and> json_parse E raw = Some doc \<and> \<not> snd (migrate_pools doc)
          \<and> decode (fst (migrate_pools doc)) = Some c0 \<and> c = ensure_pools c0))"
proof -
  from assms(1) obtain c1 ch where e: "ensure_account_ids uuid (ensure_pools c1) = (c, ch)"
    and v: "config_validate E c = Inr ()" and w: "w = None \<or> w = Some c"
    and d: "\<exists>raw doc0 doc c0. file = Bytes raw \<and> json_parse E raw = Some doc0 \<and> doc = fst (migrate_pools doc0)
       \<and> decode doc = Some c0 \<and> cf_pools c1 = cf_pools c0
       \<and> px_api_key (cf_proxy c1) = (if needs_api_key doc then key else px_api_key (cf_proxy c0))
       \<and> (needs_api_key doc \<or> snd (migrate_pools doc0) \<longrightarrow> w = Some c)"
    by (rule load_from_cases)
  from d obtain c0 where c0: "bt_inv (cf_pools c0)" "uuid_fresh uuid c0" "cf_pools c1 = cf_pools c0"
    using assms(2,3) by blast
  have po: "pools_ok (ensure_pools c1)" using c0 by (intro ensure_pools_ok) simp
  have "pools_ids (cf_pools (ensure_pools c1)) = pools_ids (cf_pools c0)"
    using c0(3) by (auto simp: ensure_pools_def Let_def pools_ids_def pool_default_def)
  then have "uuid_fresh uuid (ensure_pools c1)"
    using c0(2) by (simp add: uuid_fresh_def config_ids_pools)
  with e have "ids_unique c" by (auto dest: ids_unique_ensured)
  moreover have "pools_ok c" using po e by (rule ensure_account_ids_pools_ok)
  moreover have "\<forall>(name, p) \<in> set (cf_pools c). validate_pool_name name = Inr ()
          \<and> (\<forall>a \<in> set (pc_accounts p). trim (ac_name a) \<noteq> []
               \<and> (\<forall>u. ac_upstream a = Some u \<longrightarrow> safe_upstream E u))"
    using v by (fastforce simp: config_validate_def try_all_Inr dest: validate_pool_okD)
  moreover have "(is_loopback_host (bind_host E c) \<or> 16 \<le> length (trim (px_api_key (cf_proxy c))))
     \<and> safe_upstream E (cf_upstream c)"
    using v by (simp add: config_validate_def validate_upstream_ok)
  ultimately have wf: "config_wf E c" by (simp add: config_wf_def)
  from d have "\<forall>raw doc0. file = Bytes raw \<and> json_parse E raw = Some doc0 \<and>
          (snd (migrate_pools doc0) \<or> needs_api_key (fst (migrate_pools doc0))) \<longrightarrow> w = Some c" by auto
  with wf w assms(1) load_from_silent show ?thesis by blast
qed

theorem load_from_wf_witness:
  "\<exists>c. load_from (ext0\<lparr>json_parse := \<lambda>_. Some (JObj [])\<rparr>) (\<lambda>_. Some (config_default ''k'')) ''key''
      (\<lambda>n. replicate (Suc n) CHR ''x'') False (Bytes []) = Inr (Some (c, Some c))
    \<and> config_wf (ext0\<lparr>json_parse := \<lambda>_. Some (JObj [])\<rparr>) c"
proof -
  let ?E = "ext0\<lparr>json_parse := \<lambda>_. Some (JObj [])\<rparr>"
  let ?u = "\<lambda>n. replicate (Suc n) CHR ''x''"
  let ?d = "\<lambda>_ :: json. Some (config_default ''k'')"
  let ?c = "(config_default ''k'')\<lparr>cf_proxy := proxy_default ''key''\<rparr>"
  have lb: "is_loopback_host ''127.0.0.1''" by code_simp
  have vp: "validate_pool_name ''default'' = Inr ()" by code_simp
  have tr: "trim ''default'' \<noteq> []" by code_simp
  have mg: "\<exists>doc. migrate_pools (JObj []) = (doc, True)"
    by (simp add: migrate_pools_def LEGACY_POOL_KEYS_def)
  then obtain doc where doc: "migrate_pools (JObj []) = (doc, True)" ..
  have nk: "needs_api_key doc"
    using doc by (auto simp: migrate_pools_def LEGACY_POOL_KEYS_def blank_default_pool_def
        needs_api_key_def obj_insert_def)
  have 1: "load_from ?E ?d ''key'' ?u False (Bytes []) = Inr (Some (?c, Some ?c))"
    using lb vp tr nk
    by (simp add: load_from_def doc config_default_def proxy_default_def ensure_pools_def
        ensure_account_ids_def pool_default_def config_validate_def bind_host_def ext0_def
        validate_upstream_def DEFAULT_UPSTREAM_def DEFAULT_POOL_def validate_pool_def ensure_def
        starts_with_def Let_def)
  have inj: "inj ?u" by (metis (no_types, lifting) injI length_replicate nat.inject)
  have "config_wf ?E ?c"
  proof (rule load_from_wf [OF 1, THEN conjunct1])
    show "bt_inv (cf_pools c0)" if "Some (config_default ''k'') = Some c0" for c0
      using that by (auto simp: config_default_def bt_inv_def)
    show "uuid_fresh ?u c0" if "Some (config_default ''k'') = Some c0" for c0
      using that inj by (auto simp: uuid_fresh_def config_ids_def all_accounts_def config_default_def pool_default_def)
  qed
  with 1 show ?thesis by blast
qed

subsection \<open>Account handles\<close>

datatype account_match = NoMatch | One nat | Ambiguous "nat list"

definition position :: "('a \<Rightarrow> bool) \<Rightarrow> 'a list \<Rightarrow> nat option" where
  "position P xs = List.find (\<lambda>i. P (xs ! i)) [0..<length xs]"

lemma position_SomeD: "position P xs = Some i \<Longrightarrow> i < length xs \<and> P (xs ! i)"
  unfolding position_def by (drule find_SomeD) auto

lemma position_None: "position P xs = None \<longleftrightarrow> (\<forall>x \<in> set xs. \<not> P x)"
  by (auto simp: position_def all_set_conv_all_nth)

text \<open>\<open>n.split(" (").next()\<close>.\<close>

definition short_name :: "string \<Rightarrow> string" where
  "short_name n = (case find_sub '' ('' n of Some i \<Rightarrow> take i n | None \<Rightarrow> n)"

definition exact_handle :: "string \<Rightarrow> account_config \<Rightarrow> bool" where
  "exact_handle n a \<longleftrightarrow> ac_name a = n \<or> ac_id a = Some n"

definition loose_handle :: "string \<Rightarrow> account_config \<Rightarrow> bool" where
  "loose_handle n a \<longleftrightarrow>
     ac_account_uuid a = Some n \<or> ac_org_uuid a = Some n \<or> ac_email a = Some n \<or> short_name (ac_name a) = n"

definition uuid_pair :: "string \<Rightarrow> account_config \<Rightarrow> bool" where
  "uuid_pair n a \<longleftrightarrow>
     (case split_once CHR ''/'' n of
        Some (au, ou) \<Rightarrow> ac_account_uuid a = Some au \<and> ac_org_uuid a = Some ou | None \<Rightarrow> False)"

definition match_accounts :: "account_config list \<Rightarrow> string \<Rightarrow> account_match" where
  "match_accounts accounts needle =
     (let n = trim needle
      in if n = [] then NoMatch
         else (case position (exact_handle n) accounts of
            Some i \<Rightarrow> One i
          | None \<Rightarrow>
              (case position (uuid_pair n) accounts of
                 Some i \<Rightarrow> One i
               | None \<Rightarrow>
                   (case filter (\<lambda>i. loose_handle n (accounts ! i)) [0..<length accounts] of
                      [] \<Rightarrow> NoMatch | [i] \<Rightarrow> One i | hits \<Rightarrow> Ambiguous hits))))"

definition match_account_in :: "config \<Rightarrow> string \<Rightarrow> string \<Rightarrow> account_match" where
  "match_account_in c pool needle =
     (case map_of (cf_pools c) pool of None \<Rightarrow> NoMatch | Some p \<Rightarrow> match_accounts (pc_accounts p) needle)"

definition find_account_idx_in :: "config \<Rightarrow> string \<Rightarrow> string \<Rightarrow> cfg_error + nat option" where
  "find_account_idx_in c pool needle =
     (case match_account_in c pool needle of
        NoMatch \<Rightarrow> Inr None | One i \<Rightarrow> Inr (Some i) | Ambiguous hits \<Rightarrow> Inl (AmbiguousAccount hits))"

fun find_in_pools :: "config \<Rightarrow> string \<Rightarrow> string list \<Rightarrow> cfg_error + (string \<times> nat) option" where
  "find_in_pools c needle [] = Inr None"
| "find_in_pools c needle (p # ps) =
     res_bind (find_account_idx_in c p needle)
       (\<lambda>r. case r of Some i \<Rightarrow> Inr (Some (p, i)) | None \<Rightarrow> find_in_pools c needle ps)"

definition find_account :: "config \<Rightarrow> string \<Rightarrow> cfg_error + (string \<times> nat) option" where
  "find_account c needle = find_in_pools c needle (pool_names c)"

lemma match_accounts_One:
  assumes "match_accounts as needle = One i"
  shows "i < length as \<and> trim needle \<noteq> [] \<and>
    (exact_handle (trim needle) (as ! i)
     \<or> (\<forall>j < length as. \<not> exact_handle (trim needle) (as ! j)) \<and>
       (uuid_pair (trim needle) (as ! i)
        \<or> (\<forall>j < length as. loose_handle (trim needle) (as ! j) \<longleftrightarrow> j = i)))"
proof -
  let ?n = "trim needle" and ?h = "filter (\<lambda>i. loose_handle (trim needle) (as ! i)) [0..<length as]"
  have n: "?n \<noteq> []" using assms by (auto simp: match_accounts_def Let_def)
  show ?thesis
  proof (cases "position (exact_handle ?n) as")
    case (Some j)
    with assms n have "j = i" by (simp add: match_accounts_def Let_def)
    with Some n show ?thesis by (auto dest: position_SomeD)
  next
    case None
    then have ne: "\<forall>j < length as. \<not> exact_handle ?n (as ! j)" by (auto simp: position_None)
    show ?thesis
    proof (cases "position (uuid_pair ?n) as")
      case (Some j)
      with assms n None have "j = i" by (simp add: match_accounts_def Let_def)
      with Some n ne show ?thesis by (auto dest: position_SomeD)
    next
      case n2: None
      have h: "?h = [i]"
        using assms n None n2 by (auto simp: match_accounts_def Let_def split: list.splits)
      have "set ?h = {j. j < length as \<and> loose_handle ?n (as ! j)}" by auto
      with h n ne show ?thesis by (metis (mono_tags, lifting) insert_iff list.simps(15) mem_Collect_eq
            empty_iff list.set(1))
    qed
  qed
qed

lemma find_in_pools_Some:
  assumes "find_in_pools c needle ps = Inr (Some (p, i))"
  shows "\<exists>ps1 ps2. ps = ps1 @ p # ps2 \<and> match_account_in c p needle = One i
     \<and> (\<forall>q \<in> set ps1. match_account_in c q needle = NoMatch)"
  using assms
proof (induction ps)
  case (Cons q ps)
  show ?case
  proof (cases "match_account_in c q needle")
    case NoMatch
    with Cons obtain ps1 ps2 where "ps = ps1 @ p # ps2" "match_account_in c p needle = One i"
        "\<forall>q \<in> set ps1. match_account_in c q needle = NoMatch"
      by (auto simp: find_account_idx_in_def)
    with NoMatch show ?thesis by (intro exI [of _ "q # ps1"] exI [of _ ps2]) simp
  next
    case (One j)
    with Cons.prems show ?thesis by (intro exI [of _ "[]"] exI [of _ ps]) (simp add: find_account_idx_in_def)
  next
    case (Ambiguous hits)
    with Cons.prems show ?thesis by (simp add: find_account_idx_in_def)
  qed
qed simp

text \<open>An account handle never acts on the wrong sibling: when lookup names an account, it is in
  range and either carries the handle as its exact name or id, or no account of that pool does
  and it is the one addressed by the uuid pair or the only one the handle fits loosely; and no
  pool searched before it (the default pool first) matched the handle at all.\<close>

theorem find_account_unique:
  assumes "find_account c needle = Inr (Some (p, i))"
  shows "\<exists>pc ps1 ps2. config_pool c p = Some pc \<and> i < length (pc_accounts pc)
     \<and> (let n = trim needle; as = pc_accounts pc
        in exact_handle n (as ! i)
           \<or> (\<forall>j < length as. \<not> exact_handle n (as ! j)) \<and>
             (uuid_pair n (as ! i) \<or> (\<forall>j < length as. loose_handle n (as ! j) \<longleftrightarrow> j = i)))
     \<and> pool_names c = ps1 @ p # ps2 \<and> (\<forall>q \<in> set ps1. match_account_in c q needle = NoMatch)"
proof -
  from find_in_pools_Some [of c needle "pool_names c" p i] assms
  obtain ps1 ps2 where ps: "pool_names c = ps1 @ p # ps2" "match_account_in c p needle = One i"
      "\<forall>q \<in> set ps1. match_account_in c q needle = NoMatch"
    by (auto simp: find_account_def)
  from ps(2) obtain pc where pc: "config_pool c p = Some pc" "match_accounts (pc_accounts pc) needle = One i"
    by (auto simp: match_account_in_def config_pool_def split: option.splits)
  from match_accounts_One [OF pc(2)] pc(1) ps(1,3) show ?thesis
    by (intro exI [of _ pc] exI [of _ ps1] exI [of _ ps2]) (simp add: Let_def)
qed

definition two_orgs :: config where
  "two_orgs = config_default ''k''\<lparr>cf_pools := [(''default'', pool_default\<lparr>pc_accounts :=
     [account_config_default\<lparr>ac_name := ''me (A)'', ac_email := Some ''me''\<rparr>,
      account_config_default\<lparr>ac_name := ''me (B)'', ac_email := Some ''me'', ac_id := Some ''b''\<rparr>]\<rparr>)]\<rparr>"

theorem find_account_unique_witness:
  "find_account two_orgs ''b'' = Inr (Some (''default'', 1)) \<and> find_account two_orgs ''me'' = Inl (AmbiguousAccount [0, 1])
   \<and> (\<exists>pc. config_pool two_orgs ''default'' = Some pc \<and> 1 < length (pc_accounts pc))"
proof -
  have names: "pool_names two_orgs = [''default'']"
    by (simp add: pool_names_def two_orgs_def config_default_def DEFAULT_POOL_def)
  have pools: "cf_pools two_orgs = [(''default'', pool_default\<lparr>pc_accounts :=
      [account_config_default\<lparr>ac_name := ''me (A)'', ac_email := Some ''me''\<rparr>,
       account_config_default\<lparr>ac_name := ''me (B)'', ac_email := Some ''me'', ac_id := Some ''b''\<rparr>]\<rparr>)]"
    by (simp add: two_orgs_def)
  have t: "trim ''b'' = ''b''" "trim ''me'' = ''me''" by code_simp+
  have u: "[0..<2] = [0, 1 :: nat]" by (simp add: upt_rec)
  note defs = find_account_def names find_account_idx_in_def match_account_in_def pools match_accounts_def t
    position_def exact_handle_def uuid_pair_def loose_handle_def account_config_default_def u
  have a: "find_account two_orgs ''b'' = Inr (Some (''default'', 1))"
    by (simp add: defs)
  have b: "find_account two_orgs ''me'' = Inl (AmbiguousAccount [0, 1])"
    by (simp add: defs)
  from a b find_account_unique [OF a] show ?thesis by auto
qed

subsection \<open>The persisted state\<close>

text \<open>The default pool's state is flattened at the top level, named pools nest.\<close>

record pool_state =
  ps_accounts :: "(string \<times> json) list"
  ps_client_usage :: "(string \<times> json) list"
  ps_dimension_usage :: json

definition pool_state_default :: pool_state where
  "pool_state_default = \<lparr>ps_accounts = [], ps_client_usage = [], ps_dimension_usage = JNull\<rparr>"

record saved_state =
  ss_version :: nat
  ss_saved_at :: "string option"
  ss_default :: pool_state
  ss_pools :: "(string \<times> pool_state) list"

definition state_default :: saved_state where
  "state_default = \<lparr>ss_version = 0, ss_saved_at = None, ss_default = pool_state_default, ss_pools = []\<rparr>"

definition state_pool :: "saved_state \<Rightarrow> string \<Rightarrow> string \<Rightarrow> pool_state option" where
  "state_pool s name default_pool =
     (if name = default_pool then Some (ss_default s) else map_of (ss_pools s) name)"

definition set_pool :: "string \<Rightarrow> string \<Rightarrow> pool_state \<Rightarrow> saved_state \<Rightarrow> saved_state" where
  "set_pool name default_pool st s =
     (if name = default_pool then s\<lparr>ss_default := st\<rparr> else s\<lparr>ss_pools := bt_insert name st (ss_pools s)\<rparr>)"

text \<open>\<open>parse_lenient\<close>: \<open>decode\<close> is serde's decoder of the whole file.\<close>

definition parse_lenient :: "(string \<Rightarrow> saved_state option) \<Rightarrow> string \<Rightarrow> saved_state \<times> bool" where
  "parse_lenient decode raw = (case decode raw of Some s \<Rightarrow> (s, False) | None \<Rightarrow> (state_default, True))"

definition state_load_from ::
  "(string \<Rightarrow> saved_state option) \<Rightarrow> file_read \<Rightarrow> cfg_error + saved_state option" where
  "state_load_from decode file =
     (case file of
        Bytes b \<Rightarrow> Inr (Some (fst (parse_lenient decode b)))
      | NotFound \<Rightarrow> Inr None
      | ReadError \<Rightarrow> Inl ReadFailed)"

lemma state_pool_set_pool [simp]:
  "state_pool (set_pool n d st s) m d = (if m = n then Some st else state_pool s m d)"
  by (auto simp: state_pool_def set_pool_def)

end
