(* ===== verification/Account.thy ===== *)
theory Account
  imports Codex Config_Load
begin

text \<open>
  \<open>src/manager.rs\<close>, the account: its record, how it is built from the configuration, where
  its credential comes from and where it may be sent.
\<close>

definition TOKEN_REFRESH_AHEAD_MS :: int where [time_consts]: "TOKEN_REFRESH_AHEAD_MS = 5 * 60 * 1000"
definition LOGIN_EXPIRY_WARN_MS :: int where [time_consts]: "LOGIN_EXPIRY_WARN_MS = 5 * 24 * 3600 * 1000"
definition FORCED_REFRESH_FLOOR_MS :: int where [time_consts]: "FORCED_REFRESH_FLOOR_MS = 30 * 1000"
definition ENTITLEMENT_COOLDOWN_MS :: int where [time_consts]: "ENTITLEMENT_COOLDOWN_MS = 5 * 60 * 1000"
definition THROTTLE_PROBE_FLOOR_MS :: int where [time_consts]: "THROTTLE_PROBE_FLOOR_MS = 30 * 1000"
definition OPEN_REQUEST_HEADROOM :: f64 where "OPEN_REQUEST_HEADROOM = Fin (1 / 100)"
definition FLEET_429_ACCOUNTS :: nat where "FLEET_429_ACCOUNTS = 2"
definition FLEET_429_WINDOW_MS :: int where [time_consts]: "FLEET_429_WINDOW_MS = 30 * 1000"
definition WEEKLY_BAND_MS :: int where [time_consts]: "WEEKLY_BAND_MS = 24 * 3600 * 1000"
definition FIVE_HOUR_BAND_MS :: int where [time_consts]: "FIVE_HOUR_BAND_MS = 15 * 60 * 1000"
definition FIVE_HOUR_WINDOW_MS :: int where [time_consts]: "FIVE_HOUR_WINDOW_MS = 5 * 3600 * 1000"

subsection \<open>The record\<close>

datatype status = Active | Throttled | Errored

datatype provider = Anthropic | CodexP

definition cli_name :: "provider \<Rightarrow> string" where
  "cli_name p = (case p of Anthropic \<Rightarrow> ''Claude Code'' | CodexP \<Rightarrow> ''the Codex CLI'')"

definition provider_for_path :: "string \<Rightarrow> provider" where
  "provider_for_path path = (if is_codex_path path then CodexP else Anthropic)"

definition provider_for_host :: "string \<Rightarrow> provider" where
  "provider_for_host host = (if is_codex_host host then CodexP else Anthropic)"

record usage =
  us_total_requests :: nat
  us_failed_requests :: nat
  us_last_used :: "string option"
  us_input :: int
  us_output :: int
  us_cache_read :: int
  us_cache_creation :: int

definition usage_default :: usage where
  "usage_default =
     \<lparr>us_total_requests = 0, us_failed_requests = 0, us_last_used = None, us_input = 0,
      us_output = 0, us_cache_read = 0, us_cache_creation = 0\<rparr>"

record account =
  a_id :: string
  a_name :: string
  a_kind :: account_type
  a_provider :: provider
  a_account_id :: "string option"
  a_plan_type :: "string option"
  a_rollover_baseline :: "(string \<times> int) list"
  a_account_uuid :: "string option"
  a_org_uuid :: "string option"
  a_org_name :: "string option"
  a_email :: "string option"
  a_priority :: int
  a_disabled :: bool
  a_credential :: "string option"
  a_refresh_token :: "string option"
  a_expires_at :: "int option"
  a_refresh_expires_at :: "int option"
  a_login_warned_for :: "int option"
  a_import_from :: "string option"
  a_upstream :: "string option"
  a_model_map :: "(string \<times> string) list"
  a_strip_request_fields :: "string list"
  a_max_usage :: "threshold option"
  a_rate_limit_tier :: "string option"
  a_seat_tier :: "string option"
  a_subscription_type :: "string option"
  a_quota :: quota
  a_status :: status
  a_error_message :: "string option"
  a_rate_limited_until :: "int option"
  a_quota_hold :: bool
  a_throttled_at :: "int option"
  a_headerless_429_at :: "int option"
  a_last_probe_at :: "int option"
  a_entitlement_denied_until :: "int option"
  a_dead_refresh_token :: "string option"
  a_last_refresh_at :: "int option"
  a_ramp_started_at :: "int option"
  a_in_flight :: nat
  a_open :: nat
  a_usage :: usage
  a_probing :: bool
  a_requalify :: bool

subsection \<open>From the configuration\<close>

definition nonempty :: "string option \<Rightarrow> string option" where
  "nonempty = opt_filter (\<lambda>t. t \<noteq> [])"

definition linked_path :: "account_config \<Rightarrow> string option" where
  "linked_path c =
     (if ac_kind c \<noteq> Oauth then None
      else if ac_import_from c \<noteq> None \<or> \<not> is_codex c then ac_import_from c
      else if nonempty (ac_access_token c) \<noteq> None then None
      else Some CODEX_CREDENTIALS_PATH)"

text \<open>What reading a credentials file gives: \<open>None\<close> when it cannot be read or parsed.\<close>

record importer =
  read_oauth :: "string \<Rightarrow> imported option"
  read_codex :: "string \<Rightarrow> codex_credentials option"

definition importer_of ::
  "ext \<Rightarrow> int \<Rightarrow> (json \<Rightarrow> imported option) \<Rightarrow> (string \<Rightarrow> string option) \<Rightarrow> importer" where
  "importer_of E now decode fs =
     \<lparr>read_oauth = oauth_import E decode fs, read_codex = codex_import E now fs\<rparr>"

definition set_stored_tokens :: "account_config \<Rightarrow> account \<Rightarrow> account" where
  "set_stored_tokens c a =
     a\<lparr>a_credential := nonempty (ac_access_token c), a_refresh_token := nonempty (ac_refresh_token c),
       a_expires_at := ac_expires_at c, a_refresh_expires_at := ac_refresh_token_expires_at c\<rparr>"

definition apply_codex_file :: "codex_credentials option \<Rightarrow> account \<Rightarrow> account" where
  "apply_codex_file r a =
     (case r of
        None \<Rightarrow> a
      | Some cc \<Rightarrow>
          if nonempty (cc_access cc) = None then a
          else a\<lparr>a_credential := cc_access cc, a_refresh_token := cc_refresh cc,
                 a_expires_at := cc_expires_at cc,
                 a_account_id := opt_or (a_account_id a) (cc_account_id cc),
                 a_email := opt_or (a_email a) (cc_email cc),
                 a_plan_type := opt_or (a_plan_type a) (cc_plan_type cc)\<rparr>)"

definition apply_oauth_file :: "imported option \<Rightarrow> account \<Rightarrow> account" where
  "apply_oauth_file r a =
     (case r of
        None \<Rightarrow> a
      | Some ic \<Rightarrow>
          if nonempty (im_access ic) = None then a
          else a\<lparr>a_credential := im_access ic, a_refresh_token := im_refresh ic,
                 a_expires_at := im_expires_at ic, a_refresh_expires_at := im_refresh_expires_at ic,
                 a_subscription_type := opt_or (a_subscription_type a) (im_subscription_type ic)\<rparr>)"

definition apply_credentials :: "importer \<Rightarrow> account_config \<Rightarrow> account \<Rightarrow> account" where
  "apply_credentials I c a =
     (case a_kind a of
        Apikey \<Rightarrow> a\<lparr>a_credential := nonempty (ac_api_key c)\<rparr>
      | Oauth \<Rightarrow>
          if a_provider a = CodexP
          then (if nonempty (ac_access_token c) \<noteq> None \<and> ac_import_from c = None
                then set_stored_tokens c a
                else apply_codex_file (read_codex I (unwrap_or CODEX_CREDENTIALS_PATH (ac_import_from c))) a)
          else (case ac_import_from c of
                  Some path \<Rightarrow> apply_oauth_file (read_oauth I path) a
                | None \<Rightarrow> set_stored_tokens c a))"

text \<open>\<open>fresh_id\<close> is the id issued to an account without one.\<close>

definition account_blank :: "string \<Rightarrow> account_config \<Rightarrow> account" where
  "account_blank fresh_id c =
     \<lparr>a_id = unwrap_or fresh_id (ac_id c), a_name = ac_name c, a_kind = ac_kind c,
      a_provider = (if is_codex c then CodexP else Anthropic),
      a_account_id = ac_account_id c, a_plan_type = ac_plan_type c, a_rollover_baseline = [],
      a_account_uuid = ac_account_uuid c, a_org_uuid = ac_org_uuid c, a_org_name = ac_org_name c,
      a_email = ac_email c, a_priority = ac_priority c, a_disabled = ac_disabled c,
      a_credential = None, a_refresh_token = None, a_expires_at = None,
      a_refresh_expires_at = None, a_login_warned_for = None, a_import_from = linked_path c,
      a_upstream = ac_upstream c, a_model_map = unwrap_or [] (ac_model_map c),
      a_strip_request_fields = ac_strip_request_fields c, a_max_usage = ac_max_usage c,
      a_rate_limit_tier = ac_rate_limit_tier c, a_seat_tier = ac_seat_tier c,
      a_subscription_type = ac_subscription_type c, a_quota = quota_default, a_status = Active,
      a_error_message = None, a_rate_limited_until = None, a_quota_hold = False,
      a_throttled_at = None, a_headerless_429_at = None, a_last_probe_at = None,
      a_entitlement_denied_until = None, a_dead_refresh_token = None, a_last_refresh_at = None,
      a_ramp_started_at = None, a_in_flight = 0, a_open = 0, a_usage = usage_default,
      a_probing = False, a_requalify = False\<rparr>"

definition account_from_config :: "importer \<Rightarrow> string \<Rightarrow> account_config \<Rightarrow> account" where
  "account_from_config I fresh_id c = apply_credentials I c (account_blank fresh_id c)"

lemma apply_credentials_frame [frame_simps]:
  "a_id (apply_credentials I c a) = a_id a" "a_name (apply_credentials I c a) = a_name a"
  "a_kind (apply_credentials I c a) = a_kind a" "a_provider (apply_credentials I c a) = a_provider a"
  "a_upstream (apply_credentials I c a) = a_upstream a" "a_quota (apply_credentials I c a) = a_quota a"
  "a_status (apply_credentials I c a) = a_status a"
  "a_import_from (apply_credentials I c a) = a_import_from a"
  by (auto simp: apply_credentials_def apply_codex_file_def apply_oauth_file_def set_stored_tokens_def
      split: account_type.splits option.splits)

lemma nonempty_Some [simp]: "nonempty x = Some y \<longleftrightarrow> x = Some y \<and> y \<noteq> []"
  by (simp add: nonempty_def)

lemma nonempty_ne [simp]: "nonempty x \<noteq> Some []"
  by simp

text \<open>A credential is never the empty string, whatever the files say.\<close>

lemma apply_credentials_nonempty:
  "a_credential a \<noteq> Some [] \<Longrightarrow> a_credential (apply_credentials I c a) \<noteq> Some []"
  by (auto simp: apply_credentials_def apply_codex_file_def apply_oauth_file_def set_stored_tokens_def
      nonempty_def split: account_type.splits option.splits)

text \<open>The proxy holds no token of its own for a linked account: the stored ones are ignored.\<close>

lemma linked_ignores_stored:
  assumes "linked_path c = Some path" and "a_kind a = ac_kind c"
    and "a_provider a = (if is_codex c then CodexP else Anthropic)"
  shows "apply_credentials I c a =
     (if is_codex c then apply_codex_file (read_codex I path) a else apply_oauth_file (read_oauth I path) a)"
  using assms
  by (auto simp: linked_path_def apply_credentials_def split: if_splits account_type.splits option.splits)

subsection \<open>Where the credential may go\<close>

definition is_subscription :: "account \<Rightarrow> bool" where
  "is_subscription a \<longleftrightarrow> a_kind a = Oauth"

definition host_allowed :: "provider \<Rightarrow> string \<Rightarrow> bool" where
  "host_allowed p host = (case p of Anthropic \<Rightarrow> is_anthropic_host host | CodexP \<Rightarrow> is_codex_host host)"

text \<open>\<open>None\<close> is the refusal.\<close>

definition upstream_for :: "ext \<Rightarrow> string \<Rightarrow> account \<Rightarrow> string option" where
  "upstream_for E default_up a =
     (let u = (case a_upstream a of
                 Some u \<Rightarrow> u
               | None \<Rightarrow> (case a_provider a of CodexP \<Rightarrow> CODEX_UPSTREAM | Anthropic \<Rightarrow> default_up))
      in if is_subscription a
         then (let host = unwrap_or [] (url_host E u)
               in if \<not> host_allowed (a_provider a) host \<and> \<not> is_loopback_host host then None else Some u)
         else Some u)"

definition weekly_reset_for :: "account \<Rightarrow> string option \<Rightarrow> int option" where
  "weekly_reset_for a model =
     opt_or (Option.bind (bucket_of (a_quota a) (weekly_bucket_for model)) reset_at)
       (reset_at (unified7d (a_quota a)))"

record selected =
  sel_id :: string
  sel_name :: string
  sel_kind :: account_type
  sel_provider :: provider
  sel_account_id :: "string option"
  sel_credential :: string
  sel_account_uuid :: "string option"
  sel_upstream :: string
  sel_model_map :: "(string \<times> string) list"
  sel_strip_request_fields :: "string list"

text \<open>A subscription token is only ever paired with a URL whose host belongs to its own
  provider, or is this machine: an account whose configured or inherited upstream points
  anywhere else is refused, whichever way the URL was configured.\<close>

theorem upstream_for_safe:
  shows "(case upstream_for E default_up a of
      Some u \<Rightarrow> (a_upstream a = Some u
                 \<or> a_upstream a = None \<and> u = (case a_provider a of CodexP \<Rightarrow> CODEX_UPSTREAM | Anthropic \<Rightarrow> default_up))
             \<and> (if a_kind a = Oauth then
                  host_allowed (a_provider a) (unwrap_or [] (url_host E u))
                  \<or> is_loopback_host (unwrap_or [] (url_host E u)) else True)
    | None \<Rightarrow> a_kind a = Oauth)"
  by (auto simp: upstream_for_def Let_def is_subscription_def split: option.splits if_splits)

lemma host_allowed_suffix:
  "host_allowed Anthropic h \<longleftrightarrow>
     (\<exists>d \<in> {''anthropic.com'', ''claude.com''}. ends_with (''.'' @ d) (to_lower h))"
proof -
  have 1: "ends_with ''.anthropic.com'' ''api.anthropic.com''" by code_simp
  have 2: "ends_with ''.claude.com'' ''platform.claude.com''" by code_simp
  show ?thesis using 1 2 by (auto simp: host_allowed_def is_anthropic_host_def Let_def)
qed

end
