(* ===== verification/Session_Tracker.thy ===== *)
theory Session_Tracker
  imports Json_Value
begin

text \<open>
  \<open>src/session.rs\<close>: sessions by their id, pinned to one account per weekly bucket. The map
  of sessions is an association list with distinct keys, its order the iteration order of the
  hash map; \<open>in_flight\<close> is a 32-bit count, written with its wrap-around.
\<close>

definition SESSION_KNOWN_TTL_MS :: int where "SESSION_KNOWN_TTL_MS = 60 * 60 * 1000"
definition SESSION_ACTIVE_TTL_MS :: int where "SESSION_ACTIVE_TTL_MS = 2 * 60 * 1000"
definition MAX_SESSIONS :: nat where "MAX_SESSIONS = 10000"
definition SWEEP_INTERVAL_MS :: int where "SWEEP_INTERVAL_MS = 60 * 1000"

subsection \<open>State and operations\<close>

record token_totals =
  tt_cache_read :: int
  tt_cache_creation :: int
  tt_input :: int
  tt_output :: int
  tt_context :: int
  tt_reports :: int

definition token_totals_default :: token_totals where
  "token_totals_default =
     \<lparr>tt_cache_read = 0, tt_cache_creation = 0, tt_input = 0, tt_output = 0, tt_context = 0, tt_reports = 0\<rparr>"

record session =
  se_pins :: "(string \<times> string) list"
  se_first_seen :: int
  se_last_seen :: int
  se_count :: nat
  se_in_flight :: nat
  se_client :: "string option"
  se_tokens :: "(string \<times> token_totals) list"

record session_tracker =
  st_sessions :: "(string \<times> session) list"
  st_last_sweep :: int

definition tracker_new :: session_tracker where
  "tracker_new = \<lparr>st_sessions = [], st_last_sweep = 0\<rparr>"

definition u32_inc :: "nat \<Rightarrow> nat" where "u32_inc n = (n + 1) mod 2 ^ 32"
definition u64_inc :: "nat \<Rightarrow> nat" where "u64_inc n = (n + 1) mod 2 ^ 64"

definition session_char :: "char \<Rightarrow> bool" where
  "session_char c \<longleftrightarrow> is_alnum c \<or> c \<in> set ''-_.:''"

definition valid_session_id :: "string \<Rightarrow> bool" where
  "valid_session_id sid \<longleftrightarrow> sid \<noteq> [] \<and> length sid \<le> 128 \<and> list_all session_char sid"

definition session_live :: "int \<Rightarrow> session \<Rightarrow> bool" where
  "session_live now s \<longleftrightarrow> 0 < se_in_flight s \<or> now - se_last_seen s < SESSION_KNOWN_TTL_MS"

definition session_sweep :: "int \<Rightarrow> session_tracker \<Rightarrow> session_tracker" where
  "session_sweep now t =
     t\<lparr>st_last_sweep := now, st_sessions := filter (\<lambda>(_, s). session_live now s) (st_sessions t)\<rparr>"

text \<open>\<open>Iterator::min_by_key\<close>: the first of the least elements.\<close>

fun min_by_key :: "('a \<Rightarrow> 'b::linorder) \<Rightarrow> 'a list \<Rightarrow> 'a option" where
  "min_by_key f [] = None"
| "min_by_key f (x # xs) =
     (case min_by_key f xs of None \<Rightarrow> Some x | Some y \<Rightarrow> if f y < f x then Some y else Some x)"

definition session_new :: "int \<Rightarrow> session" where
  "session_new now =
     \<lparr>se_pins = [], se_first_seen = now, se_last_seen = now, se_count = 0, se_in_flight = 0,
      se_client = None, se_tokens = []\<rparr>"

definition insert_session :: "string \<Rightarrow> int \<Rightarrow> session_tracker \<Rightarrow> session_tracker" where
  "insert_session sid now t = t\<lparr>st_sessions := AList.update sid (session_new now) (st_sessions t)\<rparr>"

text \<open>The tracker after \<open>ensure\<close>, and whether it returned a session.\<close>

definition ensure_session :: "string \<Rightarrow> int \<Rightarrow> session_tracker \<Rightarrow> session_tracker \<times> bool" where
  "ensure_session sid now t =
     (if \<not> valid_session_id sid then (t, False)
      else if al_has (st_sessions t) sid then (t, True)
      else if length (st_sessions t) < MAX_SESSIONS then (insert_session sid now t, True)
      else
        let t1 = session_sweep now t
        in if length (st_sessions t1) < MAX_SESSIONS then (insert_session sid now t1, True)
           else (case min_by_key (\<lambda>(_, s). se_last_seen s)
                        (filter (\<lambda>(_, s). se_in_flight s = 0) (st_sessions t1)) of
                   None \<Rightarrow> (t1, False)
                 | Some (k, _) \<Rightarrow>
                     (insert_session sid now (t1\<lparr>st_sessions := AList.delete k (st_sessions t1)\<rparr>), True)))"

definition upd_session :: "string \<Rightarrow> (session \<Rightarrow> session) \<Rightarrow> session_tracker \<Rightarrow> session_tracker" where
  "upd_session sid f t =
     (case map_of (st_sessions t) sid of
        Some s \<Rightarrow> t\<lparr>st_sessions := AList.update sid (f s) (st_sessions t)\<rparr> | None \<Rightarrow> t)"

definition begin_request :: "string \<Rightarrow> string option \<Rightarrow> int \<Rightarrow> session_tracker \<Rightarrow> session_tracker" where
  "begin_request sid client now t =
     (case ensure_session sid now t of
        (t1, True) \<Rightarrow>
          upd_session sid (\<lambda>s. s\<lparr>se_in_flight := u32_inc (se_in_flight s), se_last_seen := now,
                               se_client := opt_or client (se_client s)\<rparr>) t1
      | (t1, False) \<Rightarrow> t1)"

definition end_request :: "string \<Rightarrow> int \<Rightarrow> session_tracker \<Rightarrow> session_tracker" where
  "end_request sid now t =
     (let t1 = upd_session sid (\<lambda>s. s\<lparr>se_in_flight := se_in_flight s - 1, se_last_seen := now\<rparr>) t
      in if now - st_last_sweep t1 > SWEEP_INTERVAL_MS then session_sweep now t1 else t1)"

definition touch :: "string \<Rightarrow> string option \<Rightarrow> string option \<Rightarrow> int \<Rightarrow> session_tracker \<Rightarrow> session_tracker" where
  "touch sid account_id bucket now t =
     (case ensure_session sid now t of
        (t1, True) \<Rightarrow>
          upd_session sid (\<lambda>s. s\<lparr>se_last_seen := now, se_count := u64_inc (se_count s),
             se_pins := (case (account_id, bucket) of
                           (Some a, Some b) \<Rightarrow> AList.update b a (se_pins s) | _ \<Rightarrow> se_pins s)\<rparr>) t1
      | (t1, False) \<Rightarrow> t1)"

definition pinned_account :: "string \<Rightarrow> string \<Rightarrow> session_tracker \<Rightarrow> string option" where
  "pinned_account sid bucket t =
     Option.bind (map_of (st_sessions t) sid) (\<lambda>s. map_of (se_pins s) bucket)"

definition any_pin :: "string \<Rightarrow> session_tracker \<Rightarrow> string option" where
  "any_pin sid t =
     Option.bind (map_of (st_sessions t) sid)
       (\<lambda>s. case se_pins s of [] \<Rightarrow> None | (_, a) # _ \<Rightarrow> Some a)"

definition add_tokens :: "json \<Rightarrow> token_totals \<Rightarrow> token_totals" where
  "add_tokens usage t =
     (let g = (\<lambda>k. unwrap_or 0 (Option.bind (j_get k usage) as_i64))
      in \<lparr>tt_cache_read = i64_wrap (tt_cache_read t + g ''cache_read_input_tokens''),
          tt_cache_creation = i64_wrap (tt_cache_creation t + g ''cache_creation_input_tokens''),
          tt_input = i64_wrap (tt_input t + g ''input_tokens''),
          tt_output = i64_wrap (tt_output t + g ''output_tokens''),
          tt_context = i64_wrap (i64_wrap (g ''cache_read_input_tokens'' + g ''cache_creation_input_tokens'')
                                 + g ''input_tokens''),
          tt_reports = i64_wrap (tt_reports t + 1)\<rparr>)"

definition record_tokens :: "string \<Rightarrow> string \<Rightarrow> json \<Rightarrow> int \<Rightarrow> session_tracker \<Rightarrow> session_tracker" where
  "record_tokens sid bucket usage now t =
     upd_session sid (\<lambda>s. s\<lparr>se_tokens := AList.update bucket
         (add_tokens usage (unwrap_or token_totals_default (map_of (se_tokens s) bucket))) (se_tokens s),
       se_last_seen := now\<rparr>) t"

definition remap_pins :: "string list \<Rightarrow> session \<Rightarrow> session" where
  "remap_pins live s = s\<lparr>se_pins := filter (\<lambda>(_, a). a \<in> set live) (se_pins s)\<rparr>"

definition remap_accounts :: "string list \<Rightarrow> session_tracker \<Rightarrow> session_tracker" where
  "remap_accounts live t = t\<lparr>st_sessions := map (\<lambda>(k, s). (k, remap_pins live s)) (st_sessions t)\<rparr>"

definition is_active :: "session \<Rightarrow> int \<Rightarrow> bool" where
  "is_active s now \<longleftrightarrow> 0 < se_in_flight s \<or> now - se_last_seen s < SESSION_ACTIVE_TTL_MS"

subsection \<open>Statistics\<close>

record session_stats =
  ss_active :: nat
  ss_known :: nat
  ss_in_flight :: nat
  ss_per_active :: "(string \<times> nat) list"
  ss_per_in_flight :: "(string \<times> nat) list"

definition al_add :: "'k \<Rightarrow> nat \<Rightarrow> ('k \<times> nat) list \<Rightarrow> ('k \<times> nat) list" where
  "al_add k n m = AList.update k (unwrap_or 0 (map_of m k) + n) m"

text \<open>The loop over \<open>pins.values()\<close> with its \<open>seen\<close> set.\<close>

fun count_pins :: "bool \<Rightarrow> nat \<Rightarrow> string set \<Rightarrow> string list \<Rightarrow> session_stats \<Rightarrow> session_stats" where
  "count_pins active n seen [] st = st"
| "count_pins active n seen (a # as) st =
     (if a \<in> seen then count_pins active n seen as st
      else count_pins active n (insert a seen) as
             (st\<lparr>ss_per_active := (if active then al_add a 1 (ss_per_active st) else ss_per_active st),
                ss_per_in_flight := al_add a n (ss_per_in_flight st)\<rparr>))"

definition stats_step :: "int \<Rightarrow> session_stats \<Rightarrow> session \<Rightarrow> session_stats" where
  "stats_step now st s =
     (if SESSION_KNOWN_TTL_MS \<le> now - se_last_seen s \<and> se_in_flight s = 0 then st
      else count_pins (is_active s now) (se_in_flight s) {} (al_vals (se_pins s))
             (st\<lparr>ss_known := ss_known st + 1, ss_in_flight := ss_in_flight st + se_in_flight s,
                ss_active := (if is_active s now then ss_active st + 1 else ss_active st)\<rparr>))"

definition stats_of :: "session_tracker \<Rightarrow> int \<Rightarrow> session_stats" where
  "stats_of t now =
     foldl (stats_step now)
       \<lparr>ss_active = 0, ss_known = 0, ss_in_flight = 0, ss_per_active = [], ss_per_in_flight = []\<rparr>
       (al_vals (st_sessions t))"

record session_item =
  si_id :: string
  si_active :: bool
  si_client :: "string option"
  si_pins :: "(string \<times> string) list"
  si_requests :: nat
  si_first_seen :: int
  si_last_seen :: int
  si_tokens :: "(string \<times> token_totals) list"

definition session_items :: "session_tracker \<Rightarrow> int \<Rightarrow> session_item list" where
  "session_items t now =
     sort_by (\<lambda>a b. cmp_of (si_last_seen b) (si_last_seen a))
       (map (\<lambda>(sid, s). \<lparr>si_id = sid, si_active = is_active s now, si_client = se_client s,
               si_pins = se_pins s, si_requests = se_count s, si_first_seen = se_first_seen s,
               si_last_seen = se_last_seen s, si_tokens = se_tokens s\<rparr>)
         (filter (\<lambda>(_, s). session_live now s) (st_sessions t)))"

subsection \<open>The invariant\<close>

definition all_keys :: "('k \<Rightarrow> bool) \<Rightarrow> ('k \<times> 'v) list \<Rightarrow> bool" where
  "all_keys P m \<longleftrightarrow> (\<forall>x \<in> set m. P (fst x))"

definition tracker_inv :: "session_tracker \<Rightarrow> bool" where
  "tracker_inv t \<longleftrightarrow> distinct (al_keys (st_sessions t)) \<and> length (st_sessions t) \<le> MAX_SESSIONS
     \<and> all_keys valid_session_id (st_sessions t)"

definition busy :: "session_tracker \<Rightarrow> string \<Rightarrow> bool" where
  "busy t sid \<longleftrightarrow> (\<exists>s. map_of (st_sessions t) sid = Some s \<and> 0 < se_in_flight s)"

definition known :: "session_tracker \<Rightarrow> string \<Rightarrow> bool" where
  "known t sid \<longleftrightarrow> al_has (st_sessions t) sid"

text \<open>What every operation of the tracker promises: it keeps the invariant, and never loses a
  session with a request in flight.\<close>

locale tracker_op =
  fixes op :: "session_tracker \<Rightarrow> session_tracker"
  assumes op_inv: "tracker_inv t \<Longrightarrow> tracker_inv (op t)"
    and op_keeps_busy: "tracker_inv t \<Longrightarrow> busy t sid \<Longrightarrow> known (op t) sid"

lemma busy_known: "busy t sid \<Longrightarrow> known t sid"
  by (auto simp: busy_def known_def)

lemma min_by_key_None [simp]: "min_by_key f xs = None \<longleftrightarrow> xs = []"
  by (cases xs) (auto split: option.splits)

lemma min_by_key_mem: "min_by_key f xs = Some x \<Longrightarrow> x \<in> set xs \<and> (\<forall>y \<in> set xs. f x \<le> f y)"
  by (induction xs arbitrary: x) (fastforce split: option.splits if_splits)+

lemma length_update_le: "length (AList.update k v m) \<le> Suc (length m)"
  by (induction m) auto

lemma length_update_mem: "al_has m k \<Longrightarrow> length (AList.update k v m) = length m"
  by (induction m) (auto split: if_splits)

lemma all_keys_update: "P k \<Longrightarrow> all_keys P m \<Longrightarrow> all_keys P (AList.update k v m)"
  by (induction m) (auto simp: all_keys_def)

lemma all_keys_filter: "all_keys P m \<Longrightarrow> all_keys P (filter Q m)"
  by (auto simp: all_keys_def)

lemma all_keys_delete: "all_keys P m \<Longrightarrow> all_keys P (AList.delete k m)"
  by (simp add: AList.delete_eq all_keys_filter)

lemma all_keys_lookup: "all_keys P m \<Longrightarrow> map_of m k = Some v \<Longrightarrow> P k"
  by (auto simp: all_keys_def dest!: map_of_SomeD)

lemma length_delete_mem: "k \<in> set (al_keys m) \<Longrightarrow> length (AList.delete k m) < length m"
  unfolding AList.delete_eq by (auto intro: length_filter_less)

lemma map_of_filter_val:
  "distinct (al_keys m) \<Longrightarrow>
   map_of (filter (\<lambda>(k, v). P v) m) k = (case map_of m k of Some v \<Rightarrow> if P v then Some v else None | None \<Rightarrow> None)"
proof (induction m)
  case (Cons x m)
  then have "map_of m (fst x) = None" by (simp add: map_of_eq_None_iff)
  with Cons show ?case by (cases x) (auto split: option.splits)
qed simp

lemma distinct_keys_filter: "distinct (al_keys m) \<Longrightarrow> distinct (al_keys (filter P m))"
  by (simp add: distinct_map_filter)

text \<open>The two building blocks: sweeping, and updating one session in place.\<close>

interpretation sweep_op: tracker_op "session_sweep now" for now
proof
  fix t
  assume "tracker_inv t"
  then show "tracker_inv (session_sweep now t)"
    by (auto simp: tracker_inv_def session_sweep_def distinct_keys_filter all_keys_filter
        intro: le_trans [OF length_filter_le])
next
  fix t sid
  assume inv: "tracker_inv t" and "busy t sid"
  then obtain s where s: "map_of (st_sessions t) sid = Some s" "session_live now s"
    by (auto simp: busy_def session_live_def)
  with inv show "known (session_sweep now t) sid"
    by (simp add: known_def session_sweep_def map_of_filter_val tracker_inv_def)
qed

interpretation upd_op: tracker_op "upd_session sid f" for sid f
proof
  fix t
  assume inv: "tracker_inv t"
  show "tracker_inv (upd_session sid f t)"
  proof (cases "map_of (st_sessions t) sid")
    case None
    with inv show ?thesis by (simp add: upd_session_def)
  next
    case (Some s)
    then have "valid_session_id sid" using inv all_keys_lookup unfolding tracker_inv_def by fast
    with Some inv show ?thesis
      by (simp add: upd_session_def tracker_inv_def distinct_update length_update_mem all_keys_update)
  qed
qed (auto simp: upd_session_def known_def busy_def update_conv' split: option.splits)

lemma insert_session_inv:
  "tracker_inv t \<Longrightarrow> valid_session_id sid \<Longrightarrow> length (st_sessions t) < MAX_SESSIONS \<Longrightarrow>
   tracker_inv (insert_session sid now t)"
  using length_update_le [of sid "session_new now" "st_sessions t"]
  by (simp add: tracker_inv_def insert_session_def distinct_update all_keys_update)

lemma insert_session_known: "known t k \<or> k = sid \<Longrightarrow> known (insert_session sid now t) k"
  by (auto simp: known_def insert_session_def update_conv')

text \<open>Evicting the longest idle session makes room and touches no session in flight.\<close>

lemma evict_idle:
  assumes inv: "tracker_inv t"
    and m: "min_by_key (\<lambda>(_, s). se_last_seen s) (filter (\<lambda>(_, s). se_in_flight s = 0) (st_sessions t)) = Some (k, s)"
  shows "let t' = t\<lparr>st_sessions := AList.delete k (st_sessions t)\<rparr>
     in tracker_inv t' \<and> length (st_sessions t') < MAX_SESSIONS \<and> (\<forall>sid. busy t sid \<longrightarrow> busy t' sid)
        \<and> (\<forall>k' s'. map_of (st_sessions t) k' = Some s' \<and> se_in_flight s' = 0 \<longrightarrow> se_last_seen s \<le> se_last_seen s')"
proof -
  from min_by_key_mem [OF m] have mem: "(k, s) \<in> set (st_sessions t)" "se_in_flight s = 0"
    and least: "\<And>k' s'. (k', s') \<in> set (st_sessions t) \<Longrightarrow> se_in_flight s' = 0 \<Longrightarrow> se_last_seen s \<le> se_last_seen s'"
    by auto
  have d: "distinct (al_keys (st_sessions t))" using inv by (simp add: tracker_inv_def)
  have k: "map_of (st_sessions t) k = Some s" using d mem(1) by (rule map_of_is_SomeI)
  have len: "length (AList.delete k (st_sessions t)) < length (st_sessions t)"
    using mem(1) by (intro length_delete_mem) (force simp: image_iff)
  have "tracker_inv (t\<lparr>st_sessions := AList.delete k (st_sessions t)\<rparr>)"
    using inv len by (simp add: tracker_inv_def distinct_delete all_keys_delete)
  moreover have "busy (t\<lparr>st_sessions := AList.delete k (st_sessions t)\<rparr>) sid" if "busy t sid" for sid
    using that k mem(2) by (auto simp: busy_def delete_conv')
  moreover have "length (AList.delete k (st_sessions t)) < MAX_SESSIONS"
    using len inv by (simp add: tracker_inv_def)
  ultimately show ?thesis using least by (auto simp: Let_def dest!: map_of_SomeD)
qed

lemma sweep_keeps_busy: "tracker_inv t \<Longrightarrow> busy t sid \<Longrightarrow> busy (session_sweep now t) sid"
  by (auto simp: busy_def session_sweep_def map_of_filter_val tracker_inv_def session_live_def)

interpretation ensure_op: tracker_op "\<lambda>t. fst (ensure_session sid now t)" for sid now
proof
  fix t
  assume inv: "tracker_inv t"
  note inv1 = sweep_op.op_inv [OF inv, of now]
  show "tracker_inv (fst (ensure_session sid now t))"
    using inv inv1 evict_idle [OF inv1]
    by (auto simp: ensure_session_def Let_def insert_session_inv split: option.splits prod.splits)
next
  fix t k
  assume inv: "tracker_inv t" and b: "busy t k"
  note inv1 = sweep_op.op_inv [OF inv, of now] and b1 = sweep_keeps_busy [OF inv b, of now]
  show "known (fst (ensure_session sid now t)) k"
    using busy_known [OF b] busy_known [OF b1] evict_idle [OF inv1] b1
    by (auto simp: ensure_session_def Let_def insert_session_known busy_known split: option.splits prod.splits)
qed

lemma known_upd [simp]: "known (upd_session sid f t) k = known t k"
  by (auto simp: upd_session_def known_def update_conv' split: option.splits)

lemma map_of_remap: "map_of (map (\<lambda>(k, s). (k, remap_pins live s)) m) k = map_option (remap_pins live) (map_of m k)"
  by (induction m) auto

interpretation begin_op: tracker_op "begin_request sid client now" for sid client now
proof
  fix t
  assume inv: "tracker_inv t"
  note i = ensure_op.op_inv [OF inv, of sid now]
  show "tracker_inv (begin_request sid client now t)"
    using i by (auto simp: begin_request_def upd_op.op_inv split: prod.splits bool.splits)
next
  fix t k
  assume inv: "tracker_inv t" and b: "busy t k"
  note i = ensure_op.op_keeps_busy [OF inv b, of sid now]
  show "known (begin_request sid client now t) k"
    using i by (auto simp: begin_request_def known_upd split: prod.splits bool.splits)
qed

interpretation touch_op: tracker_op "touch sid account bucket now" for sid account bucket now
proof
  fix t
  assume inv: "tracker_inv t"
  note i = ensure_op.op_inv [OF inv, of sid now]
  show "tracker_inv (touch sid account bucket now t)"
    using i by (auto simp: touch_def upd_op.op_inv split: prod.splits bool.splits)
next
  fix t k
  assume inv: "tracker_inv t" and b: "busy t k"
  note i = ensure_op.op_keeps_busy [OF inv b, of sid now]
  show "known (touch sid account bucket now t) k"
    using i by (auto simp: touch_def known_upd split: prod.splits bool.splits)
qed

interpretation tokens_op: tracker_op "record_tokens sid bucket usage now" for sid bucket usage now
  unfolding record_tokens_def by (rule upd_op.tracker_op_axioms)

interpretation remap_op: tracker_op "remap_accounts live" for live
proof
  fix t
  assume "tracker_inv t"
  then show "tracker_inv (remap_accounts live t)"
    by (auto simp: tracker_inv_def remap_accounts_def all_keys_def comp_def case_prod_beta')
next
  fix t k
  assume "busy t k"
  then show "known (remap_accounts live t) k"
    by (auto simp: known_def busy_def remap_accounts_def map_of_remap)
qed

text \<open>Ending a request may make a session idle and then sweep, but a session seen now is fresh.\<close>

interpretation end_op: tracker_op "end_request sid now" for sid now
proof
  fix t
  assume inv: "tracker_inv t"
  then show "tracker_inv (end_request sid now t)"
    by (simp add: end_request_def Let_def upd_op.op_inv sweep_op.op_inv)
next
  fix t k
  assume inv: "tracker_inv t" and b: "busy t k"
  let ?f = "\<lambda>s. s\<lparr>se_in_flight := se_in_flight s - 1, se_last_seen := now\<rparr>"
  let ?t = "upd_session sid ?f t"
  have inv': "tracker_inv ?t" using inv by (rule upd_op.op_inv)
  from b obtain s where s: "map_of (st_sessions t) k = Some s" "0 < se_in_flight s" by (auto simp: busy_def)
  have "\<exists>s'. map_of (st_sessions ?t) k = Some s' \<and> session_live now s'"
    using s by (auto simp: upd_session_def update_conv' session_live_def SESSION_KNOWN_TTL_MS_def
        split: option.splits)
  then have "known (session_sweep now ?t) k" "known ?t k"
    using inv' by (auto simp: known_def session_sweep_def map_of_filter_val tracker_inv_def)
  then show "known (end_request sid now t) k" by (simp add: end_request_def Let_def)
qed

subsection \<open>Runs of the tracker\<close>

inductive tracker_step :: "session_tracker \<Rightarrow> session_tracker \<Rightarrow> bool" where
  step_begin: "tracker_step t (begin_request sid client now t)"
| step_end: "tracker_step t (end_request sid now t)"
| step_touch: "tracker_step t (touch sid account bucket now t)"
| step_tokens: "tracker_step t (record_tokens sid bucket usage now t)"
| step_remap: "tracker_step t (remap_accounts live t)"
| step_sweep: "tracker_step t (session_sweep now t)"

inductive tracker_reach :: "session_tracker \<Rightarrow> bool" where
  reach_new: "tracker_reach tracker_new"
| reach_step: "tracker_reach t \<Longrightarrow> tracker_step t t' \<Longrightarrow> tracker_reach t'"

inductive_cases tracker_stepE: "tracker_step t t'"

lemmas tracker_ops_inv =
  begin_op.op_inv end_op.op_inv touch_op.op_inv tokens_op.op_inv remap_op.op_inv sweep_op.op_inv

lemmas tracker_ops_busy =
  begin_op.op_keeps_busy end_op.op_keeps_busy touch_op.op_keeps_busy tokens_op.op_keeps_busy
  remap_op.op_keeps_busy sweep_op.op_keeps_busy

lemma reach_inv: "tracker_reach t \<Longrightarrow> tracker_inv t"
proof (induction rule: tracker_reach.induct)
  case reach_new
  show ?case by (simp add: tracker_new_def tracker_inv_def all_keys_def)
next
  case (reach_step t t')
  from reach_step(2,3) show ?case by (auto elim!: tracker_stepE intro: tracker_ops_inv)
qed

text \<open>C37: However clients interleave requests, the tracker holds at most 10000 sessions, each under
  a valid id and only once, and no step, not even the sweep or an eviction, drops a session
  that has a request in flight.\<close>

theorem tracker_bounded_and_safe:
  assumes "tracker_reach t"
  shows "length (st_sessions t) \<le> 10000 \<and> distinct (al_keys (st_sessions t))
    \<and> (\<forall>sid. known t sid \<longrightarrow> valid_session_id sid)
    \<and> (\<forall>t' sid. tracker_step t t' \<and> busy t sid \<longrightarrow> known t' sid)"
proof -
  note inv = reach_inv [OF assms]
  have "known t' sid" if "tracker_step t t'" "busy t sid" for t' sid
    using that(1) by (rule tracker_stepE) (auto intro: tracker_ops_busy [OF inv that(2)])
  moreover have "valid_session_id sid" if "known t sid" for sid
    using inv that by (auto simp: tracker_inv_def known_def intro: all_keys_lookup)
  ultimately show ?thesis using inv by (auto simp: tracker_inv_def MAX_SESSIONS_def)
qed

theorem tracker_bounded_and_safe_witness:
  "let t = begin_request ''s-1'' None 5 tracker_new
   in length (st_sessions t) \<le> 10000 \<and> busy t ''s-1'' \<and> known (session_sweep 99999999 t) ''s-1''"
proof -
  let ?t = "begin_request ''s-1'' None 5 tracker_new"
  have r: "tracker_reach ?t" by (rule reach_step [OF reach_new step_begin])
  have v: "valid_session_id ''s-1''" by code_simp
  have b: "busy ?t ''s-1''"
    by (simp add: v busy_def begin_request_def ensure_session_def tracker_new_def MAX_SESSIONS_def
        insert_session_def upd_session_def u32_inc_def session_new_def)
  from tracker_bounded_and_safe [OF r] b step_sweep show ?thesis unfolding Let_def by blast
qed

subsection \<open>Admission of a session, pins and statistics\<close>

lemma known_ensure:
  assumes inv: "tracker_inv t"
  shows "snd (ensure_session sid now t) \<longleftrightarrow> valid_session_id sid \<and>
    (known t sid \<or> length (st_sessions (session_sweep now t)) < MAX_SESSIONS
     \<or> (\<exists>(k, s) \<in> set (st_sessions (session_sweep now t)). se_in_flight s = 0))"
proof -
  have "length (st_sessions (session_sweep now t)) \<le> length (st_sessions t)"
    by (simp add: session_sweep_def)
  then show ?thesis
    by (auto simp: ensure_session_def Let_def known_def filter_empty_conv Bex_def
        split: option.splits prod.splits dest!: min_by_key_mem) blast
qed

lemma ensure_returns_known: "snd (ensure_session sid now t) \<Longrightarrow> known (fst (ensure_session sid now t)) sid"
  by (auto simp: ensure_session_def Let_def known_def insert_session_def update_conv'
      split: option.splits prod.splits if_splits)

text \<open>An existing session is returned as it is, and a new one starts with nothing in flight.\<close>

lemma ensure_lookup:
  assumes "snd (ensure_session sid now t)"
  shows "map_of (st_sessions (fst (ensure_session sid now t))) sid =
    (if known t sid then map_of (st_sessions t) sid else Some (session_new now))"
  using assms
  by (auto simp: ensure_session_def Let_def known_def insert_session_def update_conv'
      split: option.splits prod.splits if_splits)

text \<open>A request of a session is recorded, with its in-flight count one higher, whenever its id
  is well-formed, unless all 10000 places are held by sessions with requests in flight; only
  then, and for a malformed id, nothing is recorded.\<close>

theorem begin_request_admits:
  assumes "tracker_inv t" and "\<not> known t sid \<or> se_in_flight (the (map_of (st_sessions t) sid)) < 2 ^ 32 - 1"
  shows "if valid_session_id sid \<and>
            (known t sid \<or> length (st_sessions (session_sweep now t)) < MAX_SESSIONS
             \<or> (\<exists>(k, s) \<in> set (st_sessions (session_sweep now t)). se_in_flight s = 0))
         then \<exists>s. map_of (st_sessions (begin_request sid client now t)) sid = Some s
                \<and> se_in_flight s = (if known t sid then se_in_flight (the (map_of (st_sessions t) sid)) else 0) + 1
                \<and> se_last_seen s = now
         else begin_request sid client now t = fst (ensure_session sid now t)
              \<and> (\<not> known t sid \<longrightarrow> \<not> known (begin_request sid client now t) sid)"
proof (cases "snd (ensure_session sid now t)")
  case True
  let ?s = "if known t sid then the (map_of (st_sessions t) sid) else session_new now"
  have lk: "map_of (st_sessions (fst (ensure_session sid now t))) sid = Some ?s"
    using ensure_lookup [OF True] by (auto simp: known_def)
  have "se_in_flight ?s + 1 < 2 ^ 32" using assms(2) by (auto simp: session_new_def)
  with lk True have "\<exists>s. map_of (st_sessions (begin_request sid client now t)) sid = Some s
                \<and> se_in_flight s = se_in_flight ?s + 1 \<and> se_last_seen s = now"
    by (auto simp: begin_request_def upd_session_def update_conv' u32_inc_def split: prod.splits)
  then show ?thesis using True known_ensure [OF assms(1), of sid now]
    by (auto simp: session_new_def split: if_splits)
next
  case False
  then have e: "begin_request sid client now t = fst (ensure_session sid now t)"
    by (auto simp: begin_request_def split: prod.splits)
  moreover have "\<not> known (fst (ensure_session sid now t)) sid" if "\<not> known t sid"
    using that False assms(1)
    by (auto simp: ensure_session_def Let_def known_def session_sweep_def map_of_filter_val tracker_inv_def
        split: option.splits prod.splits if_splits)
  ultimately show ?thesis using False known_ensure [OF assms(1), of sid now] by auto
qed

theorem begin_request_admits_witness:
  "\<exists>s. map_of (st_sessions (begin_request ''a'' None 7 tracker_new)) ''a'' = Some s \<and> se_in_flight s = 1"
proof -
  have inv: "tracker_inv tracker_new" by (simp add: tracker_inv_def tracker_new_def all_keys_def)
  have k: "\<not> known tracker_new ''a'' \<or> se_in_flight (the (map_of (st_sessions tracker_new) ''a'')) < 2 ^ 32 - 1"
    by (simp add: known_def tracker_new_def)
  have v: "valid_session_id ''a''" by code_simp
  have l: "length (st_sessions (session_sweep 7 tracker_new)) < MAX_SESSIONS"
    by (simp add: session_sweep_def tracker_new_def MAX_SESSIONS_def)
  from begin_request_admits [OF inv k, of 7 None] v l show ?thesis
    by (auto simp: known_def tracker_new_def)
qed

lemma pinned_touch:
  assumes "snd (ensure_session sid now t)"
  shows "pinned_account sid b (touch sid (Some a) (Some b') now t) =
    (if b = b' then Some a else pinned_account sid b t)"
proof -
  let ?s = "if known t sid then the (map_of (st_sessions t) sid) else session_new now"
  have "map_of (st_sessions (fst (ensure_session sid now t))) sid = Some ?s"
    using ensure_lookup [OF assms] by (auto simp: known_def)
  with assms show ?thesis
    by (auto simp: touch_def pinned_account_def upd_session_def update_conv' known_def session_new_def
        split: prod.splits)
qed

lemma remap_pins_live:
  "pinned_account sid b (remap_accounts live t) = Some a \<Longrightarrow> a \<in> set live"
  by (auto simp: pinned_account_def remap_accounts_def map_of_remap remap_pins_def bind_eq_Some_conv
      dest!: map_of_SomeD)

abbreviation al_get :: "('k \<times> nat) list \<Rightarrow> 'k \<Rightarrow> nat" where
  "al_get m k \<equiv> unwrap_or 0 (map_of m k)"

lemma al_get_add [simp]: "al_get (al_add k n m) a = al_get m a + (if a = k then n else 0)"
  by (simp add: al_add_def update_conv')

lemma count_pins_spec:
  "al_get (ss_per_active (count_pins act n seen as st)) a =
     al_get (ss_per_active st) a + (if act \<and> a \<in> set as \<and> a \<notin> seen then 1 else 0)"
  "al_get (ss_per_in_flight (count_pins act n seen as st)) a =
     al_get (ss_per_in_flight st) a + (if a \<in> set as \<and> a \<notin> seen then n else 0)"
  "ss_known (count_pins act n seen as st) = ss_known st"
  "ss_active (count_pins act n seen as st) = ss_active st"
  "ss_in_flight (count_pins act n seen as st) = ss_in_flight st"
  by (induction act n seen as st rule: count_pins.induct) auto

lemma stats_step_spec:
  "ss_known (stats_step now st s) = ss_known st + (if session_live now s then 1 else 0)"
  "ss_active (stats_step now st s) = ss_active st + (if session_live now s \<and> is_active s now then 1 else 0)"
  "ss_in_flight (stats_step now st s) = ss_in_flight st + se_in_flight s"
  "al_get (ss_per_active (stats_step now st s)) a = al_get (ss_per_active st) a
     + (if session_live now s \<and> is_active s now \<and> a \<in> set (al_vals (se_pins s)) then 1 else 0)"
  "al_get (ss_per_in_flight (stats_step now st s)) a = al_get (ss_per_in_flight st) a
     + (if a \<in> set (al_vals (se_pins s)) then se_in_flight s else 0)"
  by (auto simp: stats_step_def session_live_def count_pins_spec)

lemma foldl_count:
  assumes "\<And>st s. g (f st s) = g st + (w s :: nat)"
  shows "g (foldl f st ss) = g st + sum_list (map w ss)"
  by (induction ss arbitrary: st) (simp_all add: assms)

lemma sum_list_if: "sum_list (map (\<lambda>s. if P s then 1 else 0) ss) = length (filter P ss)"
  by (induction ss) auto

lemma active_live: "is_active s now \<Longrightarrow> session_live now s"
  by (auto simp: is_active_def session_live_def SESSION_ACTIVE_TTL_MS_def SESSION_KNOWN_TTL_MS_def)

text \<open>The figures a status page shows are the ones of the sessions: known and active sessions
  are counted once each, and the load of an account is the number of active sessions pinned
  to it in any bucket, each session once however many of its buckets name the account.\<close>

theorem stats_of_counts:
  shows "ss_known (stats_of t now) = length (filter (session_live now) (al_vals (st_sessions t)))
    \<and> ss_active (stats_of t now) = length (filter (\<lambda>s. is_active s now) (al_vals (st_sessions t)))
    \<and> ss_in_flight (stats_of t now) = sum_list (map se_in_flight (al_vals (st_sessions t)))
    \<and> al_get (ss_per_active (stats_of t now)) a
        = length (filter (\<lambda>s. is_active s now \<and> a \<in> set (al_vals (se_pins s))) (al_vals (st_sessions t)))
    \<and> al_get (ss_per_in_flight (stats_of t now)) a
        = sum_list (map se_in_flight (filter (\<lambda>s. a \<in> set (al_vals (se_pins s))) (al_vals (st_sessions t))))"
proof -
  note c = foldl_count [where f = "stats_step now"]
  define ss where "ss = al_vals (st_sessions t)"
  have live: "(session_live now s \<and> is_active s now \<and> Q) \<longleftrightarrow> is_active s now \<and> Q" for s Q
    using active_live by blast
  have live': "(session_live now s \<and> is_active s now) \<longleftrightarrow> is_active s now" for s
    using active_live by blast
  show ?thesis
    unfolding stats_of_def ss_def [symmetric]
    by (subst c [where g = ss_known, OF stats_step_spec(1)],
        subst c [where g = ss_active, OF stats_step_spec(2)],
        subst c [where g = ss_in_flight, OF stats_step_spec(3)],
        subst c [where g = "\<lambda>st. al_get (ss_per_active st) a", OF stats_step_spec(4)],
        subst c [where g = "\<lambda>st. al_get (ss_per_in_flight st) a", OF stats_step_spec(5)])
      (simp add: live live' sum_list_if sum_list_map_filter')
qed

end
