(* ===== verification/Fleet.thy ===== *)
theory Fleet
  imports Account Session_Tracker
begin

text \<open>
  \<open>src/manager.rs\<close>, the fleet of one pool and the question every selection asks: why can
  this account not serve this model right now.
\<close>

record probe_account =
  pb_status :: string
  pb_started_at :: "int option"
  pb_finished_at :: "int option"
  pb_duration_ms :: "int option"
  pb_error :: "string option"

record probe_state =
  pb_interval_secs :: nat
  pb_running :: bool
  pb_last_run_started_at :: "int option"
  pb_last_run_finished_at :: "int option"
  pb_next_run_at :: "int option"
  pb_accounts :: "(string \<times> probe_account) list"
  pb_recheck :: "string list"

text \<open>The refresh locks only order concurrent refreshes and are not state of the model.\<close>

record fleet =
  fl_pool :: string
  fl_accounts :: "account list"
  fl_current :: "string option"
  fl_threshold :: threshold
  fl_routes :: "route_config list"
  fl_blocked_models :: "string list"
  fl_storm :: storm_ramp
  fl_distribute :: bool
  fl_hold_seconds :: nat
  fl_default_upstream :: string
  fl_route_pins :: "(string \<times> string) list"
  fl_sessions :: session_tracker
  fl_started_at :: int
  fl_client_usage :: "(string \<times> usage) list"
  fl_dimension_usage :: "(string \<times> (string \<times> usage) list) list"
  fl_expiry :: expiry_routing
  fl_soonest_reset :: bool
  fl_probe :: probe_state
  fl_warmup_secs :: nat
  fl_update_available :: "string option"
  fl_update_checked_at :: "int option"

text \<open>\<open>Manager::with_events\<close> before its first sync: the settings of one pool and no accounts.\<close>

definition fleet_blank :: "config \<Rightarrow> string \<Rightarrow> int \<Rightarrow> fleet" where
  "fleet_blank cfg pool now =
     (let p = pool_or_default cfg (Some pool)
      in \<lparr>fl_pool = pool, fl_accounts = [], fl_current = None, fl_threshold = pc_switch_threshold p,
          fl_routes = pc_routes p, fl_blocked_models = pc_blocked_models p,
          fl_storm = pc_storm_ramp p, fl_distribute = pc_distribute_sessions p,
          fl_hold_seconds = pc_hold_seconds p, fl_default_upstream = cf_upstream cfg,
          fl_route_pins = [], fl_sessions = tracker_new, fl_started_at = now, fl_client_usage = [],
          fl_dimension_usage = [], fl_expiry = pc_expiry_routing p,
          fl_soonest_reset = pc_soonest_reset p,
          fl_probe = \<lparr>pb_interval_secs = pc_quota_probe_seconds p, pb_running = False,
            pb_last_run_started_at = None, pb_last_run_finished_at = None, pb_next_run_at = None,
            pb_accounts = [], pb_recheck = []\<rparr>,
          fl_warmup_secs = cf_warmup_seconds cfg, fl_update_available = None,
          fl_update_checked_at = None\<rparr>)"

text \<open>A small fleet for closed examples.\<close>

definition demo_account :: "string \<Rightarrow> int \<Rightarrow> account" where
  "demo_account i prio =
     (account_blank i account_config_default)\<lparr>a_name := i, a_priority := prio, a_credential := Some ''t''\<rparr>"

definition demo_fleet :: "account list \<Rightarrow> fleet" where
  "demo_fleet as = (fleet_blank (config_default ''k'') ''default'' 0)\<lparr>fl_accounts := as\<rparr>"

lemma demo_account_simps [simp]:
  "a_id (demo_account i prio) = i" "a_name (demo_account i prio) = i"
  "a_priority (demo_account i prio) = prio" "a_credential (demo_account i prio) = Some ''t''"
  "a_quota (demo_account i prio) = quota_default" "a_provider (demo_account i prio) = Anthropic"
  "a_disabled (demo_account i prio) = False" "a_status (demo_account i prio) = Active"
  "a_rate_limited_until (demo_account i prio) = None" "a_upstream (demo_account i prio) = None"
  "a_entitlement_denied_until (demo_account i prio) = None" "a_max_usage (demo_account i prio) = None"
  "a_kind (demo_account i prio) = Oauth" "a_last_probe_at (demo_account i prio) = None"
  "a_requalify (demo_account i prio) = False" "a_in_flight (demo_account i prio) = 0"
  "a_ramp_started_at (demo_account i prio) = None" "a_open (demo_account i prio) = 0"
  by (simp_all add: demo_account_def account_blank_def account_config_default_def is_codex_def)

lemma demo_fleet_simps [simp]:
  "fl_accounts (demo_fleet as) = as" "fl_current (demo_fleet as) = None"
  "fl_routes (demo_fleet as) = []" "fl_default_upstream (demo_fleet as) = DEFAULT_UPSTREAM"
  "fl_distribute (demo_fleet as) = False" "fl_soonest_reset (demo_fleet as) = False"
  "er_enabled (fl_expiry (demo_fleet as)) = False" "fl_route_pins (demo_fleet as) = []"
  "fl_threshold (demo_fleet as) = Single DEFAULT_SWITCH_THRESHOLD"
  "fl_storm (demo_fleet as) = storm_default" "fl_sessions (demo_fleet as) = tracker_new"
  by (simp_all add: demo_fleet_def fleet_blank_def Let_def config_default_def pool_or_default_def
      DEFAULT_POOL_def pool_default_def expiry_default_def)

subsection \<open>Accounts by id\<close>

definition fleet_account :: "fleet \<Rightarrow> string \<Rightarrow> account option" where
  "fleet_account f i = List.find (\<lambda>a. a_id a = i) (fl_accounts f)"

definition account_by_name :: "fleet \<Rightarrow> string \<Rightarrow> account option" where
  "account_by_name f n = List.find (\<lambda>a. a_name a = n \<or> a_id a = n) (fl_accounts f)"

text \<open>Writing through \<open>account_mut\<close>.\<close>

fun upd_first :: "('a \<Rightarrow> bool) \<Rightarrow> ('a \<Rightarrow> 'a) \<Rightarrow> 'a list \<Rightarrow> 'a list" where
  "upd_first P g [] = []"
| "upd_first P g (x # xs) = (if P x then g x # xs else x # upd_first P g xs)"

definition upd_account :: "string \<Rightarrow> (account \<Rightarrow> account) \<Rightarrow> fleet \<Rightarrow> fleet" where
  "upd_account i g f = f\<lparr>fl_accounts := upd_first (\<lambda>a. a_id a = i) g (fl_accounts f)\<rparr>"

definition fleet_ids :: "fleet \<Rightarrow> string list" where
  "fleet_ids f = map a_id (fl_accounts f)"

lemma upd_first_ids: "(\<And>a. a_id (g a) = a_id a) \<Longrightarrow> map a_id (upd_first P g as) = map a_id as"
  by (induction as) auto

lemma upd_first_id [simp]: "(\<And>x. P x \<Longrightarrow> g x = x) \<Longrightarrow> upd_first P g xs = xs"
  by (induction xs) auto

lemma find_upd_first:
  assumes "\<And>a. a_id (g a) = a_id a"
  shows "List.find (\<lambda>a. a_id a = i) (upd_first (\<lambda>a. a_id a = j) g as) =
    (if i = j then map_option g (List.find (\<lambda>a. a_id a = i) as) else List.find (\<lambda>a. a_id a = i) as)"
  by (induction as) (auto simp: assms)

lemma set_upd_first:
  "distinct (map a_id as) \<Longrightarrow>
   set (upd_first (\<lambda>a. a_id a = i) g as) = (\<lambda>a. if a_id a = i then g a else a) ` set as"
proof (induction as)
  case (Cons a as)
  show ?case
  proof (cases "a_id a = i")
    case True
    with Cons.prems have "\<forall>b \<in> set as. a_id b \<noteq> i" by (metis distinct.simps(2) image_eqI list.set_map list.simps(9))
    then have "(\<lambda>a. if a_id a = i then g a else a) ` set as = set as" by (auto simp: image_iff)
    with True show ?thesis by simp
  next
    case False
    with Cons show ?thesis by simp
  qed
qed simp

lemma fleet_account_SomeD: "fleet_account f i = Some a \<Longrightarrow> a \<in> set (fl_accounts f) \<and> a_id a = i"
  unfolding fleet_account_def by (drule find_SomeD) auto

lemma fleet_account_mem:
  assumes "distinct (fleet_ids f)" and "a \<in> set (fl_accounts f)"
  shows "fleet_account f (a_id a) = Some a"
proof -
  have "List.find (\<lambda>b. a_id b = a_id a) as = Some a"
    if "distinct (map a_id as)" "a \<in> set as" for as
    using that by (induction as) (auto dest: imageI [where f = a_id])
  with assms show ?thesis by (simp add: fleet_account_def fleet_ids_def)
qed

lemma fleet_account_None: "fleet_account f i = None \<longleftrightarrow> i \<notin> set (fleet_ids f)"
  by (auto simp: fleet_account_def fleet_ids_def)

subsection \<open>Routes\<close>

definition threshold_for :: "fleet \<Rightarrow> string \<Rightarrow> f64" where
  "threshold_for f b = for_bucket (fl_threshold f) b"

definition route_for :: "fleet \<Rightarrow> string \<Rightarrow> route_config option" where
  "route_for f model = List.find (\<lambda>r. any_glob_matches (rt_patterns r) model) (fl_routes f)"

definition route_names :: "fleet \<Rightarrow> account \<Rightarrow> string \<Rightarrow> bool" where
  "route_names f a n \<longleftrightarrow> n = a_name a \<or> n = a_id a \<or>
     (case parse_unsigned u64_max n of
        Some i \<Rightarrow> i < length (fl_accounts f) \<and> a_id (fl_accounts f ! i) = a_id a | None \<Rightarrow> False)"

definition route_allows :: "fleet \<Rightarrow> account \<Rightarrow> string option \<Rightarrow> bool" where
  "route_allows f a model =
     (case Option.bind model (route_for f) of
        None \<Rightarrow> True
      | Some r \<Rightarrow> rt_accounts r = [] \<or> list_ex (route_names f a) (rt_accounts r))"

definition weekly_key_for :: "fleet \<Rightarrow> string option \<Rightarrow> string" where
  "weekly_key_for f model =
     (case Option.bind (Option.bind model (route_for f)) rt_bucket of
        Some b \<Rightarrow> if b = BUCKET_7D_FABLE then BUCKET_7D_FABLE
                  else if b = BUCKET_7D_SONNET then BUCKET_7D_SONNET else BUCKET_7D
      | None \<Rightarrow> weekly_bucket_for model)"

subsection \<open>Caps and thresholds\<close>

definition reached :: "f64 option \<Rightarrow> f64 option \<Rightarrow> bool" where
  "reached cap u = (case (cap, u) of (Some c, Some x) \<Rightarrow> f_le c x | _ \<Rightarrow> False)"

definition capped_bucket :: "fleet \<Rightarrow> account \<Rightarrow> string option \<Rightarrow> string option" where
  "capped_bucket f a model =
     (case a_max_usage a of
        None \<Rightarrow> None
      | Some caps \<Rightarrow>
          let q = a_quota a; key = weekly_key_for f model
          in if reached (cap_for caps BUCKET_5H) (utilization (unified5h q)) then Some BUCKET_5H
             else if reached (cap_for caps BUCKET_7D) (utilization (unified7d q)) then Some BUCKET_7D
             else if key \<noteq> BUCKET_7D \<and> reached (cap_for caps key) (Option.bind (bucket_of q key) utilization)
             then Some key
             else if reached (cap_for caps ''tokens'') (tokens_used q) then Some ''tokens''
             else None)"

text \<open>The text of a threshold reading: a window with the open requests, or a plain share.\<close>

datatype near_note = NearWindow string f64 nat | NearShare string f64

definition percent :: "f64 \<Rightarrow> string" where
  "percent u = fmt0 (f_mul u (Fin 100)) @ ''%''"

fun near_text :: "near_note \<Rightarrow> string" where
  "near_text (NearWindow b u n) =
     b @ '' at '' @ percent u @ (if 0 < n then '' with '' @ show_nat n @ '' open'' else [])"
| "near_text (NearShare b u) = b @ '' at '' @ percent u"

definition near_reading :: "fleet \<Rightarrow> account \<Rightarrow> string option \<Rightarrow> near_note option" where
  "near_reading f a model =
     (let q = a_quota a;
          margin = f_mul (f_of_int (int (a_open a))) OPEN_REQUEST_HEADROOM;
          key = weekly_key_for f model
      in opt_or
           (map_option (\<lambda>u. NearWindow ''5h'' u (a_open a))
             (opt_filter (\<lambda>u. f_le (threshold_for f BUCKET_5H) (f_add u margin)) (utilization (unified5h q))))
        (opt_or
           (map_option (\<lambda>u. NearWindow key u (a_open a))
             (opt_filter (\<lambda>u. f_le (threshold_for f key) (f_add u margin)) (gating_weekly q key)))
        (opt_or
           (map_option (NearShare ''tokens'')
             (opt_filter (\<lambda>u. f_le (threshold_for f ''tokens'') u) (tokens_used q)))
           (map_option (NearShare ''requests'')
             (opt_filter (\<lambda>u. f_le (threshold_for f ''requests'') u) (requests_used q))))))"

definition near_quota :: "fleet \<Rightarrow> account \<Rightarrow> string option \<Rightarrow> string option" where
  "near_quota f a model = map_option near_text (near_reading f a model)"

subsection \<open>Why an account cannot serve\<close>

datatype reason =
    OtherProvider | IsDisabled | NoCredential | UpstreamRefused | InError "string option"
  | RateLimited int | EntitlementDenied | RouteExcludes | AdvisorRouteExcludes
  | Capped string | AdvisorCapped string | NearQuota near_note | AdvisorNearQuota near_note

fun reason_text :: "reason \<Rightarrow> string" where
  "reason_text OtherProvider = ''other provider''"
| "reason_text IsDisabled = ''disabled''"
| "reason_text NoCredential = ''no credential''"
| "reason_text UpstreamRefused = ''upstream refused: subscription token must stay with its provider''"
| "reason_text (InError m) = ''error: '' @ unwrap_or ''needs re-login'' m"
| "reason_text (RateLimited s) = ''rate-limited for '' @ show_int s @ ''s''"
| "reason_text EntitlementDenied = ''oauth not allowed for organization (cooldown)''"
| "reason_text RouteExcludes = ''route excludes it''"
| "reason_text AdvisorRouteExcludes = ''route excludes the advisor model''"
| "reason_text (Capped b) = ''capped: '' @ b"
| "reason_text (AdvisorCapped b) = ''advisor-capped: '' @ b"
| "reason_text (NearQuota r) = ''quota: '' @ near_text r"
| "reason_text (AdvisorNearQuota r) = ''quota (advisor): '' @ near_text r"

text \<open>The early returns of the function, in order: the first guard that holds gives the reason.\<close>

fun first_reason :: "(bool \<times> reason) list \<Rightarrow> reason option" where
  "first_reason [] = None"
| "first_reason ((b, r) # gs) = (if b then Some r else first_reason gs)"

definition advisor_guard :: "string option \<Rightarrow> (string option \<Rightarrow> 'a option) \<Rightarrow> 'a option" where
  "advisor_guard advisor g = (if advisor = None then None else g advisor)"

definition unavailable ::
  "ext \<Rightarrow> fleet \<Rightarrow> account \<Rightarrow> string option \<Rightarrow> string option \<Rightarrow> provider option \<Rightarrow> int \<Rightarrow> reason option" where
  "unavailable E f a model advisor prov now =
     first_reason
       [(case prov of Some p \<Rightarrow> a_provider a \<noteq> p | None \<Rightarrow> False, OtherProvider),
        (a_disabled a, IsDisabled),
        (a_credential a = None, NoCredential),
        (upstream_for E (fl_default_upstream f) a = None, UpstreamRefused),
        (a_status a = Errored, InError (a_error_message a)),
        (case a_rate_limited_until a of Some u \<Rightarrow> now < u | None \<Rightarrow> False,
           RateLimited (trunc_div (the (a_rate_limited_until a) - now) 1000)),
        (case a_entitlement_denied_until a of Some u \<Rightarrow> now < u | None \<Rightarrow> False, EntitlementDenied),
        (\<not> route_allows f a model, RouteExcludes),
        (advisor \<noteq> None \<and> \<not> route_allows f a advisor, AdvisorRouteExcludes),
        (capped_bucket f a model \<noteq> None, Capped (the (capped_bucket f a model))),
        (advisor_guard advisor (capped_bucket f a) \<noteq> None, AdvisorCapped (the (capped_bucket f a advisor))),
        (near_reading f a model \<noteq> None, NearQuota (the (near_reading f a model))),
        (advisor_guard advisor (near_reading f a) \<noteq> None, AdvisorNearQuota (the (near_reading f a advisor)))]"

definition unavailable_reason_for ::
  "ext \<Rightarrow> fleet \<Rightarrow> account \<Rightarrow> string option \<Rightarrow> string option \<Rightarrow> provider option \<Rightarrow> int \<Rightarrow> string option" where
  "unavailable_reason_for E f a model advisor prov now =
     map_option reason_text (unavailable E f a model advisor prov now)"

definition unavailable_reason ::
  "ext \<Rightarrow> fleet \<Rightarrow> account \<Rightarrow> string option \<Rightarrow> string option \<Rightarrow> int \<Rightarrow> string option" where
  "unavailable_reason E f a model advisor now = unavailable_reason_for E f a model advisor None now"

definition unavailable_key :: "string \<Rightarrow> string" where
  "unavailable_key r =
     (if starts_with ''disabled'' r then ''disabled''
      else if starts_with ''rate-limited'' r then ''throttled''
      else if starts_with ''error'' r then ''error''
      else if starts_with ''oauth not allowed'' r then ''entitlement''
      else if starts_with ''advisor-capped'' r then ''advisor-capped''
      else if starts_with ''capped'' r then ''capped''
      else if starts_with ''quota (advisor)'' r then ''advisor-quota''
      else if starts_with ''quota'' r then ''quota''
      else if starts_with ''route excludes the advisor'' r then ''advisor-route''
      else if starts_with ''route'' r then ''route''
      else if starts_with ''upstream refused'' r then ''upstream-refused''
      else if starts_with ''other provider'' r then ''other-provider''
      else ''unknown'')"

text \<open>The prefix tests on the text, read back on the reasons.\<close>

fun reason_key :: "reason \<Rightarrow> string" where
  "reason_key OtherProvider = ''other-provider''"
| "reason_key IsDisabled = ''disabled''"
| "reason_key NoCredential = ''unknown''"
| "reason_key UpstreamRefused = ''upstream-refused''"
| "reason_key (InError m) = ''error''"
| "reason_key (RateLimited s) = ''throttled''"
| "reason_key EntitlementDenied = ''entitlement''"
| "reason_key RouteExcludes = ''route''"
| "reason_key AdvisorRouteExcludes = ''advisor-route''"
| "reason_key (Capped b) = ''capped''"
| "reason_key (AdvisorCapped b) = ''advisor-capped''"
| "reason_key (NearQuota r) = ''quota''"
| "reason_key (AdvisorNearQuota r) = ''advisor-quota''"

definition soft_reason :: "reason \<Rightarrow> bool" where
  "soft_reason r = (case r of NearQuota _ \<Rightarrow> True | _ \<Rightarrow> False)"

lemma starts_with_Cons_Nil: "\<not> starts_with (c # p) []"
  by (simp add: starts_with_def)

lemma unavailable_key_text: "unavailable_key (reason_text r) = reason_key r"
  by (cases r) (simp_all add: unavailable_key_def starts_with_Cons)

lemma quota_prefix_text: "starts_with ''quota:'' (reason_text r) = soft_reason r"
  by (cases r) (simp_all add: soft_reason_def starts_with_Cons)

lemma first_reason_None: "first_reason gs = None \<longleftrightarrow> (\<forall>(b, r) \<in> set gs. \<not> b)"
  by (induction gs rule: first_reason.induct) auto

text \<open>The hard guards: what must hold of an account that may take a request at all.\<close>

definition usable ::
  "ext \<Rightarrow> fleet \<Rightarrow> account \<Rightarrow> string option \<Rightarrow> string option \<Rightarrow> provider option \<Rightarrow> int \<Rightarrow> bool" where
  "usable E f a model advisor prov now \<longleftrightarrow>
     (case prov of Some p \<Rightarrow> a_provider a = p | None \<Rightarrow> True)
     \<and> \<not> a_disabled a \<and> a_credential a \<noteq> None \<and> upstream_for E (fl_default_upstream f) a \<noteq> None
     \<and> a_status a \<noteq> Errored
     \<and> (case a_rate_limited_until a of Some u \<Rightarrow> u \<le> now | None \<Rightarrow> True)
     \<and> (case a_entitlement_denied_until a of Some u \<Rightarrow> u \<le> now | None \<Rightarrow> True)
     \<and> route_allows f a model \<and> (advisor = None \<or> route_allows f a advisor)
     \<and> capped_bucket f a model = None \<and> (advisor = None \<or> capped_bucket f a advisor = None)"

lemma unavailable_None:
  "unavailable E f a model advisor prov now = None \<longleftrightarrow>
     usable E f a model advisor prov now \<and> near_reading f a model = None
     \<and> (advisor = None \<or> near_reading f a advisor = None)"
  by (auto simp: unavailable_def first_reason_None usable_def advisor_guard_def
      split: option.splits)

lemma unavailable_soft:
  "unavailable E f a model advisor prov now = Some r \<Longrightarrow> soft_reason r \<Longrightarrow>
   usable E f a model advisor prov now \<and> near_reading f a model \<noteq> None"
  by (auto simp: unavailable_def usable_def soft_reason_def advisor_guard_def
      split: option.splits if_splits)

lemma unavailable_soft_iff:
  "(\<exists>r. unavailable E f a model advisor prov now = Some r \<and> soft_reason r) \<longleftrightarrow>
   usable E f a model advisor prov now \<and> near_reading f a model \<noteq> None"
proof -
  have "\<exists>r. unavailable E f a model advisor prov now = Some r \<and> soft_reason r"
    if "usable E f a model advisor prov now" "near_reading f a model \<noteq> None"
    using that by (auto simp: unavailable_def usable_def soft_reason_def advisor_guard_def
        split: option.splits)
  then show ?thesis using unavailable_soft by blast
qed

text \<open>C9: The text an operator sees and the guards agree: an account can serve exactly when it
  passes every guard and every governing window is below its switch threshold; its reason
  starts with the prefix that marks it as soft exactly when it passes every hard guard and the
  requested model's own window is near its threshold, whether or not the advisor model's is near
  as well; and the status key derived from the text is the one of the guard that fired.\<close>

theorem unavailable_reason_correct:
  shows "(unavailable_reason_for E f a model advisor prov now = None \<longleftrightarrow>
      usable E f a model advisor prov now \<and> near_quota f a model = None
      \<and> (advisor = None \<or> near_quota f a advisor = None))
   \<and> ((\<exists>r. unavailable_reason_for E f a model advisor prov now = Some r \<and> starts_with ''quota:'' r) \<longleftrightarrow>
      usable E f a model advisor prov now \<and> near_quota f a model \<noteq> None)
   \<and> map_option unavailable_key (unavailable_reason_for E f a model advisor prov now)
      = map_option reason_key (unavailable E f a model advisor prov now)"
proof -
  have 3: "map_option unavailable_key (map_option reason_text x) = map_option reason_key x" for x
    by (cases x) (simp_all add: unavailable_key_text)
  show ?thesis
    unfolding unavailable_reason_for_def near_quota_def
    using unavailable_soft_iff [of E f a model advisor prov now]
    by (auto simp: unavailable_None 3 quota_prefix_text [symmetric])
qed

lemma quota_default_readings [simp]:
  "utilization (unified5h quota_default) = None" "gating_weekly quota_default key = None"
  "tokens_used quota_default = None" "requests_used quota_default = None"
  by (auto simp: quota_default_def bucket_default_def gating_weekly_def tokens_used_def requests_used_def
      bucket_of_def used_fraction_def split: option.splits)

lemma demo_available:
  "unavailable ext0 (demo_fleet as) (demo_account i prio) model None None now = None"
proof -
  have "is_anthropic_host ''api.anthropic.com''" by code_simp
  then have "upstream_for ext0 DEFAULT_UPSTREAM (demo_account i prio) = Some DEFAULT_UPSTREAM"
    by (simp add: upstream_for_def is_subscription_def ext0_def DEFAULT_UPSTREAM_def host_allowed_def)
  moreover have "near_reading (demo_fleet as) (demo_account i prio) model = None"
    by (simp add: near_reading_def Let_def)
  moreover have "route_allows (demo_fleet as) (demo_account i prio) model"
    by (cases model) (simp_all add: route_allows_def route_for_def)
  ultimately show ?thesis
    by (simp add: unavailable_None usable_def capped_bucket_def)
qed

end
