(* ===== verification/Ranking.thy ===== *)
theory Ranking
  imports Fleet "HOL-Library.Product_Lexorder"
begin

text \<open>
  \<open>src/manager.rs\<close>, the order in which available accounts are tried: by priority and weekly
  reset, by load when sessions are distributed, by expiry pressure, or by soonest reset.
\<close>

subsection \<open>Soonest-reset bands\<close>

definition weekly_reset_key :: "account \<Rightarrow> string option \<Rightarrow> int \<Rightarrow> int" where
  "weekly_reset_key a model now = unwrap_or i64_max (opt_filter (\<lambda>r. now < r) (weekly_reset_for a model))"

definition five_hour_deadline :: "account \<Rightarrow> int \<Rightarrow> int" where
  "five_hour_deadline a now =
     unwrap_or (now + FIVE_HOUR_WINDOW_MS) (opt_filter (\<lambda>r. now < r) (reset_at (unified5h (a_quota a))))"

text \<open>\<open>*map.entry(k).or_insert(i64::MAX) = min(...)\<close> over a list.\<close>

definition min_entry :: "('a \<Rightarrow> 'k) \<Rightarrow> ('a \<Rightarrow> int) \<Rightarrow> ('k \<times> int) list \<Rightarrow> 'a \<Rightarrow> ('k \<times> int) list" where
  "min_entry k v m a = AList.update (k a) (min (unwrap_or i64_max (map_of m (k a))) (v a)) m"

definition min_table :: "('a \<Rightarrow> 'k) \<Rightarrow> ('a \<Rightarrow> int) \<Rightarrow> 'a list \<Rightarrow> ('k \<times> int) list" where
  "min_table k v xs = foldl (min_entry k v) [] xs"

definition band_steps :: "int \<Rightarrow> int \<Rightarrow> int \<Rightarrow> int" where
  "band_steps t from width = (if t = i64_max then i64_max else trunc_div (t - from) width)"

definition weekly_band :: "account list \<Rightarrow> string option \<Rightarrow> int \<Rightarrow> account \<Rightarrow> int" where
  "weekly_band pool model now a =
     band_steps (weekly_reset_key a model now)
       (the (map_of (min_table a_priority (\<lambda>a. weekly_reset_key a model now) pool) (a_priority a)))
       WEEKLY_BAND_MS"

definition band_rank :: "account list \<Rightarrow> string option \<Rightarrow> int \<Rightarrow> account \<Rightarrow> int \<times> int \<times> int" where
  "band_rank pool model now a =
     (let wb = weekly_band pool model now;
          five_min = min_table (\<lambda>a. (a_priority a, wb a)) (\<lambda>a. five_hour_deadline a now) pool
      in (a_priority a, wb a,
          band_steps (five_hour_deadline a now) (the (map_of five_min (a_priority a, wb a))) FIVE_HOUR_BAND_MS))"

text \<open>Collecting into the hash map: a later account of the same id overwrites.\<close>

definition soonest_reset_bands ::
  "account list \<Rightarrow> string option \<Rightarrow> int \<Rightarrow> (string \<times> (int \<times> int \<times> int)) list" where
  "soonest_reset_bands pool model now = rev (map (\<lambda>a. (a_id a, band_rank pool model now a)) pool)"

subsection \<open>Expiry pressure\<close>

definition bucket_or_default :: "quota \<Rightarrow> string \<Rightarrow> bucket" where
  "bucket_or_default q key = unwrap_or bucket_default (bucket_of q key)"

definition pressure :: "fleet \<Rightarrow> account \<Rightarrow> string option \<Rightarrow> int \<Rightarrow> f64 option \<times> bool" where
  "pressure f a model now =
     (let b = bucket_or_default (a_quota a) (weekly_key_for f model)
      in (case utilization b of
            None \<Rightarrow> (None, False)
          | Some u \<Rightarrow>
              let spendable = f_sub (Fin 1) (f_clamp u (Fin 0) (Fin 1))
              in (case reset_at b of
                    Some r \<Rightarrow>
                      if now < r
                      then (Some (f_div spendable (f_div (f_of_int (r - now)) (Fin 1000))), True)
                      else (Some (Fin 0), True)
                  | None \<Rightarrow> (Some (f_div spendable (Fin (7 * 24 * 3600))), False))))"

definition measured_pressure :: "fleet \<Rightarrow> string option \<Rightarrow> int \<Rightarrow> account \<Rightarrow> f64 option" where
  "measured_pressure f model now a = (case pressure f a model now of (p, m) \<Rightarrow> if m then p else None)"

definition band_ratio :: "fleet \<Rightarrow> f64" where
  "band_ratio f =
     (let t = er_tolerance (fl_expiry f) in if is_finite t \<and> f_lt (Fin 0) t then t else Fin 1)"

definition pressure_or_inf :: "fleet \<Rightarrow> string option \<Rightarrow> int \<Rightarrow> account \<Rightarrow> f64" where
  "pressure_or_inf f model now a = unwrap_or PInf (fst (pressure f a model now))"

definition band_cmp :: "fleet \<Rightarrow> string option \<Rightarrow> int \<Rightarrow> account \<Rightarrow> account \<Rightarrow> ordering" where
  "band_cmp f model now a b =
     then_with (cmp_of (a_priority a) (a_priority b))
       (unwrap_or Equal (f_partial_cmp (pressure_or_inf f model now b) (pressure_or_inf f model now a)))"

definition list_min :: "int list \<Rightarrow> int" where
  "list_min xs = (case xs of [] \<Rightarrow> 0 | y # ys \<Rightarrow> fold min ys y)"

definition band :: "fleet \<Rightarrow> account list \<Rightarrow> string option \<Rightarrow> int \<Rightarrow> account list" where
  "band f v model now =
     (if \<not> er_enabled (fl_expiry f) \<or> length v \<le> 1 then v
      else
        let top = list_min (map a_priority v);
            known = List.map_filter (measured_pressure f model now) (filter (\<lambda>a. a_priority a = top) v)
        in (case known of
              [] \<Rightarrow> v
            | p # ps \<Rightarrow>
                let mx = foldl f_max p ps;
                    floor = f_min (f_div mx (band_ratio f)) mx
                in sort_by (band_cmp f model now)
                     (filter (\<lambda>a. a_priority a \<noteq> top \<or>
                                 (case fst (pressure f a model now) of Some p \<Rightarrow> f_le floor p | None \<Rightarrow> True)) v)))"

subsection \<open>The ranking\<close>

record select_request =
  sq_model :: "string option"
  sq_advisor :: "string option"
  sq_session :: "string option"
  sq_pin :: "string option"
  sq_exclude :: "string list"
  sq_allow_probe :: bool
  sq_provider :: "provider option"

definition is_available_for :: "ext \<Rightarrow> fleet \<Rightarrow> account \<Rightarrow> select_request \<Rightarrow> int \<Rightarrow> bool" where
  "is_available_for E f a req now \<longleftrightarrow>
     unavailable_reason_for E f a (sq_model req) (sq_advisor req) (sq_provider req) now = None"

definition available :: "ext \<Rightarrow> fleet \<Rightarrow> select_request \<Rightarrow> int \<Rightarrow> account list" where
  "available E f req now =
     filter (\<lambda>a. a_id a \<notin> set (sq_exclude req) \<and> is_available_for E f a req now) (fl_accounts f)"

definition load_of :: "session_stats option \<Rightarrow> account \<Rightarrow> nat \<times> nat" where
  "load_of stats a =
     (case stats of
        None \<Rightarrow> (0, 0)
      | Some st \<Rightarrow> (unwrap_or 0 (map_of (ss_per_active st) (a_id a)),
                   unwrap_or 0 (map_of (ss_per_in_flight st) (a_id a)) + a_in_flight a))"

definition default_cmp :: "session_stats option \<Rightarrow> string option \<Rightarrow> account \<Rightarrow> account \<Rightarrow> ordering" where
  "default_cmp stats model a b =
     then_with (cmp_of (a_priority a) (a_priority b))
       (let la = load_of stats a; lb = load_of stats b
        in if stats \<noteq> None \<and> fst la \<noteq> fst lb then cmp_of (fst la) (fst lb)
           else if stats \<noteq> None \<and> snd la \<noteq> snd lb then cmp_of (snd la) (snd lb)
           else cmp_of (unwrap_or i64_max (weekly_reset_for a model)) (unwrap_or i64_max (weekly_reset_for b model)))"

definition fleet_stats :: "fleet \<Rightarrow> int \<Rightarrow> session_stats option" where
  "fleet_stats f now = (if fl_distribute f then Some (stats_of (fl_sessions f) now) else None)"

definition ranked_by_default :: "ext \<Rightarrow> fleet \<Rightarrow> select_request \<Rightarrow> int \<Rightarrow> account list" where
  "ranked_by_default E f req now =
     (let v = available E f req now
      in if er_enabled (fl_expiry f) then band f v (sq_model req) now
         else sort_by (default_cmp (fleet_stats f now) (sq_model req)) v)"

definition soonest_cmp ::
  "(string \<times> (int \<times> int \<times> int)) list \<Rightarrow> session_stats option \<Rightarrow> string option \<Rightarrow> int \<Rightarrow>
   account \<Rightarrow> account \<Rightarrow> ordering" where
  "soonest_cmp bands stats model now a b =
     then_with (cmp_of (the (map_of bands (a_id a))) (the (map_of bands (a_id b))))
    (then_with (cmp_of (load_of stats a) (load_of stats b))
    (then_with (cmp_of (weekly_reset_key a model now) (weekly_reset_key b model now))
       (cmp_of (five_hour_deadline a now) (five_hour_deadline b now))))"

definition ranked_available :: "ext \<Rightarrow> fleet \<Rightarrow> select_request \<Rightarrow> int \<Rightarrow> account list" where
  "ranked_available E f req now =
     (let v = ranked_by_default E f req now
      in if fl_soonest_reset f
         then sort_by (soonest_cmp (soonest_reset_bands v (sq_model req) now) (fleet_stats f now) (sq_model req) now) v
         else v)"

definition best :: "ext \<Rightarrow> fleet \<Rightarrow> select_request \<Rightarrow> int \<Rightarrow> account option" where
  "best E f req now = (case ranked_available E f req now of [] \<Rightarrow> None | a # _ \<Rightarrow> Some a)"

definition soonest_reset_preempts ::
  "ext \<Rightarrow> fleet \<Rightarrow> account \<Rightarrow> account \<Rightarrow> select_request \<Rightarrow> int \<Rightarrow> bool" where
  "soonest_reset_preempts E f b c req now =
     (if \<not> fl_soonest_reset f \<or> a_id b = a_id c then False
      else
        let bands = soonest_reset_bands (available E f req now) (sq_model req) now
        in (case (map_of bands (a_id b), map_of bands (a_id c)) of
              (Some x, Some y) \<Rightarrow> x < y | _ \<Rightarrow> False))"

subsection \<open>The comparators are total preorders\<close>

lemma cmp_of_pair: "cmp_of (a, b) (c, d) = then_with (cmp_of a c) (cmp_of b d)"
  by (auto simp: cmp_of_def then_with_def less_prod_def)

lemma default_cmp_key:
  "default_cmp stats model a b =
     cmp_of (a_priority a, load_of stats a, unwrap_or i64_max (weekly_reset_for a model))
            (a_priority b, load_of stats b, unwrap_or i64_max (weekly_reset_for b model))"
  by (cases stats; cases "load_of stats a"; cases "load_of stats b")
    (simp_all add: default_cmp_def cmp_of_pair then_with_def cmp_of_simps load_of_def)

lemma default_cmp_preorder: "preorder_cmp (default_cmp stats model)"
  unfolding default_cmp_key [abs_def] by (rule preorder_cmp_of_key)

lemma soonest_cmp_preorder: "preorder_cmp (soonest_cmp bands stats model now)"
  unfolding soonest_cmp_def
  by (intro preorder_cmp_then_with
      preorder_cmp_of_key [where k = "\<lambda>a. the (map_of bands (a_id a))"]
      preorder_cmp_of_key [where k = "load_of stats"]
      preorder_cmp_of_key [where k = "\<lambda>a. weekly_reset_key a model now"]
      preorder_cmp_of_key [where k = "\<lambda>a. five_hour_deadline a now"])

text \<open>Pressures that are numbers, in descending order.\<close>

fun f_rank :: "f64 \<Rightarrow> int \<times> rat" where
  "f_rank PInf = (0, 0)"
| "f_rank (Fin x) = (1, - x)"
| "f_rank NInf = (2, 0)"
| "f_rank NaN = (3, 0)"

lemma partial_cmp_rank:
  "a \<noteq> NaN \<Longrightarrow> b \<noteq> NaN \<Longrightarrow> unwrap_or Equal (f_partial_cmp b a) = cmp_of (f_rank a) (f_rank b)"
  by (cases a; cases b) (auto simp: f_partial_cmp_def cmp_of_def)

lemma insert_by_cong: "(\<And>y. y \<in> set ys \<Longrightarrow> c x y = d x y) \<Longrightarrow> insert_by c x ys = insert_by d x ys"
  by (induction ys) auto

lemma sort_by_cong: "(\<And>x y. x \<in> set xs \<Longrightarrow> y \<in> set xs \<Longrightarrow> c x y = d x y) \<Longrightarrow> sort_by c xs = sort_by d xs"
  by (induction xs) (auto intro: insert_by_cong)

interpretation default_order: preorder_cmp "default_cmp stats model" for stats model
  by (rule default_cmp_preorder)

interpretation soonest_order: preorder_cmp "soonest_cmp bands stats model now" for bands stats model now
  by (rule soonest_cmp_preorder)

interpretation pressure_order: preorder_cmp
  "\<lambda>a b. then_with (cmp_of (a_priority a) (a_priority b))
     (cmp_of (f_rank (pressure_or_inf f model now a)) (f_rank (pressure_or_inf f model now b)))" for f model now
  by (intro preorder_cmp_then_with preorder_cmp_of_key
      preorder_cmp_of_key [where k = "\<lambda>a. f_rank (pressure_or_inf f model now a)"])

end
