(* ===== verification/Ranking_Facts.thy ===== *)
theory Ranking_Facts
  imports Ranking
begin

text \<open>
  What the ranking of \<open>src/manager.rs\<close> guarantees: it offers only available accounts, offers
  one whenever there is one, and puts the right one first.
\<close>

subsection \<open>Only available accounts\<close>

lemma available_iff:
  "a \<in> set (available E f req now) \<longleftrightarrow>
     a \<in> set (fl_accounts f) \<and> a_id a \<notin> set (sq_exclude req) \<and> is_available_for E f a req now"
  by (auto simp: available_def)

lemma band_subset: "set (band f v model now) \<subseteq> set v"
  by (auto simp: band_def Let_def split: list.splits if_splits)

lemma set_soonest [simp]: "set (ranked_available E f req now) = set (ranked_by_default E f req now)"
  by (simp add: ranked_available_def Let_def)

lemma set_ranked_subset: "set (ranked_by_default E f req now) \<subseteq> set (available E f req now)"
  using band_subset by (auto simp: ranked_by_default_def Let_def)

lemma best_SomeD: "best E f req now = Some b \<Longrightarrow> b \<in> set (ranked_available E f req now)"
  by (auto simp: best_def simp del: set_soonest split: list.splits)

lemma best_available: "best E f req now = Some b \<Longrightarrow> b \<in> set (available E f req now)"
  using best_SomeD set_ranked_subset by fastforce

lemma best_hd: "best E f req now = Some b \<longleftrightarrow>
    ranked_available E f req now \<noteq> [] \<and> b = hd (ranked_available E f req now)"
  by (auto simp: best_def split: list.splits)

subsection \<open>Pressures are numbers\<close>

definition reading_ok :: "account \<Rightarrow> bool" where
  "reading_ok a \<longleftrightarrow> (\<forall>key. utilization (bucket_or_default (a_quota a) key) \<noteq> Some NaN)"

lemma clamp_unit: "u \<noteq> NaN \<Longrightarrow> \<exists>y. f_sub (Fin 1) (f_clamp u (Fin 0) (Fin 1)) = Fin y \<and> 0 \<le> y \<and> y \<le> 1"
  by (cases u) (auto simp: f_clamp_def f_sub_def)

lemma pressure_num:
  assumes "reading_ok a" and "fst (pressure f a model now) = Some p"
  shows "\<exists>x. p = Fin x \<and> 0 \<le> x"
proof -
  let ?b = "bucket_or_default (a_quota a) (weekly_key_for f model)"
  obtain u where u: "utilization ?b = Some u"
    using assms(2) by (cases "utilization ?b") (auto simp: pressure_def Let_def)
  then have "u \<noteq> NaN" using assms(1) by (auto simp: reading_ok_def)
  then obtain y where y: "f_sub (Fin 1) (f_clamp u (Fin 0) (Fin 1)) = Fin y" "0 \<le> y"
    using clamp_unit by blast
  show ?thesis
  proof (cases "reset_at ?b")
    case None
    with assms(2) u y show ?thesis by (auto simp: pressure_def Let_def f_div_def)
  next
    case (Some r)
    show ?thesis
    proof (cases "now < r")
      case True
      then have "(0::rat) < of_int (r - now)" by simp
      with assms(2) u y Some True show ?thesis
        by (auto simp: pressure_def Let_def f_div_def f_of_int_def)
    next
      case False
      with assms(2) u y Some show ?thesis by (auto simp: pressure_def Let_def)
    qed
  qed
qed

lemma pressure_or_inf_num: "reading_ok a \<Longrightarrow> pressure_or_inf f model now a \<noteq> NaN"
  using pressure_num by (cases "fst (pressure f a model now)") (fastforce simp: pressure_or_inf_def)+

lemma foldl_f_max:
  assumes "p \<noteq> NaN" and "\<forall>x \<in> set ps. x \<noteq> NaN"
  shows "foldl f_max p ps \<in> set (p # ps) \<and> foldl f_max p ps \<noteq> NaN"
  using assms
proof (induction ps arbitrary: p)
  case (Cons q qs)
  have "f_max p q = p \<or> f_max p q = q" by (rule f_max_cases)
  with Cons.prems Cons.IH [of "f_max p q"] show ?case by auto
qed simp

lemma floor_le:
  assumes "mx = Fin x" and "0 \<le> x"
  shows "f_le (f_min (f_div mx (band_ratio f)) mx) mx"
proof -
  have "\<exists>t. band_ratio f = Fin t \<and> 0 < t"
    by (cases "er_tolerance (fl_expiry f)") (auto simp: band_ratio_def Let_def)
  then obtain t where "band_ratio f = Fin t" "0 < t" by blast
  with assms show ?thesis by (auto simp: f_div_def f_min_def f_le_def)
qed

lemma list_min_le: "x \<in> set xs \<Longrightarrow> list_min xs \<le> x"
  using fold_min_le by (cases xs) (auto simp: list_min_def)

lemma list_min_mem: "xs \<noteq> [] \<Longrightarrow> list_min xs \<in> set xs"
  using fold_min_mem by (cases xs) (auto simp: list_min_def)

definition top_measured :: "fleet \<Rightarrow> account list \<Rightarrow> string option \<Rightarrow> int \<Rightarrow> bool" where
  "top_measured f v model now \<longleftrightarrow>
     (\<exists>a \<in> set v. a_priority a = list_min (map a_priority v) \<and> measured_pressure f model now a \<noteq> None)"

lemma map_filter_Nil: "List.map_filter g xs = [] \<longleftrightarrow> (\<forall>x \<in> set xs. g x = None)"
  by (induction xs) (auto simp: List.map_filter_simps split: option.splits)

lemma set_map_filter': "set (List.map_filter g xs) = {y. \<exists>x \<in> set xs. g x = Some y}"
  by (induction xs) (auto simp: List.map_filter_simps split: option.splits)

lemma measured_fst: "measured_pressure f model now a = Some q \<Longrightarrow> fst (pressure f a model now) = Some q"
  by (auto simp: measured_pressure_def split: prod.splits if_splits)

text \<open>The best measured account of the top tier always stays in the band.\<close>

lemma band_top:
  assumes ok: "\<forall>a \<in> set v. reading_ok a" and en: "er_enabled (fl_expiry f)" and len: "1 < length v"
    and m: "top_measured f v model now"
  shows "\<exists>a \<in> set (band f v model now). a_priority a = list_min (map a_priority v)"
proof -
  let ?top = "list_min (map a_priority v)"
  let ?known = "List.map_filter (measured_pressure f model now) (filter (\<lambda>a. a_priority a = ?top) v)"
  have "?known \<noteq> []" using m by (auto simp: map_filter_Nil top_measured_def)
  then obtain p ps where k: "?known = p # ps" by (cases ?known) auto
  have mem: "\<exists>a \<in> set v. a_priority a = ?top \<and> fst (pressure f a model now) = Some q" if "q \<in> set ?known" for q
    using that by (auto simp: set_map_filter' dest: measured_fst)
  have num: "\<exists>x. q = Fin x \<and> 0 \<le> x" if "q \<in> set ?known" for q
    using mem [OF that] ok pressure_num by blast
  let ?mx = "foldl f_max p ps"
  have "p \<noteq> NaN" "\<forall>x \<in> set ps. x \<noteq> NaN" using num by (fastforce simp: k)+
  then have mx: "?mx \<in> set ?known" using foldl_f_max by (simp add: k)
  obtain a where a: "a \<in> set v" "a_priority a = ?top" "fst (pressure f a model now) = Some ?mx"
    using mem [OF mx] by blast
  obtain x where "?mx = Fin x" "0 \<le> x" using num [OF mx] by blast
  then have "f_le (f_min (f_div ?mx (band_ratio f)) ?mx) ?mx" by (rule floor_le)
  with a have "a \<in> set (band f v model now)" using en len k by (simp add: band_def Let_def)
  with a(2) show ?thesis by blast
qed

lemma band_unmeasured: "\<not> top_measured f v model now \<Longrightarrow> band f v model now = v"
proof -
  assume "\<not> top_measured f v model now"
  then have "List.map_filter (measured_pressure f model now)
      (filter (\<lambda>a. a_priority a = list_min (map a_priority v)) v) = []"
    by (auto simp: map_filter_Nil top_measured_def)
  then show ?thesis by (simp add: band_def Let_def)
qed

lemma band_eq_Nil:
  assumes "er_enabled (fl_expiry f) \<Longrightarrow> \<forall>a \<in> set v. reading_ok a"
  shows "band f v model now = [] \<longleftrightarrow> v = []"
proof (cases "er_enabled (fl_expiry f) \<and> 1 < length v \<and> top_measured f v model now")
  case True
  with band_top [OF assms] show ?thesis by fastforce
next
  case False
  then have "band f v model now = v"
    by (cases "top_measured f v model now") (auto simp: band_unmeasured, auto simp: band_def)
  then show ?thesis by simp
qed

lemma ranked_eq_Nil:
  assumes "er_enabled (fl_expiry f) \<Longrightarrow> \<forall>a \<in> set (fl_accounts f). reading_ok a"
  shows "ranked_available E f req now = [] \<longleftrightarrow> available E f req now = []"
proof -
  have "er_enabled (fl_expiry f) \<Longrightarrow> \<forall>a \<in> set (available E f req now). reading_ok a" using assms by (simp add: available_def)
  then show ?thesis
    by (auto simp: ranked_available_def ranked_by_default_def Let_def band_eq_Nil)
qed

text \<open>Without the condition on the readings it is false: the header parser lets a NaN through, and accounts
  of one priority whose readings are all NaN drop out of the band together.\<close>

lemma nan_readings_empty_band:
  assumes "er_enabled (fl_expiry f)" and "1 < length v"
    and nan: "\<And>a. a \<in> set v \<Longrightarrow> a_priority a = p \<and> (\<exists>r. now < r \<and>
      bucket_or_default (a_quota a) (weekly_key_for f model) = b a \<and> utilization (b a) = Some NaN \<and> reset_at (b a) = Some r)"
  shows "band f v model now = []"
proof -
  have pr: "pressure f a model now = (Some NaN, True)" if "a \<in> set v" for a
    using nan [OF that] by (auto simp: pressure_def Let_def f_clamp_def f_sub_def f_div_def)
  have top: "a_priority a = list_min (map a_priority v)" if "a \<in> set v" for a
  proof -
    have "map a_priority v \<noteq> []" using that by auto
    from list_min_mem [OF this] nan that show ?thesis by auto
  qed
  let ?top = "list_min (map a_priority v)"
  have "\<forall>a \<in> set xs. measured_pressure f model now a = Some NaN \<Longrightarrow>
      List.map_filter (measured_pressure f model now) xs = replicate (length xs) NaN" for xs
    by (induction xs) (simp_all add: List.map_filter_simps)
  moreover have "\<forall>a \<in> set v. measured_pressure f model now a = Some NaN" using pr by (simp add: measured_pressure_def)
  moreover have ftop: "filter (\<lambda>a. a_priority a = ?top) v = v" using top by (simp add: filter_id_conv)
  moreover obtain n where n: "length v = Suc n" using assms(2) by (cases "length v") auto
  ultimately have known: "List.map_filter (measured_pressure f model now) (filter (\<lambda>a. a_priority a = ?top) v) = NaN # replicate n NaN"
    by simp
  have fold: "foldl f_max NaN (replicate m NaN) = NaN" for m by (induction m) (simp_all add: f_max_def)
  have none: "\<not> f_le (f_min (f_div NaN (band_ratio f)) NaN) NaN" by (simp add: f_le_def)
  let ?mx = "foldl f_max NaN (replicate n NaN)"
  have "filter (\<lambda>a. a_priority a \<noteq> ?top \<or> (case fst (pressure f a model now) of
      Some p \<Rightarrow> f_le (f_min (f_div ?mx (band_ratio f)) ?mx) p | None \<Rightarrow> True)) v = []"
    unfolding fold using pr top none by (simp add: filter_empty_conv)
  with assms(1,2) known show ?thesis by (simp add: band_def Let_def)
qed

text \<open>C36: In every routing mode, plain, load-distributing, expiry and soonest-reset, the ranking
  offers only accounts that can serve the request and that the caller has not excluded, and
  it offers one whenever there is one, so no routing mode can exhaust a fleet that still has a
  usable account. With expiry routing on that second part rests on no reading being NaN, which the header parser
  does not rule out: accounts of one tier whose readings are all NaN are left out together.\<close>

theorem ranking_complete:
  assumes "er_enabled (fl_expiry f) \<Longrightarrow> \<forall>a \<in> set (fl_accounts f). reading_ok a"
  shows "(\<forall>b. best E f req now = Some b \<longrightarrow> b \<in> set (fl_accounts f) \<and> a_id b \<notin> set (sq_exclude req)
            \<and> is_available_for E f b req now)
       \<and> (best E f req now = None \<longleftrightarrow>
            (\<forall>a \<in> set (fl_accounts f). a_id a \<in> set (sq_exclude req) \<or> \<not> is_available_for E f a req now))"
proof -
  have "best E f req now = None \<longleftrightarrow> ranked_available E f req now = []"
    by (simp add: best_def split: list.splits)
  also have "\<dots> \<longleftrightarrow> available E f req now = []" using assms by (rule ranked_eq_Nil)
  also have "\<dots> \<longleftrightarrow> (\<forall>a \<in> set (fl_accounts f). a_id a \<in> set (sq_exclude req) \<or> \<not> is_available_for E f a req now)"
    by (auto simp: available_def filter_empty_conv)
  finally show ?thesis using best_available available_iff by blast
qed

definition demo_request :: select_request where
  "demo_request = \<lparr>sq_model = None, sq_advisor = None, sq_session = None, sq_pin = None,
     sq_exclude = [], sq_allow_probe = True, sq_provider = None\<rparr>"

lemma reading_ok_demo [simp]: "reading_ok (demo_account i p)"
  by (simp add: reading_ok_def bucket_or_default_def bucket_of_def quota_default_def bucket_default_def)

lemma demo_available_for [simp]: "is_available_for ext0 (demo_fleet as) (demo_account i p) demo_request now"
  by (simp add: is_available_for_def unavailable_reason_for_def demo_request_def demo_available)

theorem ranking_complete_witness:
  "best ext0 (demo_fleet [demo_account ''a'' 1]) demo_request 0 \<noteq> None"
proof -
  have "\<forall>a \<in> set (fl_accounts (demo_fleet [demo_account ''a'' 1])). reading_ok a" by simp
  note c = conjunct2 [OF ranking_complete [OF this, of ext0 demo_request 0]]
  show ?thesis unfolding c by (simp add: demo_request_def [THEN arg_cong [where f = sq_exclude]])
qed

subsection \<open>Priority\<close>

lemma band_hd_top:
  assumes ok: "\<forall>a \<in> set v. reading_ok a" and en: "er_enabled (fl_expiry f)" and len: "1 < length v"
    and m: "top_measured f v model now" and a: "a \<in> set v"
  shows "a_priority (hd (band f v model now)) \<le> a_priority a"
proof -
  let ?top = "list_min (map a_priority v)"
  let ?c = "\<lambda>a b. then_with (cmp_of (a_priority a) (a_priority b))
     (cmp_of (f_rank (pressure_or_inf f model now a)) (f_rank (pressure_or_inf f model now b)))"
  obtain w where w: "band f v model now = sort_by (band_cmp f model now) w" "set w \<subseteq> set v"
  proof -
    have "List.map_filter (measured_pressure f model now) (filter (\<lambda>a. a_priority a = ?top) v) \<noteq> []"
      using m by (auto simp: map_filter_Nil top_measured_def)
    then have "\<exists>w. band f v model now = sort_by (band_cmp f model now) w \<and> set w \<subseteq> set v"
      using en len by (auto simp: band_def Let_def neq_Nil_conv)
    with that show ?thesis by blast
  qed
  have "sort_by (band_cmp f model now) w = sort_by ?c w"
    using w(2) ok pressure_or_inf_num
    by (intro sort_by_cong) (simp add: band_cmp_def partial_cmp_rank subset_iff)
  with w(1) have eq: "band f v model now = sort_by ?c w" by simp
  obtain t where t: "t \<in> set (band f v model now)" "a_priority t = ?top"
    using band_top [OF ok en len m] by blast
  have "?c (hd (band f v model now)) t \<noteq> Greater"
    using t(1) unfolding eq by (intro pressure_order.hd_sort_by_least) simp
  then have "a_priority (hd (band f v model now)) \<le> ?top"
    using t(2) by (auto simp: then_with_Greater cmp_of_simps)
  also have "?top \<le> a_priority a" using a by (intro list_min_le) simp
  finally show ?thesis .
qed

lemma hd_in_ranked: "v \<noteq> [] \<Longrightarrow> hd v \<in> set v" by simp

lemma bands_lookup:
  assumes "distinct (map a_id v)" and "a \<in> set v"
  shows "map_of (soonest_reset_bands v model now) (a_id a) = Some (band_rank v model now a)"
proof -
  have "al_keys (soonest_reset_bands v model now) = rev (map a_id v)"
    by (simp add: soonest_reset_bands_def rev_map comp_def)
  then have "distinct (al_keys (soonest_reset_bands v model now))" using assms(1) by simp
  moreover have "(a_id a, band_rank v model now a) \<in> set (soonest_reset_bands v model now)"
    using assms(2) by (simp add: soonest_reset_bands_def)
  ultimately show ?thesis by simp
qed

lemma distinct_sort_by: "distinct (map g (sort_by c xs)) = distinct (map g xs)"
  by (rule mset_eq_imp_distinct_iff) (simp add: mset_map)

lemma distinct_ranked:
  assumes "distinct (fleet_ids f)"
  shows "distinct (map a_id (ranked_by_default E f req now))"
proof -
  have av: "distinct (map a_id (available E f req now))"
    using assms by (simp add: available_def fleet_ids_def distinct_map_filter)
  then have "distinct (map a_id (band f (available E f req now) model now))" for model
    by (auto simp: band_def Let_def distinct_sort_by distinct_map_filter split: list.splits)
  with av show ?thesis by (simp add: ranked_by_default_def Let_def distinct_sort_by)
qed

lemma soonest_hd_le:
  assumes d: "distinct (fleet_ids f)" and s: "fl_soonest_reset f" and b: "best E f req now = Some b"
    and a: "a \<in> set (ranked_by_default E f req now)"
  shows "band_rank (ranked_by_default E f req now) (sq_model req) now b
       \<le> band_rank (ranked_by_default E f req now) (sq_model req) now a"
proof -
  let ?v = "ranked_by_default E f req now"
  let ?c = "soonest_cmp (soonest_reset_bands ?v (sq_model req) now) (fleet_stats f now) (sq_model req) now"
  have r: "ranked_available E f req now = sort_by ?c ?v" using s by (simp add: ranked_available_def Let_def)
  have "b = hd (sort_by ?c ?v)" using b by (simp add: best_hd r)
  then have "?c b a \<noteq> Greater" using soonest_order.hd_sort_by_least [OF a] by simp
  then have "the (map_of (soonest_reset_bands ?v (sq_model req) now) (a_id b))
      \<le> the (map_of (soonest_reset_bands ?v (sq_model req) now) (a_id a))"
    unfolding soonest_cmp_def then_with_Greater cmp_of_simps by auto
  moreover have "b \<in> set ?v" using best_SomeD [OF b] by simp
  ultimately show ?thesis using bands_lookup [OF distinct_ranked [OF d]] a by simp
qed

text \<open>Some candidate that survives the expiry band is as good as any available account.\<close>

lemma ranked_has_top:
  assumes ok: "\<forall>a \<in> set (fl_accounts f). reading_ok a" and a: "a \<in> set (available E f req now)"
  shows "\<exists>t \<in> set (ranked_by_default E f req now). a_priority t \<le> a_priority a"
proof -
  let ?v = "available E f req now" and ?r = "ranked_by_default E f req now"
  have okv: "\<forall>a \<in> set ?v. reading_ok a" using ok by (simp add: available_def)
  show ?thesis
  proof (cases "er_enabled (fl_expiry f) \<and> 1 < length ?v \<and> top_measured f ?v (sq_model req) now")
    case True
    then have "?r = band f ?v (sq_model req) now" by (simp add: ranked_by_default_def Let_def)
    with True band_top [OF okv, of f "sq_model req" now]
    obtain t where "t \<in> set ?r" "a_priority t = list_min (map a_priority ?v)" by auto
    moreover have "list_min (map a_priority ?v) \<le> a_priority a" using a by (intro list_min_le) simp
    ultimately show ?thesis by (intro bexI [of _ t]) simp_all
  next
    case False
    then have "set ?r = set ?v"
      by (cases "top_measured f ?v (sq_model req) now")
        (auto simp: ranked_by_default_def Let_def band_unmeasured, auto simp: band_def)
    with a show ?thesis by auto
  qed
qed

lemma hd_default_top:
  assumes ok: "\<forall>a \<in> set (fl_accounts f). reading_ok a" and a: "a \<in> set (available E f req now)"
    and m: "\<not> er_enabled (fl_expiry f) \<or> top_measured f (available E f req now) (sq_model req) now"
  shows "a_priority (hd (ranked_by_default E f req now)) \<le> a_priority a"
proof -
  let ?v = "available E f req now"
  have okv: "\<forall>a \<in> set ?v. reading_ok a" using ok by (simp add: available_def)
  show ?thesis
  proof (cases "er_enabled (fl_expiry f)")
    case en: True
    show ?thesis
    proof (cases "1 < length ?v")
      case True
      with m en band_hd_top [OF okv en True _ a] show ?thesis by (simp add: ranked_by_default_def Let_def)
    next
      case False
      with a en show ?thesis by (cases ?v) (auto simp: ranked_by_default_def Let_def band_def)
    qed
  next
    case False
    then have "default_cmp (fleet_stats f now) (sq_model req) (hd (ranked_by_default E f req now)) a \<noteq> Greater"
      using default_order.hd_sort_by_least [OF a] by (simp add: ranked_by_default_def Let_def)
    then show ?thesis by (auto simp: default_cmp_def then_with_Greater cmp_of_simps)
  qed
qed

text \<open>The account tried first has the best (lowest) priority number among all accounts that
  could serve: always without expiry routing and always with soonest-reset routing; with
  expiry routing alone, once some account of the top tier has a measured weekly window.\<close>

theorem best_has_top_priority:
  assumes "distinct (fleet_ids f)" and "\<forall>a \<in> set (fl_accounts f). reading_ok a"
    and "best E f req now = Some b" and "a \<in> set (available E f req now)"
    and "\<not> er_enabled (fl_expiry f) \<or> fl_soonest_reset f \<or> top_measured f (available E f req now) (sq_model req) now"
  shows "a_priority b \<le> a_priority a"
proof (cases "fl_soonest_reset f")
  case True
  obtain t where t: "t \<in> set (ranked_by_default E f req now)" "a_priority t \<le> a_priority a"
    using ranked_has_top [OF assms(2,4)] by blast
  from soonest_hd_le [OF assms(1) True assms(3) t(1)] t(2) show ?thesis
    by (auto simp: band_rank_def Let_def less_eq_prod_def)
next
  case False
  then have "b = hd (ranked_by_default E f req now)"
    using assms(3) by (auto simp: best_hd ranked_available_def Let_def)
  with hd_default_top [OF assms(2,4)] assms(5) False show ?thesis by simp
qed

lemma demo_available_list:
  "available ext0 (demo_fleet [demo_account ''b'' 5, demo_account ''a'' 0]) demo_request now =
     [demo_account ''b'' 5, demo_account ''a'' 0]"
proof -
  have "sq_exclude demo_request = []" by (simp add: demo_request_def)
  then show ?thesis by (simp add: available_def)
qed

theorem best_has_top_priority_witness:
  "\<exists>b. best ext0 (demo_fleet [demo_account ''b'' 5, demo_account ''a'' 0]) demo_request 0 = Some b \<and> a_priority b \<le> 0"
proof -
  let ?f = "demo_fleet [demo_account ''b'' 5, demo_account ''a'' 0]"
  have d: "distinct (fleet_ids ?f)" by (simp add: fleet_ids_def)
  have ok: "\<forall>a \<in> set (fl_accounts ?f). reading_ok a" by simp
  have "best ext0 ?f demo_request 0 \<noteq> None"
    unfolding best_def using ranked_eq_Nil [OF ok, of ext0 demo_request 0]
    by (auto simp: demo_available_list split: list.splits)
  then obtain b where b: "best ext0 ?f demo_request 0 = Some b" by blast
  have a: "demo_account ''a'' 0 \<in> set (available ext0 ?f demo_request 0)" by (simp add: demo_available_list)
  have "a_priority b \<le> a_priority (demo_account ''a'' 0)"
    by (rule best_has_top_priority [OF d ok b a]) simp
  with b show ?thesis by simp
qed

text \<open>With expiry routing on (and soonest-reset routing off), as long as no account of the top
  tier has a measured weekly window the candidates keep their configuration order: the first
  one listed is tried first, whatever its priority.\<close>

theorem expiry_unmeasured_config_order:
  assumes "er_enabled (fl_expiry f)" and "\<not> fl_soonest_reset f"
    and "\<not> top_measured f (available E f req now) (sq_model req) now"
  shows "ranked_available E f req now = available E f req now"
  using assms by (simp add: ranked_available_def ranked_by_default_def Let_def band_unmeasured)

definition demo_expiry_fleet :: fleet where
  "demo_expiry_fleet = (demo_fleet [demo_account ''b'' 5, demo_account ''a'' 0])
     \<lparr>fl_expiry := expiry_default\<lparr>er_enabled := True\<rparr>\<rparr>"

lemma expiry_frame [frame_simps]:
  "route_for (f\<lparr>fl_expiry := x\<rparr>) = route_for f"
  "threshold_for (f\<lparr>fl_expiry := x\<rparr>) = threshold_for f"
  "route_names (f\<lparr>fl_expiry := x\<rparr>) = route_names f"
  by (simp_all add: fun_eq_iff route_for_def threshold_for_def route_names_def split: option.splits)

lemma expiry_frame2 [frame_simps]:
  "weekly_key_for (f\<lparr>fl_expiry := x\<rparr>) = weekly_key_for f"
  "route_allows (f\<lparr>fl_expiry := x\<rparr>) = route_allows f"
  by (simp_all add: fun_eq_iff weekly_key_for_def route_allows_def frame_simps split: option.splits)

lemma expiry_frame3 [frame_simps]:
  "capped_bucket (f\<lparr>fl_expiry := x\<rparr>) = capped_bucket f"
  "near_reading (f\<lparr>fl_expiry := x\<rparr>) = near_reading f"
  by (simp_all add: fun_eq_iff capped_bucket_def near_reading_def frame_simps split: option.splits)

lemma unavailable_expiry [simp]:
  "unavailable E (f\<lparr>fl_expiry := x\<rparr>) a m adv prov now = unavailable E f a m adv prov now"
  by (simp add: unavailable_def frame_simps)

theorem expiry_unmeasured_config_order_witness:
  "best ext0 demo_expiry_fleet demo_request 0 = Some (demo_account ''b'' 5)
   \<and> demo_account ''a'' 0 \<in> set (available ext0 demo_expiry_fleet demo_request 0)
   \<and> a_priority (demo_account ''a'' 0) < a_priority (demo_account ''b'' 5)"
proof -
  let ?f = "demo_fleet [demo_account ''b'' 5, demo_account ''a'' 0]"
  have e: "er_enabled (fl_expiry demo_expiry_fleet)" "\<not> fl_soonest_reset demo_expiry_fleet"
    by (simp_all add: demo_expiry_fleet_def)
  have av: "available ext0 demo_expiry_fleet demo_request 0 = [demo_account ''b'' 5, demo_account ''a'' 0]"
    using demo_available_list [of 0]
    by (simp add: demo_expiry_fleet_def available_def is_available_for_def unavailable_reason_for_def)
  have q: "utilization (bucket_or_default quota_default key) = None" for key
    by (simp add: bucket_or_default_def bucket_of_def quota_default_def bucket_default_def)
  have "measured_pressure g m n (demo_account i p) = None" for g m n i p
    by (simp add: measured_pressure_def pressure_def Let_def q)
  then have "\<not> top_measured demo_expiry_fleet (available ext0 demo_expiry_fleet demo_request 0) (sq_model demo_request) 0"
    by (simp add: top_measured_def av)
  from expiry_unmeasured_config_order [OF e this] show ?thesis
    by (simp add: av best_def)
qed

subsection \<open>Load and soonest reset\<close>

text \<open>Without expiry and soonest-reset routing the account tried first is least in the order
  priority, then (when sessions are distributed) active sessions, then requests in flight,
  then the weekly reset governing the model, unknown last; and of several equal ones it is the
  first in configuration order.\<close>

theorem default_best_least:
  assumes "\<not> er_enabled (fl_expiry f)" and "\<not> fl_soonest_reset f" and "best E f req now = Some b"
  shows "(\<forall>a \<in> set (available E f req now).
      let key = (\<lambda>x. (a_priority x, load_of (fleet_stats f now) x,
                       unwrap_or i64_max (weekly_reset_for x (sq_model req))))
      in key b \<le> key a)
    \<and> b = hd (filter (\<lambda>y. default_cmp (fleet_stats f now) (sq_model req) y b = Equal) (available E f req now))"
proof -
  let ?v = "available E f req now" and ?c = "default_cmp (fleet_stats f now) (sq_model req)"
  have r: "ranked_available E f req now = sort_by ?c ?v"
    using assms(1,2) by (simp add: ranked_available_def ranked_by_default_def Let_def)
  have hd_b: "sort_by ?c ?v \<noteq> []" "b = hd (sort_by ?c ?v)" using assms(3) r by (auto simp: best_hd)
  have key: "(let key = (\<lambda>x. (a_priority x, load_of (fleet_stats f now) x,
                       unwrap_or i64_max (weekly_reset_for x (sq_model req)))) in key b \<le> key a)"
    if "a \<in> set ?v" for a
  proof -
    have "?c b a \<noteq> Greater" using default_order.hd_sort_by_least [OF that] hd_b by simp
    then show ?thesis
      by (simp only: default_cmp_key cmp_of_simps Let_def not_less)
  qed
  have "filter (\<lambda>y. ?c y b = Equal) (sort_by ?c ?v) = filter (\<lambda>y. ?c y b = Equal) ?v"
    by (rule default_order.sort_by_stable)
  moreover have "hd (filter (\<lambda>y. ?c y b = Equal) (sort_by ?c ?v)) = b"
    using hd_b default_order.cmp_refl by (cases "sort_by ?c ?v") auto
  ultimately show ?thesis using key by simp
qed

theorem default_best_least_witness:
  "\<exists>b. best ext0 (demo_fleet [demo_account ''b'' 5, demo_account ''a'' 0]) demo_request 0 = Some b
     \<and> a_priority b \<le> 0"
proof -
  let ?f = "demo_fleet [demo_account ''b'' 5, demo_account ''a'' 0]"
  have ok: "\<forall>a \<in> set (fl_accounts ?f). reading_ok a" by simp
  have "best ext0 ?f demo_request 0 \<noteq> None"
    unfolding best_def using ranked_eq_Nil [OF ok, of ext0 demo_request 0]
    by (auto simp: demo_available_list split: list.splits)
  then obtain b where b: "best ext0 ?f demo_request 0 = Some b" by blast
  have a: "demo_account ''a'' 0 \<in> set (available ext0 ?f demo_request 0)" by (simp add: demo_available_list)
  have "a_priority b \<le> 0"
    using bspec [OF conjunct1 [OF default_best_least [OF _ _ b]] a] by (auto simp: Let_def less_eq_prod_def)
  with b show ?thesis by blast
qed

lemma min_table_spec:
  "(case map_of (min_table k v xs) q of
      None \<Rightarrow> \<forall>x \<in> set xs. k x \<noteq> q
    | Some w \<Rightarrow> (\<forall>x \<in> set xs. k x = q \<longrightarrow> w \<le> v x) \<and> (w = i64_max \<or> (\<exists>x \<in> set xs. k x = q \<and> w = v x)))"
proof (induction xs rule: rev_induct)
  case Nil
  then show ?case by (simp add: min_table_def)
next
  case (snoc a xs)
  have e: "map_of (min_table k v (xs @ [a])) q =
      (if q = k a then Some (min (unwrap_or i64_max (map_of (min_table k v xs) q)) (v a))
       else map_of (min_table k v xs) q)"
    by (simp add: min_table_def min_entry_def update_conv')
  show ?case
    using snoc.IH by (cases "map_of (min_table k v xs) q") (auto simp: e min_def)
qed

lemma band_steps_head:
  assumes b: "b \<in> set xs" and a: "a \<in> set xs" "k a = k b" and W: "0 < W"
    and least: "\<And>x. x \<in> set xs \<Longrightarrow> k x = k b \<Longrightarrow>
      band_steps (v b) (the (map_of (min_table k v xs) (k b))) W
      \<le> band_steps (v x) (the (map_of (min_table k v xs) (k b))) W"
  shows "v b < v a + W \<or> i64_max \<le> v a"
proof -
  note sp = min_table_spec [where k = k and v = v and xs = xs and q = "k b"]
  obtain w where w: "map_of (min_table k v xs) (k b) = Some w"
    using sp b by (cases "map_of (min_table k v xs) (k b)") auto
  have le: "w \<le> v x" if "x \<in> set xs" "k x = k b" for x using sp that by (simp add: w)
  show ?thesis
  proof (cases "w = i64_max")
    case True
    with le [OF a] show ?thesis by simp
  next
    case False
    then obtain m where m: "m \<in> set xs" "k m = k b" "v m = w" using sp by (auto simp: w)
    have "band_steps (v m) w W = 0" using False m(3) by (simp add: band_steps_def trunc_div_def)
    then have z: "band_steps (v b) w W \<le> 0" using least [OF m(1,2)] by (simp add: w)
    have "v b \<noteq> i64_max" using z by (auto simp: band_steps_def i64_max_def)
    then have "(v b - w) div W \<le> 0"
      using z le [OF b] W by (simp add: band_steps_def trunc_div_nonneg)
    then have "v b - w < W" using W by (smt (verit) pos_imp_zdiv_pos_iff)
    with le [OF a] show ?thesis by simp
  qed
qed

text \<open>With soonest-reset routing the account tried first has, within its priority tier, a
  weekly reset less than a day after the soonest one, and among the candidates of that weekly
  band a five-hour reset less than a quarter of an hour after the soonest one: quota about to
  be forfeited is spent first.\<close>

theorem soonest_reset_first:
  assumes "distinct (fleet_ids f)" and "fl_soonest_reset f" and "best E f req now = Some b"
  shows "\<forall>a \<in> set (ranked_available E f req now). a_priority a = a_priority b \<longrightarrow>
      (weekly_reset_key b (sq_model req) now < weekly_reset_key a (sq_model req) now + WEEKLY_BAND_MS
        \<or> i64_max \<le> weekly_reset_key a (sq_model req) now)
    \<and> (weekly_band (ranked_by_default E f req now) (sq_model req) now a
         = weekly_band (ranked_by_default E f req now) (sq_model req) now b \<longrightarrow>
        five_hour_deadline b now < five_hour_deadline a now + FIVE_HOUR_BAND_MS
        \<or> i64_max \<le> five_hour_deadline a now)"
proof (intro ballI impI)
  fix a assume a: "a \<in> set (ranked_available E f req now)" and p: "a_priority a = a_priority b"
  let ?v = "ranked_by_default E f req now"
  let ?wb = "weekly_band ?v (sq_model req) now"
  have b: "b \<in> set ?v" and a': "a \<in> set ?v" using best_SomeD [OF assms(3)] a by simp_all
  note le = soonest_hd_le [OF assms(1,2,3)]
  have "weekly_reset_key b (sq_model req) now < weekly_reset_key a (sq_model req) now + WEEKLY_BAND_MS
        \<or> i64_max \<le> weekly_reset_key a (sq_model req) now"
  proof (rule band_steps_head [where k = a_priority and xs = ?v, OF b a' p])
    fix x assume "x \<in> set ?v" "a_priority x = a_priority b"
    with le [of x] show "band_steps (weekly_reset_key b (sq_model req) now)
        (the (map_of (min_table a_priority (\<lambda>a. weekly_reset_key a (sq_model req) now) ?v) (a_priority b))) WEEKLY_BAND_MS
      \<le> band_steps (weekly_reset_key x (sq_model req) now)
        (the (map_of (min_table a_priority (\<lambda>a. weekly_reset_key a (sq_model req) now) ?v) (a_priority b))) WEEKLY_BAND_MS"
      by (auto simp: band_rank_def Let_def weekly_band_def less_eq_prod_def less_prod_def)
  qed (simp add: WEEKLY_BAND_MS_def)
  moreover have "five_hour_deadline b now < five_hour_deadline a now + FIVE_HOUR_BAND_MS
        \<or> i64_max \<le> five_hour_deadline a now" if wb: "?wb a = ?wb b"
  proof (rule band_steps_head [where k = "\<lambda>x. (a_priority x, ?wb x)" and xs = ?v, OF b a'])
    show "(a_priority a, ?wb a) = (a_priority b, ?wb b)" using p wb by simp
    fix x assume "x \<in> set ?v" "(a_priority x, ?wb x) = (a_priority b, ?wb b)"
    with le [of x] show "band_steps (five_hour_deadline b now)
        (the (map_of (min_table (\<lambda>x. (a_priority x, ?wb x)) (\<lambda>a. five_hour_deadline a now) ?v)
           (a_priority b, ?wb b))) FIVE_HOUR_BAND_MS
      \<le> band_steps (five_hour_deadline x now)
        (the (map_of (min_table (\<lambda>x. (a_priority x, ?wb x)) (\<lambda>a. five_hour_deadline a now) ?v)
           (a_priority b, ?wb b))) FIVE_HOUR_BAND_MS"
      by (auto simp: band_rank_def Let_def less_eq_prod_def less_prod_def)
  qed (simp add: FIVE_HOUR_BAND_MS_def)
  ultimately show "(weekly_reset_key b (sq_model req) now < weekly_reset_key a (sq_model req) now + WEEKLY_BAND_MS
        \<or> i64_max \<le> weekly_reset_key a (sq_model req) now)
    \<and> (?wb a = ?wb b \<longrightarrow>
        five_hour_deadline b now < five_hour_deadline a now + FIVE_HOUR_BAND_MS
        \<or> i64_max \<le> five_hour_deadline a now)" by blast
qed

definition demo_soonest_fleet :: fleet where
  "demo_soonest_fleet = (demo_fleet [demo_account ''a'' 0])\<lparr>fl_soonest_reset := True\<rparr>"

lemma demo_soonest_available: "available ext0 demo_soonest_fleet demo_request now = [demo_account ''a'' 0]"
proof -
  let ?a = "demo_account ''a'' 0"
  have "upstream_for ext0 DEFAULT_UPSTREAM ?a \<noteq> None"
    using demo_available [of "[]" "''a''" 0 None now] by (simp add: unavailable_None usable_def)
  then have "unavailable ext0 demo_soonest_fleet ?a None None None now = None"
    by (simp add: unavailable_None usable_def demo_soonest_fleet_def capped_bucket_def near_reading_def
        route_allows_def Let_def)
  then show ?thesis
    by (simp add: available_def is_available_for_def unavailable_reason_for_def demo_request_def
        demo_soonest_fleet_def)
qed

theorem soonest_reset_first_witness:
  "\<exists>b. best ext0 demo_soonest_fleet demo_request 0 = Some b \<and> b \<in> set (ranked_available ext0 demo_soonest_fleet demo_request 0)
     \<and> five_hour_deadline b 0 < five_hour_deadline b 0 + FIVE_HOUR_BAND_MS"
proof -
  have s: "fl_soonest_reset demo_soonest_fleet" and d: "distinct (fleet_ids demo_soonest_fleet)"
    and e: "\<not> er_enabled (fl_expiry demo_soonest_fleet)"
    by (simp_all add: demo_soonest_fleet_def fleet_ids_def)
  have r: "ranked_available ext0 demo_soonest_fleet demo_request 0 = [demo_account ''a'' 0]"
    by (simp add: ranked_available_def ranked_by_default_def s e demo_soonest_available)
  then have b: "best ext0 demo_soonest_fleet demo_request 0 = Some (demo_account ''a'' 0)"
    by (simp add: best_def)
  have "\<not> i64_max \<le> five_hour_deadline (demo_account ''a'' 0) 0"
    by (simp add: five_hour_deadline_def quota_default_def bucket_default_def i64_max_def FIVE_HOUR_WINDOW_MS_def)
  with bspec [OF soonest_reset_first [OF d s b], of "demo_account ''a'' 0"] b r show ?thesis by auto
qed

end
