(* ===== verification/Selection.thy ===== *)
theory Selection
  imports Ranking_Facts
begin

text \<open>
  \<open>src/manager.rs\<close>, \<open>Fleet::select\<close>: the six places a request looks for an account, and
  what it is told when there is none. A step either answers or falls through, and returns the
  fleet it leaves behind. Log lines are not modelled.
\<close>

datatype selection =
    SelAccount selected
  | Exhausted "nat option" string
  | PinUnavailable string string
  | PinUnknown

subsection \<open>Small operations\<close>

definition clear_expired_account :: "ext \<Rightarrow> threshold \<Rightarrow> int \<Rightarrow> account \<Rightarrow> account" where
  "clear_expired_account E th now a0 =
     (let a = a_quota_update (\<lambda>q. fst (clear_expired E now (for_bucket th) q)) a0
      in (case a_rate_limited_until a of
            Some until \<Rightarrow>
              if until \<le> now
              then a\<lparr>a_rate_limited_until := None, a_quota_hold := False,
                     a_status := (if a_status a = Throttled then Active else a_status a)\<rparr>
              else a
          | None \<Rightarrow> a))"

definition clear_expired_all :: "ext \<Rightarrow> int \<Rightarrow> fleet \<Rightarrow> fleet" where
  "clear_expired_all E now f =
     f\<lparr>fl_accounts := map (clear_expired_account E (fl_threshold f) now) (fl_accounts f)\<rparr>"

definition snapshot :: "ext \<Rightarrow> fleet \<Rightarrow> account \<Rightarrow> selected option" where
  "snapshot E f a =
     (case (upstream_for E (fl_default_upstream f) a, a_credential a) of
        (Some up, Some cred) \<Rightarrow>
          Some \<lparr>sel_id = a_id a, sel_name = a_name a, sel_kind = a_kind a, sel_provider = a_provider a,
                sel_account_id = a_account_id a, sel_credential = cred,
                sel_account_uuid = a_account_uuid a, sel_upstream = up,
                sel_model_map = a_model_map a, sel_strip_request_fields = a_strip_request_fields a\<rparr>
      | _ \<Rightarrow> None)"

definition preempt_on :: "fleet \<Rightarrow> bool" where
  "preempt_on f \<longleftrightarrow> er_enabled (fl_expiry f) \<and> er_preempt (fl_expiry f)"

definition rolled_over :: "fleet \<Rightarrow> account \<Rightarrow> string option \<Rightarrow> bool" where
  "rolled_over f a model =
     (if \<not> preempt_on f then False
      else
        let key = weekly_key_for f model
        in (case (Option.bind (bucket_of (a_quota a) key) reset_at, map_of (a_rollover_baseline a) key) of
              (Some reset, Some base) \<Rightarrow> base < reset | _ \<Rightarrow> False))"

definition baseline_account :: "string \<Rightarrow> account \<Rightarrow> account" where
  "baseline_account key a =
     (case Option.bind (bucket_of (a_quota a) key) reset_at of
        Some r \<Rightarrow> a_rollover_baseline_update (AList.update key r) a | None \<Rightarrow> a)"

definition note_baseline :: "string \<Rightarrow> string option \<Rightarrow> fleet \<Rightarrow> fleet" where
  "note_baseline i model f =
     (if \<not> preempt_on f then f else upd_account i (baseline_account (weekly_key_for f model)) f)"

definition begin_ramp :: "string \<Rightarrow> int \<Rightarrow> fleet \<Rightarrow> fleet" where
  "begin_ramp i now = upd_account i (a_ramp_started_at_update (\<lambda>_. Some now))"

definition ramp_if_cold :: "string \<Rightarrow> int \<Rightarrow> fleet \<Rightarrow> fleet" where
  "ramp_if_cold i now f =
     (let active = unwrap_or 0 (map_of (ss_per_active (stats_of (fl_sessions f) now)) i)
      in upd_account i
           (\<lambda>a. if a_ramp_started_at a = None \<and> a_in_flight a = 0 \<and> active = 0
                then a_ramp_started_at_update (\<lambda>_. Some now) a else a) f)"

definition probing_account :: "account \<Rightarrow> account" where
  "probing_account a = a_probing_update (\<lambda>_. reset_at (unified7d (a_quota a)) = None) a"

definition set_current :: "string \<Rightarrow> int \<Rightarrow> bool \<Rightarrow> fleet \<Rightarrow> fleet" where
  "set_current i now scoped f =
     (let switched = (fl_current f \<noteq> Some i);
          f1 = (if scoped then f else fl_current_update (\<lambda>_. Some i) f)
      in if switched then upd_account i probing_account (begin_ramp i now f1) else f1)"

text \<open>\<open>mgr_resolve\<close>, and the looser \<open>resolve_pin\<close> of the proxy.\<close>

definition uuid_pair_account :: "string \<Rightarrow> account \<Rightarrow> bool" where
  "uuid_pair_account t a \<longleftrightarrow>
     (case split_once CHR ''/'' t of
        Some (au, ou) \<Rightarrow> a_account_uuid a = Some au \<and> a_org_uuid a = Some ou | None \<Rightarrow> False)"

definition names_account :: "string \<Rightarrow> account \<Rightarrow> bool" where
  "names_account t a \<longleftrightarrow>
     a_id a = t \<or> a_account_uuid a = Some t \<or> a_org_uuid a = Some t \<or> a_name a = t \<or> a_email a = Some t"

definition mgr_resolve :: "fleet \<Rightarrow> string \<Rightarrow> string option" where
  "mgr_resolve f token =
     (let t = trim token
      in map_option a_id
           (opt_or (List.find (uuid_pair_account t) (fl_accounts f))
                   (List.find (names_account t) (fl_accounts f))))"

definition resolve_pin :: "fleet \<Rightarrow> string \<Rightarrow> string option" where
  "resolve_pin f token =
     (let t = trim token
      in if t = [] then None
         else map_option a_id
           (opt_or (List.find (uuid_pair_account t) (fl_accounts f))
                   (List.find (\<lambda>a. names_account t a \<or> short_name (a_name a) = t) (fl_accounts f))))"

subsection \<open>The steps\<close>

text \<open>Answer with this account if a snapshot of it can be taken.\<close>

definition answer :: "ext \<Rightarrow> account option \<Rightarrow> fleet \<Rightarrow> selection option \<times> fleet" where
  "answer E a f = (map_option SelAccount (Option.bind a (snapshot E f)), f)"

definition orelse ::
  "selection option \<times> fleet \<Rightarrow> (fleet \<Rightarrow> selection option \<times> fleet) \<Rightarrow> selection option \<times> fleet" where
  "orelse r k = (case r of (Some s, f) \<Rightarrow> (Some s, f) | (None, f) \<Rightarrow> k f)"

definition can_take :: "ext \<Rightarrow> fleet \<Rightarrow> select_request \<Rightarrow> int \<Rightarrow> account \<Rightarrow> bool" where
  "can_take E f req now a \<longleftrightarrow> a_id a \<notin> set (sq_exclude req) \<and> is_available_for E f a req now"

text \<open>1. An explicit pin never fails over.\<close>

definition select_pinned :: "ext \<Rightarrow> fleet \<Rightarrow> select_request \<Rightarrow> int \<Rightarrow> string \<Rightarrow> selection" where
  "select_pinned E f req now pin =
     (case Option.bind (mgr_resolve f pin) (fleet_account f) of
        None \<Rightarrow> PinUnknown
      | Some a \<Rightarrow>
          (case opt_filter (\<lambda>r. \<not> starts_with ''quota:'' r)
                  (unavailable_reason_for E f a (sq_model req) (sq_advisor req) (sq_provider req) now) of
             Some r \<Rightarrow> PinUnavailable (a_name a) r
           | None \<Rightarrow>
               (case snapshot E f a of
                  Some s \<Rightarrow> SelAccount s
                | None \<Rightarrow> PinUnavailable (a_name a) ''no credential'')))"

text \<open>2. A manual route pin.\<close>

definition route_pin_of :: "fleet \<Rightarrow> select_request \<Rightarrow> string option" where
  "route_pin_of f req =
     Option.bind (sq_model req) (\<lambda>m. Option.bind (route_for f m) (\<lambda>r. map_of (fl_route_pins f) (rt_name r)))"

definition step_route_pin :: "ext \<Rightarrow> select_request \<Rightarrow> int \<Rightarrow> fleet \<Rightarrow> selection option \<times> fleet" where
  "step_route_pin E req now f =
     answer E (opt_filter (can_take E f req now) (Option.bind (route_pin_of f req) (fleet_account f))) f"

text \<open>3. Session affinity; a new session goes to the least loaded account.\<close>

definition affinity_of :: "fleet \<Rightarrow> select_request \<Rightarrow> string \<Rightarrow> string option" where
  "affinity_of f req sid =
     opt_or (pinned_account sid (weekly_key_for f (sq_model req)) (fl_sessions f))
       (if fl_distribute f then any_pin sid (fl_sessions f) else None)"

definition better_than :: "ext \<Rightarrow> fleet \<Rightarrow> select_request \<Rightarrow> int \<Rightarrow> account \<Rightarrow> bool" where
  "better_than E f req now a =
     (case best E f req now of
        Some b \<Rightarrow> a_priority b < a_priority a \<or> soonest_reset_preempts E f b a req now
      | None \<Rightarrow> False)"

definition step_affinity ::
  "ext \<Rightarrow> select_request \<Rightarrow> int \<Rightarrow> string \<Rightarrow> fleet \<Rightarrow> selection option \<times> fleet" where
  "step_affinity E req now sid f =
     (case opt_filter (can_take E f req now) (Option.bind (affinity_of f req sid) (fleet_account f)) of
        None \<Rightarrow> (None, f)
      | Some a \<Rightarrow>
          if \<not> better_than E f req now a \<and> \<not> rolled_over f a (sq_model req)
          then answer E (Some a) (note_baseline (a_id a) (sq_model req) f)
          else (None, f))"

definition current_ok :: "ext \<Rightarrow> fleet \<Rightarrow> select_request \<Rightarrow> int \<Rightarrow> bool" where
  "current_ok E f req now =
     (case Option.bind (fl_current f) (fleet_account f) of
        Some c \<Rightarrow> unavailable_reason_for E f c None None (sq_provider req) now = None
      | None \<Rightarrow> False)"

definition step_spread :: "ext \<Rightarrow> select_request \<Rightarrow> int \<Rightarrow> fleet \<Rightarrow> selection option \<times> fleet" where
  "step_spread E req now f =
     (case (if fl_distribute f then best E f req now else None) of
        None \<Rightarrow> (None, f)
      | Some b \<Rightarrow>
          let f1 = (if current_ok E f req now then ramp_if_cold (a_id b) now f
                    else set_current (a_id b) now False f)
          in answer E (fleet_account f1 (a_id b)) f1)"

definition step_session :: "ext \<Rightarrow> select_request \<Rightarrow> int \<Rightarrow> fleet \<Rightarrow> selection option \<times> fleet" where
  "step_session E req now f =
     (case sq_session req of
        None \<Rightarrow> (None, f)
      | Some sid \<Rightarrow> orelse (step_affinity E req now sid f) (step_spread E req now))"

text \<open>Move the cursor to the best account and answer with it.\<close>

definition go_best :: "ext \<Rightarrow> select_request \<Rightarrow> int \<Rightarrow> (string \<Rightarrow> fleet \<Rightarrow> fleet) \<Rightarrow> fleet \<Rightarrow> selection option \<times> fleet" where
  "go_best E req now move f =
     (case best E f req now of
        None \<Rightarrow> (None, f)
      | Some b \<Rightarrow> let f1 = move (a_id b) f in answer E (fleet_account f1 (a_id b)) f1)"

text \<open>4. The sticky current account.\<close>

definition step_requalify :: "ext \<Rightarrow> select_request \<Rightarrow> int \<Rightarrow> account \<Rightarrow> fleet \<Rightarrow> selection option \<times> fleet" where
  "step_requalify E req now a f =
     (if a_requalify a
      then go_best E req now (\<lambda>i g. note_baseline i (sq_model req) (set_current i now False g))
             (upd_account (a_id a) (a_requalify_update (\<lambda>_. False)) f)
      else (None, f))"

definition step_sticky :: "ext \<Rightarrow> select_request \<Rightarrow> int \<Rightarrow> account \<Rightarrow> fleet \<Rightarrow> selection option \<times> fleet" where
  "step_sticky E req now a f =
     (if can_take E f req now a
      then orelse
        (if \<not> better_than E f req now a \<and> \<not> rolled_over f a (sq_model req)
         then answer E (Some a) (note_baseline (a_id a) (sq_model req) f) else (None, f))
        (go_best E req now (\<lambda>i g. note_baseline i (sq_model req)
             (if i \<noteq> a_id a then set_current i now False g else g)))
      else
        let scoped = (unavailable_reason_for E f a None None (sq_provider req) now = None
                      \<and> a_id a \<notin> set (sq_exclude req))
        in go_best E req now (\<lambda>i g. set_current i now scoped g) f)"

definition step_current :: "ext \<Rightarrow> select_request \<Rightarrow> int \<Rightarrow> fleet \<Rightarrow> selection option \<times> fleet" where
  "step_current E req now f =
     (case Option.bind (fl_current f) (fleet_account f) of
        None \<Rightarrow> (None, f)
      | Some a \<Rightarrow> orelse (step_requalify E req now a f) (step_sticky E req now a))"

text \<open>5. The best available account.\<close>

definition step_best :: "ext \<Rightarrow> select_request \<Rightarrow> int \<Rightarrow> fleet \<Rightarrow> selection option \<times> fleet" where
  "step_best E req now f =
     go_best E req now (\<lambda>i g. note_baseline i (sq_model req) (set_current i now False g)) f"

text \<open>6. Revalidate one account that only a threshold excludes, the soonest to reset.\<close>

definition probe_candidate :: "ext \<Rightarrow> select_request \<Rightarrow> int \<Rightarrow> fleet \<Rightarrow> account \<Rightarrow> bool" where
  "probe_candidate E req now f a \<longleftrightarrow>
     a_id a \<notin> set (sq_exclude req)
     \<and> (case unavailable_reason_for E f a (sq_model req) (sq_advisor req) (sq_provider req) now of
          Some r \<Rightarrow> starts_with ''quota:'' r | None \<Rightarrow> False)
     \<and> \<not> (case a_last_probe_at a of Some t \<Rightarrow> now - t < THROTTLE_PROBE_FLOOR_MS | None \<Rightarrow> False)"

definition probe_reset :: "select_request \<Rightarrow> account \<Rightarrow> int" where
  "probe_reset req a =
     unwrap_or i64_max (opt_or (weekly_reset_for a (sq_model req)) (reset_at (unified5h (a_quota a))))"

fun pick_probe :: "ext \<Rightarrow> select_request \<Rightarrow> int \<Rightarrow> fleet \<Rightarrow> account list \<Rightarrow> (int \<times> string) option \<Rightarrow>
    (int \<times> string) option" where
  "pick_probe E req now f [] p = p"
| "pick_probe E req now f (a # as) p =
     (if probe_candidate E req now f a \<and> (case p of Some (r, _) \<Rightarrow> probe_reset req a < r | None \<Rightarrow> True)
      then pick_probe E req now f as (Some (probe_reset req a, a_id a))
      else pick_probe E req now f as p)"

definition step_probe :: "ext \<Rightarrow> select_request \<Rightarrow> int \<Rightarrow> fleet \<Rightarrow> selection option \<times> fleet" where
  "step_probe E req now f =
     (case (if sq_allow_probe req then pick_probe E req now f (fl_accounts f) None else None) of
        None \<Rightarrow> (None, f)
      | Some (_, i) \<Rightarrow>
          let f1 = upd_account i (a_last_probe_at_update (\<lambda>_. Some now)) f
          in answer E (fleet_account f1 i) f1)"

subsection \<open>When nothing can serve\<close>

definition held_back_keys :: "string list" where
  "held_back_keys = [''throttled'', ''capped'', ''advisor-capped'', ''quota'', ''advisor-quota'']"

text \<open>The loop state: the soonest reset, whether quota holds anyone back, the parts of the text.\<close>

fun exhausted_loop ::
  "ext \<Rightarrow> fleet \<Rightarrow> select_request \<Rightarrow> int \<Rightarrow> account list \<Rightarrow> int option \<times> bool \<times> string list \<Rightarrow>
   int option \<times> bool \<times> string list" where
  "exhausted_loop E f req now [] st = st"
| "exhausted_loop E f req now (a # as) (soonest, bound, parts) =
     (if (case sq_provider req of Some p \<Rightarrow> a_provider a \<noteq> p | None \<Rightarrow> False)
      then exhausted_loop E f req now as (soonest, bound, parts)
      else
        let reason = unavailable_reason E f a (sq_model req) (sq_advisor req) now;
            held = (case reason of Some r \<Rightarrow> unavailable_key r \<in> set held_back_keys | None \<Rightarrow> False);
            parts' = parts @ [a_name a @ '': '' @ unwrap_or ''tried'' reason];
            r = opt_filter (\<lambda>r. now < r) (opt_or (a_rate_limited_until a) (soonest_reset E (a_quota a)));
            soonest' = (case r of
                          Some x \<Rightarrow> (case soonest of Some s \<Rightarrow> if x < s then Some x else soonest | None \<Rightarrow> Some x)
                        | None \<Rightarrow> soonest)
        in exhausted_loop E f req now as
             (if held then (soonest', True, parts') else (soonest, bound, parts')))"

definition join_with :: "string \<Rightarrow> string list \<Rightarrow> string" where
  "join_with sep ss = (case ss of [] \<Rightarrow> [] | x # xs \<Rightarrow> x @ concat (map (\<lambda>y. sep @ y) xs))"

definition exhausted_info :: "ext \<Rightarrow> fleet \<Rightarrow> select_request \<Rightarrow> int \<Rightarrow> nat option \<times> string" where
  "exhausted_info E f req now =
     (case exhausted_loop E f req now (fl_accounts f) (None, False, []) of
        (soonest, bound, parts) \<Rightarrow>
          (if bound
           then Some (case soonest of Some s \<Rightarrow> nat (clamp 5 3600 (trunc_div (s - now) 1000)) | None \<Rightarrow> 60)
           else None,
           join_with ''; '' parts))"

definition select_account :: "ext \<Rightarrow> select_request \<Rightarrow> int \<Rightarrow> fleet \<Rightarrow> selection \<times> fleet" where
  "select_account E req now f0 =
     (let f = clear_expired_all E now f0
      in (case sq_pin req of
            Some pin \<Rightarrow> (select_pinned E f req now pin, f)
          | None \<Rightarrow>
              (case orelse (orelse (orelse (orelse
                      (step_route_pin E req now f)
                      (step_session E req now))
                      (step_current E req now))
                      (step_best E req now))
                      (step_probe E req now) of
                 (Some s, g) \<Rightarrow> (s, g)
               | (None, g) \<Rightarrow> (case exhausted_info E g req now of (retry, reason) \<Rightarrow> (Exhausted retry reason, g)))))"

end
