(* ===== verification/Selection_Facts.thy ===== *)
theory Selection_Facts
  imports Selection
begin

text \<open>
  What \<open>Fleet::select\<close> guarantees: whom it may answer with, when it may give up, and that
  the bookkeeping it does on the way never touches what decides eligibility.
\<close>

subsection \<open>The bookkeeping is invisible to eligibility\<close>

text \<open>An account and a fleet without the fields the selection writes.\<close>

definition core :: "account \<Rightarrow> account" where
  "core a = a\<lparr>a_rollover_baseline := [], a_ramp_started_at := None, a_probing := False,
              a_requalify := False, a_last_probe_at := None\<rparr>"

definition fleet_core :: "fleet \<Rightarrow> fleet" where
  "fleet_core f = f\<lparr>fl_accounts := map core (fl_accounts f), fl_current := None\<rparr>"

lemma core_simps [simp]:
  "a_id (core a) = a_id a" "a_name (core a) = a_name a" "a_quota (core a) = a_quota a"
  "a_max_usage (core a) = a_max_usage a" "a_open (core a) = a_open a" "a_disabled (core a) = a_disabled a"
  "a_credential (core a) = a_credential a" "a_status (core a) = a_status a"
  "a_error_message (core a) = a_error_message a" "a_provider (core a) = a_provider a"
  "a_rate_limited_until (core a) = a_rate_limited_until a"
  "a_entitlement_denied_until (core a) = a_entitlement_denied_until a"
  "a_upstream (core a) = a_upstream a" "a_kind (core a) = a_kind a" "a_priority (core a) = a_priority a"
  "a_account_id (core a) = a_account_id a" "a_account_uuid (core a) = a_account_uuid a"
  "a_model_map (core a) = a_model_map a" "a_strip_request_fields (core a) = a_strip_request_fields a"
  "core (core a) = core a"
  by (simp_all add: core_def)

lemma fleet_core_simps [simp]:
  "fl_routes (fleet_core f) = fl_routes f" "fl_threshold (fleet_core f) = fl_threshold f"
  "fl_default_upstream (fleet_core f) = fl_default_upstream f"
  "fl_accounts (fleet_core f) = map core (fl_accounts f)"
  "fl_sessions (fleet_core f) = fl_sessions f" "fl_route_pins (fleet_core f) = fl_route_pins f"
  "fl_expiry (fleet_core f) = fl_expiry f" "fl_distribute (fleet_core f) = fl_distribute f"
  "fl_soonest_reset (fleet_core f) = fl_soonest_reset f"
  by (simp_all add: fleet_core_def)

lemma core_route [frame_simps]:
  "route_for (fleet_core f) = route_for f" "threshold_for (fleet_core f) = threshold_for f"
  by (simp_all add: fun_eq_iff route_for_def threshold_for_def)

lemma core_route_names [frame_simps]: "route_names (fleet_core f) (core a) n = route_names f a n"
  by (auto simp: route_names_def split: option.splits)

lemma core_weekly [frame_simps]:
  "weekly_key_for (fleet_core f) = weekly_key_for f"
  by (simp add: fun_eq_iff weekly_key_for_def frame_simps)

lemma core_route_allows [frame_simps]: "route_allows (fleet_core f) (core a) m = route_allows f a m"
proof -
  have "route_names (fleet_core f) (core a) = route_names f a" by (simp add: fun_eq_iff core_route_names)
  then show ?thesis by (simp add: route_allows_def frame_simps split: option.splits)
qed

lemma core_caps [frame_simps]:
  "capped_bucket (fleet_core f) (core a) = capped_bucket f a"
  "near_reading (fleet_core f) (core a) = near_reading f a"
  "upstream_for E d (core a) = upstream_for E d a"
  by (simp_all add: fun_eq_iff capped_bucket_def near_reading_def upstream_for_def is_subscription_def
      frame_simps Let_def cong: option.case_cong)

lemma core_unavailable [frame_simps]:
  "unavailable E (fleet_core f) (core a) m adv prov now = unavailable E f a m adv prov now"
  by (simp only: unavailable_def core_simps fleet_core_simps core_caps core_route_allows)

lemma core_snapshot [frame_simps]: "snapshot E (fleet_core f) (core a) = snapshot E f a"
  by (simp add: snapshot_def frame_simps cong: option.case_cong)

lemma core_fleet_account: "fleet_account (fleet_core f) i = map_option core (fleet_account f i)"
proof -
  have "List.find (\<lambda>a. a_id a = i) (map core as) = map_option core (List.find (\<lambda>a. a_id a = i) as)" for as
    by (induction as) auto
  then show ?thesis by (simp add: fleet_account_def)
qed

lemma core_ids: "fleet_ids (fleet_core f) = fleet_ids f"
  by (simp add: fleet_ids_def comp_def)

lemma same_unavailable:
  "fleet_core f = fleet_core g \<Longrightarrow> core a = core b \<Longrightarrow>
   unavailable E f a m adv prov now = unavailable E g b m adv prov now"
  using core_unavailable [of E f a m adv prov now] core_unavailable [of E g b m adv prov now] by simp

lemma core_id: "core a = core b \<Longrightarrow> a_id a = a_id b"
  using core_simps(1) by metis

lemma same_can_take:
  "fleet_core f = fleet_core g \<Longrightarrow> core a = core b \<Longrightarrow> can_take E f req now a = can_take E g req now b"
  using same_unavailable [of f g a b E "sq_model req" "sq_advisor req" "sq_provider req" now] core_id [of a b]
  by (simp add: can_take_def is_available_for_def unavailable_reason_for_def)

lemma same_snapshot:
  "fleet_core f = fleet_core g \<Longrightarrow> core a = core b \<Longrightarrow> snapshot E f a = snapshot E g b"
  using core_snapshot [of E f a] core_snapshot [of E g b] by simp

lemma same_ids: "fleet_core f = fleet_core g \<Longrightarrow> fleet_ids f = fleet_ids g"
  using core_ids by metis

lemma same_account:
  assumes "fleet_core f = fleet_core g" and "fleet_account f i = Some a"
  shows "\<exists>b. fleet_account g i = Some b \<and> core a = core b"
proof -
  have "map_option core (fleet_account g i) = Some (core a)"
    using core_fleet_account [of f i] core_fleet_account [of g i] assms by simp
  then show ?thesis by auto
qed

lemma same_mem:
  assumes "fleet_core f = fleet_core g" and "a \<in> set (fl_accounts f)"
  shows "\<exists>b \<in> set (fl_accounts g). core b = core a"
proof -
  have "map core (fl_accounts f) = map core (fl_accounts g)"
    using arg_cong [OF assms(1), of fl_accounts] by simp
  then have "core ` set (fl_accounts f) = core ` set (fl_accounts g)" by (metis list.set_map)
  moreover have "core a \<in> core ` set (fl_accounts f)" using assms(2) by (rule imageI)
  ultimately show ?thesis by auto
qed

text \<open>The contract of a bookkeeping operation, and each of them.\<close>

locale bookkeeping =
  fixes mv :: "fleet \<Rightarrow> fleet"
  assumes mv_core: "fleet_core (mv f) = fleet_core f"
begin

lemma mv_ids: "fleet_ids (mv f) = fleet_ids f"
  using mv_core by (rule same_ids)

lemma mv_account: "fleet_account f i = Some a \<Longrightarrow> \<exists>b. fleet_account (mv f) i = Some b \<and> core a = core b"
  using same_account [OF mv_core [symmetric]] by blast

end

lemma upd_account_core:
  assumes "\<And>a. core (g a) = core a"
  shows "fleet_core (upd_account i g f) = fleet_core f"
proof -
  have "map core (upd_first P g as) = map core as" for P as by (induction as) (simp_all add: assms)
  then show ?thesis by (simp add: fleet_core_def upd_account_def)
qed

lemma bookkeeping_upd: "(\<And>a. core (g a) = core a) \<Longrightarrow> bookkeeping (upd_account i g)"
  by unfold_locales (rule upd_account_core)

interpretation baseline_bk: bookkeeping "note_baseline i model" for i model
  by unfold_locales (auto simp: note_baseline_def baseline_account_def core_def
      intro!: upd_account_core split: option.splits)

interpretation ramp_bk: bookkeeping "begin_ramp i now" for i now
  unfolding begin_ramp_def by (rule bookkeeping_upd) (simp add: core_def)

interpretation cold_bk: bookkeeping "ramp_if_cold i now" for i now
  by unfold_locales (auto simp: ramp_if_cold_def Let_def core_def intro!: upd_account_core)

interpretation requalify_bk: bookkeeping "upd_account i (a_requalify_update (\<lambda>_. b))" for i b
  by (rule bookkeeping_upd) (simp add: core_def)

interpretation probe_bk: bookkeeping "upd_account i (a_last_probe_at_update (\<lambda>_. t))" for i t
  by (rule bookkeeping_upd) (simp add: core_def)

interpretation cursor_bk: bookkeeping "fl_current_update (\<lambda>_. c)" for c
  by unfold_locales (simp add: fleet_core_def)

interpretation current_bk: bookkeeping "set_current i now scoped" for i now scoped
proof
  fix f
  have "core (probing_account a) = core a" for a by (simp add: probing_account_def core_def)
  then have "fleet_core (upd_account i probing_account g) = fleet_core g" for g by (rule upd_account_core)
  then show "fleet_core (set_current i now scoped f) = fleet_core f"
    by (simp add: set_current_def Let_def ramp_bk.mv_core cursor_bk.mv_core)
qed

lemmas mv_cores = baseline_bk.mv_core ramp_bk.mv_core cold_bk.mv_core requalify_bk.mv_core
  probe_bk.mv_core cursor_bk.mv_core current_bk.mv_core

subsection \<open>Sound steps\<close>

text \<open>A step is sound for the fleet \<open>g\<close> it started from: it left the core alone, and an answer is
  a snapshot of an account of \<open>g\<close> that satisfies \<open>P\<close>.\<close>

definition sound :: "ext \<Rightarrow> fleet \<Rightarrow> (account \<Rightarrow> bool) \<Rightarrow> selection option \<times> fleet \<Rightarrow> bool" where
  "sound E g P r \<longleftrightarrow> fleet_core (snd r) = fleet_core g \<and>
     (\<forall>s. fst r = Some s \<longrightarrow>
        (\<exists>sel a. s = SelAccount sel \<and> fleet_account g (sel_id sel) = Some a \<and> snapshot E g a = Some sel \<and> P a))"

lemma soundD: "sound E g P (None, h) \<Longrightarrow> fleet_core h = fleet_core g"
  by (simp add: sound_def)

lemma sound_None: "fleet_core h = fleet_core g \<Longrightarrow> sound E g P (None, h)"
  by (simp add: sound_def)

lemma sound_mono: "sound E g P r \<Longrightarrow> (\<And>a. P a \<Longrightarrow> Q a) \<Longrightarrow> sound E g Q r"
  unfolding sound_def by blast

lemma sound_orelse:
  assumes "sound E g P r" and "\<And>h. fleet_core h = fleet_core g \<Longrightarrow> sound E g P (k h)"
  shows "sound E g P (orelse r k)"
  using assms by (cases r; cases "fst r") (auto simp: orelse_def sound_def)

lemma snapshot_id: "snapshot E f a = Some s \<Longrightarrow> sel_id s = a_id a"
  by (auto simp: snapshot_def split: option.splits)

lemma sound_answer:
  assumes "fleet_core h = fleet_core g" and "fleet_account g i = Some a" and "core b = core a" and "P a"
  shows "sound E g P (answer E (Some b) h)"
proof -
  have "a_id a = i" using fleet_account_SomeD [OF assms(2)] by simp
  then show ?thesis
    using assms same_snapshot [OF assms(1,3), of E] snapshot_id [of E g a]
    by (cases "snapshot E g a") (auto simp: answer_def sound_def)
qed

lemma sound_answer_id:
  assumes "fleet_core h = fleet_core g" and "fleet_account g i = Some a" and "P a"
  shows "sound E g P (answer E (fleet_account h i) h)"
proof -
  obtain b where b: "fleet_account h i = Some b" "core a = core b"
    using same_account [OF assms(1) [symmetric] assms(2)] by blast
  show ?thesis unfolding b(1) using assms b(2) by (intro sound_answer) simp_all
qed

lemma mem_account:
  assumes "distinct (fleet_ids g)" and "fleet_core h = fleet_core g" and "b \<in> set (fl_accounts h)"
  shows "\<exists>a. fleet_account g (a_id b) = Some a \<and> core b = core a"
proof -
  have "distinct (fleet_ids h)" using assms(1) same_ids [OF assms(2)] by simp
  then have "fleet_account h (a_id b) = Some b" using assms(3) by (rule fleet_account_mem)
  then show ?thesis by (rule same_account [OF assms(2)])
qed

lemma best_can_take: "best E f req now = Some b \<Longrightarrow> b \<in> set (fl_accounts f) \<and> can_take E f req now b"
  by (drule best_available) (simp add: available_iff can_take_def)

lemma sound_go_best:
  assumes d: "distinct (fleet_ids g)" and c: "fleet_core h = fleet_core g"
    and mv: "\<And>i f. fleet_core (mv i f) = fleet_core f"
  shows "sound E g (can_take E g req now) (go_best E req now mv h)"
proof (cases "best E h req now")
  case None
  with c show ?thesis by (simp add: go_best_def sound_None)
next
  case (Some b)
  obtain a where a: "fleet_account g (a_id b) = Some a" "core b = core a"
    using mem_account [OF d c] best_can_take [OF Some] by blast
  have t: "can_take E g req now a"
    using best_can_take [OF Some] same_can_take [OF c a(2)] by simp
  have "fleet_core (mv (a_id b) h) = fleet_core g" using c by (simp add: mv)
  then show ?thesis
    unfolding go_best_def Some option.case Let_def using a(1) t by (rule sound_answer_id)
qed

lemma sound_taken:
  assumes d: "distinct (fleet_ids g)" and c: "fleet_core h = fleet_core g"
    and a: "a \<in> set (fl_accounts h)" and t: "can_take E h req now a" and mv: "fleet_core h' = fleet_core h"
  shows "sound E g (can_take E g req now) (answer E (Some a) h')"
proof -
  obtain b where b: "fleet_account g (a_id a) = Some b" "core a = core b"
    using mem_account [OF d c a] by blast
  have "can_take E g req now b" using t same_can_take [OF c b(2)] by simp
  with b mv c show ?thesis by (intro sound_answer) simp_all
qed

lemma bind_account_mem: "Option.bind x (fleet_account h) = Some a \<Longrightarrow> a \<in> set (fl_accounts h)"
  by (cases x) (auto dest: fleet_account_SomeD)

lemma sound_route_pin:
  assumes "distinct (fleet_ids g)" and "fleet_core h = fleet_core g"
  shows "sound E g (can_take E g req now) (step_route_pin E req now h)"
proof (cases "opt_filter (can_take E h req now) (Option.bind (route_pin_of h req) (fleet_account h))")
  case None
  with assms(2) show ?thesis by (simp add: step_route_pin_def answer_def sound_None)
next
  case (Some a)
  then have t: "can_take E h req now a" and m: "a \<in> set (fl_accounts h)"
    using bind_account_mem [of "route_pin_of h req" h a] by simp_all
  show ?thesis unfolding step_route_pin_def Some by (rule sound_taken [OF assms m t refl])
qed

lemma sound_affinity:
  assumes "distinct (fleet_ids g)" and "fleet_core h = fleet_core g"
  shows "sound E g (can_take E g req now) (step_affinity E req now sid h)"
proof (cases "opt_filter (can_take E h req now) (Option.bind (affinity_of h req sid) (fleet_account h))")
  case None
  with assms(2) show ?thesis by (simp add: step_affinity_def sound_None)
next
  case (Some a)
  then have t: "can_take E h req now a" and m: "a \<in> set (fl_accounts h)"
    using bind_account_mem [of "affinity_of h req sid" h a] by simp_all
  have "sound E g (can_take E g req now) (answer E (Some a) (note_baseline (a_id a) (sq_model req) h))"
    by (rule sound_taken [OF assms m t baseline_bk.mv_core])
  with assms(2) show ?thesis by (simp add: step_affinity_def Some sound_None)
qed

lemma spread_go_best:
  "step_spread E req now h =
     (if fl_distribute h
      then go_best E req now (\<lambda>i f. if current_ok E h req now then ramp_if_cold i now f else set_current i now False f) h
      else (None, h))"
  by (simp add: step_spread_def go_best_def Let_def split: option.splits)

lemma sound_session:
  assumes "distinct (fleet_ids g)" and "fleet_core h = fleet_core g"
  shows "sound E g (can_take E g req now) (step_session E req now h)"
proof -
  have "sound E g (can_take E g req now) (step_spread E req now h')" if c: "fleet_core h' = fleet_core g" for h'
    unfolding spread_go_best using assms(1) c
    by (auto intro!: sound_go_best sound_None simp: mv_cores)
  then show ?thesis
    using sound_affinity [OF assms] assms(2)
    by (auto simp: step_session_def sound_None intro!: sound_orelse split: option.splits)
qed

lemma sound_sticky:
  assumes d: "distinct (fleet_ids g)" and c: "fleet_core h = fleet_core g"
    and a: "\<exists>b \<in> set (fl_accounts h). core b = core a"
  shows "sound E g (can_take E g req now) (step_sticky E req now a h)"
proof (cases "can_take E h req now a")
  case False
  then show ?thesis using d c
    by (auto simp: step_sticky_def Let_def mv_cores intro!: sound_go_best)
next
  case True
  obtain b where b: "b \<in> set (fl_accounts h)" "core b = core a" using a by blast
  obtain x where x: "fleet_account g (a_id b) = Some x" "core b = core x"
    using mem_account [OF d c b(1)] by blast
  have cx: "core a = core x" using b x by simp
  have tx: "can_take E g req now x" using True same_can_take [OF c cx] by simp
  have cb: "fleet_core (note_baseline (a_id a) (sq_model req) h) = fleet_core g"
    using c by (simp add: mv_cores)
  have "sound E g (can_take E g req now) (answer E (Some a) (note_baseline (a_id a) (sq_model req) h))"
    using cb x(1) cx tx by (rule sound_answer)
  then show ?thesis using True d c
    by (auto simp: step_sticky_def mv_cores intro!: sound_orelse sound_go_best sound_None)
qed

lemma sound_current:
  assumes d: "distinct (fleet_ids g)" and c: "fleet_core h = fleet_core g"
  shows "sound E g (can_take E g req now) (step_current E req now h)"
proof (cases "Option.bind (fl_current h) (fleet_account h)")
  case None
  with c show ?thesis by (simp add: step_current_def sound_None)
next
  case (Some a)
  have m: "a \<in> set (fl_accounts h)" using bind_account_mem [OF Some] .
  have 1: "sound E g (can_take E g req now) (step_requalify E req now a h)"
    using d c by (auto simp: step_requalify_def mv_cores intro!: sound_go_best sound_None)
  have 2: "sound E g (can_take E g req now) (step_sticky E req now a h')" if c': "fleet_core h' = fleet_core g" for h'
  proof (rule sound_sticky [OF d c'])
    obtain x where "fleet_account g (a_id a) = Some x" "core a = core x" using mem_account [OF d c m] by blast
    then obtain y where "fleet_account h' (a_id a) = Some y" "core x = core y"
      using same_account [OF c' [symmetric]] by blast
    with \<open>core a = core x\<close> show "\<exists>b \<in> set (fl_accounts h'). core b = core a"
      using fleet_account_SomeD by (intro bexI [of _ y]) auto
  qed
  show ?thesis unfolding step_current_def Some option.case by (rule sound_orelse [OF 1 2])
qed

lemma sound_best:
  assumes "distinct (fleet_ids g)" and "fleet_core h = fleet_core g"
  shows "sound E g (can_take E g req now) (step_best E req now h)"
  unfolding step_best_def using assms by (intro sound_go_best) (simp_all add: mv_cores)

end
