(* ===== verification/Selection_Props.thy ===== *)
theory Selection_Props
  imports Selection_Facts
begin

text \<open>
  The properties of \<open>Fleet::select\<close>: who may be selected, what a pin means, when the fleet
  is reported exhausted, and what stays as it was.
\<close>

subsection \<open>The probe step\<close>

lemma pick_probe_Some:
  "pick_probe E req now f as p = Some (r, i) \<Longrightarrow>
   p = Some (r, i) \<or> (\<exists>a \<in> set as. probe_candidate E req now f a \<and> a_id a = i \<and> r = probe_reset req a)"
  by (induction as arbitrary: p) (auto split: if_splits)

lemma pick_probe_least:
  "pick_probe E req now f as p = Some (r, i) \<Longrightarrow>
   (\<forall>a \<in> set as. probe_candidate E req now f a \<longrightarrow> r \<le> probe_reset req a)
   \<and> (\<forall>r0 i0. p = Some (r0, i0) \<longrightarrow> r \<le> r0)"
proof (induction as arbitrary: p)
  case (Cons a as)
  show ?case
  proof (cases "probe_candidate E req now f a \<and> (case p of Some (r, _) \<Rightarrow> probe_reset req a < r | None \<Rightarrow> True)")
    case True
    with Cons.prems Cons.IH [of "Some (probe_reset req a, a_id a)"] show ?thesis
      by (auto split: option.splits prod.splits)
  next
    case False
    with Cons.prems Cons.IH [of p] show ?thesis by (auto split: option.splits prod.splits)
  qed
qed auto

lemma pick_probe_None:
  "pick_probe E req now f as p = None \<longleftrightarrow> p = None \<and> (\<forall>a \<in> set as. \<not> probe_candidate E req now f a)"
  by (induction as arbitrary: p) (auto split: option.splits)

definition soft_for :: "ext \<Rightarrow> fleet \<Rightarrow> select_request \<Rightarrow> int \<Rightarrow> account \<Rightarrow> bool" where
  "soft_for E f req now a \<longleftrightarrow> a_id a \<notin> set (sq_exclude req) \<and> sq_allow_probe req \<and>
     (\<exists>r. unavailable E f a (sq_model req) (sq_advisor req) (sq_provider req) now = Some r \<and> soft_reason r)"

lemma probe_candidate_soft: "probe_candidate E req now f a \<Longrightarrow> sq_allow_probe req \<Longrightarrow> soft_for E f req now a"
  by (auto simp: probe_candidate_def soft_for_def unavailable_reason_for_def quota_prefix_text split: option.splits)

lemma same_soft: "fleet_core f = fleet_core g \<Longrightarrow> core a = core b \<Longrightarrow> soft_for E f req now a = soft_for E g req now b"
  using same_unavailable [of f g a b E "sq_model req" "sq_advisor req" "sq_provider req" now] core_id [of a b]
  by (simp add: soft_for_def)

lemma sound_probe:
  assumes d: "distinct (fleet_ids g)" and c: "fleet_core h = fleet_core g"
  shows "sound E g (soft_for E g req now) (step_probe E req now h)"
proof (cases "if sq_allow_probe req then pick_probe E req now h (fl_accounts h) None else None")
  case None
  with c show ?thesis by (simp add: step_probe_def sound_None)
next
  case (Some ri)
  obtain r i where ri: "ri = (r, i)" by (rule prod.exhaust)
  with Some have p: "sq_allow_probe req" "pick_probe E req now h (fl_accounts h) None = Some (r, i)"
    by (auto split: if_splits)
  from pick_probe_Some [OF p(2)] obtain b where b: "b \<in> set (fl_accounts h)" "probe_candidate E req now h b" "a_id b = i"
    by auto
  obtain a where a: "fleet_account g (a_id b) = Some a" "core b = core a" using mem_account [OF d c b(1)] by blast
  have s: "soft_for E g req now a" using probe_candidate_soft [OF b(2) p(1)] same_soft [OF c a(2)] by simp
  have cp: "fleet_core (upd_account i (a_last_probe_at_update (\<lambda>_. Some now)) h) = fleet_core g"
    using c by (simp add: mv_cores)
  show ?thesis
    unfolding step_probe_def Some ri option.case prod.case Let_def
    using cp a(1) [unfolded b(3)] s by (rule sound_answer_id)
qed

subsection \<open>The whole selection\<close>

definition serves :: "ext \<Rightarrow> fleet \<Rightarrow> select_request \<Rightarrow> int \<Rightarrow> account \<Rightarrow> bool" where
  "serves E g req now a \<longleftrightarrow> can_take E g req now a \<or> soft_for E g req now a"

definition select_steps :: "ext \<Rightarrow> select_request \<Rightarrow> int \<Rightarrow> fleet \<Rightarrow> selection option \<times> fleet" where
  "select_steps E req now f =
     orelse (orelse (orelse (orelse (step_route_pin E req now f) (step_session E req now))
       (step_current E req now)) (step_best E req now)) (step_probe E req now)"

lemma sound_select_steps:
  assumes d: "distinct (fleet_ids g)"
  shows "sound E g (serves E g req now) (select_steps E req now g)"
proof -
  have t: "sound E g (can_take E g req now) r \<Longrightarrow> sound E g (serves E g req now) r" for r
    by (erule sound_mono) (simp add: serves_def)
  have p: "sound E g (soft_for E g req now) r \<Longrightarrow> sound E g (serves E g req now) r" for r
    by (erule sound_mono) (simp add: serves_def)
  show ?thesis
    unfolding select_steps_def
    by (intro sound_orelse t [OF sound_route_pin] t [OF sound_session] t [OF sound_current]
        t [OF sound_best] p [OF sound_probe] d refl)
qed

lemma id_clear_expired: "a_id (clear_expired_account E th now a) = a_id a"
  by (cases "a_rate_limited_until a") (simp_all add: clear_expired_account_def Let_def)

lemma ids_clear_expired: "fleet_ids (clear_expired_all E now f) = fleet_ids f"
  by (simp add: fleet_ids_def clear_expired_all_def comp_def id_clear_expired)

lemma pinned_cases:
  assumes "select_pinned E f req now pin = SelAccount s"
  shows "\<exists>a. mgr_resolve f pin = Some (sel_id s) \<and> fleet_account f (sel_id s) = Some a \<and> snapshot E f a = Some s
     \<and> usable E f a (sq_model req) (sq_advisor req) (sq_provider req) now"
proof -
  obtain i a where a: "mgr_resolve f pin = Some i" "fleet_account f i = Some a"
    using assms by (cases "mgr_resolve f pin") (auto simp: select_pinned_def split: option.splits)
  have r: "snapshot E f a = Some s"
    and u: "opt_filter (\<lambda>r. \<not> starts_with ''quota:'' r)
        (unavailable_reason_for E f a (sq_model req) (sq_advisor req) (sq_provider req) now) = None"
    using assms a by (auto simp: select_pinned_def split: option.splits)
  have "sel_id s = i" using snapshot_id [OF r] fleet_account_SomeD [OF a(2)] by simp
  moreover have "usable E f a (sq_model req) (sq_advisor req) (sq_provider req) now"
  proof (cases "unavailable E f a (sq_model req) (sq_advisor req) (sq_provider req) now")
    case None
    then show ?thesis by (simp add: unavailable_None)
  next
    case (Some r)
    with u have "soft_reason r" by (simp add: unavailable_reason_for_def quota_prefix_text split: if_splits)
    with Some show ?thesis using unavailable_soft by blast
  qed
  ultimately show ?thesis using a r by auto
qed

lemma select_account_eq:
  "select_account E req now f0 =
     (let f = clear_expired_all E now f0
      in (case sq_pin req of
            Some pin \<Rightarrow> (select_pinned E f req now pin, f)
          | None \<Rightarrow> (case select_steps E req now f of
                (Some s, g) \<Rightarrow> (s, g)
              | (None, g) \<Rightarrow> (case exhausted_info E g req now of (retry, reason) \<Rightarrow> (Exhausted retry reason, g)))))"
  unfolding select_account_def select_steps_def Let_def ..

lemma serves_usable:
  "serves E g req now a \<Longrightarrow> usable E g a (sq_model req) (sq_advisor req) (sq_provider req) now
     \<and> a_id a \<notin> set (sq_exclude req)
     \<and> (near_quota g a (sq_model req) \<noteq> None \<longrightarrow> sq_allow_probe req)"
  by (auto simp: serves_def can_take_def is_available_for_def unavailable_reason_for_def unavailable_None
      soft_for_def near_quota_def dest!: unavailable_soft)

lemma selected_account:
  assumes "distinct (fleet_ids f0)" and "select_account E req now f0 = (SelAccount s, f')"
  shows "\<exists>a. fleet_account (clear_expired_all E now f0) (sel_id s) = Some a
       \<and> snapshot E (clear_expired_all E now f0) a = Some s
       \<and> usable E (clear_expired_all E now f0) a (sq_model req) (sq_advisor req) (sq_provider req) now
       \<and> (sq_pin req = None \<longrightarrow> serves E (clear_expired_all E now f0) req now a)"
proof -
  let ?g = "clear_expired_all E now f0"
  have d: "distinct (fleet_ids ?g)" using assms(1) by (simp add: ids_clear_expired)
  show ?thesis
  proof (cases "sq_pin req")
    case (Some pin)
    with assms(2) have "select_pinned E ?g req now pin = SelAccount s" by (auto simp: select_account_eq Let_def)
    from pinned_cases [OF this] Some show ?thesis by auto
  next
    case None
    with assms(2) have r: "select_steps E req now ?g = (Some (SelAccount s), f')"
      by (auto simp: select_account_eq Let_def split: prod.splits option.splits)
    from sound_select_steps [OF d, of E req now] obtain a where
      a: "fleet_account ?g (sel_id s) = Some a" "snapshot E ?g a = Some s" "serves E ?g req now a"
      unfolding sound_def r by auto
    with serves_usable [OF a(3)] a show ?thesis by blast
  qed
qed

text \<open>C1: Whatever the state of the fleet and however the request is routed, an account that is
  selected passed every hard guard at that moment: it is enabled, holds a credential that may
  be sent to its upstream, is not in error, rate limited or cooling down, is allowed by the
  route, and is below its own caps for the model and for the advisor. Without a pin it is
  also not one the caller excluded, and it is past its switch threshold only when the caller
  allowed a probe. What is handed out is that account's own credential and upstream.\<close>

theorem select_answers_safely:
  assumes "distinct (fleet_ids f0)" and "select_account E req now f0 = (SelAccount s, f')"
  shows "let g = clear_expired_all E now f0 in
     \<exists>a. fleet_account g (sel_id s) = Some a \<and> snapshot E g a = Some s
       \<and> usable E g a (sq_model req) (sq_advisor req) (sq_provider req) now
       \<and> (sq_pin req = None \<longrightarrow> sel_id s \<notin> set (sq_exclude req)
            \<and> (near_quota g a (sq_model req) \<noteq> None \<longrightarrow> sq_allow_probe req))"
proof -
  obtain a where a: "fleet_account (clear_expired_all E now f0) (sel_id s) = Some a"
      "snapshot E (clear_expired_all E now f0) a = Some s"
      "usable E (clear_expired_all E now f0) a (sq_model req) (sq_advisor req) (sq_provider req) now"
      "sq_pin req = None \<longrightarrow> serves E (clear_expired_all E now f0) req now a"
    using selected_account [OF assms] by (elim exE conjE)
  have "a_id a = sel_id s" using fleet_account_SomeD [OF a(1)] by simp
  with a(4) serves_usable [of E "clear_expired_all E now f0" req now a]
  have "sq_pin req = None \<longrightarrow> sel_id s \<notin> set (sq_exclude req)
      \<and> (near_quota (clear_expired_all E now f0) a (sq_model req) \<noteq> None \<longrightarrow> sq_allow_probe req)"
    by simp
  with a(1-3) show ?thesis unfolding Let_def by (intro exI [of _ a] conjI)
qed

text \<open>C7: A request pinned to an account is served by exactly the account the pin names or not at
  all: it never fails over, and an unknown pin is reported as such. A pinned account that is past the switch
  threshold of the requested model's own window still serves, whatever the advisor model's window says; one that
  only the advisor model's threshold stands in the way of is refused, although the comment in the source says
  that a pin bypasses the threshold. Any obstacle is reported with the account's name and its
  reason, and a pinned selection moves no cursor and starts no ramp.\<close>

theorem pin_never_fails_over:
  assumes "sq_pin req = Some pin"
  shows "let g = clear_expired_all E now before; r = fst (select_account E req now before) in
    snd (select_account E req now before) = g
    \<and> (case Option.bind (mgr_resolve g pin) (fleet_account g) of
         None \<Rightarrow> r = PinUnknown
       | Some a \<Rightarrow>
           if usable E g a (sq_model req) (sq_advisor req) (sq_provider req) now
              \<and> (near_quota g a (sq_model req) \<noteq> None \<or> sq_advisor req = None \<or> near_quota g a (sq_advisor req) = None)
           then (\<exists>s. r = SelAccount s \<and> snapshot E g a = Some s)
           else (\<exists>why. r = PinUnavailable (a_name a) why
                  \<and> unavailable_reason_for E g a (sq_model req) (sq_advisor req) (sq_provider req) now = Some why))"
proof -
  let ?g = "clear_expired_all E now before"
  have r: "select_account E req now before = (select_pinned E ?g req now pin, ?g)"
    using assms by (simp add: select_account_eq Let_def)
  show ?thesis
  proof (cases "Option.bind (mgr_resolve ?g pin) (fleet_account ?g)")
    case None
    then show ?thesis by (simp add: r select_pinned_def)
  next
    case (Some a)
    let ?u = "unavailable E ?g a (sq_model req) (sq_advisor req) (sq_provider req) now"
    let ?ok = "usable E ?g a (sq_model req) (sq_advisor req) (sq_provider req) now
              \<and> (near_quota ?g a (sq_model req) \<noteq> None \<or> sq_advisor req = None \<or> near_quota ?g a (sq_advisor req) = None)"
    have soft: "(\<exists>w. ?u = Some w \<and> soft_reason w) \<longleftrightarrow>
        usable E ?g a (sq_model req) (sq_advisor req) (sq_provider req) now \<and> near_quota ?g a (sq_model req) \<noteq> None"
      unfolding unavailable_soft_iff near_quota_def by simp
    have ok: "?ok \<longleftrightarrow> ?u = None \<or> (\<exists>w. ?u = Some w \<and> soft_reason w)"
      unfolding soft by (auto simp: unavailable_None near_quota_def)
    have snap: "\<exists>s. snapshot E ?g a = Some s" if ?ok
      using that by (auto simp: usable_def snapshot_def)
    show ?thesis
    proof (cases ?ok)
      case True
      with ok snap show ?thesis
        by (auto simp: r select_pinned_def Some unavailable_reason_for_def quota_prefix_text Let_def)
    next
      case False
      with ok obtain w where "?u = Some w" "\<not> soft_reason w" by (cases ?u) auto
      then have "fst (select_account E req now before) = PinUnavailable (a_name a) (reason_text w)"
        by (simp add: r select_pinned_def Some unavailable_reason_for_def quota_prefix_text)
      with False \<open>?u = Some w\<close> show ?thesis
        by (simp add: r Some Let_def unavailable_reason_for_def if_not_P)
    qed
  qed
qed

subsection \<open>Exhaustion\<close>

text \<open>Held back by quota or a rate limit, as the error for the client counts it.\<close>

definition held_back :: "ext \<Rightarrow> fleet \<Rightarrow> select_request \<Rightarrow> int \<Rightarrow> account \<Rightarrow> bool" where
  "held_back E f req now a \<longleftrightarrow>
     (case sq_provider req of Some p \<Rightarrow> a_provider a = p | None \<Rightarrow> True)
     \<and> (case unavailable E f a (sq_model req) (sq_advisor req) None now of
          Some r \<Rightarrow> (case r of RateLimited _ \<Rightarrow> True | Capped _ \<Rightarrow> True | AdvisorCapped _ \<Rightarrow> True
                     | NearQuota _ \<Rightarrow> True | AdvisorNearQuota _ \<Rightarrow> True | _ \<Rightarrow> False)
        | None \<Rightarrow> False)"

lemma held_key: "reason_key r \<in> set held_back_keys \<longleftrightarrow>
    (case r of RateLimited _ \<Rightarrow> True | Capped _ \<Rightarrow> True | AdvisorCapped _ \<Rightarrow> True
             | NearQuota _ \<Rightarrow> True | AdvisorNearQuota _ \<Rightarrow> True | _ \<Rightarrow> False)"
  by (cases r) (simp_all add: held_back_keys_def)

lemma exhausted_loop_bound:
  "fst (snd (exhausted_loop E f req now as (so, bo, pa))) \<longleftrightarrow> bo \<or> (\<exists>a \<in> set as. held_back E f req now a)"
proof (induction as arbitrary: so bo pa)
  case (Cons a as)
  show ?case
    by (cases "unavailable E f a (sq_model req) (sq_advisor req) None now"; cases "sq_provider req")
      (auto simp: Let_def Cons.IH held_back_def unavailable_reason_def unavailable_reason_for_def
        unavailable_key_text held_key)
qed simp

lemma exhausted_info_bounds:
  "(case fst (exhausted_info E f req now) of
      Some n \<Rightarrow> 5 \<le> n \<and> n \<le> 3600 \<and> (\<exists>a \<in> set (fl_accounts f). held_back E f req now a)
    | None \<Rightarrow> \<forall>a \<in> set (fl_accounts f). \<not> held_back E f req now a)"
proof -
  obtain so bo pa where l: "exhausted_loop E f req now (fl_accounts f) (None, False, []) = (so, bo, pa)"
    by (rule prod_cases3)
  have "bo \<longleftrightarrow> (\<exists>a \<in> set (fl_accounts f). held_back E f req now a)"
    using exhausted_loop_bound [of E f req now "fl_accounts f" None False "[]"] by (simp add: l)
  moreover have "5 \<le> nat (clamp 5 3600 x)" "nat (clamp 5 3600 x) \<le> 3600" for x :: int
    using clamp_bounds [of "5::int" 3600 x] by auto
  ultimately show ?thesis by (auto simp: exhausted_info_def l split: option.splits)
qed

lemma held_back_core:
  assumes "fleet_core f = fleet_core g"
  shows "(\<exists>a \<in> set (fl_accounts f). held_back E f req now a) \<longleftrightarrow> (\<exists>a \<in> set (fl_accounts g). held_back E g req now a)"
proof -
  have sub: "\<exists>b \<in> set (fl_accounts g). held_back E g req now b"
    if c: "fleet_core f = fleet_core g" and a: "a \<in> set (fl_accounts f)" "held_back E f req now a" for a f g
  proof -
    obtain b where b: "b \<in> set (fl_accounts g)" "core a = core b" using same_mem [OF c a(1)] by metis
    have "a_provider b = a_provider a" using b(2) core_simps(10) by metis
    with a(2) have "held_back E g req now b" by (simp add: held_back_def same_unavailable [OF c b(2)] cong: option.case_cong)
    with b(1) show ?thesis by blast
  qed
  show ?thesis using sub [OF assms] sub [OF assms [symmetric]] by blast
qed

lemma steps_None:
  assumes d: "distinct (fleet_ids g)" and ok: "er_enabled (fl_expiry g) \<Longrightarrow> \<forall>a \<in> set (fl_accounts g). reading_ok a"
    and n: "select_steps E req now g = (None, h)"
  shows "fleet_core h = fleet_core g \<and> (\<forall>a \<in> set (fl_accounts g). \<not> can_take E g req now a)"
proof -
  have c: "fleet_core h = fleet_core g"
    using sound_select_steps [OF d, of E req now] by (simp add: n sound_def)
  let ?r = "orelse (orelse (step_route_pin E req now g) (step_session E req now)) (step_current E req now)"
  have s: "sound E g (can_take E g req now) ?r"
    by (intro sound_orelse sound_route_pin sound_session sound_current d refl)
  have e: "select_steps E req now g = orelse (orelse ?r (step_best E req now)) (step_probe E req now)"
    by (simp add: select_steps_def)
  have "fst ?r = None"
  proof (rule ccontr)
    assume "fst ?r \<noteq> None"
    then obtain x k where "?r = (Some x, k)" by (cases ?r) auto
    with n show False unfolding e by (simp add: orelse_def)
  qed
  then obtain k where k: "?r = (None, k)" by (cases ?r) auto
  have ck: "fleet_core k = fleet_core g" using s by (simp add: k sound_def)
  have sb: "fst (step_best E req now k) = None"
  proof (rule ccontr)
    assume "fst (step_best E req now k) \<noteq> None"
    then obtain x h' where "step_best E req now k = (Some x, h')" by (cases "step_best E req now k") auto
    with n show False unfolding e k by (simp add: orelse_def)
  qed
  have "best E k req now = None"
  proof (rule ccontr)
    assume "best E k req now \<noteq> None"
    then obtain b where b: "best E k req now = Some b" by blast
    let ?k1 = "note_baseline (a_id b) (sq_model req) (set_current (a_id b) now False k)"
    have c1: "fleet_core ?k1 = fleet_core k" by (simp add: mv_cores)
    note bt = best_can_take [OF b]
    have dk: "distinct (fleet_ids k)" using d same_ids [OF ck] by simp
    obtain b1 where b1: "fleet_account ?k1 (a_id b) = Some b1" "core b = core b1"
      using same_account [OF c1 [symmetric] fleet_account_mem [OF dk]] bt by blast
    have "snapshot E k b \<noteq> None"
      using conjunct2 [OF bt]
      by (auto simp: can_take_def is_available_for_def unavailable_reason_for_def unavailable_None usable_def
          snapshot_def)
    then have "snapshot E ?k1 b1 \<noteq> None" using same_snapshot [OF c1 b1(2) [symmetric], of E] by simp
    with sb b b1 show False by (auto simp: step_best_def go_best_def Let_def answer_def)
  qed
  moreover have "\<forall>a \<in> set (fl_accounts k). reading_ok a" if en: "er_enabled (fl_expiry k)"
  proof
    fix a assume "a \<in> set (fl_accounts k)"
    then obtain b where b: "b \<in> set (fl_accounts g)" "core b = core a" using same_mem [OF ck] by blast
    have "er_enabled (fl_expiry g)" using en arg_cong [OF ck, of fl_expiry] by simp
    from ok [OF this] b(1) have "reading_ok b" by blast
    moreover have "a_quota a = a_quota b" using core_simps(3) b(2) by metis
    ultimately show "reading_ok a" by (simp add: reading_ok_def)
  qed
  ultimately have "available E k req now = []"
    using ranked_eq_Nil by (auto simp: best_def split: list.splits)
  then have nk: "\<forall>a \<in> set (fl_accounts k). \<not> can_take E k req now a"
    by (auto simp: available_def filter_empty_conv can_take_def)
  have "\<not> can_take E g req now a" if m: "a \<in> set (fl_accounts g)" for a
  proof -
    obtain b where "b \<in> set (fl_accounts k)" "core b = core a"
      using same_mem [OF ck [symmetric] m] by blast
    with nk same_can_take [OF ck, of b a] show ?thesis by blast
  qed
  with c show ?thesis by blast
qed

text \<open>C8: The fleet is reported exhausted only when it is: no account that the caller has not
  excluded can take the request. The client is told when to retry (between 5 seconds and one
  hour) exactly when some account of the requested provider is held back by quota or a rate
  limit, so a fleet whose accounts merely failed is never dressed up as rate limited. Account ids are
  unique, as in every fleet that is reached; and with expiry routing on no reading is NaN: the header parser lets
  NaN through, and accounts whose readings are NaN drop out of that ranking.\<close>

theorem exhausted_means_exhausted:
  assumes "distinct (fleet_ids f0)"
    and "er_enabled (fl_expiry f0) \<Longrightarrow> \<forall>a \<in> set (fl_accounts (clear_expired_all E now f0)). reading_ok a"
    and "select_account E req now f0 = (Exhausted retry why, f')"
  shows "let g = clear_expired_all E now f0 in
     (\<forall>a \<in> set (fl_accounts g). a_id a \<in> set (sq_exclude req) \<or> \<not> is_available_for E g a req now)
     \<and> (case retry of
          Some n \<Rightarrow> 5 \<le> n \<and> n \<le> 3600 \<and> (\<exists>a \<in> set (fl_accounts g). held_back E g req now a)
        | None \<Rightarrow> \<forall>a \<in> set (fl_accounts g). \<not> held_back E g req now a)"
proof -
  let ?g = "clear_expired_all E now f0"
  have d: "distinct (fleet_ids ?g)" using assms(1) by (simp add: ids_clear_expired)
  have pin: "sq_pin req = None"
    using assms(3) by (auto simp: select_account_eq select_pinned_def Let_def split: option.splits)
  then obtain h where h: "select_steps E req now ?g = (None, h)" "fst (exhausted_info E h req now) = retry"
  proof -
    assume that: "\<And>h. select_steps E req now ?g = (None, h) \<Longrightarrow> fst (exhausted_info E h req now) = retry \<Longrightarrow> thesis"
    obtain r h where r: "select_steps E req now ?g = (r, h)" by (rule prod.exhaust)
    have "r = None"
    proof (rule ccontr)
      assume "r \<noteq> None"
      then obtain s where "r = Some s" by blast
      moreover have "\<exists>sel. s = SelAccount sel"
        using sound_select_steps [OF d, of E req now] by (auto simp: sound_def r \<open>r = Some s\<close>)
      ultimately show False using assms(3) pin r by (auto simp: select_account_eq Let_def)
    qed
    with r assms(3) pin that show thesis by (auto simp: select_account_eq Let_def split: prod.splits)
  qed
  have ok: "er_enabled (fl_expiry ?g) \<Longrightarrow> \<forall>a \<in> set (fl_accounts ?g). reading_ok a"
    using assms(2) by (simp add: clear_expired_all_def)
  from steps_None [OF d ok h(1)] have c: "fleet_core h = fleet_core ?g"
    and none: "\<forall>a \<in> set (fl_accounts ?g). \<not> can_take E ?g req now a" by auto
  have b: "case retry of
          Some n \<Rightarrow> 5 \<le> n \<and> n \<le> 3600 \<and> (\<exists>a \<in> set (fl_accounts ?g). held_back E ?g req now a)
        | None \<Rightarrow> \<forall>a \<in> set (fl_accounts ?g). \<not> held_back E ?g req now a"
    using exhausted_info_bounds [where E = E and f = h and req = req and now = now] held_back_core [OF c, where E = E and req = req and now = now]
    unfolding h(2) by (auto split: option.splits)
  with none show ?thesis by (auto simp: Let_def can_take_def)
qed

subsection \<open>Closed examples\<close>

lemma clear_expired_default [simp]: "fst (clear_expired ext0 now th quota_default) = quota_default"
  by (simp add: clear_expired_def quota_default_def bucket_default_def is_reset_def stale_spent_def
      Let_def bucket_of_def bucket_defs)

lemma clear_demo_account [simp]: "clear_expired_account ext0 th now (demo_account i p) = demo_account i p"
proof -
  have "a_quota_update (\<lambda>_. quota_default) (demo_account i p) = demo_account i p"
    by (simp add: demo_account_def account_blank_def)
  moreover have "a_quota_update (\<lambda>q. fst (clear_expired ext0 now (for_bucket th) q)) (demo_account i p)
      = a_quota_update (\<lambda>_. quota_default) (demo_account i p)"
    by (simp add: demo_account_def account_blank_def)
  ultimately show ?thesis by (simp add: clear_expired_account_def Let_def)
qed

lemma clear_demo_fleet [simp]:
  "clear_expired_all ext0 now (demo_fleet [demo_account i p]) = demo_fleet [demo_account i p]"
  by (simp add: clear_expired_all_def demo_fleet_def)

lemma demo_snapshot: "\<exists>s. snapshot ext0 (demo_fleet as) (demo_account i p) = Some s \<and> sel_id s = i"
proof -
  have "unavailable ext0 (demo_fleet as) (demo_account i p) None None None 0 = None" by (rule demo_available)
  then have "upstream_for ext0 (fl_default_upstream (demo_fleet as)) (demo_account i p) \<noteq> None"
    by (simp add: unavailable_None usable_def)
  then show ?thesis by (auto simp: snapshot_def)
qed

lemma demo_request_simps [simp]:
  "sq_model demo_request = None" "sq_advisor demo_request = None" "sq_session demo_request = None"
  "sq_pin demo_request = None" "sq_exclude demo_request = []" "sq_allow_probe demo_request"
  "sq_provider demo_request = None"
  by (simp_all add: demo_request_def)

lemma demo_best: "best ext0 (demo_fleet [demo_account i p]) demo_request now = Some (demo_account i p)"
  by (simp add: best_def ranked_available_def ranked_by_default_def available_def)

lemma demo_select:
  "\<exists>s f'. select_account ext0 demo_request now (demo_fleet [demo_account i p]) = (SelAccount s, f') \<and> sel_id s = i"
proof -
  let ?f = "demo_fleet [demo_account i p]"
  have 1: "step_route_pin ext0 demo_request now ?f = (None, ?f)"
    by (simp add: step_route_pin_def route_pin_of_def answer_def)
  have 2: "step_session ext0 demo_request now ?f = (None, ?f)" by (simp add: step_session_def)
  have 3: "step_current ext0 demo_request now ?f = (None, ?f)" by (simp add: step_current_def)
  let ?m = "note_baseline i None (set_current i now False ?f)"
  have c: "fleet_core ?m = fleet_core ?f" by (simp add: mv_cores)
  have "fleet_account ?f i = Some (demo_account i p)" by (simp add: fleet_account_def)
  then obtain b where b: "fleet_account ?m i = Some b" "core (demo_account i p) = core b"
    using same_account [OF c [symmetric]] by blast
  obtain s where s: "snapshot ext0 ?f (demo_account i p) = Some s" "sel_id s = i" using demo_snapshot by blast
  then have "snapshot ext0 ?m b = Some s" using same_snapshot [OF c b(2) [symmetric], of ext0] by simp
  then have "step_best ext0 demo_request now ?f = (Some (SelAccount s), ?m)"
    by (simp add: step_best_def go_best_def demo_best answer_def b(1))
  then have "select_account ext0 demo_request now ?f = (SelAccount s, ?m)"
    by (simp add: select_account_eq select_steps_def 1 2 3 orelse_def)
  with s(2) show ?thesis by blast
qed

theorem select_answers_safely_witness:
  "\<exists>s f'. select_account ext0 demo_request 0 (demo_fleet [demo_account ''a'' 1]) = (SelAccount s, f')
     \<and> (\<exists>a. fleet_account (demo_fleet [demo_account ''a'' 1]) (sel_id s) = Some a
            \<and> usable ext0 (demo_fleet [demo_account ''a'' 1]) a None None None 0)"
proof -
  obtain s f' where r: "select_account ext0 demo_request 0 (demo_fleet [demo_account ''a'' 1]) = (SelAccount s, f')"
    using demo_select by blast
  have "distinct (fleet_ids (demo_fleet [demo_account ''a'' 1]))" by (simp add: fleet_ids_def)
  from select_answers_safely [OF this r] r show ?thesis by (auto simp: Let_def)
qed

theorem pin_never_fails_over_witness:
  "fst (select_account ext0 (demo_request\<lparr>sq_pin := Some ''zz''\<rparr>) 0 (demo_fleet [demo_account ''a'' 1])) = PinUnknown"
proof -
  have p: "sq_pin (demo_request\<lparr>sq_pin := Some ''zz''\<rparr>) = Some ''zz''" by simp
  have t: "trim ''zz'' = ''zz''" by code_simp
  have "a_account_uuid (demo_account ''a'' 1) = None" "a_org_uuid (demo_account ''a'' 1) = None"
    "a_email (demo_account ''a'' 1) = None"
    by (simp_all add: demo_account_def account_blank_def account_config_default_def)
  then have "mgr_resolve (demo_fleet [demo_account ''a'' 1]) ''zz'' = None"
    by (simp add: mgr_resolve_def t uuid_pair_account_def names_account_def)
  with pin_never_fails_over [OF p, where now = 0 and E = ext0 and before = "demo_fleet [demo_account ''a'' 1]"]
  show ?thesis by (simp add: Let_def)
qed

definition limited_account :: account where
  "limited_account = (demo_account ''a'' 1)\<lparr>a_rate_limited_until := Some 60000\<rparr>"

lemma limited_unavailable:
  "unavailable ext0 (demo_fleet [limited_account]) limited_account None None None 0 = Some (RateLimited 60)"
proof -
  have "upstream_for ext0 DEFAULT_UPSTREAM (demo_account ''a'' 1) \<noteq> None"
    using demo_available [of "[]" "''a''" 1 None 0] by (simp add: unavailable_None usable_def)
  then have "upstream_for ext0 DEFAULT_UPSTREAM limited_account \<noteq> None"
    by (simp add: limited_account_def upstream_for_def is_subscription_def)
  then show ?thesis by (simp add: unavailable_def limited_account_def trunc_div_def)
qed

lemma clear_limited: "clear_expired_all ext0 0 (demo_fleet [limited_account]) = demo_fleet [limited_account]"
proof -
  have e: "a_quota_update (\<lambda>q. fst (clear_expired ext0 0 th q)) limited_account = limited_account" for th
    using clear_expired_default by (simp add: limited_account_def demo_account_def account_blank_def)
  have "clear_expired_account ext0 th 0 limited_account = limited_account" for th
    by (simp add: clear_expired_account_def Let_def e) (simp add: limited_account_def)
  then show ?thesis by (simp add: clear_expired_all_def demo_fleet_def)
qed

lemma reading_ok_limited: "reading_ok limited_account"
  using reading_ok_demo by (simp add: reading_ok_def limited_account_def)

lemma limited_select:
  "\<exists>why f'. select_account ext0 demo_request 0 (demo_fleet [limited_account]) = (Exhausted (Some 60) why, f')"
proof -
  let ?f = "demo_fleet [limited_account]"
  have g: "clear_expired_all ext0 0 ?f = ?f" by (rule clear_limited)
  have na: "\<not> is_available_for ext0 ?f limited_account demo_request 0"
    by (simp add: is_available_for_def unavailable_reason_for_def limited_unavailable)
  have b: "best ext0 ?f demo_request 0 = None"
    by (simp add: best_def ranked_available_def ranked_by_default_def available_def na)
  have np: "\<not> probe_candidate ext0 demo_request 0 ?f limited_account"
    using quota_prefix_text [of "RateLimited 60"]
    by (simp add: probe_candidate_def unavailable_reason_for_def limited_unavailable soft_reason_def)
  have s: "select_steps ext0 demo_request 0 ?f = (None, ?f)"
    by (simp add: select_steps_def orelse_def step_route_pin_def route_pin_of_def answer_def step_session_def
        step_current_def step_best_def go_best_def b step_probe_def np)
  have u: "unavailable_key (reason_text (RateLimited 60)) = ''throttled''"
    unfolding unavailable_key_text by simp
  have "fst (exhausted_info ext0 ?f demo_request 0) = Some 60"
    by (simp add: exhausted_info_def unavailable_reason_def unavailable_reason_for_def limited_unavailable u
        held_back_keys_def Let_def del: reason_text.simps)
      (simp add: limited_account_def trunc_div_def clamp_def)
  then show ?thesis
    by (cases "exhausted_info ext0 ?f demo_request 0") (simp add: select_account_eq g s Let_def)
qed

theorem exhausted_means_exhausted_witness:
  "\<exists>why f'. select_account ext0 demo_request 0 (demo_fleet [limited_account]) = (Exhausted (Some 60) why, f')
     \<and> (\<exists>a \<in> set (fl_accounts (clear_expired_all ext0 0 (demo_fleet [limited_account]))).
           held_back ext0 (clear_expired_all ext0 0 (demo_fleet [limited_account])) demo_request 0 a)"
proof -
  let ?f = "demo_fleet [limited_account]"
  obtain why f' where r: "select_account ext0 demo_request 0 ?f = (Exhausted (Some 60) why, f')"
    using limited_select by blast
  have d: "distinct (fleet_ids ?f)" by (simp add: fleet_ids_def)
  have ok: "\<forall>a \<in> set (fl_accounts (clear_expired_all ext0 0 ?f)). reading_ok a"
    by (simp add: clear_limited reading_ok_limited)
  from exhausted_means_exhausted [OF d ok r] r show ?thesis unfolding Let_def by auto
qed

end
