(* ===== verification/Admission.thy ===== *)
theory Admission
  imports Selection_Props
begin

text \<open>
  \<open>src/manager.rs\<close>, storm control: a slot on an account is granted at a rate that grows
  while its ramp runs, and every slot and open request is given back when its guard drops.
\<close>

definition admit_account :: "account \<Rightarrow> account" where
  "admit_account a = a\<lparr>a_in_flight := u32_inc (a_in_flight a)\<rparr>"

definition admit_end_ramp :: "account \<Rightarrow> account" where
  "admit_end_ramp a = admit_account (a\<lparr>a_ramp_started_at := None\<rparr>)"

definition ramp_cap :: "storm_ramp \<Rightarrow> nat \<Rightarrow> nat" where
  "ramp_cap s elapsed =
     (max (sr_start_conc s) 1 + (elapsed div max (sr_step_ms s) 1) * sr_step_conc s) mod 2 ^ 64"

definition ramp_elapsed :: "int \<Rightarrow> int \<Rightarrow> nat" where
  "ramp_elapsed now started = nat (max (now - started) 0)"

text \<open>The result is whether the slot is granted, and how long to wait (ms) when it is not.\<close>

definition try_admit :: "string \<Rightarrow> int \<Rightarrow> fleet \<Rightarrow> (bool \<times> nat) \<times> fleet" where
  "try_admit i now f =
     (case fleet_account f i of
        None \<Rightarrow> ((True, 0), f)
      | Some a \<Rightarrow>
          if \<not> sr_enabled (fl_storm f) then ((True, 0), upd_account i admit_account f)
          else (case a_ramp_started_at a of
             None \<Rightarrow> ((True, 0), upd_account i admit_account f)
           | Some started \<Rightarrow>
               let elapsed = ramp_elapsed now started
               in if sr_window_ms (fl_storm f) \<le> elapsed
                  then ((True, 0), upd_account i admit_end_ramp f)
                  else if a_in_flight a < ramp_cap (fl_storm f) elapsed
                  then ((True, 0), upd_account i admit_account f)
                  else ((False, 50), f)))"

definition drop_slot :: "account \<Rightarrow> account" where
  "drop_slot a = a\<lparr>a_in_flight := a_in_flight a - 1\<rparr>"

definition release_slot :: "string \<Rightarrow> fleet \<Rightarrow> fleet" where
  "release_slot i = upd_account i drop_slot"

definition open_request :: "string \<Rightarrow> fleet \<Rightarrow> fleet" where
  "open_request i = upd_account i (\<lambda>a. a\<lparr>a_open := u32_inc (a_open a)\<rparr>)"

definition close_request :: "string \<Rightarrow> fleet \<Rightarrow> fleet" where
  "close_request i = upd_account i (\<lambda>a. a\<lparr>a_open := a_open a - 1\<rparr>)"

text \<open>The loop of \<open>admit\<close>: try, and sleep for the returned time. \<open>fuel\<close> bounds the tries; the
  result is the moment the slot was granted.\<close>

fun admit_loop :: "nat \<Rightarrow> string \<Rightarrow> int \<Rightarrow> fleet \<Rightarrow> (int \<times> fleet) option" where
  "admit_loop 0 i now f = None"
| "admit_loop (Suc n) i now f =
     (case try_admit i now f of
        ((True, _), g) \<Rightarrow> Some (now, g)
      | ((False, wait), g) \<Rightarrow> admit_loop n i (now + int wait) g)"

lemma fleet_account_upd:
  "(\<And>a. a_id (g a) = a_id a) \<Longrightarrow>
   fleet_account (upd_account i g f) j = (if i = j then map_option g (fleet_account f j) else fleet_account f j)"
  by (simp add: fleet_account_def upd_account_def find_upd_first)

lemma fleet_ids_upd: "(\<And>a. a_id (g a) = a_id a) \<Longrightarrow> fleet_ids (upd_account i g f) = fleet_ids f"
  by (simp add: fleet_ids_def upd_account_def upd_first_ids)

lemma upd_account_frame [simp]:
  "fl_current (upd_account i g f) = fl_current f" "fl_sessions (upd_account i g f) = fl_sessions f"
  "fl_storm (upd_account i g f) = fl_storm f" "fl_routes (upd_account i g f) = fl_routes f"
  "fl_threshold (upd_account i g f) = fl_threshold f" "fl_probe (upd_account i g f) = fl_probe f"
  "fl_pool (upd_account i g f) = fl_pool f" "fl_route_pins (upd_account i g f) = fl_route_pins f"
  "fl_expiry (upd_account i g f) = fl_expiry f" "fl_distribute (upd_account i g f) = fl_distribute f"
  "fl_client_usage (upd_account i g f) = fl_client_usage f"
  "fl_dimension_usage (upd_account i g f) = fl_dimension_usage f"
  "fl_default_upstream (upd_account i g f) = fl_default_upstream f"
  by (simp_all add: upd_account_def)

lemma admit_loop_open:
  assumes "fst (fst (try_admit i (now + 50 * int n) f))"
  shows "\<exists>k \<le> n. \<exists>g. admit_loop (Suc n) i now f = Some (now + 50 * int k, g)
     \<and> fst (fst (try_admit i (now + 50 * int k) f)) \<and> g = snd (try_admit i (now + 50 * int k) f)"
  using assms
proof (induction n arbitrary: now)
  case 0
  then show ?case by (cases "try_admit i now f") (auto split: bool.splits)
next
  case (Suc n)
  show ?case
  proof (cases "fst (fst (try_admit i now f))")
    case True
    then show ?thesis
      by (intro exI [of _ 0] exI [of _ "snd (try_admit i now f)"])
        (cases "try_admit i now f", auto split: bool.splits)
  next
    case False
    then have t: "try_admit i now f = ((False, 50), f)"
      by (auto simp: try_admit_def Let_def split: option.splits if_splits)
    have "fst (fst (try_admit i ((now + 50) + 50 * int n) f))" using Suc.prems by (simp add: algebra_simps)
    from Suc.IH [OF this] obtain k g where k: "k \<le> n"
      "admit_loop (Suc n) i (now + 50) f = Some (now + 50 + 50 * int k, g)"
      "fst (fst (try_admit i (now + 50 + 50 * int k) f))" "g = snd (try_admit i (now + 50 + 50 * int k) f)"
      by blast
    have "now + 50 + 50 * int k = now + 50 * int (Suc k)" by simp
    with k t show ?thesis by (intro exI [of _ "Suc k"] exI [of _ g]) (simp del: admit_loop.simps(2) add: admit_loop.simps(2) [of "Suc n"])
  qed
qed

text \<open>A slot is granted when storm control is off, no ramp runs, the ramp window is over, or
  fewer requests than the current cap are in flight; a grant raises the count of that account
  by one, and within a running ramp never past the cap; it touches no other account, and
  giving the slot back restores the count. A refusal changes nothing.\<close>

theorem try_admit_correct:
  assumes "fleet_account f i = Some a" and "a_in_flight a < 2 ^ 32 - 1"
    and "try_admit i now f = ((ok, wait), g)"
  shows "(let cap = (\<lambda>s. ramp_cap (fl_storm f) (ramp_elapsed now s));
              ramping = (\<lambda>s. sr_enabled (fl_storm f) \<and> a_ramp_started_at a = Some s
                             \<and> ramp_elapsed now s < sr_window_ms (fl_storm f))
          in (ok \<longleftrightarrow> (\<forall>s. ramping s \<longrightarrow> a_in_flight a < cap s))
             \<and> (\<not> ok \<longrightarrow> g = f \<and> wait = 50)
             \<and> (ok \<longrightarrow> (\<exists>b. fleet_account g i = Some b \<and> a_in_flight b = a_in_flight a + 1
                   \<and> (\<forall>s. ramping s \<longrightarrow> a_in_flight b \<le> cap s)
                   \<and> (\<exists>c. fleet_account (release_slot i g) i = Some c \<and> a_in_flight c = a_in_flight a))
                 \<and> (\<forall>j. j \<noteq> i \<longrightarrow> fleet_account g j = fleet_account f j)))"
proof -
  have inc: "u32_inc (a_in_flight a) = a_in_flight a + 1" using assms(2) by (simp add: u32_inc_def)
  have id1: "a_id (admit_account b) = a_id b" for b by (simp add: admit_account_def)
  have id2: "a_id (admit_end_ramp b) = a_id b" for b
    by (simp add: admit_end_ramp_def admit_account_def)
  have id3: "a_id (drop_slot b) = a_id b" for b by (simp add: drop_slot_def)
  note upd = fleet_account_upd [where g = admit_account, OF id1]
    fleet_account_upd [where g = admit_end_ramp, OF id2]
    fleet_account_upd [where g = drop_slot, OF id3]
  have fl: "a_in_flight (admit_account b) = u32_inc (a_in_flight b)" "a_in_flight (admit_end_ramp b) = u32_inc (a_in_flight b)"
    "a_in_flight (drop_slot b) = a_in_flight b - 1" for b
    by (simp_all add: admit_account_def admit_end_ramp_def drop_slot_def)
  show ?thesis
  proof (cases "sr_enabled (fl_storm f)")
    case False
    with assms show ?thesis by (auto simp: try_admit_def upd release_slot_def fl inc Let_def)
  next
    case on: True
    show ?thesis
    proof (cases "a_ramp_started_at a")
      case None
      with assms on show ?thesis
        by (auto simp: try_admit_def upd release_slot_def fl inc Let_def)
    next
      case (Some s)
      with assms on show ?thesis
        by (auto simp: try_admit_def upd release_slot_def fl inc Let_def split: if_splits)
    qed
  qed
qed

lemma try_admit_window:
  assumes "fleet_account f i = Some a" and "a_ramp_started_at a = Some s"
    and "s + int (sr_window_ms (fl_storm f)) \<le> now"
  shows "fst (fst (try_admit i now f))"
  using assms by (auto simp: try_admit_def Let_def ramp_elapsed_def)

text \<open>Waiting for a slot ends: whatever the caps, and even if no other request ever finishes, a
  request is let through by the time the ramp window is over, at most one try (50 ms) late;
  with the default window of 30 s that is after 601 tries.\<close>

theorem admit_terminates:
  assumes "\<And>a s. fleet_account f i = Some a \<Longrightarrow> a_ramp_started_at a = Some s \<Longrightarrow>
      s + int (sr_window_ms (fl_storm f)) \<le> now + 50 * int n"
  shows "\<exists>t g. admit_loop (Suc n) i now f = Some (t, g) \<and> now \<le> t \<and> t \<le> now + 50 * int n"
proof -
  have "fst (fst (try_admit i (now + 50 * int n) f))"
  proof (cases "fleet_account f i")
    case None
    then show ?thesis by (simp add: try_admit_def)
  next
    case (Some a)
    show ?thesis
    proof (cases "a_ramp_started_at a")
      case None
      with Some show ?thesis by (simp add: try_admit_def)
    next
      case (Some s)
      from try_admit_window [OF \<open>fleet_account f i = Some a\<close> Some assms] Some \<open>fleet_account f i = Some a\<close>
      show ?thesis by simp
    qed
  qed
  from admit_loop_open [OF this] show ?thesis by auto
qed

definition ramping_fleet :: fleet where
  "ramping_fleet = demo_fleet [(demo_account ''a'' 1)\<lparr>a_ramp_started_at := Some 0, a_in_flight := 1\<rparr>]"

lemma ramping_account:
  "fleet_account ramping_fleet ''a'' = Some ((demo_account ''a'' 1)\<lparr>a_ramp_started_at := Some 0, a_in_flight := 1\<rparr>)"
  by (simp add: ramping_fleet_def fleet_account_def)

theorem try_admit_correct_witness:
  "try_admit ''a'' 10 ramping_fleet = ((False, 50), ramping_fleet)
   \<and> \<not> (1::nat) < ramp_cap (fl_storm ramping_fleet) (ramp_elapsed 10 0)"
proof -
  have r: "try_admit ''a'' 10 ramping_fleet = ((False, 50), ramping_fleet)"
    by (simp add: try_admit_def ramping_account Let_def ramp_cap_def ramp_elapsed_def)
      (simp add: ramping_fleet_def storm_default_def)
  have "a_in_flight ((demo_account ''a'' 1)\<lparr>a_ramp_started_at := Some 0, a_in_flight := 1\<rparr>) < 2 ^ 32 - 1" by simp
  from try_admit_correct [OF ramping_account this r] r show ?thesis by (auto simp: Let_def)
qed

theorem admit_terminates_witness:
  "\<exists>t g. admit_loop (Suc 600) ''a'' 0 ramping_fleet = Some (t, g) \<and> 0 \<le> t \<and> t \<le> 0 + 50 * int 600"
  by (rule admit_terminates) (auto simp: ramping_account ramping_fleet_def storm_default_def fleet_account_def)

end
