(* ===== verification/Manager_Ops.thy ===== *)
theory Manager_Ops
  imports Admission
begin

text \<open>
  \<open>src/manager.rs\<close>, what the proxy and the prober report to a fleet: quota readings, holds,
  failures, token usage, sessions, pins and probe runs. Every operation is one critical
  section of the program: it takes the fleet, the clock and its arguments and returns the
  fleet. Where the program answers or writes a log line, the answer comes first in a pair.
\<close>

subsection \<open>Quota readings\<close>

definition read_quota_headers :: "(string \<times> string) list \<Rightarrow> int \<Rightarrow> account \<Rightarrow> account" where
  "read_quota_headers h now a =
     (case a_provider a of
        Anthropic \<Rightarrow> a_quota_update (apply_headers h now) a
      | CodexP \<Rightarrow>
          (let b = a_quota_update (apply_codex_headers h now) a
           in (case map_of h ''x-codex-plan-type'' of
                 Some p \<Rightarrow> a_plan_type_update (\<lambda>_. Some (trim p)) b | None \<Rightarrow> b)))"

definition count_answered :: "ext \<Rightarrow> int \<Rightarrow> account \<Rightarrow> account" where
  "count_answered E now =
     a_usage_update (\<lambda>u. u\<lparr>us_total_requests := u64_inc (us_total_requests u),
                            us_last_used := Some (iso_of E now)\<rparr>)"

definition learned_weekly :: "account \<Rightarrow> bool" where
  "learned_weekly a \<longleftrightarrow> a_probing a \<and> reset_at (unified7d (a_quota a)) \<noteq> None"

definition learn_weekly :: "account \<Rightarrow> account" where
  "learn_weekly a = (if learned_weekly a then a\<lparr>a_probing := False, a_requalify := True\<rparr> else a)"

definition observe_account :: "ext \<Rightarrow> threshold \<Rightarrow> (string \<times> string) list \<Rightarrow> int \<Rightarrow> account \<Rightarrow> account" where
  "observe_account E th h now a =
     a_quota_update (\<lambda>q. fst (clear_expired E now (for_bucket th) q))
       (learn_weekly (count_answered E now (read_quota_headers h now a)))"

definition crossed_line :: "account \<Rightarrow> string \<Rightarrow> string" where
  "crossed_line a why =
     CHR 0x22 # a_name a @ CHR 0x22 # '' reached the switch threshold ('' @ why @ ''); new requests go elsewhere''"

definition learned_line :: "account \<Rightarrow> string" where
  "learned_line a = ''Learned weekly quota for '' @ CHR 0x22 # a_name a @ CHR 0x22 # '', re-evaluating selection''"

definition update_quota ::
  "ext \<Rightarrow> string \<Rightarrow> (string \<times> string) list \<Rightarrow> int \<Rightarrow> fleet \<Rightarrow> string list \<times> fleet" where
  "update_quota E i h now f =
     (case fleet_account f i of
        None \<Rightarrow> ([], f)
      | Some a \<Rightarrow>
          let g = upd_account i (observe_account E (fl_threshold f) h now) f;
              before = near_quota f a None \<noteq> None;
              crossed = (case Option.bind (fleet_account g i) (\<lambda>b. near_quota g b None) of
                           Some why \<Rightarrow> if before then [] else [crossed_line a why] | None \<Rightarrow> []);
              learned = (if learned_weekly (count_answered E now (read_quota_headers h now a))
                         then [learned_line a] else [])
          in (crossed @ learned, g))"

definition usage_account :: "usage_payload \<Rightarrow> int \<Rightarrow> account \<Rightarrow> account" where
  "usage_account u now a = a\<lparr>a_quota := apply_usage u now (a_quota a), a_last_probe_at := Some now\<rparr>"

definition held_by_quota :: "int \<Rightarrow> account \<Rightarrow> bool" where
  "held_by_quota now a \<longleftrightarrow>
     a_quota_hold a \<and> (case a_rate_limited_until a of Some t \<Rightarrow> now < t | None \<Rightarrow> False)"

definition lift_hold :: "account \<Rightarrow> account" where
  "lift_hold a =
     a\<lparr>a_rate_limited_until := None, a_quota_hold := False,
       a_status := (if a_status a = Throttled then Active else a_status a)\<rparr>"

text \<open>The answer is the name of the account whose hold was lifted.\<close>

definition fleet_apply_usage :: "string \<Rightarrow> usage_payload \<Rightarrow> int \<Rightarrow> fleet \<Rightarrow> string option \<times> fleet" where
  "fleet_apply_usage i u now f =
     (let g = upd_account i (usage_account u now) f
      in case fleet_account g i of
           None \<Rightarrow> (None, g)
         | Some a \<Rightarrow>
             if \<not> held_by_quota now a \<or> near_quota g a None \<noteq> None then (None, g)
             else (Some (a_name a), upd_account i lift_hold g))"

definition profile_account :: "profile \<Rightarrow> account \<Rightarrow> account" where
  "profile_account p a =
     a\<lparr>a_account_uuid := opt_or (a_account_uuid a) (pr_account_uuid p),
       a_org_uuid := opt_or (a_org_uuid a) (pr_org_uuid p),
       a_org_name := opt_or (a_org_name a) (pr_org_name p),
       a_email := opt_or (a_email a) (pr_email p),
       a_rate_limit_tier := opt_or (pr_rate_limit_tier p) (a_rate_limit_tier a),
       a_seat_tier := opt_or (pr_seat_tier p) (a_seat_tier a)\<rparr>"

definition apply_profile :: "string \<Rightarrow> profile \<Rightarrow> fleet \<Rightarrow> fleet" where
  "apply_profile i p = upd_account i (profile_account p)"

subsection \<open>Holds and errors\<close>

text \<open>\<open>now + secs as i64 * 1000\<close> at 64 bits.\<close>

definition hold_until :: "int \<Rightarrow> nat \<Rightarrow> int" where
  "hold_until now secs = i64_wrap (now + i64_wrap (i64_wrap (int secs) * 1000))"

definition hold_account :: "int \<Rightarrow> nat \<Rightarrow> bool \<Rightarrow> account \<Rightarrow> account" where
  "hold_account now secs quot a =
     a\<lparr>a_status := Throttled, a_rate_limited_until := Some (hold_until now secs),
       a_quota_hold := quot, a_throttled_at := Some now\<rparr>"

definition hold :: "string \<Rightarrow> nat \<Rightarrow> bool \<Rightarrow> int \<Rightarrow> fleet \<Rightarrow> fleet" where
  "hold i secs quot now = upd_account i (hold_account now secs quot)"

definition mark_rate_limited :: "string \<Rightarrow> nat \<Rightarrow> int \<Rightarrow> fleet \<Rightarrow> fleet" where
  "mark_rate_limited i secs = hold i secs False"

definition mark_quota_exhausted :: "string \<Rightarrow> nat \<Rightarrow> int \<Rightarrow> fleet \<Rightarrow> fleet" where
  "mark_quota_exhausted i secs = hold i secs True"

definition recent_429 :: "int \<Rightarrow> account \<Rightarrow> bool" where
  "recent_429 now a \<longleftrightarrow>
     (case a_headerless_429_at a of Some t \<Rightarrow> now - t < FLEET_429_WINDOW_MS | None \<Rightarrow> False)"

definition note_headerless_429 :: "string \<Rightarrow> int \<Rightarrow> fleet \<Rightarrow> bool \<times> fleet" where
  "note_headerless_429 i now f =
     (let g = upd_account i (a_headerless_429_at_update (\<lambda>_. Some now)) f
      in (FLEET_429_ACCOUNTS \<le> length (filter (recent_429 now) (fl_accounts g)), g))"

definition clear_rate_limited :: "string \<Rightarrow> fleet \<Rightarrow> fleet" where
  "clear_rate_limited i = upd_account i lift_hold"

definition mark_entitlement_denied :: "string \<Rightarrow> int \<Rightarrow> fleet \<Rightarrow> fleet" where
  "mark_entitlement_denied i now =
     upd_account i (a_entitlement_denied_until_update (\<lambda>_. Some (now + ENTITLEMENT_COOLDOWN_MS)))"

definition is_entitlement_denied :: "fleet \<Rightarrow> string \<Rightarrow> int \<Rightarrow> bool" where
  "is_entitlement_denied f i now \<longleftrightarrow>
     (case Option.bind (fleet_account f i) a_entitlement_denied_until of Some u \<Rightarrow> now < u | None \<Rightarrow> False)"

definition count_failed :: "account \<Rightarrow> account" where
  "count_failed = a_usage_update (\<lambda>u. u\<lparr>us_failed_requests := u64_inc (us_failed_requests u)\<rparr>)"

definition mark_error :: "string \<Rightarrow> string \<Rightarrow> fleet \<Rightarrow> fleet" where
  "mark_error i msg =
     upd_account i (\<lambda>a. count_failed (a\<lparr>a_status := Errored, a_error_message := Some msg\<rparr>))"

definition record_failure :: "string \<Rightarrow> fleet \<Rightarrow> fleet" where
  "record_failure i = upd_account i count_failed"

definition clear_error :: "string \<Rightarrow> fleet \<Rightarrow> fleet" where
  "clear_error i =
     upd_account i (\<lambda>a. a\<lparr>a_status := Active, a_error_message := None, a_dead_refresh_token := None,
                          a_rate_limited_until := None, a_quota_hold := False\<rparr>)"

subsection \<open>Token usage\<close>

definition DIMENSION_MAX_VALUES :: nat where "DIMENSION_MAX_VALUES = 500"
definition DIMENSION_OVERFLOW_KEY :: string where "DIMENSION_OVERFLOW_KEY = ''(other)''"

definition usage_field :: "json \<Rightarrow> string \<Rightarrow> int" where
  "usage_field usage k = unwrap_or 0 (Option.bind (j_get k usage) as_i64)"

definition add_usage :: "json \<Rightarrow> usage \<Rightarrow> usage" where
  "add_usage usage u =
     u\<lparr>us_input := i64_wrap (us_input u + usage_field usage ''input_tokens''),
       us_output := i64_wrap (us_output u + usage_field usage ''output_tokens''),
       us_cache_read := i64_wrap (us_cache_read u + usage_field usage ''cache_read_input_tokens''),
       us_cache_creation := i64_wrap (us_cache_creation u + usage_field usage ''cache_creation_input_tokens'')\<rparr>"

definition bill :: "ext \<Rightarrow> int \<Rightarrow> json \<Rightarrow> usage \<Rightarrow> usage" where
  "bill E now usage u =
     add_usage usage (u\<lparr>us_total_requests := u64_inc (us_total_requests u), us_last_used := Some (iso_of E now)\<rparr>)"

definition bill_entry :: "ext \<Rightarrow> int \<Rightarrow> json \<Rightarrow> string \<Rightarrow> (string \<times> usage) list \<Rightarrow> (string \<times> usage) list" where
  "bill_entry E now usage k t = bt_insert k (bill E now usage (unwrap_or usage_default (map_of t k))) t"

definition dimension_key :: "(string \<times> usage) list \<Rightarrow> string \<Rightarrow> string" where
  "dimension_key t v =
     (if al_has t v \<or> length t < DIMENSION_MAX_VALUES then v else DIMENSION_OVERFLOW_KEY)"

definition bill_dimension ::
  "ext \<Rightarrow> int \<Rightarrow> json \<Rightarrow> (string \<times> string)
   \<Rightarrow> (string \<times> (string \<times> usage) list) list \<Rightarrow> (string \<times> (string \<times> usage) list) list" where
  "bill_dimension E now usage dv ds =
     (let t = unwrap_or [] (map_of ds (fst dv))
      in bt_insert (fst dv) (bill_entry E now usage (dimension_key t (snd dv)) t) ds)"

definition record_token_usage_dims ::
  "ext \<Rightarrow> string \<Rightarrow> string option \<Rightarrow> string option \<Rightarrow> (string \<times> string) list \<Rightarrow> string option
   \<Rightarrow> json \<Rightarrow> int \<Rightarrow> fleet \<Rightarrow> fleet" where
  "record_token_usage_dims E i session client dims model usage now f =
     (let f1 = fl_dimension_usage_update (fold (bill_dimension E now usage) dims) f;
          f2 = upd_account i (a_usage_update (add_usage usage)) f1;
          f3 = (case client of Some c \<Rightarrow> fl_client_usage_update (bill_entry E now usage c) f2 | None \<Rightarrow> f2)
      in (case session of
            Some s \<Rightarrow> fl_sessions_update (record_tokens s (weekly_bucket_for model) usage now) f3
          | None \<Rightarrow> f3))"

definition record_token_usage ::
  "ext \<Rightarrow> string \<Rightarrow> string option \<Rightarrow> string option \<Rightarrow> string option \<Rightarrow> json \<Rightarrow> int \<Rightarrow> fleet \<Rightarrow> fleet" where
  "record_token_usage E i session client = record_token_usage_dims E i session client []"

subsection \<open>Sessions, pins and the preferred account\<close>

definition record_session :: "string option \<Rightarrow> string \<Rightarrow> string option \<Rightarrow> int \<Rightarrow> fleet \<Rightarrow> fleet" where
  "record_session session i model now f =
     (case session of
        Some s \<Rightarrow> fl_sessions_update (touch s (Some i) (Some (weekly_bucket_for model)) now) f | None \<Rightarrow> f)"

definition begin_session_request :: "string option \<Rightarrow> string option \<Rightarrow> int \<Rightarrow> fleet \<Rightarrow> fleet" where
  "begin_session_request session client now f =
     (case session of Some s \<Rightarrow> fl_sessions_update (begin_request s client now) f | None \<Rightarrow> f)"

definition end_session_request :: "string option \<Rightarrow> int \<Rightarrow> fleet \<Rightarrow> fleet" where
  "end_session_request session now f =
     (case session of Some s \<Rightarrow> fl_sessions_update (end_request s now) f | None \<Rightarrow> f)"

definition switch_to :: "ext \<Rightarrow> string \<Rightarrow> int \<Rightarrow> fleet \<Rightarrow> (string \<times> string option) option \<times> fleet" where
  "switch_to E i now f =
     (case fleet_account f i of
        None \<Rightarrow> (None, f)
      | Some a \<Rightarrow> (Some (a_name a, unavailable_reason E f a None None now),
                   begin_ramp i now (fl_current_update (\<lambda>_. Some i) f)))"

definition set_route_pin :: "string \<Rightarrow> string option \<Rightarrow> fleet \<Rightarrow> fleet" where
  "set_route_pin route i =
     fl_route_pins_update (case i of Some j \<Rightarrow> AList.update route j | None \<Rightarrow> AList.delete route)"

definition account_ids :: "fleet \<Rightarrow> (string \<times> string) list" where
  "account_ids f = map (\<lambda>a. (a_id a, a_name a)) (fl_accounts f)"

definition oauth_anthropic :: "account \<Rightarrow> bool" where
  "oauth_anthropic a \<longleftrightarrow>
     a_kind a = Oauth \<and> a_provider a = Anthropic \<and> a_credential a \<noteq> None \<and> a_upstream a = None"

definition oauth_accounts :: "fleet \<Rightarrow> (string \<times> string) list" where
  "oauth_accounts f = map (\<lambda>a. (a_id a, a_name a)) (filter oauth_anthropic (fl_accounts f))"

definition warm_candidate :: "ext \<Rightarrow> int \<Rightarrow> fleet \<Rightarrow> account \<Rightarrow> bool" where
  "warm_candidate E now f a \<longleftrightarrow>
     oauth_anthropic a \<and> unavailable_reason E f a None None now = None
     \<and> (case reset_at (unified5h (a_quota a)) of Some r \<Rightarrow> r \<le> now | None \<Rightarrow> True)"

definition warm_candidates :: "ext \<Rightarrow> int \<Rightarrow> fleet \<Rightarrow> (string \<times> string) list" where
  "warm_candidates E now f = map (\<lambda>a. (a_id a, a_name a)) (filter (warm_candidate E now f) (fl_accounts f))"

definition credential_of :: "fleet \<Rightarrow> string \<Rightarrow> string option" where
  "credential_of f i = Option.bind (fleet_account f i) a_credential"

definition needs_login :: "fleet \<Rightarrow> string \<Rightarrow> string option" where
  "needs_login f i =
     Option.bind (fleet_account f i)
       (\<lambda>a. if a_status a = Errored \<and> a_dead_refresh_token a \<noteq> None \<and> a_dead_refresh_token a = a_refresh_token a
            then Some (unwrap_or ''needs re-login'' (a_error_message a)) else None)"

definition needs_profile :: "fleet \<Rightarrow> string \<Rightarrow> bool" where
  "needs_profile f i \<longleftrightarrow>
     (case fleet_account f i of
        Some a \<Rightarrow> a_rate_limit_tier a = None \<and> a_seat_tier a = None | None \<Rightarrow> False)"

definition unavailable_now :: "ext \<Rightarrow> string \<Rightarrow> string option \<Rightarrow> string option \<Rightarrow> int \<Rightarrow> fleet \<Rightarrow> string option" where
  "unavailable_now E i model advisor now f =
     Option.bind (fleet_account f i) (\<lambda>a. unavailable_reason E f a model advisor now)"

definition utilization_5h :: "fleet \<Rightarrow> string \<Rightarrow> f64 option" where
  "utilization_5h f i = Option.bind (fleet_account f i) (\<lambda>a. utilization (unified5h (a_quota a)))"

definition is_model_blocked :: "fleet \<Rightarrow> string \<Rightarrow> bool" where
  "is_model_blocked f model = any_glob_matches (fl_blocked_models f) model"

subsection \<open>Releases and probe runs\<close>

text \<open>The answer is whether the release is announced in the log.\<close>

definition set_update_available :: "string option \<Rightarrow> int \<Rightarrow> fleet \<Rightarrow> bool \<times> fleet" where
  "set_update_available tag now f =
     (fl_update_available f \<noteq> tag \<and> tag \<noteq> None,
      f\<lparr>fl_update_available := tag, fl_update_checked_at := Some now\<rparr>)"

definition take_probe_recheck :: "fleet \<Rightarrow> string list \<times> fleet" where
  "take_probe_recheck f = (pb_recheck (fl_probe f), fl_probe_update (pb_recheck_update (\<lambda>_. [])) f)"

definition probe_run_started :: "int \<Rightarrow> int option \<Rightarrow> fleet \<Rightarrow> fleet" where
  "probe_run_started now next =
     fl_probe_update (\<lambda>p. p\<lparr>pb_running := True, pb_last_run_started_at := Some now, pb_next_run_at := next\<rparr>)"

definition probe_run_finished :: "int \<Rightarrow> int option \<Rightarrow> fleet \<Rightarrow> fleet" where
  "probe_run_finished now next =
     fl_probe_update (\<lambda>p. p\<lparr>pb_running := False, pb_last_run_finished_at := Some now,
                            pb_next_run_at := opt_or next (pb_next_run_at p)\<rparr>)"

definition probe_account_status ::
  "string \<Rightarrow> string \<Rightarrow> int \<Rightarrow> int option \<Rightarrow> string option \<Rightarrow> fleet \<Rightarrow> fleet" where
  "probe_account_status i st started finished err =
     fl_probe_update (pb_accounts_update (AList.update i
       \<lparr>pb_status = st, pb_started_at = Some started, pb_finished_at = finished,
        pb_duration_ms = map_option (\<lambda>t. t - started) finished, pb_error = err\<rparr>))"

end
