(* ===== verification/Manager_Props.thy ===== *)
theory Manager_Props
  imports Manager_Ops
begin

text \<open>
  What the reports of \<open>Manager_Ops\<close> achieve: a hold keeps an account out of every
  selection until it is over, only a quota hold is lifted early and only by a reading below
  the thresholds, a crossed threshold is announced exactly once, and the usage tables stay
  bounded without losing a token.
\<close>

subsection \<open>Reading one account after an update\<close>

lemma account_fn_ids [simp]:
  "a_id (hold_account now secs q a) = a_id a" "a_id (lift_hold a) = a_id a"
  "a_id (usage_account u now a) = a_id a" "a_id (profile_account p a) = a_id a"
  "a_id (count_failed a) = a_id a" "a_id (count_answered E now a) = a_id a"
  "a_id (learn_weekly a) = a_id a" "a_id (read_quota_headers h now a) = a_id a"
  "a_id (observe_account E th h now a) = a_id a" "a_id (probing_account a) = a_id a"
  "a_id (admit_account a) = a_id a" "a_id (admit_end_ramp a) = a_id a" "a_id (drop_slot a) = a_id a"
  "a_id (baseline_account k a) = a_id a"
  by (simp_all add: hold_account_def lift_hold_def usage_account_def profile_account_def count_failed_def
      count_answered_def learn_weekly_def read_quota_headers_def observe_account_def probing_account_def
      admit_account_def admit_end_ramp_def drop_slot_def baseline_account_def Let_def
      split: provider.splits option.splits)

lemma fleet_account_clear:
  "fleet_account (clear_expired_all E now f) i
     = map_option (clear_expired_account E (fl_threshold f) now) (fleet_account f i)"
proof -
  have "List.find (\<lambda>a. a_id a = i) (map (clear_expired_account E th now) as)
      = map_option (clear_expired_account E th now) (List.find (\<lambda>a. a_id a = i) as)" for th as
    by (induction as) (auto simp: id_clear_expired)
  then show ?thesis by (simp add: fleet_account_def clear_expired_all_def)
qed

lemma near_reading_quota:
  assumes "a_quota a = a_quota b" and "a_open a = a_open b"
    and "fl_threshold f = fl_threshold g" and "fl_routes f = fl_routes g"
  shows "near_reading f a m = near_reading g b m"
proof -
  have "weekly_key_for f m = weekly_key_for g m" "threshold_for f = threshold_for g"
    using assms(3,4) by (auto simp: weekly_key_for_def route_for_def threshold_for_def fun_eq_iff)
  then show ?thesis using assms(1,2) by (simp add: near_reading_def)
qed

lemma near_reading_upd [simp]: "near_reading (upd_account i u f) a m = near_reading f a m"
  by (rule near_reading_quota) simp_all

lemma near_quota_upd [simp]: "near_quota (upd_account i u f) a m = near_quota f a m"
  by (simp add: near_quota_def)

subsection \<open>Holds\<close>

lemma hold_until_nowrap:
  "i64_range (int secs * 1000) \<Longrightarrow> i64_range (now + int secs * 1000) \<Longrightarrow> hold_until now secs = now + int secs * 1000"
proof -
  assume a: "i64_range (int secs * 1000)" "i64_range (now + int secs * 1000)"
  then have "i64_range (int secs)" by (auto simp: i64_range_def i64_min_def i64_max_def)
  with a show ?thesis by (simp add: hold_until_def)
qed

lemma clear_held:
  assumes "a_rate_limited_until a = Some u"
  shows "a_rate_limited_until (clear_expired_account E th t a) = (if u \<le> t then None else Some u)"
    and "u \<le> t \<Longrightarrow> \<not> a_quota_hold (clear_expired_account E th t a)"
    and "u \<le> t \<Longrightarrow> a_status a = Throttled \<Longrightarrow> a_status (clear_expired_account E th t a) = Active"
  using assms by (simp_all add: clear_expired_account_def Let_def)

lemma held_not_selected:
  assumes "distinct (fleet_ids h)" and "fleet_account h i = Some b" and "a_rate_limited_until b = Some u" and "t < u"
  shows "case fst (select_account E req t h) of SelAccount s \<Rightarrow> sel_id s \<noteq> i | _ \<Rightarrow> True"
proof (cases "fst (select_account E req t h)")
  case (SelAccount s)
  then have r: "select_account E req t h = (SelAccount s, snd (select_account E req t h))" by (metis prod.collapse)
  obtain c where c: "fleet_account (clear_expired_all E t h) (sel_id s) = Some c"
    "usable E (clear_expired_all E t h) c (sq_model req) (sq_advisor req) (sq_provider req) t"
    using selected_account [OF assms(1) r] by (elim exE conjE)
  have "sel_id s \<noteq> i"
  proof
    assume "sel_id s = i"
    then have "c = clear_expired_account E (fl_threshold h) t b" using c(1) assms(2) by (simp add: fleet_account_clear)
    then have "a_rate_limited_until c = Some u" using clear_held(1) [OF assms(3)] assms(4) by simp
    with c(2) assms(4) show False by (simp add: usable_def)
  qed
  with SelAccount show ?thesis by simp
qed simp_all

text \<open>C20: A rate limit or an exhausted quota takes an account out of service for exactly the
  announced time. The account is throttled until then, and in whatever state the fleet gets into meanwhile,
  as long as the account still carries that time, no selection before it hands the account out, pinned or not,
  probe or not; and the first selection from that moment on finds the hold gone and the account, if it is
  still throttled, active again. What may change the time earlier is a further hold, an answer other than 429,
  a usage reading under the threshold after a quota hold, and the operator. Ids are unique, and the
  announced time does not leave the range of 64 bits.\<close>

theorem hold_is_exact:
  assumes "fleet_account f i = Some a"
    and "i64_range (int secs * 1000)" and "i64_range (now + int secs * 1000)"
  shows "(\<exists>b. fleet_account (hold i secs quot now f) i = Some b \<and> a_status b = Throttled
        \<and> a_rate_limited_until b = Some (now + int secs * 1000))
    \<and> (\<forall>h b. distinct (fleet_ids h) \<and> fleet_account h i = Some b
          \<and> a_rate_limited_until b = Some (now + int secs * 1000) \<longrightarrow>
        (\<forall>t req. t < now + int secs * 1000 \<longrightarrow>
            (case fst (select_account E req t h) of SelAccount s \<Rightarrow> sel_id s \<noteq> i | _ \<Rightarrow> True))
      \<and> (\<forall>t. now + int secs * 1000 \<le> t \<longrightarrow>
            (\<exists>c. fleet_account (clear_expired_all E t h) i = Some c
               \<and> a_rate_limited_until c = None \<and> \<not> a_quota_hold c
               \<and> (a_status b = Throttled \<longrightarrow> a_status c = Active))))"
proof (rule conjI)
  show "\<exists>b. fleet_account (hold i secs quot now f) i = Some b \<and> a_status b = Throttled
      \<and> a_rate_limited_until b = Some (now + int secs * 1000)"
    using assms(1) hold_until_nowrap [OF assms(2,3)]
    by (simp add: hold_def fleet_account_upd) (simp add: hold_account_def)
  show "\<forall>h b. distinct (fleet_ids h) \<and> fleet_account h i = Some b
        \<and> a_rate_limited_until b = Some (now + int secs * 1000) \<longrightarrow>
      (\<forall>t req. t < now + int secs * 1000 \<longrightarrow>
          (case fst (select_account E req t h) of SelAccount s \<Rightarrow> sel_id s \<noteq> i | _ \<Rightarrow> True))
    \<and> (\<forall>t. now + int secs * 1000 \<le> t \<longrightarrow>
          (\<exists>c. fleet_account (clear_expired_all E t h) i = Some c
             \<and> a_rate_limited_until c = None \<and> \<not> a_quota_hold c
             \<and> (a_status b = Throttled \<longrightarrow> a_status c = Active)))"
    using held_not_selected clear_held by (auto simp: fleet_account_clear)
qed

theorem hold_is_exact_witness:
  "(case fst (select_account ext0 demo_request 5 (hold ''a'' 60 True 0 (demo_fleet [demo_account ''a'' 1, demo_account ''b'' 2]))) of
      SelAccount s \<Rightarrow> sel_id s \<noteq> ''a'' | _ \<Rightarrow> True)
   \<and> (\<exists>c. fleet_account (clear_expired_all ext0 60000
        (hold ''a'' 60 True 0 (demo_fleet [demo_account ''a'' 1, demo_account ''b'' 2]))) ''a'' = Some c
          \<and> a_status c = Active)"
proof -
  let ?f = "demo_fleet [demo_account ''a'' 1, demo_account ''b'' 2]"
  have d: "distinct (fleet_ids (hold ''a'' 60 True 0 ?f))" by (simp add: hold_def fleet_ids_upd) (simp add: fleet_ids_def)
  have a: "fleet_account ?f ''a'' = Some (demo_account ''a'' 1)" by (simp add: fleet_account_def)
  have r: "i64_range (int 60 * 1000)" "i64_range (0 + int 60 * 1000)"
    by (simp_all add: i64_range_def i64_min_def i64_max_def)
  note h = hold_is_exact [OF a r, of True ext0]
  obtain b where b: "fleet_account (hold ''a'' 60 True 0 ?f) ''a'' = Some b" "a_status b = Throttled"
    "a_rate_limited_until b = Some (0 + int 60 * 1000)" using conjunct1 [OF h] by blast
  note later = conjunct2 [OF h, rule_format, OF conjI [OF d conjI [OF b(1,3)]]]
  from conjunct1 [OF later, rule_format, of 5 demo_request] conjunct2 [OF later, rule_format, of 60000] b(2)
  show ?thesis by auto
qed

lemma usage_account_hold [simp]:
  "a_quota_hold (usage_account u now a) = a_quota_hold a"
  "a_rate_limited_until (usage_account u now a) = a_rate_limited_until a"
  "a_status (usage_account u now a) = a_status a" "a_name (usage_account u now a) = a_name a"
  "held_by_quota t (usage_account u now a) = held_by_quota t a"
  by (simp_all add: usage_account_def held_by_quota_def)

lemma lift_hold_simps [simp]:
  "a_quota_hold (lift_hold a) = False" "a_rate_limited_until (lift_hold a) = None"
  "a_status (lift_hold a) = (if a_status a = Throttled then Active else a_status a)"
  "a_quota (lift_hold a) = a_quota a"
  by (simp_all add: lift_hold_def)

text \<open>A probe lifts a hold early in exactly one case: the hold was made for an exhausted quota,
  it is still running, and the new reading is below every threshold. A plain rate limit is
  never lifted by a probe, no other account changes, and the reading itself is always kept.\<close>

theorem probe_lifts_only_quota_holds:
  assumes "fleet_account f i = Some a" and "fleet_apply_usage i u now f = (lifted, g)"
  shows "let a1 = usage_account u now a;
             lift = (a_quota_hold a \<and> (\<exists>t. a_rate_limited_until a = Some t \<and> now < t)
                     \<and> near_quota f a1 None = None)
         in (lifted = (if lift then Some (a_name a) else None))
          \<and> (\<exists>b. fleet_account g i = Some b \<and> a_quota b = apply_usage u now (a_quota a)
               \<and> (if lift then a_rate_limited_until b = None \<and> a_status b \<noteq> Throttled \<and> \<not> a_quota_hold b
                  else a_rate_limited_until b = a_rate_limited_until a \<and> a_status b = a_status a
                     \<and> a_quota_hold b = a_quota_hold a))
          \<and> (\<forall>j. j \<noteq> i \<longrightarrow> fleet_account g j = fleet_account f j)"
proof -
  have h: "held_by_quota now a \<longleftrightarrow> a_quota_hold a \<and> (\<exists>t. a_rate_limited_until a = Some t \<and> now < t)"
    by (auto simp: held_by_quota_def split: option.splits)
  have q: "a_quota (usage_account u now a) = apply_usage u now (a_quota a)" by (simp add: usage_account_def)
  show ?thesis
    using assms
    by (auto simp: fleet_apply_usage_def Let_def fleet_account_upd h q split: if_splits)
qed

definition reset_report :: usage_payload where
  "reset_report = \<lparr>five_hour = Some \<lparr>utilization = Some (Fin 0), reset_at = None, seen_at = None\<rparr>,
     seven_day = None, seven_day_sonnet = None, seven_day_fable = None, up_scoped_weekly = [],
     scoped_listed = False, up_spend = None\<rparr>"

theorem probe_lifts_only_quota_holds_witness:
  "a_rate_limited_until (the (fleet_account (snd (fleet_apply_usage ''a'' reset_report 5
      (hold ''a'' 60 False 0 (demo_fleet [demo_account ''a'' 1])))) ''a'')) = Some 60000"
proof -
  let ?f = "hold ''a'' 60 False 0 (demo_fleet [demo_account ''a'' 1])"
  obtain l g where r: "fleet_apply_usage ''a'' reset_report 5 ?f = (l, g)" by fastforce
  have r60: "hold_until 0 60 = 60000"
    by (subst hold_until_nowrap) (simp_all add: i64_range_def i64_min_def i64_max_def)
  have a: "fleet_account ?f ''a'' = Some (hold_account 0 60 False (demo_account ''a'' 1))"
    by (simp add: hold_def fleet_account_upd) (simp add: fleet_account_def)
  have s: "a_rate_limited_until (hold_account 0 60 False (demo_account ''a'' 1)) = Some 60000"
    "\<not> a_quota_hold (hold_account 0 60 False (demo_account ''a'' 1))"
    by (simp_all add: hold_account_def r60)
  from probe_lifts_only_quota_holds [OF a r] r s show ?thesis by (auto simp: Let_def)
qed

subsection \<open>Thresholds\<close>

lemma near_reading_blocks:
  "near_reading f a None \<noteq> None \<Longrightarrow> unavailable E f a None advisor prov t \<noteq> None"
  by (simp add: unavailable_None)

lemma observe_account_frame [simp]:
  "a_status (observe_account E th h now a) = a_status a"
  "a_credential (observe_account E th h now a) = a_credential a"
  "a_refresh_token (observe_account E th h now a) = a_refresh_token a"
  "a_rate_limited_until (observe_account E th h now a) = a_rate_limited_until a"
  "a_name (observe_account E th h now a) = a_name a"
  "us_total_requests (a_usage (observe_account E th h now a)) = u64_inc (us_total_requests (a_usage a))"
  by (simp_all add: observe_account_def learn_weekly_def count_answered_def read_quota_headers_def Let_def
      split: provider.splits option.splits)

text \<open>Reading the quota headers of a reply: every reply counts as one request of its own
  account and of no other, it changes no credential, status or hold, and the line that
  announces a crossed threshold is written exactly when the account was below its thresholds
  before and is not any more; once written, the account takes no further request for a
  default model until a later reading.\<close>

theorem update_quota_announces_crossing:
  assumes "fleet_account f i = Some a" and "update_quota E i h now f = (lines, g)"
  shows "\<exists>b. fleet_account g i = Some b
     \<and> us_total_requests (a_usage b) = u64_inc (us_total_requests (a_usage a))
     \<and> a_status b = a_status a \<and> a_credential b = a_credential a
     \<and> a_rate_limited_until b = a_rate_limited_until a
     \<and> ((\<exists>why. crossed_line a why \<in> set lines) \<longleftrightarrow>
          near_quota f a None = None \<and> near_quota g b None \<noteq> None)
     \<and> ((\<exists>why. crossed_line a why \<in> set lines) \<longrightarrow>
          (\<forall>t. unavailable_reason E g b None None t \<noteq> None))
     \<and> (\<forall>j. j \<noteq> i \<longrightarrow> fleet_account g j = fleet_account f j)"
proof -
  let ?b = "observe_account E (fl_threshold f) h now a"
  have g: "g = upd_account i (observe_account E (fl_threshold f) h now) f"
    using assms by (auto simp: update_quota_def Let_def)
  have acc: "fleet_account g j = (if i = j then map_option (observe_account E (fl_threshold f) h now) (fleet_account f j)
      else fleet_account f j)" for j
    by (simp add: g fleet_account_upd)
  have other: "crossed_line a why \<noteq> learned_line b" for why b
    by (simp add: crossed_line_def learned_line_def)
  have lines: "(\<exists>why. crossed_line a why \<in> set lines) \<longleftrightarrow> near_quota f a None = None \<and> near_quota g ?b None \<noteq> None"
    using assms acc [of i] g other by (auto simp: update_quota_def Let_def split: option.splits if_splits)
  have blocked: "unavailable_reason E g ?b None None t \<noteq> None" if "near_quota g ?b None \<noteq> None" for t
    using that near_reading_blocks [of g ?b E None None t]
    by (simp add: unavailable_reason_def unavailable_reason_for_def near_quota_def)
  from assms(1) acc lines blocked show ?thesis by (intro exI [of _ ?b]) auto
qed

theorem update_quota_announces_crossing_witness:
  "us_total_requests (a_usage (the (fleet_account
      (snd (update_quota ext0 ''a'' [] 5 (demo_fleet [demo_account ''a'' 1]))) ''a''))) = 1"
proof -
  have a: "fleet_account (demo_fleet [demo_account ''a'' 1]) ''a'' = Some (demo_account ''a'' 1)"
    by (simp add: fleet_account_def)
  obtain ls g where r: "update_quota ext0 ''a'' [] 5 (demo_fleet [demo_account ''a'' 1]) = (ls, g)" by fastforce
  have z: "us_total_requests (a_usage (demo_account ''a'' 1)) = 0"
    by (simp add: demo_account_def account_blank_def usage_default_def)
  from update_quota_announces_crossing [OF a r] r z show ?thesis by (auto simp: u64_inc_def)
qed

subsection \<open>Usage by dimension\<close>

definition table_ok :: "(string \<times> usage) list \<Rightarrow> bool" where
  "table_ok t \<longleftrightarrow> bt_inv t \<and> (length t \<le> DIMENSION_MAX_VALUES
      \<or> length t \<le> Suc DIMENSION_MAX_VALUES \<and> al_has t DIMENSION_OVERFLOW_KEY)"

definition input_sum :: "(string \<times> usage) list \<Rightarrow> int" where
  "input_sum t = sum_list (map (\<lambda>(_, u). us_input u) t)"

lemma bt_inv_Cons: "bt_inv (kv # m) \<longleftrightarrow> (\<forall>k' \<in> fst ` set m. fst kv < k') \<and> bt_inv m"
  by (auto simp: bt_inv_def)

lemma bt_insert_size:
  "bt_inv m \<Longrightarrow> length (bt_insert k v m) = (if al_has m k then length m else Suc (length m))"
proof (induction k v m rule: bt_insert.induct)
  case (2 k v k' v' m)
  have "map_of m k = None" if "k < k'"
    using 2(2) that by (fastforce simp: bt_inv_Cons map_of_eq_None_iff)
  with 2 show ?case by (auto simp: bt_inv_Cons)
qed simp

lemma bt_insert_sum:
  "bt_inv m \<Longrightarrow> input_sum (bt_insert k v m)
     = input_sum m - (case map_of m k of Some u \<Rightarrow> us_input u | None \<Rightarrow> 0) + us_input v"
proof (induction k v m rule: bt_insert.induct)
  case (2 k v k' v' m)
  have "map_of m k = None" if "k < k'"
    using 2(2) that by (fastforce simp: bt_inv_Cons map_of_eq_None_iff)
  with 2 show ?case by (auto simp: bt_inv_Cons input_sum_def)
qed (simp add: input_sum_def)

lemma table_ok_bill:
  assumes "table_ok t"
  shows "table_ok (bill_entry E now usage (dimension_key t v) t)"
proof -
  have i: "bt_inv t" using assms by (simp add: table_ok_def)
  show ?thesis
    using assms bt_inv_insert [OF i] bt_insert_size [OF i]
    by (auto simp: table_ok_def bill_entry_def dimension_key_def)
qed

text \<open>Equality of counters: what two 64-bit counters show.\<close>

definition wrap64 :: "int \<Rightarrow> int" where "wrap64 n = n mod 2 ^ 64"

lemma wrap64_i64 [simp]: "wrap64 (i64_wrap n) = wrap64 n"
  unfolding i64_wrap_def wrap64_def by (metis add_diff_cancel_right' mod_diff_left_eq)

lemma wrap64_add: "wrap64 a = wrap64 b \<Longrightarrow> wrap64 (c + a) = wrap64 (c + b)"
  unfolding wrap64_def by (rule mod_add_cong [OF refl])

lemma bill_entry_sum:
  assumes "bt_inv t"
  shows "wrap64 (input_sum (bill_entry E now usage k t))
    = wrap64 (usage_field usage ''input_tokens'' + input_sum t)"
proof -
  let ?u = "unwrap_or usage_default (map_of t k)" and ?g = "usage_field usage ''input_tokens''"
  have "us_input (bill E now usage ?u) = i64_wrap (us_input ?u + ?g)"
    by (simp add: bill_def add_usage_def)
  then have e: "input_sum (bill_entry E now usage k t) = (input_sum t - us_input ?u) + i64_wrap (us_input ?u + ?g)"
    using bt_insert_sum [OF assms, of k "bill E now usage ?u"]
    by (cases "map_of t k") (simp_all add: bill_entry_def usage_default_def)
  have "wrap64 ((input_sum t - us_input ?u) + i64_wrap (us_input ?u + ?g))
      = wrap64 ((input_sum t - us_input ?u) + (us_input ?u + ?g))"
    by (rule wrap64_add) simp
  also have "(input_sum t - us_input ?u) + (us_input ?u + ?g) = ?g + input_sum t" by simp
  finally show ?thesis unfolding e .
qed

text \<open>A report: when, how much, under which dimension and value.\<close>

type_synonym usage_report = "int \<times> json \<times> string \<times> string"

definition bill_report ::
  "ext \<Rightarrow> (string \<times> (string \<times> usage) list) list \<Rightarrow> usage_report \<Rightarrow> (string \<times> (string \<times> usage) list) list" where
  "bill_report E ds r = (case r of (now, usage, d, v) \<Rightarrow> bill_dimension E now usage (d, v) ds)"

lemma bill_report_apply [simp]: "bill_report E ds (now, usage, d, v) = bill_dimension E now usage (d, v) ds"
  by (simp add: bill_report_def)

definition dim_table :: "(string \<times> (string \<times> usage) list) list \<Rightarrow> string \<Rightarrow> (string \<times> usage) list" where
  "dim_table ds d = unwrap_or [] (map_of ds d)"

lemma dim_table_bill:
  "dim_table (bill_dimension E now usage (d, v) ds) d' =
     (if d' = d then bill_entry E now usage (dimension_key (dim_table ds d) v) (dim_table ds d) else dim_table ds d')"
  by (simp add: bill_dimension_def dim_table_def Let_def)

text \<open>However many values clients send for a dimension, its table keeps at most 500 of them and
  one overflow entry, and no token is lost by that: the input tokens of a table add up to the
  input tokens of all reports of that dimension, to the 64 bits of the counters.\<close>

theorem dimension_usage_bounded:
  shows "(let ds = foldl (bill_report E) [] reports in
     (\<forall>d. length (dim_table ds d) \<le> 501 \<and> distinct (al_keys (dim_table ds d))
        \<and> wrap64 (input_sum (dim_table ds d)) =
            wrap64 (sum_list (map (\<lambda>(_, usage, d', _). if d' = d then usage_field usage ''input_tokens'' else 0) reports))))"
proof -
  let ?tok = "\<lambda>d (_ :: int, usage, d', _ :: string). if d' = d then usage_field usage ''input_tokens'' else 0"
  let ?ds = "\<lambda>rs. foldl (bill_report E) [] rs"
  have "table_ok (dim_table (?ds rs) d)
      \<and> wrap64 (input_sum (dim_table (?ds rs) d)) = wrap64 (sum_list (map (?tok d) rs))" for rs d
  proof (induction rs rule: rev_induct)
    case Nil
    show ?case by (simp add: dim_table_def table_ok_def input_sum_def)
  next
    case (snoc r rs)
    obtain now usage d' v where r: "r = (now, usage, d', v)" by (cases r)
    let ?g = "usage_field usage ''input_tokens''"
    have i: "bt_inv (dim_table (?ds rs) d)" using snoc.IH by (simp add: table_ok_def)
    show ?case
    proof (cases "d = d'")
      case True
      have "wrap64 (input_sum (dim_table (?ds (rs @ [r])) d))
          = wrap64 (?g + input_sum (dim_table (?ds rs) d))"
        using bill_entry_sum [OF i] True by (simp add: r dim_table_bill)
      also have "\<dots> = wrap64 (?g + sum_list (map (?tok d) rs))"
        using snoc.IH by (blast intro: wrap64_add)
      also have "?g + sum_list (map (?tok d) rs) = sum_list (map (?tok d) (rs @ [r]))"
        using True by (simp add: r)
      finally have sums: "wrap64 (input_sum (dim_table (?ds (rs @ [r])) d)) = wrap64 (sum_list (map (?tok d) (rs @ [r])))" .
      have "table_ok (dim_table (?ds (rs @ [r])) d)"
        using snoc.IH table_ok_bill True by (simp add: r dim_table_bill)
      with sums show ?thesis by blast
    next
      case False
      with snoc.IH show ?thesis by (simp add: r dim_table_bill)
    qed
  qed
  then have all: "table_ok (dim_table (?ds reports) d)"
    "wrap64 (input_sum (dim_table (?ds reports) d)) = wrap64 (sum_list (map (?tok d) reports))" for d
    by blast+
  have "length (dim_table (?ds reports) d) \<le> 501" "distinct (al_keys (dim_table (?ds reports) d))" for d
    using all(1) [of d] by (auto simp: table_ok_def DIMENSION_MAX_VALUES_def intro: bt_inv_distinct)
  with all(2) show ?thesis unfolding Let_def by blast
qed

end
