(* ===== verification/Tokens.thy ===== *)
theory Tokens
  imports Manager_Props
begin

text \<open>
  \<open>src/manager.rs\<close>, \<open>ensure_token_fresh\<close> and its relatives. The code takes the fleet
  lock several times and lets go of it while it waits for a peer's refresh, for the token
  endpoint or for a file: \<open>env1\<close> and \<open>env2\<close> stand for whatever other requests do to
  the fleet in between, and each critical section reads the clock anew.
\<close>

datatype on_refresh_fail = MarkDead | Keep

definition kills :: "on_refresh_fail \<Rightarrow> int option \<Rightarrow> int \<Rightarrow> bool" where
  "kills on_fail expires_at now \<longleftrightarrow>
     on_fail = MarkDead \<or> (case expires_at of Some e \<Rightarrow> e \<le> now | None \<Rightarrow> False)"

definition rejected_message :: string where
  "rejected_message = ''refresh token rejected; run: corrall login''"

definition error_account :: "string \<Rightarrow> account \<Rightarrow> account" where
  "error_account msg a = a\<lparr>a_status := Errored, a_error_message := Some msg\<rparr>"

definition revive_account :: "account \<Rightarrow> account" where
  "revive_account a = (if a_status a = Errored then a\<lparr>a_status := Active, a_error_message := None\<rparr> else a)"

subsection \<open>The steps of a refresh\<close>

text \<open>First critical section: the refresh token to use, if a refresh is due.\<close>

definition refresh_due :: "bool \<Rightarrow> int \<Rightarrow> account \<Rightarrow> bool" where
  "refresh_due force now a \<longleftrightarrow>
     (if force
      then \<not> (case a_last_refresh_at a of Some l \<Rightarrow> now - l < FORCED_REFRESH_FLOOR_MS | None \<Rightarrow> False)
      else is_expiring_soon now (a_expires_at a) TOKEN_REFRESH_AHEAD_MS)"

definition refresh_prepare ::
  "string \<Rightarrow> bool \<Rightarrow> on_refresh_fail \<Rightarrow> int \<Rightarrow> fleet \<Rightarrow> string option \<times> fleet" where
  "refresh_prepare i force on_fail now f =
     (case fleet_account f i of
        None \<Rightarrow> (None, f)
      | Some a \<Rightarrow>
          if a_kind a \<noteq> Oauth then (None, f)
          else (case a_refresh_token a of
             None \<Rightarrow> (None, f)
           | Some rt \<Rightarrow>
               if a_dead_refresh_token a = Some rt
               then (None, if kills on_fail (a_expires_at a) now \<and> a_status a \<noteq> Errored
                           then upd_account i (error_account rejected_message) f else f)
               else if refresh_due force now a then (Some rt, f) else (None, f)))"

text \<open>Second critical section, with the refresh lock held: a peer may have refreshed already.\<close>

definition refresh_recheck :: "string \<Rightarrow> bool \<Rightarrow> string \<Rightarrow> int \<Rightarrow> fleet \<Rightarrow> bool \<times> string option" where
  "refresh_recheck i force rt now f =
     (case fleet_account f i of
        None \<Rightarrow> (False, None)
      | Some a \<Rightarrow>
          (if force
           then a_refresh_token a = Some rt
                \<and> (case a_last_refresh_at a of Some l \<Rightarrow> FORCED_REFRESH_FLOOR_MS \<le> now - l | None \<Rightarrow> True)
           else is_expiring_soon now (a_expires_at a) TOKEN_REFRESH_AHEAD_MS,
           a_refresh_token a))"

definition provider_of :: "string \<Rightarrow> fleet \<Rightarrow> provider" where
  "provider_of i f = (case fleet_account f i of Some a \<Rightarrow> a_provider a | None \<Rightarrow> Anthropic)"

text \<open>Third critical section: what the answer of the token endpoint does.\<close>

definition install_tokens :: "string \<Rightarrow> tokens \<Rightarrow> int \<Rightarrow> account \<Rightarrow> account" where
  "install_tokens rt t now a =
     revive_account (a\<lparr>a_credential := Some (tk_access t),
       a_refresh_token := Some (unwrap_or rt (tk_refresh t)), a_expires_at := Some (tk_expires_at t),
       a_refresh_expires_at := opt_or (tk_refresh_expires_at t) (a_refresh_expires_at a),
       a_last_refresh_at := Some now, a_dead_refresh_token := None\<rparr>)"

definition reject_account :: "on_refresh_fail \<Rightarrow> string \<Rightarrow> int \<Rightarrow> account \<Rightarrow> account" where
  "reject_account on_fail rt now a =
     (if kills on_fail (a_expires_at a) now
      then (error_account rejected_message a)\<lparr>a_dead_refresh_token := Some rt\<rparr> else a)"

definition refresh_settle ::
  "string \<Rightarrow> on_refresh_fail \<Rightarrow> string \<Rightarrow> refresh_error + tokens \<Rightarrow> int \<Rightarrow> fleet \<Rightarrow> fleet" where
  "refresh_settle i on_fail rt r now f =
     (case r of
        Inr t \<Rightarrow> upd_account i (install_tokens rt t now) f
      | Inl e \<Rightarrow> if is_auth_rejection e then upd_account i (reject_account on_fail rt now) f else f)"

text \<open>A refreshed pair is written back to the entry of the fleet's own pool, unless it is linked.\<close>

definition persist_entry :: "string \<Rightarrow> tokens \<Rightarrow> account_config \<Rightarrow> account_config" where
  "persist_entry rt t c =
     (if ac_import_from c = None
      then c\<lparr>ac_access_token := Some (tk_access t), ac_refresh_token := Some (unwrap_or rt (tk_refresh t)),
             ac_expires_at := Some (tk_expires_at t),
             ac_refresh_token_expires_at := opt_or (tk_refresh_expires_at t) (ac_refresh_token_expires_at c)\<rparr>
      else c)"

definition persist_tokens :: "string \<Rightarrow> string \<Rightarrow> string \<Rightarrow> tokens \<Rightarrow> config \<Rightarrow> config" where
  "persist_tokens pool i rt t cfg =
     cf_pools_update (map (\<lambda>(k, p). if k = pool
        then (k, pc_accounts_update (upd_first (\<lambda>c. ac_id c = Some i) (persist_entry rt t)) p) else (k, p))) cfg"

subsection \<open>Linked accounts\<close>

definition adopt_file :: "account \<Rightarrow> account \<Rightarrow> account" where
  "adopt_file fresh a =
     revive_account (a\<lparr>a_credential := a_credential fresh, a_refresh_token := a_refresh_token fresh,
       a_expires_at := a_expires_at fresh, a_refresh_expires_at := a_refresh_expires_at fresh,
       a_dead_refresh_token := None\<rparr>)"

definition owner_expired :: "provider \<Rightarrow> string \<Rightarrow> string" where
  "owner_expired p path =
     cli_name p @ '''s login in '' @ path @ '' has expired; run '' @ cli_name p @ '' there to refresh it''"

definition linked_config :: "string \<Rightarrow> account_config" where
  "linked_config path = account_config_default\<lparr>ac_import_from := Some path\<rparr>"

definition reread_settle :: "string \<Rightarrow> string \<Rightarrow> account \<Rightarrow> account \<Rightarrow> int \<Rightarrow> fleet \<Rightarrow> string option \<times> fleet" where
  "reread_settle i path held fresh now f =
     (case fleet_account f i of
        None \<Rightarrow> (None, f)
      | Some a \<Rightarrow>
          if a_credential fresh \<noteq> None
             \<and> (a_credential fresh \<noteq> a_credential held \<or> a_refresh_token fresh \<noteq> a_refresh_token held)
          then (let g = upd_account i (adopt_file fresh) f
                in (Option.bind (fleet_account g i) a_credential,
                    if a_status a = Errored
                    then fl_probe_update (pb_recheck_update (List.insert i)) g else g))
          else if (case a_expires_at fresh of Some e \<Rightarrow> e \<le> now | None \<Rightarrow> False)
          then (None, upd_account i (error_account (owner_expired (a_provider a) path)) f)
          else (a_credential a, f))"

definition reread_linked ::
  "importer \<Rightarrow> string \<Rightarrow> string \<Rightarrow> bool \<Rightarrow> int \<Rightarrow> int \<Rightarrow> (fleet \<Rightarrow> fleet) \<Rightarrow> fleet \<Rightarrow> string option \<times> fleet" where
  "reread_linked I i path force t0 t1 env f =
     (case fleet_account f i of
        None \<Rightarrow> (None, f)
      | Some held \<Rightarrow>
          if \<not> force \<and> a_status held \<noteq> Errored
             \<and> \<not> is_expiring_soon t0 (a_expires_at held) TOKEN_REFRESH_AHEAD_MS
          then (a_credential held, f)
          else reread_settle i path held (apply_credentials I (linked_config path) held) t1 (env f))"

definition linked_errored :: "fleet \<Rightarrow> (string \<times> string) list" where
  "linked_errored f =
     List.map_filter (\<lambda>a. if a_kind a = Oauth \<and> a_status a = Errored
        then map_option (\<lambda>p. (a_id a, p)) (a_import_from a) else None) (fl_accounts f)"

definition recheck_linked :: "importer \<Rightarrow> int \<Rightarrow> fleet \<Rightarrow> fleet" where
  "recheck_linked I now f =
     foldl (\<lambda>g (i, p). snd (reread_linked I i p False now now (\<lambda>h. h) g)) f (linked_errored f)"

subsection \<open>The whole operation\<close>

text \<open>Besides the token and the fleet, the result says which refresh token was sent to which
  provider, if any.\<close>

record refresh_run =
  rr_credential :: "string option"
  rr_fleet :: fleet
  rr_sent :: "(provider \<times> string) option"

definition linked_to :: "fleet \<Rightarrow> string \<Rightarrow> string option" where
  "linked_to f i = Option.bind (opt_filter (\<lambda>a. a_kind a = Oauth) (fleet_account f i)) a_import_from"

definition ensure_token_fresh ::
  "importer \<Rightarrow> (provider \<Rightarrow> string \<Rightarrow> refresh_error + tokens) \<Rightarrow> (fleet \<Rightarrow> fleet) \<Rightarrow> (fleet \<Rightarrow> fleet)
   \<Rightarrow> int \<Rightarrow> int \<Rightarrow> int \<Rightarrow> string \<Rightarrow> bool \<Rightarrow> on_refresh_fail \<Rightarrow> fleet \<Rightarrow> refresh_run" where
  "ensure_token_fresh I refresh env1 env2 t0 t1 t2 i force on_fail f =
     (case linked_to f i of
        Some path \<Rightarrow>
          (case reread_linked I i path force t0 t1 env1 f of
             (cred, g) \<Rightarrow> \<lparr>rr_credential = cred, rr_fleet = g, rr_sent = None\<rparr>)
      | None \<Rightarrow>
          (case refresh_prepare i force on_fail t0 f of
             (None, g) \<Rightarrow> \<lparr>rr_credential = credential_of g i, rr_fleet = g, rr_sent = None\<rparr>
           | (Some rt0, g) \<Rightarrow>
               let g1 = env1 g
               in (case refresh_recheck i force rt0 t1 g1 of
                     (False, _) \<Rightarrow> \<lparr>rr_credential = credential_of g1 i, rr_fleet = g1, rr_sent = None\<rparr>
                   | (True, None) \<Rightarrow> \<lparr>rr_credential = None, rr_fleet = g1, rr_sent = None\<rparr>
                   | (True, Some rt) \<Rightarrow>
                       let p = provider_of i g1;
                           h = refresh_settle i on_fail rt (refresh p rt) t2 (env2 g1)
                       in \<lparr>rr_credential = credential_of h i, rr_fleet = h, rr_sent = Some (p, rt)\<rparr>)))"

subsection \<open>Logins close to their hard expiry\<close>

text \<open>\<open>status::format_duration\<close>; \<open>ms / 1000\<close> is rounded half away from zero, exactly
  below \<open>2^53\<close> ms.\<close>

definition format_duration :: "int \<Rightarrow> string" where
  "format_duration ms =
     (if ms < 0 then ''-''
      else let secs = max ((ms + 500) div 1000) 1
      in if secs < 60 then show_int secs @ ''s''
         else let mins = (secs + 59) div 60
         in if mins < 60 then show_int mins @ ''m''
            else let hours = mins div 60; m = mins mod 60
            in if hours < 24
               then (if 0 < m then show_int hours @ ''h'' @ show_int m @ ''m'' else show_int hours @ ''h'')
               else let days = hours div 24; r = hours mod 24
               in if 0 < r then show_int days @ ''d'' @ show_int r @ ''h'' else show_int days @ ''d'')"

definition countdown :: "int option \<Rightarrow> string" where
  "countdown secs =
     (case secs of None \<Rightarrow> ''-'' | Some s \<Rightarrow> if s \<le> 0 then ''now'' else format_duration (i64_wrap (s * 1000)))"

definition login_expiry_line :: "string \<Rightarrow> string option \<Rightarrow> provider \<Rightarrow> string \<Rightarrow> int \<Rightarrow> int \<Rightarrow> string" where
  "login_expiry_line name linked p pool t now =
     ''Account '' @ [CHR 0x22] @ name @ [CHR 0x22] @ '': login expires in ''
     @ countdown (Some (trunc_div (t - now) 1000)) @ '' and cannot be refreshed past that; ''
     @ (case linked of
          Some path \<Rightarrow> ''log in again in '' @ cli_name p @ '' (it writes '' @ path @ '')''
        | None \<Rightarrow> ''run: corrall login --pool '' @ pool)"

definition expiry_to_warn :: "int \<Rightarrow> account \<Rightarrow> int option" where
  "expiry_to_warn now a =
     opt_filter (\<lambda>e. a_login_warned_for a \<noteq> Some e)
       (opt_filter (\<lambda>e. now < e \<and> e - now \<le> LOGIN_EXPIRY_WARN_MS) (a_refresh_expires_at a))"

definition warn_account :: "int \<Rightarrow> account \<Rightarrow> account" where
  "warn_account now a =
     (case expiry_to_warn now a of Some e \<Rightarrow> a\<lparr>a_login_warned_for := Some e\<rparr> | None \<Rightarrow> a)"

definition warn_login_expiry :: "int \<Rightarrow> fleet \<Rightarrow> string list \<times> fleet" where
  "warn_login_expiry now f =
     (List.map_filter (\<lambda>a. map_option
        (\<lambda>e. login_expiry_line (a_name a) (a_import_from a) (a_provider a) (fl_pool f) e now)
        (expiry_to_warn now a)) (fl_accounts f),
      f\<lparr>fl_accounts := map (warn_account now) (fl_accounts f)\<rparr>)"

text \<open>A login is warned about once: the next tick finds nothing to say about it.\<close>

lemma warn_once: "fst (warn_login_expiry t (snd (warn_login_expiry now f))) = [] \<or> t \<noteq> now"
proof -
  have "expiry_to_warn now (warn_account now a) = None" for a
    by (auto simp: warn_account_def expiry_to_warn_def opt_filter_def split: option.splits if_splits)
  then show ?thesis by (auto simp: warn_login_expiry_def List.map_filter_def filter_empty_conv)
qed

end
