(* ===== verification/Token_Props.thy ===== *)
theory Token_Props
  imports Tokens
begin

text \<open>
  What a refresh may do: a linked account is only ever re-read, a refresh token is sent only
  when a refresh is due, and a rejected one is not sent again.
\<close>

lemma token_fn_ids [simp]:
  "a_id (error_account m a) = a_id a" "a_id (revive_account a) = a_id a"
  "a_id (install_tokens rt t now a) = a_id a" "a_id (reject_account on_fail rt now a) = a_id a"
  "a_id (adopt_file fresh a) = a_id a"
  by (simp_all add: error_account_def revive_account_def install_tokens_def reject_account_def adopt_file_def)

lemma fleet_account_probe [simp]: "fleet_account (fl_probe_update u f) i = fleet_account f i"
  by (simp add: fleet_account_def)

lemma adopt_file_fields [simp]:
  "a_credential (adopt_file fresh a) = a_credential fresh"
  "a_refresh_token (adopt_file fresh a) = a_refresh_token fresh"
  "a_status (adopt_file fresh a) \<noteq> Errored"
  by (simp_all add: adopt_file_def revive_account_def)

lemma error_account_fields [simp]:
  "a_credential (error_account m a) = a_credential a" "a_refresh_token (error_account m a) = a_refresh_token a"
  "a_status (error_account m a) = Errored" "a_dead_refresh_token (error_account m a) = a_dead_refresh_token a"
  by (simp_all add: error_account_def)

lemma linked_to_account: "linked_to f i = Some path \<Longrightarrow> \<exists>a. fleet_account f i = Some a \<and> a_kind a = Oauth
    \<and> a_import_from a = Some path"
  by (cases "fleet_account f i") (auto simp: linked_to_def split: if_splits)

subsection \<open>Linked accounts\<close>

lemma reread_settle_account:
  assumes "fleet_account (snd (reread_settle i path held fresh now f)) i = Some b"
  shows "\<exists>a. fleet_account f i = Some a \<and>
     (a_refresh_token b = a_refresh_token a \<and> a_credential b = a_credential a
        \<and> a_dead_refresh_token b = a_dead_refresh_token a
      \<or> a_refresh_token b = a_refresh_token fresh \<and> a_credential b = a_credential fresh \<and> a_credential b \<noteq> None)"
  using assms
  by (auto simp: reread_settle_def Let_def fleet_account_upd split: option.splits if_splits)

text \<open>The proxy never refreshes a linked login: asking for its token, even by force after a 401,
  sends nothing to the provider, and what the account holds afterwards is what it (or a
  concurrent operation) held before or what the owner's file says, never anything else; no
  refresh token of it is ever marked dead.\<close>

theorem linked_never_refreshed:
  assumes "linked_to f i = Some path"
  shows "let r = ensure_token_fresh I refresh env1 env2 t0 t1 t2 i force on_fail f in
     rr_sent r = None
   \<and> (\<forall>b. fleet_account (rr_fleet r) i = Some b \<longrightarrow>
        (\<exists>h a. fleet_account f i = Some h \<and> (a = h \<or> fleet_account (env1 f) i = Some a) \<and>
           (a_refresh_token b = a_refresh_token a \<and> a_credential b = a_credential a
              \<and> a_dead_refresh_token b = a_dead_refresh_token a
            \<or> (let file = apply_credentials I (linked_config path) h
               in a_refresh_token b = a_refresh_token file \<and> a_credential b = a_credential file
                  \<and> a_credential b \<noteq> None))))"
proof -
  obtain h where h: "fleet_account f i = Some h" using linked_to_account [OF assms] by blast
  let ?fresh = "apply_credentials I (linked_config path) h"
  have run: "ensure_token_fresh I refresh env1 env2 t0 t1 t2 i force on_fail f =
      \<lparr>rr_credential = fst (reread_linked I i path force t0 t1 env1 f),
       rr_fleet = snd (reread_linked I i path force t0 t1 env1 f), rr_sent = None\<rparr>"
    by (simp add: ensure_token_fresh_def assms split: prod.splits)
  show ?thesis
  proof (cases "snd (reread_linked I i path force t0 t1 env1 f) = f")
    case True
    with h show ?thesis by (auto simp: run Let_def)
  next
    case False
    then have "reread_linked I i path force t0 t1 env1 f = reread_settle i path h ?fresh t1 (env1 f)"
      by (auto simp: reread_linked_def h split: if_splits)
    then show ?thesis using reread_settle_account [of i path h ?fresh t1 "env1 f"] h
      unfolding run Let_def by fastforce
  qed
qed

definition linked_account :: account where
  "linked_account = (demo_account ''a'' 1)\<lparr>a_import_from := Some ''/c'', a_refresh_token := Some ''r''\<rparr>"

definition no_files :: importer where
  "no_files = \<lparr>read_oauth = (\<lambda>_. None), read_codex = (\<lambda>_. None)\<rparr>"

theorem linked_never_refreshed_witness:
  "rr_sent (ensure_token_fresh no_files (\<lambda>_ _. Inl Transient) (\<lambda>f. f) (\<lambda>f. f) 0 0 0 ''a'' True MarkDead
      (demo_fleet [linked_account])) = None"
proof -
  have "linked_to (demo_fleet [linked_account]) ''a'' = Some ''/c''"
    by (simp add: linked_to_def linked_account_def fleet_account_def)
  from linked_never_refreshed [OF this] show ?thesis unfolding Let_def by blast
qed

subsection \<open>When a refresh token is sent\<close>

lemma prepare_sends:
  assumes "refresh_prepare i force on_fail t f = (Some rt, g)"
  shows "g = f \<and> (\<exists>a. fleet_account f i = Some a \<and> a_kind a = Oauth \<and> a_refresh_token a = Some rt
     \<and> a_dead_refresh_token a \<noteq> Some rt \<and> refresh_due force t a)"
  using assms by (auto simp: refresh_prepare_def split: option.splits if_splits)

lemma ensure_sent:
  assumes "rr_sent (ensure_token_fresh I refresh env1 env2 t0 t1 t2 i force on_fail f) = Some (p, rt)"
  shows "\<exists>rt0. linked_to f i = None \<and> refresh_prepare i force on_fail t0 f = (Some rt0, f)
     \<and> refresh_recheck i force rt0 t1 (env1 f) = (True, Some rt) \<and> p = provider_of i (env1 f)
     \<and> (let h = refresh_settle i on_fail rt (refresh p rt) t2 (env2 (env1 f)) in
          ensure_token_fresh I refresh env1 env2 t0 t1 t2 i force on_fail f
            = \<lparr>rr_credential = credential_of h i, rr_fleet = h, rr_sent = Some (p, rt)\<rparr>)"
proof -
  have l: "linked_to f i = None"
    using assms by (auto simp: ensure_token_fresh_def split: option.splits prod.splits)
  obtain rt0 g where pr: "refresh_prepare i force on_fail t0 f = (Some rt0, g)"
    using assms l by (auto simp: ensure_token_fresh_def split: option.splits prod.splits)
  have g: "g = f" using prepare_sends [OF pr] by blast
  obtain b x where rc: "refresh_recheck i force rt0 t1 (env1 f) = (b, x)" by fastforce
  show ?thesis using assms
    by (cases b; cases x) (auto simp: ensure_token_fresh_def l pr g rc Let_def)
qed

lemma recheck_sends:
  "refresh_recheck i force rt0 t g = (True, Some rt) \<longleftrightarrow>
     (\<exists>b. fleet_account g i = Some b \<and> a_refresh_token b = Some rt
        \<and> (if force then rt = rt0 \<and> refresh_due True t b
           else is_expiring_soon t (a_expires_at b) TOKEN_REFRESH_AHEAD_MS))"
  by (auto simp: refresh_recheck_def refresh_due_def split: option.splits)

text \<open>A refresh token leaves the program only when it must: the account is an OAuth login that
  is not linked, its token was not known to be rejected, and the token sent is the one it
  holds, to its own provider. A routine refresh needs an access token within five minutes of
  expiry, both before and after waiting for a peer; a forced one needs the token unchanged by
  the peer and no refresh in the last thirty seconds.\<close>

theorem refresh_only_when_due:
  assumes "rr_sent (ensure_token_fresh I refresh env1 env2 t0 t1 t2 i force on_fail f) = Some (p, rt)"
  shows "linked_to f i = None \<and> (\<exists>a b. fleet_account f i = Some a \<and> fleet_account (env1 f) i = Some b
     \<and> a_kind a = Oauth \<and> a_refresh_token a \<noteq> a_dead_refresh_token a
     \<and> a_refresh_token b = Some rt \<and> p = a_provider b
     \<and> (if force
        then a_refresh_token a = Some rt
             \<and> (\<forall>l. a_last_refresh_at a = Some l \<longrightarrow> 30000 \<le> t0 - l)
             \<and> (\<forall>l. a_last_refresh_at b = Some l \<longrightarrow> 30000 \<le> t1 - l)
        else (\<forall>e. a_expires_at a = Some e \<longrightarrow> e - t0 < 300000)
             \<and> (\<forall>e. a_expires_at b = Some e \<longrightarrow> e - t1 < 300000)))"
proof -
  from ensure_sent [OF assms] obtain rt0 where
    r: "linked_to f i = None" "refresh_prepare i force on_fail t0 f = (Some rt0, f)"
       "refresh_recheck i force rt0 t1 (env1 f) = (True, Some rt)" "p = provider_of i (env1 f)" by blast
  from prepare_sends [OF r(2)] obtain a where
    a: "fleet_account f i = Some a" "a_kind a = Oauth" "a_refresh_token a = Some rt0"
       "a_dead_refresh_token a \<noteq> Some rt0" "refresh_due force t0 a" by blast
  from r(3) obtain b where b: "fleet_account (env1 f) i = Some b" "a_refresh_token b = Some rt"
     "if force then rt = rt0 \<and> refresh_due True t1 b
      else is_expiring_soon t1 (a_expires_at b) TOKEN_REFRESH_AHEAD_MS"
    unfolding recheck_sends by blast
  have "p = a_provider b" using r(4) b(1) by (simp add: provider_of_def)
  with r(1) a b show ?thesis
    by (intro conjI exI [of _ a] exI [of _ b])
      (auto simp: refresh_due_def is_expiring_soon_def time_consts split: if_splits option.splits)
qed

definition expiring_fleet :: fleet where
  "expiring_fleet = demo_fleet [(demo_account ''a'' 1)\<lparr>a_refresh_token := Some ''r'', a_expires_at := Some 100\<rparr>]"

lemma expiring_account:
  "fleet_account expiring_fleet ''a'' = Some ((demo_account ''a'' 1)\<lparr>a_refresh_token := Some ''r'', a_expires_at := Some 100\<rparr>)"
  by (simp add: expiring_fleet_def fleet_account_def)

lemma demo_token_fields [simp]:
  "a_import_from (demo_account i p) = None" "a_dead_refresh_token (demo_account i p) = None"
  "a_last_refresh_at (demo_account i p) = None"
  by (simp_all add: demo_account_def account_blank_def account_config_default_def linked_path_def is_codex_def)

lemma expiring_sends:
  "rr_sent (ensure_token_fresh I refresh (\<lambda>f. f) env2 0 0 t2 ''a'' False on_fail expiring_fleet) = Some (Anthropic, ''r'')"
proof -
  have "linked_to expiring_fleet ''a'' = None" by (simp add: linked_to_def expiring_account)
  moreover have "refresh_prepare ''a'' False on_fail 0 expiring_fleet = (Some ''r'', expiring_fleet)"
    by (simp add: refresh_prepare_def expiring_account refresh_due_def is_expiring_soon_def time_consts)
  moreover have "refresh_recheck ''a'' False ''r'' 0 expiring_fleet = (True, Some ''r'')"
    by (simp add: refresh_recheck_def expiring_account is_expiring_soon_def time_consts)
  ultimately show ?thesis
    by (simp add: ensure_token_fresh_def Let_def provider_of_def expiring_account)
qed

theorem refresh_only_when_due_witness:
  "linked_to expiring_fleet ''a'' = None \<and> (\<exists>a. fleet_account expiring_fleet ''a'' = Some a \<and> a_kind a = Oauth)"
  using refresh_only_when_due [OF expiring_sends [of no_files "\<lambda>_ _. Inl Transient" "\<lambda>f. f" 0 Keep]] by blast

subsection \<open>What the answer does\<close>

lemma install_fields [simp]:
  "a_credential (install_tokens rt t now a) = Some (tk_access t)"
  "a_status (install_tokens rt t now a) \<noteq> Errored"
  "a_refresh_token (install_tokens rt t now a) = Some (unwrap_or rt (tk_refresh t))"
  "a_dead_refresh_token (install_tokens rt t now a) = None"
  by (simp_all add: install_tokens_def revive_account_def)

lemma dead_not_sent:
  assumes "fleet_account f i = Some a" and "a_refresh_token a \<noteq> None"
    and "a_dead_refresh_token a = a_refresh_token a"
  shows "rr_sent (ensure_token_fresh I refresh env1 env2 t0 t1 t2 i force on_fail f) = None"
proof (rule ccontr)
  assume "\<not> ?thesis"
  then obtain p rt where "rr_sent (ensure_token_fresh I refresh env1 env2 t0 t1 t2 i force on_fail f) = Some (p, rt)"
    by fastforce
  from ensure_sent [OF this] obtain rt0 where "refresh_prepare i force on_fail t0 f = (Some rt0, f)" by blast
  from prepare_sends [OF this] assms show False by auto
qed

text \<open>C18: What the provider answers decides: fresh tokens are installed and handed out and lift an
  error; an answer that is no verdict on the token changes nothing; a rejection disables the
  account and marks the token as dead if the caller asked for that or its access token has expired as well,
  and else changes nothing, so that a probe never disables an account that can still serve. In whatever
  fleet an account carries a token with that mark, no call for it that begins there sends the token again, forced or not
  and at whatever time. (A call that had begun before, and was waiting for its turn when the token
  was rejected, may still send it once more: see the findings.)\<close>

theorem refresh_outcome:
  assumes "rr_sent (ensure_token_fresh I refresh env1 env2 t0 t1 t2 i force on_fail f) = Some (p, rt)"
    and "fleet_account (env2 (env1 f)) i = Some c"
  shows "let r = ensure_token_fresh I refresh env1 env2 t0 t1 t2 i force on_fail f in
    \<exists>d. fleet_account (rr_fleet r) i = Some d \<and> rr_credential r = a_credential d \<and>
     (case refresh p rt of
        Inr t \<Rightarrow> a_credential d = Some (tk_access t) \<and> a_refresh_token d = Some (unwrap_or rt (tk_refresh t))
                 \<and> a_status d \<noteq> Errored
      | Inl Transient \<Rightarrow> d = c
      | Inl (Rejected _) \<Rightarrow>
          if on_fail = MarkDead \<or> (\<exists>e. a_expires_at c = Some e \<and> e \<le> t2)
          then a_status d = Errored \<and> a_dead_refresh_token d = Some rt \<and> a_refresh_token d = a_refresh_token c
             \<and> (\<forall>h b refresh' env1' env2' s0 s1 s2 force' on_fail'.
                  fleet_account h i = Some b \<and> a_refresh_token b = Some rt \<and> a_dead_refresh_token b = Some rt \<longrightarrow>
                  rr_sent (ensure_token_fresh I refresh' env1' env2' s0 s1 s2 i force' on_fail' h) = None)
          else d = c)"
proof -
  let ?h = "refresh_settle i on_fail rt (refresh p rt) t2 (env2 (env1 f))"
  have run: "ensure_token_fresh I refresh env1 env2 t0 t1 t2 i force on_fail f
      = \<lparr>rr_credential = credential_of ?h i, rr_fleet = ?h, rr_sent = Some (p, rt)\<rparr>"
    using ensure_sent [OF assms(1)] unfolding Let_def by blast
  have k: "kills on_fail (a_expires_at c) t2 \<longleftrightarrow> on_fail = MarkDead \<or> (\<exists>e. a_expires_at c = Some e \<and> e \<le> t2)"
    by (auto simp: kills_def split: option.splits)
  have acc: "fleet_account ?h i = Some (case refresh p rt of
      Inr t \<Rightarrow> install_tokens rt t t2 c
    | Inl e \<Rightarrow> if is_auth_rejection e then reject_account on_fail rt t2 c else c)"
    using assms(2) by (simp add: refresh_settle_def fleet_account_upd split: sum.splits)
  have dead: "\<forall>h b refresh' env1' env2' s0 s1 s2 force' on_fail'.
      fleet_account h i = Some b \<and> a_refresh_token b = Some rt \<and> a_dead_refresh_token b = Some rt \<longrightarrow>
      rr_sent (ensure_token_fresh I refresh' env1' env2' s0 s1 s2 i force' on_fail' h) = None"
    by (intro allI impI, rule dead_not_sent) auto
  show ?thesis
  proof (cases "refresh p rt")
    case (Inr t)
    with acc show ?thesis by (simp add: run Let_def credential_of_def)
  next
    case (Inl e)
    show ?thesis
    proof (cases e)
      case (Rejected st)
      with Inl acc show ?thesis using dead
        unfolding k [symmetric]
        by (cases "kills on_fail (a_expires_at c) t2")
          (simp_all add: run Let_def credential_of_def is_auth_rejection_def reject_account_def)
    next
      case Transient
      with Inl acc show ?thesis by (simp add: run Let_def credential_of_def is_auth_rejection_def)
    qed
  qed
qed

theorem refresh_outcome_witness:
  "rr_credential (ensure_token_fresh no_files (\<lambda>_ _. Inl (Rejected 400)) (\<lambda>f. f) (\<lambda>f. f) 0 0 0 ''a'' False Keep
      expiring_fleet) = Some ''t''"
proof -
  have s: "rr_sent (ensure_token_fresh no_files (\<lambda>_ _. Inl (Rejected 400)) (\<lambda>f. f) (\<lambda>f. f) 0 0 0 ''a'' False Keep
      expiring_fleet) = Some (Anthropic, ''r'')" by (rule expiring_sends)
  from refresh_outcome [OF s expiring_account] show ?thesis by (auto simp: Let_def)
qed

text \<open>Callers that waited for a peer check the expiry and the last refresh, but not whether the
  peer was told that the token is dead: each of them sends it once more.\<close>

lemma waiting_peer_resends:
  "rr_sent (ensure_token_fresh I refresh (refresh_settle ''a'' MarkDead ''r'' (Inl (Rejected st)) 0) env2
      0 0 0 ''a'' False MarkDead expiring_fleet) = Some (Anthropic, ''r'')"
proof -
  let ?g = "refresh_settle ''a'' MarkDead ''r'' (Inl (Rejected st)) 0 expiring_fleet"
  have acc: "fleet_account ?g ''a'' = map_option (reject_account MarkDead ''r'' 0) (fleet_account expiring_fleet ''a'')"
    by (simp add: refresh_settle_def is_auth_rejection_def fleet_account_upd)
  have "linked_to expiring_fleet ''a'' = None" by (simp add: linked_to_def expiring_account)
  moreover have "refresh_prepare ''a'' False MarkDead 0 expiring_fleet = (Some ''r'', expiring_fleet)"
    by (simp add: refresh_prepare_def expiring_account refresh_due_def is_expiring_soon_def time_consts)
  moreover have "refresh_recheck ''a'' False ''r'' 0 ?g = (True, Some ''r'')"
    by (simp add: refresh_recheck_def acc expiring_account reject_account_def kills_def error_account_def
        is_expiring_soon_def time_consts)
  ultimately show ?thesis
    by (simp add: ensure_token_fresh_def Let_def provider_of_def acc expiring_account reject_account_def
        kills_def error_account_def)
qed

end
