(* ===== verification/Sync.thy ===== *)
theory Sync
  imports Token_Props
begin

text \<open>
  \<open>src/manager.rs\<close>: a fleet follows a reloaded configuration (\<open>sync_config\<close>) and is
  saved to and restored from the state file (\<open>export_pool_state\<close>,
  \<open>restore_pool_state\<close>). \<open>I\<close> reads the credential files, \<open>uuid n\<close> is the fresh id
  drawn for an account without one.
\<close>

subsection \<open>Following the configuration\<close>

definition sync_fields :: "account_config \<Rightarrow> account \<Rightarrow> account" where
  "sync_fields c a =
     a\<lparr>a_name := ac_name c, a_priority := ac_priority c, a_disabled := ac_disabled c,
       a_upstream := ac_upstream c, a_model_map := unwrap_or [] (ac_model_map c),
       a_strip_request_fields := ac_strip_request_fields c, a_max_usage := ac_max_usage c,
       a_account_uuid := opt_or (ac_account_uuid c) (a_account_uuid a),
       a_org_uuid := opt_or (ac_org_uuid c) (a_org_uuid a),
       a_org_name := opt_or (ac_org_name c) (a_org_name a),
       a_email := opt_or (ac_email c) (a_email a),
       a_account_id := opt_or (ac_account_id c) (a_account_id a),
       a_import_from := linked_path c\<rparr>"

definition take_credential :: "account \<Rightarrow> account \<Rightarrow> account" where
  "take_credential fresh a =
     revive_account (a\<lparr>a_credential := a_credential fresh, a_refresh_token := a_refresh_token fresh,
       a_expires_at := a_expires_at fresh, a_refresh_expires_at := a_refresh_expires_at fresh\<rparr>)"

text \<open>Whether the credential on disk replaces the one held.\<close>

definition newer_on_disk :: "account \<Rightarrow> account \<Rightarrow> bool" where
  "newer_on_disk fresh a \<longleftrightarrow>
     a_credential fresh \<noteq> None
     \<and> (a_credential fresh \<noteq> a_credential a \<or> a_refresh_token fresh \<noteq> a_refresh_token a)
     \<and> (a_credential a = None \<or> unwrap_or 0 (a_expires_at a) \<le> unwrap_or 0 (a_expires_at fresh))"

text \<open>The account after the reload, and whether the prober shall look at it again.\<close>

definition sync_account :: "importer \<Rightarrow> account_config \<Rightarrow> account \<Rightarrow> account \<times> bool" where
  "sync_account I c a0 =
     (let a = sync_fields c a0;
          fresh = apply_credentials I c a;
          taken = newer_on_disk fresh a;
          a1 = (if taken then take_credential fresh a else a);
          a2 = (if a_disabled a0 \<and> \<not> ac_disabled c \<and> a_dead_refresh_token a1 = None
                then revive_account a1 else a1)
      in (a2, taken))"

record sync_result =
  sy_next :: "account list"
  sy_recheck :: "string list"
  sy_added :: nat
  sy_gone :: "account list"

fun sync_accounts ::
  "importer \<Rightarrow> (nat \<Rightarrow> string) \<Rightarrow> account_config list \<Rightarrow> account list \<Rightarrow> sync_result" where
  "sync_accounts I uuid [] old = \<lparr>sy_next = [], sy_recheck = [], sy_added = 0, sy_gone = old\<rparr>"
| "sync_accounts I uuid (c # cs) old =
     (let i = unwrap_or [] (ac_id c)
      in (case List.find (\<lambda>a. a_id a = i) old of
            Some a \<Rightarrow>
              (let (b, changed) = sync_account I c a;
                   r = sync_accounts I uuid cs (remove1 a old)
               in r\<lparr>sy_next := b # sy_next r, sy_recheck := (if changed then a_id b # sy_recheck r else sy_recheck r)\<rparr>)
          | None \<Rightarrow>
              (let a = account_from_config I (uuid (length cs)) c;
                   r = sync_accounts I uuid cs old
               in if a_credential a = None then r
                  else r\<lparr>sy_next := a # sy_next r, sy_added := sy_added r + 1\<rparr>)))"

definition sync_settings :: "config \<Rightarrow> string \<Rightarrow> fleet \<Rightarrow> fleet" where
  "sync_settings cfg pool f =
     (let p = pool_or_default cfg (Some pool);
          clear = \<not> er_enabled (pc_expiry_routing p) \<or> \<not> er_preempt (pc_expiry_routing p)
      in f\<lparr>fl_pool := pool, fl_threshold := pc_switch_threshold p, fl_routes := pc_routes p,
           fl_blocked_models := pc_blocked_models p, fl_storm := pc_storm_ramp p,
           fl_distribute := pc_distribute_sessions p, fl_hold_seconds := pc_hold_seconds p,
           fl_default_upstream := cf_upstream cfg,
           fl_accounts := (if clear then map (a_rollover_baseline_update (\<lambda>_. [])) (fl_accounts f) else fl_accounts f),
           fl_expiry := pc_expiry_routing p, fl_soonest_reset := pc_soonest_reset p,
           fl_probe := pb_interval_secs_update (\<lambda>_. pc_quota_probe_seconds p) (fl_probe f),
           fl_warmup_secs := cf_warmup_seconds cfg\<rparr>)"

definition drop_gone :: "string list \<Rightarrow> fleet \<Rightarrow> fleet" where
  "drop_gone ids f =
     f\<lparr>fl_sessions := remap_accounts ids (fl_sessions f),
       fl_route_pins := filter (\<lambda>(_, v). v \<in> set ids) (fl_route_pins f),
       fl_current := opt_filter (\<lambda>c. c \<in> set ids) (fl_current f)\<rparr>"

definition sync_config :: "importer \<Rightarrow> (nat \<Rightarrow> string) \<Rightarrow> config \<Rightarrow> string \<Rightarrow> fleet \<Rightarrow> nat \<times> fleet" where
  "sync_config I uuid cfg pool f =
     (let g = sync_settings cfg pool f;
          r = sync_accounts I uuid (pc_accounts (pool_or_default cfg (Some pool))) (fl_accounts g);
          h = fl_probe_update (pb_recheck_update (fold List.insert (sy_recheck r)))
                (g\<lparr>fl_accounts := sy_next r\<rparr>)
      in (sy_added r, drop_gone (fleet_ids h) h))"

definition manager_new :: "importer \<Rightarrow> (nat \<Rightarrow> string) \<Rightarrow> config \<Rightarrow> string \<Rightarrow> int \<Rightarrow> fleet" where
  "manager_new I uuid cfg pool now = snd (sync_config I uuid cfg pool (fleet_blank cfg pool now))"

subsection \<open>The state file\<close>

definition j_or_null :: "('a \<Rightarrow> json) \<Rightarrow> 'a option \<Rightarrow> json" where
  "j_or_null enc x = (case x of Some v \<Rightarrow> enc v | None \<Rightarrow> JNull)"

text \<open>A number that is not finite becomes \<open>null\<close>.\<close>

definition j_f64 :: "f64 \<Rightarrow> json" where
  "j_f64 x = (if is_finite x then JReal x else JNull)"

definition bucket_to_json :: "bucket \<Rightarrow> json" where
  "bucket_to_json b =
     JObj [(''utilization'', j_or_null j_f64 (utilization b)), (''resetAt'', j_or_null JInt (reset_at b)),
           (''seenAt'', j_or_null JInt (seen_at b))]"

definition quota_to_json :: "quota \<Rightarrow> json" where
  "quota_to_json q =
     JObj [(''unified5h'', bucket_to_json (unified5h q)), (''unified7d'', bucket_to_json (unified7d q)),
           (''unified7dFable'', bucket_to_json (unified7d_fable q)),
           (''unified7dSonnet'', bucket_to_json (unified7d_sonnet q)),
           (''scopedWeekly'', JObj (map (\<lambda>(k, b). (k, bucket_to_json b)) (scoped_weekly q))),
           (''unifiedStatus'', j_or_null JStr (unified_status q)),
           (''unifiedStatusSeenAt'', j_or_null JInt (unified_status_seen_at q)),
           (''tokensLimit'', j_or_null JInt (tokens_limit q)), (''tokensRemaining'', j_or_null JInt (tokens_remaining q)),
           (''requestsLimit'', j_or_null JInt (requests_limit q)),
           (''requestsRemaining'', j_or_null JInt (requests_remaining q)),
           (''resetsAt'', j_or_null JStr (resets_at q)), (''spend'', j_or_null (\<lambda>v. v) (spend q))]"

definition usage_to_json :: "usage \<Rightarrow> json" where
  "usage_to_json u =
     JObj [(''totalRequests'', JInt (int (us_total_requests u))),
           (''failedRequests'', JInt (int (us_failed_requests u))), (''lastUsed'', j_or_null JStr (us_last_used u)),
           (''inputTokens'', JInt (us_input u)), (''outputTokens'', JInt (us_output u)),
           (''cacheReadTokens'', JInt (us_cache_read u)), (''cacheCreationTokens'', JInt (us_cache_creation u))]"

text \<open>Decoding one field: absent is the default, \<open>null\<close> is \<open>None\<close> for an option, another type
  is an error. The array form of a struct that the derived decoders accept as well is never
  written and not modelled.\<close>

definition de_opt :: "(json \<Rightarrow> 'a option) \<Rightarrow> string \<Rightarrow> json \<Rightarrow> 'a option option" where
  "de_opt dec k v =
     (case j_get k v of
        None \<Rightarrow> Some None
      | Some j \<Rightarrow> if j = JNull then Some None else map_option Some (dec j))"

definition de_field :: "'a \<Rightarrow> (json \<Rightarrow> 'a option) \<Rightarrow> string \<Rightarrow> json \<Rightarrow> 'a option" where
  "de_field dflt dec k v = (case j_get k v of None \<Rightarrow> Some dflt | Some j \<Rightarrow> dec j)"

definition bucket_from_json :: "json \<Rightarrow> bucket option" where
  "bucket_from_json v =
     (if \<not> is_object v then None
      else Option.bind (de_opt as_f64 ''utilization'' v) (\<lambda>u.
           Option.bind (de_opt as_i64 ''resetAt'' v) (\<lambda>r.
           Option.bind (de_opt as_i64 ''seenAt'' v) (\<lambda>s.
             Some \<lparr>utilization = u, reset_at = r, seen_at = s\<rparr>))))"

fun decode_map :: "(json \<Rightarrow> 'a option) \<Rightarrow> (string \<times> json) list \<Rightarrow> (string \<times> 'a) list option" where
  "decode_map dec [] = Some []"
| "decode_map dec ((k, j) # m) =
     Option.bind (decode_map dec m) (\<lambda>rest. Option.bind (dec j) (\<lambda>x. Some (bt_insert k x rest)))"

definition map_from_json :: "(json \<Rightarrow> 'a option) \<Rightarrow> json \<Rightarrow> (string \<times> 'a) list option" where
  "map_from_json dec v = Option.bind (as_object v) (decode_map dec)"

definition quota_from_json :: "json \<Rightarrow> quota option" where
  "quota_from_json v =
     (if \<not> is_object v then None
      else let bkt = (\<lambda>k. de_field bucket_default bucket_from_json k v)
      in Option.bind (bkt ''unified5h'') (\<lambda>b5.
         Option.bind (bkt ''unified7d'') (\<lambda>b7.
         Option.bind (bkt ''unified7dFable'') (\<lambda>bf.
         Option.bind (bkt ''unified7dSonnet'') (\<lambda>bs.
         Option.bind (de_field [] (map_from_json bucket_from_json) ''scopedWeekly'' v) (\<lambda>sw.
         Option.bind (de_opt as_str ''unifiedStatus'' v) (\<lambda>st.
         Option.bind (de_opt as_i64 ''unifiedStatusSeenAt'' v) (\<lambda>sa.
         Option.bind (de_opt as_i64 ''tokensLimit'' v) (\<lambda>tl'.
         Option.bind (de_opt as_i64 ''tokensRemaining'' v) (\<lambda>tr.
         Option.bind (de_opt as_i64 ''requestsLimit'' v) (\<lambda>rl.
         Option.bind (de_opt as_i64 ''requestsRemaining'' v) (\<lambda>rr.
         Option.bind (de_opt as_str ''resetsAt'' v) (\<lambda>ra.
         Option.bind (de_opt Some ''spend'' v) (\<lambda>sp.
           Some \<lparr>unified5h = b5, unified7d = b7, unified7d_fable = bf, unified7d_sonnet = bs,
             scoped_weekly = sw, unified_status = st, unified_status_seen_at = sa,
             tokens_limit = tl', tokens_remaining = tr, requests_limit = rl, requests_remaining = rr,
             resets_at = ra, spend = sp\<rparr>))))))))))))))"

definition usage_from_json :: "json \<Rightarrow> usage option" where
  "usage_from_json v =
     (if \<not> is_object v then None
      else let n = (\<lambda>k. de_field 0 as_u64 k v); i = (\<lambda>k. de_field 0 as_i64 k v)
      in Option.bind (n ''totalRequests'') (\<lambda>t.
         Option.bind (n ''failedRequests'') (\<lambda>fr.
         Option.bind (de_opt as_str ''lastUsed'' v) (\<lambda>lu.
         Option.bind (i ''inputTokens'') (\<lambda>it.
         Option.bind (i ''outputTokens'') (\<lambda>ot.
         Option.bind (i ''cacheReadTokens'') (\<lambda>cr.
         Option.bind (i ''cacheCreationTokens'') (\<lambda>cc.
           Some \<lparr>us_total_requests = t, us_failed_requests = fr, us_last_used = lu, us_input = it,
             us_output = ot, us_cache_read = cr, us_cache_creation = cc\<rparr>))))))))"

definition account_state :: "account \<Rightarrow> json" where
  "account_state a =
     JObj [(''name'', JStr (a_name a)), (''quota'', quota_to_json (a_quota a)),
           (''usage'', usage_to_json (a_usage a)),
           (''rateLimitTier'', j_or_null JStr (a_rate_limit_tier a)), (''seatTier'', j_or_null JStr (a_seat_tier a)),
           (''accountUuid'', j_or_null JStr (a_account_uuid a)), (''orgUuid'', j_or_null JStr (a_org_uuid a)),
           (''email'', j_or_null JStr (a_email a))]"

definition usage_table_json :: "(string \<times> usage) list \<Rightarrow> (string \<times> json) list" where
  "usage_table_json = map (\<lambda>(k, u). (k, usage_to_json u))"

definition export_pool_state :: "fleet \<Rightarrow> pool_state" where
  "export_pool_state f =
     \<lparr>ps_accounts = fold (\<lambda>a. bt_insert (a_id a) (account_state a)) (fl_accounts f) [],
      ps_client_usage = usage_table_json (fl_client_usage f),
      ps_dimension_usage = JObj (map (\<lambda>(d, t). (d, JObj (usage_table_json t))) (fl_dimension_usage f))\<rparr>"

text \<open>The five counters that are restored; the others keep their value.\<close>

definition restore_usage :: "json \<Rightarrow> usage \<Rightarrow> usage" where
  "restore_usage v u =
     (let n = (\<lambda>k. unwrap_or 0 (Option.bind (j_get k v) as_u64)); i = (\<lambda>k. unwrap_or 0 (Option.bind (j_get k v) as_i64))
      in u\<lparr>us_total_requests := n ''totalRequests'', us_input := i ''inputTokens'',
           us_output := i ''outputTokens'', us_cache_read := i ''cacheReadTokens'',
           us_cache_creation := i ''cacheCreationTokens''\<rparr>)"

definition restore_account :: "ext \<Rightarrow> threshold \<Rightarrow> int \<Rightarrow> json \<Rightarrow> account \<Rightarrow> account" where
  "restore_account E th now v a =
     (let a = (case Option.bind (j_get ''quota'' v) quota_from_json of
                 Some q \<Rightarrow> a\<lparr>a_quota := fst (clear_expired E now (for_bucket th) q)\<rparr> | None \<Rightarrow> a);
          a = (case j_get ''usage'' v of Some u \<Rightarrow> a_usage_update (restore_usage u) a | None \<Rightarrow> a)
      in a\<lparr>a_rate_limit_tier := opt_or (a_rate_limit_tier a) (get_str ''rateLimitTier'' v),
           a_seat_tier := opt_or (a_seat_tier a) (get_str ''seatTier'' v)\<rparr>)"

definition restore_client_usage :: "(string \<times> json) list \<Rightarrow> (string \<times> usage) list \<Rightarrow> (string \<times> usage) list" where
  "restore_client_usage =
     fold (\<lambda>(k, v) t. case usage_from_json v of Some u \<Rightarrow> bt_insert k u t | None \<Rightarrow> t)"

definition restore_pool_state :: "ext \<Rightarrow> pool_state \<Rightarrow> int \<Rightarrow> fleet \<Rightarrow> fleet" where
  "restore_pool_state E st now f =
     f\<lparr>fl_accounts := map (\<lambda>a. case map_of (ps_accounts st) (a_id a) of
                               Some v \<Rightarrow> restore_account E (fl_threshold f) now v a | None \<Rightarrow> a) (fl_accounts f),
       fl_client_usage := restore_client_usage (ps_client_usage st) (fl_client_usage f),
       fl_dimension_usage :=
         (case map_from_json (map_from_json usage_from_json) (ps_dimension_usage st) of
            Some d \<Rightarrow> d | None \<Rightarrow> fl_dimension_usage f)\<rparr>"

end
