(* ===== verification/Sync_Props.thy ===== *)
theory Sync_Props
  imports Sync
begin

text \<open>
  What a reload keeps and what the state file restores.
\<close>

subsection \<open>A reload\<close>

definition runtime_of :: "account \<Rightarrow> quota \<times> usage \<times> nat \<times> nat \<times> int option \<times> bool \<times> int option \<times> int option" where
  "runtime_of a = (a_quota a, a_usage a, a_in_flight a, a_open a, a_rate_limited_until a, a_quota_hold a,
     a_ramp_started_at a, a_entitlement_denied_until a)"

lemma runtime_frame [simp]:
  "runtime_of (revive_account a) = runtime_of a" "runtime_of (sync_fields c a) = runtime_of a"
  "runtime_of (take_credential fr a) = runtime_of a"
  "runtime_of (a_rollover_baseline_update u a) = runtime_of a"
  by (simp_all add: runtime_of_def revive_account_def sync_fields_def take_credential_def)

lemma sync_fn_ids [simp]:
  "a_id (sync_fields c a) = a_id a" "a_id (take_credential fr a) = a_id a"
  "a_id (fst (sync_account I c a)) = a_id a"
  by (simp_all add: sync_fields_def take_credential_def sync_account_def Let_def)

lemma revive_fields [simp]:
  "a_credential (revive_account a) = a_credential a" "a_refresh_token (revive_account a) = a_refresh_token a"
  "a_expires_at (revive_account a) = a_expires_at a" "a_name (revive_account a) = a_name a"
  "a_priority (revive_account a) = a_priority a" "a_disabled (revive_account a) = a_disabled a"
  by (simp_all add: revive_account_def)

lemma take_fields [simp]:
  "a_credential (take_credential fr a) = a_credential fr"
  "a_refresh_token (take_credential fr a) = a_refresh_token fr"
  "a_expires_at (take_credential fr a) = a_expires_at fr" "a_name (take_credential fr a) = a_name a"
  "a_priority (take_credential fr a) = a_priority a" "a_disabled (take_credential fr a) = a_disabled a"
  by (simp_all add: take_credential_def)

lemma sync_fields_fields [simp]:
  "a_credential (sync_fields c a) = a_credential a" "a_refresh_token (sync_fields c a) = a_refresh_token a"
  "a_expires_at (sync_fields c a) = a_expires_at a" "a_name (sync_fields c a) = ac_name c"
  "a_priority (sync_fields c a) = ac_priority c" "a_disabled (sync_fields c a) = ac_disabled c"
  by (simp_all add: sync_fields_def)

text \<open>The file's credential after the fields of the account are in place.\<close>

definition on_disk :: "importer \<Rightarrow> account_config \<Rightarrow> account \<Rightarrow> account" where
  "on_disk I c a = apply_credentials I c (sync_fields c a)"

lemma sync_account_kept:
  "let b = fst (sync_account I c a) in
     a_name b = ac_name c \<and> a_priority b = ac_priority c \<and> a_disabled b = ac_disabled c
   \<and> runtime_of b = runtime_of a
   \<and> (if newer_on_disk (on_disk I c a) (sync_fields c a)
      then a_credential b = a_credential (on_disk I c a) \<and> a_refresh_token b = a_refresh_token (on_disk I c a)
      else a_credential b = a_credential a \<and> a_refresh_token b = a_refresh_token a)"
  by (simp add: sync_account_def Let_def on_disk_def)

lemma account_from_config_id: "ac_id c = Some i \<Longrightarrow> a_id (account_from_config I u c) = i"
  by (simp add: account_from_config_def frame_simps account_blank_def)

lemma find_remove_other:
  assumes "a_id a \<noteq> i"
  shows "List.find (\<lambda>b. a_id b = i) (remove1 a old) = List.find (\<lambda>b. a_id b = i) old"
  using assms by (induction old) auto

definition config_ids_ok :: "account_config list \<Rightarrow> bool" where
  "config_ids_ok cs \<longleftrightarrow> (\<forall>c \<in> set cs. ac_id c \<noteq> None) \<and> distinct (map ac_id cs)"

lemma config_ids_ok_Cons [simp]:
  "config_ids_ok (c # cs) \<longleftrightarrow>
     (\<exists>i. ac_id c = Some i \<and> (\<forall>d \<in> set cs. ac_id d \<noteq> Some i)) \<and> config_ids_ok cs"
  unfolding config_ids_ok_def by (cases "ac_id c") (auto simp: image_iff eq_commute)

text \<open>What a reload does with one configured account: \<open>old\<close> is the account of that id before.\<close>

definition synced :: "importer \<Rightarrow> account option \<Rightarrow> account_config \<Rightarrow> account option" where
  "synced I old c =
     (case old of
        Some a \<Rightarrow> Some (fst (sync_account I c a))
      | None \<Rightarrow> (let a = account_from_config I [] c in if a_credential a = None then None else Some a))"

lemma account_from_config_uuid: "ac_id c \<noteq> None \<Longrightarrow> account_from_config I u c = account_from_config I v c"
  by (auto simp: account_from_config_def account_blank_def)

lemma sync_accounts_next:
  assumes "config_ids_ok cs"
  shows "sy_next (sync_accounts I uuid cs old) =
    List.map_filter (\<lambda>c. synced I (List.find (\<lambda>a. a_id a = unwrap_or [] (ac_id c)) old) c) cs"
  using assms
proof (induction cs arbitrary: old)
  case Nil
  show ?case by (simp add: map_filter_simps)
next
  case (Cons c cs)
  then obtain i where i: "ac_id c = Some i" "\<forall>d \<in> set cs. ac_id d \<noteq> Some i" "config_ids_ok cs" by auto
  show ?case
  proof (cases "List.find (\<lambda>a. a_id a = i) old")
    case None
    note new = account_from_config_uuid [of c I "uuid (length cs)" "[]"]
    show ?thesis using Cons.IH [OF i(3)] new i(1)
      by (simp add: None Let_def synced_def map_filter_simps split: option.splits)
  next
    case (Some a)
    have "a_id a = i" using find_SomeD [OF Some] by simp
    then have "List.find (\<lambda>b. a_id b = unwrap_or [] (ac_id d)) (remove1 a old)
        = List.find (\<lambda>b. a_id b = unwrap_or [] (ac_id d)) old" if "d \<in> set cs" for d
      using i(2,3) that by (intro find_remove_other) (auto simp: config_ids_ok_def)
    then have "List.map_filter (\<lambda>d. synced I (List.find (\<lambda>a. a_id a = unwrap_or [] (ac_id d)) (remove1 a old)) d) cs
        = List.map_filter (\<lambda>d. synced I (List.find (\<lambda>a. a_id a = unwrap_or [] (ac_id d)) old) d) cs"
      by (simp add: List.map_filter_def cong: map_cong filter_cong)
    moreover obtain b ch where "sync_account I c a = (b, ch)" by fastforce
    ultimately show ?thesis using Some i(1) Cons.IH [OF i(3), of "remove1 a old"]
      by (simp add: synced_def map_filter_simps Let_def)
  qed
qed

text \<open>The account of that id after the reload.\<close>

definition synced_id :: "importer \<Rightarrow> account list \<Rightarrow> account_config \<Rightarrow> account option" where
  "synced_id I old c = synced I (List.find (\<lambda>a. a_id a = unwrap_or [] (ac_id c)) old) c"

lemma synced_id_id: "ac_id c = Some i \<Longrightarrow> synced_id I old c = Some b \<Longrightarrow> a_id b = i"
  by (auto simp: synced_id_def synced_def Let_def account_from_config_id dest: find_SomeD
      split: option.splits if_splits)

lemma synced_ids:
  "config_ids_ok cs \<Longrightarrow> map a_id (List.map_filter (synced_id I old) cs)
     = map (\<lambda>c. the (ac_id c)) (filter (\<lambda>c. synced_id I old c \<noteq> None) cs)"
  by (induction cs) (auto simp: map_filter_simps dest: synced_id_id split: option.splits)

lemma synced_mem:
  "config_ids_ok cs \<Longrightarrow> b \<in> set (List.map_filter (synced_id I old) cs) \<Longrightarrow> \<exists>c \<in> set cs. ac_id c = Some (a_id b)"
  by (induction cs) (auto simp: map_filter_simps dest: synced_id_id split: option.splits)

lemma find_synced:
  "config_ids_ok cs \<Longrightarrow> c \<in> set cs \<Longrightarrow> ac_id c = Some i \<Longrightarrow>
   List.find (\<lambda>a. a_id a = i) (List.map_filter (synced_id I old) cs) = synced_id I old c"
proof (induction cs)
  case (Cons d cs)
  then obtain j where j: "ac_id d = Some j" "\<forall>e \<in> set cs. ac_id e \<noteq> Some j" "config_ids_ok cs" by auto
  show ?case
  proof (cases "d = c")
    case False
    with Cons.prems j have c: "c \<in> set cs" "j \<noteq> i" by auto
    with Cons.IH [OF j(3) c(1) Cons.prems(3)] synced_id_id [OF j(1)] show ?thesis
      by (auto simp: map_filter_simps split: option.splits)
  next
    case True
    have none: "List.find (\<lambda>a. a_id a = i) (List.map_filter (synced_id I old) cs) = None"
      using synced_mem [OF j(3), of _ I old] j(1,2) True Cons.prems(3) by fastforce
    with True Cons.prems(3) synced_id_id [OF j(1)] j(1) show ?thesis
      by (auto simp: map_filter_simps split: option.splits)
  qed
qed simp

lemma find_cleared:
  "List.find (\<lambda>a. a_id a = i) (map (a_rollover_baseline_update u) as)
     = map_option (a_rollover_baseline_update u) (List.find (\<lambda>a. a_id a = i) as)"
  by (induction as) auto

definition baseline_cleared :: "account \<Rightarrow> account \<Rightarrow> bool" where
  "baseline_cleared a b \<longleftrightarrow> b = a \<or> b = a\<lparr>a_rollover_baseline := []\<rparr>"

lemma settings_account:
  "case fleet_account f i of
     None \<Rightarrow> List.find (\<lambda>a. a_id a = i) (fl_accounts (sync_settings cfg pool f)) = None
   | Some a \<Rightarrow> (\<exists>b. List.find (\<lambda>a. a_id a = i) (fl_accounts (sync_settings cfg pool f)) = Some b \<and> baseline_cleared a b)"
  by (auto simp: sync_settings_def Let_def fleet_account_def find_cleared baseline_cleared_def split: option.splits)

lemma drop_gone_frame [simp]:
  "fl_accounts (drop_gone ids h) = fl_accounts h" "fleet_ids (drop_gone ids h) = fleet_ids h"
  "fl_current (drop_gone ids h) = opt_filter (\<lambda>c. c \<in> set ids) (fl_current h)"
  "fl_route_pins (drop_gone ids h) = filter (\<lambda>(_, v). v \<in> set ids) (fl_route_pins h)"
  "fl_sessions (drop_gone ids h) = remap_accounts ids (fl_sessions h)"
  by (simp_all add: drop_gone_def fleet_ids_def)

lemma sync_config_accounts:
  assumes "config_ids_ok (pc_accounts (pool_or_default cfg (Some pool)))"
    and "sync_config I uuid cfg pool f = (n, g)"
  shows "fl_accounts g = List.map_filter (synced_id I (fl_accounts (sync_settings cfg pool f)))
           (pc_accounts (pool_or_default cfg (Some pool)))"
  using assms(2) sync_accounts_next [OF assms(1)]
  by (auto simp: sync_config_def Let_def synced_id_def [abs_def])

lemma sync_settings_frame [simp]:
  "fl_sessions (sync_settings cfg pool f) = fl_sessions f"
  "fl_route_pins (sync_settings cfg pool f) = fl_route_pins f"
  by (simp_all add: sync_settings_def Let_def)

lemma sync_config_dropped:
  assumes "sync_config I uuid cfg pool f = (n, g)"
  obtains h where "g = drop_gone (fleet_ids g) h" "fl_sessions h = fl_sessions f" "fl_route_pins h = fl_route_pins f"
proof -
  let ?s = "sync_settings cfg pool f"
  let ?r = "sync_accounts I uuid (pc_accounts (pool_or_default cfg (Some pool))) (fl_accounts ?s)"
  let ?h = "fl_probe_update (pb_recheck_update (fold List.insert (sy_recheck ?r))) (?s\<lparr>fl_accounts := sy_next ?r\<rparr>)"
  have h: "g = drop_gone (fleet_ids ?h) ?h" using assms by (simp add: sync_config_def Let_def)
  then have "fleet_ids g = fleet_ids ?h" by simp
  with h show thesis by (intro that [of ?h]) simp_all
qed

lemma nonempty_ex: "nonempty z \<noteq> None \<Longrightarrow> \<exists>y. z = Some y \<and> y \<noteq> []"
  by (cases z) (simp_all add: nonempty_def split: if_splits)

lemma apply_credentials_cases:
  assumes "P (a\<lparr>a_credential := nonempty (ac_api_key c)\<rparr>)" "\<And>r. P (apply_codex_file r a)"
    and "\<And>r. P (apply_oauth_file r a)" "P (set_stored_tokens c a)"
  shows "P (apply_credentials I c a)"
  using assms by (cases "a_kind a"; cases "ac_import_from c"; simp add: apply_credentials_def)

lemma apply_credentials_changed:
  "apply_credentials I c a = a \<or> a_credential (apply_credentials I c a) \<noteq> Some []"
proof -
  have 1: "apply_codex_file r a = a \<or> a_credential (apply_codex_file r a) \<noteq> Some []" for r
  proof (cases "apply_codex_file r a = a")
    case False
    then obtain x where x: "r = Some x" "nonempty (cc_access x) \<noteq> None"
      by (cases r) (simp_all add: apply_codex_file_def split: if_splits)
    from nonempty_ex [OF x(2)] obtain y where "cc_access x = Some y" "y \<noteq> []" by (elim exE conjE)
    with x(1) show ?thesis by (intro disjI2) (simp add: apply_codex_file_def nonempty_def)
  qed simp
  have 2: "apply_oauth_file r a = a \<or> a_credential (apply_oauth_file r a) \<noteq> Some []" for r
  proof (cases "apply_oauth_file r a = a")
    case False
    then obtain x where x: "r = Some x" "nonempty (im_access x) \<noteq> None"
      by (cases r) (simp_all add: apply_oauth_file_def split: if_splits)
    from nonempty_ex [OF x(2)] obtain y where "im_access x = Some y" "y \<noteq> []" by (elim exE conjE)
    with x(1) show ?thesis by (intro disjI2) (simp add: apply_oauth_file_def nonempty_def)
  qed simp
  have 3: "a_credential (set_stored_tokens c a) \<noteq> Some []" by (simp add: set_stored_tokens_def)
  have 4: "a_credential (a\<lparr>a_credential := nonempty (ac_api_key c)\<rparr>) \<noteq> Some []" by simp
  show ?thesis
    by (rule apply_credentials_cases [where P = "\<lambda>b. b = a \<or> a_credential b \<noteq> Some []",
          OF disjI2 [OF 4] 1 2 disjI2 [OF 3]])
qed

lemma sync_account_credential:
  assumes "b = fst (sync_account I c a)"
  shows "a_credential b = a_credential a \<and> a_refresh_token b = a_refresh_token a
     \<or> a_credential b \<noteq> None \<and> a_credential b \<noteq> Some []
       \<and> (a_credential a = None \<or> unwrap_or 0 (a_expires_at a) \<le> unwrap_or 0 (a_expires_at b))"
proof (cases "newer_on_disk (on_disk I c a) (sync_fields c a)")
  case True
  then have "on_disk I c a \<noteq> sync_fields c a" by (auto simp: newer_on_disk_def)
  with apply_credentials_changed [of I c "sync_fields c a"]
  have "a_credential (on_disk I c a) \<noteq> Some []" by (simp add: on_disk_def)
  with True show ?thesis
    by (simp add: assms sync_account_def Let_def on_disk_def [symmetric] newer_on_disk_def)
next
  case False
  then show ?thesis by (simp add: assms sync_account_def Let_def on_disk_def)
qed

lemma cleared_fields:
  "baseline_cleared a b \<Longrightarrow> runtime_of b = runtime_of a \<and> a_credential b = a_credential a
     \<and> a_refresh_token b = a_refresh_token a \<and> a_expires_at b = a_expires_at a"
  by (auto simp: baseline_cleared_def runtime_of_def)

lemma map_filter_order:
  assumes "distinct (map f xs)"
  shows "map f (filter P xs) = filter (\<lambda>i. i \<in> set (map f (filter P xs))) (map f xs)"
proof -
  have "f x \<in> set (map f (filter P xs)) \<longleftrightarrow> P x" if "x \<in> set xs" for x
    using assms that by (auto simp: distinct_map inj_on_def)
  then have "filter P xs = filter (\<lambda>x. f x \<in> set (map f (filter P xs))) xs" by (auto intro!: filter_cong)
  then have "map f (filter P xs) = map f (filter ((\<lambda>i. i \<in> set (map f (filter P xs))) \<circ> f) xs)"
    unfolding comp_def by (rule arg_cong)
  then show ?thesis unfolding filter_map .
qed

lemma distinct_config_ids: "config_ids_ok cs \<Longrightarrow> distinct (map (\<lambda>c. the (ac_id c)) cs)"
  by (induction cs) (fastforce simp: config_ids_ok_def)+

lemma fleet_account_synced:
  assumes "config_ids_ok (pc_accounts (pool_or_default cfg (Some pool)))"
    and "sync_config I uuid cfg pool f = (n, g)"
    and "c \<in> set (pc_accounts (pool_or_default cfg (Some pool)))" and "ac_id c = Some i"
  shows "fleet_account g i = synced I (List.find (\<lambda>a. a_id a = i) (fl_accounts (sync_settings cfg pool f))) c"
  using find_synced [OF assms(1,3,4)] assms(4)
  by (simp add: fleet_account_def sync_config_accounts [OF assms(1,2)] synced_id_def)

text \<open>What the file says of an account, and of a pool.\<close>

definition settings_taken :: "account_config \<Rightarrow> account \<Rightarrow> account \<Rightarrow> bool" where
  "settings_taken c a b \<longleftrightarrow>
     a_name b = ac_name c \<and> a_priority b = ac_priority c \<and> a_disabled b = ac_disabled c
     \<and> a_upstream b = ac_upstream c \<and> a_model_map b = (case ac_model_map c of Some m \<Rightarrow> m | None \<Rightarrow> [])
     \<and> a_strip_request_fields b = ac_strip_request_fields c \<and> a_max_usage b = ac_max_usage c
     \<and> a_import_from b = linked_path c
     \<and> a_account_uuid b = opt_or (ac_account_uuid c) (a_account_uuid a) \<and> a_org_uuid b = opt_or (ac_org_uuid c) (a_org_uuid a)
     \<and> a_org_name b = opt_or (ac_org_name c) (a_org_name a) \<and> a_email b = opt_or (ac_email c) (a_email a)
     \<and> a_account_id b = opt_or (ac_account_id c) (a_account_id a)"

definition pool_settings_taken :: "config \<Rightarrow> pool_config \<Rightarrow> fleet \<Rightarrow> bool" where
  "pool_settings_taken cfg p g \<longleftrightarrow>
     fl_threshold g = pc_switch_threshold p \<and> fl_routes g = pc_routes p \<and> fl_blocked_models g = pc_blocked_models p
     \<and> fl_storm g = pc_storm_ramp p \<and> fl_distribute g = pc_distribute_sessions p
     \<and> fl_hold_seconds g = pc_hold_seconds p \<and> fl_expiry g = pc_expiry_routing p
     \<and> fl_soonest_reset g = pc_soonest_reset p \<and> pb_interval_secs (fl_probe g) = pc_quota_probe_seconds p
     \<and> fl_default_upstream g = cf_upstream cfg \<and> fl_warmup_secs g = cf_warmup_seconds cfg"

text \<open>The login the file itself holds: it is taken when there is one and it does not expire earlier.\<close>

definition login_taken :: "account_config \<Rightarrow> account \<Rightarrow> account \<Rightarrow> bool" where
  "login_taken c a b \<longleftrightarrow>
     (a_kind a = Apikey \<longrightarrow> a_credential b = opt_or (nonempty (ac_api_key c)) (a_credential a))
     \<and> (a_kind a = Oauth \<and> a_provider a = Anthropic \<and> ac_import_from c = None \<and> nonempty (ac_access_token c) \<noteq> None
          \<and> (a_credential a = None \<or> unwrap_or 0 (a_expires_at a) \<le> unwrap_or 0 (ac_expires_at c)) \<longrightarrow>
        a_credential b = ac_access_token c \<and> a_refresh_token b = nonempty (ac_refresh_token c))"

lemma revive_settings: "settings_taken c a (revive_account b) = settings_taken c a b"
  by (simp add: settings_taken_def revive_account_def)

lemma take_settings: "settings_taken c a (take_credential fr b) = settings_taken c a b"
  by (simp add: settings_taken_def take_credential_def revive_account_def)

lemma sync_settings_taken: "settings_taken c a (fst (sync_account I c a))"
proof -
  have "settings_taken c a (sync_fields c a)" by (cases "ac_model_map c") (simp_all add: settings_taken_def sync_fields_def)
  then show ?thesis by (simp add: sync_account_def Let_def revive_settings take_settings)
qed

lemma nonempty_kept: "nonempty x \<noteq> None \<Longrightarrow> nonempty x = x"
  by (cases x) (auto simp: nonempty_def opt_filter_def split: if_splits)

lemma sync_login_taken: "login_taken c a (fst (sync_account I c a))"
proof -
  note kept = sync_account_kept [of I c a, unfolded Let_def]
  have k: "a_kind (sync_fields c a) = a_kind a" "a_provider (sync_fields c a) = a_provider a" by (simp_all add: sync_fields_def)
  have "a_credential (fst (sync_account I c a)) = opt_or (nonempty (ac_api_key c)) (a_credential a)" if "a_kind a = Apikey"
  proof -
    have d: "on_disk I c a = (sync_fields c a)\<lparr>a_credential := nonempty (ac_api_key c)\<rparr>"
      using that k by (simp add: on_disk_def apply_credentials_def)
    then show ?thesis using kept
      by (cases "nonempty (ac_api_key c)") (auto simp: newer_on_disk_def opt_or_def nonempty_def opt_filter_def split: if_splits)
  qed
  moreover have "a_credential (fst (sync_account I c a)) = ac_access_token c
      \<and> a_refresh_token (fst (sync_account I c a)) = nonempty (ac_refresh_token c)"
    if "a_kind a = Oauth" "a_provider a = Anthropic" "ac_import_from c = None" "nonempty (ac_access_token c) \<noteq> None"
      "a_credential a = None \<or> unwrap_or 0 (a_expires_at a) \<le> unwrap_or 0 (ac_expires_at c)"
  proof -
    have d: "on_disk I c a = set_stored_tokens c (sync_fields c a)"
      using that k by (simp add: on_disk_def apply_credentials_def)
    then show ?thesis using kept that(4,5) nonempty_kept [OF that(4)]
      by (auto simp: newer_on_disk_def set_stored_tokens_def split: if_splits)
  qed
  ultimately show ?thesis by (auto simp: login_taken_def)
qed

lemma sync_pool_settings: "pool_settings_taken cfg (pool_or_default cfg (Some pool)) (snd (sync_config I uuid cfg pool f))"
  by (simp add: pool_settings_taken_def sync_config_def sync_settings_def drop_gone_def Let_def)

lemma cleared_settings: "baseline_cleared a a' \<Longrightarrow> settings_taken c a' b = settings_taken c a b \<and> login_taken c a' b = login_taken c a b"
  by (auto simp: baseline_cleared_def settings_taken_def login_taken_def)

text \<open>C21: After a reload the fleet has exactly the configured accounts that it knew or that come with
  a credential, each once and in the order of the file, and the settings of its pool are the file's. A known
  account takes its settings from the file: name, priority, whether it is disabled, upstream, model map, fields to
  strip, limits and linked file, and its identity where the file states one. It
  keeps its runtime state (readings, usage, holds, open requests). Its
  credential changes only to a usable one from the file that does not expire earlier, and an API key or
  a login stored in the file is then taken. The
  cursor, the manual pins and the session pins never name an account that is gone. The accounts of
  the file carry distinct ids, which every load sees to.\<close>

theorem sync_config_correct:
  assumes "config_ids_ok (pc_accounts (pool_or_default cfg (Some pool)))"
    and "sync_config I uuid cfg pool f = (n, g)"
  shows "let cs = pc_accounts (pool_or_default cfg (Some pool)) in
     distinct (fleet_ids g) \<and> pool_settings_taken cfg (pool_or_default cfg (Some pool)) g
   \<and> fleet_ids g = filter (\<lambda>i. i \<in> set (fleet_ids g)) (map (\<lambda>c. the (ac_id c)) cs)
   \<and> (\<forall>c \<in> set cs. \<forall>i. ac_id c = Some i \<longrightarrow>
        (case fleet_account f i of
           None \<Rightarrow> fleet_account g i \<noteq> None \<longleftrightarrow> a_credential (account_from_config I [] c) \<noteq> None
         | Some a \<Rightarrow> (\<exists>b. fleet_account g i = Some b \<and> runtime_of b = runtime_of a
             \<and> settings_taken c a b \<and> login_taken c a b
             \<and> (a_credential b = a_credential a \<and> a_refresh_token b = a_refresh_token a
                \<or> a_credential b \<noteq> None \<and> a_credential b \<noteq> Some []
                  \<and> (a_credential a = None \<or> unwrap_or 0 (a_expires_at a) \<le> unwrap_or 0 (a_expires_at b))))))
   \<and> (\<forall>i. fl_current g = Some i \<longrightarrow> i \<in> set (fleet_ids g))
   \<and> (\<forall>(r, i) \<in> set (fl_route_pins g). i \<in> set (fleet_ids g))
   \<and> (\<forall>sid b i. pinned_account sid b (fl_sessions g) = Some i \<longrightarrow> i \<in> set (fleet_ids g))"
proof -
  let ?cs = "pc_accounts (pool_or_default cfg (Some pool))"
  let ?old = "fl_accounts (sync_settings cfg pool f)"
  have ids: "fleet_ids g = map (\<lambda>c. the (ac_id c)) (filter (\<lambda>c. synced_id I ?old c \<noteq> None) ?cs)"
    by (simp add: fleet_ids_def sync_config_accounts [OF assms] synced_ids [OF assms(1)])
  have sub: "distinct (fleet_ids g)" unfolding ids using distinct_config_ids [OF assms(1)] by (rule distinct_map_filter)
  have order: "fleet_ids g = filter (\<lambda>i. i \<in> set (fleet_ids g)) (map (\<lambda>c. the (ac_id c)) ?cs)"
    unfolding ids by (rule map_filter_order [OF distinct_config_ids [OF assms(1)]])
  obtain h where h: "g = drop_gone (fleet_ids g) h" by (rule sync_config_dropped [OF assms(2)])
  have gone: "fl_current g = Some i \<Longrightarrow> i \<in> set (fleet_ids g)" "(r, i) \<in> set (fl_route_pins g) \<Longrightarrow> i \<in> set (fleet_ids g)"
    "pinned_account sid b (fl_sessions g) = Some i \<Longrightarrow> i \<in> set (fleet_ids g)" for i r sid b
    using drop_gone_frame [of "fleet_ids g" h, folded h] by (auto dest: remap_pins_live)
  have "case fleet_account f i of
           None \<Rightarrow> fleet_account g i \<noteq> None \<longleftrightarrow> a_credential (account_from_config I [] c) \<noteq> None
         | Some a \<Rightarrow> (\<exists>b. fleet_account g i = Some b \<and> runtime_of b = runtime_of a
             \<and> settings_taken c a b \<and> login_taken c a b
             \<and> (a_credential b = a_credential a \<and> a_refresh_token b = a_refresh_token a
                \<or> a_credential b \<noteq> None \<and> a_credential b \<noteq> Some []
                  \<and> (a_credential a = None \<or> unwrap_or 0 (a_expires_at a) \<le> unwrap_or 0 (a_expires_at b))))"
    if c: "c \<in> set ?cs" "ac_id c = Some i" for c i
  proof (cases "fleet_account f i")
    case None
    with settings_account [where f = f and i = i and cfg = cfg and pool = pool] fleet_account_synced [OF assms c] show ?thesis
      by (simp add: synced_def Let_def del: find_None)
  next
    case (Some a)
    with settings_account [where f = f and i = i and cfg = cfg and pool = pool] obtain a' where
      a': "List.find (\<lambda>a. a_id a = i) ?old = Some a'" "baseline_cleared a a'" by auto
    with fleet_account_synced [OF assms c] have b: "fleet_account g i = Some (fst (sync_account I c a'))"
      by (simp add: synced_def)
    from sync_account_kept [of I c a'] sync_account_credential [OF refl, of I c a'] cleared_fields [OF a'(2)]
      sync_settings_taken [of c a' I] sync_login_taken [of c a' I] cleared_settings [OF a'(2), of c]
    show ?thesis by (simp add: Some b Let_def)
  qed
  moreover have "pool_settings_taken cfg (pool_or_default cfg (Some pool)) g"
    using sync_pool_settings [of cfg pool I uuid f] assms(2) by simp
  ultimately show ?thesis using sub order gone unfolding Let_def by blast
qed

definition key_account :: account_config where
  "key_account = account_config_default\<lparr>ac_id := Some ''a'', ac_kind := Apikey, ac_api_key := Some ''k''\<rparr>"

definition key_config :: config where
  "key_config = (config_default ''k'')\<lparr>cf_pools := [(''default'', pool_default\<lparr>pc_accounts := [key_account]\<rparr>)]\<rparr>"

theorem sync_config_correct_witness:
  "fleet_account (snd (sync_config no_files (\<lambda>_. ''u'') key_config ''default'' (demo_fleet []))) ''a'' \<noteq> None"
proof -
  have p: "pc_accounts (pool_or_default key_config (Some ''default'')) = [key_account]"
    by (simp add: pool_or_default_def key_config_def)
  have ok: "config_ids_ok (pc_accounts (pool_or_default key_config (Some ''default'')))"
    by (simp add: p key_account_def config_ids_ok_def)
  obtain n g where r: "sync_config no_files (\<lambda>_. ''u'') key_config ''default'' (demo_fleet []) = (n, g)" by fastforce
  have "a_credential (account_from_config no_files [] key_account) = Some ''k''"
    by (simp add: account_from_config_def apply_credentials_def account_blank_def key_account_def)
  moreover have "fleet_account (demo_fleet []) ''a'' = None" by (simp add: fleet_account_def)
  moreover have "ac_id key_account = Some ''a''" by (simp add: key_account_def)
  ultimately show ?thesis using sync_config_correct [OF ok r] r unfolding p Let_def by simp
qed

subsection \<open>The state file\<close>

definition opt_ok :: "('a \<Rightarrow> bool) \<Rightarrow> 'a option \<Rightarrow> bool" where
  "opt_ok P x \<longleftrightarrow> (case x of Some v \<Rightarrow> P v | None \<Rightarrow> True)"

text \<open>The values a state file can hold: finite shares and 64-bit integers.\<close>

definition bucket_ok :: "bucket \<Rightarrow> bool" where
  "bucket_ok b \<longleftrightarrow> opt_ok is_finite (utilization b) \<and> opt_ok i64_range (reset_at b) \<and> opt_ok i64_range (seen_at b)"

definition quota_ok :: "quota \<Rightarrow> bool" where
  "quota_ok q \<longleftrightarrow>
     list_all bucket_ok [unified5h q, unified7d q, unified7d_fable q, unified7d_sonnet q]
   \<and> bt_inv (scoped_weekly q) \<and> list_all bucket_ok (al_vals (scoped_weekly q))
   \<and> list_all (opt_ok i64_range) [unified_status_seen_at q, tokens_limit q, tokens_remaining q,
                                  requests_limit q, requests_remaining q]
   \<and> spend q \<noteq> Some JNull"

definition usage_ok :: "usage \<Rightarrow> bool" where
  "usage_ok u \<longleftrightarrow> list_all i64_range [us_input u, us_output u, us_cache_read u, us_cache_creation u]"

lemma de_opt_enc:
  "map_of m k = Some (j_or_null enc x) \<Longrightarrow> (\<And>v. x = Some v \<Longrightarrow> enc v \<noteq> JNull \<and> dec (enc v) = Some v) \<Longrightarrow>
   de_opt dec k (JObj m) = Some x"
  by (cases x) (auto simp: de_opt_def j_or_null_def)

lemma opt_ok_SomeD: "opt_ok P x \<Longrightarrow> x = Some v \<Longrightarrow> P v"
  by (simp add: opt_ok_def)

lemma as_f64_enc: "is_finite v \<Longrightarrow> j_f64 v \<noteq> JNull \<and> as_f64 (j_f64 v) = Some v"
  by (simp add: j_f64_def)

lemma bucket_roundtrip: "bucket_ok b \<Longrightarrow> bucket_from_json (bucket_to_json b) = Some b"
proof -
  assume b: "bucket_ok b"
  let ?m = "[(''utilization'', j_or_null j_f64 (utilization b)), (''resetAt'', j_or_null JInt (reset_at b)),
             (''seenAt'', j_or_null JInt (seen_at b))]"
  have u: "de_opt as_f64 ''utilization'' (JObj ?m) = Some (utilization b)"
    using b by (intro de_opt_enc [where enc = j_f64]) (auto simp: bucket_ok_def opt_ok_def as_f64_enc)
  have r: "de_opt as_i64 ''resetAt'' (JObj ?m) = Some (reset_at b)"
    using b by (intro de_opt_enc [where enc = JInt]) (auto simp: bucket_ok_def opt_ok_def)
  have s: "de_opt as_i64 ''seenAt'' (JObj ?m) = Some (seen_at b)"
    using b by (intro de_opt_enc [where enc = JInt]) (auto simp: bucket_ok_def opt_ok_def)
  show ?thesis by (simp add: bucket_from_json_def bucket_to_json_def u r s)
qed

lemma bt_insert_front: "bt_inv ((k, v) # m) \<Longrightarrow> bt_insert k v m = (k, v) # m"
  by (cases m) (auto simp: bt_inv_def)

lemma decode_map_enc:
  "bt_inv m \<Longrightarrow> (\<And>v. v \<in> snd ` set m \<Longrightarrow> dec (enc v) = Some v) \<Longrightarrow>
   decode_map dec (map (\<lambda>(k, v). (k, enc v)) m) = Some m"
proof (induction m)
  case (Cons kv m)
  obtain k v where kv: "kv = (k, v)" by fastforce
  have "bt_inv m" using Cons.prems(1) by (simp add: bt_inv_Cons)
  with Cons.IH Cons.prems(2) have "decode_map dec (map (\<lambda>(k, v). (k, enc v)) m) = Some m" by simp
  with Cons.prems show ?case by (simp add: kv bt_insert_front)
qed simp

lemma map_from_enc:
  "bt_inv m \<Longrightarrow> (\<And>v. v \<in> snd ` set m \<Longrightarrow> dec (enc v) = Some v) \<Longrightarrow>
   map_from_json dec (JObj (map (\<lambda>(k, v). (k, enc v)) m)) = Some m"
  by (simp add: map_from_json_def decode_map_enc)

lemma quota_roundtrip: "quota_ok q \<Longrightarrow> quota_from_json (quota_to_json q) = Some q"
proof -
  assume q: "quota_ok q"
  obtain m where m: "quota_to_json q = JObj m" by (simp add: quota_to_json_def)
  have buckets:
    "de_field bucket_default bucket_from_json ''unified5h'' (quota_to_json q) = Some (unified5h q)"
    "de_field bucket_default bucket_from_json ''unified7d'' (quota_to_json q) = Some (unified7d q)"
    "de_field bucket_default bucket_from_json ''unified7dFable'' (quota_to_json q) = Some (unified7d_fable q)"
    "de_field bucket_default bucket_from_json ''unified7dSonnet'' (quota_to_json q) = Some (unified7d_sonnet q)"
    using q by (simp_all add: de_field_def quota_to_json_def quota_ok_def bucket_roundtrip)
  have "map_from_json bucket_from_json (JObj (map (\<lambda>(k, b). (k, bucket_to_json b)) (scoped_weekly q)))
      = Some (scoped_weekly q)"
    using q by (intro map_from_enc) (auto simp: quota_ok_def list_all_iff bucket_roundtrip)
  then have scoped: "de_field [] (map_from_json bucket_from_json) ''scopedWeekly'' (quota_to_json q) = Some (scoped_weekly q)"
    by (simp add: de_field_def quota_to_json_def)
  have ints: "de_opt as_i64 ''unifiedStatusSeenAt'' (quota_to_json q) = Some (unified_status_seen_at q)"
    "de_opt as_i64 ''tokensLimit'' (quota_to_json q) = Some (tokens_limit q)"
    "de_opt as_i64 ''tokensRemaining'' (quota_to_json q) = Some (tokens_remaining q)"
    "de_opt as_i64 ''requestsLimit'' (quota_to_json q) = Some (requests_limit q)"
    "de_opt as_i64 ''requestsRemaining'' (quota_to_json q) = Some (requests_remaining q)"
    unfolding quota_to_json_def using q
    by (intro de_opt_enc [where enc = JInt]; auto simp: quota_ok_def opt_ok_def)+
  have strs: "de_opt as_str ''unifiedStatus'' (quota_to_json q) = Some (unified_status q)"
    "de_opt as_str ''resetsAt'' (quota_to_json q) = Some (resets_at q)"
    unfolding quota_to_json_def by (intro de_opt_enc [where enc = JStr]; simp)+
  have sp: "de_opt Some ''spend'' (quota_to_json q) = Some (spend q)"
    unfolding quota_to_json_def using q
    by (intro de_opt_enc [where enc = "\<lambda>v. v"]) (auto simp: quota_ok_def)
  show ?thesis
    by (simp add: quota_from_json_def Let_def buckets scoped ints strs sp) (simp add: m)
qed

lemma usage_roundtrip: "usage_ok u \<Longrightarrow> usage_from_json (usage_to_json u) = Some u"
proof -
  assume u: "usage_ok u"
  have "de_opt as_str ''lastUsed'' (usage_to_json u) = Some (us_last_used u)"
    unfolding usage_to_json_def by (intro de_opt_enc [where enc = JStr]; simp)
  moreover have "is_object (usage_to_json u)" by (simp add: usage_to_json_def)
  ultimately show ?thesis
    using u by (simp add: usage_from_json_def Let_def usage_ok_def) (simp add: de_field_def usage_to_json_def)
qed

lemma map_of_fold_insert:
  assumes "distinct (map k as)" and "a \<in> set as"
  shows "map_of (fold (\<lambda>a. bt_insert (k a) (v a)) as m) (k a) = Some (v a)"
proof -
  have keep: "map_of (fold (\<lambda>a. bt_insert (k a) (v a)) bs m) i = map_of m i" if "i \<notin> k ` set bs" for bs m i
    using that by (induction bs arbitrary: m) auto
  from assms show ?thesis
  proof (induction as arbitrary: m)
    case (Cons b as)
    then show ?case by (cases "a = b") (auto simp: keep)
  qed simp
qed

lemma exported_account:
  "distinct (fleet_ids f) \<Longrightarrow> a \<in> set (fl_accounts f) \<Longrightarrow>
   map_of (ps_accounts (export_pool_state f)) (a_id a) = Some (account_state a)"
  by (simp add: export_pool_state_def fleet_ids_def map_of_fold_insert)

lemma bt_insert_append:
  "(\<And>k'. k' \<in> fst ` set m \<Longrightarrow> k' < k) \<Longrightarrow> bt_insert k v m = m @ [(k, v)]"
proof (induction m)
  case (Cons x m)
  obtain a b where x: "x = (a, b)" by fastforce
  have "a < k" using Cons.prems by (simp add: x)
  then have "k \<noteq> a" "\<not> k < a" by auto
  with Cons show ?case by (simp add: x)
qed simp

lemma fold_bt_insert:
  "bt_inv (acc @ m) \<Longrightarrow> fold (\<lambda>(k, v). bt_insert k v) m acc = acc @ m"
proof (induction m arbitrary: acc)
  case (Cons kv m)
  obtain k v where kv: "kv = (k, v)" by fastforce
  have "bt_insert k v acc = acc @ [(k, v)]"
    using Cons.prems by (intro bt_insert_append) (auto simp: kv bt_inv_def sorted_wrt_append)
  with Cons kv show ?case by simp
qed simp

lemma restore_client_enc:
  assumes "bt_inv t" and "list_all usage_ok (al_vals t)"
  shows "restore_client_usage (usage_table_json t) [] = t"
proof -
  have "restore_client_usage (usage_table_json m) acc = fold (\<lambda>(k, v). bt_insert k v) m acc"
    if "list_all usage_ok (al_vals m)" for m acc
    using that by (induction m arbitrary: acc)
      (auto simp: restore_client_usage_def usage_table_json_def usage_roundtrip)
  with assms show ?thesis using fold_bt_insert [of "[]" t] by simp
qed

definition dims_ok :: "(string \<times> (string \<times> usage) list) list \<Rightarrow> bool" where
  "dims_ok ds \<longleftrightarrow> bt_inv ds \<and> (\<forall>(d, t) \<in> set ds. bt_inv t \<and> list_all usage_ok (al_vals t))"

lemma dims_roundtrip:
  assumes "dims_ok ds"
  shows "map_from_json (map_from_json usage_from_json) (JObj (map (\<lambda>(d, t). (d, JObj (usage_table_json t))) ds)) = Some ds"
proof -
  have "map_from_json usage_from_json (JObj (usage_table_json t)) = Some t" if t: "(d, t) \<in> set ds" for d t
  proof -
    have "bt_inv t" "list_all usage_ok (al_vals t)" using t assms by (auto simp: dims_ok_def)
    then show ?thesis unfolding usage_table_json_def
      by (intro map_from_enc) (auto simp: list_all_iff intro!: usage_roundtrip)
  qed
  with assms show ?thesis
    by (intro map_from_enc [where enc = "\<lambda>t. JObj (usage_table_json t)"]) (auto simp: dims_ok_def)
qed

definition saveable :: "fleet \<Rightarrow> bool" where
  "saveable f \<longleftrightarrow> distinct (fleet_ids f)
     \<and> list_all (\<lambda>a. quota_ok (a_quota a) \<and> usage_ok (a_usage a)) (fl_accounts f)
     \<and> bt_inv (fl_client_usage f) \<and> list_all usage_ok (al_vals (fl_client_usage f))
     \<and> dims_ok (fl_dimension_usage f)"

lemma restore_account_fields:
  assumes "quota_ok (a_quota a)" and "usage_ok (a_usage a)"
  shows "let r = restore_account E th now (account_state a) b in
     a_quota r = fst (clear_expired E now (for_bucket th) (a_quota a))
   \<and> a_usage r = (a_usage a)\<lparr>us_failed_requests := us_failed_requests (a_usage b), us_last_used := us_last_used (a_usage b)\<rparr>
   \<and> a_rate_limit_tier r = opt_or (a_rate_limit_tier b) (a_rate_limit_tier a)
   \<and> a_seat_tier r = opt_or (a_seat_tier b) (a_seat_tier a) \<and> a_id r = a_id b"
proof -
  have str: "get_str k (JObj m) = x" if "map_of m k = Some (j_or_null JStr x)" for k m x
    using that by (cases x) (simp_all add: get_str_def j_or_null_def)
  have tier: "get_str ''rateLimitTier'' (account_state a) = a_rate_limit_tier a"
    "get_str ''seatTier'' (account_state a) = a_seat_tier a"
    unfolding account_state_def by (rule str; simp)+
  have "restore_usage (usage_to_json (a_usage a)) u
      = (a_usage a)\<lparr>us_failed_requests := us_failed_requests u, us_last_used := us_last_used u\<rparr>" for u
    using assms(2) by (simp add: restore_usage_def usage_to_json_def usage_ok_def Let_def)
  moreover have "j_get ''usage'' (account_state a) = Some (usage_to_json (a_usage a))"
    "j_get ''quota'' (account_state a) = Some (quota_to_json (a_quota a))"
    by (simp_all add: account_state_def)
  ultimately show ?thesis using assms(1) by (simp add: restore_account_def Let_def tier quota_roundtrip)
qed

text \<open>C22: What is written to the state file comes back: restoring the saved state into a fleet with
  the same accounts and no usage by client yet, as after a start, gives every account its quota readings (those
  expired meanwhile are
  cleared), its request and token counters and, where it had none, its tiers, and gives the
  usage by client and by dimension back exactly. The counts of failed requests and the time
  of the last use are saved but not restored. This is for a state that JSON can hold: the readings are
  finite and the counters within 64 bits, and ids and table keys occur once. The counters always are, but a
  header may bring a reading of NaN or infinity, which is then written as \<open>null\<close> and lost (see the
  findings).\<close>

theorem restore_export:
  assumes "saveable f" and "fl_client_usage f0 = []" and "a \<in> set (fl_accounts f)"
    and "fleet_account f0 (a_id a) = Some b"
  shows "let g = restore_pool_state E (export_pool_state f) now f0 in
     fl_client_usage g = fl_client_usage f \<and> fl_dimension_usage g = fl_dimension_usage f
   \<and> (\<exists>r. fleet_account g (a_id a) = Some r
        \<and> a_quota r = fst (clear_expired E now (for_bucket (fl_threshold f0)) (a_quota a))
        \<and> a_usage r = (a_usage a)\<lparr>us_failed_requests := us_failed_requests (a_usage b),
                                  us_last_used := us_last_used (a_usage b)\<rparr>
        \<and> a_rate_limit_tier r = opt_or (a_rate_limit_tier b) (a_rate_limit_tier a)
        \<and> a_seat_tier r = opt_or (a_seat_tier b) (a_seat_tier a))"
proof -
  let ?st = "export_pool_state f"
  let ?res = "\<lambda>b. case map_of (ps_accounts ?st) (a_id b) of
      Some v \<Rightarrow> restore_account E (fl_threshold f0) now v b | None \<Rightarrow> b"
  have id: "a_id (restore_account E th now v b) = a_id b" for th v b
    by (simp add: restore_account_def Let_def split: option.splits)
  then have res_id: "a_id (?res b) = a_id b" for b by (simp split: option.splits)
  have find: "List.find (\<lambda>b. a_id b = i) (map ?res bs) = map_option ?res (List.find (\<lambda>b. a_id b = i) bs)" for i bs
    by (induction bs) (auto simp: res_id)
  have "a_id b = a_id a" using fleet_account_SomeD [OF assms(4)] by simp
  then have r: "fleet_account (restore_pool_state E ?st now f0) (a_id a)
      = Some (restore_account E (fl_threshold f0) now (account_state a) b)"
    using assms exported_account [of f a] find [of "a_id a" "fl_accounts f0"]
    by (simp add: restore_pool_state_def fleet_account_def saveable_def)
  have ok: "quota_ok (a_quota a)" "usage_ok (a_usage a)"
    using assms(1,3) by (auto simp: saveable_def list_all_iff)
  have tables: "fl_client_usage (restore_pool_state E ?st now f0) = fl_client_usage f"
    "fl_dimension_usage (restore_pool_state E ?st now f0) = fl_dimension_usage f"
    using assms(1,2)
    by (simp_all add: restore_pool_state_def export_pool_state_def saveable_def restore_client_enc dims_roundtrip)
  from r tables restore_account_fields [OF ok, of E "fl_threshold f0" now b] show ?thesis by (simp add: Let_def)
qed

theorem restore_export_witness:
  "fl_client_usage (restore_pool_state ext0 (export_pool_state (demo_fleet [demo_account ''a'' 1])) 5
      (demo_fleet [demo_account ''a'' 2])) = []"
proof -
  have d: "fl_client_usage (demo_fleet as) = []" "fl_dimension_usage (demo_fleet as) = []" for as
    by (simp_all add: demo_fleet_def fleet_blank_def Let_def)
  have u: "usage_ok (a_usage (demo_account ''a'' 1))"
    by (simp add: demo_account_def account_blank_def usage_default_def usage_ok_def i64_range_def i64_min_def i64_max_def)
  have q: "quota_ok quota_default"
    by (simp add: quota_ok_def quota_default_def bucket_default_def bucket_ok_def opt_ok_def)
  have s: "saveable (demo_fleet [demo_account ''a'' 1])"
    using q u by (simp add: saveable_def d dims_ok_def fleet_ids_def)
  have b: "fleet_account (demo_fleet [demo_account ''a'' 2]) (a_id (demo_account ''a'' 1)) = Some (demo_account ''a'' 2)"
    by (simp add: fleet_account_def)
  from restore_export [OF s d(1) _ b] show ?thesis by (simp add: Let_def d)
qed

end
