(* ===== verification/Fleet_Reach.thy ===== *)
theory Fleet_Reach
  imports Sync_Props
begin

text \<open>
  Every critical section of the manager as a step on the fleet, and what holds in every
  state they can reach, however requests, the prober, the operator and reloads interleave.
\<close>

subsection \<open>The invariant and its contract\<close>

definition cursor_in :: "fleet \<Rightarrow> bool" where
  "cursor_in f \<longleftrightarrow> (\<forall>i. fl_current f = Some i \<longrightarrow> i \<in> set (fleet_ids f))"

definition fleet_wf :: "fleet \<Rightarrow> bool" where
  "fleet_wf f \<longleftrightarrow> distinct (fleet_ids f) \<and> cursor_in f \<and> tracker_inv (fl_sessions f)
     \<and> distinct (al_keys (fl_route_pins f))"

text \<open>An operation that keeps the invariant, and one that also keeps who is in the fleet.\<close>

locale fleet_op =
  fixes run_op :: "fleet \<Rightarrow> fleet"
  assumes run_wf: "fleet_wf f \<Longrightarrow> fleet_wf (run_op f)"

locale member_op = fleet_op +
  assumes run_ids: "fleet_wf f \<Longrightarrow> fleet_ids (run_op f) = fleet_ids f"

text \<open>A change of one account that keeps its id.\<close>

locale account_fn =
  fixes g :: "account \<Rightarrow> account"
  assumes g_id: "a_id (g a) = a_id a"
begin

lemma upd_wf: "fleet_wf f \<Longrightarrow> fleet_wf (upd_account i g f)"
  by (simp add: fleet_wf_def cursor_in_def fleet_ids_upd g_id)

lemma upd_ids: "fleet_ids (upd_account i g f) = fleet_ids f"
  by (simp add: fleet_ids_upd g_id)

end

sublocale account_fn \<subseteq> upd: member_op "upd_account i g" for i
  by unfold_locales (simp_all add: upd_wf upd_ids)

context tracker_op
begin

lemma sessions_wf: "fleet_wf f \<Longrightarrow> fleet_wf (fl_sessions_update op f)"
  by (simp add: fleet_wf_def cursor_in_def fleet_ids_def op_inv)

end

subsection \<open>The operations keep it\<close>

interpretation hold_fn: account_fn "hold_account now secs quot" for now secs quot
  by unfold_locales simp

interpretation lift_fn: account_fn lift_hold
  by unfold_locales simp

interpretation usage_fn: account_fn "usage_account u now" for u now
  by unfold_locales simp

interpretation profile_fn: account_fn "profile_account p" for p
  by unfold_locales simp

interpretation observe_fn: account_fn "observe_account E th h now" for E th h now
  by unfold_locales simp

interpretation failed_fn: account_fn count_failed
  by unfold_locales simp

interpretation admit_fn: account_fn admit_account
  by unfold_locales simp

interpretation end_ramp_fn: account_fn admit_end_ramp
  by unfold_locales simp

interpretation drop_fn: account_fn drop_slot
  by unfold_locales simp

interpretation error_fn: account_fn "error_account m" for m
  by unfold_locales simp

interpretation install_fn: account_fn "install_tokens rt t now" for rt t now
  by unfold_locales simp

interpretation reject_fn: account_fn "reject_account on_fail rt now" for on_fail rt now
  by unfold_locales simp

interpretation adopt_fn: account_fn "adopt_file fresh" for fresh
  by unfold_locales simp

lemmas account_fns_wf =
  hold_fn.upd_wf lift_fn.upd_wf usage_fn.upd_wf profile_fn.upd_wf observe_fn.upd_wf failed_fn.upd_wf
  admit_fn.upd_wf end_ramp_fn.upd_wf drop_fn.upd_wf error_fn.upd_wf install_fn.upd_wf
  reject_fn.upd_wf adopt_fn.upd_wf

lemma upd_account_wf: "(\<And>a. a_id (g a) = a_id a) \<Longrightarrow> fleet_wf f \<Longrightarrow> fleet_wf (upd_account i g f)"
  using account_fn.upd_wf [of g] by (simp add: account_fn_def)

text \<open>Fields outside the invariant.\<close>

lemma fleet_wf_cong:
  "fleet_wf f \<Longrightarrow> fleet_ids g = fleet_ids f \<Longrightarrow> fl_current g = fl_current f \<Longrightarrow> fl_sessions g = fl_sessions f \<Longrightarrow>
   fl_route_pins g = fl_route_pins f \<Longrightarrow> fleet_wf g"
  by (simp add: fleet_wf_def cursor_in_def)

lemma fleet_wf_frame [simp]:
  "fleet_wf (fl_probe_update p f) = fleet_wf f" "fleet_wf (fl_client_usage_update c f) = fleet_wf f"
  "fleet_wf (fl_dimension_usage_update d f) = fleet_wf f"
  "fleet_wf (fl_update_available_update t f) = fleet_wf f"
  "fleet_wf (fl_update_checked_at_update t' f) = fleet_wf f"
  by (simp_all add: fleet_wf_def cursor_in_def fleet_ids_def)

lemma fleet_wf_map:
  "(\<And>a. a_id (g a) = a_id a) \<Longrightarrow> fleet_wf f \<Longrightarrow> fleet_wf (f\<lparr>fl_accounts := map g (fl_accounts f)\<rparr>)"
  by (erule fleet_wf_cong) (simp_all add: fleet_ids_def comp_def)

lemma account_in_fleet: "fleet_account f i = Some a \<Longrightarrow> i \<in> set (fleet_ids f)"
  using fleet_account_None [of f i] by auto

lemma set_current_cursor:
  "cursor_in f \<Longrightarrow> i \<in> set (fleet_ids f) \<Longrightarrow> cursor_in (set_current i now scoped f)
     \<and> fleet_ids (set_current i now scoped f) = fleet_ids f"
  by (simp add: cursor_in_def current_bk.mv_ids)
    (simp add: set_current_def Let_def begin_ramp_def)

lemma note_baseline_cursor [simp]: "cursor_in (note_baseline i m f) = cursor_in f"
  by (simp add: cursor_in_def baseline_bk.mv_ids) (simp add: note_baseline_def)

lemma ramp_if_cold_cursor [simp]: "cursor_in (ramp_if_cold i now f) = cursor_in f"
  by (simp add: cursor_in_def cold_bk.mv_ids) (simp add: ramp_if_cold_def Let_def)

lemma best_in_fleet: "best E f req now = Some b \<Longrightarrow> a_id b \<in> set (fleet_ids f)"
  by (drule best_can_take) (simp add: fleet_ids_def)

lemma answer_snd [simp]: "snd (answer E a f) = f"
  by (simp add: answer_def)

lemma cursor_orelse:
  "cursor_in (snd r) \<Longrightarrow> (\<And>h. cursor_in h \<Longrightarrow> cursor_in (snd (k h))) \<Longrightarrow> cursor_in (snd (orelse r k))"
  by (cases r; cases "fst r") (auto simp: orelse_def)

lemma cursor_go_best:
  assumes "cursor_in f" and "\<And>i h. cursor_in h \<Longrightarrow> i \<in> set (fleet_ids h) \<Longrightarrow> cursor_in (mv i h)"
  shows "cursor_in (snd (go_best E req now mv f))"
  using assms best_in_fleet by (auto simp: go_best_def Let_def split: option.splits)

lemma cursor_steps:
  assumes "cursor_in f"
  shows "cursor_in (snd (step_route_pin E req now f))" "cursor_in (snd (step_session E req now f))"
    "cursor_in (snd (step_current E req now f))" "cursor_in (snd (step_best E req now f))"
    "cursor_in (snd (step_probe E req now f))"
proof -
  show "cursor_in (snd (step_route_pin E req now f))" using assms by (simp add: step_route_pin_def)
  have aff: "cursor_in (snd (step_affinity E req now sid h))" if "cursor_in h" for sid h
    using that by (simp add: step_affinity_def split: option.splits)
  have spread: "cursor_in (snd (step_spread E req now h))" if "cursor_in h" for h
    using that best_in_fleet set_current_cursor by (auto simp: step_spread_def Let_def split: option.splits)
  show "cursor_in (snd (step_session E req now f))"
    using assms aff spread by (auto simp: step_session_def intro!: cursor_orelse split: option.splits)
  have req: "cursor_in (snd (step_requalify E req now a h))" if "cursor_in h" for a h
  proof -
    have "cursor_in (upd_account (a_id a) (a_requalify_update (\<lambda>_. False)) h)"
      using that by (simp add: cursor_in_def requalify_bk.mv_ids)
    with that show ?thesis
      using set_current_cursor by (auto simp: step_requalify_def intro!: cursor_go_best)
  qed
  have sticky: "cursor_in (snd (step_sticky E req now a h))" if "cursor_in h" for a h
    using that set_current_cursor
    by (auto simp: step_sticky_def Let_def intro!: cursor_orelse cursor_go_best)
  show "cursor_in (snd (step_current E req now f))"
    using assms req sticky by (auto simp: step_current_def intro!: cursor_orelse split: option.splits)
  show "cursor_in (snd (step_best E req now f))"
    using assms set_current_cursor by (auto simp: step_best_def intro!: cursor_go_best)
  show "cursor_in (snd (step_probe E req now f))"
    using assms by (auto simp: step_probe_def Let_def cursor_in_def probe_bk.mv_ids split: option.splits)
qed

interpretation select_op: member_op "\<lambda>f. snd (select_account E req now f)" for E req now
proof
  fix f assume wf: "fleet_wf f"
  let ?g = "clear_expired_all E now f"
  have g: "fleet_wf ?g" unfolding clear_expired_all_def
    using wf by (intro fleet_wf_map id_clear_expired)
  have core: "fleet_core (snd (select_steps E req now ?g)) = fleet_core ?g"
    using sound_select_steps [of ?g] g by (auto simp: sound_def fleet_wf_def)
  have cursor: "cursor_in (snd (select_steps E req now ?g))"
    unfolding select_steps_def using g by (intro cursor_orelse cursor_steps) (simp_all add: fleet_wf_def)
  have same: "fleet_ids h = fleet_ids ?g \<and> fl_sessions h = fl_sessions ?g \<and> fl_route_pins h = fl_route_pins ?g"
    if "fleet_core h = fleet_core ?g" for h
    using same_ids [OF that] arg_cong [OF that, of fl_sessions] arg_cong [OF that, of fl_route_pins] by simp
  have steps: "snd (select_account E req now f) = (case sq_pin req of Some _ \<Rightarrow> ?g | None \<Rightarrow> snd (select_steps E req now ?g))"
    by (auto simp: select_account_eq Let_def split: option.splits prod.splits)
  show "fleet_wf (snd (select_account E req now f))"
    using g cursor same [OF core] by (simp add: steps fleet_wf_def split: option.split)
  show "fleet_ids (snd (select_account E req now f)) = fleet_ids f"
    using same [OF core] by (simp add: steps ids_clear_expired split: option.split)
qed

lemma quota_ops_wf:
  assumes "fleet_wf f"
  shows "fleet_wf (snd (update_quota E i h now f))" "fleet_wf (snd (fleet_apply_usage i u now f))"
    "fleet_wf (apply_profile i p f)" "fleet_wf (hold i secs quot now f)"
    "fleet_wf (snd (note_headerless_429 i now f))" "fleet_wf (clear_rate_limited i f)"
  using assms account_fns_wf
  by (auto simp: update_quota_def fleet_apply_usage_def apply_profile_def hold_def note_headerless_429_def
      clear_rate_limited_def Let_def intro!: upd_account_wf split: option.splits)

lemma error_ops_wf:
  assumes "fleet_wf f"
  shows "fleet_wf (mark_entitlement_denied i now f)" "fleet_wf (mark_error i m f)"
    "fleet_wf (record_failure i f)" "fleet_wf (clear_error i f)"
  using assms account_fns_wf
  by (auto simp: mark_entitlement_denied_def mark_error_def record_failure_def clear_error_def intro!: upd_account_wf)

lemma slot_ops_wf:
  assumes "fleet_wf f"
  shows "fleet_wf (snd (try_admit i now f))" "fleet_wf (release_slot i f)"
    "fleet_wf (open_request i f)" "fleet_wf (close_request i f)"
  using assms account_fns_wf
  by (auto simp: try_admit_def release_slot_def open_request_def close_request_def Let_def
      intro!: upd_account_wf split: option.splits)

lemma usage_ops_wf:
  assumes "fleet_wf f"
  shows "fleet_wf (record_token_usage_dims E i session client dims model usage now f)"
    "fleet_wf (record_session session i model now f)" "fleet_wf (begin_session_request session client now f)"
    "fleet_wf (end_session_request session now f)"
proof -
  let ?f1 = "upd_account i (a_usage_update (add_usage usage))
      (fl_dimension_usage_update (fold (bill_dimension E now usage) dims) f)"
  have "fleet_wf ?f1" using assms by (intro upd_account_wf) simp_all
  then show "fleet_wf (record_token_usage_dims E i session client dims model usage now f)"
    by (auto simp: record_token_usage_dims_def Let_def intro: tokens_op.sessions_wf split: option.split)
  show "fleet_wf (record_session session i model now f)"
    using assms by (auto simp: record_session_def intro: touch_op.sessions_wf split: option.split)
  show "fleet_wf (begin_session_request session client now f)"
    using assms by (auto simp: begin_session_request_def intro: begin_op.sessions_wf split: option.split)
  show "fleet_wf (end_session_request session now f)"
    using assms by (auto simp: end_session_request_def intro: end_op.sessions_wf split: option.split)
qed

lemma switch_to_wf: "fleet_wf f \<Longrightarrow> fleet_wf (snd (switch_to E i now f))"
  using account_in_fleet [of f i]
  by (auto simp: switch_to_def begin_ramp_def fleet_wf_def cursor_in_def fleet_ids_upd split: option.split)
    (simp_all add: fleet_ids_def)

lemma set_route_pin_wf: "fleet_wf f \<Longrightarrow> fleet_wf (set_route_pin route i f)"
  by (auto simp: set_route_pin_def fleet_wf_def cursor_in_def fleet_ids_def distinct_update distinct_delete
      split: option.split)

lemma probe_ops_wf:
  assumes "fleet_wf f"
  shows "fleet_wf (snd (set_update_available tag now f))" "fleet_wf (snd (take_probe_recheck f))"
    "fleet_wf (probe_run_started now next f)" "fleet_wf (probe_run_finished now next f)"
    "fleet_wf (probe_account_status i st t0 t1 err f)" "fleet_wf (snd (warn_login_expiry now f))"
proof -
  have "a_id (warn_account now a) = a_id a" for a by (simp add: warn_account_def split: option.split)
  then show "fleet_wf (snd (warn_login_expiry now f))"
    unfolding warn_login_expiry_def snd_conv using assms by (intro fleet_wf_map)
  show "fleet_wf (snd (set_update_available tag now f))" "fleet_wf (snd (take_probe_recheck f))"
    "fleet_wf (probe_run_started now next f)" "fleet_wf (probe_run_finished now next f)"
    "fleet_wf (probe_account_status i st t0 t1 err f)"
    using assms by (simp_all add: set_update_available_def take_probe_recheck_def probe_run_started_def
        probe_run_finished_def probe_account_status_def)
qed

lemma token_ops_wf:
  assumes "fleet_wf f"
  shows "fleet_wf (snd (refresh_prepare i force on_fail now f))" "fleet_wf (refresh_settle i on_fail rt r now f)"
    "fleet_wf (snd (reread_settle i path held fresh now f))"
  using assms account_fns_wf
  by (auto simp: refresh_prepare_def refresh_settle_def reread_settle_def Let_def
      intro!: upd_account_wf split: option.splits sum.splits)

lemma restore_wf: "fleet_wf f \<Longrightarrow> fleet_wf (restore_pool_state E st now f)"
proof -
  assume wf: "fleet_wf f"
  have "a_id (restore_account E th now v b) = a_id b" for th v b
    by (simp add: restore_account_def Let_def split: option.splits)
  then have "fleet_ids (restore_pool_state E st now f) = fleet_ids f"
    by (auto simp: restore_pool_state_def fleet_ids_def comp_def split: option.splits)
  with wf show ?thesis by (rule fleet_wf_cong) (simp_all add: restore_pool_state_def)
qed

lemma sync_wf:
  assumes "fleet_wf f" and "config_ids_ok (pc_accounts (pool_or_default cfg (Some pool)))"
  shows "fleet_wf (snd (sync_config I uuid cfg pool f))"
proof -
  obtain n g where r: "sync_config I uuid cfg pool f = (n, g)" by fastforce
  obtain h where h: "g = drop_gone (fleet_ids g) h" "fl_sessions h = fl_sessions f" "fl_route_pins h = fl_route_pins f"
    by (rule sync_config_dropped [OF r])
  have "fleet_ids g = map (\<lambda>c. the (ac_id c)) (filter (\<lambda>c. synced_id I (fl_accounts (sync_settings cfg pool f)) c \<noteq> None)
      (pc_accounts (pool_or_default cfg (Some pool))))"
    by (simp add: fleet_ids_def sync_config_accounts [OF assms(2) r] synced_ids [OF assms(2)])
  then have "distinct (fleet_ids g)" using distinct_map_filter [OF distinct_config_ids [OF assms(2)]] by simp
  moreover have "tracker_inv (remap_accounts (fleet_ids g) (fl_sessions f))" "distinct (al_keys (fl_route_pins f))"
    using assms(1) by (simp_all add: fleet_wf_def remap_op.op_inv)
  ultimately show ?thesis
    using drop_gone_frame [of "fleet_ids g" h, folded h(1)] h(2,3)
    by (auto simp: r fleet_wf_def cursor_in_def distinct_keys_filter)
qed

subsection \<open>Runs of a fleet\<close>

text \<open>One rule per critical section; \<open>E\<close> is the environment, \<open>I\<close> reads credential files.\<close>

inductive fleet_step :: "ext \<Rightarrow> importer \<Rightarrow> fleet \<Rightarrow> fleet \<Rightarrow> bool" for E I where
  do_select: "fleet_step E I f (snd (select_account E req now f))"
| do_admit: "fleet_step E I f (snd (try_admit i now f))"
| do_release: "fleet_step E I f (release_slot i f)"
| do_open: "fleet_step E I f (open_request i f)"
| do_close: "fleet_step E I f (close_request i f)"
| do_headers: "fleet_step E I f (snd (update_quota E i h now f))"
| do_usage: "fleet_step E I f (snd (fleet_apply_usage i u now f))"
| do_profile: "fleet_step E I f (apply_profile i p f)"
| do_hold: "fleet_step E I f (hold i secs quot now f)"
| do_429: "fleet_step E I f (snd (note_headerless_429 i now f))"
| do_clear: "fleet_step E I f (clear_rate_limited i f)"
| do_denied: "fleet_step E I f (mark_entitlement_denied i now f)"
| do_error: "fleet_step E I f (mark_error i m f)"
| do_failure: "fleet_step E I f (record_failure i f)"
| do_clear_error: "fleet_step E I f (clear_error i f)"
| do_tokens: "fleet_step E I f (record_token_usage_dims E i session client dims model usage now f)"
| do_session: "fleet_step E I f (record_session session i model now f)"
| do_begin: "fleet_step E I f (begin_session_request session client now f)"
| do_end: "fleet_step E I f (end_session_request session now f)"
| do_switch: "fleet_step E I f (snd (switch_to E i now f))"
| do_pin: "fleet_step E I f (set_route_pin route pin f)"
| do_update: "fleet_step E I f (snd (set_update_available tag now f))"
| do_recheck: "fleet_step E I f (snd (take_probe_recheck f))"
| do_probe_start: "fleet_step E I f (probe_run_started now next f)"
| do_probe_end: "fleet_step E I f (probe_run_finished now next f)"
| do_probe_status: "fleet_step E I f (probe_account_status i st t0 t1 err f)"
| do_warn: "fleet_step E I f (snd (warn_login_expiry now f))"
| do_prepare: "fleet_step E I f (snd (refresh_prepare i force on_fail now f))"
| do_settle: "fleet_step E I f (refresh_settle i on_fail rt r now f)"
| do_reread: "fleet_step E I f (snd (reread_settle i path held fresh now f))"
| do_restore: "fleet_step E I f (restore_pool_state E saved now f)"
| do_sync: "config_ids_ok (pc_accounts (pool_or_default cfg (Some pool))) \<Longrightarrow>
    fleet_step E I f (snd (sync_config I uuid cfg pool f))"

inductive fleet_reach :: "ext \<Rightarrow> importer \<Rightarrow> fleet \<Rightarrow> bool" for E I where
  start: "config_ids_ok (pc_accounts (pool_or_default cfg (Some pool))) \<Longrightarrow>
    fleet_reach E I (manager_new I uuid cfg pool now)"
| step: "fleet_reach E I f \<Longrightarrow> fleet_step E I f g \<Longrightarrow> fleet_reach E I g"

inductive_cases fleet_stepE: "fleet_step E I f g"

lemma fleet_step_wf: "fleet_step E I f g \<Longrightarrow> fleet_wf f \<Longrightarrow> fleet_wf g"
  by (erule fleet_stepE)
    (simp_all add: select_op.run_wf quota_ops_wf error_ops_wf slot_ops_wf usage_ops_wf switch_to_wf
      set_route_pin_wf probe_ops_wf token_ops_wf restore_wf sync_wf)

lemma fleet_blank_wf: "fleet_wf (fleet_blank cfg pool now)"
  by (simp add: fleet_wf_def fleet_blank_def Let_def cursor_in_def fleet_ids_def tracker_inv_def
      tracker_new_def all_keys_def)

lemma fleet_reach_inv: "fleet_reach E I f \<Longrightarrow> fleet_wf f"
  by (induction rule: fleet_reach.induct)
    (auto simp: manager_new_def intro: fleet_blank_wf sync_wf fleet_step_wf)

text \<open>C10: However requests, token refreshes, probes, operator commands and reloads of a valid
  configuration interleave, from the moment the fleet is built: every account is in it once,
  the current account is one of them, there is at most one manual pin per route, the tracker
  holds at most 10000 sessions, each once and under a valid id, and whichever request is
  selected for is answered with an account of the fleet or not at all.\<close>

theorem fleet_reach_wf:
  assumes "fleet_reach E I f"
  shows "distinct (fleet_ids f)
    \<and> (\<forall>i. fl_current f = Some i \<longrightarrow> (\<exists>a. fleet_account f i = Some a))
    \<and> distinct (al_keys (fl_route_pins f))
    \<and> length (st_sessions (fl_sessions f)) \<le> 10000 \<and> distinct (al_keys (st_sessions (fl_sessions f)))
    \<and> (\<forall>sid. al_has (st_sessions (fl_sessions f)) sid \<longrightarrow> sid \<noteq> [] \<and> length sid \<le> 128 \<and> list_all session_char sid)
    \<and> (\<forall>req now s. fst (select_account E req now f) = SelAccount s \<longrightarrow> (\<exists>a. fleet_account f (sel_id s) = Some a))"
proof -
  have wf: "fleet_wf f" by (rule fleet_reach_inv [OF assms])
  then have d: "distinct (fleet_ids f)" by (simp add: fleet_wf_def)
  have "\<exists>a. fleet_account f (sel_id s) = Some a"
    if s: "fst (select_account E req now f) = SelAccount s" for req now s
  proof -
    have "select_account E req now f = (SelAccount s, snd (select_account E req now f))"
      by (metis s prod.collapse)
    from selected_account [OF d this] obtain b where
      "fleet_account (clear_expired_all E now f) (sel_id s) = Some b" by (elim exE conjE)
    then show ?thesis by (auto simp: fleet_account_clear)
  qed
  moreover have "\<exists>a. fleet_account f i = Some a" if "fl_current f = Some i" for i
    using wf that fleet_account_None [of f i] by (auto simp: fleet_wf_def cursor_in_def)
  moreover have "valid_session_id sid" if "al_has (st_sessions (fl_sessions f)) sid" for sid
    using wf that all_keys_lookup by (fastforce simp: fleet_wf_def tracker_inv_def)
  ultimately show ?thesis using wf by (auto simp: fleet_wf_def tracker_inv_def MAX_SESSIONS_def valid_session_id_def)
qed

theorem fleet_reach_wf_witness:
  "distinct (fleet_ids (hold ''a'' 60 True 5 (manager_new no_files (\<lambda>_. ''u'') key_config ''default'' 0)))"
proof -
  have "config_ids_ok (pc_accounts (pool_or_default key_config (Some ''default'')))"
    by (simp add: pool_or_default_def key_config_def key_account_def config_ids_ok_def)
  then have "fleet_reach ext0 no_files (hold ''a'' 60 True 5 (manager_new no_files (\<lambda>_. ''u'') key_config ''default'' 0))"
    by (intro fleet_reach.step [OF fleet_reach.start do_hold])
  from fleet_reach_wf [OF this] show ?thesis by blast
qed

end
