(* ===== verification/Pools.thy ===== *)
theory Pools
  imports Fleet_Reach
begin

text \<open>
  \<open>src/pools.rs\<close>: the pool named in a URL or in the proxy user name, and the registry of
  live fleets. The registry maps pool names to fleets in the order of the names; times of
  warnings are in milliseconds of a monotonic clock.
\<close>

subsection \<open>Pool names in requests\<close>

definition POOL_PREFIX :: string where "POOL_PREFIX = ''/pool/''"

definition name_end :: "char \<Rightarrow> bool" where
  "name_end c \<longleftrightarrow> c = CHR ''/'' \<or> c = CHR ''?'' \<or> c = CHR ''#''"

definition parse_pool_path :: "string \<Rightarrow> (string \<times> string) option" where
  "parse_pool_path path =
     (case strip_prefix POOL_PREFIX path of
        None \<Rightarrow> None
      | Some rest \<Rightarrow>
          let name = takeWhile (\<lambda>c. \<not> name_end c) rest; tail = dropWhile (\<lambda>c. \<not> name_end c) rest
          in if name = [] then None
             else Some (name, if tail = [] then ''/''
                              else if starts_with ''/'' tail then tail else ''/'' @ tail))"

definition clean_part :: "string \<Rightarrow> string option" where
  "clean_part s = opt_filter (\<lambda>t. t \<noteq> []) (Some (trim s))"

text \<open>\<open>split_pin_pool\<close>: the separator is \<open>~\<close>.\<close>

definition split_pin_pool :: "string \<Rightarrow> string option \<times> string option" where
  "split_pin_pool user =
     (case split_once CHR 0x7E user of
        Some (p, pool) \<Rightarrow> (clean_part p, clean_part pool)
      | None \<Rightarrow> (clean_part user, None))"

subsection \<open>The registry\<close>

record registry =
  rg_map :: "(string \<times> fleet) list"
  rg_default :: string
  rg_unknown :: "(string \<times> int) list"

definition UNKNOWN_WARN_EVERY :: int where [time_consts]: "UNKNOWN_WARN_EVERY = 60 * 1000"
definition UNKNOWN_WARN_MAX :: nat where "UNKNOWN_WARN_MAX = 64"

text \<open>\<open>None\<close> is the panic on an empty registry.\<close>

definition pools_resolve :: "registry \<Rightarrow> string option \<Rightarrow> (string \<times> fleet) option" where
  "pools_resolve r name =
     (case Option.bind name (\<lambda>n. map_option (Pair n) (map_of (rg_map r) n)) of
        Some x \<Rightarrow> Some x
      | None \<Rightarrow>
          (case map_of (rg_map r) (rg_default r) of
             Some f \<Rightarrow> Some (rg_default r, f)
           | None \<Rightarrow> (case rg_map r of [] \<Rightarrow> None | x # _ \<Rightarrow> Some x)))"

text \<open>The answer is whether a warning is written.\<close>

definition recent_unknown :: "int \<Rightarrow> int \<Rightarrow> bool" where
  "recent_unknown now t \<longleftrightarrow> now - t < UNKNOWN_WARN_EVERY"

definition warn_unknown :: "string \<Rightarrow> int \<Rightarrow> registry \<Rightarrow> bool \<times> registry" where
  "warn_unknown name now r =
     (if (case map_of (rg_unknown r) name of Some t \<Rightarrow> recent_unknown now t | None \<Rightarrow> False) then (False, r)
      else let u = (if UNKNOWN_WARN_MAX \<le> length (rg_unknown r)
                    then filter (\<lambda>(_, t). recent_unknown now t) (rg_unknown r) else rg_unknown r)
           in (True, r\<lparr>rg_unknown := bt_insert name now u\<rparr>))"

definition resolve_request :: "string option \<Rightarrow> int \<Rightarrow> registry \<Rightarrow> (string \<times> fleet) option \<times> registry" where
  "resolve_request name now r =
     (case name of
        Some n \<Rightarrow>
          (case map_of (rg_map r) n of
             Some f \<Rightarrow> (Some (n, f), r)
           | None \<Rightarrow> (let r' = snd (warn_unknown n now r) in (pools_resolve r' None, r')))
      | None \<Rightarrow> (pools_resolve r None, r))"

definition registry_names :: "registry \<Rightarrow> string list" where
  "registry_names r =
     (let names = sort (filter (\<lambda>k. k \<noteq> rg_default r) (al_keys (rg_map r)))
      in if al_has (rg_map r) (rg_default r) then rg_default r # names else names)"

definition each_pool :: "registry \<Rightarrow> (string \<times> fleet) list" where
  "each_pool r =
     (case map_of (rg_map r) (rg_default r) of Some f \<Rightarrow> [(rg_default r, f)] | None \<Rightarrow> [])
     @ filter (\<lambda>(k, _). k \<noteq> rg_default r) (rg_map r)"

definition default_fleet :: "registry \<Rightarrow> fleet option" where
  "default_fleet r =
     opt_or (map_of (rg_map r) (rg_default r)) (case rg_map r of [] \<Rightarrow> None | (_, f) # _ \<Rightarrow> Some f)"

text \<open>One pool of the configuration: re-sync the fleet it has, or build one.\<close>

definition sync_pool ::
  "importer \<Rightarrow> (nat \<Rightarrow> string) \<Rightarrow> config \<Rightarrow> int \<Rightarrow> string \<Rightarrow> nat \<times> (string \<times> fleet) list
   \<Rightarrow> nat \<times> (string \<times> fleet) list" where
  "sync_pool I uuid cfg now name acc =
     (case acc of (added, m) \<Rightarrow>
        (case map_of m name of
           Some f \<Rightarrow> (case sync_config I uuid cfg name f of (n, g) \<Rightarrow> (added + n, bt_insert name g m))
         | None \<Rightarrow>
             let f = manager_new I uuid cfg name now
             in (added + length (account_ids f), bt_insert name f m)))"

definition pools_sync :: "importer \<Rightarrow> (nat \<Rightarrow> string) \<Rightarrow> config \<Rightarrow> int \<Rightarrow> registry \<Rightarrow> nat \<times> registry" where
  "pools_sync I uuid cfg now r =
     (let kept = filter (\<lambda>(k, _). al_has (cf_pools cfg) k) (rg_map r);
          (added, m) = fold (sync_pool I uuid cfg now) (al_keys (cf_pools cfg)) (0, kept)
      in (added, r\<lparr>rg_map := m, rg_default := cf_default_pool cfg\<rparr>))"

definition pools_new :: "importer \<Rightarrow> (nat \<Rightarrow> string) \<Rightarrow> config \<Rightarrow> int \<Rightarrow> registry" where
  "pools_new I uuid cfg now =
     snd (pools_sync I uuid cfg now \<lparr>rg_map = [], rg_default = cf_default_pool cfg, rg_unknown = []\<rparr>)"

definition registry_rename :: "string \<Rightarrow> string \<Rightarrow> registry \<Rightarrow> registry" where
  "registry_rename old new r =
     (if old = new \<or> al_has (rg_map r) new then r
      else (case map_of (rg_map r) old of
              None \<Rightarrow> r
            | Some f \<Rightarrow> r\<lparr>rg_map := bt_insert new f (AList.delete old (rg_map r)),
                          rg_default := (if rg_default r = old then new else rg_default r)\<rparr>))"

definition export_state :: "ext \<Rightarrow> int \<Rightarrow> registry \<Rightarrow> saved_state" where
  "export_state E now r =
     fold (\<lambda>(n, f). set_pool n (rg_default r) (export_pool_state f)) (each_pool r)
       (state_default\<lparr>ss_version := 2, ss_saved_at := Some (iso_of E now)\<rparr>)"

definition restore_state :: "ext \<Rightarrow> saved_state \<Rightarrow> int \<Rightarrow> registry \<Rightarrow> registry" where
  "restore_state E st now r =
     r\<lparr>rg_map := map (\<lambda>(n, f). (n, case state_pool st n (rg_default r) of
                                      Some ps \<Rightarrow> restore_pool_state E ps now f | None \<Rightarrow> f)) (rg_map r)\<rparr>"

definition account_count :: "registry \<Rightarrow> nat" where
  "account_count r = sum_list (map (\<lambda>(_, f). length (account_ids f)) (each_pool r))"

definition pools_find_account :: "registry \<Rightarrow> string \<Rightarrow> (string \<times> fleet \<times> string) option" where
  "pools_find_account r needle =
     find_map (\<lambda>(n, f). map_option (\<lambda>i. (n, f, i)) (resolve_pin f needle)) (each_pool r)"

definition pool_state_is_empty :: "pool_state \<Rightarrow> bool" where
  "pool_state_is_empty st \<longleftrightarrow>
     ps_accounts st = [] \<and> ps_client_usage st = [] \<and> ps_dimension_usage st = JNull"

end
