(* ===== verification/Pools_Props.thy ===== *)
theory Pools_Props
  imports Pools
begin

text \<open>
  Requests reach the pool they name, the registry follows the configuration, and a renamed
  pool keeps its fleet.
\<close>

subsection \<open>The path\<close>

lemma takeWhile_name:
  "\<forall>c \<in> set name. \<not> name_end c \<Longrightarrow> tail = [] \<or> name_end (hd tail) \<Longrightarrow>
   takeWhile (\<lambda>c. \<not> name_end c) (name @ tail) = name \<and> dropWhile (\<lambda>c. \<not> name_end c) (name @ tail) = tail"
  by (cases tail) (auto simp: takeWhile_append2 dropWhile_append2)

lemma starts_slash: "starts_with ''/'' s \<longleftrightarrow> (\<exists>t. s = CHR ''/'' # t)"
  by (cases s) (simp_all add: starts_with_def eq_commute)

lemma pool_path_named:
  assumes "pool \<noteq> []" and "\<forall>c \<in> set pool. \<not> name_end c"
  shows "parse_pool_path (POOL_PREFIX @ pool @ CHR ''/'' # t) = Some (pool, CHR ''/'' # t)"
proof -
  have "takeWhile (\<lambda>c. \<not> name_end c) (pool @ CHR ''/'' # t) = pool"
    "dropWhile (\<lambda>c. \<not> name_end c) (pool @ CHR ''/'' # t) = CHR ''/'' # t"
    using assms(2) by (simp_all add: takeWhile_append2 dropWhile_append2 name_end_def)
  with assms(1) show ?thesis by (simp add: parse_pool_path_def Let_def starts_with_Cons)
qed

lemma pool_path_split:
  "case parse_pool_path path of
     Some (name, tail) \<Rightarrow> name \<noteq> [] \<and> (\<forall>c \<in> set name. \<not> name_end c) \<and> starts_with ''/'' tail
        \<and> (\<exists>rest. path = POOL_PREFIX @ name @ rest \<and> (rest = tail \<or> tail = CHR ''/'' # rest))
   | None \<Rightarrow> \<not> starts_with POOL_PREFIX path
        \<or> (\<exists>rest. path = POOL_PREFIX @ rest \<and> (rest = [] \<or> name_end (hd rest)))"
proof (cases "strip_prefix POOL_PREFIX path")
  case None
  then show ?thesis by (simp add: parse_pool_path_def strip_prefix_def split: if_splits)
next
  case (Some rest)
  let ?n = "takeWhile (\<lambda>c. \<not> name_end c) rest" and ?t = "dropWhile (\<lambda>c. \<not> name_end c) rest"
  have p: "path = POOL_PREFIX @ rest" using strip_prefix_SomeD [OF Some] .
  have name: "\<forall>c \<in> set ?n. \<not> name_end c" by (auto dest: set_takeWhileD)
  obtain n t where nt: "n = ?n" "t = ?t" by blast
  then have path: "path = POOL_PREFIX @ n @ t" using p by simp
  have empty: "rest = [] \<or> name_end (hd rest)" if "?n = []" using that by (cases rest) (auto split: if_splits)
  show ?thesis
  proof (cases "?n = []")
    case True
    then have "parse_pool_path path = None" by (simp add: parse_pool_path_def Some Let_def)
    with True empty p show ?thesis by auto
  next
    case False
    then have "parse_pool_path path = Some (?n, if ?t = [] then ''/''
        else if starts_with ''/'' ?t then ?t else ''/'' @ ?t)"
      by (simp add: parse_pool_path_def Some Let_def)
    with False name have parse: "parse_pool_path path = Some (n, if t = [] then ''/''
        else if starts_with ''/'' t then t else ''/'' @ t)" "n \<noteq> []" "\<forall>c \<in> set n. \<not> name_end c"
      by (simp_all only: nt not_False_eq_True)
    have "n \<noteq> [] \<and> (\<forall>c \<in> set n. \<not> name_end c)
        \<and> starts_with ''/'' (if t = [] then ''/'' else if starts_with ''/'' t then t else ''/'' @ t)
        \<and> (\<exists>rest. path = POOL_PREFIX @ n @ rest
            \<and> (rest = (if t = [] then ''/'' else if starts_with ''/'' t then t else ''/'' @ t)
               \<or> (if t = [] then ''/'' else if starts_with ''/'' t then t else ''/'' @ t) = CHR ''/'' # rest))"
        using parse(2,3) path by (intro conjI exI [of _ t]) (auto simp: starts_slash)
    then show ?thesis unfolding parse(1) option.case prod.case .
  qed
qed

text \<open>The pool prefix of a URL is read exactly: a path that starts with it names the pool up to
  the next slash, query or fragment and goes on with the rest, which always starts with a
  slash; building such a path and reading it gives back name and rest; and a path without
  the prefix, or with an empty name, names no pool.\<close>

theorem parse_pool_path_correct:
  shows "(\<forall>name tail. name \<noteq> [] \<and> (\<forall>c \<in> set name. \<not> name_end c) \<and> starts_with ''/'' tail \<longrightarrow>
            parse_pool_path (POOL_PREFIX @ name @ tail) = Some (name, tail))
    \<and> (case parse_pool_path path of
         Some (name, tail) \<Rightarrow> name \<noteq> [] \<and> (\<forall>c \<in> set name. \<not> name_end c) \<and> starts_with ''/'' tail
            \<and> (\<exists>rest. path = POOL_PREFIX @ name @ rest \<and> (rest = tail \<or> tail = CHR ''/'' # rest))
       | None \<Rightarrow> \<not> starts_with POOL_PREFIX path
            \<or> (\<exists>rest. path = POOL_PREFIX @ rest \<and> (rest = [] \<or> name_end (hd rest))))"
proof (intro conjI allI impI)
  fix name tail :: string
  assume a: "name \<noteq> [] \<and> (\<forall>c \<in> set name. \<not> name_end c) \<and> starts_with ''/'' tail"
  then obtain t where "tail = CHR ''/'' # t" by (auto simp: starts_slash)
  with a show "parse_pool_path (POOL_PREFIX @ name @ tail) = Some (name, tail)" by (simp add: pool_path_named)
qed (rule pool_path_split)

theorem parse_pool_path_correct_witness:
  "parse_pool_path ''/pool/work/v1/messages'' = Some (''work'', ''/v1/messages'')"
proof -
  have "starts_with ''/'' ''/v1/messages''" by (simp add: starts_with_def)
  moreover have "\<forall>c \<in> set ''work''. \<not> name_end c" by (simp add: name_end_def)
  ultimately show ?thesis
    using conjunct1 [OF parse_pool_path_correct [of "[]"], rule_format, of "''work''" "''/v1/messages''"]
    by (simp add: POOL_PREFIX_def)
qed

subsection \<open>The registry\<close>

definition pool_after :: "importer \<Rightarrow> (nat \<Rightarrow> string) \<Rightarrow> config \<Rightarrow> int \<Rightarrow> string \<Rightarrow> fleet option \<Rightarrow> fleet" where
  "pool_after I uuid cfg now name old =
     (case old of Some f \<Rightarrow> snd (sync_config I uuid cfg name f) | None \<Rightarrow> manager_new I uuid cfg name now)"

lemma sync_pool_snd:
  "snd (sync_pool I uuid cfg now name (n, m)) = bt_insert name (pool_after I uuid cfg now name (map_of m name)) m"
  by (simp add: sync_pool_def pool_after_def Let_def split: option.split prod.split)

lemma sync_pools_fold:
  assumes "distinct names"
  shows "map_of (snd (fold (sync_pool I uuid cfg now) names (n, m))) k =
    (if k \<in> set names then Some (pool_after I uuid cfg now k (map_of m k)) else map_of m k)"
  using assms
proof (induction names arbitrary: n m)
  case (Cons name names)
  obtain n' m' where s: "sync_pool I uuid cfg now name (n, m) = (n', m')" by fastforce
  have "m' = bt_insert name (pool_after I uuid cfg now name (map_of m name)) m"
    using sync_pool_snd [of I uuid cfg now name n m] s by simp
  with Cons s show ?case by auto
qed simp

lemma sync_pools_inv: "bt_inv m \<Longrightarrow> bt_inv (snd (fold (sync_pool I uuid cfg now) names (n, m)))"
proof (induction names arbitrary: n m)
  case (Cons name names)
  obtain n' m' where s: "sync_pool I uuid cfg now name (n, m) = (n', m')" by fastforce
  have "m' = bt_insert name (pool_after I uuid cfg now name (map_of m name)) m"
    using sync_pool_snd [of I uuid cfg now name n m] s by simp
  with Cons s show ?case by (auto intro: bt_inv_insert)
qed simp

lemma pools_sync_map:
  assumes "bt_inv (cf_pools cfg)"
  shows "map_of (rg_map (snd (pools_sync I uuid cfg now r))) k =
    (if al_has (cf_pools cfg) k then Some (pool_after I uuid cfg now k (map_of (rg_map r) k)) else None)"
proof -
  have d: "distinct (al_keys (cf_pools cfg))" using assms by (rule bt_inv_distinct)
  have keys: "k \<in> set (al_keys (cf_pools cfg)) \<longleftrightarrow> al_has (cf_pools cfg) k"
    by (metis map_of_eq_None_iff list.set_map)
  let ?kept = "filter (\<lambda>(k, _). al_has (cf_pools cfg) k) (rg_map r)"
  have m: "rg_map (snd (pools_sync I uuid cfg now r)) = snd (fold (sync_pool I uuid cfg now) (al_keys (cf_pools cfg)) (0, ?kept))"
    by (simp add: pools_sync_def Let_def split: prod.split)
  show ?thesis unfolding m sync_pools_fold [OF d] keys by simp
qed

lemma resolve_known: "map_of (rg_map r) n = Some f \<Longrightarrow> pools_resolve r (Some n) = Some (n, f)"
  by (simp add: pools_resolve_def)

lemma resolve_unknown:
  "map_of (rg_map r) n = None \<Longrightarrow> map_of (rg_map r) (rg_default r) = Some f \<Longrightarrow>
   pools_resolve r (Some n) = Some (rg_default r, f)"
  by (simp add: pools_resolve_def)

lemma warn_unknown_frame [simp]:
  "rg_map (snd (warn_unknown n now r)) = rg_map r" "rg_default (snd (warn_unknown n now r)) = rg_default r"
  by (simp_all add: warn_unknown_def Let_def)

text \<open>C23: After a reload the registry has exactly the configured pools: a pool that was there keeps
  its fleet, re-synced with its own part of the file, a new one gets a fleet of its own, one
  that is gone from the file is gone. A request is then served by the fleet of the pool it
  names, and by the default pool's when it names none or one that is unknown: never by
  another pool's, and never not at all.\<close>

theorem registry_follows_config:
  assumes "pools_ok cfg"
  shows "let r' = snd (pools_sync I uuid cfg now r);
             fleet_of = (\<lambda>k. pool_after I uuid cfg now k (map_of (rg_map r) k)) in
     (\<forall>k. map_of (rg_map r') k = (if al_has (cf_pools cfg) k then Some (fleet_of k) else None))
   \<and> rg_default r' = cf_default_pool cfg
   \<and> (\<forall>name t. fst (resolve_request name t r') =
        (case name of
           Some n \<Rightarrow> if al_has (cf_pools cfg) n then Some (n, fleet_of n)
                     else Some (cf_default_pool cfg, fleet_of (cf_default_pool cfg))
         | None \<Rightarrow> Some (cf_default_pool cfg, fleet_of (cf_default_pool cfg))))"
proof -
  let ?r = "snd (pools_sync I uuid cfg now r)"
  have bt: "bt_inv (cf_pools cfg)" and dflt: "al_has (cf_pools cfg) (cf_default_pool cfg)"
    using assms by (simp_all add: pools_ok_def)
  note m = pools_sync_map [OF bt, of I uuid now r]
  have d: "rg_default ?r = cf_default_pool cfg"
    by (simp add: pools_sync_def Let_def split: prod.split)
  have none: "pools_resolve s None = Some (cf_default_pool cfg, pool_after I uuid cfg now (cf_default_pool cfg)
      (map_of (rg_map r) (cf_default_pool cfg)))" if "rg_map s = rg_map ?r" "rg_default s = rg_default ?r" for s
    using dflt that by (simp add: pools_resolve_def m d)
  have "fst (resolve_request name t ?r) =
        (case name of
           Some n \<Rightarrow> if al_has (cf_pools cfg) n then Some (n, pool_after I uuid cfg now n (map_of (rg_map r) n))
                     else Some (cf_default_pool cfg, pool_after I uuid cfg now (cf_default_pool cfg)
                            (map_of (rg_map r) (cf_default_pool cfg)))
         | None \<Rightarrow> Some (cf_default_pool cfg, pool_after I uuid cfg now (cf_default_pool cfg)
                            (map_of (rg_map r) (cf_default_pool cfg))))" for name t
    using none [of ?r] none [of "snd (warn_unknown n t ?r)" for n]
    by (cases name) (auto simp: resolve_request_def m Let_def)
  with m d show ?thesis by (simp add: Let_def)
qed

lemma key_config_pools: "pools_ok key_config"
  by (simp add: pools_ok_def key_config_def bt_inv_def config_default_def DEFAULT_POOL_def)

theorem registry_follows_config_witness:
  "fst (resolve_request (Some ''gone'') 7 (snd (pools_sync no_files (\<lambda>_. ''u'') key_config 0
      \<lparr>rg_map = [], rg_default = [], rg_unknown = []\<rparr>)))
   = Some (''default'', manager_new no_files (\<lambda>_. ''u'') key_config ''default'' 0)"
proof -
  have d: "cf_default_pool key_config = ''default''"
    by (simp add: key_config_def config_default_def DEFAULT_POOL_def)
  have g: "map_of (cf_pools key_config) ''gone'' = None" by (simp add: key_config_def)
  from registry_follows_config [OF key_config_pools, of no_files "\<lambda>_. ''u''" 0
      "\<lparr>rg_map = [], rg_default = [], rg_unknown = []\<rparr>"]
  show ?thesis by (simp add: Let_def d g pool_after_def)
qed

text \<open>Renaming a pool in the configuration and in the registry before the reload keeps its fleet
  under the new name: its sessions, tokens, readings and pins are those it had, only its
  settings are re-read; every other pool is untouched by the rename.\<close>

theorem rename_keeps_fleet:
  assumes "pools_ok cfg" and "rename_pool old new cfg = Inr cfg'" and "old \<noteq> new"
    and "map_of (rg_map r) old = Some f" and "map_of (rg_map r) new = None" and "pools_ok cfg'"
  shows "let r' = snd (pools_sync I uuid cfg' now (registry_rename old new r)) in
     map_of (rg_map r') new = Some (snd (sync_config I uuid cfg' new f))
   \<and> map_of (rg_map r') old = None
   \<and> (\<forall>k g. k \<noteq> old \<and> k \<noteq> new \<and> al_has (cf_pools cfg) k \<and> map_of (rg_map r) k = Some g \<longrightarrow>
        map_of (rg_map r') k = Some (snd (sync_config I uuid cfg' k g)))
   \<and> rg_default r' = cf_default_pool cfg'"
proof -
  have bt: "bt_inv (cf_pools cfg')" using assms(6) by (simp add: pools_ok_def)
  have cfg': "map_of (cf_pools cfg') = (map_of (cf_pools cfg))(old := None, new \<mapsto> the (map_of (cf_pools cfg) old))"
    "map_of (cf_pools cfg) new = None" "map_of (cf_pools cfg) old \<noteq> None"
    using assms(2,3) by (auto simp: rename_pool_def delete_conv' split: if_splits option.splits)
  have reg: "map_of (rg_map (registry_rename old new r)) = (map_of (rg_map r))(old := None, new \<mapsto> f)"
    using assms(3-5) by (simp add: registry_rename_def delete_conv')
  have d: "rg_default (snd (pools_sync I uuid cfg' now r')) = cf_default_pool cfg'" for r'
    by (simp add: pools_sync_def Let_def split: prod.split)
  show ?thesis
    using assms(3) cfg' by (simp add: Let_def pools_sync_map [OF bt] reg d pool_after_def)
qed

theorem rename_keeps_fleet_witness:
  "\<exists>cfg'. rename_pool ''default'' ''work'' key_config = Inr cfg'
     \<and> map_of (rg_map (snd (pools_sync no_files (\<lambda>_. ''u'') cfg' 0 (registry_rename ''default'' ''work''
          \<lparr>rg_map = [(''default'', demo_fleet [])], rg_default = ''default'', rg_unknown = []\<rparr>)))) ''default'' = None"
proof -
  have v: "validate_pool_name ''work'' = Inr ()" by code_simp
  let ?c = "key_config\<lparr>cf_pools := [(''work'', pool_default\<lparr>pc_accounts := [key_account]\<rparr>)], cf_default_pool := ''work''\<rparr>"
  have r: "rename_pool ''default'' ''work'' key_config = Inr ?c"
    by (simp add: rename_pool_def v key_config_def config_default_def DEFAULT_POOL_def)
  have ok: "pools_ok ?c" by (simp add: pools_ok_def bt_inv_def)
  have n: "''default'' \<noteq> ''work''" by simp
  let ?r = "\<lparr>rg_map = [(''default'', demo_fleet [])], rg_default = ''default'', rg_unknown = []\<rparr>"
  have m: "map_of (rg_map ?r) ''default'' = Some (demo_fleet [])" "map_of (rg_map ?r) ''work'' = None"
    by simp_all
  from rename_keeps_fleet [OF key_config_pools r n m ok, of no_files "\<lambda>_. ''u''" 0] r
  show ?thesis unfolding Let_def by blast
qed

subsection \<open>Names that are not pools\<close>

text \<open>The cap on remembered names does not hold: names reported within a minute of each other are
  all kept, however many there are.\<close>

lemma unknown_names_kept:
  assumes "distinct names" and "set names \<inter> fst ` set (rg_unknown r) = {}" and "bt_inv (rg_unknown r)"
    and "\<forall>(n, t) \<in> set (rg_unknown r). t = now"
  shows "length (rg_unknown (fold (\<lambda>n s. snd (warn_unknown n now s)) names r))
     = length names + length (rg_unknown r)"
  using assms
proof (induction names arbitrary: r)
  case (Cons n names)
  have new: "map_of (rg_unknown r) n = None" using Cons.prems(2) by (simp add: map_of_eq_None_iff)
  have "filter (\<lambda>(_, t). recent_unknown now t) (rg_unknown r) = rg_unknown r"
    using Cons.prems(4) by (auto simp: filter_id_conv recent_unknown_def time_consts)
  then have u: "rg_unknown (snd (warn_unknown n now r)) = bt_insert n now (rg_unknown r)"
    using new by (simp add: warn_unknown_def Let_def)
  have set: "set (bt_insert n now m) \<subseteq> insert (n, now) (set m)" for m
    by (induction n now m rule: bt_insert.induct) auto
  have "length (rg_unknown (fold (\<lambda>n s. snd (warn_unknown n now s)) names (snd (warn_unknown n now r))))
      = length names + length (rg_unknown (snd (warn_unknown n now r)))"
  proof (rule Cons.IH)
    show "set names \<inter> fst ` set (rg_unknown (snd (warn_unknown n now r))) = {}"
      using Cons.prems(1,2) by (auto simp: u)
    show "\<forall>(n, t) \<in> set (rg_unknown (snd (warn_unknown n now r))). t = now"
      using Cons.prems(4) set [of "rg_unknown r"] by (auto simp: u)
  qed (use Cons.prems in \<open>simp_all add: u bt_inv_insert\<close>)
  then show ?case using bt_insert_size [OF Cons.prems(3), of n now] new by (simp add: u)
qed simp

end
