(* ===== verification/Pool_Match.thy ===== *)
theory Pool_Match
  imports Pools_Props
begin

text \<open>
  \<open>src/pool_match.rs\<close>: the pool a directory, a git remote or an environment variable
  chooses. Paths are cleaned lexically into whether they are absolute and their components;
  the directory to match, the process's own one, the environment and the remote of a
  directory are the launch context, and a failing \<open>current_dir\<close> is the empty path.
\<close>

record launch_env =
  le_cwd :: string
  le_current :: string
  le_getenv :: "string \<Rightarrow> string option"
  le_remote :: "string \<Rightarrow> string option"

record pool_choice =
  ch_pool :: string
  ch_matched :: bool
  ch_reason :: string

subsection \<open>Paths\<close>

text \<open>\<open>Path::components\<close> after the root: empty components vanish, and a \<open>.\<close> is dropped
  here as in the loop; \<open>..\<close> pops, which does nothing at the root.\<close>

fun clean_components :: "string list \<Rightarrow> string list \<Rightarrow> string list" where
  "clean_components [] out = out"
| "clean_components (c # cs) out =
     (if c = [] \<or> c = ''.'' then clean_components cs out
      else if c = ''..'' then clean_components cs (butlast out)
      else clean_components cs (out @ [c]))"

definition is_absolute :: "string \<Rightarrow> bool" where
  "is_absolute p = starts_with ''/'' p"

definition join_path :: "string \<Rightarrow> string \<Rightarrow> string" where
  "join_path base p = (if is_absolute p then p else if base = [] then p else base @ ''/'' @ p)"

definition clean_dir :: "ext \<Rightarrow> string \<Rightarrow> string \<Rightarrow> (bool \<times> string list) option" where
  "clean_dir E current p0 =
     (let p = trim p0
      in if p = [] then None
         else let q = join_path current (expand_home E p)
              in Some (is_absolute q, clean_components (split_on CHR ''/'' q) []))"

definition path_starts_with :: "bool \<times> string list \<Rightarrow> bool \<times> string list \<Rightarrow> bool" where
  "path_starts_with p d =
     (if fst d then fst p \<and> take (length (snd d)) (snd p) = snd d
      else snd d = [] \<or> \<not> fst p \<and> take (length (snd d)) (snd p) = snd d)"

text \<open>\<open>trim_end_matches\<close> on a pattern of several characters.\<close>

function trim_end_str :: "string \<Rightarrow> string \<Rightarrow> string" where
  "trim_end_str pat s =
     (if pat \<noteq> [] \<and> ends_with pat s then trim_end_str pat (take (length s - length pat) s) else s)"
  by auto

termination trim_end_str
proof (relation "measure (\<lambda>(_, s). length s)", goal_cases)
  case (2 pat s)
  then have "length pat \<le> length s" "pat \<noteq> []"
    by (auto simp: ends_with_def starts_with_def dest: arg_cong [where f = length])
  then show ?case by (cases s) auto
qed simp

declare trim_end_str.simps [simp del]

subsection \<open>Rules\<close>

definition path_rule :: "ext \<Rightarrow> launch_env \<Rightarrow> string \<Rightarrow> bool" where
  "path_rule E env p =
     (case (clean_dir E (le_current env) (le_cwd env),
            clean_dir E (le_current env) (trim_end_str ''/*'' (trim_end_str ''/**'' p))) of
        (Some cwd, Some dir) \<Rightarrow> path_starts_with cwd dir
      | _ \<Rightarrow> False)"

definition remote_rule :: "ext \<Rightarrow> launch_env \<Rightarrow> string \<Rightarrow> bool" where
  "remote_rule E env r =
     (case opt_filter (\<lambda>u. u \<noteq> []) (le_remote env (le_cwd env)) of
        Some url \<Rightarrow> regex_match E r url | None \<Rightarrow> False)"

definition env_rule :: "ext \<Rightarrow> launch_env \<Rightarrow> string \<times> string \<Rightarrow> string option" where
  "env_rule E env kp =
     (case kp of (k, pat) \<Rightarrow>
        (case opt_filter (\<lambda>v. v \<noteq> []) (le_getenv env k) of
           None \<Rightarrow> None
         | Some v \<Rightarrow>
             if pat = [] then Some (''env '' @ k @ '' set'')
             else if regex_match E pat v then Some (''env '' @ k @ '' ~ '' @ pat) else None))"

definition match_reason :: "ext \<Rightarrow> pool_match \<Rightarrow> launch_env \<Rightarrow> string option" where
  "match_reason E m env =
     opt_or (map_option (\<lambda>p. ''path '' @ p) (List.find (path_rule E env) (pm_paths m)))
    (opt_or (map_option (\<lambda>r. ''remote ~ '' @ r) (List.find (remote_rule E env) (pm_remotes m)))
       (find_map (env_rule E env) (pm_env m)))"

fun resolve_among :: "ext \<Rightarrow> string \<Rightarrow> launch_env \<Rightarrow> (string \<times> pool_config) list \<Rightarrow> pool_choice" where
  "resolve_among E dflt env [] = \<lparr>ch_pool = dflt, ch_matched = False, ch_reason = ''no rule matched''\<rparr>"
| "resolve_among E dflt env ((name, p) # ps) =
     (if name = dflt then resolve_among E dflt env ps
      else (case Option.bind (pc_match_rules p) (\<lambda>m. match_reason E m env) of
              Some reason \<Rightarrow> \<lparr>ch_pool = name, ch_matched = True, ch_reason = reason\<rparr>
            | None \<Rightarrow> resolve_among E dflt env ps))"

definition pool_resolve :: "ext \<Rightarrow> config \<Rightarrow> launch_env \<Rightarrow> pool_choice" where
  "pool_resolve E cfg env = resolve_among E (cf_default_pool cfg) env (cf_pools cfg)"

subsection \<open>What a rule means\<close>

text \<open>Following the components of a path from a directory, one name after the other.\<close>

inductive leads :: "string list \<Rightarrow> string list \<Rightarrow> string list \<Rightarrow> bool" where
  arrived: "leads d [] d"
| stay: "c = [] \<or> c = ''.'' \<Longrightarrow> leads d cs e \<Longrightarrow> leads d (c # cs) e"
| up: "leads (butlast d) cs e \<Longrightarrow> leads d (''..'' # cs) e"
| down: "c \<notin> {[], ''.'', ''..''} \<Longrightarrow> leads (d @ [c]) cs e \<Longrightarrow> leads d (c # cs) e"

inductive_cases leads_elims: "leads d [] e" "leads d (c # cs) e"

text \<open>The directory a text names: \<open>~/\<close> is the home, a relative path is one below the process's own
  directory. \<open>rooted\<close> is whether it is known from the root on, which it is unless that directory is
  unknown.\<close>

definition names_dir :: "ext \<Rightarrow> launch_env \<Rightarrow> string \<Rightarrow> bool \<Rightarrow> string list \<Rightarrow> bool" where
  "names_dir E env p rooted d \<longleftrightarrow> trim p \<noteq> [] \<and>
     (\<exists>full. full = (let h = expand_home E (trim p) in
          if (\<exists>rest. h = CHR ''/'' # rest) \<or> le_current env = [] then h else le_current env @ ''/'' @ h)
        \<and> (rooted \<longleftrightarrow> (\<exists>rest. full = CHR ''/'' # rest)) \<and> leads [] (split_on CHR ''/'' full) d)"

text \<open>The directory of a rule, without the \<open>/*\<close> or \<open>/**\<close> at its end, contains the working directory.\<close>

definition dir_contains :: "ext \<Rightarrow> launch_env \<Rightarrow> string \<Rightarrow> bool" where
  "dir_contains E env rule \<longleftrightarrow>
     (\<exists>rooted d rooted' d' below. names_dir E env (trim_end_str ''/*'' (trim_end_str ''/**'' rule)) rooted d
        \<and> names_dir E env (le_cwd env) rooted' d' \<and> d' = d @ below
        \<and> (rooted = rooted' \<or> \<not> rooted \<and> d = []))"

text \<open>When a pool's rules claim a context.\<close>

definition claims :: "ext \<Rightarrow> launch_env \<Rightarrow> pool_config \<Rightarrow> bool" where
  "claims E env p \<longleftrightarrow> (\<exists>m. pc_match_rules p = Some m \<and>
     ((\<exists>r \<in> set (pm_paths m). dir_contains E env r)
      \<or> (\<exists>r \<in> set (pm_remotes m). \<exists>url. le_remote env (le_cwd env) = Some url \<and> url \<noteq> [] \<and> regex_match E r url)
      \<or> (\<exists>(k, pat) \<in> set (pm_env m). \<exists>v. le_getenv env k = Some v \<and> v \<noteq> [] \<and> (pat = [] \<or> regex_match E pat v))))"

lemma leads_clean: "leads d cs e \<longleftrightarrow> clean_components cs d = e"
proof
  show "leads d cs e \<Longrightarrow> clean_components cs d = e" by (induction rule: leads.induct) auto
  show "clean_components cs d = e \<Longrightarrow> leads d cs e"
    by (induction cs d rule: clean_components.induct) (auto intro: leads.intros split: if_splits)
qed

lemma absolute_iff: "is_absolute p \<longleftrightarrow> (\<exists>rest. p = CHR ''/'' # rest)"
  by (cases p) (auto simp: is_absolute_def starts_with_def)

lemma names_dir_iff: "names_dir E env p rooted d \<longleftrightarrow> clean_dir E (le_current env) p = Some (rooted, d)"
  by (auto simp: names_dir_def clean_dir_def join_path_def leads_clean absolute_iff Let_def)

lemma take_prefix: "take (length d) e = d \<longleftrightarrow> (\<exists>below. e = d @ below)"
  by (metis append_eq_conv_conj append_take_drop_id)

lemma path_rule_iff: "path_rule E env r \<longleftrightarrow> dir_contains E env r"
  unfolding dir_contains_def names_dir_iff path_rule_def
  by (auto simp: path_starts_with_def take_prefix split: option.split prod.split)

lemma remote_rule_iff:
  "remote_rule E env r \<longleftrightarrow> (\<exists>url. le_remote env (le_cwd env) = Some url \<and> url \<noteq> [] \<and> regex_match E r url)"
  by (auto simp: remote_rule_def opt_filter_def split: option.split)

lemma env_rule_iff:
  "env_rule E env (k, pat) \<noteq> None \<longleftrightarrow> (\<exists>v. le_getenv env k = Some v \<and> v \<noteq> [] \<and> (pat = [] \<or> regex_match E pat v))"
  by (cases "le_getenv env k") (auto simp: env_rule_def opt_filter_def)

lemma match_reason_iff:
  "match_reason E m env \<noteq> None \<longleftrightarrow>
     (\<exists>r \<in> set (pm_paths m). path_rule E env r) \<or> (\<exists>r \<in> set (pm_remotes m). remote_rule E env r)
      \<or> (\<exists>x \<in> set (pm_env m). env_rule E env x \<noteq> None)"
  unfolding match_reason_def opt_or_eq_None find_map_None option.map_disc_iff find_None
  by (simp del: not_None_eq)

lemma claims_iff:
  "claims E env p \<longleftrightarrow> Option.bind (pc_match_rules p) (\<lambda>m. match_reason E m env) \<noteq> None"
proof (cases "pc_match_rules p")
  case (Some m)
  have "(case x of (k, pat) \<Rightarrow> \<exists>v. le_getenv env k = Some v \<and> v \<noteq> [] \<and> (pat = [] \<or> regex_match E pat v))
      \<longleftrightarrow> env_rule E env x \<noteq> None" for x
    by (cases x) (simp only: prod.case env_rule_iff)
  then show ?thesis
    unfolding claims_def Some bind.bind_lunit match_reason_iff path_rule_iff remote_rule_iff by simp
qed (simp add: claims_def)

text \<open>A directory rule covers whole components: a rule for one directory never fires in a sibling
  whose name it is a prefix of.\<close>

lemma sibling_not_covered:
  assumes "x \<noteq> y"
  shows "\<not> path_starts_with (True, d @ [y] @ rest) (True, d @ [x])"
  using assms by (simp add: path_starts_with_def)

lemma clean_components_plain:
  "(\<And>c. c \<in> set cs \<Longrightarrow> c \<noteq> ''..'') \<Longrightarrow> clean_components cs out = out @ filter (\<lambda>c. c \<noteq> [] \<and> c \<noteq> ''.'') cs"
  by (induction cs arbitrary: out) auto

lemma clean_components_clean:
  "(\<And>c. c \<in> set out \<Longrightarrow> c \<notin> {[], ''.'', ''..''}) \<Longrightarrow> c \<in> set (clean_components cs out) \<Longrightarrow> c \<notin> {[], ''.'', ''..''}"
  by (induction cs out rule: clean_components.induct) (auto split: if_splits dest: in_set_butlastD)

lemma resolve_among_spec:
  "bt_inv ps \<Longrightarrow>
   (let c = resolve_among E dflt env ps in
     (ch_matched c \<longleftrightarrow> (\<exists>(n, p) \<in> set ps. n \<noteq> dflt \<and> claims E env p))
   \<and> (if ch_matched c
      then ch_pool c \<noteq> dflt \<and> (\<exists>p. (ch_pool c, p) \<in> set ps \<and> claims E env p)
           \<and> (\<forall>(n, p) \<in> set ps. n \<noteq> dflt \<and> claims E env p \<longrightarrow> ch_pool c \<le> n)
      else ch_pool c = dflt))"
proof (induction ps)
  case (Cons np ps)
  obtain n p where np: "np = (n, p)" by fastforce
  have inv: "bt_inv ps" "\<forall>k \<in> fst ` set ps. n < k" using Cons.prems by (auto simp: np bt_inv_Cons)
  show ?case
  proof (cases "n \<noteq> dflt \<and> claims E env p")
    case True
    then obtain reason where "Option.bind (pc_match_rules p) (\<lambda>m. match_reason E m env) = Some reason"
      unfolding claims_iff by blast
    with True inv show ?thesis by (fastforce simp: np Let_def)
  next
    case False
    then have "resolve_among E dflt env (np # ps) = resolve_among E dflt env ps"
      by (auto simp: np claims_iff split: option.split)
    with Cons.IH [OF inv(1)] False show ?thesis by (auto simp: np Let_def)
  qed
qed (simp add: Let_def)

text \<open>C24: Launching from a directory picks a pool reproducibly: if the rules of any pool but the
  default one claim the context, the answer is the first such pool by name, and it does claim
  it; if none does, the answer is the default pool and is marked as a fallback. A pool claims a
  context exactly when one of its directories, once \<open>~/\<close>, \<open>.\<close> and \<open>..\<close> are followed, is the working
  directory or an ancestor of it, one of its
  patterns matches the remote, which is not empty, or one of its variables is set, not empty, and matches. The
  pools are an ordered map, as every load has it.\<close>

theorem pool_resolve_correct:
  assumes "bt_inv (cf_pools cfg)"
  shows "let c = pool_resolve E cfg env in
     (ch_matched c \<longleftrightarrow> (\<exists>(n, p) \<in> set (cf_pools cfg). n \<noteq> cf_default_pool cfg \<and> claims E env p))
   \<and> (if ch_matched c
      then ch_pool c \<noteq> cf_default_pool cfg
           \<and> (\<exists>p. map_of (cf_pools cfg) (ch_pool c) = Some p \<and> claims E env p)
           \<and> (\<forall>(n, p) \<in> set (cf_pools cfg). n \<noteq> cf_default_pool cfg \<and> claims E env p \<longrightarrow> ch_pool c \<le> n)
      else ch_pool c = cf_default_pool cfg)"
  using resolve_among_spec [OF assms, of E "cf_default_pool cfg" env]
    map_of_is_SomeI [OF bt_inv_distinct [OF assms]]
  unfolding pool_resolve_def Let_def by auto

definition work_rule :: config where
  "work_rule = (config_default ''k'')\<lparr>cf_pools := [(''default'', pool_default),
     (''work'', pool_default\<lparr>pc_match_rules := Some \<lparr>pm_paths = [], pm_remotes = [], pm_env = [(''W'', [])]\<rparr>\<rparr>)]\<rparr>"

theorem pool_resolve_correct_witness:
  "ch_pool (pool_resolve ext0 work_rule \<lparr>le_cwd = ''/x'', le_current = ''/x'', le_getenv = (\<lambda>_. Some ''1''), le_remote = (\<lambda>_. None)\<rparr>) = ''work''"
proof -
  let ?env = "\<lparr>le_cwd = ''/x'', le_current = ''/x'', le_getenv = (\<lambda>_. Some ''1''), le_remote = (\<lambda>_. None)\<rparr>"
  have p: "cf_pools work_rule = [(''default'', pool_default),
     (''work'', pool_default\<lparr>pc_match_rules := Some \<lparr>pm_paths = [], pm_remotes = [], pm_env = [(''W'', [])]\<rparr>\<rparr>)]"
    and d: "cf_default_pool work_rule = ''default''"
    by (simp_all add: work_rule_def config_default_def DEFAULT_POOL_def)
  have "''default'' < ''work''" by code_simp
  then have bt: "bt_inv (cf_pools work_rule)" by (simp add: p bt_inv_def)
  have "claims ext0 ?env (pool_default\<lparr>pc_match_rules := Some \<lparr>pm_paths = [], pm_remotes = [], pm_env = [(''W'', [])]\<rparr>\<rparr>)"
    by (simp add: claims_def)
  then have m: "\<exists>(n, p) \<in> set (cf_pools work_rule). n \<noteq> cf_default_pool work_rule \<and> claims ext0 ?env p"
    by (simp add: p d)
  from pool_resolve_correct [OF bt, of ext0 ?env] m show ?thesis by (auto simp: Let_def p d split: if_splits)
qed

end
