(* ===== verification/Utf8.thy ===== *)
theory Utf8
  imports Fleet_Reach
begin

text \<open>
  Text in UTF-8. The program keeps text as bytes and looks at its Unicode scalar values only in
  \<open>safe_text\<close> (\<open>src/security.rs\<close>); bytes from the network become text by
  \<open>String::from_utf8_lossy\<close>, which puts U+FFFD for every maximal ill-formed piece.
\<close>

abbreviation byte :: "char \<Rightarrow> nat" where "byte c \<equiv> of_char c"

definition cont :: "char \<Rightarrow> bool" where
  "cont c \<longleftrightarrow> 128 \<le> byte c \<and> byte c < 192"

text \<open>The length a first byte announces; 0 when it cannot start a character.\<close>

definition utf8_width :: "nat \<Rightarrow> nat" where
  "utf8_width n = (if n < 128 then 1 else if n < 194 then 0 else if n < 224 then 2
                   else if n < 240 then 3 else if n < 245 then 4 else 0)"

text \<open>The second byte may be narrower than a continuation byte: no overlong form, no surrogate,
  nothing above U+10FFFF.\<close>

definition second_ok :: "nat \<Rightarrow> char \<Rightarrow> bool" where
  "second_ok n c \<longleftrightarrow> cont c \<and> (n = 224 \<longrightarrow> 160 \<le> byte c) \<and> (n = 237 \<longrightarrow> byte c < 160)
     \<and> (n = 240 \<longrightarrow> 144 \<le> byte c) \<and> (n = 244 \<longrightarrow> byte c < 144)"

text \<open>How many bytes the first piece takes, and whether it is a character.\<close>

definition tail_len :: "nat \<Rightarrow> nat \<Rightarrow> string \<Rightarrow> nat" where
  "tail_len n w s =
     (case s of
        [] \<Rightarrow> 0
      | c # cs \<Rightarrow> if second_ok n c then Suc (length (takeWhile cont (take (w - 2) cs))) else 0)"

definition piece :: "char \<Rightarrow> string \<Rightarrow> bool \<times> nat" where
  "piece c s =
     (let w = utf8_width (byte c); k = (if 2 \<le> w then tail_len (byte c) w s else 0)
      in (w \<noteq> 0 \<and> Suc k = w, Suc k))"

definition replacement :: string where "replacement = [CHR 0xEF, CHR 0xBF, CHR 0xBD]"

function utf8_lossy :: "string \<Rightarrow> string" where
  "utf8_lossy [] = []"
| "utf8_lossy (c # s) =
     (case piece c s of (ok, k) \<Rightarrow>
        (if ok then take k (c # s) else replacement) @ utf8_lossy (drop k (c # s)))"
  by pat_completeness auto

termination
  by (relation "measure length") (auto simp: piece_def Let_def)

text \<open>The scalar values of well-formed text, and the text of scalar values.\<close>

definition scalar :: "string \<Rightarrow> nat" where
  "scalar cs =
     (case map byte cs of
        [a] \<Rightarrow> a
      | [a, b] \<Rightarrow> (a mod 32) * 64 + b mod 64
      | [a, b, c] \<Rightarrow> ((a mod 16) * 64 + b mod 64) * 64 + c mod 64
      | [a, b, c, d] \<Rightarrow> (((a mod 8) * 64 + b mod 64) * 64 + c mod 64) * 64 + d mod 64
      | _ \<Rightarrow> 0)"

function utf8_chars :: "string \<Rightarrow> nat list" where
  "utf8_chars [] = []"
| "utf8_chars (c # s) =
     (case piece c s of (ok, k) \<Rightarrow> (if ok then scalar (take k (c # s)) else 0xFFFD) # utf8_chars (drop k (c # s)))"
  by pat_completeness auto

termination
  by (relation "measure length") (auto simp: piece_def Let_def)

definition utf8_bytes1 :: "nat \<Rightarrow> string" where
  "utf8_bytes1 n =
     map char_of
       (if n < 0x80 then [n]
        else if n < 0x800 then [192 + n div 64, 128 + n mod 64]
        else if n < 0x10000 then [224 + n div 4096, 128 + n div 64 mod 64, 128 + n mod 64]
        else [240 + n div 262144, 128 + n div 4096 mod 64, 128 + n div 64 mod 64, 128 + n mod 64])"

definition utf8_bytes :: "nat list \<Rightarrow> string" where
  "utf8_bytes ns = concat (map utf8_bytes1 ns)"

definition safe_str :: "string \<Rightarrow> nat \<Rightarrow> string" where
  "safe_str s mx = utf8_bytes (safe_text (utf8_chars s) mx)"

definition is_scalar :: "nat \<Rightarrow> bool" where
  "is_scalar n \<longleftrightarrow> n < 0xD800 \<or> 0xE000 \<le> n \<and> n < 0x110000"

lemma byte_char_of [simp]: "n < 256 \<Longrightarrow> byte (char_of n) = n"
  by simp

lemma skip_mult: "k dvd c \<Longrightarrow> x < k \<Longrightarrow> (c + x) mod k = (x::nat)"
  by (auto elim: dvdE)

lemma lead_bits:
  "x < 32 \<Longrightarrow> (192 + x) mod 32 = (x::nat)" "x < 16 \<Longrightarrow> (224 + x) mod 16 = x" "x < 8 \<Longrightarrow> (240 + x) mod 8 = x"
  "(128 + y mod 64) mod 64 = (y::nat) mod 64"
  by (simp_all add: skip_mult)

lemma four_bytes:
  assumes "a < 5" "x < 64" "y < 64" "z < (64::nat)" and "a = 0 \<longrightarrow> 16 \<le> x" and "a = 4 \<longrightarrow> x < 16"
  shows "piece (char_of (240 + a)) (char_of (128 + x) # char_of (128 + y) # char_of (128 + z) # s) = (True, 4)
    \<and> scalar [char_of (240 + a), char_of (128 + x), char_of (128 + y), char_of (128 + z)] =
       ((a * 64 + x) * 64 + y) * 64 + z"
proof -
  have "x = x mod 64" "y = y mod 64" "z = z mod 64" using assms by simp_all
  then have "(128 + x) mod 64 = x" "(128 + y) mod 64 = y" "(128 + z) mod 64 = z"
    by (metis lead_bits(4))+
  with assms show ?thesis
    by (auto simp: piece_def utf8_width_def scalar_def tail_len_def second_ok_def cont_def lead_bits Let_def
      numeral_2_eq_2)
qed

lemma piece_bytes1:
  assumes "is_scalar n"
  shows "\<exists>c cs. utf8_bytes1 n = c # cs \<and> piece c (cs @ s) = (True, Suc (length cs)) \<and> scalar (c # cs) = n"
proof -
  consider (a) "n < 0x80" | (b) "0x80 \<le> n" "n < 0x800" | (c) "0x800 \<le> n" "n < 0x10000" | (d) "0x10000 \<le> n" "n < 0x110000"
    using assms unfolding is_scalar_def by linarith
  then show ?thesis
  proof cases
    case a
    then show ?thesis by (simp add: utf8_bytes1_def piece_def utf8_width_def scalar_def)
  next
    case b
    then have "2 \<le> n div 64" "n div 64 < 32" by auto
    then show ?thesis using b
      by (simp add: utf8_bytes1_def piece_def utf8_width_def scalar_def tail_len_def second_ok_def cont_def lead_bits Let_def)
  next
    case c
    have q: "n div 4096 < 16" using c by auto
    have m: "n div 64 mod 64 < 64" "n mod 64 < 64" by simp_all
    have e: "n div 4096 = n div 64 div 64" by (simp add: div_mult2_eq [symmetric])
    have lo: "n div 4096 = 0 \<longrightarrow> 32 \<le> n div 64 mod 64" using c e by auto
    have hi: "n div 4096 = 13 \<longrightarrow> n div 64 mod 64 < 32"
    proof
      assume a: "n div 4096 = 13"
      have "n < 57344" using a by simp
      then have "n div 64 < 864" using assms by (simp add: is_scalar_def)
      then show "n div 64 mod 64 < 32" using a e div_mult_mod_eq [of "n div 64" 64] by linarith
    qed
    have v: "(n div 4096 * 64 + n div 64 mod 64) * 64 + n mod 64 = n"
      using e by (metis div_mult_mod_eq)
    show ?thesis using c q m lo hi v
      by (simp add: utf8_bytes1_def piece_def utf8_width_def scalar_def tail_len_def second_ok_def cont_def lead_bits Let_def)
  next
    case d
    have q: "n div 262144 < 5" using d by auto
    have e: "n div 4096 = n div 64 div 64" "n div 262144 = n div 64 div 64 div 64"
      by (simp_all add: div_mult2_eq [symmetric])
    have lo: "n div 262144 = 0 \<longrightarrow> 16 \<le> n div 4096 mod 64" using d e by auto
    have "n div 4096 < 272" using d by simp
    moreover have "n div 4096 div 64 = n div 262144" by (simp add: div_mult2_eq [symmetric])
    ultimately have hi: "n div 262144 = 4 \<longrightarrow> n div 4096 mod 64 < 16"
      using div_mult_mod_eq [of "n div 4096" 64] by linarith
    have v: "((n div 262144 * 64 + n div 4096 mod 64) * 64 + n div 64 mod 64) * 64 + n mod 64 = n"
      using e by (metis div_mult_mod_eq)
    show ?thesis
      using four_bytes [of "n div 262144" "n div 4096 mod 64" "n div 64 mod 64" "n mod 64" s] q lo hi v d
      by (simp add: utf8_bytes1_def)
  qed
qed

lemma utf8_roundtrip: "list_all is_scalar ns \<Longrightarrow> utf8_chars (utf8_bytes ns) = ns"
proof (induction ns)
  case (Cons n ns)
  then obtain c cs where "utf8_bytes1 n = c # cs" "piece c (cs @ utf8_bytes ns) = (True, Suc (length cs))"
    "scalar (c # cs) = n"
    using piece_bytes1 [of n "utf8_bytes ns"] by auto
  with Cons show ?case by (simp add: utf8_bytes_def)
qed (simp add: utf8_bytes_def)

text \<open>What leaves \<open>from_utf8_lossy\<close> decodes as the bytes did; well-formed text is unchanged.\<close>

lemma utf8_lossy_bytes: "list_all is_scalar ns \<Longrightarrow> utf8_lossy (utf8_bytes ns) = utf8_bytes ns"
proof (induction ns)
  case (Cons n ns)
  then obtain c cs where "utf8_bytes1 n = c # cs" "piece c (cs @ utf8_bytes ns) = (True, Suc (length cs))"
    using piece_bytes1 [of n "utf8_bytes ns"] by auto
  with Cons show ?case by (simp add: utf8_bytes_def)
qed (simp add: utf8_bytes_def)

end
