(* ===== verification/Proxy_Auth.thy ===== *)
theory Proxy_Auth
  imports Fleet_Reach
begin

text \<open>
  \<open>src/proxy/auth.rs\<close>: who may use the proxy. Headers are pairs of a lower-case name and a
  byte string, several with the same name allowed; the first one is read. Strings are byte
  strings.
\<close>

type_synonym header_map = "(string \<times> string) list"

definition PROXY_KEY_HEADER :: string where "PROXY_KEY_HEADER = ''x-corrall-key''"

datatype auth = Shared | ClientKey string | LoopbackPeer | Denied string

text \<open>\<open>HeaderValue::to_str\<close> reads visible ASCII and tabs only.\<close>

definition visible_ascii :: "char \<Rightarrow> bool" where
  "visible_ascii c \<longleftrightarrow> (let n = (of_char c :: nat) in 32 \<le> n \<and> n < 127 \<or> n = 9)"

definition hdr_str :: "header_map \<Rightarrow> string \<Rightarrow> string option" where
  "hdr_str h k = opt_filter (list_all visible_ascii) (map_of h k)"

definition check_key :: "proxy_config \<Rightarrow> string option \<Rightarrow> auth option" where
  "check_key cfg presented =
     (case presented of
        None \<Rightarrow> None
      | Some p0 \<Rightarrow>
          let p = trim p0
          in if p = [] then None
             else if 16 \<le> length (px_api_key cfg) \<and> ct_eq p (px_api_key cfg) then Some Shared
             else map_option (\<lambda>k. ClientKey (ck_name k))
                    (List.find (\<lambda>k. 16 \<le> length (ck_key k) \<and> ct_eq p (ck_key k)) (px_client_keys cfg)))"

definition is_browser_initiated :: "header_map \<Rightarrow> bool" where
  "is_browser_initiated h \<longleftrightarrow>
     map_of h ''origin'' \<noteq> None
     \<or> (case hdr_str h ''sec-fetch-site'' of None \<Rightarrow> False | Some v \<Rightarrow> v \<noteq> ''none'')"

definition presented_key :: "header_map \<Rightarrow> string option" where
  "presented_key h =
     opt_or (hdr_str h PROXY_KEY_HEADER)
       (opt_or (hdr_str h ''x-api-key'')
         (map_option (drop 7) (opt_filter (starts_with ''Bearer tc-'') (hdr_str h ''authorization''))))"

text \<open>The host of a \<open>Host\<close> header without its port.\<close>

definition bare_host :: "string \<Rightarrow> string" where
  "bare_host h0 =
     (let h = trim h0
      in (case rsplit_once CHR '':'' h of
            Some (before, _) \<Rightarrow>
              if starts_with ''['' h \<or> \<not> list_ex (\<lambda>c. c = CHR '':'') before then before else h
          | None \<Rightarrow> h))"

definition host_ok :: "string option \<Rightarrow> bool" where
  "host_ok host = (case host of Some h \<Rightarrow> is_loopback_host (bare_host h) | None \<Rightarrow> True)"

definition authenticate :: "proxy_config \<Rightarrow> ip \<Rightarrow> header_map \<Rightarrow> string option \<Rightarrow> auth" where
  "authenticate cfg peer h host =
     (case check_key cfg (presented_key h) of
        Some a \<Rightarrow> a
      | None \<Rightarrow>
          if is_browser_initiated h then Denied ''browser-originated requests are refused''
          else if is_loopback_ip peer \<and> \<not> px_require_key_on_loopback cfg
          then (if host_ok host then LoopbackPeer
                else Denied ''loopback request with a non-loopback Host header'')
          else Denied ''invalid proxy API key'')"

text \<open>\<open>String::from_utf8\<close>.\<close>

definition cont_byte :: "char \<Rightarrow> bool" where
  "cont_byte c \<longleftrightarrow> (let n = (of_char c :: nat) in 128 \<le> n \<and> n < 192)"

fun utf8_valid :: "string \<Rightarrow> bool" where
  "utf8_valid [] = True"
| "utf8_valid (c # s) =
     (let n = (of_char c :: nat) in
      if n < 128 then utf8_valid s
      else if 194 \<le> n \<and> n < 224
      then (case s of b # s' \<Rightarrow> cont_byte b \<and> utf8_valid s' | _ \<Rightarrow> False)
      else if 224 \<le> n \<and> n < 240
      then (case s of
              b # b' # s' \<Rightarrow> cont_byte b \<and> cont_byte b' \<and> (n = 224 \<longrightarrow> 160 \<le> (of_char b :: nat))
                \<and> (n = 237 \<longrightarrow> (of_char b :: nat) < 160) \<and> utf8_valid s'
            | _ \<Rightarrow> False)
      else if 240 \<le> n \<and> n < 245
      then (case s of
              b # b' # b'' # s' \<Rightarrow> cont_byte b \<and> cont_byte b' \<and> cont_byte b''
                \<and> (n = 240 \<longrightarrow> 144 \<le> (of_char b :: nat)) \<and> (n = 244 \<longrightarrow> (of_char b :: nat) < 144) \<and> utf8_valid s'
            | _ \<Rightarrow> False)
      else False)"

definition parse_proxy_basic :: "ext \<Rightarrow> header_map \<Rightarrow> (string \<times> string) option" where
  "parse_proxy_basic E h =
     Option.bind (hdr_str h ''proxy-authorization'') (\<lambda>v.
     Option.bind (opt_or (strip_prefix ''Basic '' v) (strip_prefix ''basic '' v)) (\<lambda>b64.
     Option.bind (opt_filter utf8_valid (base64_decode E (trim b64))) (\<lambda>s.
       let (u, p) = unwrap_or (s, []) (split_once CHR '':'' s)
       in Some (percent_decode E u, percent_decode E p))))"

definition authenticate_connect :: "ext \<Rightarrow> proxy_config \<Rightarrow> ip \<Rightarrow> header_map \<Rightarrow> auth \<times> string option" where
  "authenticate_connect E cfg peer h =
     (let (user, pass) = unwrap_or ([], []) (parse_proxy_basic E h);
          named = opt_filter (\<lambda>u. u \<noteq> []) (Some user)
      in (case check_key cfg (Some pass) of
            Some a \<Rightarrow> (a, named)
          | None \<Rightarrow>
              (case check_key cfg (Some user) of
                 Some a \<Rightarrow> (a, None)
               | None \<Rightarrow>
                   if is_loopback_ip peer \<and> \<not> px_require_key_on_loopback cfg then (LoopbackPeer, named)
                   else (Denied ''proxy authentication required'', None))))"

subsection \<open>Who gets in\<close>

text \<open>A key the configuration accepts, and as whom.\<close>

definition valid_key :: "proxy_config \<Rightarrow> string \<Rightarrow> auth \<Rightarrow> bool" where
  "valid_key cfg p a \<longleftrightarrow> 16 \<le> length p
     \<and> (p = px_api_key cfg \<and> a = Shared
        \<or> (\<exists>k \<in> set (px_client_keys cfg). p = ck_key k \<and> a = ClientKey (ck_name k)))"

lemma check_key_sound: "check_key cfg (Some p) = Some a \<Longrightarrow> valid_key cfg (trim p) a"
  by (auto simp: check_key_def valid_key_def Let_def ct_eq_iff dest!: find_SomeD split: if_splits)

lemma check_key_None: "check_key cfg (Some p) = None \<Longrightarrow> \<not> valid_key cfg (trim p) a"
  by (auto simp: check_key_def valid_key_def Let_def ct_eq_iff split: if_splits)

lemma check_key_auth: "check_key cfg p = Some a \<Longrightarrow> a = Shared \<or> (\<exists>n. a = ClientKey n)"
  by (auto simp: check_key_def Let_def split: option.splits if_splits)

lemma connect_grounds:
  "let (a, user) = authenticate_connect E cfg peer h in
     (case a of
        Denied _ \<Rightarrow> user = None
      | LoopbackPeer \<Rightarrow> is_loopback_ip peer \<and> \<not> px_require_key_on_loopback cfg
      | _ \<Rightarrow> (\<exists>u p. parse_proxy_basic E h = Some (u, p) \<and> (valid_key cfg (trim u) a \<or> valid_key cfg (trim p) a)))"
proof -
  obtain u p where up: "unwrap_or ([], []) (parse_proxy_basic E h) = (u, p)" by fastforce
  have basic: "parse_proxy_basic E h = Some (u, p)" if "u \<noteq> [] \<or> p \<noteq> []"
    using up that by (cases "parse_proxy_basic E h") auto
  have nonempty: "check_key cfg (Some []) = None" by (simp add: check_key_def trim_def trim_start_def trim_end_def)
  show ?thesis
  proof (cases "check_key cfg (Some p)")
    case (Some a)
    then have "p \<noteq> []" using nonempty by auto
    with basic check_key_sound [OF Some] check_key_auth [OF Some] show ?thesis
      by (auto simp: authenticate_connect_def up Some Let_def)
  next
    case none: None
    show ?thesis
    proof (cases "check_key cfg (Some u)")
      case (Some a)
      then have "u \<noteq> []" using nonempty by auto
      with basic check_key_sound [OF Some] check_key_auth [OF Some] show ?thesis
        by (auto simp: authenticate_connect_def up none Some Let_def)
    next
      case None
      then show ?thesis by (simp add: authenticate_connect_def up none Let_def)
    qed
  qed
qed

text \<open>C16: The proxy lets a request in on exactly two grounds. Either it presents a key of at least sixteen
  bytes that is the shared key or a client's, and then it is that client, also when a web page made
  it: the key is looked at first, although the README and the configuration manual say that every request
  of a browser is refused (see the findings). Or it presents no such key, comes from this machine, keys
  are not required here, it shows no sign of a web page (no \<open>Origin\<close>, and no \<open>Sec-Fetch-Site\<close> but
  \<open>none\<close>), and it names the proxy by a loopback host or sends no \<open>Host\<close> at all, so that a page
  that rebinds its name to this machine is refused. Everyone else is denied, and a CONNECT is let in
  on a key or from this machine only.\<close>

theorem authenticate_correct:
  shows "(let a = authenticate cfg peer h host; key = map_option trim (presented_key h) in
      ((a = Shared \<or> (\<exists>n. a = ClientKey n)) \<longrightarrow> (\<exists>p. key = Some p \<and> valid_key cfg p a))
    \<and> (a = LoopbackPeer \<longleftrightarrow> (\<forall>p b. key = Some p \<longrightarrow> \<not> valid_key cfg p b) \<and> \<not> is_browser_initiated h
          \<and> is_loopback_ip peer \<and> \<not> px_require_key_on_loopback cfg \<and> host_ok host)
    \<and> ((\<exists>p b. key = Some p \<and> valid_key cfg p b) \<longrightarrow> a = Shared \<or> (\<exists>n. a = ClientKey n)))
   \<and> (let (a, user) = authenticate_connect E cfg peer h in
      (case a of
         Denied _ \<Rightarrow> user = None
       | LoopbackPeer \<Rightarrow> is_loopback_ip peer \<and> \<not> px_require_key_on_loopback cfg
       | _ \<Rightarrow> (\<exists>u p. parse_proxy_basic E h = Some (u, p) \<and> (valid_key cfg (trim u) a \<or> valid_key cfg (trim p) a))))"
proof (rule conjI)
  let ?a = "authenticate cfg peer h host"
  show "let a = ?a; key = map_option trim (presented_key h) in
      ((a = Shared \<or> (\<exists>n. a = ClientKey n)) \<longrightarrow> (\<exists>p. key = Some p \<and> valid_key cfg p a))
    \<and> (a = LoopbackPeer \<longleftrightarrow> (\<forall>p b. key = Some p \<longrightarrow> \<not> valid_key cfg p b) \<and> \<not> is_browser_initiated h
          \<and> is_loopback_ip peer \<and> \<not> px_require_key_on_loopback cfg \<and> host_ok host)
    \<and> ((\<exists>p b. key = Some p \<and> valid_key cfg p b) \<longrightarrow> a = Shared \<or> (\<exists>n. a = ClientKey n))"
  proof (cases "check_key cfg (presented_key h)")
    case (Some a)
    then obtain p where p: "presented_key h = Some p" by (cases "presented_key h") (auto simp: check_key_def)
    have "?a = a" by (simp add: authenticate_def Some)
    with check_key_sound [of cfg p a] check_key_auth [OF Some] p Some show ?thesis by (auto simp: Let_def)
  next
    case None
    then have "\<not> valid_key cfg (trim p) b" if "presented_key h = Some p" for p b
      using check_key_None that by simp
    with None show ?thesis by (auto simp: authenticate_def Let_def split: if_splits)
  qed
qed (rule connect_grounds)

theorem authenticate_correct_witness:
  "authenticate (cf_proxy (config_default ''0123456789abcdef'')) (V4 8 8 8 8)
      [(''x-api-key'', ''0123456789abcdef'')] None \<noteq> LoopbackPeer
   \<and> (\<exists>n. authenticate (cf_proxy (config_default ''0123456789abcdef'')) (V4 8 8 8 8)
      [(''x-api-key'', ''0123456789abcdef'')] None \<in> {Shared, ClientKey n})"
proof -
  let ?h = "[(''x-api-key'', ''0123456789abcdef'')]"
  have k: "presented_key ?h = Some ''0123456789abcdef''" by code_simp
  have t: "trim ''0123456789abcdef'' = ''0123456789abcdef''" by code_simp
  have v: "valid_key (cf_proxy (config_default ''0123456789abcdef'')) ''0123456789abcdef'' Shared"
    by (simp add: valid_key_def config_default_def proxy_default_def)
  from conjunct1 [OF authenticate_correct [of "cf_proxy (config_default ''0123456789abcdef'')" "V4 8 8 8 8" ?h None ext0]]
    v show ?thesis unfolding Let_def k option.map t by blast
qed

end
