(* ===== verification/Http.thy ===== *)
theory Http
  imports Utf8 Proxy_Auth
begin

text \<open>
  HTTP as the proxy builds and filters it (\<open>src/proxy/forward.rs\<close>). A header map is the list
  of its fields in order with lower-case names; the body of a response is JSON the proxy
  printed, bytes, or a stream whose chunks are relayed as they come.
\<close>

subsection \<open>Responses of the proxy's own\<close>

datatype out_body = JsonBody json | Bytes string | Streamed | NoBody

record response =
  rs_status :: nat
  rs_headers :: header_map
  rs_body :: out_body

definition hm_insert :: "string \<Rightarrow> string \<Rightarrow> header_map \<Rightarrow> header_map" where
  "hm_insert k v h = filter (\<lambda>x. fst x \<noteq> k) h @ [(k, v)]"

definition json_response :: "nat \<Rightarrow> json \<Rightarrow> response" where
  "json_response status body =
     \<lparr>rs_status = status, rs_headers = [(''content-type'', ''application/json'')], rs_body = JsonBody body\<rparr>"

definition error_json :: "string \<Rightarrow> string \<Rightarrow> json" where
  "error_json kind message =
     JObj [(''type'', JStr ''error''), (''error'', JObj [(''type'', JStr kind), (''message'', JStr message)])]"

definition error_response :: "nat \<Rightarrow> string \<Rightarrow> string \<Rightarrow> response" where
  "error_response status kind message = json_response status (error_json kind message)"

definition with_retry_after :: "response \<Rightarrow> nat \<Rightarrow> response" where
  "with_retry_after r secs = rs_headers_update (hm_insert ''retry-after'' (show_nat secs)) r"

definition retry_after_of :: "response \<Rightarrow> string option" where
  "retry_after_of r = map_of (rs_headers r) ''retry-after''"

subsection \<open>Headers that do not cross the proxy\<close>

definition HOP_BY_HOP :: "string list" where
  "HOP_BY_HOP = [''host'', ''connection'', ''keep-alive'', ''transfer-encoding'', ''content-length'', ''te'',
     ''trailer'', ''upgrade'', ''proxy-authorization'', ''proxy-authenticate'', ''proxy-connection'']"

definition CLIENT_CREDENTIAL_HEADERS :: "string list" where
  "CLIENT_CREDENTIAL_HEADERS =
     [''x-api-key'', ''authorization'', PROXY_KEY_HEADER, ''chatgpt-account-id'', ''cookie'']"

definition stripped :: "string list \<Rightarrow> string \<Rightarrow> bool" where
  "stripped strip n \<longleftrightarrow> n \<in> set HOP_BY_HOP \<or> n \<in> set CLIENT_CREDENTIAL_HEADERS \<or> n = ''accept-encoding''
     \<or> starts_with '':'' n \<or> n \<in> set strip"

definition filter_request_headers :: "header_map \<Rightarrow> string list \<Rightarrow> header_map" where
  "filter_request_headers h strip = filter (\<lambda>x. \<not> stripped strip (fst x)) h"

text \<open>What of an upstream response is relayed: everything but the hop-by-hop fields.\<close>

definition relay_headers :: "header_map \<Rightarrow> header_map" where
  "relay_headers h = filter (\<lambda>x. fst x \<notin> set HOP_BY_HOP \<and> fst x \<noteq> ''content-length'') h"

definition rl_headers :: "header_map \<Rightarrow> (string \<times> string) list" where
  "rl_headers h =
     fold (\<lambda>(k, v). bt_insert k v)
       (filter (\<lambda>(k, v). (starts_with ''anthropic-ratelimit-'' k \<or> starts_with ''x-codex-'' k) \<and> list_all visible_ascii v) h)
       []"

text \<open>Fields whose value is visible text are the only ones sent on.\<close>

definition sendable :: "header_map \<Rightarrow> header_map" where
  "sendable h = filter (\<lambda>x. list_all visible_ascii (snd x)) h"

definition values_of :: "string \<Rightarrow> header_map \<Rightarrow> string list" where
  "values_of k h = map snd (filter (\<lambda>x. fst x = k) h)"

lemma values_of_append [simp]: "values_of k (h @ h') = values_of k h @ values_of k h'"
  by (simp add: values_of_def)

lemma values_of_Nil [simp]: "values_of k [] = []"
  by (simp add: values_of_def)

lemma values_of_Cons [simp]: "values_of k ((n, v) # h) = (if n = k then v # values_of k h else values_of k h)"
  by (simp add: values_of_def)

lemma values_of_filter:
  "values_of k (filter (\<lambda>x. P (fst x)) h) = (if P k then values_of k h else [])"
  by (induction h) (auto simp: values_of_def)

lemma values_of_stripped: "stripped strip k \<Longrightarrow> values_of k (sendable (filter_request_headers h strip)) = []"
  by (auto simp: values_of_def filter_request_headers_def sendable_def filter_empty_conv)

lemma response_simps [simp]:
  "rs_status (json_response s b) = s" "rs_status (error_response s k m) = s"
  "rs_status (with_retry_after r n) = rs_status r" "rs_body (with_retry_after r n) = rs_body r"
  "rs_body (error_response s k m) = JsonBody (error_json k m)"
  by (simp_all add: json_response_def error_response_def with_retry_after_def)

lemma retry_after_error [simp]: "retry_after_of (error_response s k m) = None"
  by (simp add: retry_after_of_def error_response_def json_response_def)

lemma map_of_hm_insert: "map_of (hm_insert k v h) k = Some v"
proof -
  have "map_of (filter (\<lambda>x. fst x \<noteq> k) h) k = None" by (auto simp: map_of_eq_None_iff)
  then show ?thesis by (simp add: hm_insert_def map_add_def)
qed

lemma retry_after_with [simp]: "retry_after_of (with_retry_after r n) = Some (show_nat n)"
  by (simp add: retry_after_of_def with_retry_after_def map_of_hm_insert)

end
