(* ===== verification/Body.thy ===== *)
theory Body
  imports Fleet_Reach
begin

text \<open>
  \<open>src/proxy/body.rs\<close>: the rewrites of a request body. A JSON object keeps its key order.
  \<open>sanitize_msgs\<close> is the loop of \<open>sanitize_tool_pairs\<close>: its first argument is
  the last message pushed so far, the head of its second the message at hand.
\<close>

subsection \<open>Rewrites of single fields\<close>

definition parse_body :: "ext \<Rightarrow> string \<Rightarrow> obj option" where
  "parse_body E body = Option.bind (json_parse E body) as_object"

definition encode_body :: "ext \<Rightarrow> obj \<Rightarrow> string" where
  "encode_body E m = json_print E (JObj m)"

definition quoted_uuid_key :: string where
  "quoted_uuid_key = [CHR 0x22] @ ''account_uuid'' @ [CHR 0x22] @ '':'' @ [CHR 0x22]"

text \<open>The user id with the embedded uuid replaced, when there is one and it differs.\<close>

definition patched_user_id :: "string \<Rightarrow> string \<Rightarrow> string option" where
  "patched_user_id user_id uuid =
     (case find_sub quoted_uuid_key user_id of
        None \<Rightarrow> None
      | Some pos \<Rightarrow>
          let start = pos + length quoted_uuid_key; rest = drop start user_id
          in (case find_sub [CHR 0x22] rest of
                None \<Rightarrow> None
              | Some e \<Rightarrow> if take e rest = uuid then None
                          else Some (take start user_id @ uuid @ drop e rest)))"

definition patch_account_uuid :: "string \<Rightarrow> obj \<Rightarrow> obj \<times> bool" where
  "patch_account_uuid uuid m =
     (if length uuid \<noteq> 36 then (m, False)
      else (case Option.bind (map_of m ''metadata'') (j_get ''user_id'') of
              Some (JStr user_id) \<Rightarrow>
                (case (patched_user_id user_id uuid, map_of m ''metadata'') of
                   (Some p, Some (JObj md)) \<Rightarrow>
                     (obj_insert ''metadata'' (JObj (obj_insert ''user_id'' (JStr p) md)) m, True)
                 | _ \<Rightarrow> (m, False))
            | _ \<Rightarrow> (m, False)))"

definition rewrite_model :: "(string \<times> string) list \<Rightarrow> obj \<Rightarrow> obj \<times> bool" where
  "rewrite_model mm m =
     (case map_of m ''model'' of
        Some (JStr model) \<Rightarrow>
          (case map_of mm model of
             Some t \<Rightarrow> (obj_insert ''model'' (JStr t) m, True) | None \<Rightarrow> (m, False))
      | _ \<Rightarrow> (m, False))"

fun strip_fields :: "string list \<Rightarrow> obj \<Rightarrow> obj \<times> bool" where
  "strip_fields [] m = (m, False)"
| "strip_fields (f # fs) m =
     (let (m', changed) = strip_fields fs (obj_remove f m) in (m', al_has m f \<or> changed))"

subsection \<open>Tool calls and their results\<close>

definition has_type :: "string \<Rightarrow> json \<Rightarrow> bool" where
  "has_type t b \<longleftrightarrow> get_str ''type'' b = Some t"

definition tool_use_ids :: "json list \<Rightarrow> string list" where
  "tool_use_ids bs = List.map_filter (get_str ''id'') (filter (has_type ''tool_use'') bs)"

definition tool_result_ids :: "json list \<Rightarrow> string list" where
  "tool_result_ids bs = List.map_filter (get_str ''tool_use_id'') (filter (has_type ''tool_result'') bs)"

definition blocks_of :: "json \<Rightarrow> json list option" where
  "blocks_of msg = Option.bind (j_get ''content'' msg) as_array"

definition has_role :: "string \<Rightarrow> json \<Rightarrow> bool" where
  "has_role r msg \<longleftrightarrow> get_str ''role'' msg = Some r"

text \<open>The results a following user turn answers with, and the uses of a preceding assistant turn.\<close>

definition results_in :: "json \<Rightarrow> string list" where
  "results_in msg = (if has_role ''user'' msg then (case blocks_of msg of Some bs \<Rightarrow> tool_result_ids bs | None \<Rightarrow> []) else [])"

definition uses_in :: "json \<Rightarrow> string list" where
  "uses_in msg = (if has_role ''assistant'' msg then (case blocks_of msg of Some bs \<Rightarrow> tool_use_ids bs | None \<Rightarrow> []) else [])"

definition keep_use :: "string list \<Rightarrow> json \<Rightarrow> bool" where
  "keep_use results b \<longleftrightarrow> \<not> has_type ''tool_use'' b
     \<or> (case get_str ''id'' b of Some i \<Rightarrow> i \<in> set results | None \<Rightarrow> False)"

definition keep_result :: "string list \<Rightarrow> json \<Rightarrow> bool" where
  "keep_result uses b \<longleftrightarrow> \<not> has_type ''tool_result'' b
     \<or> (case get_str ''tool_use_id'' b of Some i \<Rightarrow> i \<in> set uses | None \<Rightarrow> False)"

text \<open>The blocks of a message that stay, \<open>None\<close> when the message is not looked at.\<close>

definition kept_blocks :: "json option \<Rightarrow> json \<Rightarrow> json list \<Rightarrow> json list option" where
  "kept_blocks prev msg rest =
     (case blocks_of msg of
        None \<Rightarrow> None
      | Some bs \<Rightarrow>
          if has_role ''assistant'' msg
          then (if tool_use_ids bs = [] then None
                else Some (filter (keep_use (case rest of n # _ \<Rightarrow> results_in n | [] \<Rightarrow> [])) bs))
          else if has_role ''user'' msg
          then Some (filter (keep_result (case prev of Some p \<Rightarrow> uses_in p | None \<Rightarrow> [])) bs)
          else None)"

definition with_content :: "json list \<Rightarrow> json \<Rightarrow> json" where
  "with_content kept msg = (case msg of JObj m \<Rightarrow> JObj (obj_insert ''content'' (JArr kept) m) | _ \<Rightarrow> msg)"

fun sanitize_msgs :: "json option \<Rightarrow> json list \<Rightarrow> json list \<times> bool" where
  "sanitize_msgs prev [] = ([], False)"
| "sanitize_msgs prev (msg # rest) =
     (case kept_blocks prev msg rest of
        None \<Rightarrow> apfst (Cons msg) (sanitize_msgs (Some msg) rest)
      | Some kept \<Rightarrow>
          if Some (length kept) = map_option length (blocks_of msg)
          then apfst (Cons msg) (sanitize_msgs (Some msg) rest)
          else if kept = [] then (fst (sanitize_msgs prev rest), True)
          else (with_content kept msg # fst (sanitize_msgs (Some (with_content kept msg)) rest), True))"

definition sanitize_tool_pairs :: "obj \<Rightarrow> obj \<times> bool" where
  "sanitize_tool_pairs m =
     (case map_of m ''messages'' of
        Some (JArr messages) \<Rightarrow>
          (case sanitize_msgs None messages of
             (out, changed) \<Rightarrow> (if changed then obj_insert ''messages'' (JArr out) m else m, changed))
      | _ \<Rightarrow> (m, False))"

definition apply_all ::
  "ext \<Rightarrow> string \<Rightarrow> obj option \<Rightarrow> string option \<Rightarrow> bool \<Rightarrow> (string \<times> string) list \<Rightarrow> string list \<Rightarrow> string" where
  "apply_all E original parsed uuid anthropic_shaped model_map strip =
     (case parsed of
        None \<Rightarrow> original
      | Some p \<Rightarrow>
          let (m, c1) = (if anthropic_shaped then sanitize_tool_pairs p else (p, False));
              (m, c2) = (case uuid of
                 Some u \<Rightarrow> if anthropic_shaped then patch_account_uuid u m else (m, False) | None \<Rightarrow> (m, False));
              (m, c3) = rewrite_model model_map m;
              (m, c4) = strip_fields strip m
          in if c1 \<or> c2 \<or> c3 \<or> c4 then encode_body E m else original)"

subsection \<open>Every call is answered and every answer was asked for\<close>

text \<open>A transcript is paired when the results of each turn are exactly the calls of the turn before
  it, and the last turn leaves no call open.\<close>

fun paired_from :: "string set \<Rightarrow> json list \<Rightarrow> bool" where
  "paired_from U [] \<longleftrightarrow> U = {}"
| "paired_from U (m # ms) \<longleftrightarrow> set (results_in m) = U \<and> paired_from (set (uses_in m)) ms"

text \<open>What a transcript says besides tool calls and results.\<close>

definition other_blocks :: "json \<Rightarrow> json list" where
  "other_blocks msg =
     (case blocks_of msg of
        None \<Rightarrow> [msg]
      | Some bs \<Rightarrow>
          if has_role ''assistant'' msg then filter (\<lambda>b. \<not> has_type ''tool_use'' b) bs
          else if has_role ''user'' msg then filter (\<lambda>b. \<not> has_type ''tool_result'' b) bs
          else bs)"

lemma not_both_roles: "has_role ''assistant'' m \<Longrightarrow> \<not> has_role ''user'' m"
  by (simp add: has_role_def)

lemma obj_insert_lookup: "map_of (obj_insert k v m) = (map_of m)(k \<mapsto> v)"
  unfolding obj_insert_def by (simp add: update_conv')

lemma with_content_props:
  assumes "blocks_of msg = Some bs"
  shows "blocks_of (with_content kept msg) = Some kept" "has_role r (with_content kept msg) = has_role r msg"
proof -
  obtain m where "msg = JObj m" using assms by (cases msg) (auto simp: blocks_of_def)
  then show "blocks_of (with_content kept msg) = Some kept" "has_role r (with_content kept msg) = has_role r msg"
    by (simp_all add: with_content_def blocks_of_def has_role_def get_str_def obj_insert_lookup)
qed

lemma use_ids_kept: "set (tool_use_ids (filter (keep_use R) bs)) = set (tool_use_ids bs) \<inter> set R"
  by (induction bs) (auto simp: tool_use_ids_def keep_use_def map_filter_simps split: option.splits)

lemma result_ids_kept: "set (tool_result_ids (filter (keep_result U) bs)) = set (tool_result_ids bs) \<inter> set U"
  by (induction bs) (auto simp: tool_result_ids_def keep_result_def map_filter_simps split: option.splits)

lemma filter_same_length: "length (filter P xs) = length xs \<Longrightarrow> filter P xs = xs"
  by (metis filter_id_conv length_filter_less nless_le)

definition prev_uses :: "json option \<Rightarrow> string list" where
  "prev_uses prev = (case prev of Some p \<Rightarrow> uses_in p | None \<Rightarrow> [])"

definition next_results :: "json list \<Rightarrow> string list" where
  "next_results rest = (case rest of n # _ \<Rightarrow> results_in n | [] \<Rightarrow> [])"

lemma prev_uses_simps [simp]: "prev_uses (Some p) = uses_in p" "prev_uses None = []"
  by (simp_all add: prev_uses_def)

lemma next_results_simps [simp]: "next_results (n # ms) = results_in n" "next_results [] = []"
  by (simp_all add: next_results_def)

text \<open>The message that is pushed for \<open>msg\<close>, if any.\<close>

definition pushed :: "json option \<Rightarrow> json \<Rightarrow> json list \<Rightarrow> json option" where
  "pushed prev msg rest =
     (case kept_blocks prev msg rest of
        None \<Rightarrow> Some msg
      | Some kept \<Rightarrow>
          if Some (length kept) = map_option length (blocks_of msg) then Some msg
          else if kept = [] then None else Some (with_content kept msg))"

lemma sanitize_Cons:
  "fst (sanitize_msgs prev (msg # rest)) =
     (case pushed prev msg rest of
        Some m \<Rightarrow> m # fst (sanitize_msgs (Some m) rest) | None \<Rightarrow> fst (sanitize_msgs prev rest))"
  by (simp add: pushed_def split: option.split)

lemma kept_assistant:
  assumes "has_role ''assistant'' msg" and "kept_blocks prev msg rest = Some kept"
  shows "\<exists>bs. blocks_of msg = Some bs \<and> kept = filter (keep_use (next_results rest)) bs"
  using assms by (auto simp: kept_blocks_def next_results_def split: option.splits if_splits)

lemma kept_user:
  assumes "has_role ''user'' msg" and "blocks_of msg = Some bs"
  shows "kept_blocks prev msg rest = Some (filter (keep_result (prev_uses prev)) bs)"
  using assms by (auto simp: kept_blocks_def prev_uses_def has_role_def)

text \<open>A pushed message answers exactly the calls before it, and its own calls are answered next.\<close>

lemma pushed_Some:
  assumes p: "pushed prev msg rest = Some m" and u: "set (prev_uses prev) \<subseteq> set (results_in msg)"
  shows "set (results_in m) = set (prev_uses prev) \<and> set (uses_in m) \<subseteq> set (next_results rest)"
proof (cases "kept_blocks prev msg rest")
  case None
  then have m: "m = msg" using p by (simp add: pushed_def)
  have "\<not> has_role ''user'' msg \<or> blocks_of msg = None"
    using None kept_user [of msg _ prev rest] by (cases "blocks_of msg") auto
  then have r: "results_in msg = []" by (auto simp: results_in_def)
  moreover have "uses_in msg = []"
    using None by (auto simp: kept_blocks_def uses_in_def split: option.splits if_splits)
  ultimately show ?thesis using u by (simp add: m)
next
  case (Some kept)
  then obtain bs where bs: "blocks_of msg = Some bs" by (auto simp: kept_blocks_def split: option.splits)
  have same: "m = (if length kept = length bs then msg else with_content kept msg)"
    using p Some bs by (auto simp: pushed_def split: if_splits)
  show ?thesis
  proof (cases "has_role ''assistant'' msg")
    case True
    then have k: "kept = filter (keep_use (next_results rest)) bs" using kept_assistant [OF True Some] bs by auto
    then have blocks: "blocks_of m = Some kept" and role: "has_role r m = has_role r msg" for r
      using same bs with_content_props [OF bs] filter_same_length [of "keep_use (next_results rest)" bs] by auto
    have r: "results_in msg = []" "results_in m = []"
      using True not_both_roles role by (simp_all add: results_in_def)
    with u have "prev_uses prev = []" by simp
    moreover have "set (uses_in m) \<subseteq> set (next_results rest)"
      using True by (simp add: uses_in_def role blocks k use_ids_kept)
    ultimately show ?thesis using r by simp
  next
    case na: False
    then have user: "has_role ''user'' msg"
      using Some bs by (auto simp: kept_blocks_def split: if_splits)
    have k: "kept = filter (keep_result (prev_uses prev)) bs" using kept_user [OF user bs, of prev rest] Some by simp
    then have blocks: "blocks_of m = Some kept" and role: "has_role r m = has_role r msg" for r
      using same bs with_content_props [OF bs] filter_same_length [of "keep_result (prev_uses prev)" bs] by auto
    have "set (results_in m) = set (results_in msg) \<inter> set (prev_uses prev)"
      using user by (simp add: results_in_def role blocks bs k result_ids_kept)
    with u na role show ?thesis by (auto simp: uses_in_def)
  qed
qed

lemma pushed_None:
  assumes p: "pushed prev msg rest = None" and u: "set (prev_uses prev) \<subseteq> set (results_in msg)"
  shows "prev_uses prev = []"
proof -
  obtain bs where k: "kept_blocks prev msg rest = Some []" and bs: "blocks_of msg = Some bs"
    using p by (cases "blocks_of msg") (auto simp: pushed_def kept_blocks_def split: option.splits if_splits)
  show ?thesis
  proof (cases "has_role ''user'' msg")
    case True
    then have "filter (keep_result (prev_uses prev)) bs = []" using kept_user [OF True bs, of prev rest] k by simp
    then have "set (tool_result_ids bs) \<inter> set (prev_uses prev) = {}"
      using result_ids_kept [of "prev_uses prev" bs] by (simp add: tool_result_ids_def map_filter_simps)
    then have "set (results_in msg) \<inter> set (prev_uses prev) = {}" using True bs by (simp add: results_in_def)
    with u have "set (prev_uses prev) = {}" by (simp add: inf.absorb2)
    then show ?thesis by simp
  next
    case False
    with u show ?thesis by (simp add: results_in_def)
  qed
qed

lemma sanitize_paired:
  "set (prev_uses prev) \<subseteq> set (next_results msgs) \<Longrightarrow>
   paired_from (set (prev_uses prev)) (fst (sanitize_msgs prev msgs))"
proof (induction msgs arbitrary: prev)
  case (Cons msg rest)
  then have u: "set (prev_uses prev) \<subseteq> set (results_in msg)" by simp
  show ?case
  proof (cases "pushed prev msg rest")
    case None
    then have "prev_uses prev = []" using pushed_None u by blast
    with Cons.IH [of prev] None show ?thesis by (simp add: sanitize_Cons del: sanitize_msgs.simps)
  next
    case (Some m)
    with pushed_Some [OF Some u] Cons.IH [of "Some m"] show ?thesis
      by (simp add: sanitize_Cons del: sanitize_msgs.simps)
  qed
qed simp

lemma filter_keep:
  "filter (\<lambda>b. \<not> has_type ''tool_use'' b) (filter (keep_use R) bs) = filter (\<lambda>b. \<not> has_type ''tool_use'' b) bs"
  "filter (\<lambda>b. \<not> has_type ''tool_result'' b) (filter (keep_result U) bs) =
     filter (\<lambda>b. \<not> has_type ''tool_result'' b) bs"
  by (induction bs) (auto simp: keep_use_def keep_result_def)

lemma other_pushed:
  "concat (map other_blocks [msg]) = (case pushed prev msg rest of Some m \<Rightarrow> other_blocks m | None \<Rightarrow> [])"
proof (cases "kept_blocks prev msg rest")
  case None
  then show ?thesis by (simp add: pushed_def)
next
  case (Some kept)
  then obtain bs where bs: "blocks_of msg = Some bs" by (auto simp: kept_blocks_def split: option.splits)
  have others: "other_blocks msg = (if has_role ''assistant'' msg then filter (\<lambda>b. \<not> has_type ''tool_use'' b) kept
      else filter (\<lambda>b. \<not> has_type ''tool_result'' b) kept)"
    using Some bs
    by (auto simp: kept_blocks_def other_blocks_def filter_keep simp del: filter_filter split: if_splits)
  obtain P where P: "kept = filter P bs" using Some bs by (auto simp: kept_blocks_def split: if_splits)
  have same: "length kept = length bs \<Longrightarrow> kept = bs" unfolding P by (rule filter_same_length)
  have "other_blocks (with_content kept msg) = (if has_role ''assistant'' msg
      then filter (\<lambda>b. \<not> has_type ''tool_use'' b) kept else filter (\<lambda>b. \<not> has_type ''tool_result'' b) kept)"
    using Some bs by (auto simp: other_blocks_def with_content_props [OF bs] kept_blocks_def split: if_splits)
  with others have "other_blocks (with_content kept msg) = other_blocks msg" by simp
  moreover have "kept = [] \<Longrightarrow> other_blocks msg = []" using others by simp
  ultimately show ?thesis by (simp add: pushed_def Some bs)
qed

lemma sanitize_others:
  "concat (map other_blocks (fst (sanitize_msgs prev msgs))) = concat (map other_blocks msgs)"
proof (induction msgs arbitrary: prev)
  case (Cons msg rest)
  have "other_blocks msg = (case pushed prev msg rest of Some m \<Rightarrow> other_blocks m | None \<Rightarrow> [])"
    using other_pushed [of msg prev rest] by simp
  with Cons.IH show ?case by (simp add: sanitize_Cons del: sanitize_msgs.simps split: option.split)
qed simp

lemma sanitize_unchanged: "\<not> snd (sanitize_msgs prev msgs) \<Longrightarrow> fst (sanitize_msgs prev msgs) = msgs"
  by (induction msgs arbitrary: prev) (auto split: option.splits if_splits)

text \<open>C40: However a transcript was cut or compacted, what is sent upstream is paired: every tool
  result answers a call of the assistant turn right before it, and every call of an assistant
  turn is answered in the turn right after it; nothing that is neither is dropped or
  reordered; and a transcript that is reported unchanged is sent as it came.\<close>

theorem sanitize_pairs_tools:
  assumes "map_of m ''messages'' = Some (JArr msgs)" and "sanitize_tool_pairs m = (m', changed)"
  shows "\<exists>out. map_of m' ''messages'' = Some (JArr out)
     \<and> paired_from {} out
     \<and> concat (map other_blocks out) = concat (map other_blocks msgs)
     \<and> (\<forall>k. k \<noteq> ''messages'' \<longrightarrow> map_of m' k = map_of m k)
     \<and> (\<not> changed \<longrightarrow> m' = m)"
proof -
  obtain out ch where r: "sanitize_msgs None msgs = (out, ch)" by fastforce
  have p: "paired_from {} out" using sanitize_paired [of None msgs] r by simp
  have o: "concat (map other_blocks out) = concat (map other_blocks msgs)"
    using sanitize_others [of None msgs] r by simp
  have m': "m' = (if ch then obj_insert ''messages'' (JArr out) m else m)" "changed = ch"
    using assms by (auto simp: sanitize_tool_pairs_def r)
  show ?thesis
  proof (cases ch)
    case True
    with p o m' show ?thesis by simp
  next
    case False
    then have "out = msgs" using sanitize_unchanged [of None msgs] r by simp
    with False p o m' assms(1) show ?thesis by simp
  qed
qed

definition cut_transcript :: obj where
  "cut_transcript = [(''messages'', JArr
     [JObj [(''role'', JStr ''assistant''),
            (''content'', JArr [JObj [(''type'', JStr ''tool_use''), (''id'', JStr ''t'')]])]])]"

theorem sanitize_pairs_tools_witness:
  "\<exists>out. map_of (fst (sanitize_tool_pairs cut_transcript)) ''messages'' = Some (JArr out) \<and> paired_from {} out"
proof -
  have m: "map_of cut_transcript ''messages'' = Some (JArr
     [JObj [(''role'', JStr ''assistant''),
            (''content'', JArr [JObj [(''type'', JStr ''tool_use''), (''id'', JStr ''t'')]])]])"
    by (simp add: cut_transcript_def)
  obtain m' ch where r: "sanitize_tool_pairs cut_transcript = (m', ch)" by fastforce
  from sanitize_pairs_tools [OF m r] r show ?thesis by auto
qed

end
