(* ===== verification/Usage_Stream.thy ===== *)
theory Usage_Stream
  imports Utf8 Body
begin

text \<open>
  The usage a streamed message reports (\<open>UsageAccumulator\<close> of \<open>src/proxy/forward.rs\<close>): server-sent
  events end with an empty line, and arrive cut anywhere. The state is the buffer of what has
  no end yet and the usage merged so far.
\<close>

subsection \<open>Events\<close>

text \<open>\<open>str::lines\<close>: a carriage return before a line feed belongs to the line end, and a
  trailing line feed starts no line.\<close>

definition drop_cr :: "string \<Rightarrow> string" where
  "drop_cr l = unwrap_or l (strip_suffix [CHR 0x0D] l)"

definition text_lines :: "string \<Rightarrow> string list" where
  "text_lines s =
     (let ls = split_on (CHR 0x0A) s
      in map drop_cr (butlast ls) @ (if last ls = [] then [] else [last ls]))"

definition event_usage :: "json \<Rightarrow> json option" where
  "event_usage v =
     (if get_str ''type'' v = Some ''message_start'' then j_pointer [''message'', ''usage''] v
      else if get_str ''type'' v = Some ''message_delta'' then j_get ''usage'' v
      else None)"

definition merge_numbers :: "obj \<Rightarrow> obj \<Rightarrow> obj" where
  "merge_numbers u m = fold (\<lambda>(k, v) m. if is_number v then obj_insert k v m else m) u m"

definition line_usage :: "ext \<Rightarrow> string \<Rightarrow> obj option \<Rightarrow> obj option" where
  "line_usage E l merged =
     (case Option.bind (Option.bind (strip_prefix ''data:'' l) (\<lambda>d. json_parse E (trim d))) event_usage of
        Some (JObj u) \<Rightarrow> Some (merge_numbers u (unwrap_or [] merged))
      | _ \<Rightarrow> merged)"

definition read_event :: "ext \<Rightarrow> string \<Rightarrow> obj option \<Rightarrow> obj option" where
  "read_event E raw merged = fold (line_usage E) (text_lines (utf8_lossy raw)) merged"

subsection \<open>Chunks\<close>

definition nn :: string where "nn = [CHR 0x0A, CHR 0x0A]"

definition find_double_newline :: "string \<Rightarrow> nat option" where
  "find_double_newline buf = find_sub nn buf"

lemma find_sub_bound: "find_sub p s = Some i \<Longrightarrow> i + length p \<le> length s"
proof (induction s arbitrary: i)
  case (Cons c s)
  then show ?case
    by (auto simp: starts_with_def split: if_splits dest!: arg_cong [where f = length])
qed (simp split: if_splits)

text \<open>The events that are complete, and what is left in the buffer.\<close>

function drain_events :: "string \<Rightarrow> string list \<times> string" where
  "drain_events buf =
     (case find_double_newline buf of
        None \<Rightarrow> ([], buf)
      | Some p \<Rightarrow> (case drain_events (drop (p + 2) buf) of (es, rest) \<Rightarrow> (take (p + 2) buf # es, rest)))"
  by auto

termination
proof (relation "measure length", goal_cases)
  case (2 buf p)
  then have "p + length nn \<le> length buf" unfolding find_double_newline_def by (rule find_sub_bound)
  then show ?case by (simp add: nn_def)
qed simp

declare drain_events.simps [simp del]

definition STREAM_BUFFER_MAX :: nat where "STREAM_BUFFER_MAX = 1024 * 1024"

record usage_acc =
  ua_buf :: string
  ua_merged :: "obj option"

definition usage_acc0 :: usage_acc where
  "usage_acc0 = \<lparr>ua_buf = [], ua_merged = None\<rparr>"

definition usage_feed :: "ext \<Rightarrow> string \<Rightarrow> usage_acc \<Rightarrow> usage_acc" where
  "usage_feed E chunk a =
     (case drain_events (ua_buf a @ chunk) of
        (es, rest) \<Rightarrow>
          \<lparr>ua_buf = (if STREAM_BUFFER_MAX < length rest then [] else rest),
           ua_merged = fold (read_event E) es (ua_merged a)\<rparr>)"

definition usage_flush :: "ext \<Rightarrow> usage_acc \<Rightarrow> obj option" where
  "usage_flush E a =
     (if ua_buf a = [] then ua_merged a else read_event E (ua_buf a) (ua_merged a))"

definition stream_usage :: "ext \<Rightarrow> string list \<Rightarrow> json option" where
  "stream_usage E chunks = map_option JObj (usage_flush E (fold (usage_feed E) chunks usage_acc0))"

subsection \<open>The cuts do not matter\<close>

lemma starts_with_app: "length p \<le> length s \<Longrightarrow> starts_with p (s @ t) = starts_with p s"
  by (simp add: starts_with_def)

lemma find_sub_prefix: "find_sub p s = Some i \<Longrightarrow> find_sub p (s @ t) = Some i"
proof (induction s arbitrary: i)
  case Nil
  then show ?case by (cases t) (auto simp: starts_with_def split: if_splits)
next
  case (Cons c s)
  have "length p \<le> length (c # s)" using find_sub_bound [OF Cons.prems] by simp
  then have "starts_with p ((c # s) @ t) = starts_with p (c # s)" by (rule starts_with_app)
  with Cons show ?case by (auto split: if_splits)
qed

lemma find_sub_inside: "find_sub p (s @ t) = Some i \<Longrightarrow> i + length p \<le> length s \<Longrightarrow> find_sub p s = Some i"
proof (induction s arbitrary: i)
  case (Cons c s)
  then have "starts_with p ((c # s) @ t) = starts_with p (c # s)" by (intro starts_with_app) simp
  with Cons show ?case by (auto split: if_splits)
qed simp

lemma drain_None: "find_double_newline buf = None \<Longrightarrow> drain_events buf = ([], buf)"
  by (simp add: drain_events.simps)

lemma drain_Some:
  "find_double_newline buf = Some p \<Longrightarrow>
   drain_events buf = (take (p + 2) buf # fst (drain_events (drop (p + 2) buf)), snd (drain_events (drop (p + 2) buf)))"
  by (subst drain_events.simps) (simp add: case_prod_unfold)

lemma drain_rest_None: "find_double_newline (snd (drain_events s)) = None"
proof (induction s rule: drain_events.induct)
  case (1 buf)
  then show ?case by (cases "find_double_newline buf") (simp_all add: drain_None drain_Some)
qed

lemma find_bound: "find_double_newline s = Some p \<Longrightarrow> p + 2 \<le> length s"
  using find_sub_bound [of nn s p] by (simp add: find_double_newline_def nn_def)

lemma drain_append:
  "drain_events (s @ t) =
     (let rest = snd (drain_events s) @ t
      in (fst (drain_events s) @ fst (drain_events rest), snd (drain_events rest)))"
proof (induction s rule: drain_events.induct)
  case (1 buf)
  show ?case
  proof (cases "find_double_newline buf")
    case None
    then show ?thesis by (simp add: drain_None)
  next
    case (Some p)
    have "find_double_newline (buf @ t) = Some p"
      using Some unfolding find_double_newline_def by (rule find_sub_prefix)
    then show ?thesis using 1 [OF Some] Some find_bound [OF Some]
      by (simp add: drain_Some Let_def)
  qed
qed

text \<open>The reference: the events of the whole body, merged in order.\<close>

definition whole_usage :: "ext \<Rightarrow> string \<Rightarrow> json option" where
  "whole_usage E body =
     (case drain_events body of
        (es, rest) \<Rightarrow>
          map_option JObj (fold (read_event E) (es @ (if rest = [] then [] else [rest])) None))"

definition events_fit :: "string \<Rightarrow> bool" where
  "events_fit body \<longleftrightarrow>
     (case drain_events body of (es, rest) \<Rightarrow> \<forall>e \<in> set (rest # es). length e \<le> STREAM_BUFFER_MAX)"

text \<open>What is left after a cut is the start of the next event or of the rest.\<close>

lemma rest_fits:
  assumes "events_fit (s @ t)"
  shows "length (snd (drain_events s)) \<le> STREAM_BUFFER_MAX"
proof -
  let ?r = "snd (drain_events s)"
  have fit: "\<forall>e \<in> set (snd (drain_events (?r @ t)) # fst (drain_events (?r @ t))). length e \<le> STREAM_BUFFER_MAX"
    using assms by (simp add: events_fit_def drain_append [of s t] Let_def case_prod_unfold)
  show ?thesis
  proof (cases "find_double_newline (?r @ t)")
    case None
    with fit show ?thesis by (simp add: drain_None)
  next
    case (Some p)
    have "\<not> p + 2 \<le> length ?r"
    proof
      assume "p + 2 \<le> length ?r"
      then have "find_double_newline ?r = Some p"
        using Some find_sub_inside [of nn ?r t p] by (simp add: find_double_newline_def nn_def)
      with drain_rest_None [of s] show False by simp
    qed
    with fit Some find_bound [OF Some] show ?thesis by (simp add: drain_Some)
  qed
qed

lemma feed_drain:
  assumes "events_fit (pre @ chunk @ post)"
    and "a = \<lparr>ua_buf = snd (drain_events pre), ua_merged = fold (read_event E) (fst (drain_events pre)) None\<rparr>"
  shows "usage_feed E chunk a =
     \<lparr>ua_buf = snd (drain_events (pre @ chunk)),
      ua_merged = fold (read_event E) (fst (drain_events (pre @ chunk))) None\<rparr>"
proof -
  have "length (snd (drain_events (pre @ chunk))) \<le> STREAM_BUFFER_MAX"
    using rest_fits [of "pre @ chunk" post] assms(1) by simp
  then show ?thesis using assms(2)
    by (simp add: usage_feed_def drain_append [of pre chunk] case_prod_unfold Let_def)
qed

lemma feed_all:
  assumes "events_fit (pre @ concat chunks)"
    and "a = \<lparr>ua_buf = snd (drain_events pre), ua_merged = fold (read_event E) (fst (drain_events pre)) None\<rparr>"
  shows "fold (usage_feed E) chunks a =
     \<lparr>ua_buf = snd (drain_events (pre @ concat chunks)),
      ua_merged = fold (read_event E) (fst (drain_events (pre @ concat chunks))) None\<rparr>"
  using assms
proof (induction chunks arbitrary: pre a)
  case (Cons c cs)
  then show ?case
    using feed_drain [of pre c "concat cs" a E] Cons.IH [of "pre @ c"] by simp
qed simp

text \<open>C39: The tokens an account is billed for do not depend on how the network cut the stream: as
  long as no event is longer than the buffer may grow, the usage read chunk by chunk is the
  usage read from the events of the whole body, however the body was cut.\<close>

theorem stream_usage_cut_independent:
  assumes "events_fit (concat chunks)"
  shows "stream_usage E chunks = whole_usage E (concat chunks)"
proof -
  have "usage_acc0 = \<lparr>ua_buf = snd (drain_events []), ua_merged = fold (read_event E) (fst (drain_events [])) None\<rparr>"
    by (simp add: usage_acc0_def drain_None find_double_newline_def nn_def)
  from feed_all [OF _ this, of chunks] assms show ?thesis
    by (simp add: stream_usage_def whole_usage_def usage_flush_def case_prod_unfold)
qed

theorem stream_usage_cut_independent_witness:
  "stream_usage ext0 [''ab'' @ [CHR 0x0A], [CHR 0x0A], ''c''] = whole_usage ext0 (''ab'' @ nn @ ''c'')"
proof -
  have d: "drain_events (''ab'' @ nn @ ''c'') = ([''ab'' @ nn], ''c'')" by code_simp
  have "(1::nat) \<le> STREAM_BUFFER_MAX \<and> 4 \<le> STREAM_BUFFER_MAX" by (simp add: STREAM_BUFFER_MAX_def)
  then have "events_fit (concat [''ab'' @ [CHR 0x0A], [CHR 0x0A], ''c''])"
    using d by (simp add: events_fit_def nn_def)
  from stream_usage_cut_independent [OF this, of ext0] show ?thesis by (simp add: nn_def)
qed

end
