(* ===== verification/Attempt.thy ===== *)
theory Attempt
  imports Http Usage_Stream
begin

text \<open>
  \<open>attempt\<close> of \<open>src/proxy/forward.rs\<close>: one try of a request on one account. The code lets go of
  the fleet between its critical sections; \<open>aw_env w k\<close> is whatever other requests do to it
  before section \<open>k\<close>, and \<open>aw_now w k\<close> the clock (ms) there. The upstream is a function of the
  request it is sent. A body is the list of its chunks; \<open>Stalled\<close> is a gap that outlasts every
  timer, and waiting for more without a timer then never returns, which is \<open>None\<close>.
\<close>

subsection \<open>Requests, replies and their world\<close>

record req_info =
  ri_id :: string
  ri_method :: string
  ri_path_and_query :: string
  ri_model :: "string option"
  ri_advisor :: "string option"
  ri_session :: "string option"
  ri_client :: "string option"
  ri_pin :: "string option"
  ri_pool :: string
  ri_hold_ms :: nat
  ri_provider :: provider
  ri_parsed :: "obj option"
  ri_dimensions :: "(string \<times> string) list"

datatype chunk = Chunk string | Broken | Stalled

record upstream_response =
  ur_status :: nat
  ur_headers :: header_map
  ur_chunks :: "chunk list"

record outgoing =
  og_method :: string
  og_url :: string
  og_headers :: header_map
  og_body :: string

datatype reply = ConnectFailed | SendFailed string | NoHeaders | Reply upstream_response

record attempt_world =
  aw_refresh :: "provider \<Rightarrow> string \<Rightarrow> refresh_error + tokens"
  aw_env :: "nat \<Rightarrow> fleet \<Rightarrow> fleet"
  aw_now :: "nat \<Rightarrow> int"
  aw_clock_ns :: int
  aw_reply :: "outgoing \<Rightarrow> reply"

text \<open>The outcomes; a wait is in seconds.\<close>

datatype attempt =
    Done response
  | Reject response
  | Failover string bool
  | RetrySame nat
  | RateLimitedHop nat
  | Abort response string

record attempt_run =
  ar_outcome :: "attempt option"
  ar_fleet :: fleet
  ar_sent :: "outgoing option"
  ar_reply :: "reply option"
  ar_stream :: "chunk list option"
  ar_served :: "(nat \<times> bool) option"

text \<open>\<open>ar_sent\<close> is the request on the wire and \<open>ar_reply\<close> what came back, \<open>ar_stream\<close> the body a background task still relays,
  \<open>ar_served\<close> the status and success this attempt itself reported to the activity feed.\<close>

subsection \<open>Reading bodies\<close>

definition ERROR_BODY_INSPECTION_LIMIT :: nat where "ERROR_BODY_INSPECTION_LIMIT = 64 * 1024"

fun read_limited :: "string \<Rightarrow> chunk list \<Rightarrow> string option" where
  "read_limited out [] = Some out"
| "read_limited out (Chunk c # cs) =
     (if ERROR_BODY_INSPECTION_LIMIT < length (out @ c) then Some (out @ c) else read_limited (out @ c) cs)"
| "read_limited out (Broken # cs) = Some out"
| "read_limited out (Stalled # cs) = None"

text \<open>\<open>bytes()\<close> without a timer: \<open>None\<close> never returns, \<open>Some None\<close> is a failed read.\<close>

fun read_all :: "string \<Rightarrow> chunk list \<Rightarrow> string option option" where
  "read_all out [] = Some (Some out)"
| "read_all out (Chunk c # cs) = read_all (out @ c) cs"
| "read_all out (Broken # cs) = Some None"
| "read_all out (Stalled # cs) = None"

text \<open>Under a timer a stall is a failed read too.\<close>

definition read_buffered :: "chunk list \<Rightarrow> string option" where
  "read_buffered cs = (case read_all [] cs of Some b \<Rightarrow> b | None \<Rightarrow> None)"

subsection \<open>What a rate-limited answer says\<close>

definition INLINE_RETRY_AFTER_MAX_SECONDS :: nat where "INLINE_RETRY_AFTER_MAX_SECONDS = 15"
definition HEADERLESS_429_PAUSE_SECONDS :: nat where "HEADERLESS_429_PAUSE_SECONDS = 5"
definition FLEET_429_RETRY_AFTER_SECONDS :: nat where "FLEET_429_RETRY_AFTER_SECONDS = 10"

definition rate_limit_absorb_max :: "ext \<Rightarrow> nat" where
  "rate_limit_absorb_max E =
     unwrap_or 60 (Option.bind (getenv E ''CORRALL_RATE_LIMIT_ABSORB_MAX_SECONDS'') (parse_unsigned u64_max))"

definition parse_retry_after :: "ext \<Rightarrow> string \<Rightarrow> int \<Rightarrow> int option" where
  "parse_retry_after E v0 now_ns =
     (let v = trim v0
      in (case parse_i64 v of
            Some secs \<Rightarrow> Some secs
          | None \<Rightarrow> map_option (\<lambda>t. max (trunc_div (t * 1000000000 - now_ns) 1000000000) 1) (parse_rfc2822 E v)))"

definition rl_rejected :: "(string \<times> string) list \<Rightarrow> string \<Rightarrow> bool" where
  "rl_rejected rl b \<longleftrightarrow> map_of rl (''anthropic-ratelimit-unified-'' @ b @ ''-status'') = Some ''rejected''"

definition rl_reset :: "(string \<times> string) list \<Rightarrow> string \<Rightarrow> int option" where
  "rl_reset rl b =
     Option.bind (map_of rl (''anthropic-ratelimit-unified-'' @ b @ ''-reset'')) (\<lambda>v. parse_i64 (trim v))"

definition quota_hold_secs :: "(string \<times> string) list \<Rightarrow> int \<Rightarrow> int \<Rightarrow> nat" where
  "quota_hold_secs rl retry_after now_secs =
     (case opt_filter (\<lambda>s. 0 < s) (map_option (\<lambda>r. i64_wrap (r - now_secs))
             (opt_max (List.map_filter (rl_reset rl) (filter (rl_rejected rl) [''5h'', ''7d''])))) of
        Some s \<Rightarrow> nat s
      | None \<Rightarrow> nat (clamp 1 3600 retry_after))"

definition entitlement_body :: "ext \<Rightarrow> string \<Rightarrow> bool" where
  "entitlement_body E body \<longleftrightarrow>
     Option.bind (json_parse E body) (\<lambda>v. Option.bind (j_pointer [''error'', ''details'', ''error_code''] v) as_str)
       = Some ''oauth_not_allowed_for_organization''"

subsection \<open>The request that is sent\<close>

definition credential_headers :: "selected \<Rightarrow> string \<Rightarrow> header_map" where
  "credential_headers sel cred =
     (case sel_provider sel of
        CodexP \<Rightarrow>
          (''authorization'', ''Bearer '' @ cred)
          # (case sel_account_id sel of Some a \<Rightarrow> [(''chatgpt-account-id'', a)] | None \<Rightarrow> [])
      | Anthropic \<Rightarrow>
          (case sel_kind sel of
             Oauth \<Rightarrow> [(''authorization'', ''Bearer '' @ cred)]
           | Apikey \<Rightarrow> [(''x-api-key'', cred)]))"

definition carries_body :: "string \<Rightarrow> bool" where
  "carries_body m \<longleftrightarrow> m \<noteq> ''GET'' \<and> m \<noteq> ''HEAD''"

definition sent_body :: "ext \<Rightarrow> req_info \<Rightarrow> selected \<Rightarrow> string \<Rightarrow> string" where
  "sent_body E info sel body =
     (case sel_provider sel of
        CodexP \<Rightarrow> body
      | Anthropic \<Rightarrow> apply_all E body (ri_parsed info) (sel_account_uuid sel) True
                       (sel_model_map sel) (sel_strip_request_fields sel))"

definition outgoing_request ::
  "ext \<Rightarrow> req_info \<Rightarrow> selected \<Rightarrow> string \<Rightarrow> header_map \<Rightarrow> string \<Rightarrow> outgoing" where
  "outgoing_request E info sel cred headers body =
     (let send = sent_body E info sel body
      in \<lparr>og_method = ri_method info,
          og_url = trim_end_matches CHR ''/'' (sel_upstream sel) @ ri_path_and_query info,
          og_headers = sendable headers @ credential_headers sel cred
             @ (if carries_body (ri_method info) then [(''content-length'', show_nat (length send))] else []),
          og_body = (if carries_body (ri_method info) then send else [])\<rparr>)"

subsection \<open>Before the send\<close>

text \<open>\<open>admit\<close> tries until the ramp window is over at the latest (\<open>admit_granted\<close>).\<close>

definition admit_tries :: "string \<Rightarrow> int \<Rightarrow> fleet \<Rightarrow> nat" where
  "admit_tries i now f =
     (case Option.bind (fleet_account f i) a_ramp_started_at of
        None \<Rightarrow> 1
      | Some s \<Rightarrow> Suc (Suc (nat ((s + int (sr_window_ms (fl_storm f)) - now) div 50))))"

definition admit :: "string \<Rightarrow> int \<Rightarrow> fleet \<Rightarrow> fleet" where
  "admit i now f = (case admit_loop (admit_tries i now f) i now f of Some (_, g) \<Rightarrow> g | None \<Rightarrow> f)"

text \<open>The checks made again once the slot is held: the outcome that ends the attempt, if any.\<close>

definition recheck_slot :: "ext \<Rightarrow> req_info \<Rightarrow> string \<Rightarrow> int \<Rightarrow> fleet \<Rightarrow> string option" where
  "recheck_slot E info i now f =
     (if ri_pin info \<noteq> None then None
      else if is_entitlement_denied f i now then Some ''oauth not allowed for organization (cooldown)''
      else unavailable_now E i (ri_model info) (ri_advisor info) now f)"

definition fresh_credential ::
  "importer \<Rightarrow> attempt_world \<Rightarrow> selected \<Rightarrow> fleet \<Rightarrow> string option \<times> fleet" where
  "fresh_credential I w sel f =
     (case sel_kind sel of
        Oauth \<Rightarrow>
          (let r = ensure_token_fresh I (aw_refresh w) (aw_env w 0) (aw_env w 1) (aw_now w 0) (aw_now w 1) (aw_now w 2)
                     (sel_id sel) False MarkDead f
           in (rr_credential r, rr_fleet r))
      | Apikey \<Rightarrow> (Some (sel_credential sel), f))"

subsection \<open>After the reply\<close>

text \<open>Section \<open>k\<close> of the attempt: what others did, then \<open>op\<close> at the time of the section.\<close>

definition at_section :: "attempt_world \<Rightarrow> nat \<Rightarrow> (int \<Rightarrow> fleet \<Rightarrow> 'a) \<Rightarrow> fleet \<Rightarrow> 'a" where
  "at_section w k op f = op (aw_now w k) (aw_env w k f)"

definition ended :: "attempt \<Rightarrow> fleet \<Rightarrow> attempt_run" where
  "ended r f = \<lparr>ar_outcome = Some r, ar_fleet = f, ar_sent = None, ar_reply = None, ar_stream = None, ar_served = None\<rparr>"

definition hung :: "fleet \<Rightarrow> attempt_run" where
  "hung f = \<lparr>ar_outcome = None, ar_fleet = f, ar_sent = None, ar_reply = None, ar_stream = None, ar_served = None\<rparr>"

text \<open>Wait for an error body to be read before going on.\<close>

definition with_error_body :: "upstream_response \<Rightarrow> fleet \<Rightarrow> (string \<Rightarrow> attempt_run) \<Rightarrow> attempt_run" where
  "with_error_body res f k = (case read_limited [] (ur_chunks res) of None \<Rightarrow> hung f | Some b \<Rightarrow> k b)"

definition fleet_429_response :: response where
  "fleet_429_response =
     with_retry_after (error_response 429 ''rate_limit_error''
       ''Upstream rate limit across several accounts; the proxy did not retry'') FLEET_429_RETRY_AFTER_SECONDS"

text \<open>A 429 that is not a quota rejection.\<close>

definition on_rate_limit ::
  "ext \<Rightarrow> req_info \<Rightarrow> attempt_world \<Rightarrow> string \<Rightarrow> int option \<Rightarrow> fleet \<Rightarrow> attempt_run" where
  "on_rate_limit E info w i parsed f =
     (let (wide, g) = (if parsed = None then at_section w 9 (note_headerless_429 i) f else (False, f))
      in if wide then ended (Reject fleet_429_response) g
         else
           let ra = (case parsed of Some v \<Rightarrow> nat (clamp 1 300 v) | None \<Rightarrow> HEADERLESS_429_PAUSE_SECONDS);
               h = at_section w 10 (mark_rate_limited i ra) g
           in if ra \<le> INLINE_RETRY_AFTER_MAX_SECONDS \<or> ra \<le> rate_limit_absorb_max E \<and> 0 < ri_hold_ms info
              then ended (RetrySame ra) h
              else ended (RateLimitedHop ra) h)"

definition on_429 ::
  "ext \<Rightarrow> req_info \<Rightarrow> attempt_world \<Rightarrow> string \<Rightarrow> upstream_response \<Rightarrow> fleet \<Rightarrow> attempt_run" where
  "on_429 E info w i res f =
     (let rl = rl_headers (ur_headers res);
          parsed = Option.bind (hdr_str (ur_headers res) ''retry-after'') (\<lambda>v. parse_retry_after E v (aw_clock_ns w));
          general = rl_rejected rl ''5h'' \<or> rl_rejected rl ''7d'';
          family = \<not> general \<and> rl_rejected rl ''7d_oi''
      in with_error_body res f (\<lambda>_.
           if family then ended (Failover ''quota rejected'' False) f
           else if general
           then ended (Failover ''quota rejected'' False)
                  (at_section w 9 (\<lambda>now. mark_quota_exhausted i
                     (quota_hold_secs rl (unwrap_or 60 parsed) (now div 1000)) now) f)
           else on_rate_limit E info w i parsed f))"

definition rejected_why :: "fleet \<Rightarrow> string \<Rightarrow> string" where
  "rejected_why f i =
     (case Option.bind (fleet_account f i) (\<lambda>a. map_option (\<lambda>p. (p, cli_name (a_provider a))) (a_import_from a)) of
        Some (path, owner) \<Rightarrow>
          ''upstream rejected the token in '' @ path @ '' (401); waiting for '' @ owner @ '' to refresh it''
      | None \<Rightarrow> ''upstream rejected the token (401)'')"

definition on_401 ::
  "importer \<Rightarrow> attempt_world \<Rightarrow> selected \<Rightarrow> upstream_response \<Rightarrow> fleet \<Rightarrow> attempt_run" where
  "on_401 I w sel res f =
     (case read_all [] (ur_chunks res) of
        None \<Rightarrow> hung f
      | Some _ \<Rightarrow>
          if sel_kind sel = Oauth
          then let r = ensure_token_fresh I (aw_refresh w) (aw_env w 11) (aw_env w 12) (aw_now w 10) (aw_now w 11)
                         (aw_now w 12) (sel_id sel) True MarkDead (aw_env w 10 f)
               in if rr_credential r \<noteq> None \<and> rr_credential r \<noteq> Some (sel_credential sel)
                  then ended (RetrySame 0) (rr_fleet r)
                  else ended (Failover ''401 and refresh did not help'' False)
                         (mark_error (sel_id sel) (rejected_why (aw_env w 9 f) (sel_id sel)) (aw_env w 13 (rr_fleet r)))
          else ended (Failover ''401'' False)
                 (mark_error (sel_id sel) ''upstream rejected the API key (401)'' (aw_env w 9 f)))"

definition on_403 ::
  "ext \<Rightarrow> req_info \<Rightarrow> attempt_world \<Rightarrow> string \<Rightarrow> upstream_response \<Rightarrow> fleet \<Rightarrow> attempt_run" where
  "on_403 E info w i res f =
     with_error_body res f (\<lambda>b.
       if entitlement_body E b
       then ended (Failover ''oauth_not_allowed_for_organization'' False) (at_section w 9 (mark_entitlement_denied i) f)
       else if ri_pin info = None then ended (Failover ''403'' False) f
       else ended (Done (json_response 403 (unwrap_or (error_json ''permission_error'' ''forbidden'') (json_parse E b)))) f)"

definition on_5xx :: "req_info \<Rightarrow> upstream_response \<Rightarrow> fleet \<Rightarrow> attempt_run" where
  "on_5xx info res f =
     with_error_body res f (\<lambda>b.
       if ri_pin info = None then ended (Failover (''upstream '' @ show_nat (ur_status res)) True) f
       else ended (Done \<lparr>rs_status = ur_status res, rs_headers = [(''content-type'', ''application/json'')],
                         rs_body = Bytes b\<rparr>) f)"

definition bill_usage ::
  "ext \<Rightarrow> req_info \<Rightarrow> string \<Rightarrow> json option \<Rightarrow> int \<Rightarrow> fleet \<Rightarrow> fleet" where
  "bill_usage E info i usage now f =
     (case usage of
        Some u \<Rightarrow> record_token_usage_dims E i (ri_session info) (ri_client info) (ri_dimensions info) (ri_model info) u now f
      | None \<Rightarrow> f)"

definition is_sse :: "upstream_response \<Rightarrow> bool" where
  "is_sse res \<longleftrightarrow>
     (case hdr_str (ur_headers res) ''content-type'' of Some c \<Rightarrow> contains c ''text/event-stream'' | None \<Rightarrow> False)"

definition unreadable_body :: response where
  "unreadable_body = error_response 502 ''api_error''
     ''Upstream response body could not be read; the request was not resent.''"

text \<open>A success, or an error of the client's own: relayed, as a stream or in one piece.\<close>

definition on_relay ::
  "ext \<Rightarrow> req_info \<Rightarrow> attempt_world \<Rightarrow> string \<Rightarrow> upstream_response \<Rightarrow> fleet \<Rightarrow> attempt_run" where
  "on_relay E info w i res f =
     (let head = \<lparr>rs_status = ur_status res, rs_headers = relay_headers (ur_headers res), rs_body = Streamed\<rparr>
      in if is_sse res then (ended (Done head) f)\<lparr>ar_stream := Some (ur_chunks res)\<rparr>
         else (case read_buffered (ur_chunks res) of
                 None \<Rightarrow> ended (Abort unreadable_body ''upstream body read failed'') f
               | Some b \<Rightarrow>
                   (ended (Done (head\<lparr>rs_body := Bytes b\<rparr>))
                      (at_section w 9 (bill_usage E info i (Option.bind (json_parse E b) (j_get ''usage''))) f))
                     \<lparr>ar_served := Some (ur_status res, 200 \<le> ur_status res \<and> ur_status res < 300)\<rparr>))"

text \<open>The quota readings every reply carries; only a reply other than 429 ends a hold.\<close>

definition read_reply :: "ext \<Rightarrow> attempt_world \<Rightarrow> string \<Rightarrow> upstream_response \<Rightarrow> fleet \<Rightarrow> fleet" where
  "read_reply E w i res f =
     (let g = at_section w 7 (\<lambda>now h. snd (update_quota E i (rl_headers (ur_headers res)) now h)) f
      in if ur_status res \<noteq> 429 then clear_rate_limited i (aw_env w 8 g) else g)"

definition on_status ::
  "ext \<Rightarrow> importer \<Rightarrow> req_info \<Rightarrow> attempt_world \<Rightarrow> selected \<Rightarrow> upstream_response \<Rightarrow> fleet \<Rightarrow> attempt_run" where
  "on_status E I info w sel res f =
     (let i = sel_id sel; s = ur_status res; g = read_reply E w i res f
      in if s = 429 then on_429 E info w i res g
         else if s = 401 then on_401 I w sel res g
         else if s = 403 then on_403 E info w i res g
         else if 500 \<le> s \<and> s \<le> 599 then on_5xx info res g
         else on_relay E info w i res g)"

definition not_resent :: response where
  "not_resent = error_response 502 ''api_error'' ''Upstream connection failed after the request was sent; it was not resent.''"

definition no_headers_response :: response where
  "no_headers_response = error_response 504 ''api_error'' ''Upstream sent no response headers in time; the request was not resent.''"

definition on_reply ::
  "ext \<Rightarrow> importer \<Rightarrow> req_info \<Rightarrow> attempt_world \<Rightarrow> selected \<Rightarrow> reply \<Rightarrow> fleet \<Rightarrow> attempt_run" where
  "on_reply E I info w sel r f =
     (case r of
        ConnectFailed \<Rightarrow> ended (Failover ''connect failed'' True) f
      | SendFailed why \<Rightarrow> ended (Abort not_resent why) f
      | NoHeaders \<Rightarrow> ended (Abort no_headers_response ''timeout'') f
      | Reply res \<Rightarrow> on_status E I info w sel res f)"

text \<open>The count of open requests falls when the attempt ends, or with the stream it left behind;
  a wait that never returns keeps it.\<close>

definition close_open :: "attempt_world \<Rightarrow> string \<Rightarrow> attempt_run \<Rightarrow> attempt_run" where
  "close_open w i r =
     (if ar_outcome r = None \<or> ar_stream r \<noteq> None then r
      else r\<lparr>ar_fleet := close_request i (aw_env w 14 (ar_fleet r))\<rparr>)"

definition run_attempt ::
  "ext \<Rightarrow> importer \<Rightarrow> req_info \<Rightarrow> attempt_world \<Rightarrow> selected \<Rightarrow> header_map \<Rightarrow> string \<Rightarrow> fleet \<Rightarrow> attempt_run" where
  "run_attempt E I info w sel headers body f =
     (case fresh_credential I w sel f of
        (None, g) \<Rightarrow> ended (Failover ''no usable token'' False) g
      | (Some cred, g) \<Rightarrow>
          let i = sel_id sel;
              out = outgoing_request E info sel cred headers body;
              a = at_section w 3 (admit i) g
          in (case at_section w 4 (recheck_slot E info i) a of
                Some why \<Rightarrow> ended (Failover why False) (release_slot i (aw_env w 4 a))
              | None \<Rightarrow>
                  let opened = open_request i (aw_env w 5 (aw_env w 4 a));
                      h = release_slot i (aw_env w 6 opened)
                  in (close_open w i (on_reply E I info w sel (aw_reply w out) h))
                       \<lparr>ar_sent := Some out, ar_reply := Some (aw_reply w out)\<rparr>))"

subsection \<open>The task that relays a stream\<close>

text \<open>What the accumulator is fed, what the client gets and whether the upstream ended the stream,
  when the client takes \<open>n\<close> more chunks.\<close>

fun relay_stream :: "nat \<Rightarrow> chunk list \<Rightarrow> string list \<times> string list \<times> bool" where
  "relay_stream n [] = ([], [], True)"
| "relay_stream 0 (Chunk c # cs) = ([c], [], True)"
| "relay_stream (Suc n) (Chunk c # cs) =
     (case relay_stream n cs of (fed, got, ok) \<Rightarrow> (c # fed, c # got, ok))"
| "relay_stream n (Broken # cs) = ([], [], False)"
| "relay_stream n (Stalled # cs) = ([], [], False)"

definition finish_stream ::
  "ext \<Rightarrow> req_info \<Rightarrow> string \<Rightarrow> nat \<Rightarrow> chunk list \<Rightarrow> int \<Rightarrow> fleet \<Rightarrow> string list \<times> bool \<times> fleet" where
  "finish_stream E info i n cs now f =
     (case relay_stream n cs of
        (fed, got, ok) \<Rightarrow> (got, ok, close_request i (bill_usage E info i (stream_usage E fed) now f)))"

end
