(* ===== verification/Activity.thy ===== *)
theory Activity
  imports Http
begin

text \<open>
  The activity feed (\<open>Activity\<close> of \<open>src/proxy/server.rs\<close>) and the form in which
  \<open>GET /corrall/activity\<close> streams it. \<open>label\<close> is what the session titles of this machine
  call a session.
\<close>

datatype activity =
    StartEv string string string "string option" "string option" "string option" "string option"
  | AccountEv string string
  | EndEv string string nat nat bool
  | LogEv string

definition is_end :: "activity \<Rightarrow> bool" where
  "is_end e = (case e of EndEv _ _ _ _ _ \<Rightarrow> True | _ \<Rightarrow> False)"

lemma is_end_simps [simp]:
  "is_end (EndEv i a s el ok)" "\<not> is_end (AccountEv i a)" "\<not> is_end (LogEv l)" "\<not> is_end (StartEv i m p x y z lb)"
  by (simp_all add: is_end_def)

definition j_opt_str :: "string option \<Rightarrow> json" where
  "j_opt_str s = (case s of Some t \<Rightarrow> JStr t | None \<Rightarrow> JNull)"

fun activity_to_json :: "(string \<Rightarrow> string) \<Rightarrow> activity \<Rightarrow> json" where
  "activity_to_json label (StartEv i m p model session client l) =
     JObj [(''type'', JStr ''start''), (''id'', JStr i), (''method'', JStr m), (''path'', JStr p),
           (''model'', j_opt_str model), (''session'', j_opt_str session), (''client'', j_opt_str client),
           (''label'', j_opt_str (opt_or l (map_option label session)))]"
| "activity_to_json label (AccountEv i a) =
     JObj [(''type'', JStr ''account''), (''id'', JStr i), (''account'', JStr a)]"
| "activity_to_json label (EndEv i a status elapsed ok) =
     JObj [(''type'', JStr ''end''), (''id'', JStr i), (''account'', JStr a), (''status'', JInt (int status)),
           (''elapsedMs'', JInt (int (min elapsed u64_max))), (''ok'', JBool ok)]"
| "activity_to_json label (LogEv l) = JObj [(''type'', JStr ''log''), (''line'', JStr l)]"

definition u16_field :: "json \<Rightarrow> string \<Rightarrow> nat" where
  "u16_field v k = unwrap_or 0 (opt_filter (\<lambda>n. n < 2 ^ 16) (Option.bind (j_get k v) as_u64))"

definition activity_from_json :: "json \<Rightarrow> activity option" where
  "activity_from_json v =
     (let s = (\<lambda>k. get_str k v); d = (\<lambda>k. unwrap_or [] (get_str k v))
      in case s ''type'' of
           None \<Rightarrow> None
         | Some t \<Rightarrow>
             if t = ''start'' then
               map_option (\<lambda>i. StartEv i (d ''method'') (d ''path'') (s ''model'') (s ''session'') (s ''client'') (s ''label''))
                 (s ''id'')
             else if t = ''account'' then map_option (\<lambda>i. AccountEv i (d ''account'')) (s ''id'')
             else if t = ''end'' then
               map_option (\<lambda>i. EndEv i (d ''account'') (u16_field v ''status'')
                   (unwrap_or 0 (Option.bind (j_get ''elapsedMs'' v) as_u64))
                   (unwrap_or False (Option.bind (j_get ''ok'' v) as_bool)))
                 (s ''id'')
             else if t = ''log'' then map_option LogEv (s ''line'')
             else None)"

text \<open>What a watcher gets to see: the label resolved, a status that fits and a time capped.\<close>

fun as_watched :: "(string \<Rightarrow> string) \<Rightarrow> activity \<Rightarrow> activity" where
  "as_watched label (StartEv i m p model session client l) =
     StartEv i m p model session client (opt_or l (map_option label session))"
| "as_watched label (EndEv i a status elapsed ok) =
     EndEv i a (if status < 2 ^ 16 then status else 0) (min elapsed u64_max) ok"
| "as_watched label e = e"

lemma get_opt_str [simp]: "Option.bind (Some (j_opt_str s)) as_str = s"
  by (cases s) (simp_all add: j_opt_str_def)

lemma activity_json_fields:
  "activity_from_json (activity_to_json label e) = Some (as_watched label e)"
  by (cases e)
    (simp_all add: activity_from_json_def get_str_def u16_field_def opt_filter_def j_opt_str_def Let_def
       split: option.split)

text \<open>A watcher attached over HTTP reads back every event the proxy emitted, field by field, with the
  session's title resolved on the proxy's side and the duration capped at the 64 bits the
  format has; and re-sending what it read changes nothing more.\<close>

theorem activity_roundtrip:
  "activity_from_json (activity_to_json label e) = Some (as_watched label e)
   \<and> activity_from_json (activity_to_json label' (as_watched label e)) = Some (as_watched label e)"
proof (cases e)
  case (StartEv i m p model session client l)
  then show ?thesis
    by (cases session; cases l) (simp_all add: activity_json_fields opt_or_def del: activity_to_json.simps)
qed (simp_all add: activity_json_fields del: activity_to_json.simps)

end
