(* ===== verification/Forward.thy ===== *)
theory Forward
  imports Attempt Activity
begin

text \<open>
  The loop of \<open>forward\<close> (\<open>src/proxy/forward.rs\<close>): select an account, try the request on it, and
  decide whether another try follows. \<open>Continue\<close> is the next round, \<open>Return\<close> the
  answer, \<open>Never\<close> a try that does not come back. The rounds are numbered by how many are left:
  the code allows \<open>MAX_ATTEMPTS * 3\<close>, and \<open>its n\<close> is the world of the round with \<open>n\<close> more after
  it. The list \<open>fs_trace\<close> of tries made is kept for the theorems only, and so are the waits.
\<close>

definition MAX_ATTEMPTS :: nat where "MAX_ATTEMPTS = 6"
definition MAX_RATE_LIMIT_HOPS :: nat where "MAX_RATE_LIMIT_HOPS = 2"
definition MAX_ROUNDS :: nat where "MAX_ROUNDS = MAX_ATTEMPTS * 3"

text \<open>A round: the clock and what others did at the selection, the monotonic clock the hold is
  measured on (ms), the world of the try, and the same for what is noted after it.\<close>

record round_world =
  rw_env :: "fleet \<Rightarrow> fleet"
  rw_now :: int
  rw_mono :: int
  rw_try :: attempt_world
  rw_env_end :: "fleet \<Rightarrow> fleet"
  rw_now_end :: int
  rw_elapsed :: nat

record forward_state =
  fs_fleet :: fleet
  fs_tried :: "string list"
  fs_retries :: nat
  fs_hops :: nat
  fs_exhausted :: "nat option option"
  fs_last :: string
  fs_trace :: "(selected \<times> attempt_run) list"
  fs_waits :: "nat list"
  fs_events :: "activity list"

record forward_result =
  fr_response :: response
  fr_state :: forward_state
  fr_stream :: "(selected \<times> nat \<times> chunk list) option"

datatype next_step = Return forward_result | Continue forward_state | Never

subsection \<open>Answers\<close>

definition fail :: "req_info \<Rightarrow> nat \<Rightarrow> response \<Rightarrow> string \<Rightarrow> forward_state \<Rightarrow> forward_result" where
  "fail info elapsed r account st =
     \<lparr>fr_response = r,
      fr_state = fs_events_update (\<lambda>es. es @
        [EndEv (ri_id info) (if account = [] then ''-'' else account) (rs_status r) elapsed False]) st,
      fr_stream = None\<rparr>"

definition transient_exhaustion :: "nat \<Rightarrow> response" where
  "transient_exhaustion tried =
     error_response 502 ''api_error'' (''No account could serve the request ('' @ show_nat tried @ '' tried).'')"

definition too_many :: "string \<Rightarrow> nat \<Rightarrow> response" where
  "too_many msg secs = with_retry_after (error_response 429 ''rate_limit_error'' msg) secs"

definition gave_up :: response where
  "gave_up = error_response 502 ''api_error'' ''No account could serve the request after repeated attempts''"

definition pin_message :: "string \<Rightarrow> string \<Rightarrow> string" where
  "pin_message name reason =
     ''Pinned account '' @ [CHR 0x22] @ safe_str name 80 @ [CHR 0x22] @ '' cannot serve this request: ''
       @ safe_str reason 120"

definition exhausted_message :: "nat \<Rightarrow> string" where
  "exhausted_message tried =
     (if tried = 0 then ''All accounts have reached their quota. Retry after the soonest reset.''
      else ''No account could serve the request ('' @ show_nat tried @ '' tried).'')"

subsection \<open>One round\<close>

definition round_request :: "req_info \<Rightarrow> string list \<Rightarrow> select_request" where
  "round_request info tried =
     \<lparr>sq_model = ri_model info, sq_advisor = ri_advisor info, sq_session = ri_session info, sq_pin = ri_pin info,
      sq_exclude = tried, sq_allow_probe = True, sq_provider = Some (ri_provider info)\<rparr>"

definition hold_wait :: "nat option \<Rightarrow> nat" where
  "hold_wait retry = clamp 2 30 (unwrap_or HEADERLESS_429_PAUSE_SECONDS retry)"

definition when_exhausted ::
  "req_info \<Rightarrow> int option \<Rightarrow> round_world \<Rightarrow> nat option \<Rightarrow> forward_state \<Rightarrow> next_step" where
  "when_exhausted info deadline rw retry st0 =
     (let st = st0\<lparr>fs_exhausted := Some retry\<rparr>; tried = length (fs_tried st)
      in if (case deadline of Some d \<Rightarrow> rw_mono rw < d | None \<Rightarrow> False)
         then Continue (st\<lparr>fs_tried := [], fs_waits := fs_waits st @ [hold_wait retry]\<rparr>)
         else if tried \<noteq> 0 \<and> retry = None
         then Return (fail info (rw_elapsed rw) (transient_exhaustion tried) (fs_last st) st)
         else Return (fail info (rw_elapsed rw) (too_many (exhausted_message tried) (unwrap_or 60 retry)) (fs_last st) st))"

text \<open>\<open>None\<close> goes on to the next round.\<close>

definition failover_answer :: "req_info \<Rightarrow> nat option option \<Rightarrow> nat \<Rightarrow> response option" where
  "failover_answer info exhausted tried =
     (if ri_pin info \<noteq> None then Some (error_response 502 ''api_error'' ''Pinned account failed to serve the request'')
      else if MAX_ATTEMPTS \<le> tried
      then Some (case exhausted of
                   Some (Some ra) \<Rightarrow> with_retry_after (transient_exhaustion tried) ra
                 | _ \<Rightarrow> transient_exhaustion tried)
      else None)"

definition hop_answer :: "req_info \<Rightarrow> nat \<Rightarrow> nat \<Rightarrow> nat \<Rightarrow> response option" where
  "hop_answer info hops tried retry_after =
     (if ri_pin info \<noteq> None then Some (too_many ''Upstream rate limit'' retry_after)
      else if MAX_RATE_LIMIT_HOPS \<le> hops
      then Some (too_many ''Upstream rate limit on two accounts in a row; not a per-account limit'' retry_after)
      else if MAX_ATTEMPTS \<le> tried
      then Some (with_retry_after
             (error_response 502 ''api_error'' ''Every eligible account failed to serve the request'') retry_after)
      else None)"

definition conclude :: "req_info \<Rightarrow> nat \<Rightarrow> response option \<Rightarrow> string \<Rightarrow> forward_state \<Rightarrow> next_step" where
  "conclude info elapsed ans account st =
     (case ans of Some r \<Rightarrow> Return (fail info elapsed r account st) | None \<Rightarrow> Continue st)"

definition after_try ::
  "req_info \<Rightarrow> round_world \<Rightarrow> selected \<Rightarrow> attempt_run \<Rightarrow> forward_state \<Rightarrow> next_step" where
  "after_try info rw sel run st =
     (let i = sel_id sel; name = sel_name sel; el = rw_elapsed rw;
          tried = st\<lparr>fs_tried := List.insert i (fs_tried st)\<rparr>
      in case ar_outcome run of
           None \<Rightarrow> Never
         | Some (Done r) \<Rightarrow>
             Return \<lparr>fr_response = r,
               fr_state = st\<lparr>fs_fleet := record_session (ri_session info) i (ri_model info) (rw_now_end rw)
                                          (rw_env_end rw (fs_fleet st)),
                             fs_events := fs_events st @
                               (case ar_served run of Some (s, ok) \<Rightarrow> [EndEv (ri_id info) name s el ok] | None \<Rightarrow> [])\<rparr>,
               fr_stream = map_option (\<lambda>cs. (sel, rs_status r, cs)) (ar_stream run)\<rparr>
         | Some (Failover reason transient) \<Rightarrow>
             let st' = (if transient
                        then tried\<lparr>fs_fleet := record_failure i (rw_env_end rw (fs_fleet st))\<rparr> else tried)
             in conclude info el (failover_answer info (fs_exhausted st) (length (fs_tried st'))) name st'
         | Some (RateLimitedHop ra) \<Rightarrow>
             let st' = tried\<lparr>fs_hops := Suc (fs_hops st)\<rparr>
             in conclude info el (hop_answer info (fs_hops st') (length (fs_tried st')) ra) name st'
         | Some (Reject r) \<Rightarrow> Return (fail info el r name st)
         | Some (Abort r reason) \<Rightarrow>
             Return (fail info el r name (st\<lparr>fs_fleet := record_failure i (rw_env_end rw (fs_fleet st))\<rparr>))
         | Some (RetrySame secs) \<Rightarrow>
             let st' = st\<lparr>fs_retries := Suc (fs_retries st)\<rparr>
             in if 4 < fs_retries st'
                then Return (fail info el (too_many ''Upstream rate limit persisted across retries'' (max secs 1)) name st')
                else Continue (st'\<lparr>fs_tried := removeAll i (fs_tried st),
                                   fs_waits := fs_waits st @ (if secs = 0 then [] else [secs])\<rparr>))"

definition forward_step ::
  "ext \<Rightarrow> importer \<Rightarrow> req_info \<Rightarrow> int option \<Rightarrow> header_map \<Rightarrow> string \<Rightarrow> round_world \<Rightarrow> forward_state \<Rightarrow> next_step" where
  "forward_step E I info deadline headers body rw st0 =
     (case select_account E (round_request info (fs_tried st0)) (rw_now rw) (rw_env rw (fs_fleet st0)) of
        (s, g) \<Rightarrow>
          let st = st0\<lparr>fs_fleet := g\<rparr>; el = rw_elapsed rw
          in (case s of
                SelAccount sel \<Rightarrow>
                  let run = run_attempt E I info (rw_try rw) sel headers body g
                  in after_try info rw sel run
                       (st\<lparr>fs_last := sel_name sel, fs_fleet := ar_fleet run, fs_trace := fs_trace st @ [(sel, run)],
                           fs_events := fs_events st @ [AccountEv (ri_id info) (sel_name sel)]\<rparr>)
              | PinUnknown \<Rightarrow>
                  Return (fail info el
                    (error_response 404 ''not_found_error'' ''Pinned account is not configured on this proxy'') (fs_last st) st)
              | PinUnavailable name reason \<Rightarrow>
                  Return (fail info el (too_many (pin_message name reason) 30) name st)
              | Exhausted retry reason \<Rightarrow> when_exhausted info deadline rw retry st))"

subsection \<open>The loop\<close>

fun forward_loop ::
  "ext \<Rightarrow> importer \<Rightarrow> req_info \<Rightarrow> int option \<Rightarrow> header_map \<Rightarrow> string \<Rightarrow> (nat \<Rightarrow> round_world) \<Rightarrow> nat \<Rightarrow> forward_state
   \<Rightarrow> forward_result option" where
  "forward_loop E I info deadline headers body its 0 st =
     Some (fail info (rw_elapsed (its 0)) gave_up (fs_last st) st)"
| "forward_loop E I info deadline headers body its (Suc n) st =
     (case forward_step E I info deadline headers body (its (Suc n)) st of
        Return r \<Rightarrow> Some r
      | Continue st' \<Rightarrow> forward_loop E I info deadline headers body its n st'
      | Never \<Rightarrow> None)"

definition forward_start :: "fleet \<Rightarrow> forward_state" where
  "forward_start f =
     \<lparr>fs_fleet = f, fs_tried = [], fs_retries = 0, fs_hops = 0, fs_exhausted = None, fs_last = [], fs_trace = [],
      fs_waits = [], fs_events = []\<rparr>"

definition hold_deadline :: "req_info \<Rightarrow> int \<Rightarrow> int option" where
  "hold_deadline info started = (if 0 < ri_hold_ms info then Some (started + int (ri_hold_ms info)) else None)"

definition forward ::
  "ext \<Rightarrow> importer \<Rightarrow> string list \<Rightarrow> req_info \<Rightarrow> int \<Rightarrow> header_map \<Rightarrow> string \<Rightarrow> (nat \<Rightarrow> round_world) \<Rightarrow> fleet
   \<Rightarrow> forward_result option" where
  "forward E I strip info started headers body its f =
     forward_loop E I info (hold_deadline info started) (filter_request_headers headers strip) body its MAX_ROUNDS
       (forward_start f)"

end
