(* ===== verification/Forward_Facts.thy ===== *)
theory Forward_Facts
  imports Forward
begin

text \<open>
  What the tries and rounds of \<open>Forward\<close> can come to, and that they keep the fleet well formed:
  the lemmas the properties of the loop rest on.
\<close>

named_theorems run_simps

lemma ended_simps [simp, run_simps]:
  "ar_outcome (ended r f) = Some r" "ar_fleet (ended r f) = f" "ar_sent (ended r f) = None"
  "ar_reply (ended r f) = None" "ar_stream (ended r f) = None" "ar_served (ended r f) = None"
  by (simp_all add: ended_def)

lemma hung_simps [simp, run_simps]:
  "ar_outcome (hung f) = None" "ar_fleet (hung f) = f" "ar_sent (hung f) = None"
  "ar_reply (hung f) = None" "ar_stream (hung f) = None" "ar_served (hung f) = None"
  by (simp_all add: hung_def)

lemma close_open_simps [simp, run_simps]:
  "ar_outcome (close_open w i r) = ar_outcome r" "ar_sent (close_open w i r) = ar_sent r"
  "ar_stream (close_open w i r) = ar_stream r" "ar_served (close_open w i r) = ar_served r"
  by (simp_all add: close_open_def)

text \<open>A slot is always granted in the tries allowed.\<close>

lemma admit_granted:
  "\<exists>t. admit_loop (admit_tries i now f) i now f = Some (t, admit i now f)"
proof -
  have "\<exists>t g. admit_loop (admit_tries i now f) i now f = Some (t, g)"
  proof (cases "Option.bind (fleet_account f i) a_ramp_started_at")
    case None
    then show ?thesis
      by (auto simp: admit_tries_def try_admit_def Let_def split: option.splits)
  next
    case (Some s)
    then obtain a where a: "fleet_account f i = Some a" "a_ramp_started_at a = Some s"
      by (auto simp: bind_eq_Some_conv)
    let ?d = "s + int (sr_window_ms (fl_storm f)) - now"
    let ?n = "Suc (nat (?d div 50))"
    have "x \<le> 50 * int (Suc (nat (x div 50)))" for x :: int
      using div_mult_mod_eq [of x 50] pos_mod_bound [of 50 x] by (cases "0 \<le> x div 50") simp_all
    then have "?d \<le> 50 * int ?n" by blast
    then have "fst (fst (try_admit i (now + 50 * int ?n) f))"
      by (intro try_admit_window [OF a]) simp
    from admit_loop_open [OF this] show ?thesis
      by (auto simp: admit_tries_def Some simp del: admit_loop.simps)
  qed
  then show ?thesis by (auto simp: admit_def)
qed

subsection \<open>Outcomes\<close>

definition retry_secs_ok :: "nat \<Rightarrow> bool" where
  "retry_secs_ok n \<longleftrightarrow> 1 \<le> n \<and> n \<le> 300"

lemma rate_limit_secs: "retry_secs_ok (case parsed of Some v \<Rightarrow> nat (clamp 1 300 v) | None \<Rightarrow> HEADERLESS_429_PAUSE_SECONDS)"
  using clamp_bounds [of "1::int" 300 "the parsed"]
  by (cases parsed) (auto simp: retry_secs_ok_def HEADERLESS_429_PAUSE_SECONDS_def)

text \<open>The outcomes a reply with this status can lead to.\<close>

definition outcome_ok :: "req_info \<Rightarrow> nat \<Rightarrow> attempt \<Rightarrow> bool" where
  "outcome_ok info s r \<longleftrightarrow>
     (case r of
        Reject resp \<Rightarrow> s = 429 \<and> resp = fleet_429_response
      | RateLimitedHop ra \<Rightarrow> s = 429 \<and> retry_secs_ok ra
      | RetrySame ra \<Rightarrow> s = 429 \<and> retry_secs_ok ra \<or> s = 401 \<and> ra = 0
      | Failover why transient \<Rightarrow> s \<in> {401, 403, 429} \<or> 500 \<le> s \<and> s \<le> 599
      | Abort resp why \<Rightarrow> s \<notin> {401, 403, 429} \<and> \<not> (500 \<le> s \<and> s \<le> 599) \<and> resp = unreadable_body
      | Done resp \<Rightarrow> rs_status resp = s \<and> s \<noteq> 429 \<and> s \<noteq> 401 \<and> (s = 403 \<or> 500 \<le> s \<and> s \<le> 599 \<longrightarrow> ri_pin info \<noteq> None))"

lemma on_429_outcome:
  assumes "ar_outcome (on_429 E info w i res f) = Some r"
  shows "outcome_ok info 429 r"
proof -
  have "outcome_ok info 429 r" if "ar_outcome (on_rate_limit E info w i parsed g) = Some r" for parsed g
    using that rate_limit_secs [of parsed]
    by (auto simp: on_rate_limit_def Let_def outcome_ok_def split: prod.splits if_splits)
  with assms show ?thesis
    by (auto simp: on_429_def with_error_body_def Let_def outcome_ok_def split: option.splits if_splits)
qed

lemma on_401_outcome: "ar_outcome (on_401 I w sel res f) = Some r \<Longrightarrow> outcome_ok info 401 r"
  by (auto simp: on_401_def Let_def outcome_ok_def split: option.splits if_splits)

lemma on_403_outcome: "ar_outcome (on_403 E info w i res f) = Some r \<Longrightarrow> outcome_ok info 403 r"
  by (auto simp: on_403_def with_error_body_def outcome_ok_def split: option.splits if_splits)

lemma on_5xx_outcome:
  "ar_outcome (on_5xx info res f) = Some r \<Longrightarrow> 500 \<le> ur_status res \<Longrightarrow> ur_status res \<le> 599 \<Longrightarrow>
   outcome_ok info (ur_status res) r"
  by (auto simp: on_5xx_def with_error_body_def outcome_ok_def split: option.splits if_splits)

lemma on_relay_outcome:
  "ar_outcome (on_relay E info w i res f) = Some r \<Longrightarrow> ur_status res \<notin> {401, 403, 429} \<Longrightarrow>
   \<not> (500 \<le> ur_status res \<and> ur_status res \<le> 599) \<Longrightarrow> outcome_ok info (ur_status res) r"
  by (auto simp: on_relay_def Let_def outcome_ok_def split: option.splits if_splits)

lemma classify_outcome:
  assumes "ar_outcome (on_status E I info w sel res f) = Some r"
  shows "outcome_ok info (ur_status res) r"
proof -
  consider "ur_status res = 429" | "ur_status res = 401" | "ur_status res = 403"
    | "500 \<le> ur_status res" "ur_status res \<le> 599"
    | "ur_status res \<notin> {401, 403, 429}" "\<not> (500 \<le> ur_status res \<and> ur_status res \<le> 599)" by blast
  then show ?thesis
    by cases (use assms in \<open>auto simp: on_status_def Let_def
      intro: on_429_outcome on_401_outcome on_403_outcome on_5xx_outcome on_relay_outcome\<close>)
qed

text \<open>A try that is not sent fails over; one that is sent ends as its reply says.\<close>

definition reply_ok :: "req_info \<Rightarrow> reply \<Rightarrow> attempt \<Rightarrow> bool" where
  "reply_ok info rep r \<longleftrightarrow>
     (case rep of
        ConnectFailed \<Rightarrow> r = Failover ''connect failed'' True
      | SendFailed why \<Rightarrow> r = Abort not_resent why
      | NoHeaders \<Rightarrow> r = Abort no_headers_response ''timeout''
      | Reply res \<Rightarrow> outcome_ok info (ur_status res) r)"

lemma run_attempt_cases [case_names unsent sent]:
  obtains (unsent) why where "ar_outcome (run_attempt E I info w sel headers body f) = Some (Failover why False)"
      "ar_sent (run_attempt E I info w sel headers body f) = None"
      "ar_stream (run_attempt E I info w sel headers body f) = None"
      "ar_served (run_attempt E I info w sel headers body f) = None"
      "ar_reply (run_attempt E I info w sel headers body f) = None"
  | (sent) cred g h out where "fresh_credential I w sel f = (Some cred, g)"
      "out = outgoing_request E info sel cred headers body"
      "run_attempt E I info w sel headers body f =
         (close_open w (sel_id sel) (on_reply E I info w sel (aw_reply w out) h))
            \<lparr>ar_sent := Some out, ar_reply := Some (aw_reply w out)\<rparr>"
proof (cases "fresh_credential I w sel f")
  case (Pair c g)
  show ?thesis
  proof (cases c)
    case None
    with Pair unsent show ?thesis by (simp add: run_attempt_def)
  next
    case (Some cred)
    then show ?thesis
      using Pair unsent sent [of cred g "outgoing_request E info sel cred headers body"]
      by (cases "at_section w 4 (recheck_slot E info (sel_id sel)) (at_section w 3 (admit (sel_id sel)) g)")
        (simp_all add: run_attempt_def Let_def)
  qed
qed

lemma run_attempt_outcome:
  assumes "ar_outcome (run_attempt E I info w sel headers body f) = Some r"
  shows "case ar_reply (run_attempt E I info w sel headers body f) of
      None \<Rightarrow> \<exists>why. r = Failover why False
    | Some rep \<Rightarrow> reply_ok info rep r"
proof (cases E I info w sel headers body f rule: run_attempt_cases)
  case (unsent why)
  with assms have "r = Failover why False" by simp
  with unsent show ?thesis by simp
next
  case (sent cred g h out)
  with assms show ?thesis
    by (auto simp: on_reply_def reply_ok_def dest: classify_outcome split: reply.splits)
qed

lemma sent_reply:
  "ar_sent (run_attempt E I info w sel headers body f) = Some out \<longleftrightarrow>
   (\<exists>cred g. fresh_credential I w sel f = (Some cred, g) \<and> out = outgoing_request E info sel cred headers body
      \<and> ar_reply (run_attempt E I info w sel headers body f) = Some (aw_reply w out))"
proof (cases E I info w sel headers body f rule: run_attempt_cases)
  case (unsent why)
  then show ?thesis by simp
next
  case (sent cred g h out)
  then show ?thesis by auto
qed

subsection \<open>A request only moves the fleet by its critical sections\<close>

text \<open>\<open>moves E I\<close> is any number of critical sections of the fleet; an interference that is a run of
  them is what other requests may do.\<close>

abbreviation moves :: "ext \<Rightarrow> importer \<Rightarrow> fleet \<Rightarrow> fleet \<Rightarrow> bool" where
  "moves E I \<equiv> rtranclp (fleet_step E I)"

definition env_ok :: "ext \<Rightarrow> importer \<Rightarrow> (fleet \<Rightarrow> fleet) \<Rightarrow> bool" where
  "env_ok E I h \<longleftrightarrow> (\<forall>f. moves E I f (h f))"

definition try_ok :: "ext \<Rightarrow> importer \<Rightarrow> attempt_world \<Rightarrow> bool" where
  "try_ok E I w \<longleftrightarrow> (\<forall>k. env_ok E I (aw_env w k))"

definition round_ok :: "ext \<Rightarrow> importer \<Rightarrow> round_world \<Rightarrow> bool" where
  "round_ok E I rw \<longleftrightarrow> env_ok E I (rw_env rw) \<and> env_ok E I (rw_env_end rw) \<and> try_ok E I (rw_try rw)"

named_theorems move_intros

lemma move_env: "env_ok E I h \<Longrightarrow> moves E I f g \<Longrightarrow> moves E I f (h g)"
  by (auto simp: env_ok_def intro: rtranclp_trans)

lemma move_world [move_intros]:
  "try_ok E I w \<Longrightarrow> moves E I f g \<Longrightarrow> moves E I f (aw_env w k g)"
  "round_ok E I rw \<Longrightarrow> moves E I f g \<Longrightarrow> moves E I f (rw_env rw g)"
  "round_ok E I rw \<Longrightarrow> moves E I f g \<Longrightarrow> moves E I f (rw_env_end rw g)"
  by (auto simp: try_ok_def round_ok_def intro: move_env)

lemma move_ops [move_intros]:
  assumes "moves E I f g"
  shows "moves E I f (snd (select_account E req now g))" "moves E I f (snd (try_admit i now g))"
    "moves E I f (release_slot i g)" "moves E I f (open_request i g)" "moves E I f (close_request i g)"
    "moves E I f (snd (update_quota E i h now g))" "moves E I f (hold i secs quot now g)"
    "moves E I f (snd (note_headerless_429 i now g))" "moves E I f (clear_rate_limited i g)"
    "moves E I f (mark_entitlement_denied i now g)" "moves E I f (mark_error i m g)"
    "moves E I f (record_failure i g)"
    "moves E I f (record_token_usage_dims E i session client dims model usage now g)"
    "moves E I f (record_session session i model now g)"
    "moves E I f (snd (refresh_prepare i force on_fail now g))" "moves E I f (refresh_settle i on_fail rt r now g)"
    "moves E I f (snd (reread_settle i path held fresh now g))"
  by (rule rtranclp.rtrancl_into_rtrancl [OF assms], rule fleet_step.intros)+

lemma move_marks [move_intros]:
  "moves E I f g \<Longrightarrow> moves E I f (mark_rate_limited i secs now g)"
  "moves E I f g \<Longrightarrow> moves E I f (mark_quota_exhausted i secs now g)"
  "moves E I f g \<Longrightarrow> moves E I f (bill_usage E info i usage now g)"
  unfolding mark_rate_limited_def mark_quota_exhausted_def bill_usage_def
  by (auto intro: move_ops split: option.split)

lemma move_admit [move_intros]: "moves E I f g \<Longrightarrow> moves E I f (admit i now g)"
proof -
  have "moves E I f g \<Longrightarrow> admit_loop n i now g = Some (t, h) \<Longrightarrow> moves E I f h" for n now t g h
  proof (induction n arbitrary: now g)
    case (Suc n)
    obtain b k g' where r: "try_admit i now g = ((b, k), g')" by (metis prod.collapse)
    have "moves E I f g'" using move_ops(2) [OF Suc.prems(1), of i now] by (simp add: r)
    with Suc show ?case by (cases b) (simp_all add: r)
  qed simp
  with admit_granted [of i now g] show "moves E I f g \<Longrightarrow> moves E I f (admit i now g)" by blast
qed

lemma move_token:
  assumes "env_ok E I e1" "env_ok E I e2" "moves E I f g"
  shows "moves E I f (rr_fleet (ensure_token_fresh I refresh e1 e2 t0 t1 t2 i force on_fail g))"
proof -
  note e1 = move_env [OF assms(1)] and e2 = move_env [OF assms(2)]
  have link: "moves E I f (snd (reread_linked I i path force t0 t1 e1 g))" for path
    using assms(3) move_ops(17) [OF e1 [OF assms(3)], of i path]
    by (simp add: reread_linked_def split: option.split)
  obtain rt h where p: "refresh_prepare i force on_fail t0 g = (rt, h)" by fastforce
  have h: "moves E I f h" using move_ops(15) [OF assms(3), of i force on_fail t0] by (simp add: p)
  note s = move_ops(16) [OF e2 [OF e1 [OF h]]]
  show ?thesis using link h e1 [OF h] s
    by (simp add: ensure_token_fresh_def p case_prod_unfold Let_def split: option.split bool.split)
qed

lemma move_try_token [move_intros]:
  "try_ok E I w \<Longrightarrow> moves E I f g \<Longrightarrow>
   moves E I f (rr_fleet (ensure_token_fresh I refresh (aw_env w a) (aw_env w b) t0 t1 t2 i force on_fail g))"
  by (intro move_token) (simp_all add: try_ok_def)

lemma move_error_body [move_intros]:
  "moves E I f g \<Longrightarrow> (\<And>b. moves E I f (ar_fleet (k b))) \<Longrightarrow> moves E I f (ar_fleet (with_error_body res g k))"
  by (simp add: with_error_body_def split: option.split)

lemma move_ended [move_intros]:
  "moves E I f g \<Longrightarrow> moves E I f (ar_fleet (ended r g))" "moves E I f g \<Longrightarrow> moves E I f (ar_fleet (hung g))"
  by simp_all

lemma move_on_rate_limit [move_intros]:
  assumes "try_ok E I w" "moves E I f g"
  shows "moves E I f (ar_fleet (on_rate_limit E info w i parsed g))"
proof -
  obtain b h where r: "(if parsed = None then at_section w 9 (note_headerless_429 i) g else (False, g)) = (b, h)" by fastforce
  have "moves E I f h"
  proof (cases "parsed = None")
    case True
    then show ?thesis using r move_ops(8) [OF move_world(1) [OF assms], of i "aw_now w 9" 9]
      by (simp add: at_section_def)
  next
    case False
    with r assms show ?thesis by auto
  qed
  then show ?thesis using assms(1)
    by (auto simp: on_rate_limit_def r Let_def at_section_def intro!: move_intros)
qed

lemma move_on_reply [move_intros]:
  assumes "try_ok E I w" "moves E I f g"
  shows "moves E I f (ar_fleet (on_reply E I info w sel rep g))"
proof -
  have r: "moves E I f (read_reply E w i res g)" for i res
    using assms by (auto simp: read_reply_def Let_def at_section_def intro!: move_intros)
  have "moves E I f (ar_fleet (on_401 I w sel res h))" if "moves E I f h" for res h
    using assms(1) that by (auto simp: on_401_def Let_def intro!: move_intros split: option.split)
  moreover have "moves E I f (ar_fleet (on_429 E info w i res h))" if "moves E I f h" for i res h
    using assms(1) that by (auto simp: on_429_def Let_def at_section_def intro!: move_intros)
  moreover have "moves E I f (ar_fleet (on_403 E info w i res h))" if "moves E I f h" for i res h
    using assms(1) that by (auto simp: on_403_def at_section_def intro!: move_intros)
  moreover have "moves E I f (ar_fleet (on_5xx info res h))" if "moves E I f h" for res h
    using that by (auto simp: on_5xx_def intro!: move_intros)
  moreover have "moves E I f (ar_fleet (on_relay E info w i res h))" if "moves E I f h" for i res h
    using assms(1) that by (auto simp: on_relay_def Let_def at_section_def intro!: move_intros split: option.split)
  ultimately show ?thesis using r assms(2)
    by (simp add: on_reply_def on_status_def Let_def split: reply.split)
qed

lemma move_run_attempt [move_intros]:
  assumes "try_ok E I w" "moves E I f g"
  shows "moves E I f (ar_fleet (run_attempt E I info w sel headers body g))"
proof -
  obtain c h where c: "fresh_credential I w sel g = (c, h)" by fastforce
  have h: "moves E I f h"
    using assms c by (auto simp: fresh_credential_def Let_def intro!: move_intros split: account_type.splits)
  have close: "moves E I f (ar_fleet (close_open w i r))" if "moves E I f (ar_fleet r)" for i r
    using assms(1) that by (auto simp: close_open_def intro!: move_intros)
  show ?thesis using assms(1) h
    by (auto simp: run_attempt_def c at_section_def Let_def intro!: close move_intros split: option.split)
qed

end
