(* ===== verification/Forward_Demo.thy ===== *)
theory Forward_Demo
  imports Forward_Facts
begin

text \<open>
  A closed example of a request for the witnesses: one account named \<open>a\<close>, a request pinned to it,
  no other requests, and an upstream that always gives the same reply.
\<close>

definition demo_info :: "string option \<Rightarrow> req_info" where
  "demo_info pin = \<lparr>ri_id = ''r'', ri_method = ''POST'', ri_path_and_query = ''/v1/messages'', ri_model = None,
     ri_advisor = None, ri_session = None, ri_client = None, ri_pin = pin, ri_pool = ''default'', ri_hold_ms = 0,
     ri_provider = Anthropic, ri_parsed = None, ri_dimensions = []\<rparr>"

definition demo_try :: "(nat \<Rightarrow> fleet \<Rightarrow> fleet) \<Rightarrow> reply \<Rightarrow> attempt_world" where
  "demo_try env rep = \<lparr>aw_refresh = (\<lambda>_ _. Inl Transient), aw_env = env, aw_now = (\<lambda>_. 0), aw_clock_ns = 0,
     aw_reply = (\<lambda>_. rep)\<rparr>"

definition demo_round :: "reply \<Rightarrow> round_world" where
  "demo_round rep = \<lparr>rw_env = (\<lambda>f. f), rw_now = 0, rw_mono = 0, rw_try = demo_try (\<lambda>_ f. f) rep,
     rw_env_end = (\<lambda>f. f), rw_now_end = 0, rw_elapsed = 0\<rparr>"

definition one_account :: fleet where
  "one_account = demo_fleet [demo_account ''a'' 1]"

lemma demo_info_simps [simp]:
  "ri_pin (demo_info p) = p" "ri_hold_ms (demo_info p) = 0" "ri_model (demo_info p) = None"
  "ri_advisor (demo_info p) = None" "ri_session (demo_info p) = None" "ri_id (demo_info p) = ''r''"
  by (simp_all add: demo_info_def)

lemma demo_round_simps [simp]:
  "rw_env (demo_round rep) = (\<lambda>f. f)" "rw_now (demo_round rep) = 0" "rw_try (demo_round rep) = demo_try (\<lambda>_ f. f) rep"
  "rw_env_end (demo_round rep) = (\<lambda>f. f)" "rw_elapsed (demo_round rep) = 0"
  by (simp_all add: demo_round_def)

lemma demo_try_simps [simp]:
  "aw_env (demo_try e rep) = e" "aw_now (demo_try e rep) = (\<lambda>_. 0)" "aw_reply (demo_try e rep) = (\<lambda>_. rep)"
  by (simp_all add: demo_try_def)

lemma demo_round_ok: "round_ok E I (demo_round rep)"
  by (simp add: round_ok_def env_ok_def try_ok_def)

lemma one_account_wf: "fleet_wf one_account"
proof -
  have "tracker_inv tracker_new" using fleet_blank_wf [of "config_default ''k''" "''default''" 0]
    by (simp add: fleet_wf_def fleet_blank_def Let_def)
  then show ?thesis by (simp add: one_account_def fleet_wf_def cursor_in_def fleet_ids_def)
qed

lemma one_account_a [simp]: "fleet_account one_account ''a'' = Some (demo_account ''a'' 1)"
  by (simp add: one_account_def fleet_account_def)

definition demo_selected :: selected where
  "demo_selected = the (snapshot ext0 one_account (demo_account ''a'' 1))"

lemma demo_snapshot_a: "snapshot ext0 one_account (demo_account ''a'' 1) = Some demo_selected"
  using demo_snapshot [of "[demo_account ''a'' 1]" "''a''" 1] by (auto simp: demo_selected_def one_account_def)

lemma snapshot_fields:
  "snapshot E f a = Some s \<Longrightarrow> sel_id s = a_id a \<and> sel_name s = a_name a \<and> sel_kind s = a_kind a
     \<and> Some (sel_credential s) = a_credential a"
  by (auto simp: snapshot_def split: option.splits)

lemma demo_selected_simps [simp]:
  "sel_id demo_selected = ''a''" "sel_name demo_selected = ''a''" "sel_kind demo_selected = Oauth"
  "sel_credential demo_selected = ''t''"
  using snapshot_fields [OF demo_snapshot_a] by simp_all

lemma resolve_a: "mgr_resolve one_account ''a'' = Some ''a''"
proof -
  have "trim ''a'' = ''a''" by code_simp
  moreover have "split_once CHR ''/'' ''a'' = None" by code_simp
  ultimately show ?thesis
    by (simp add: mgr_resolve_def one_account_def uuid_pair_account_def names_account_def Let_def opt_or_def)
qed

lemma demo_available_any: "unavailable ext0 one_account (demo_account ''a'' 1) None None p 0 = None"
  if "p = None \<or> p = Some Anthropic"
proof -
  have "unavailable ext0 one_account (demo_account ''a'' 1) None None None 0 = None"
    using demo_available by (simp add: one_account_def)
  with that show ?thesis by (auto simp: unavailable_None usable_def)
qed

lemma demo_select_pinned:
  "select_account ext0 (round_request (demo_info (Some ''a'')) tried) 0 one_account = (SelAccount demo_selected, one_account)"
proof -
  have "clear_expired_all ext0 0 one_account = one_account" by (simp add: one_account_def)
  then show ?thesis
    using demo_available_any [of "Some Anthropic"]
    by (simp add: select_account_eq Let_def round_request_def select_pinned_def resolve_a demo_snapshot_a
        unavailable_reason_for_def demo_info_def opt_filter_def)
qed

lemma demo_no_refresh_token [simp]: "a_refresh_token (demo_account i p) = None"
  by (simp add: demo_account_def account_blank_def account_config_default_def)

lemma demo_credential:
  "fresh_credential I (demo_try e rep) demo_selected one_account = (Some ''t'', one_account)"
  by (simp add: fresh_credential_def ensure_token_fresh_def linked_to_def refresh_prepare_def refresh_due_def
      is_expiring_soon_def credential_of_def Let_def)

lemma demo_sent:
  obtains h out where "run_attempt ext0 I (demo_info (Some ''a'')) (demo_try e rep) demo_selected headers body one_account =
      (close_open (demo_try e rep) ''a'' (on_reply ext0 I (demo_info (Some ''a'')) (demo_try e rep) demo_selected rep h))
        \<lparr>ar_sent := Some out, ar_reply := Some rep\<rparr>"
  by (simp add: run_attempt_def demo_credential recheck_slot_def at_section_def Let_def)

end
