(* ===== verification/Forward_Props.thy ===== *)
theory Forward_Props
  imports Forward_Demo
begin

text \<open>
  What a request through \<open>forward\<close> guarantees: an invariant of the rounds is a locale, and each
  property interprets it.
\<close>

subsection \<open>Invariants of the rounds\<close>

locale round_invariant =
  fixes E :: ext and I :: importer and info :: req_info and deadline :: "int option" and headers :: header_map
    and body :: string and its :: "nat \<Rightarrow> round_world"
    and P :: "nat \<Rightarrow> forward_state \<Rightarrow> bool" and Q :: "forward_result \<Rightarrow> bool"
  assumes step_return: "P (Suc n) st \<Longrightarrow> forward_step E I info deadline headers body (its (Suc n)) st = Return r \<Longrightarrow> Q r"
    and step_continue:
      "P (Suc n) st \<Longrightarrow> forward_step E I info deadline headers body (its (Suc n)) st = Continue st' \<Longrightarrow> P n st'"
    and rounds_over: "P 0 st \<Longrightarrow> Q (fail info (rw_elapsed (its 0)) gave_up (fs_last st) st)"
begin

lemma loop_result:
  "P n st \<Longrightarrow> forward_loop E I info deadline headers body its n st = Some r \<Longrightarrow> Q r"
proof (induction n arbitrary: st)
  case 0
  then show ?case using rounds_over by auto
next
  case (Suc n)
  then show ?case
    using step_return [OF Suc.prems(1)] step_continue [OF Suc.prems(1)] by (auto split: next_step.splits)
qed

end

text \<open>A round selects, tries and concludes.\<close>

lemma fail_simps [simp]:
  "fr_response (fail info el r a st) = r" "fr_stream (fail info el r a st) = None"
  "fs_fleet (fr_state (fail info el r a st)) = fs_fleet st" "fs_trace (fr_state (fail info el r a st)) = fs_trace st"
  "fs_waits (fr_state (fail info el r a st)) = fs_waits st"
  "fs_retries (fr_state (fail info el r a st)) = fs_retries st" "fs_hops (fr_state (fail info el r a st)) = fs_hops st"
  by (simp_all add: fail_def)

definition after_select :: "fleet \<Rightarrow> forward_state \<Rightarrow> forward_state" where
  "after_select g st = st\<lparr>fs_fleet := g\<rparr>"

definition tried_state :: "req_info \<Rightarrow> selected \<Rightarrow> attempt_run \<Rightarrow> forward_state \<Rightarrow> forward_state" where
  "tried_state info sel run st =
     st\<lparr>fs_last := sel_name sel, fs_fleet := ar_fleet run, fs_trace := fs_trace st @ [(sel, run)],
        fs_events := fs_events st @ [AccountEv (ri_id info) (sel_name sel)]\<rparr>"

lemma tried_state_simps [simp]:
  "fs_fleet (tried_state info sel run st) = ar_fleet run" "fs_tried (tried_state info sel run st) = fs_tried st"
  "fs_trace (tried_state info sel run st) = fs_trace st @ [(sel, run)]"
  "fs_retries (tried_state info sel run st) = fs_retries st" "fs_hops (tried_state info sel run st) = fs_hops st"
  "fs_waits (tried_state info sel run st) = fs_waits st" "fs_exhausted (tried_state info sel run st) = fs_exhausted st"
  "fs_events (tried_state info sel run st) = fs_events st @ [AccountEv (ri_id info) (sel_name sel)]"
  by (simp_all add: tried_state_def)

lemma after_select_simps [simp]:
  "fs_fleet (after_select g st) = g" "fs_tried (after_select g st) = fs_tried st"
  "fs_trace (after_select g st) = fs_trace st" "fs_retries (after_select g st) = fs_retries st"
  "fs_hops (after_select g st) = fs_hops st" "fs_waits (after_select g st) = fs_waits st"
  "fs_events (after_select g st) = fs_events st" "fs_exhausted (after_select g st) = fs_exhausted st"
  by (simp_all add: after_select_def)

definition round_select :: "ext \<Rightarrow> req_info \<Rightarrow> round_world \<Rightarrow> forward_state \<Rightarrow> selection \<times> fleet" where
  "round_select E info rw st =
     select_account E (round_request info (fs_tried st)) (rw_now rw) (rw_env rw (fs_fleet st))"

lemma forward_step_eq:
  "forward_step E I info deadline headers body rw st =
     (case round_select E info rw st of
        (s, g) \<Rightarrow>
          (case s of
             SelAccount sel \<Rightarrow>
               (let run = run_attempt E I info (rw_try rw) sel headers body g
                in after_try info rw sel run (tried_state info sel run (after_select g st)))
           | PinUnknown \<Rightarrow>
               Return (fail info (rw_elapsed rw)
                 (error_response 404 ''not_found_error'' ''Pinned account is not configured on this proxy'')
                 (fs_last st) (after_select g st))
           | PinUnavailable name reason \<Rightarrow>
               Return (fail info (rw_elapsed rw) (too_many (pin_message name reason) 30) name (after_select g st))
           | Exhausted retry reason \<Rightarrow> when_exhausted info deadline rw retry (after_select g st)))"
  by (simp add: forward_step_def round_select_def tried_state_def after_select_def Let_def
      split: prod.split selection.split)

lemma loop_return:
  "0 < n \<Longrightarrow> forward_step E I info deadline headers body (its n) st = Return r \<Longrightarrow>
   forward_loop E I info deadline headers body its n st = Some r"
  by (cases n) simp_all

lemma forward_return:
  "forward_step E I info (hold_deadline info started) (filter_request_headers client strip) body (its MAX_ROUNDS)
     (forward_start f) = Return r \<Longrightarrow>
   forward E I strip info started client body its f = Some r"
  unfolding forward_def by (rule loop_return) (simp_all add: MAX_ROUNDS_def MAX_ATTEMPTS_def)

text \<open>The closed examples: the pinned request is sent once and refused a connection; a fleet without
  accounts has nobody to select.\<close>

lemma demo_forward:
  "\<exists>r run out. forward ext0 I [] (demo_info (Some ''a'')) 0 client [] (\<lambda>_. demo_round ConnectFailed) one_account = Some r
     \<and> fs_trace (fr_state r) = [(demo_selected, run)] \<and> ar_sent run = Some out"
proof -
  let ?hs = "filter_request_headers client []"
  let ?run = "run_attempt ext0 I (demo_info (Some ''a'')) (demo_try (\<lambda>_ f. f) ConnectFailed) demo_selected ?hs [] one_account"
  have s: "round_select ext0 (demo_info (Some ''a'')) (demo_round ConnectFailed) (forward_start one_account)
      = (SelAccount demo_selected, one_account)"
    by (simp add: round_select_def forward_start_def demo_select_pinned)
  obtain h out where r: "?run = (close_open (demo_try (\<lambda>_ f. f) ConnectFailed) ''a''
      (on_reply ext0 I (demo_info (Some ''a'')) (demo_try (\<lambda>_ f. f) ConnectFailed) demo_selected ConnectFailed h))
        \<lparr>ar_sent := Some out, ar_reply := Some ConnectFailed\<rparr>"
    by (rule demo_sent)
  have run: "ar_outcome ?run = Some (Failover ''connect failed'' True)" "ar_sent ?run = Some out"
    by (simp_all add: r on_reply_def)
  obtain r where "forward_step ext0 I (demo_info (Some ''a'')) (hold_deadline (demo_info (Some ''a'')) 0) ?hs []
      (demo_round ConnectFailed) (forward_start one_account) = Return r" "fs_trace (fr_state r) = [(demo_selected, ?run)]"
    using run by (simp add: forward_step_eq s after_try_def failover_answer_def conclude_def Let_def) (simp add: forward_start_def)
  with forward_return [of ext0 I "demo_info (Some ''a'')" 0 client "[]" "[]" "\<lambda>_. demo_round ConnectFailed" one_account r] run(2)
  show ?thesis by blast
qed

lemma empty_forward:
  "\<exists>r. forward ext0 I [] (demo_info None) 0 [] [] (\<lambda>_. demo_round ConnectFailed) (demo_fleet []) = Some r
     \<and> rs_status (fr_response r) = 429 \<and> fr_stream r = None"
proof -
  let ?req = "round_request (demo_info None) []"
  have q: "sq_pin ?req = None" "sq_session ?req = None" "sq_model ?req = None" by (simp_all add: round_request_def)
  have c: "clear_expired_all ext0 0 (demo_fleet []) = demo_fleet []" by (simp add: clear_expired_all_def demo_fleet_def)
  have b: "best ext0 (demo_fleet []) ?req 0 = None"
    by (simp add: best_def ranked_available_def ranked_by_default_def available_def)
  have "select_steps ext0 ?req 0 (demo_fleet []) = (None, demo_fleet [])"
    by (simp add: select_steps_def orelse_def step_route_pin_def route_pin_of_def answer_def step_session_def q
        step_current_def step_best_def go_best_def b step_probe_def)
  then have "select_account ext0 ?req 0 (demo_fleet []) = (Exhausted None [], demo_fleet [])"
    by (simp add: select_account_eq q c exhausted_info_def join_with_def Let_def)
  then have s: "round_select ext0 (demo_info None) (demo_round ConnectFailed) (forward_start (demo_fleet []))
      = (Exhausted None [], demo_fleet [])"
    by (simp add: round_select_def forward_start_def)
  obtain r where "forward_step ext0 I (demo_info None) (hold_deadline (demo_info None) 0) (filter_request_headers [] []) []
      (demo_round ConnectFailed) (forward_start (demo_fleet [])) = Return r" "rs_status (fr_response r) = 429" "fr_stream r = None"
    by (simp add: forward_step_eq s when_exhausted_def hold_deadline_def Let_def)
      (simp add: forward_start_def too_many_def)
  with forward_return [of ext0 I "demo_info None" 0 "[]" "[]" "[]" "\<lambda>_. demo_round ConnectFailed" "demo_fleet []" r]
  show ?thesis by blast
qed

lemma empty_fleet_wf: "fleet_wf (demo_fleet [])"
  using one_account_wf by (simp add: one_account_def fleet_wf_def cursor_in_def fleet_ids_def)

subsection \<open>A request is a run of critical sections\<close>

lemma move_after_try:
  assumes "round_ok E I rw" and "moves E I f (fs_fleet st)"
  shows "case after_try info rw sel run st of
      Return r \<Rightarrow> moves E I f (fs_fleet (fr_state r)) | Continue st' \<Rightarrow> moves E I f (fs_fleet st') | Never \<Rightarrow> True"
  using assms
  by (auto simp: after_try_def conclude_def Let_def intro!: move_intros split: option.split attempt.split)

lemma move_step:
  assumes "round_ok E I rw" and "moves E I f (fs_fleet st)"
  shows "case forward_step E I info deadline headers body rw st of
      Return r \<Rightarrow> moves E I f (fs_fleet (fr_state r)) | Continue st' \<Rightarrow> moves E I f (fs_fleet st') | Never \<Rightarrow> True"
proof -
  obtain s g where s: "round_select E info rw st = (s, g)" by fastforce
  have g: "moves E I f g"
    using move_ops(1) [OF move_world(2) [OF assms], of "round_request info (fs_tried st)" "rw_now rw"] s
    by (simp add: round_select_def)
  have tw: "try_ok E I (rw_try rw)" using assms(1) by (simp add: round_ok_def)
  show ?thesis
  proof (cases s)
    case (SelAccount sel)
    let ?run = "run_attempt E I info (rw_try rw) sel headers body g"
    have "moves E I f (ar_fleet ?run)" by (rule move_run_attempt [OF tw g])
    then show ?thesis
      using move_after_try [OF assms(1), of f "tried_state info sel ?run (after_select g st)" info sel ?run]
      by (simp add: forward_step_eq s SelAccount Let_def)
  qed (use g in \<open>simp_all add: forward_step_eq s when_exhausted_def Let_def\<close>)
qed

interpretation moves_inv: round_invariant E I info deadline headers body its
  "\<lambda>_ st. (\<forall>k. round_ok E I (its k)) \<longrightarrow> moves E I f (fs_fleet st)"
  "\<lambda>r. (\<forall>k. round_ok E I (its k)) \<longrightarrow> moves E I f (fs_fleet (fr_state r))"
  for E I info deadline headers body its f
proof (unfold_locales, goal_cases)
  case (1 n st r)
  then show ?case using move_step [of E I "its (Suc n)" f st info deadline headers body] by simp
next
  case (2 n st st')
  then show ?case using move_step [of E I "its (Suc n)" f st info deadline headers body] by simp
qed simp

subsection \<open>Where the tries come from\<close>

definition upstream_safe :: "ext \<Rightarrow> selected \<Rightarrow> bool" where
  "upstream_safe E sel \<longleftrightarrow>
     (sel_kind sel = Oauth \<longrightarrow>
        (let host = unwrap_or [] (url_host E (sel_upstream sel))
         in host_allowed (sel_provider sel) host \<or> is_loopback_host host))"

lemma snapshot_upstream_safe: "snapshot E f a = Some sel \<Longrightarrow> upstream_safe E sel"
  by (auto simp: snapshot_def upstream_safe_def upstream_for_def is_subscription_def Let_def
      split: option.splits if_splits)

definition run_of :: "ext \<Rightarrow> importer \<Rightarrow> req_info \<Rightarrow> header_map \<Rightarrow> string \<Rightarrow> selected \<times> attempt_run \<Rightarrow> bool" where
  "run_of E I info headers body x \<longleftrightarrow> (\<exists>w f. snd x = run_attempt E I info w (fst x) headers body f)"

lemma moves_wf: "moves E I f g \<Longrightarrow> fleet_wf f \<Longrightarrow> fleet_wf g"
  by (induction rule: rtranclp_induct) (auto intro: fleet_step_wf)

lemma after_try_trace:
  "case after_try info rw sel run st of
     Return r \<Rightarrow> fs_trace (fr_state r) = fs_trace st | Continue st' \<Rightarrow> fs_trace st' = fs_trace st | Never \<Rightarrow> True"
  by (auto simp: after_try_def conclude_def Let_def split: option.split attempt.split)

text \<open>A round adds at most the try it made.\<close>

lemma step_trace:
  assumes "\<forall>x \<in> set (fs_trace st). P x"
    and "\<And>sel g. round_select E info rw st = (SelAccount sel, g) \<Longrightarrow>
      P (sel, run_attempt E I info (rw_try rw) sel headers body g)"
  shows "case forward_step E I info deadline headers body rw st of
      Return r \<Rightarrow> \<forall>x \<in> set (fs_trace (fr_state r)). P x
    | Continue st' \<Rightarrow> \<forall>x \<in> set (fs_trace st'). P x | Never \<Rightarrow> True"
proof -
  obtain s g where s: "round_select E info rw st = (s, g)" by fastforce
  show ?thesis
  proof (cases s)
    case (SelAccount sel)
    let ?run = "run_attempt E I info (rw_try rw) sel headers body g"
    have "P (sel, ?run)" using assms(2) s SelAccount by simp
    with assms(1) show ?thesis
      using after_try_trace [where info = info and rw = rw and sel = sel and run = ?run and
        st = "tried_state info sel ?run (after_select g st)"]
      by (auto simp: forward_step_eq s SelAccount Let_def split: next_step.splits)
  qed (use assms(1) in \<open>auto simp: forward_step_eq s when_exhausted_def Let_def\<close>)
qed

interpretation runs_inv: round_invariant E I info deadline headers body its
  "\<lambda>_ st. \<forall>x \<in> set (fs_trace st). run_of E I info headers body x"
  "\<lambda>r. \<forall>x \<in> set (fs_trace (fr_state r)). run_of E I info headers body x"
  for E I info deadline headers body its
proof (unfold_locales, goal_cases)
  case (1 n st r)
  then show ?case
    using step_trace [OF 1(1), of E info "its (Suc n)" I headers body deadline] by (auto simp: run_of_def)
next
  case (2 n st st')
  then show ?case
    using step_trace [OF 2(1), of E info "its (Suc n)" I headers body deadline] by (auto simp: run_of_def)
qed simp

lemma select_account_core:
  assumes "distinct (fleet_ids f)"
  shows "fleet_core (snd (select_account E req now f)) = fleet_core (clear_expired_all E now f)"
proof -
  have "distinct (fleet_ids (clear_expired_all E now f))" using assms by (simp add: ids_clear_expired)
  from sound_select_steps [OF this, of E req now] show ?thesis
    by (auto simp: select_account_eq sound_def Let_def split: option.split prod.split)
qed

lemma selected_snapshot:
  assumes "distinct (fleet_ids (rw_env rw (fs_fleet st)))" and "round_select E info rw st = (SelAccount sel, g)"
  shows "\<exists>a. fleet_account g (sel_id sel) = Some a \<and> snapshot E g a = Some sel"
proof -
  let ?h = "clear_expired_all E (rw_now rw) (rw_env rw (fs_fleet st))"
  obtain a where a: "fleet_account ?h (sel_id sel) = Some a" "snapshot E ?h a = Some sel"
    using selected_account [OF assms(1) assms(2) [unfolded round_select_def]] by blast
  have "fleet_core g = fleet_core ?h"
    using select_account_core [OF assms(1), of E "round_request info (fs_tried st)" "rw_now rw"] assms(2)
    by (simp add: round_select_def)
  from same_account [OF this [symmetric] a(1)] same_snapshot [OF this [symmetric]] a(2) show ?thesis by fastforce
qed

text \<open>A try is the attempt of some round on the fleet its selection left, where the account it is
  made on is as the selection says.\<close>

definition chosen_for ::
  "ext \<Rightarrow> importer \<Rightarrow> req_info \<Rightarrow> header_map \<Rightarrow> string \<Rightarrow> attempt_world \<Rightarrow> fleet \<Rightarrow> selected \<times> attempt_run \<Rightarrow> bool" where
  "chosen_for E I info headers body w g x \<longleftrightarrow>
     snd x = run_attempt E I info w (fst x) headers body g
     \<and> (\<exists>a. fleet_account g (sel_id (fst x)) = Some a \<and> snapshot E g a = Some (fst x))"

interpretation chosen_inv: round_invariant E I info deadline headers body its
  "\<lambda>_ st. (\<forall>k. round_ok E I (its k)) \<and> fleet_wf f \<longrightarrow> moves E I f (fs_fleet st)
     \<and> (\<forall>x \<in> set (fs_trace st). \<exists>k g. moves E I f g \<and> chosen_for E I info headers body (rw_try (its k)) g x)"
  "\<lambda>r. (\<forall>k. round_ok E I (its k)) \<and> fleet_wf f \<longrightarrow>
     (\<forall>x \<in> set (fs_trace (fr_state r)). \<exists>k g. moves E I f g \<and> chosen_for E I info headers body (rw_try (its k)) g x)"
  for E I info deadline headers body its f
proof -
  let ?P = "\<lambda>x. \<exists>k g. moves E I f g \<and> chosen_for E I info headers body (rw_try (its k)) g x"
  have new: "?P (sel, run_attempt E I info (rw_try (its k)) sel headers body g)"
    if "\<forall>k. round_ok E I (its k)" "fleet_wf f" "moves E I f (fs_fleet st)"
      "round_select E info (its k) st = (SelAccount sel, g)" for k st sel g
  proof -
    have e: "moves E I f (rw_env (its k) (fs_fleet st))" using move_world(2) that(1,3) by blast
    have "moves E I f g" using move_ops(1) [OF e, of "round_request info (fs_tried st)" "rw_now (its k)"] that(4)
      by (simp add: round_select_def)
    moreover have "distinct (fleet_ids (rw_env (its k) (fs_fleet st)))"
      using moves_wf [OF e that(2)] by (simp add: fleet_wf_def)
    ultimately show ?thesis using selected_snapshot [OF _ that(4)] unfolding chosen_for_def by auto
  qed
  show "round_invariant E I info deadline headers body its
    (\<lambda>_ st. (\<forall>k. round_ok E I (its k)) \<and> fleet_wf f \<longrightarrow> moves E I f (fs_fleet st) \<and> (\<forall>x \<in> set (fs_trace st). ?P x))
    (\<lambda>r. (\<forall>k. round_ok E I (its k)) \<and> fleet_wf f \<longrightarrow> (\<forall>x \<in> set (fs_trace (fr_state r)). ?P x))"
  proof (unfold_locales, goal_cases)
    case (1 n st r)
    then show ?case
      using step_trace [of st ?P E info "its (Suc n)" I headers body deadline] new [of st "Suc n"] by fastforce
  next
    case (2 n st st')
    then show ?case
      using step_trace [of st ?P E info "its (Suc n)" I headers body deadline] new [of st "Suc n"]
        move_step [of E I "its (Suc n)" f st info deadline headers body] by fastforce
  qed simp
qed

subsection \<open>What is sent\<close>

lemma values_credential_headers:
  "n \<in> set HOP_BY_HOP \<Longrightarrow> values_of n (credential_headers sel cred) = []"
  by (auto simp: credential_headers_def HOP_BY_HOP_def split: provider.split account_type.split option.split)

lemma client_credential_not_length: "n \<in> set CLIENT_CREDENTIAL_HEADERS \<Longrightarrow> n \<noteq> ''content-length''"
  by (auto simp: CLIENT_CREDENTIAL_HEADERS_def PROXY_KEY_HEADER_def)

lemma outgoing_headers:
  assumes "out = outgoing_request E info sel cred (filter_request_headers client strip) body"
  shows "n \<in> set CLIENT_CREDENTIAL_HEADERS \<Longrightarrow> values_of n (og_headers out) = values_of n (credential_headers sel cred)"
    and "n \<in> set HOP_BY_HOP \<Longrightarrow> values_of n (og_headers out) =
      (if n = ''content-length'' \<and> carries_body (og_method out) then [show_nat (length (og_body out))] else [])"
  using assms client_credential_not_length [of n] values_credential_headers [of n sel cred]
    values_of_stripped [of strip n client]
  by (auto simp: outgoing_request_def Let_def stripped_def)

text \<open>The fleet from which the credential is read: for a subscription as the token refresh left it.\<close>

definition sending_fleet :: "importer \<Rightarrow> attempt_world \<Rightarrow> selected \<Rightarrow> fleet \<Rightarrow> fleet" where
  "sending_fleet I w sel g =
     (case sel_kind sel of
        Apikey \<Rightarrow> g
      | Oauth \<Rightarrow> rr_fleet (ensure_token_fresh I (aw_refresh w) (aw_env w 0) (aw_env w 1) (aw_now w 0) (aw_now w 1)
                    (aw_now w 2) (sel_id sel) False MarkDead g))"

text \<open>What an account holding \<open>cred\<close> sends in each field that can carry a credential.\<close>

definition account_headers :: "account \<Rightarrow> string \<Rightarrow> string \<Rightarrow> string list" where
  "account_headers a cred n =
     (if n = ''authorization''
      then (if a_provider a = CodexP \<or> a_kind a = Oauth then [''Bearer '' @ cred] else [])
      else if n = ''x-api-key'' then (if a_provider a = Anthropic \<and> a_kind a = Apikey then [cred] else [])
      else if n = ''chatgpt-account-id'' \<and> a_provider a = CodexP then (case a_account_id a of Some x \<Rightarrow> [x] | None \<Rightarrow> [])
      else [])"

lemma snapshot_kind:
  "snapshot E g a = Some sel \<Longrightarrow> sel_provider sel = a_provider a \<and> sel_kind sel = a_kind a
     \<and> sel_account_id sel = a_account_id a"
  by (auto simp: snapshot_def split: option.splits)

lemma credential_headers_of_account:
  assumes "snapshot E g a = Some sel"
  shows "values_of n (credential_headers sel cred) = account_headers a cred n"
  using snapshot_kind [OF assms]
  by (cases "a_provider a"; cases "a_kind a"; cases "a_account_id a")
    (simp_all add: credential_headers_def account_headers_def)

text \<open>A refresh answers with the credential the account then has.\<close>

lemma reread_held:
  "reread_linked I i path force t0 t1 env f = (Some c, g) \<Longrightarrow> credential_of g i = Some c"
  by (auto simp: reread_linked_def reread_settle_def credential_of_def Let_def split: option.splits if_splits)

lemma token_held:
  "rr_credential (ensure_token_fresh I refresh e1 e2 t0 t1 t2 i force on_fail f) = Some c \<Longrightarrow>
   credential_of (rr_fleet (ensure_token_fresh I refresh e1 e2 t0 t1 t2 i force on_fail f)) i = Some c"
  by (auto simp: ensure_token_fresh_def Let_def split: option.splits prod.splits bool.splits dest: reread_held)

lemma fresh_credential_held:
  assumes "fresh_credential I w sel g = (Some cred, h)" and "fleet_account g (sel_id sel) = Some a"
    and "snapshot E g a = Some sel"
  shows "credential_of (sending_fleet I w sel g) (sel_id sel) = Some cred"
proof (cases "sel_kind sel")
  case Oauth
  with assms(1) show ?thesis by (auto simp: fresh_credential_def sending_fleet_def Let_def intro: token_held)
next
  case Apikey
  with assms snapshot_fields [OF assms(3)] show ?thesis
    by (auto simp: fresh_credential_def sending_fleet_def credential_of_def)
qed

text \<open>C4: No credential of the client's and no per-connection header ever leaves the proxy. Every request
  that goes on the wire was made for an account of the fleet as it was when the account was selected,
  and the fields that can carry a credential hold exactly what that account's kind calls for, with the
  credential that same account holds when the request is sent (an API key as selected, a
  subscription's token as the refresh just before the send left it): never another account's. The
  request has its own length and no other, and goes to that account's upstream, which for a
  subscription is a host of its provider or this machine. This holds for every try of every
  request, whatever the client sent, whatever other requests do to the fleet in the meantime and
  however often the request moved between accounts.\<close>

theorem client_credentials_stay:
  assumes "\<And>k. round_ok E I (its k)" and "fleet_wf f"
    and "forward E I strip info started client body its f = Some r"
    and "(sel, run) \<in> set (fs_trace (fr_state r))" and "ar_sent run = Some out"
  shows "upstream_safe E sel
    \<and> og_url out = trim_end_matches CHR ''/'' (sel_upstream sel) @ ri_path_and_query info
    \<and> (\<exists>k g a cred. moves E I f g \<and> fleet_account g (sel_id sel) = Some a \<and> snapshot E g a = Some sel
          \<and> credential_of (sending_fleet I (rw_try (its k)) sel g) (a_id a) = Some cred
          \<and> (\<forall>n \<in> set CLIENT_CREDENTIAL_HEADERS. values_of n (og_headers out) = account_headers a cred n))
    \<and> (\<forall>n \<in> set HOP_BY_HOP. values_of n (og_headers out) =
          (if n = ''content-length'' \<and> carries_body (og_method out) then [show_nat (length (og_body out))] else []))"
proof -
  obtain k g where m: "moves E I f g"
    and c: "chosen_for E I info (filter_request_headers client strip) body (rw_try (its k)) g (sel, run)"
    using chosen_inv.loop_result [OF _ assms(3) [unfolded forward_def], of f] assms(1,2,4)
    by (force simp: forward_start_def)
  obtain a where a: "fleet_account g (sel_id sel) = Some a" "snapshot E g a = Some sel"
    and run: "run = run_attempt E I info (rw_try (its k)) sel (filter_request_headers client strip) body g"
    using c by (auto simp: chosen_for_def)
  obtain cred h where out: "out = outgoing_request E info sel cred (filter_request_headers client strip) body"
    and cred: "fresh_credential I (rw_try (its k)) sel g = (Some cred, h)"
    using assms(5) unfolding run sent_reply by blast
  have "og_url out = trim_end_matches CHR ''/'' (sel_upstream sel) @ ri_path_and_query info"
    by (simp add: out outgoing_request_def Let_def)
  moreover have "\<forall>n \<in> set CLIENT_CREDENTIAL_HEADERS. values_of n (og_headers out) = account_headers a cred n"
    using outgoing_headers(1) [OF out] credential_headers_of_account [OF a(2)] by simp
  moreover have "a_id a = sel_id sel" using fleet_account_SomeD [OF a(1)] by simp
  ultimately show ?thesis
    using snapshot_upstream_safe [OF a(2)] m a fresh_credential_held [OF cred a] outgoing_headers(2) [OF out]
    by (intro conjI ballI exI [of _ k] exI [of _ g] exI [of _ a] exI [of _ cred]) auto
qed

theorem client_credentials_stay_witness:
  "\<exists>r run out. forward ext0 no_files [] (demo_info (Some ''a'')) 0 [(''cookie'', ''c'')] [] (\<lambda>_. demo_round ConnectFailed)
       one_account = Some r
     \<and> (demo_selected, run) \<in> set (fs_trace (fr_state r)) \<and> ar_sent run = Some out
     \<and> values_of ''cookie'' (og_headers out) = []"
proof -
  obtain r run out where r: "forward ext0 no_files [] (demo_info (Some ''a'')) 0 [(''cookie'', ''c'')] [] (\<lambda>_. demo_round ConnectFailed)
       one_account = Some r" and t: "fs_trace (fr_state r) = [(demo_selected, run)]" "ar_sent run = Some out"
    using demo_forward by blast
  then have m: "(demo_selected, run) \<in> set (fs_trace (fr_state r))" by simp
  have "''cookie'' \<in> set CLIENT_CREDENTIAL_HEADERS" by (simp add: CLIENT_CREDENTIAL_HEADERS_def)
  moreover have "account_headers a cred ''cookie'' = []" for a cred by (simp add: account_headers_def)
  ultimately have "values_of ''cookie'' (og_headers out) = []"
    using client_credentials_stay [OF demo_round_ok one_account_wf r m t(2)] by fastforce
  with r m t(2) show ?thesis by blast
qed

end
