(* ===== verification/Forward_Bounds.thy ===== *)
theory Forward_Bounds
  imports Forward_Props
begin

text \<open>
  How much a request may cost: rounds, retries, hops and waits are bounded, an account that
  failed is not asked again, what may have been billed is not resent, and the loop returns.
\<close>

subsection \<open>The budget of the rounds\<close>

definition retried :: "selected \<times> attempt_run \<Rightarrow> bool" where
  "retried x \<longleftrightarrow> (case ar_outcome (snd x) of Some (RetrySame _) \<Rightarrow> True | _ \<Rightarrow> False)"

definition hopped :: "selected \<times> attempt_run \<Rightarrow> bool" where
  "hopped x \<longleftrightarrow> (case ar_outcome (snd x) of Some (RateLimitedHop _) \<Rightarrow> True | _ \<Rightarrow> False)"

text \<open>A try after which another may follow.\<close>

definition goes_on :: "req_info \<Rightarrow> selected \<times> attempt_run \<Rightarrow> bool" where
  "goes_on info x \<longleftrightarrow>
     (case ar_outcome (snd x) of
        Some (RetrySame _) \<Rightarrow> True
      | Some (Failover _ _) \<Rightarrow> ri_pin info = None
      | Some (RateLimitedHop _) \<Rightarrow> ri_pin info = None
      | _ \<Rightarrow> False)"

text \<open>The accounts a request moved off, or ended on.\<close>

definition left_ids :: "(selected \<times> attempt_run) list \<Rightarrow> string list" where
  "left_ids tr = map (\<lambda>x. sel_id (fst x)) (filter (\<lambda>x. \<not> retried x) tr)"

definition WAIT_MAX :: nat where "WAIT_MAX = 300"

definition spent_ok :: "req_info \<Rightarrow> nat \<Rightarrow> forward_state \<Rightarrow> bool" where
  "spent_ok info n st \<longleftrightarrow>
     n + length (fs_trace st) \<le> MAX_ROUNDS \<and> n + length (fs_waits st) \<le> MAX_ROUNDS
     \<and> (\<forall>s \<in> set (fs_waits st). s \<le> WAIT_MAX)
     \<and> fs_retries st = length (filter retried (fs_trace st)) \<and> fs_retries st \<le> 4
     \<and> fs_hops st = length (filter hopped (fs_trace st)) \<and> fs_hops st \<le> 1
     \<and> (\<forall>x \<in> set (fs_trace st). goes_on info x)"

definition tried_ok :: "req_info \<Rightarrow> forward_state \<Rightarrow> bool" where
  "tried_ok info st \<longleftrightarrow>
     set (fs_tried st) = set (left_ids (fs_trace st)) \<and> distinct (fs_tried st) \<and> distinct (left_ids (fs_trace st))
     \<and> length (fs_tried st) \<le> 5"

definition cost_ok :: "req_info \<Rightarrow> forward_state \<Rightarrow> bool" where
  "cost_ok info st \<longleftrightarrow>
     length (fs_trace st) \<le> MAX_ROUNDS \<and> length (fs_waits st) \<le> MAX_ROUNDS
     \<and> (\<forall>s \<in> set (fs_waits st). s \<le> WAIT_MAX)
     \<and> length (filter retried (fs_trace st)) \<le> 5 \<and> length (filter hopped (fs_trace st)) \<le> 2
     \<and> (\<forall>x \<in> set (butlast (fs_trace st)). goes_on info x)"

lemma trace_length: "length tr = length (filter retried tr) + length (left_ids tr)"
  using sum_length_filter_compl [of retried tr] by (simp add: left_ids_def)

lemma left_ids_append [simp]:
  "left_ids (tr @ [x]) = left_ids tr @ (if retried x then [] else [sel_id (fst x)])"
  by (simp add: left_ids_def)

lemma tried_length:
  assumes "tried_ok info st" and "spent_ok info n st"
  shows "length (fs_trace st) \<le> 9"
proof -
  have "length (left_ids (fs_trace st)) = length (fs_tried st)"
    using assms(1) by (simp add: tried_ok_def distinct_card [symmetric])
  with assms trace_length [of "fs_trace st"] show ?thesis by (simp add: tried_ok_def spent_ok_def)
qed

lemma spent_cost: "spent_ok info n st \<Longrightarrow> cost_ok info st"
  by (auto simp: spent_ok_def cost_ok_def dest: in_set_butlastD)

text \<open>The seconds of a retry come from the outcome of a run.\<close>

lemma run_secs:
  assumes "ar_outcome (run_attempt E I info w sel headers body f) = Some (RetrySame n)"
  shows "n \<le> WAIT_MAX"
  using run_attempt_outcome [OF assms]
  by (auto simp: reply_ok_def outcome_ok_def retry_secs_ok_def WAIT_MAX_def split: option.splits reply.splits)

lemma after_try_spent:
  assumes "spent_ok info (Suc n) st" and "\<And>s. ar_outcome run = Some (RetrySame s) \<Longrightarrow> s \<le> WAIT_MAX"
  shows "case after_try info rw sel run (tried_state info sel run (after_select g st)) of
      Return r \<Rightarrow> cost_ok info (fr_state r) | Continue st' \<Rightarrow> spent_ok info n st' | Never \<Rightarrow> True"
proof -
  have cost: "cost_ok info (tried_state info sel run (after_select g st))"
    using assms(1) by (auto simp: spent_ok_def cost_ok_def)
  have frame: "cost_ok info st1 = cost_ok info st2" if "fs_trace st1 = fs_trace st2" "fs_waits st1 = fs_waits st2" for st1 st2
    using that by (simp add: cost_ok_def)
  show ?thesis
  proof (cases "ar_outcome run")
    case None
    then show ?thesis by (simp add: after_try_def)
  next
    case (Some out)
    then show ?thesis
    proof (cases out)
      case (RetrySame s)
      with Some assms cost show ?thesis
        by (auto simp: after_try_def Let_def spent_ok_def cost_ok_def retried_def hopped_def goes_on_def)
    next
      case (Failover why tr)
      with Some assms(1) cost show ?thesis
        by (auto simp: after_try_def conclude_def failover_answer_def Let_def spent_ok_def retried_def hopped_def goes_on_def
          cost_ok_def split: option.splits if_splits)
    next
      case (RateLimitedHop ra)
      with Some assms(1) cost show ?thesis
        by (auto simp: after_try_def conclude_def hop_answer_def Let_def spent_ok_def retried_def hopped_def goes_on_def
          cost_ok_def MAX_RATE_LIMIT_HOPS_def length_0_conv [symmetric] simp del: length_0_conv
          split: option.splits if_splits)
    qed (use Some cost in \<open>auto simp: after_try_def Let_def cost_ok_def\<close>)
  qed
qed

lemma hold_wait_max: "hold_wait retry \<le> WAIT_MAX"
  using clamp_bounds [of "2::nat" 30 "unwrap_or HEADERLESS_429_PAUSE_SECONDS retry"] by (simp add: hold_wait_def WAIT_MAX_def)

lemma step_spent:
  assumes "spent_ok info (Suc n) st"
  shows "case forward_step E I info deadline headers body rw st of
      Return r \<Rightarrow> cost_ok info (fr_state r) | Continue st' \<Rightarrow> spent_ok info n st' | Never \<Rightarrow> True"
proof -
  obtain s g where s: "round_select E info rw st = (s, g)" by fastforce
  have c: "cost_ok info (after_select g st)" using spent_cost [OF assms] by (simp add: cost_ok_def)
  show ?thesis
  proof (cases s)
    case (SelAccount sel)
    then show ?thesis using run_secs
      by (simp only: forward_step_eq s prod.case selection.case Let_def) (rule after_try_spent [OF assms], blast)
  next
    case (Exhausted retry why)
    then show ?thesis using assms c hold_wait_max [of retry]
      by (auto simp: forward_step_eq s when_exhausted_def Let_def spent_ok_def cost_ok_def)
  qed (use c in \<open>simp_all add: forward_step_eq s cost_ok_def\<close>)
qed

interpretation spent_inv: round_invariant E I info deadline headers body its
  "spent_ok info" "\<lambda>r. cost_ok info (fr_state r)"
  for E I info deadline headers body its
proof (unfold_locales, goal_cases)
  case (1 n st r)
  then show ?case using step_spent [of info n st E I deadline headers body "its (Suc n)"] by simp
next
  case (2 n st st')
  then show ?case using step_spent [of info n st E I deadline headers body "its (Suc n)"] by simp
next
  case (3 st)
  then show ?case using spent_cost [OF 3] by (simp add: cost_ok_def)
qed

subsection \<open>No account twice\<close>

lemma selected_not_tried:
  assumes "fleet_wf f" and "select_account E req now f = (SelAccount s, g)" and "sq_pin req = None"
  shows "sel_id s \<notin> set (sq_exclude req)"
proof -
  have d: "distinct (fleet_ids f)" using assms(1) by (simp add: fleet_wf_def)
  obtain a where "fleet_account (clear_expired_all E now f) (sel_id s) = Some a"
    "serves E (clear_expired_all E now f) req now a"
    using selected_account [OF d assms(2)] assms(3) by (elim exE conjE) simp
  with serves_usable fleet_account_SomeD show ?thesis by metis
qed

lemma step_tried:
  assumes "tried_ok info st" and "ri_pin info = None" and "fleet_wf (rw_env rw (fs_fleet st))"
  shows "case forward_step E I info None headers body rw st of
      Return r \<Rightarrow> distinct (left_ids (fs_trace (fr_state r)))
        \<and> length (left_ids (fs_trace (fr_state r))) \<le> Suc (length (fs_tried st))
    | Continue st' \<Rightarrow> tried_ok info st' | Never \<Rightarrow> True"
proof -
  obtain s g where s: "round_select E info rw st = (s, g)" by fastforce
  have len: "length (left_ids (fs_trace st)) = length (fs_tried st)"
    using assms(1) by (simp add: tried_ok_def distinct_card [symmetric])
  have d: "distinct (left_ids (fs_trace st))" using assms(1) by (simp add: tried_ok_def)
  show ?thesis
  proof (cases s)
    case (SelAccount sel)
    let ?run = "run_attempt E I info (rw_try rw) sel headers body g"
    have new: "sel_id sel \<notin> set (fs_tried st)"
      using selected_not_tried [OF assms(3), of E "round_request info (fs_tried st)" "rw_now rw" sel g] s assms(2)
      by (simp add: round_select_def SelAccount round_request_def)
    then have left: "sel_id sel \<notin> set (left_ids (fs_trace st))" using assms(1) by (simp add: tried_ok_def)
    show ?thesis
    proof (cases "ar_outcome ?run")
      case None
      then show ?thesis by (simp add: forward_step_eq s SelAccount after_try_def Let_def)
    next
      case (Some out)
      note facts = new left d len assms(1,2)
      show ?thesis
        using facts Some
        by (cases out)
          (auto simp: forward_step_eq s SelAccount after_try_def conclude_def failover_answer_def hop_answer_def Let_def
            retried_def tried_ok_def MAX_ATTEMPTS_def split: option.splits if_splits)
    qed
  qed (use d len in \<open>simp_all add: forward_step_eq s when_exhausted_def Let_def\<close>)
qed

interpretation tried_inv: round_invariant E I info None headers body its
  "\<lambda>n st. (\<forall>k. round_ok E I (its k)) \<and> fleet_wf f \<and> ri_pin info = None \<longrightarrow>
     moves E I f (fs_fleet st) \<and> tried_ok info st \<and> spent_ok info n st"
  "\<lambda>r. (\<forall>k. round_ok E I (its k)) \<and> fleet_wf f \<and> ri_pin info = None \<longrightarrow>
     distinct (left_ids (fs_trace (fr_state r))) \<and> length (left_ids (fs_trace (fr_state r))) \<le> 6"
  for E I info headers body its f
proof (unfold_locales, goal_cases)
  case (1 n st r)
  show ?case
  proof (intro impI)
    assume a: "(\<forall>k. round_ok E I (its k)) \<and> fleet_wf f \<and> ri_pin info = None"
    with 1(1) have m: "moves E I f (fs_fleet st)" and t: "tried_ok info st" by simp_all
    have "fleet_wf (rw_env (its (Suc n)) (fs_fleet st))"
      using moves_wf [OF move_world(2) [of E I "its (Suc n)" f "fs_fleet st"]] a m by simp
    with step_tried [OF t, of "its (Suc n)" E I headers body] a 1(2) t
    show "distinct (left_ids (fs_trace (fr_state r))) \<and> length (left_ids (fs_trace (fr_state r))) \<le> 6"
      by (simp add: tried_ok_def)
  qed
next
  case (2 n st st')
  show ?case
  proof (intro impI)
    assume a: "(\<forall>k. round_ok E I (its k)) \<and> fleet_wf f \<and> ri_pin info = None"
    with 2(1) have m: "moves E I f (fs_fleet st)" and t: "tried_ok info st" and sp: "spent_ok info (Suc n) st" by simp_all
    have "fleet_wf (rw_env (its (Suc n)) (fs_fleet st))"
      using moves_wf [OF move_world(2) [of E I "its (Suc n)" f "fs_fleet st"]] a m by simp
    with step_tried [OF t, of "its (Suc n)" E I headers body] a 2(2)
      step_spent [OF sp, of E I None headers body "its (Suc n)"]
      move_step [of E I "its (Suc n)" f st info None headers body] m
    show "moves E I f (fs_fleet st') \<and> tried_ok info st' \<and> spent_ok info n st'" by simp
  qed
next
  case (3 st)
  then show ?case by (auto simp: tried_ok_def distinct_card [symmetric])
qed

lemma start_ok:
  "spent_ok info MAX_ROUNDS (forward_start f)" "tried_ok info (forward_start f)"
  by (simp_all add: spent_ok_def tried_ok_def forward_start_def left_ids_def)

text \<open>C25: A request costs a bounded number of tries whatever the upstream does: at most 18, and at most
  five of them end in a wait for the same account and two in a hop off a rate-limited one; no
  single wait is longer than five minutes. Without a hold and a pin it moves on at most from six
  accounts and never returns to one it left.\<close>

theorem forward_tries_bounded:
  assumes "forward E I strip info started client body its f = Some r"
  shows "(let st = fr_state r; tr = fs_trace st in
      length tr \<le> 18 \<and> length (filter retried tr) \<le> 5 \<and> length (filter hopped tr) \<le> 2
      \<and> length (fs_waits st) \<le> 18 \<and> (\<forall>s \<in> set (fs_waits st). s \<le> 300)
      \<and> ((\<forall>k. round_ok E I (its k)) \<and> fleet_wf f \<and> ri_pin info = None \<and> ri_hold_ms info = 0 \<longrightarrow>
           distinct (left_ids tr) \<and> length (left_ids tr) \<le> 6 \<and> length tr \<le> 11))"
proof -
  note run = assms [unfolded forward_def]
  have c: "cost_ok info (fr_state r)" by (rule spent_inv.loop_result [OF start_ok(1) run])
  have "distinct (left_ids (fs_trace (fr_state r))) \<and> length (left_ids (fs_trace (fr_state r))) \<le> 6"
    if "\<forall>k. round_ok E I (its k)" "fleet_wf f" "ri_pin info = None" "ri_hold_ms info = 0"
    using tried_inv.loop_result [where st = "forward_start f" and n = MAX_ROUNDS and f = f] run that start_ok
    by (force simp: hold_deadline_def forward_start_def)
  with c trace_length [of "fs_trace (fr_state r)"] show ?thesis
    by (auto simp: cost_ok_def MAX_ROUNDS_def MAX_ATTEMPTS_def WAIT_MAX_def Let_def)
qed

theorem forward_tries_bounded_witness:
  "\<exists>r. forward ext0 no_files [] (demo_info (Some ''a'')) 0 [] [] (\<lambda>_. demo_round ConnectFailed) one_account = Some r
     \<and> length (fs_trace (fr_state r)) = 1 \<and> length (filter retried (fs_trace (fr_state r))) \<le> 5"
proof -
  obtain r run where r: "forward ext0 no_files [] (demo_info (Some ''a'')) 0 [] [] (\<lambda>_. demo_round ConnectFailed) one_account = Some r"
    "fs_trace (fr_state r) = [(demo_selected, run)]"
    using demo_forward by blast
  from forward_tries_bounded [OF r(1)] r show ?thesis by (auto simp: Let_def)
qed

text \<open>C5: What the upstream may have run and billed is never sent again: a request goes to the upstream
  another time only after the connection was refused, or after an answer that says this
  account will not serve it (401, 403, 429 or a server error). A silent upstream, a connection
  that broke after the send, a success and a client error all end the request. A pinned
  request is only ever repeated after a 401 or a 429.\<close>

theorem never_resent_after_silence:
  assumes "forward E I strip info started client body its f = Some r"
    and "x \<in> set (butlast (fs_trace (fr_state r)))" and "ar_reply (snd x) = Some rep"
  shows "(case rep of
      ConnectFailed \<Rightarrow> ri_pin info = None
    | Reply res \<Rightarrow> ur_status res \<in> {401, 429}
        \<or> ri_pin info = None \<and> (ur_status res = 403 \<or> 500 \<le> ur_status res \<and> ur_status res \<le> 599)
    | _ \<Rightarrow> False)"
proof -
  note run = assms(1) [unfolded forward_def]
  have "goes_on info x"
    using spent_inv.loop_result [OF start_ok(1) run] assms(2) by (simp add: cost_ok_def)
  then obtain out where out: "ar_outcome (snd x) = Some out" and go: "goes_on info x" by (auto simp: goes_on_def split: option.splits)
  obtain w g where r: "snd x = run_attempt E I info w (fst x) (filter_request_headers client strip) body g"
    using runs_inv.loop_result [OF _ run] in_set_butlastD [OF assms(2)] by (force simp: forward_start_def run_of_def)
  have "reply_ok info rep out" using run_attempt_outcome [OF out [unfolded r]] assms(3) r by simp
  with go out show ?thesis
    by (auto simp: reply_ok_def outcome_ok_def goes_on_def split: reply.splits attempt.splits)
qed

text \<open>A pinned request answered 401 once, while another request renews the account's credential.\<close>

definition rejected_once :: upstream_response where
  "rejected_once = \<lparr>ur_status = 401, ur_headers = [], ur_chunks = []\<rparr>"

definition renewed :: fleet where
  "renewed = demo_fleet [(demo_account ''a'' 1)\<lparr>a_credential := Some ''u''\<rparr>]"

definition renewing :: "nat \<Rightarrow> fleet \<Rightarrow> fleet" where
  "renewing k f = (if k = 10 then renewed else f)"

definition demo_rounds :: "nat \<Rightarrow> round_world" where
  "demo_rounds k = (if k = MAX_ROUNDS then (demo_round (Reply rejected_once))\<lparr>rw_try := demo_try renewing (Reply rejected_once)\<rparr>
     else (demo_round ConnectFailed)\<lparr>rw_env := \<lambda>_. one_account\<rparr>)"

lemma demo_rounds_try:
  "rw_try (demo_rounds MAX_ROUNDS) = demo_try renewing (Reply rejected_once)"
  "n \<noteq> MAX_ROUNDS \<Longrightarrow> rw_try (demo_rounds n) = demo_try (\<lambda>_ f. f) ConnectFailed"
  by (simp_all add: demo_rounds_def)

lemma forward_start_simps [simp]:
  "fs_trace (forward_start f) = []" "fs_retries (forward_start f) = 0" "fs_tried (forward_start f) = []"
  by (simp_all add: forward_start_def)

lemma renewed_credential:
  "ensure_token_fresh I refresh e1 e2 t0 t1 t2 ''a'' True MarkDead renewed =
     \<lparr>rr_credential = Some ''u'', rr_fleet = renewed, rr_sent = None\<rparr>"
proof -
  have "fleet_account renewed ''a'' = Some ((demo_account ''a'' 1)\<lparr>a_credential := Some ''u''\<rparr>)"
    by (simp add: renewed_def fleet_account_def)
  then show ?thesis
    by (simp add: ensure_token_fresh_def linked_to_def refresh_prepare_def credential_of_def)
qed

lemma rejected_run:
  "\<exists>g. ar_outcome (run_attempt ext0 I (demo_info (Some ''a'')) (demo_try renewing (Reply rejected_once)) demo_selected hs [] one_account)
       = Some (RetrySame 0)
     \<and> ar_reply (run_attempt ext0 I (demo_info (Some ''a'')) (demo_try renewing (Reply rejected_once)) demo_selected hs [] one_account)
       = Some (Reply rejected_once)"
proof -
  obtain h out where "run_attempt ext0 I (demo_info (Some ''a'')) (demo_try renewing (Reply rejected_once)) demo_selected hs [] one_account =
      (close_open (demo_try renewing (Reply rejected_once)) ''a''
        (on_reply ext0 I (demo_info (Some ''a'')) (demo_try renewing (Reply rejected_once)) demo_selected (Reply rejected_once) h))
        \<lparr>ar_sent := Some out, ar_reply := Some (Reply rejected_once)\<rparr>"
    by (rule demo_sent)
  then show ?thesis
    by (simp add: on_reply_def on_status_def on_401_def rejected_once_def renewing_def renewed_credential Let_def)
qed

theorem never_resent_after_silence_witness:
  "\<exists>r x. forward ext0 no_files [] (demo_info (Some ''a'')) 0 [] [] demo_rounds one_account = Some r
     \<and> x \<in> set (butlast (fs_trace (fr_state r))) \<and> ar_reply (snd x) = Some (Reply rejected_once)
     \<and> ur_status rejected_once \<in> {401, 429}"
proof -
  let ?info = "demo_info (Some ''a'')" and ?hs = "filter_request_headers [] []"
  let ?run1 = "run_attempt ext0 no_files ?info (demo_try renewing (Reply rejected_once)) demo_selected ?hs [] one_account"
  let ?run2 = "run_attempt ext0 no_files ?info (demo_try (\<lambda>_ f. f) ConnectFailed) demo_selected ?hs [] one_account"
  have out1: "ar_outcome ?run1 = Some (RetrySame 0)" "ar_reply ?run1 = Some (Reply rejected_once)"
    using rejected_run [of no_files ?hs] by auto
  obtain h out where "?run2 = (close_open (demo_try (\<lambda>_ f. f) ConnectFailed) ''a''
      (on_reply ext0 no_files ?info (demo_try (\<lambda>_ f. f) ConnectFailed) demo_selected ConnectFailed h))
        \<lparr>ar_sent := Some out, ar_reply := Some ConnectFailed\<rparr>"
    by (rule demo_sent)
  then have out2: "ar_outcome ?run2 = Some (Failover ''connect failed'' True)" by (simp add: on_reply_def)
  obtain n where n: "MAX_ROUNDS = Suc (Suc n)" by (simp add: MAX_ROUNDS_def MAX_ATTEMPTS_def)
  have s1: "round_select ext0 ?info (demo_rounds MAX_ROUNDS) (forward_start one_account) = (SelAccount demo_selected, one_account)"
    by (simp add: round_select_def forward_start_def demo_rounds_def demo_select_pinned)
  have s2: "round_select ext0 ?info (demo_rounds (Suc n)) st = (SelAccount demo_selected, one_account)" for st
    using n by (simp add: round_select_def demo_rounds_def demo_select_pinned)
  obtain st where st: "forward_step ext0 no_files ?info (hold_deadline ?info 0) ?hs [] (demo_rounds MAX_ROUNDS) (forward_start one_account)
      = Continue st" "fs_trace st = [(demo_selected, ?run1)]"
    using out1 by (simp add: forward_step_eq s1 after_try_def Let_def demo_rounds_try)
  obtain r where r: "forward_step ext0 no_files ?info (hold_deadline ?info 0) ?hs [] (demo_rounds (Suc n)) st = Return r"
      "fs_trace (fr_state r) = [(demo_selected, ?run1), (demo_selected, ?run2)]"
    using out2 st(2) n by (simp add: forward_step_eq s2 after_try_def failover_answer_def conclude_def Let_def demo_rounds_try)
  have f: "forward ext0 no_files [] ?info 0 [] [] demo_rounds one_account = Some r"
    using st(1) r(1) by (simp add: forward_def n)
  have x: "(demo_selected, ?run1) \<in> set (butlast (fs_trace (fr_state r)))" by (simp add: r)
  have "ar_reply (snd (demo_selected, ?run1)) = Some (Reply rejected_once)" using out1(2) by simp
  from never_resent_after_silence [OF f x this] this f x show ?thesis by (intro exI [of _ r] exI) auto
qed

end
