(* ===== verification/Forward_Answers.thy ===== *)
theory Forward_Answers
  imports Forward_Bounds
begin

text \<open>
  What the client gets from \<open>forward\<close>: an answer whenever no error body stalls, a time to retry with
  every rate-limit answer, and one end in the activity feed for every request.
\<close>

subsection \<open>The loop returns\<close>

definition error_status :: "nat \<Rightarrow> bool" where
  "error_status s \<longleftrightarrow> s \<in> {401, 403, 429} \<or> 500 \<le> s \<and> s \<le> 599"

definition stalls :: "reply \<Rightarrow> bool" where
  "stalls rep \<longleftrightarrow> (case rep of Reply res \<Rightarrow> error_status (ur_status res) \<and> Stalled \<in> set (ur_chunks res) | _ \<Rightarrow> False)"

lemma read_limited_returns: "Stalled \<notin> set cs \<Longrightarrow> read_limited out cs \<noteq> None"
  by (induction out cs rule: read_limited.induct) auto

lemma read_all_returns: "Stalled \<notin> set cs \<Longrightarrow> read_all out cs \<noteq> None"
  by (induction out cs rule: read_all.induct) auto

lemma error_body_returns:
  "Stalled \<notin> set (ur_chunks res) \<Longrightarrow> (\<And>b. ar_outcome (k b) \<noteq> None) \<Longrightarrow> ar_outcome (with_error_body res f k) \<noteq> None"
  using read_limited_returns [of "ur_chunks res" "[]"] by (auto simp: with_error_body_def)

lemma on_error_returns:
  assumes "Stalled \<notin> set (ur_chunks res)"
  shows "ar_outcome (on_429 E info w i res f) \<noteq> None" "ar_outcome (on_401 I w sel res f) \<noteq> None"
    "ar_outcome (on_403 E info w i res f) \<noteq> None" "ar_outcome (on_5xx info res f) \<noteq> None"
proof -
  have "ar_outcome (on_rate_limit E info w i parsed f) \<noteq> None" for parsed
    by (simp add: on_rate_limit_def Let_def split: prod.split)
  then show "ar_outcome (on_429 E info w i res f) \<noteq> None"
    unfolding on_429_def Let_def using assms by (intro error_body_returns) simp_all
  show "ar_outcome (on_401 I w sel res f) \<noteq> None"
    using read_all_returns [OF assms, of "[]"] by (auto simp: on_401_def Let_def)
  show "ar_outcome (on_403 E info w i res f) \<noteq> None"
    unfolding on_403_def using assms by (intro error_body_returns) simp_all
  show "ar_outcome (on_5xx info res f) \<noteq> None"
    unfolding on_5xx_def using assms by (intro error_body_returns) simp_all
qed

lemma on_relay_returns: "ar_outcome (on_relay E info w i res f) \<noteq> None"
  by (simp add: on_relay_def Let_def split: option.split)

lemma classify_other:
  "\<not> error_status (ur_status res) \<Longrightarrow>
   on_status E I info w sel res f = on_relay E info w (sel_id sel) res (read_reply E w (sel_id sel) res f)"
  by (auto simp: on_status_def error_status_def Let_def)

lemma classify_returns:
  assumes "\<not> stalls (Reply res)"
  shows "ar_outcome (on_status E I info w sel res f) \<noteq> None"
proof (cases "error_status (ur_status res)")
  case True
  with assms have "Stalled \<notin> set (ur_chunks res)" by (simp add: stalls_def)
  from on_error_returns [OF this] True show ?thesis by (auto simp: on_status_def error_status_def Let_def)
next
  case False
  then show ?thesis using on_relay_returns by (simp add: classify_other)
qed

lemma run_attempt_returns:
  assumes "\<And>out. \<not> stalls (aw_reply w out)"
  shows "ar_outcome (run_attempt E I info w sel headers body f) \<noteq> None"
proof (cases E I info w sel headers body f rule: run_attempt_cases)
  case (unsent why)
  then show ?thesis by simp
next
  case (sent cred g h out)
  then show ?thesis using assms [of out] classify_returns
    by (cases "aw_reply w out") (simp_all add: on_reply_def)
qed

lemma after_try_returns: "ar_outcome run \<noteq> None \<Longrightarrow> after_try info rw sel run st \<noteq> Never"
  by (auto simp: after_try_def conclude_def Let_def split: attempt.split option.split)

text \<open>C26: A request always gets an answer: however the upstream behaves, the loop ends after at most 18
  rounds, provided no error body (401, 403, 429, 5xx) stalls in the middle. Error bodies are the
  one thing read without a timer.\<close>

theorem forward_returns:
  assumes "\<And>k out. \<not> stalls (aw_reply (rw_try (its k)) out)"
  shows "\<exists>r. forward E I strip info started client body its f = Some r"
proof -
  have never: "forward_step E I info d hs body (its k) st \<noteq> Never" for d hs k st
  proof -
    obtain s g where s: "round_select E info (its k) st = (s, g)" by fastforce
    show ?thesis
      using after_try_returns run_attempt_returns assms
      by (cases s) (auto simp: forward_step_eq s when_exhausted_def Let_def)
  qed
  have "\<exists>r. forward_loop E I info d hs body its n st = Some r" for d hs n st
  proof (induction n arbitrary: st)
    case (Suc n)
    then show ?case using never [of d hs "Suc n" st] by (cases "forward_step E I info d hs body (its (Suc n)) st") auto
  qed simp
  then show ?thesis by (simp add: forward_def)
qed

theorem forward_returns_witness:
  "\<exists>r. forward ext0 no_files [] (demo_info (Some ''a'')) 0 [] [] (\<lambda>_. demo_round ConnectFailed) one_account = Some r"
  by (rule forward_returns) (simp add: stalls_def)

text \<open>The proviso is needed: a server error whose body stops short is waited for without end.\<close>

lemma stalled_error_never_answered:
  "ar_outcome (on_5xx info \<lparr>ur_status = 500, ur_headers = h, ur_chunks = [Chunk c, Stalled]\<rparr> f) = None"
  if "length c \<le> ERROR_BODY_INSPECTION_LIMIT"
  using that by (simp add: on_5xx_def with_error_body_def)

subsection \<open>One end for every request\<close>

definition ended_once :: "req_info \<Rightarrow> forward_result \<Rightarrow> bool" where
  "ended_once info r \<longleftrightarrow>
     (case fr_stream r of
        Some _ \<Rightarrow> \<not> list_ex is_end (fs_events (fr_state r))
      | None \<Rightarrow> \<exists>pre a el ok. fs_events (fr_state r) = pre @ [EndEv (ri_id info) a (rs_status (fr_response r)) el ok]
                  \<and> \<not> list_ex is_end pre)"

lemma fail_ended: "\<not> list_ex is_end (fs_events st) \<Longrightarrow> ended_once info (fail info el r a st)"
  by (auto simp: ended_once_def fail_def)

lemma conclude_ended:
  "\<not> list_ex is_end (fs_events st) \<Longrightarrow>
   case conclude info el ans a st of
     Return r \<Rightarrow> ended_once info r | Continue st' \<Rightarrow> \<not> list_ex is_end (fs_events st') | Never \<Rightarrow> True"
  using fail_ended by (auto simp: conclude_def split: option.split)

text \<open>A response that is handed on without a pin reports its own end.\<close>

lemma relay_served:
  "ar_outcome (on_relay E info w i res f) = Some (Done r) \<Longrightarrow>
   (case ar_stream (on_relay E info w i res f) of
      Some _ \<Rightarrow> ar_served (on_relay E info w i res f) = None
    | None \<Rightarrow> \<exists>ok. ar_served (on_relay E info w i res f) = Some (rs_status r, ok))"
  by (cases "is_sse res"; cases "read_buffered (ur_chunks res)") (auto simp: on_relay_def Let_def)

lemma done_served:
  assumes "ar_outcome (run_attempt E I info w sel headers body f) = Some (Done r)" and "ri_pin info = None"
  shows "case ar_stream (run_attempt E I info w sel headers body f) of
      Some _ \<Rightarrow> ar_served (run_attempt E I info w sel headers body f) = None
    | None \<Rightarrow> \<exists>ok. ar_served (run_attempt E I info w sel headers body f) = Some (rs_status r, ok)"
proof (cases E I info w sel headers body f rule: run_attempt_cases)
  case (unsent why)
  with assms show ?thesis by simp
next
  case (sent cred g h out)
  with assms obtain res where res: "aw_reply w out = Reply res"
    "ar_outcome (on_status E I info w sel res h) = Some (Done r)"
    by (auto simp: on_reply_def split: reply.splits)
  with classify_outcome [OF res(2)] assms(2) have "\<not> error_status (ur_status res)"
    by (auto simp: outcome_ok_def error_status_def)
  with res relay_served [of E info w "sel_id sel" res "read_reply E w (sel_id sel) res h" r]
  show ?thesis unfolding sent by (auto simp: on_reply_def classify_other split: option.splits)
qed

interpretation ends_inv: round_invariant E I info deadline headers body its
  "\<lambda>_ st. ri_pin info = None \<longrightarrow> \<not> list_ex is_end (fs_events st)"
  "\<lambda>r. ri_pin info = None \<longrightarrow> ended_once info r"
  for E I info deadline headers body its
proof -
  have step: "case forward_step E I info deadline headers body rw st of
      Return r \<Rightarrow> ended_once info r | Continue st' \<Rightarrow> \<not> list_ex is_end (fs_events st') | Never \<Rightarrow> True"
    if pin: "ri_pin info = None" and st: "\<not> list_ex is_end (fs_events st)" for rw st
  proof -
    obtain s g where s: "round_select E info rw st = (s, g)" by fastforce
    show ?thesis
    proof (cases s)
      case (SelAccount sel)
      let ?run = "run_attempt E I info (rw_try rw) sel headers body g"
      have n: "\<not> list_ex is_end (fs_events st1)" if "fs_events st1 = fs_events st @ [AccountEv i a]" for st1 i a
        using that st by simp
      show ?thesis
      proof (cases "ar_outcome ?run")
        case None
        then show ?thesis by (simp add: forward_step_eq s SelAccount after_try_def Let_def)
      next
        case (Some out)
        show ?thesis
        proof (cases out)
          case (Done r)
          with done_served [OF Some [unfolded Done] pin] Some st show ?thesis
            by (auto simp: forward_step_eq s SelAccount after_try_def Let_def ended_once_def split: option.splits)
        qed (use Some st in \<open>auto simp: forward_step_eq s SelAccount after_try_def Let_def
              intro!: fail_ended conclude_ended\<close>)
      qed
    qed (use st fail_ended in \<open>simp_all add: forward_step_eq s when_exhausted_def Let_def\<close>)
  qed
  show "round_invariant E I info deadline headers body its
      (\<lambda>_ st. ri_pin info = None \<longrightarrow> \<not> list_ex is_end (fs_events st)) (\<lambda>r. ri_pin info = None \<longrightarrow> ended_once info r)"
  proof (unfold_locales, goal_cases)
    case (1 n st r)
    then show ?case using step [of st "its (Suc n)"] by auto
  next
    case (2 n st st')
    then show ?case using step [of st "its (Suc n)"] by auto
  next
    case (3 st)
    then show ?case using fail_ended by simp
  qed
qed

text \<open>C27: Every request without a pin leaves the activity feed exactly once: either its last event is its
  own end, with the status the client got, and there is no other; or its body is still being
  streamed and the end is left to the task that relays it.\<close>

theorem forward_ends_once:
  assumes "forward E I strip info started client body its f = Some r" and "ri_pin info = None"
  shows "case fr_stream r of
      Some _ \<Rightarrow> \<not> list_ex is_end (fs_events (fr_state r))
    | None \<Rightarrow> \<exists>pre a el ok. fs_events (fr_state r) = pre @ [EndEv (ri_id info) a (rs_status (fr_response r)) el ok]
                \<and> \<not> list_ex is_end pre"
  using ends_inv.loop_result [OF _ assms(1) [unfolded forward_def]] assms(2)
  by (simp add: forward_start_def ended_once_def)

theorem forward_ends_once_witness:
  "\<exists>r pre a el ok. forward ext0 no_files [] (demo_info None) 0 [] [] (\<lambda>_. demo_round ConnectFailed) (demo_fleet []) = Some r
     \<and> fs_events (fr_state r) = pre @ [EndEv ''r'' a 429 el ok] \<and> \<not> list_ex is_end pre"
proof -
  obtain r where r: "forward ext0 no_files [] (demo_info None) 0 [] [] (\<lambda>_. demo_round ConnectFailed) (demo_fleet []) = Some r"
    "rs_status (fr_response r) = 429" "fr_stream r = None" using empty_forward by blast
  from forward_ends_once [OF r(1)] r show ?thesis by simp
qed

text \<open>A pinned request that draws a server error is handed on without any end.\<close>

lemma pinned_error_never_ends:
  assumes "ri_pin info = Some p" and "ar_outcome run = ar_outcome (on_5xx info res f)"
    and "ar_served run = None" and "ar_stream run = None" and "Stalled \<notin> set (ur_chunks res)"
  shows "\<exists>r. after_try info rw sel run st = Return r \<and> fs_events (fr_state r) = fs_events st \<and> fr_stream r = None
    \<and> rs_status (fr_response r) = ur_status res"
proof -
  obtain b where "read_limited [] (ur_chunks res) = Some b" using read_limited_returns [OF assms(5)] by blast
  with assms show ?thesis by (simp add: after_try_def on_5xx_def with_error_body_def Let_def)
qed

subsection \<open>When to come back\<close>

definition retry_hint :: "response \<Rightarrow> bool" where
  "retry_hint r \<longleftrightarrow>
     (rs_status r = 429 \<longrightarrow> (\<exists>n. 1 \<le> n \<and> n \<le> 3600 \<and> retry_after_of r = Some (show_nat n)))"

lemma retry_hint_with: "1 \<le> k \<Longrightarrow> k \<le> 3600 \<Longrightarrow> retry_hint (with_retry_after r k)"
  unfolding retry_hint_def by (intro impI exI [of _ k]) simp

lemma retry_hint_other: "rs_status r \<noteq> 429 \<Longrightarrow> retry_hint r"
  by (simp add: retry_hint_def)

lemma retry_hints:
  "retry_hint fleet_429_response" "retry_hint unreadable_body" "retry_hint not_resent" "retry_hint no_headers_response"
  "retry_hint gave_up" "retry_hint (transient_exhaustion n)"
  "1 \<le> k \<Longrightarrow> k \<le> 3600 \<Longrightarrow> retry_hint (too_many msg k)"
  "s \<noteq> 429 \<Longrightarrow> retry_hint (error_response s kind msg)"
  "rs_status r \<noteq> 429 \<Longrightarrow> retry_hint (with_retry_after r j)"
  unfolding fleet_429_response_def FLEET_429_RETRY_AFTER_SECONDS_def unreadable_body_def
      not_resent_def no_headers_response_def gave_up_def transient_exhaustion_def too_many_def
  by (simp_all add: retry_hint_with retry_hint_other)

lemma exhausted_retry:
  assumes "fleet_wf f" and "select_account E req now f = (Exhausted (Some n) why, g)"
  shows "5 \<le> n \<and> n \<le> 3600"
proof -
  let ?g = "clear_expired_all E now f"
  have d: "distinct (fleet_ids ?g)" using assms(1) by (simp add: ids_clear_expired fleet_wf_def)
  have pin: "sq_pin req = None"
    using assms(2) by (auto simp: select_account_eq select_pinned_def Let_def split: option.splits)
  obtain s h where st: "select_steps E req now ?g = (s, h)" by fastforce
  have "s = None \<or> (\<exists>sel. s = Some (SelAccount sel))"
    using sound_select_steps [OF d, of E req now] by (cases s) (auto simp: sound_def st)
  with assms(2) st pin have "fst (exhausted_info E h req now) = Some n"
    by (auto simp: select_account_eq Let_def split: prod.splits)
  with exhausted_info_bounds [where E = E and f = h and req = req and now = now] show ?thesis by simp
qed

text \<open>The seconds a run may come with.\<close>

definition hint_ok :: "attempt \<Rightarrow> bool" where
  "hint_ok r \<longleftrightarrow>
     (case r of
        Done resp \<Rightarrow> rs_status resp \<noteq> 429
      | Reject resp \<Rightarrow> retry_hint resp
      | Abort resp why \<Rightarrow> retry_hint resp
      | RateLimitedHop ra \<Rightarrow> 1 \<le> ra \<and> ra \<le> 300
      | RetrySame ra \<Rightarrow> ra \<le> 300
      | Failover why t \<Rightarrow> True)"

lemma run_hint:
  assumes "ar_outcome (run_attempt E I info w sel headers body f) = Some r"
  shows "hint_ok r"
  using run_attempt_outcome [OF assms]
  by (auto simp: reply_ok_def outcome_ok_def retry_secs_ok_def hint_ok_def retry_hints
      split: option.splits reply.splits attempt.splits)

lemma after_try_hint:
  assumes "\<And>r. ar_outcome run = Some r \<Longrightarrow> hint_ok r"
  shows "case after_try info rw sel run st of Return r \<Rightarrow> retry_hint (fr_response r) | _ \<Rightarrow> True"
proof (cases "ar_outcome run")
  case (Some r)
  from assms [OF Some] show ?thesis
    by (cases r)
      (auto simp: after_try_def Some Let_def conclude_def failover_answer_def hop_answer_def hint_ok_def retry_hints
        retry_hint_other transient_exhaustion_def split: option.splits if_splits)
qed (simp add: after_try_def)

lemma step_hint:
  assumes "fleet_wf (rw_env rw (fs_fleet st))"
  shows "case forward_step E I info deadline headers body rw st of Return r \<Rightarrow> retry_hint (fr_response r) | _ \<Rightarrow> True"
proof -
  obtain s g where s: "round_select E info rw st = (s, g)" by fastforce
  show ?thesis
  proof (cases s)
    case (SelAccount sel)
    then show ?thesis
      by (simp only: forward_step_eq s prod.case selection.case Let_def) (rule after_try_hint, erule run_hint)
  next
    case (Exhausted retry why)
    have "1 \<le> unwrap_or 60 retry \<and> unwrap_or 60 retry \<le> 3600"
      using exhausted_retry [OF assms] s Exhausted by (cases retry) (fastforce simp: round_select_def)+
    then show ?thesis by (simp add: forward_step_eq s Exhausted when_exhausted_def Let_def retry_hints)
  qed (simp_all add: forward_step_eq s retry_hints)
qed

interpretation hint_inv: round_invariant E I info deadline headers body its
  "\<lambda>_ st. (\<forall>k. round_ok E I (its k)) \<and> fleet_wf f \<longrightarrow> moves E I f (fs_fleet st)"
  "\<lambda>r. (\<forall>k. round_ok E I (its k)) \<and> fleet_wf f \<longrightarrow> retry_hint (fr_response r)"
  for E I info deadline headers body its f
proof (unfold_locales, goal_cases)
  case (1 n st r)
  then show ?case
    using step_hint [OF moves_wf [OF move_world(2) [of E I "its (Suc n)" f "fs_fleet st"]], of E I info deadline headers body]
    by auto
next
  case (2 n st st')
  then show ?case using move_step [of E I "its (Suc n)" f st info deadline headers body] by auto
next
  case (3 st)
  then show ?case by (simp add: retry_hints)
qed

text \<open>Whenever the proxy answers 429, it says when to come back: a whole number of seconds between
  one and an hour, whether the fleet is out of quota, a pin cannot be served, the upstream's
  limit spans accounts or a limit outlasted the retries.\<close>

theorem forward_429_says_when:
  assumes "\<And>k. round_ok E I (its k)" and "fleet_wf f"
    and "forward E I strip info started client body its f = Some r" and "rs_status (fr_response r) = 429"
  shows "\<exists>n. 1 \<le> n \<and> n \<le> 3600 \<and> retry_after_of (fr_response r) = Some (show_nat n)"
  using hint_inv.loop_result [OF _ assms(3) [unfolded forward_def], of f] assms(1,2,4)
  by (simp add: forward_start_def retry_hint_def)

theorem forward_429_says_when_witness:
  "\<exists>r n. forward ext0 no_files [] (demo_info None) 0 [] [] (\<lambda>_. demo_round ConnectFailed) (demo_fleet []) = Some r
     \<and> rs_status (fr_response r) = 429 \<and> n \<le> 3600 \<and> retry_after_of (fr_response r) = Some (show_nat n)"
proof -
  obtain r where r: "forward ext0 no_files [] (demo_info None) 0 [] [] (\<lambda>_. demo_round ConnectFailed) (demo_fleet []) = Some r"
    "rs_status (fr_response r) = 429" using empty_forward by blast
  from forward_429_says_when [OF demo_round_ok empty_fleet_wf r] r show ?thesis by blast
qed

end
