(* ===== verification/Prober.thy ===== *)
theory Prober
  imports Forward_Facts Pools_Props
begin

text \<open>
  \<open>src/prober.rs\<close>: when which account's usage is asked for, and what the answer does to the fleet.
  Instants are nanoseconds of the monotonic clock and durations are nanoseconds; an interval so long
  that \<open>Instant\<close> overflows is not modelled. The usage and profile endpoints and the clocks are the
  world of a probe; between its critical sections others may change the fleet.
\<close>

subsection \<open>The schedule\<close>

definition SECOND :: nat where "SECOND = 10 ^ 9"
definition MIN_INTERVAL :: nat where "MIN_INTERVAL = 30"
definition MAX_BACKOFF :: nat where "MAX_BACKOFF = 3600 * SECOND"
definition MANUAL_MIN_GAP :: nat where "MANUAL_MIN_GAP = 30 * SECOND"

datatype manual_probe = Started | AlreadyRunning | TooSoon nat

record seen =
  sn_on :: bool
  sn_not_before :: "nat option"
  sn_due :: "(string \<times> nat) list"

definition seen_default :: seen where
  "seen_default = \<lparr>sn_on = False, sn_not_before = None, sn_due = []\<rparr>"

type_synonym book = "(string \<times> seen) list"

record claim =
  cl_newly_on :: bool
  cl_accounts :: "(string \<times> string) list"
  cl_next :: "nat option"

datatype run_outcome = Completed | RunRateLimited

definition probe_interval :: "nat \<Rightarrow> nat" where
  "probe_interval secs = max secs MIN_INTERVAL * SECOND"

text \<open>The booking after the one that is due now; \<open>None\<close> when nothing is due.\<close>

definition next_turn :: "nat \<Rightarrow> nat \<Rightarrow> bool \<Rightarrow> nat \<Rightarrow> nat \<Rightarrow> nat option \<Rightarrow> nat option" where
  "next_turn now interval newly n i booked =
     (case booked of
        Some t \<Rightarrow>
          if now < t then None
          else if now < t + interval then Some (t + interval)
          else Some (now + interval)
      | None \<Rightarrow> if newly then Some (now + interval + interval * i div n) else Some (now + interval))"

fun claim_turns ::
  "nat \<Rightarrow> nat \<Rightarrow> bool \<Rightarrow> nat \<Rightarrow> nat \<Rightarrow> (string \<times> string) list \<Rightarrow> (string \<times> nat) list
   \<Rightarrow> (string \<times> string) list \<times> (string \<times> nat) list" where
  "claim_turns now interval newly n i [] due = ([], due)"
| "claim_turns now interval newly n i ((a, name) # rest) due =
     (case next_turn now interval newly n i (map_of due a) of
        None \<Rightarrow> claim_turns now interval newly n (Suc i) rest due
      | Some t \<Rightarrow>
          (case claim_turns now interval newly n (Suc i) rest (bt_insert a t due) of
             (picked, due') \<Rightarrow> ((a, name) # picked, due')))"

definition claim_due ::
  "string \<Rightarrow> nat \<Rightarrow> (string \<times> string) list \<Rightarrow> string list \<Rightarrow> nat \<Rightarrow> book \<Rightarrow> claim option \<times> book" where
  "claim_due pool secs accounts recheck now b =
     (if secs = 0 then (None, AList.delete pool b)
      else let entry = unwrap_or seen_default (map_of b pool)
           in if (case sn_not_before entry of Some t \<Rightarrow> now < t | None \<Rightarrow> False)
              then (None, bt_insert pool entry b)
              else let kept = filter (\<lambda>(a, _). a \<in> fst ` set accounts \<and> a \<notin> set recheck) (sn_due entry);
                       (picked, due) = claim_turns now (probe_interval secs) (\<not> sn_on entry)
                                         (max (length accounts) 1) 0 accounts kept
                   in (if picked = [] \<and> sn_on entry then None
                       else Some \<lparr>cl_newly_on = \<not> sn_on entry, cl_accounts = picked,
                                  cl_next = opt_min (map snd due)\<rparr>,
                       bt_insert pool (entry\<lparr>sn_on := True, sn_due := due\<rparr>) b))"

definition next_due :: "string \<Rightarrow> book \<Rightarrow> nat option" where
  "next_due pool b = Option.bind (map_of b pool) (\<lambda>s. opt_min (map snd (sn_due s)))"

definition back_off :: "string \<Rightarrow> nat \<Rightarrow> nat \<Rightarrow> book \<Rightarrow> nat \<times> book" where
  "back_off pool secs now b =
     (let wait = min (max secs MIN_INTERVAL * 2 mod (u64_max + 1) * SECOND) MAX_BACKOFF;
          entry = unwrap_or seen_default (map_of b pool)
      in (now + wait, bt_insert pool (entry\<lparr>sn_not_before := Some (now + wait)\<rparr>) b))"

text \<open>\<open>running\<close> is whether the lock of a run is held.\<close>

definition request_manual :: "bool \<Rightarrow> nat \<Rightarrow> nat option \<Rightarrow> manual_probe \<times> nat option" where
  "request_manual running now prev =
     (case prev of
        Some t \<Rightarrow>
          if now - t < MANUAL_MIN_GAP then (TooSoon (max ((MANUAL_MIN_GAP - (now - t)) div SECOND) 1), prev)
          else if running then (AlreadyRunning, prev) else (Started, Some now)
      | None \<Rightarrow> if running then (AlreadyRunning, prev) else (Started, Some now))"

text \<open>What one wake of the loop does for one pool before it probes.\<close>

definition tick_pool ::
  "importer \<Rightarrow> string \<Rightarrow> int \<Rightarrow> nat \<Rightarrow> fleet \<times> book \<Rightarrow> (claim option \<times> string list) \<times> fleet \<times> book" where
  "tick_pool I name now clock st =
     (case warn_login_expiry now (recheck_linked I now (fst st)) of
        (lines, f) \<Rightarrow>
          (case take_probe_recheck f of
             (recheck, g) \<Rightarrow>
               (case claim_due name (pb_interval_secs (fl_probe g)) (oauth_accounts g) recheck clock (snd st) of
                  (c, b) \<Rightarrow> ((c, lines), g, b))))"

subsection \<open>One probe\<close>

text \<open>An answer carries the text of its error; \<open>pw_usage k\<close> is the answer to the \<open>k\<close>-th request, \<open>None\<close>
  when the timer of 15 seconds fires. \<open>pw_halted\<close> is whether another account of the run has been
  told 429 when this one's turn comes.\<close>

record probe_world =
  pw_env :: "nat \<Rightarrow> fleet \<Rightarrow> fleet"
  pw_now :: "nat \<Rightarrow> int"
  pw_refresh :: "provider \<Rightarrow> string \<Rightarrow> refresh_error + tokens"
  pw_usage :: "nat \<Rightarrow> string \<Rightarrow> (usage_result \<times> string) option"
  pw_profile :: "string \<Rightarrow> profile option"
  pw_halted :: bool

record probe_run =
  pr_outcome :: run_outcome
  pr_fleet :: fleet
  pr_asked :: "string list"
  pr_reply :: "(usage_result \<times> string) option"

definition probe_done :: "run_outcome \<Rightarrow> string list \<Rightarrow> (usage_result \<times> string) option \<Rightarrow> fleet \<Rightarrow> probe_run" where
  "probe_done r asked reply f = \<lparr>pr_outcome = r, pr_fleet = f, pr_asked = asked, pr_reply = reply\<rparr>"

definition ask_usage :: "probe_world \<Rightarrow> nat \<Rightarrow> string \<Rightarrow> usage_result \<times> string" where
  "ask_usage w k cred = unwrap_or (UsageError, ''probe timed out'') (pw_usage w k cred)"

definition settle_profile :: "probe_world \<Rightarrow> string \<Rightarrow> fleet \<Rightarrow> fleet" where
  "settle_profile w i f =
     (if needs_profile f i
      then (case Option.bind (credential_of f i) (pw_profile w) of
              Some p \<Rightarrow> apply_profile i p (pw_env w 6 f)
            | None \<Rightarrow> pw_env w 6 f)
      else f)"

definition settle_probe ::
  "probe_world \<Rightarrow> string \<Rightarrow> int \<Rightarrow> string list \<Rightarrow> usage_result \<times> string \<Rightarrow> fleet \<Rightarrow> probe_run" where
  "settle_probe w i started asked rep f =
     (let finished = Some (pw_now w 5); text = snd rep;
          note = (\<lambda>st err. probe_account_status i st started finished err)
      in case fst rep of
           UsageOk u \<Rightarrow>
             probe_done Completed asked (Some rep)
               (note ''ok'' None (settle_profile w i (snd (fleet_apply_usage i u (pw_now w 6) f))))
         | UsageUnauthorized \<Rightarrow>
             probe_done Completed asked (Some rep) (note ''error'' (Some ''token rejected'') f)
         | UsageRateLimited \<Rightarrow>
             probe_done RunRateLimited asked (Some rep) (note ''rate-limited'' (Some (safe_str text 120)) f)
         | UsageError \<Rightarrow>
             probe_done Completed asked (Some rep)
               (note (if contains text ''timed out'' then ''timeout'' else ''error'') (Some (safe_str text 120)) f))"

text \<open>\<open>ensure_token_fresh\<close> with \<open>OnRefreshFail::Keep\<close>, its sections read at these clocks.\<close>

definition probe_token :: "importer \<Rightarrow> probe_world \<Rightarrow> string \<Rightarrow> nat \<Rightarrow> nat \<Rightarrow> nat \<Rightarrow> bool \<Rightarrow> fleet \<Rightarrow> refresh_run" where
  "probe_token I w i a b c force f =
     ensure_token_fresh I (pw_refresh w) (pw_env w b) (pw_env w c) (pw_now w a) (pw_now w b) (pw_now w c) i force Keep f"

definition probe_one :: "importer \<Rightarrow> probe_world \<Rightarrow> string \<Rightarrow> fleet \<Rightarrow> probe_run" where
  "probe_one I w i f0 =
     (let f = pw_env w 0 f0; started = pw_now w 0
      in if pw_halted w
         then probe_done Completed [] None
           (probe_account_status i ''skipped'' started (Some started) (Some ''usage endpoint rate-limited this run'') f)
         else let r = probe_token I w i 1 2 3 False (probe_account_status i ''running'' started None None f)
         in (case rr_credential r of
               None \<Rightarrow>
                 probe_done Completed [] None
                   (probe_account_status i ''error'' started (Some (pw_now w 4)) (Some ''no usable token'') (rr_fleet r))
             | Some cred \<Rightarrow>
                 let g = pw_env w 4 (rr_fleet r)
                 in (case needs_login g i of
                       Some why \<Rightarrow>
                         probe_done Completed [] None
                           (probe_account_status i ''error'' started (Some (pw_now w 4)) (Some why) g)
                     | None \<Rightarrow>
                         let rep = ask_usage w 0 cred; h = pw_env w 5 g
                         in if fst rep = UsageUnauthorized
                            then let r2 = probe_token I w i 7 8 9 True h
                                 in (case rr_credential r2 of
                                       None \<Rightarrow> settle_probe w i started [cred] rep (rr_fleet r2)
                                     | Some c2 \<Rightarrow> settle_probe w i started [cred, c2] (ask_usage w 1 c2)
                                                    (pw_env w 10 (rr_fleet r2)))
                            else settle_probe w i started [cred] rep h)))"

text \<open>The accounts of a pool: each with its world, in the order their sections end.\<close>

fun probe_each :: "importer \<Rightarrow> (string \<times> probe_world) list \<Rightarrow> fleet \<Rightarrow> run_outcome list \<times> fleet" where
  "probe_each I [] f = ([], f)"
| "probe_each I ((i, w) # rest) f =
     (let r = probe_one I w i f
      in case probe_each I rest (pr_fleet r) of (os, g) \<Rightarrow> (pr_outcome r # os, g))"

definition probe_pool ::
  "importer \<Rightarrow> string \<Rightarrow> (string \<times> probe_world) list \<Rightarrow> nat option \<Rightarrow> nat \<Rightarrow> nat \<Rightarrow> int \<Rightarrow> int \<Rightarrow> fleet \<times> book
   \<Rightarrow> fleet \<times> book" where
  "probe_pool I name accounts next started mono_end now finished st =
     (let f = fst st; secs = pb_interval_secs (fl_probe f);
          f1 = probe_run_started now (map_option (\<lambda>t. now + int ((t - started) div 10 ^ 6)) next) f;
          (outcomes, g) = probe_each I accounts f1
      in if RunRateLimited \<in> set outcomes \<and> 0 < secs
         then (case back_off name secs mono_end (snd st) of
                 (until, b) \<Rightarrow>
                   (probe_run_finished finished (Some (finished + int ((until - started) div SECOND) * 1000)) g, b))
         else (probe_run_finished finished None g, snd st))"

subsection \<open>Bookings\<close>

definition booking :: "string \<Rightarrow> string \<Rightarrow> book \<Rightarrow> nat option" where
  "booking pool a b = Option.bind (map_of b pool) (\<lambda>s. map_of (sn_due s) a)"

lemma probe_interval_pos [simp]: "0 < probe_interval secs"
  by (simp add: probe_interval_def MIN_INTERVAL_def SECOND_def)

lemma next_turn_later: "next_turn now interval newly n i booked = Some t \<Longrightarrow> 0 < interval \<Longrightarrow> now < t"
  by (auto simp: next_turn_def split: option.splits if_splits)

lemma next_turn_phase:
  "next_turn now interval newly n i booked = Some t \<Longrightarrow>
   (case booked of Some s \<Rightarrow> s \<le> now \<and> s + interval \<le> t | None \<Rightarrow> now + interval \<le> t)"
  by (auto simp: next_turn_def split: option.splits if_splits)

text \<open>A turn books an account past \<open>now\<close>, and a booking past \<open>now\<close> is left alone.\<close>

lemma claim_turns_spec:
  assumes "claim_turns now interval newly n i accounts due = (picked, due')" and "0 < interval"
  shows "set picked \<subseteq> set accounts
    \<and> (\<forall>a. (\<exists>t. map_of due a = Some t \<and> now < t) \<longrightarrow> a \<notin> fst ` set picked)
    \<and> (\<forall>a \<in> fst ` set accounts. \<exists>t. map_of due' a = Some t \<and> now < t)
    \<and> (\<forall>a. a \<notin> fst ` set picked \<longrightarrow> map_of due' a = map_of due a)
    \<and> (\<forall>a \<in> fst ` set picked. case map_of due a of Some s \<Rightarrow> s \<le> now \<and> s + interval \<le> the (map_of due' a)
        | None \<Rightarrow> now + interval \<le> the (map_of due' a))"
  using assms
proof (induction now interval newly n i accounts due arbitrary: picked due' rule: claim_turns.induct)
  case (2 now interval newly n i a name rest due)
  show ?case
  proof (cases "next_turn now interval newly n i (map_of due a)")
    case None
    then obtain t where t: "map_of due a = Some t" "now < t"
      by (auto simp: next_turn_def split: option.splits if_splits)
    have ih: "set picked \<subseteq> set rest
      \<and> (\<forall>x. (\<exists>t. map_of due x = Some t \<and> now < t) \<longrightarrow> x \<notin> fst ` set picked)
      \<and> (\<forall>x \<in> fst ` set rest. \<exists>t. map_of due' x = Some t \<and> now < t)
      \<and> (\<forall>x. x \<notin> fst ` set picked \<longrightarrow> map_of due' x = map_of due x)
      \<and> (\<forall>x \<in> fst ` set picked. case map_of due x of Some s \<Rightarrow> s \<le> now \<and> s + interval \<le> the (map_of due' x)
          | None \<Rightarrow> now + interval \<le> the (map_of due' x))"
      using 2(1) [OF None] 2(3,4) None by simp
    then have "a \<notin> fst ` set picked" "map_of due' a = Some t" using t by auto
    with ih t show ?thesis by auto
  next
    case (Some t)
    obtain p d where r: "claim_turns now interval newly n (Suc i) rest (bt_insert a t due) = (p, d)" by fastforce
    note later = next_turn_later [OF Some 2(4)] and phase = next_turn_phase [OF Some]
    have ih: "set p \<subseteq> set rest
      \<and> (\<forall>x. (\<exists>s. map_of (bt_insert a t due) x = Some s \<and> now < s) \<longrightarrow> x \<notin> fst ` set p)
      \<and> (\<forall>x \<in> fst ` set rest. \<exists>s. map_of d x = Some s \<and> now < s)
      \<and> (\<forall>x. x \<notin> fst ` set p \<longrightarrow> map_of d x = map_of (bt_insert a t due) x)
      \<and> (\<forall>x \<in> fst ` set p. case map_of (bt_insert a t due) x of
            Some s \<Rightarrow> s \<le> now \<and> s + interval \<le> the (map_of d x)
          | None \<Rightarrow> now + interval \<le> the (map_of d x))"
      using 2(2) [OF Some r 2(4)] .
    have p: "picked = (a, name) # p" "due' = d" using 2(3) Some r by simp_all
    have a: "a \<notin> fst ` set p" "map_of d a = Some t" using ih later by auto
    have rest: "map_of (bt_insert a t due) x = map_of due x" if "x \<noteq> a" for x using that by simp
    show ?thesis
    proof (intro conjI allI ballI impI)
      fix x assume "x \<in> fst ` set picked"
      then consider "x = a" | "x \<noteq> a" "x \<in> fst ` set p" using p by auto
      then show "case map_of due x of Some s \<Rightarrow> s \<le> now \<and> s + interval \<le> the (map_of due' x)
          | None \<Rightarrow> now + interval \<le> the (map_of due' x)"
      proof cases
        case 1
        with phase a p show ?thesis by (simp split: option.splits)
      next
        case 2
        with ih rest [OF 2(1)] p show ?thesis by auto
      qed
    qed (use ih a p later phase in \<open>auto split: option.splits\<close>)
  qed
qed simp

end
