(* ===== verification/Prober_Props.thy ===== *)
theory Prober_Props
  imports Prober
begin

text \<open>
  What the schedule of \<open>Prober\<close> promises: who is claimed when, and how often at most.
\<close>

definition backing_off :: "string \<Rightarrow> nat \<Rightarrow> book \<Rightarrow> bool" where
  "backing_off pool now b \<longleftrightarrow> (\<exists>s t. map_of b pool = Some s \<and> sn_not_before s = Some t \<and> now < t)"

definition claimed :: "claim option \<Rightarrow> string set" where
  "claimed c = (case c of Some cl \<Rightarrow> fst ` set (cl_accounts cl) | None \<Rightarrow> {})"

lemma unwrap_default: "unwrap_or seen_default (map_of b pool) = s \<Longrightarrow>
  sn_not_before s = Option.bind (map_of b pool) sn_not_before
  \<and> map_of (sn_due s) a = booking pool a b"
  by (cases "map_of b pool") (auto simp: seen_default_def booking_def)

lemma kept_lookup:
  "map_of (filter (\<lambda>(a, _). a \<in> A \<and> a \<notin> R) m) a = (if a \<in> A \<and> a \<notin> R then map_of m a else None)"
  using map_of_filter_key [of "\<lambda>a. a \<in> A \<and> a \<notin> R" m] by simp

text \<open>The two ways a tick of a pool that is on can go.\<close>

lemma claim_due_cases [consumes 2, case_names off turn]:
  assumes "claim_due pool secs accounts recheck now b = (c, b')" and "0 < secs"
  obtains (off) "backing_off pool now b" "c = None" "\<And>a. booking pool a b' = booking pool a b"
      "\<And>p. p \<noteq> pool \<Longrightarrow> map_of b' p = map_of b p"
  | (turn) kept picked due newly n where "\<not> backing_off pool now b"
      "claim_turns now (probe_interval secs) newly n 0 accounts kept = (picked, due)"
      "\<And>a. map_of kept a = (if a \<in> fst ` set accounts \<and> a \<notin> set recheck then booking pool a b else None)"
      "claimed c = fst ` set picked" "\<And>a. booking pool a b' = map_of due a"
      "\<And>p. p \<noteq> pool \<Longrightarrow> map_of b' p = map_of b p"
proof (cases "backing_off pool now b")
  case True
  then obtain s t where s: "map_of b pool = Some s" "sn_not_before s = Some t" "now < t"
    by (auto simp: backing_off_def)
  show thesis
    by (rule off [OF True]) (use assms s in \<open>auto simp: claim_due_def Let_def booking_def\<close>)
next
  case False
  let ?e = "unwrap_or seen_default (map_of b pool)"
  let ?kept = "filter (\<lambda>(a, _). a \<in> fst ` set accounts \<and> a \<notin> set recheck) (sn_due ?e)"
  obtain picked due where t: "claim_turns now (probe_interval secs) (\<not> sn_on ?e) (max (length accounts) 1) 0
      accounts ?kept = (picked, due)" by fastforce
  have nb: "\<not> (case sn_not_before ?e of Some t \<Rightarrow> now < t | None \<Rightarrow> False)"
    using False unwrap_default [OF refl, of b pool] by (auto simp: backing_off_def split: option.splits bind_splits)
  have b': "b' = bt_insert pool (?e\<lparr>sn_on := True, sn_due := due\<rparr>) b"
    and c: "c = (if picked = [] \<and> sn_on ?e then None
       else Some \<lparr>cl_newly_on = \<not> sn_on ?e, cl_accounts = picked, cl_next = opt_min (map snd due)\<rparr>)"
    using assms nb t by (simp_all add: claim_due_def Let_def)
  show thesis
    by (rule turn [OF False t])
      (use unwrap_default [OF refl, of b pool] in \<open>auto simp: b' c claimed_def booking_def kept_lookup\<close>)
qed

lemma claim_turns_facts:
  assumes "claim_turns now interval newly n i accounts due = (picked, due')" and "0 < interval"
  shows "a \<in> fst ` set picked \<longleftrightarrow> a \<in> fst ` set accounts \<and> \<not> (\<exists>t. map_of due a = Some t \<and> now < t)"
    "a \<in> fst ` set accounts \<Longrightarrow> \<exists>t. map_of due' a = Some t \<and> now < t"
    "a \<notin> fst ` set picked \<Longrightarrow> map_of due' a = map_of due a"
    "a \<in> fst ` set picked \<Longrightarrow> (case map_of due a of Some s \<Rightarrow> s \<le> now \<and> s + interval \<le> the (map_of due' a)
       | None \<Rightarrow> now + interval \<le> the (map_of due' a))"
proof -
  note spec = claim_turns_spec [OF assms]
  then show "a \<in> fst ` set accounts \<Longrightarrow> \<exists>t. map_of due' a = Some t \<and> now < t"
    "a \<notin> fst ` set picked \<Longrightarrow> map_of due' a = map_of due a"
    "a \<in> fst ` set picked \<Longrightarrow> (case map_of due a of Some s \<Rightarrow> s \<le> now \<and> s + interval \<le> the (map_of due' a)
       | None \<Rightarrow> now + interval \<le> the (map_of due' a))" by blast+
  have "fst ` set picked \<subseteq> fst ` set accounts" using spec by blast
  with spec show "a \<in> fst ` set picked \<longleftrightarrow> a \<in> fst ` set accounts \<and> \<not> (\<exists>t. map_of due a = Some t \<and> now < t)"
    by (metis subsetD)
qed

text \<open>A tick of a pool that is being probed claims exactly the accounts that are due: those it has
  never booked, those whose booking has passed, and those whose credential a reload replaced;
  nobody while the pool backs off from a rate limit. Afterwards every account of the pool is
  booked past now, nobody else is booked, and the schedules of the other pools are untouched.
  A pool with probing off claims nobody and forgets its schedule.\<close>

theorem claim_due_correct:
  assumes "claim_due pool secs accounts recheck now b = (c, b')"
  shows "(if secs = 0 then c = None \<and> (\<forall>a. booking pool a b' = None)
     else if backing_off pool now b then c = None \<and> (\<forall>a. booking pool a b' = booking pool a b)
     else claimed c = {a \<in> fst ` set accounts. a \<in> set recheck
                         \<or> (case booking pool a b of Some t \<Rightarrow> t \<le> now | None \<Rightarrow> True)}
        \<and> (\<forall>a. if a \<in> fst ` set accounts then \<exists>t. booking pool a b' = Some t \<and> now < t
                else booking pool a b' = None))
   \<and> (\<forall>p. p \<noteq> pool \<longrightarrow> map_of b' p = map_of b p)"
proof (cases "secs = 0")
  case True
  then show ?thesis using assms by (auto simp: claim_due_def booking_def delete_conv')
next
  case False
  then have pos: "0 < secs" by simp
  from assms pos show ?thesis
  proof (cases rule: claim_due_cases)
    case off
    with False show ?thesis by simp
  next
    case (turn kept picked due newly n)
    note facts = claim_turns_facts [OF turn(2) probe_interval_pos]
    have "a \<in> fst ` set picked \<longleftrightarrow> a \<in> fst ` set accounts \<and> (a \<in> set recheck
        \<or> (case booking pool a b of Some t \<Rightarrow> t \<le> now | None \<Rightarrow> True))" for a
      unfolding facts(1) by (auto simp: turn(3) split: option.splits)
    then have picked: "claimed c = {a \<in> fst ` set accounts. a \<in> set recheck
        \<or> (case booking pool a b of Some t \<Rightarrow> t \<le> now | None \<Rightarrow> True)}" unfolding turn(4) by blast
    have gone: "map_of due a = None" if "a \<notin> fst ` set accounts" for a
      using facts(3) [of a] facts(1) [of a] that turn(3) [of a] by simp
    show ?thesis
      unfolding picked using False turn(1) facts(2) gone by (simp add: turn(5,6))
  qed
qed

theorem claim_due_correct_witness:
  "claimed (fst (claim_due ''p'' 300 [(''a'', ''A''), (''b'', ''B'')] [] 7 [(''q'', seen_default)])) = {''a'', ''b''}
   \<and> map_of (snd (claim_due ''p'' 300 [(''a'', ''A''), (''b'', ''B'')] [] 7 [(''q'', seen_default)])) ''q'' = Some seen_default"
proof -
  let ?r = "claim_due ''p'' 300 [(''a'', ''A''), (''b'', ''B'')] [] 7 [(''q'', seen_default)]"
  have "?r = (fst ?r, snd ?r)" by simp
  from claim_due_correct [OF this]
  have "\<not> backing_off ''p'' 7 [(''q'', seen_default)] \<Longrightarrow> claimed (fst ?r) = {a \<in> {''a'', ''b''}. a \<in> {} \<or>
      (case booking ''p'' a [(''q'', seen_default)] of Some t \<Rightarrow> t \<le> 7 | None \<Rightarrow> True)}"
    and "map_of (snd ?r) ''q'' = Some seen_default" by simp_all
  then show ?thesis by (auto simp: backing_off_def booking_def)
qed

subsection \<open>How often\<close>

datatype probe_event = Wake nat "(string \<times> string) list" "string list" | Limited nat

text \<open>When an account of a pool is claimed in a run of ticks and rate limits.\<close>

fun probe_times :: "string \<Rightarrow> nat \<Rightarrow> string \<Rightarrow> probe_event list \<Rightarrow> book \<Rightarrow> nat list" where
  "probe_times pool secs a [] b = []"
| "probe_times pool secs a (Wake now accounts recheck # es) b =
     (case claim_due pool secs accounts recheck now b of
        (c, b') \<Rightarrow> (if a \<in> claimed c then [now] else []) @ probe_times pool secs a es b')"
| "probe_times pool secs a (Limited now # es) b = probe_times pool secs a es (snd (back_off pool secs now b))"

definition stays :: "string \<Rightarrow> probe_event \<Rightarrow> bool" where
  "stays a e \<longleftrightarrow> (case e of Wake _ accounts recheck \<Rightarrow> a \<in> fst ` set accounts \<and> a \<notin> set recheck | Limited _ \<Rightarrow> True)"

lemma claim_due_booking:
  assumes "claim_due pool secs accounts recheck now b = (c, b')" and "0 < secs"
    and "a \<in> fst ` set accounts" and "a \<notin> set recheck"
  shows "if a \<in> claimed c
    then \<exists>t. booking pool a b' = Some t \<and> now < t \<and>
           (case booking pool a b of Some s \<Rightarrow> s \<le> now \<and> s + probe_interval secs \<le> t
            | None \<Rightarrow> now + probe_interval secs \<le> t)
    else booking pool a b' = booking pool a b"
  using assms(1,2)
proof (cases rule: claim_due_cases)
  case off
  then show ?thesis by (simp add: claimed_def)
next
  case (turn kept picked due newly n)
  note facts = claim_turns_facts [OF turn(2) probe_interval_pos, of a]
  show ?thesis
  proof (cases "a \<in> fst ` set picked")
    case True
    from facts(2) assms(3) obtain t where "map_of due a = Some t" "now < t" by blast
    then show ?thesis using facts(4) [OF True] True assms(3,4) by (simp add: turn(3-5) split: option.splits)
  next
    case False
    with facts(3) assms(3,4) show ?thesis by (simp add: turn(3-5))
  qed
qed

lemma back_off_booking [simp]: "booking pool a (snd (back_off pool secs now b)) = booking pool a b"
  by (cases "map_of b pool") (simp_all add: back_off_def Let_def booking_def seen_default_def)

lemma booked_times:
  assumes "0 < secs" and "\<forall>e \<in> set es. stays a e" and "booking pool a b = Some s"
    and "j < length (probe_times pool secs a es b)"
  shows "s + j * probe_interval secs \<le> probe_times pool secs a es b ! j"
  using assms
proof (induction pool secs a es b arbitrary: s j rule: probe_times.induct)
  case (2 pool secs a now accounts recheck es b)
  obtain c b' where r: "claim_due pool secs accounts recheck now b = (c, b')" by fastforce
  have st: "a \<in> fst ` set accounts" "a \<notin> set recheck" using 2(3) by (auto simp: stays_def)
  note bk = claim_due_booking [OF r 2(2) st]
  have st': "\<forall>e \<in> set es. stays a e" using 2(3) by simp
  note ih = 2(1) [OF r [symmetric] 2(2) st']
  show ?case
  proof (cases "a \<in> claimed c")
    case True
    with bk 2(4) obtain t where t: "booking pool a b' = Some t" "s \<le> now" "s + probe_interval secs \<le> t" by auto
    show ?thesis
    proof (cases j)
      case (Suc k)
      with True r 2(5) have "k < length (probe_times pool secs a es b')" by simp
      with ih t have "t + k * probe_interval secs \<le> probe_times pool secs a es b' ! k" by auto
      with Suc True r t(3) show ?thesis by (simp add: algebra_simps)
    qed (use True r t in simp)
  next
    case False
    with bk 2(4) have "booking pool a b' = Some s" by simp
    with ih [of s j] 2(5) False r show ?thesis by simp
  qed
qed simp_all

lemma times_increase:
  assumes "0 < secs" and "\<forall>e \<in> set es. stays a e"
  shows "sorted_wrt (<) (probe_times pool secs a es b)
    \<and> (case booking pool a b of Some s \<Rightarrow> True
       | None \<Rightarrow> \<forall>j < length (probe_times pool secs a es b).
           hd (probe_times pool secs a es b) + j * probe_interval secs \<le> probe_times pool secs a es b ! j)"
  using assms
proof (induction pool secs a es b rule: probe_times.induct)
  case (2 pool secs a now accounts recheck es b)
  obtain c b' where r: "claim_due pool secs accounts recheck now b = (c, b')" by fastforce
  have st: "a \<in> fst ` set accounts" "a \<notin> set recheck" using 2(3) by (auto simp: stays_def)
  note bk = claim_due_booking [OF r 2(2) st]
  have ih: "sorted_wrt (<) (probe_times pool secs a es b')
    \<and> (case booking pool a b' of Some s \<Rightarrow> True
       | None \<Rightarrow> \<forall>j < length (probe_times pool secs a es b').
           hd (probe_times pool secs a es b') + j * probe_interval secs \<le> probe_times pool secs a es b' ! j)"
    using 2(1) [OF r [symmetric]] 2(2,3) by auto
  show ?case
  proof (cases "a \<in> claimed c")
    case True
    with bk obtain t where t: "booking pool a b' = Some t" "now < t"
      "booking pool a b = None \<Longrightarrow> now + probe_interval secs \<le> t" by (auto split: option.splits)
    have later: "t + k * probe_interval secs \<le> probe_times pool secs a es b' ! k"
      if "k < length (probe_times pool secs a es b')" for k
      using booked_times [OF 2(2) _ t(1) that] 2(3) by simp
    have "now < x" if "x \<in> set (probe_times pool secs a es b')" for x
      using that later t(2) by (metis add_leD1 in_set_conv_nth order_less_le_trans)
    moreover have "now + j * probe_interval secs \<le> (now # probe_times pool secs a es b') ! j"
      if "booking pool a b = None" "j \<le> length (probe_times pool secs a es b')" for j
      using later [of "j - 1"] t(3) [OF that(1)] that(2) by (cases j) auto
    ultimately show ?thesis using True r ih by (simp add: less_Suc_eq_le split: option.split)
  next
    case False
    with bk ih r show ?thesis by (simp split: option.splits)
  qed
next
  case (3 pool secs a now es b)
  then show ?case by (simp split: option.splits)
qed (simp split: option.split)

text \<open>An operator's probe starts a run only when none is running, and the next one it starts comes
  at least 30 seconds later, so pressing the key again and again cannot become a burst.\<close>

fun manual_starts :: "(bool \<times> nat) list \<Rightarrow> nat option \<Rightarrow> nat list" where
  "manual_starts [] prev = []"
| "manual_starts ((running, now) # rs) prev =
     (case request_manual running now prev of
        (r, prev') \<Rightarrow> (if r = Started then [now] else []) @ manual_starts rs prev')"

lemma manual_start: "request_manual running now prev = (Started, prev') \<Longrightarrow>
  \<not> running \<and> prev' = Some now \<and> (case prev of Some t \<Rightarrow> t + MANUAL_MIN_GAP \<le> now | None \<Rightarrow> True)"
  by (auto simp: request_manual_def MANUAL_MIN_GAP_def SECOND_def split: option.splits if_splits)

lemma manual_no_start: "request_manual running now prev = (r, prev') \<Longrightarrow> r \<noteq> Started \<Longrightarrow> prev' = prev"
  by (auto simp: request_manual_def split: option.splits if_splits)

lemma manual_starts_apart:
  "sorted_wrt (\<lambda>s t. s + MANUAL_MIN_GAP \<le> t) (manual_starts rs prev)
   \<and> (case prev of Some p \<Rightarrow> \<forall>t \<in> set (manual_starts rs prev). p + MANUAL_MIN_GAP \<le> t | None \<Rightarrow> True)"
proof (induction rs prev rule: manual_starts.induct)
  case (2 running now rs prev)
  obtain r prev' where r: "request_manual running now prev = (r, prev')" by fastforce
  note ih = 2 [OF r [symmetric]]
  show ?case
  proof (cases "r = Started")
    case True
    with r ih manual_start [of running now prev prev'] show ?thesis by (fastforce split: option.splits)
  next
    case False
    with r ih manual_no_start [OF r] show ?thesis by (simp split: option.splits)
  qed
qed (simp split: option.split)

subsection \<open>One probe\<close>

lemma settle_probe_simps [simp]:
  "pr_asked (settle_probe w i t asked rep f) = asked" "pr_reply (settle_probe w i t asked rep f) = Some rep"
  "pr_outcome (settle_probe w i t asked rep f) = RunRateLimited \<longleftrightarrow> fst rep = UsageRateLimited"
  by (simp_all add: settle_probe_def probe_done_def Let_def split: usage_result.split)

lemma probe_done_simps [simp]:
  "pr_asked (probe_done r asked rep f) = asked" "pr_reply (probe_done r asked rep f) = rep"
  "pr_outcome (probe_done r asked rep f) = r" "pr_fleet (probe_done r asked rep f) = f"
  by (simp_all add: probe_done_def)

text \<open>Every way a probe can go.\<close>

lemma probe_one_cases [case_names quiet once twice]:
  obtains (quiet) g where "probe_one I w i f = probe_done Completed [] None g"
  | (once) cred g where "\<not> pw_halted w" "needs_login g i = None"
      "probe_one I w i f = settle_probe w i (pw_now w 0) [cred] (ask_usage w 0 cred) (pw_env w 5 g)"
      "fst (ask_usage w 0 cred) \<noteq> UsageUnauthorized"
  | (twice) cred g r where "\<not> pw_halted w" "needs_login g i = None" "fst (ask_usage w 0 cred) = UsageUnauthorized"
      "r = probe_token I w i 7 8 9 True (pw_env w 5 g)"
      "probe_one I w i f = (case rr_credential r of
         None \<Rightarrow> settle_probe w i (pw_now w 0) [cred] (ask_usage w 0 cred) (rr_fleet r)
       | Some c2 \<Rightarrow> settle_probe w i (pw_now w 0) [cred, c2] (ask_usage w 1 c2) (pw_env w 10 (rr_fleet r)))"
proof (cases "pw_halted w")
  case True
  with quiet show thesis by (simp add: probe_one_def Let_def del: One_nat_def)
next
  case False
  let ?r = "probe_token I w i 1 2 3 False
      (probe_account_status i ''running'' (pw_now w 0) None None (pw_env w 0 f))"
  show thesis
  proof (cases "rr_credential ?r")
    case None
    with False quiet show thesis by (simp add: probe_one_def Let_def del: One_nat_def)
  next
    case (Some cred)
    show thesis
    proof (cases "needs_login (pw_env w 4 (rr_fleet ?r)) i")
      case (Some why)
      with False \<open>rr_credential ?r = Some cred\<close> quiet show thesis by (simp add: probe_one_def Let_def del: One_nat_def)
    next
      case None
      show thesis
      proof (cases "fst (ask_usage w 0 cred) = UsageUnauthorized")
        case True
        show thesis
          by (rule twice [OF False None True refl])
            (use False None True Some in \<open>simp add: probe_one_def Let_def del: One_nat_def\<close>)
      next
        case no: False
        show thesis
          by (rule once [OF False None _ no])
            (use False None no Some in \<open>simp add: probe_one_def Let_def del: One_nat_def\<close>)
      qed
    qed
  qed
qed

text \<open>A probe asks the usage endpoint at most twice, a second time only after the first answer
  rejected the token and a fresh one was had, and not at all once another account of the run
  has drawn a rate limit. The run backs off exactly when an answer was a rate limit.\<close>

theorem probe_asks_sparingly:
  shows "let r = probe_one I w i f in
     length (pr_asked r) \<le> 2
   \<and> (pw_halted w \<longrightarrow> pr_asked r = [] \<and> fl_accounts (pr_fleet r) = fl_accounts (pw_env w 0 f))
   \<and> (length (pr_asked r) = 2 \<longrightarrow> fst (ask_usage w 0 (hd (pr_asked r))) = UsageUnauthorized)
   \<and> (pr_outcome r = RunRateLimited \<longleftrightarrow> (\<exists>text. pr_reply r = Some (UsageRateLimited, text)))
   \<and> (pr_reply r = None \<longleftrightarrow> pr_asked r = [])"
proof -
  have "pw_halted w \<Longrightarrow> pr_asked (probe_one I w i f) = []
      \<and> fl_accounts (pr_fleet (probe_one I w i f)) = fl_accounts (pw_env w 0 f)"
    by (simp add: probe_one_def Let_def probe_account_status_def)
  then show ?thesis
    by (cases I w i f rule: probe_one_cases) (auto simp: Let_def prod_eq_iff split: option.split)
qed

theorem probe_asks_sparingly_witness:
  "pr_asked (probe_one no_files \<lparr>pw_env = (\<lambda>_ f. f), pw_now = (\<lambda>_. 0), pw_refresh = (\<lambda>_ _. Inl Transient),
     pw_usage = (\<lambda>_ _. None), pw_profile = (\<lambda>_. None), pw_halted = True\<rparr> ''a'' (demo_fleet [])) = []"
  using probe_asks_sparingly [of no_files "\<lparr>pw_env = (\<lambda>_ f. f), pw_now = (\<lambda>_. 0), pw_refresh = (\<lambda>_ _. Inl Transient),
     pw_usage = (\<lambda>_ _. None), pw_profile = (\<lambda>_. None), pw_halted = True\<rparr>" "''a''" "demo_fleet []"]
  by (simp add: Let_def)



subsection \<open>The prober keeps the fleet well formed\<close>

definition probe_ok :: "ext \<Rightarrow> importer \<Rightarrow> probe_world \<Rightarrow> bool" where
  "probe_ok E I w \<longleftrightarrow> (\<forall>k. env_ok E I (pw_env w k))"

lemma move_probe_ops [move_intros]:
  assumes "moves E I f g"
  shows "moves E I f (snd (fleet_apply_usage i u now g))" "moves E I f (apply_profile i p g)"
    "moves E I f (probe_run_started now next g)" "moves E I f (probe_run_finished now next g)"
    "moves E I f (probe_account_status i st t0 t1 err g)" "moves E I f (snd (take_probe_recheck g))"
    "moves E I f (snd (warn_login_expiry now g))"
  by (rule rtranclp.rtrancl_into_rtrancl [OF assms], rule fleet_step.intros)+

lemma move_probe_world [move_intros]: "probe_ok E I w \<Longrightarrow> moves E I f g \<Longrightarrow> moves E I f (pw_env w k g)"
  by (auto simp: probe_ok_def intro: move_env)

lemma move_probe_token [move_intros]:
  "probe_ok E I w \<Longrightarrow> moves E I f g \<Longrightarrow>
   moves E I f (rr_fleet (probe_token I w i a b c force g))"
  unfolding probe_token_def by (intro move_token) (simp_all add: probe_ok_def)

lemma move_settle [move_intros]:
  assumes "probe_ok E I w" "moves E I f g"
  shows "moves E I f (pr_fleet (settle_probe w i t asked rep g))"
proof -
  have "moves E I f (settle_profile w i h)" if "moves E I f h" for h
    using assms(1) that by (auto simp: settle_profile_def intro!: move_intros split: option.split)
  with assms show ?thesis
    by (auto simp: settle_probe_def Let_def intro!: move_intros split: usage_result.split)
qed

lemma move_probe_one: "probe_ok E I w \<Longrightarrow> moves E I f g \<Longrightarrow> moves E I f (pr_fleet (probe_one I w i g))"
  by (auto simp: probe_one_def Let_def intro!: move_intros split: option.split)

lemma move_probe_each:
  "\<forall>x \<in> set xs. probe_ok E I (snd x) \<Longrightarrow> moves E I f g \<Longrightarrow> moves E I f (snd (probe_each I xs g))"
proof (induction I xs g rule: probe_each.induct)
  case (2 I i w rest g)
  then show ?case using move_probe_one [of E I w f g i] by (auto simp: Let_def split: prod.split)
qed simp

lemma move_recheck: "moves E I f g \<Longrightarrow> moves E I f (recheck_linked I now g)"
proof -
  have one: "moves E I f (snd (reread_linked I i p force t0 t1 (\<lambda>h. h) h))" if "moves E I f h" for i p force t0 t1 h
    using move_ops(17) [OF that] that by (simp add: reread_linked_def split: option.split)
  have "moves E I f (foldl (\<lambda>h (i, p). snd (reread_linked I i p False now now (\<lambda>h. h) h)) h xs)" if "moves E I f h" for xs h
    using that by (induction xs arbitrary: h) (auto intro: one)
  then show "moves E I f g \<Longrightarrow> moves E I f (recheck_linked I now g)" by (simp add: recheck_linked_def)
qed

text \<open>A tick and a run of the prober only move the fleet by the critical sections of the manager.\<close>

lemma prober_moves:
  shows "moves E I (fst st) (fst (snd (tick_pool I name now clock st)))"
    and "\<forall>x \<in> set accounts. probe_ok E I (snd x) \<Longrightarrow>
      moves E I (fst st) (fst (probe_pool I name accounts next started mono_end now finished st))"
proof -
  show "moves E I (fst st) (fst (snd (tick_pool I name now clock st)))"
    using move_probe_ops(6) [OF move_probe_ops(7) [OF move_recheck [OF rtranclp.rtrancl_refl]]]
    by (simp add: tick_pool_def case_prod_unfold)
  assume "\<forall>x \<in> set accounts. probe_ok E I (snd x)"
  then show "moves E I (fst st) (fst (probe_pool I name accounts next started mono_end now finished st))"
    using move_probe_each [of accounts E I] move_probe_ops(3,4)
    by (auto simp: probe_pool_def Let_def case_prod_unfold intro!: move_probe_ops(4))
qed

end
