(* ===== verification/Request_Log.thy ===== *)
theory Request_Log
  imports Http Config
begin

text \<open>
  \<open>src/proxy/log.rs\<close>: what a request log file holds and which files a sweep removes. The level
  \<open>off\<close> has no logger. Files are written and removed by the caller; headers are fields with the
  names as they came.
\<close>

record request_logger =
  lg_level :: log_level
  lg_max_body :: nat

definition truncation_note :: "nat \<Rightarrow> string" where
  "truncation_note n = [CHR 0x0A] @ ''... truncated '' @ show_nat n @ '' bytes ...'' @ [CHR 0x0A]"

definition cap_body :: "request_logger \<Rightarrow> string \<Rightarrow> string" where
  "cap_body lg body =
     (if lg_max_body lg = 0 \<or> length body \<le> lg_max_body lg then body
      else let keep = lg_max_body lg div 2
           in take keep body @ truncation_note (length body - 2 * keep) @ drop (length body - keep) body)"

definition secret_header :: "string \<Rightarrow> bool" where
  "secret_header k \<longleftrightarrow> to_lower k \<in> {''authorization'', ''x-api-key'', ''proxy-authorization'', ''cookie''}"

definition logged_value :: "string \<Rightarrow> string \<Rightarrow> string" where
  "logged_value k v = (if secret_header k then redact v else safe_str v 2000)"

definition header_line :: "string \<Rightarrow> string \<Rightarrow> string" where
  "header_line k shown = k @ '': '' @ shown @ [CHR 0x0A]"

definition log_file ::
  "request_logger \<Rightarrow> string \<Rightarrow> string \<Rightarrow> string \<Rightarrow> header_map \<Rightarrow> string \<Rightarrow> nat \<Rightarrow> header_map \<Rightarrow> string option \<Rightarrow> string" where
  "log_file lg account method url req_headers req_body status res_headers res_body =
     ''=== REQUEST (account: '' @ account @ '') ==='' @ [CHR 0x0A] @ method @ '' '' @ url @ [CHR 0x0A]
     @ concat (map (\<lambda>(k, v). header_line k (logged_value k v)) req_headers)
     @ (if lg_level lg = LogBody \<and> req_body \<noteq> []
        then [CHR 0x0A] @ ''--- REQUEST BODY ---'' @ [CHR 0x0A] @ cap_body lg req_body else [])
     @ [CHR 0x0A, CHR 0x0A] @ ''=== RESPONSE '' @ show_nat status @ '' ==='' @ [CHR 0x0A]
     @ concat (map (\<lambda>(k, v). header_line k (safe_str v 2000)) res_headers)
     @ (if lg_level lg = LogBody
        then (case res_body of
                Some b \<Rightarrow> [CHR 0x0A] @ ''--- RESPONSE BODY ---'' @ [CHR 0x0A] @ cap_body lg b | None \<Rightarrow> [])
        else [])
     @ [CHR 0x0A]"

text \<open>\<open>sweep_dir\<close>: the files removed. Ages are in the unit of \<open>max_age\<close>; a file whose time cannot be
  read has none, and one from the future has age 0.\<close>

definition own_log :: "string \<Rightarrow> bool" where
  "own_log name \<longleftrightarrow> starts_with ''corrall-'' name \<and> ends_with ''.log'' name"

definition sweep_dir :: "(string \<times> nat option) list \<Rightarrow> nat \<Rightarrow> nat \<Rightarrow> string list" where
  "sweep_dir files now max_age =
     map fst (filter (\<lambda>(name, modified). own_log name
       \<and> (case modified of Some t \<Rightarrow> max_age < now - t | None \<Rightarrow> False)) files)"

definition log_sweep :: "(string \<times> nat option) list \<Rightarrow> nat \<Rightarrow> nat \<Rightarrow> string list" where
  "log_sweep files now retention_hours =
     (if retention_hours = 0 then [] else sweep_dir files now (retention_hours * 3600))"

text \<open>A logged body is the body, or its two ends around a note that counts what is left out.\<close>

lemma cap_body_ends:
  assumes "lg_max_body lg \<noteq> 0" and "lg_max_body lg < length body"
  shows "\<exists>cut. body = take (lg_max_body lg div 2) body @ cut @ drop (length body - lg_max_body lg div 2) body
     \<and> cap_body lg body = take (lg_max_body lg div 2) body @ truncation_note (length cut)
         @ drop (length body - lg_max_body lg div 2) body"
proof -
  let ?k = "lg_max_body lg div 2"
  have k: "2 * ?k \<le> length body" using assms(2) by linarith
  have "length body - 2 * ?k + ?k = length body - ?k" using k by linarith
  then have d: "drop (length body - ?k) body = drop (length body - 2 * ?k) (drop ?k body)" by simp
  have "body = take ?k body @ take (length body - 2 * ?k) (drop ?k body) @ drop (length body - ?k) body"
    using d by (simp del: drop_drop)
  moreover have "length (take (length body - 2 * ?k) (drop ?k body)) = length body - 2 * ?k" using k by simp
  ultimately show ?thesis using assms by (intro exI [of _ "take (length body - 2 * ?k) (drop ?k body)"]) (simp add: cap_body_def Let_def)
qed

text \<open>A credential of the request is written as its redaction only: requests that differ in nothing but
  credentials with the same redaction leave the same log.\<close>

lemma log_hides_credentials:
  assumes "list_all2 (\<lambda>(k, v) (k', v'). k = k' \<and> (v = v' \<or> secret_header k \<and> redact v = redact v')) h h'"
  shows "log_file lg account method url h body status rh rb = log_file lg account method url h' body status rh rb"
proof -
  have "map (\<lambda>(k, v). header_line k (logged_value k v)) h = map (\<lambda>(k, v). header_line k (logged_value k v)) h'"
    using assms by (induction rule: list_all2_induct) (auto simp: logged_value_def)
  then show ?thesis by (simp add: log_file_def)
qed

lemma sweep_keeps_others: "\<not> own_log name \<Longrightarrow> name \<notin> set (sweep_dir files now max_age)"
  by (auto simp: sweep_dir_def)

end
