(* ===== verification/Status_Json.thy ===== *)
theory Status_Json
  imports Pools_Props
begin

text \<open>
  The status documents of \<open>src/manager.rs\<close> (\<open>account_json\<close>, \<open>status_json\<close>, \<open>quota_summary\<close>) and of
  \<open>src/pools.rs\<close> (\<open>status\<close>), field by field. \<open>ver\<close> is the version of the build. Sums and quotients of
  utilizations are exact where the code rounds to \<open>f64\<close>.
\<close>

subsection \<open>Fields\<close>

definition j_iso :: "ext \<Rightarrow> int option \<Rightarrow> json" where
  "j_iso E t = j_or_null (\<lambda>ms. JStr (iso_of E ms)) t"

definition j_str :: "string option \<Rightarrow> json" where
  "j_str = j_or_null JStr"

definition j_nat :: "nat \<Rightarrow> json" where
  "j_nat n = JInt (int n)"

definition threshold_json :: "threshold \<Rightarrow> json" where
  "threshold_json t =
     (case t of Single v \<Rightarrow> j_f64 v | Table m \<Rightarrow> JObj (map (\<lambda>(k, v). (k, j_f64 v)) m))"

definition bucket_json :: "ext \<Rightarrow> int \<Rightarrow> bucket \<Rightarrow> json" where
  "bucket_json E now b =
     JObj [(''utilization'', j_or_null j_f64 (utilization b)), (''resetAt'', j_iso E (reset_at b)),
           (''resetInSeconds'', j_or_null (\<lambda>r. JInt (max (trunc_div (r - now) 1000) 0)) (reset_at b))]"

definition status_name :: "status \<Rightarrow> string" where
  "status_name s = (case s of Active \<Rightarrow> ''active'' | Throttled \<Rightarrow> ''throttled'' | Errored \<Rightarrow> ''error'')"

definition provider_name :: "provider \<Rightarrow> string" where
  "provider_name p = (case p of Anthropic \<Rightarrow> ''anthropic'' | CodexP \<Rightarrow> ''codex'')"

definition kind_name :: "account_type \<Rightarrow> string" where
  "kind_name k = (if k = Oauth then ''oauth'' else ''apikey'')"

definition tier_of :: "account \<Rightarrow> string option" where
  "tier_of a = opt_or (a_rate_limit_tier a) (opt_or (a_seat_tier a) (a_subscription_type a))"

definition active_on :: "fleet \<Rightarrow> string \<Rightarrow> int \<Rightarrow> nat" where
  "active_on f i now = unwrap_or 0 (map_of (ss_per_active (stats_of (fl_sessions f) now)) i)"

definition probe_json :: "ext \<Rightarrow> fleet \<Rightarrow> account \<Rightarrow> json" where
  "probe_json E f a =
     (if a_kind a = Apikey then JObj [(''status'', JStr ''not-applicable'')]
      else (case map_of (pb_accounts (fl_probe f)) (a_id a) of
              Some p \<Rightarrow>
                JObj [(''status'', JStr (pb_status p)), (''startedAt'', j_iso E (pb_started_at p)),
                      (''lastProbedAt'', j_iso E (pb_finished_at p)), (''durationMs'', j_or_null JInt (pb_duration_ms p)),
                      (''error'', j_str (pb_error p))]
            | None \<Rightarrow> JObj [(''status'', JStr ''never'')]))"

definition quota_json :: "ext \<Rightarrow> int \<Rightarrow> quota \<Rightarrow> json" where
  "quota_json E now q =
     JObj [(''unified5h'', bucket_json E now (unified5h q)), (''unified7d'', bucket_json E now (unified7d q)),
           (''unified7dFable'', bucket_json E now (unified7d_fable q)),
           (''unified7dSonnet'', bucket_json E now (unified7d_sonnet q)),
           (''scopedWeekly'', JObj (map (\<lambda>(k, b). (k, bucket_to_json b)) (scoped_weekly q))),
           (''unifiedStatus'', j_str (unified_status q)), (''tokensUsed'', j_or_null j_f64 (tokens_used q)),
           (''requestsUsed'', j_or_null j_f64 (requests_used q)), (''resetsAt'', j_str (resets_at q)),
           (''spend'', j_or_null (\<lambda>v. v) (spend q))]"

definition can_serve :: "ext \<Rightarrow> fleet \<Rightarrow> int \<Rightarrow> string \<Rightarrow> account \<Rightarrow> bool" where
  "can_serve E f now model a \<longleftrightarrow> unavailable_reason E f a (Some model) None now = None"

definition account_json :: "ext \<Rightarrow> fleet \<Rightarrow> account \<Rightarrow> int \<Rightarrow> json" where
  "account_json E f a now =
     (let reason = unavailable_reason E f a None None now
      in JObj [(''id'', JStr (a_id a)), (''name'', JStr (a_name a)), (''type'', JStr (kind_name (a_kind a))),
           (''provider'', JStr (provider_name (a_provider a))), (''planType'', j_str (a_plan_type a)),
           (''pressure'', j_or_null j_f64 (fst (pressure f a None now))), (''email'', j_str (a_email a)),
           (''accountUuid'', j_str (a_account_uuid a)), (''orgUuid'', j_str (a_org_uuid a)),
           (''orgName'', j_str (a_org_name a)), (''priority'', JInt (a_priority a)),
           (''disabled'', JBool (a_disabled a)), (''status'', JStr (status_name (a_status a))),
           (''error'', j_str (a_error_message a)), (''blocked'', j_str reason),
           (''current'', JBool (fl_current f = Some (a_id a))), (''upstream'', j_str (a_upstream a)),
           (''tier'', j_str (tier_of a)), (''tokenExpiresAt'', j_iso E (a_expires_at a)),
           (''loginExpiresAt'', j_iso E (a_refresh_expires_at a)),
           (''rateLimitedUntil'', j_iso E (a_rate_limited_until a)),
           (''entitlementDeniedUntil'', j_iso E (opt_filter (\<lambda>u. now < u) (a_entitlement_denied_until a))),
           (''unavailable'', j_str (map_option unavailable_key reason)),
           (''maxUsage'', j_or_null threshold_json (a_max_usage a)), (''sessions'', j_nat (active_on f (a_id a) now)),
           (''probe'', probe_json E f a), (''inFlight'', j_nat (a_in_flight a)), (''open'', j_nat (a_open a)),
           (''quota'', quota_json E now (a_quota a)), (''usage'', usage_to_json (a_usage a)),
           (''models'', JObj [(''fable'', JBool (can_serve E f now ''claude-fable'' a)),
                              (''sonnet'', JBool (can_serve E f now ''claude-sonnet'' a)),
                              (''opus'', JBool (can_serve E f now ''claude-opus'' a))])])"

subsection \<open>Routes\<close>

definition sample_model :: "string list \<Rightarrow> string" where
  "sample_model patterns =
     (case patterns of
        [] \<Rightarrow> ''claude-opus''
      | g # _ \<Rightarrow> let s = filter (\<lambda>c. c \<noteq> CHR ''*'') g in if s = [] then ''claude-opus'' else ''claude-'' @ s)"

definition eligible_json :: "ext \<Rightarrow> fleet \<Rightarrow> int \<Rightarrow> string \<Rightarrow> account \<Rightarrow> json" where
  "eligible_json E f now model a = JObj [(''name'', JStr (a_name a)), (''eligible'', JBool (can_serve E f now model a))]"

definition route_account :: "fleet \<Rightarrow> string \<Rightarrow> account option" where
  "route_account f n =
     opt_or (account_by_name f n)
       (Option.bind (parse_unsigned u64_max n)
          (\<lambda>i. if i < length (fl_accounts f) then Some (fl_accounts f ! i) else None))"

definition pinned_name :: "fleet \<Rightarrow> string \<Rightarrow> string option" where
  "pinned_name f route = map_option a_name (Option.bind (map_of (fl_route_pins f) route) (fleet_account f))"

definition route_json :: "ext \<Rightarrow> fleet \<Rightarrow> int \<Rightarrow> route_config \<Rightarrow> json" where
  "route_json E f now r =
     (let model = sample_model (rt_patterns r);
          accounts = (if rt_accounts r = [] then fl_accounts f else List.map_filter (route_account f) (rt_accounts r))
      in JObj [(''name'', JStr (rt_name r)), (''match'', JArr (map JStr (rt_patterns r))),
           (''accounts'', JArr (map (eligible_json E f now model) accounts)), (''bucket'', j_str (rt_bucket r)),
           (''color'', j_str (rt_color r)), (''autocreated'', JBool False), (''pinned'', j_str (pinned_name f (rt_name r)))])"

definition auto_route :: "ext \<Rightarrow> fleet \<Rightarrow> int \<Rightarrow> string \<times> string \<Rightarrow> json option" where
  "auto_route E f now fk =
     (case fk of (family, key) \<Rightarrow>
        if list_ex (\<lambda>a. Option.bind (bucket_of (a_quota a) key) utilization \<noteq> None) (fl_accounts f)
           \<and> \<not> list_ex (\<lambda>r. list_ex (\<lambda>g. contains (to_lower g) family) (rt_patterns r)) (fl_routes f)
        then Some (JObj [(''name'', JStr family), (''match'', JArr [JStr (''*'' @ family @ ''*'')]),
               (''accounts'', JArr (map (eligible_json E f now (''claude-'' @ family)) (fl_accounts f))),
               (''bucket'', JNull), (''color'', JNull), (''autocreated'', JBool True),
               (''pinned'', j_str (pinned_name f family))])
        else None)"

definition routes_json :: "ext \<Rightarrow> fleet \<Rightarrow> int \<Rightarrow> json list" where
  "routes_json E f now =
     map (route_json E f now) (fl_routes f)
     @ List.map_filter (auto_route E f now) [(''fable'', BUCKET_7D_FABLE), (''sonnet'', BUCKET_7D_SONNET)]"

subsection \<open>A pool\<close>

definition totals_json :: "token_totals \<Rightarrow> json" where
  "totals_json t =
     JObj [(''cacheRead'', JInt (tt_cache_read t)), (''cacheCreation'', JInt (tt_cache_creation t)),
           (''input'', JInt (tt_input t)), (''output'', JInt (tt_output t)), (''context'', JInt (tt_context t)),
           (''reports'', JInt (tt_reports t))]"

definition item_json :: "session_item \<Rightarrow> json" where
  "item_json s =
     JObj [(''id'', JStr (si_id s)), (''active'', JBool (si_active s)), (''client'', j_str (si_client s)),
           (''pins'', JObj (map (\<lambda>(k, v). (k, JStr v)) (si_pins s))), (''requests'', j_nat (si_requests s)),
           (''firstSeen'', JInt (si_first_seen s)), (''lastSeen'', JInt (si_last_seen s)),
           (''tokens'', JObj (map (\<lambda>(k, t). (k, totals_json t)) (si_tokens s)))]"

definition storm_json :: "storm_ramp \<Rightarrow> json" where
  "storm_json s =
     JObj [(''enabled'', JBool (sr_enabled s)), (''startConc'', j_nat (sr_start_conc s)),
           (''stepConc'', j_nat (sr_step_conc s)), (''stepMs'', j_nat (sr_step_ms s)), (''windowMs'', j_nat (sr_window_ms s))]"

definition expiry_json :: "expiry_routing \<Rightarrow> json" where
  "expiry_json e =
     JObj [(''enabled'', JBool (er_enabled e)), (''tolerance'', j_f64 (er_tolerance e)), (''preempt'', JBool (er_preempt e))]"

definition sessions_json :: "fleet \<Rightarrow> int \<Rightarrow> bool \<Rightarrow> json" where
  "sessions_json f now detail =
     (let st = stats_of (fl_sessions f) now;
          base = [(''active'', j_nat (ss_active st)), (''known'', j_nat (ss_known st)),
                  (''inFlight'', j_nat (ss_in_flight st)), (''distribute'', JBool (fl_distribute f)),
                  (''perAccount'', JArr (map (\<lambda>a. JObj [(''name'', JStr (a_name a)),
                     (''active'', j_nat (active_on f (a_id a) now))]) (fl_accounts f)))]
      in JObj (if detail then base @ [(''items'', JArr (map item_json (session_items (fl_sessions f) now)))] else base))"

definition probe_state_json :: "ext \<Rightarrow> probe_state \<Rightarrow> json" where
  "probe_state_json E p =
     JObj [(''enabled'', JBool (0 < pb_interval_secs p)), (''intervalSeconds'', j_nat (pb_interval_secs p)),
           (''running'', JBool (pb_running p)), (''lastRunStartedAt'', j_iso E (pb_last_run_started_at p)),
           (''lastRunFinishedAt'', j_iso E (pb_last_run_finished_at p)), (''nextRunAt'', j_iso E (pb_next_run_at p))]"

definition status_json :: "ext \<Rightarrow> string \<Rightarrow> fleet \<Rightarrow> int \<Rightarrow> bool \<Rightarrow> obj" where
  "status_json E ver f now detail =
     (let current = j_str (map_option a_name (Option.bind (fl_current f) (fleet_account f)));
          uptime = JInt (trunc_div (now - fl_started_at f) 1000)
      in [(''version'', JStr ver), (''pool'', JStr (fl_pool f)), (''uptimeSeconds'', uptime),
          (''server'', JObj [(''uptimeSeconds'', uptime), (''startedAt'', JStr (iso_of E (fl_started_at f)))]),
          (''current'', current), (''currentAccount'', current), (''probe'', probe_state_json E (fl_probe f)),
          (''warm'', JObj [(''enabled'', JBool (0 < fl_warmup_secs f)), (''intervalSeconds'', j_nat (fl_warmup_secs f))]),
          (''updateAvailable'', j_str (fl_update_available f)),
          (''updateCheckedAt'', j_or_null JInt (fl_update_checked_at f)),
          (''switchThreshold'', threshold_json (fl_threshold f)), (''distributeSessions'', JBool (fl_distribute f)),
          (''holdSeconds'', j_nat (fl_hold_seconds f)), (''quotaProbeSeconds'', j_nat (pb_interval_secs (fl_probe f))),
          (''stormRamp'', storm_json (fl_storm f)), (''blockedModels'', JArr (map JStr (fl_blocked_models f))),
          (''expiryRouting'', expiry_json (fl_expiry f)), (''soonestReset'', JBool (fl_soonest_reset f)),
          (''usageDimensions'', JObj (map (\<lambda>(d, t). (d, JObj (usage_table_json t))) (fl_dimension_usage f))),
          (''routes'', JArr (routes_json E f now)),
          (''accounts'', JArr (map (\<lambda>a. account_json E f a now) (fl_accounts f))),
          (''sessions'', sessions_json f now detail), (''clients'', JObj (usage_table_json (fl_client_usage f)))])"

subsection \<open>All pools\<close>

definition pool_status :: "ext \<Rightarrow> string \<Rightarrow> string \<Rightarrow> bool \<Rightarrow> int \<Rightarrow> string \<times> fleet \<Rightarrow> obj" where
  "pool_status E ver dflt detail now nf =
     (case nf of (name, f) \<Rightarrow> obj_insert ''default'' (JBool (name = dflt)) (status_json E ver f now detail))"

definition pools_status :: "ext \<Rightarrow> string \<Rightarrow> bool \<Rightarrow> int \<Rightarrow> registry \<Rightarrow> obj" where
  "pools_status E ver detail now r =
     (let per_pool = map (pool_status E ver (rg_default r) detail now) (each_pool r);
          st = (case per_pool of [] \<Rightarrow> [] | s # _ \<Rightarrow> s)
      in obj_insert ''pools'' (JArr (map JObj per_pool)) (obj_insert ''defaultPool'' (JStr (rg_default r)) st))"

subsection \<open>The quota of a pool\<close>

definition tier_weight :: "account \<Rightarrow> rat option" where
  "tier_weight a =
     Option.bind (map_option to_lower (tier_of a)) (\<lambda>t.
       if contains t ''20x'' \<or> contains t ''tier_2'' \<or> contains t ''max_20'' then Some 20
       else if contains t ''5x'' \<or> contains t ''tier_1'' \<or> contains t ''max_5'' \<or> t = ''max'' then Some 5
       else if contains t ''pro'' \<or> contains t ''standard'' \<or> contains t ''team'' then Some 1
       else None)"

record quota_sum =
  qs_used :: f64
  qs_total :: f64
  qs_soonest :: "int option"

definition key_reading :: "string \<Rightarrow> quota \<Rightarrow> f64 option" where
  "key_reading key q =
     opt_or (utilization (bucket_or_default q key))
       (if key \<noteq> BUCKET_7D \<and> key \<noteq> BUCKET_5H then utilization (unified7d q) else None)"

definition add_quota :: "string \<Rightarrow> int \<Rightarrow> account \<Rightarrow> quota_sum \<Rightarrow> quota_sum" where
  "add_quota key now a s =
     (if a_disabled a \<or> a_kind a \<noteq> Oauth then s
      else (case tier_weight a of
              None \<Rightarrow> s
            | Some w \<Rightarrow>
                let s1 = (case key_reading key (a_quota a) of
                            Some u \<Rightarrow> s\<lparr>qs_used := f_add (qs_used s) (f_mul (f_min u (Fin 1)) (Fin w)),
                                        qs_total := f_add (qs_total s) (Fin w)\<rparr>
                          | None \<Rightarrow> s)
                in (case opt_or (reset_at (bucket_or_default (a_quota a) key)) (reset_at (unified7d (a_quota a))) of
                      Some r \<Rightarrow>
                        if now < r \<and> (case qs_soonest s1 of Some t \<Rightarrow> r < t | None \<Rightarrow> True)
                        then s1\<lparr>qs_soonest := Some r\<rparr> else s1
                    | None \<Rightarrow> s1)))"

definition sum_quota :: "string \<Rightarrow> int \<Rightarrow> account list \<Rightarrow> quota_sum" where
  "sum_quota key now as = fold (add_quota key now) as \<lparr>qs_used = Fin 0, qs_total = Fin 0, qs_soonest = None\<rparr>"

definition mean_quota :: "quota_sum \<Rightarrow> f64 option" where
  "mean_quota s = (if f_lt (Fin 0) (qs_total s) then Some (f_div (qs_used s) (qs_total s)) else None)"

definition agg_json :: "ext \<Rightarrow> fleet \<Rightarrow> int \<Rightarrow> string \<Rightarrow> json" where
  "agg_json E f now key =
     (let s = sum_quota key now (fl_accounts f)
      in JObj [(''utilization'', j_or_null j_f64 (mean_quota s)), (''weight'', j_f64 (qs_total s)),
               (''soonestResetAt'', j_iso E (qs_soonest s))])"

definition summary_account :: "ext \<Rightarrow> account \<Rightarrow> json" where
  "summary_account E a =
     (let q = a_quota a; u = (\<lambda>b. j_or_null j_f64 (utilization b))
      in JObj [(''name'', JStr (a_name a)), (''tier'', j_str (tier_of a)), (''unified5h'', u (unified5h q)),
           (''unified7d'', u (unified7d q)), (''unified7dFable'', u (unified7d_fable q)),
           (''unified7dSonnet'', u (unified7d_sonnet q)), (''resetAt5h'', j_iso E (reset_at (unified5h q))),
           (''resetAt7d'', j_iso E (reset_at (unified7d q)))])"

definition quota_summary :: "ext \<Rightarrow> fleet \<Rightarrow> int \<Rightarrow> obj" where
  "quota_summary E f now =
     [(''fleet'', JObj (map (\<lambda>k. (k, agg_json E f now k)) [BUCKET_5H, BUCKET_7D, BUCKET_7D_FABLE, BUCKET_7D_SONNET])),
      (''unknownTiers'', JArr (map (\<lambda>a. JStr (a_name a))
         (filter (\<lambda>a. a_kind a = Oauth \<and> tier_weight a = None) (fl_accounts f)))),
      (''accounts'', JArr (map (summary_account E) (fl_accounts f)))]"

end
