(* ===== verification/Status_Props.thy ===== *)
theory Status_Props
  imports Status_Json
begin

text \<open>
  What the status documents show: they depend on whether an account holds a credential, never on the
  credential or the refresh token; the weighted mean of the quota summary stays between 0 and 1.
\<close>

subsection \<open>Other secrets in the same places\<close>

definition swap_secrets ::
  "(string \<Rightarrow> string) \<Rightarrow> (account \<Rightarrow> string option) \<Rightarrow> (account \<Rightarrow> string option) \<Rightarrow> account \<Rightarrow> account" where
  "swap_secrets g r d a =
     a\<lparr>a_credential := map_option g (a_credential a), a_refresh_token := r a, a_dead_refresh_token := d a\<rparr>"

definition swap_fleet ::
  "(string \<Rightarrow> string) \<Rightarrow> (account \<Rightarrow> string option) \<Rightarrow> (account \<Rightarrow> string option) \<Rightarrow> fleet \<Rightarrow> fleet" where
  "swap_fleet g r d f = f\<lparr>fl_accounts := map (swap_secrets g r d) (fl_accounts f)\<rparr>"

definition swap_registry ::
  "(string \<Rightarrow> string) \<Rightarrow> (account \<Rightarrow> string option) \<Rightarrow> (account \<Rightarrow> string option) \<Rightarrow> registry \<Rightarrow> registry" where
  "swap_registry g r d G = G\<lparr>rg_map := map (\<lambda>(n, f). (n, swap_fleet g r d f)) (rg_map G)\<rparr>"

lemma swap_secrets_simps [simp]:
  "a_id (swap_secrets g r d a) = a_id a" "a_name (swap_secrets g r d a) = a_name a"
  "a_kind (swap_secrets g r d a) = a_kind a" "a_provider (swap_secrets g r d a) = a_provider a"
  "a_plan_type (swap_secrets g r d a) = a_plan_type a" "a_email (swap_secrets g r d a) = a_email a"
  "a_account_uuid (swap_secrets g r d a) = a_account_uuid a" "a_org_uuid (swap_secrets g r d a) = a_org_uuid a"
  "a_org_name (swap_secrets g r d a) = a_org_name a" "a_priority (swap_secrets g r d a) = a_priority a"
  "a_disabled (swap_secrets g r d a) = a_disabled a" "a_status (swap_secrets g r d a) = a_status a"
  "a_error_message (swap_secrets g r d a) = a_error_message a" "a_upstream (swap_secrets g r d a) = a_upstream a"
  "a_rate_limit_tier (swap_secrets g r d a) = a_rate_limit_tier a" "a_seat_tier (swap_secrets g r d a) = a_seat_tier a"
  "a_subscription_type (swap_secrets g r d a) = a_subscription_type a"
  "a_expires_at (swap_secrets g r d a) = a_expires_at a"
  "a_refresh_expires_at (swap_secrets g r d a) = a_refresh_expires_at a"
  "a_rate_limited_until (swap_secrets g r d a) = a_rate_limited_until a"
  "a_entitlement_denied_until (swap_secrets g r d a) = a_entitlement_denied_until a"
  "a_max_usage (swap_secrets g r d a) = a_max_usage a" "a_in_flight (swap_secrets g r d a) = a_in_flight a"
  "a_open (swap_secrets g r d a) = a_open a" "a_quota (swap_secrets g r d a) = a_quota a"
  "a_usage (swap_secrets g r d a) = a_usage a"
  "a_credential (swap_secrets g r d a) = map_option g (a_credential a)"
  by (simp_all add: swap_secrets_def)

lemma swap_fleet_simps [simp]:
  "fl_accounts (swap_fleet g r d f) = map (swap_secrets g r d) (fl_accounts f)"
  "fl_pool (swap_fleet g r d f) = fl_pool f" "fl_current (swap_fleet g r d f) = fl_current f"
  "fl_threshold (swap_fleet g r d f) = fl_threshold f" "fl_routes (swap_fleet g r d f) = fl_routes f"
  "fl_blocked_models (swap_fleet g r d f) = fl_blocked_models f" "fl_storm (swap_fleet g r d f) = fl_storm f"
  "fl_distribute (swap_fleet g r d f) = fl_distribute f" "fl_hold_seconds (swap_fleet g r d f) = fl_hold_seconds f"
  "fl_default_upstream (swap_fleet g r d f) = fl_default_upstream f"
  "fl_route_pins (swap_fleet g r d f) = fl_route_pins f" "fl_sessions (swap_fleet g r d f) = fl_sessions f"
  "fl_started_at (swap_fleet g r d f) = fl_started_at f" "fl_client_usage (swap_fleet g r d f) = fl_client_usage f"
  "fl_dimension_usage (swap_fleet g r d f) = fl_dimension_usage f" "fl_expiry (swap_fleet g r d f) = fl_expiry f"
  "fl_soonest_reset (swap_fleet g r d f) = fl_soonest_reset f" "fl_probe (swap_fleet g r d f) = fl_probe f"
  "fl_warmup_secs (swap_fleet g r d f) = fl_warmup_secs f"
  "fl_update_available (swap_fleet g r d f) = fl_update_available f"
  "fl_update_checked_at (swap_fleet g r d f) = fl_update_checked_at f"
  by (simp_all add: swap_fleet_def)

lemma find_map_same:
  "(\<And>a. P (g a) = P a) \<Longrightarrow> List.find P (map g as) = map_option g (List.find P as)"
  by (induction as) auto

lemma swap_names [simp]: "map_option a_name (map_option (swap_secrets g r d) x) = map_option a_name x"
  by (cases x) simp_all

lemma swap_lookups [simp]:
  "fleet_account (swap_fleet g r d f) i = map_option (swap_secrets g r d) (fleet_account f i)"
  "account_by_name (swap_fleet g r d f) n = map_option (swap_secrets g r d) (account_by_name f n)"
  by (simp_all add: fleet_account_def account_by_name_def find_map_same)

lemma swap_routes [simp]:
  "route_for (swap_fleet g r d f) = route_for f" "weekly_key_for (swap_fleet g r d f) = weekly_key_for f"
  "threshold_for (swap_fleet g r d f) = threshold_for f"
  by (auto simp: fun_eq_iff route_for_def weekly_key_for_def threshold_for_def)

lemma swap_route_names [simp]:
  "route_names (swap_fleet g r d f) (swap_secrets g r d a) = route_names f a"
  by (auto simp: fun_eq_iff route_names_def split: option.splits)

lemma swap_route_allows [simp]:
  "route_allows (swap_fleet g r d f) (swap_secrets g r d a) = route_allows f a"
  by (simp add: fun_eq_iff route_allows_def cong: option.case_cong)

lemma swap_capped [simp]: "capped_bucket (swap_fleet g r d f) (swap_secrets g r d a) = capped_bucket f a"
  by (simp add: fun_eq_iff capped_bucket_def Let_def cong: option.case_cong)

lemma swap_near [simp]: "near_reading (swap_fleet g r d f) (swap_secrets g r d a) = near_reading f a"
  by (simp add: fun_eq_iff near_reading_def)

lemma swap_upstream [simp]: "upstream_for E up (swap_secrets g r d a) = upstream_for E up a"
  by (simp add: upstream_for_def is_subscription_def cong: option.case_cong if_cong)

lemma swap_unavailable [simp]:
  "unavailable_reason E (swap_fleet g r d f) (swap_secrets g r d a) = unavailable_reason E f a"
  by (simp add: fun_eq_iff unavailable_reason_def unavailable_reason_for_def unavailable_def)

lemma swap_parts [simp]:
  "can_serve E (swap_fleet g r d f) now mo (swap_secrets g r d a) = can_serve E f now mo a"
  "pressure (swap_fleet g r d f) (swap_secrets g r d a) m now = pressure f a m now"
  "tier_of (swap_secrets g r d a) = tier_of a"
  "active_on (swap_fleet g r d f) i now = active_on f i now"
  "probe_json E (swap_fleet g r d f) (swap_secrets g r d a) = probe_json E f a"
  by (simp_all add: can_serve_def pressure_def tier_of_def active_on_def probe_json_def cong: if_cong)

lemma swap_account_json [simp]:
  "account_json E (swap_fleet g r d f) (swap_secrets g r d a) now = account_json E f a now"
  by (simp add: account_json_def)

lemma swap_eligible [simp]:
  "eligible_json E (swap_fleet g r d f) now m (swap_secrets g r d a) = eligible_json E f now m a"
  by (simp add: eligible_json_def)

lemma swap_route_account [simp]:
  "route_account (swap_fleet g r d f) n = map_option (swap_secrets g r d) (route_account f n)"
  by (auto simp: route_account_def opt_or_def split: option.splits bind_splits)

lemma map_filter_map_option:
  "List.map_filter (\<lambda>n. map_option h (k n)) ns = map h (List.map_filter k ns)"
  by (induction ns) (auto simp: List.map_filter_def)

lemma swap_routes_json [simp]: "routes_json E (swap_fleet g r d f) now = routes_json E f now"
proof -
  have n: "pinned_name (swap_fleet g r d f) = pinned_name f"
    by (auto simp: fun_eq_iff pinned_name_def split: option.splits bind_splits)
  have a: "auto_route E (swap_fleet g r d f) now = auto_route E f now"
    by (simp add: fun_eq_iff auto_route_def n list_ex_iff comp_def)
  have m: "route_account (swap_fleet g r d f) = (\<lambda>n. map_option (swap_secrets g r d) (route_account f n))"
    by (simp add: fun_eq_iff)
  have "route_json E (swap_fleet g r d f) now = route_json E f now"
    by (simp add: fun_eq_iff route_json_def Let_def n m map_filter_map_option comp_def)
  then show ?thesis by (simp add: routes_json_def a)
qed

lemma swap_current [simp]:
  "map_option a_name (Option.bind x (fleet_account (swap_fleet g r d f))) = map_option a_name (Option.bind x (fleet_account f))"
  by (cases x) simp_all

lemma swap_status_json [simp]:
  "status_json E ver (swap_fleet g r d f) now detail = status_json E ver f now detail"
  by (simp add: status_json_def Let_def sessions_json_def comp_def)

lemma swap_each_pool: "each_pool (swap_registry g r d G) = map (\<lambda>(n, f). (n, swap_fleet g r d f)) (each_pool G)"
proof -
  have "map_of (map (\<lambda>(n, f). (n, h f)) xs) k = map_option h (map_of xs k)" for h :: "fleet \<Rightarrow> fleet" and xs :: "(string \<times> fleet) list" and k
    by (induction xs) auto
  moreover have "filter (\<lambda>(k, _). k \<noteq> x) (map (\<lambda>(n, f). (n, h f)) xs) = map (\<lambda>(n, f). (n, h f)) (filter (\<lambda>(k, _). k \<noteq> x) xs)"
    for h :: "fleet \<Rightarrow> fleet" and xs :: "(string \<times> fleet) list" and x
    by (induction xs) auto
  ultimately show ?thesis by (auto simp: each_pool_def swap_registry_def split: option.splits)
qed

lemma swap_quota_summary: "quota_summary E (swap_fleet g r d f) now = quota_summary E f now"
proof -
  have t: "tier_weight (swap_secrets g r d a) = tier_weight a" for a
    by (simp add: tier_weight_def)
  have "add_quota k now (swap_secrets g r d a) = add_quota k now a" for k a
    by (simp add: fun_eq_iff add_quota_def t cong: option.case_cong if_cong)
  then have "sum_quota k now (map (swap_secrets g r d) as) = sum_quota k now as" for k as
    by (simp add: sum_quota_def fold_map comp_def)
  moreover have "summary_account E (swap_secrets g r d a) = summary_account E a" for a
    by (simp add: summary_account_def)
  ultimately show ?thesis
    by (simp add: quota_summary_def agg_json_def t filter_map comp_def)
qed

text \<open>C28: What \<open>/corrall/status\<close> and \<open>/corrall/quota\<close> answer does not depend on any secret of an
  account. Two registries that differ only in the values of the credentials, of the refresh tokens and
  of the dead refresh tokens, every account that had a credential still having one, give exactly the same
  status document (all pools, with or without session detail) and the same quota summary.\<close>

theorem documents_hide_secrets:
  "pools_status E ver detail now (swap_registry g r d G) = pools_status E ver detail now G \<and>
   quota_summary E (swap_fleet g r d f) now = quota_summary E f now"
proof -
  have "rg_default (swap_registry g r d G) = rg_default G" by (simp add: swap_registry_def)
  moreover have "pool_status E ver (rg_default G) detail now (n, swap_fleet g r d f) = pool_status E ver (rg_default G) detail now (n, f)" for n f
    by (simp add: pool_status_def)
  ultimately show ?thesis
    by (simp add: pools_status_def swap_each_pool swap_quota_summary comp_def case_prod_unfold)
qed

subsection \<open>The weighted mean\<close>

definition share :: "f64 \<Rightarrow> rat" where
  "share u = (case u of Fin x \<Rightarrow> min x 1 | _ \<Rightarrow> 1)"

definition weighed_one :: "string \<Rightarrow> account \<Rightarrow> (rat \<times> rat) option" where
  "weighed_one key a =
     (if a_disabled a \<or> a_kind a \<noteq> Oauth then None
      else Option.bind (tier_weight a) (\<lambda>w. map_option (\<lambda>u. (w, share u)) (key_reading key (a_quota a))))"

definition weighed :: "string \<Rightarrow> account list \<Rightarrow> (rat \<times> rat) list" where
  "weighed key = List.map_filter (weighed_one key)"

lemma tier_weight_pos: "tier_weight a = Some w \<Longrightarrow> 0 < w"
  by (auto simp: tier_weight_def split: if_splits bind_splits)

lemma f_min_share: "\<not> f_lt u (Fin 0) \<Longrightarrow> f_min u (Fin 1) = Fin (share u) \<and> 0 \<le> share u \<and> share u \<le> 1"
  by (cases u) (auto simp: f_min_def share_def)

lemma add_quota_weighed:
  assumes "\<And>u. key_reading key (a_quota a) = Some u \<Longrightarrow> \<not> f_lt u (Fin 0)" and "qs_used s = Fin x" "qs_total s = Fin t"
  shows "qs_used (add_quota key now a s) = Fin (x + (case weighed_one key a of Some (w, v) \<Rightarrow> w * v | None \<Rightarrow> 0)) \<and>
         qs_total (add_quota key now a s) = Fin (t + (case weighed_one key a of Some (w, v) \<Rightarrow> w | None \<Rightarrow> 0))"
  using assms f_min_share
  by (auto simp: add_quota_def weighed_one_def Let_def f_mul_def mult.commute split: option.splits)

lemma fold_quota_weighed:
  assumes "\<forall>a \<in> set as. \<forall>u. key_reading key (a_quota a) = Some u \<longrightarrow> \<not> f_lt u (Fin 0)"
    and "qs_used s = Fin x" "qs_total s = Fin t"
  shows "qs_used (fold (add_quota key now) as s) = Fin (x + (\<Sum>(w, v)\<leftarrow>weighed key as. w * v)) \<and>
         qs_total (fold (add_quota key now) as s) = Fin (t + (\<Sum>(w, v)\<leftarrow>weighed key as. w))"
  using assms
proof (induction as arbitrary: s x t)
  case Nil
  then show ?case by (simp add: weighed_def List.map_filter_def)
next
  case (Cons a as)
  from Cons.prems have a: "\<And>u. key_reading key (a_quota a) = Some u \<Longrightarrow> \<not> f_lt u (Fin 0)" by simp
  note step = add_quota_weighed [OF a Cons.prems(2,3), where now = now]
  show ?case
    using Cons.IH [of "add_quota key now a s"] step Cons.prems(1)
    by (simp add: weighed_def List.map_filter_def split: option.splits)
qed

lemma weighed_bounds:
  assumes "\<forall>a \<in> set as. \<forall>u. key_reading key (a_quota a) = Some u \<longrightarrow> \<not> f_lt u (Fin 0)" and "(w, v) \<in> set (weighed key as)"
  shows "0 < w \<and> 0 \<le> v \<and> v \<le> 1"
  using assms f_min_share
  by (auto simp: weighed_def weighed_one_def List.map_filter_def tier_weight_pos split: if_splits bind_splits)

lemma mean_bounds:
  fixes ws :: "(rat \<times> rat) list"
  assumes "\<And>w v. (w, v) \<in> set ws \<Longrightarrow> 0 < w \<and> 0 \<le> v \<and> v \<le> 1"
  shows "0 \<le> (\<Sum>(w, v)\<leftarrow>ws. w * v) \<and> (\<Sum>(w, v)\<leftarrow>ws. w * v) \<le> (\<Sum>(w, v)\<leftarrow>ws. w)
    \<and> (0 < (\<Sum>(w, v)\<leftarrow>ws. w) \<longleftrightarrow> ws \<noteq> [])"
  using assms
proof (induction ws)
  case (Cons p ws)
  obtain w v where p: "p = (w, v)" by (cases p)
  from Cons.prems [of w v] have w: "0 < w" "0 \<le> v" "v \<le> 1" by (simp_all add: p)
  then have "0 \<le> w * v" "w * v \<le> w" by (auto simp: mult_left_le)
  moreover from Cons.prems have "\<And>w v. (w, v) \<in> set ws \<Longrightarrow> 0 < w \<and> 0 \<le> v \<and> v \<le> 1"
    by (meson list.set_intros(2))
  note Cons.IH [OF this]
  ultimately show ?case using w(1) \<open>w * v \<le> w\<close> by (cases "ws = []") (auto simp: p intro: add_mono)
qed simp

text \<open>The fleet figure of the quota summary is the mean of the used shares, weighted by the tiers. It
  counts the enabled subscription accounts of a known tier that have a reading, each with its reading
  capped at 1 (an infinite or unreadable number counts as 1); it is absent exactly when there are none, and
  lies between 0 and 1 as long as no reading is negative.\<close>

theorem quota_mean_bounded:
  assumes "\<forall>a \<in> set as. \<forall>u. key_reading key (a_quota a) = Some u \<longrightarrow> \<not> f_lt u (Fin 0)"
  shows "(mean_quota (sum_quota key now as) = None \<longleftrightarrow> weighed key as = []) \<and>
    (\<forall>m. mean_quota (sum_quota key now as) = Some m \<longrightarrow>
       m = Fin ((\<Sum>(w, v)\<leftarrow>weighed key as. w * v) / (\<Sum>(w, v)\<leftarrow>weighed key as. w)) \<and>
       f_le (Fin 0) m \<and> f_le m (Fin 1))"
proof -
  let ?u = "\<Sum>(w, v)\<leftarrow>weighed key as. w * v" and ?t = "\<Sum>(w, v)\<leftarrow>weighed key as. w"
  have s: "qs_used (sum_quota key now as) = Fin ?u" "qs_total (sum_quota key now as) = Fin ?t"
    using fold_quota_weighed [OF assms, where s = "\<lparr>qs_used = Fin 0, qs_total = Fin 0, qs_soonest = None\<rparr>" and x = 0 and t = 0 and now = now]
    by (simp_all add: sum_quota_def)
  have b: "0 \<le> ?u" "?u \<le> ?t" "0 < ?t \<longleftrightarrow> weighed key as \<noteq> []"
    using mean_bounds [of "weighed key as"] weighed_bounds [OF assms] by blast+
  then show ?thesis by (auto simp: mean_quota_def s f_div_def divide_le_eq_1)
qed

definition tiered :: "string \<Rightarrow> f64 \<Rightarrow> account" where
  "tiered t u =
     (demo_account t 0)\<lparr>a_seat_tier := Some t,
        a_quota := quota_default\<lparr>unified5h := bucket_default\<lparr>utilization := Some u\<rparr>\<rparr>\<rparr>"

theorem quota_mean_bounded_witness:
  "(mean_quota (sum_quota BUCKET_5H 0 [tiered ''max'' (Fin 1), tiered ''pro'' PInf]) = None \<longleftrightarrow>
      weighed BUCKET_5H [tiered ''max'' (Fin 1), tiered ''pro'' PInf] = []) \<and>
   (\<forall>m. mean_quota (sum_quota BUCKET_5H 0 [tiered ''max'' (Fin 1), tiered ''pro'' PInf]) = Some m \<longrightarrow>
      m = Fin ((\<Sum>(w, v)\<leftarrow>weighed BUCKET_5H [tiered ''max'' (Fin 1), tiered ''pro'' PInf]. w * v) /
        (\<Sum>(w, v)\<leftarrow>weighed BUCKET_5H [tiered ''max'' (Fin 1), tiered ''pro'' PInf]. w)) \<and>
      f_le (Fin 0) m \<and> f_le m (Fin 1))"
proof (rule quota_mean_bounded)
  have "bucket_or_default (a_quota (tiered t u)) BUCKET_5H = bucket_default\<lparr>utilization := Some u\<rparr>" for t u
    by (simp add: tiered_def bucket_or_default_def bucket_of_def)
  then show "\<forall>a \<in> set [tiered ''max'' (Fin 1), tiered ''pro'' PInf].
     \<forall>u. key_reading BUCKET_5H (a_quota a) = Some u \<longrightarrow> \<not> f_lt u (Fin 0)"
    by (simp add: key_reading_def opt_or_def)
qed

end
