(* ===== verification/Account_Edits.thy ===== *)
theory Account_Edits
  imports Config_Load Credentials
begin

text \<open>
  The edits of \<open>src/cli.rs\<close> that the daemon's login and control routes share with the command line:
  which pool and account a handle names, and how a login is filed. An error is a \<open>cfg_error\<close> or the
  handle that named nothing.
\<close>

subsection \<open>Handles\<close>

datatype edit_error =
    CfgErr cfg_error | NoPoolNamed string | NoAccountMatches string | NotAHost string | SaveFailed | ConfigGone
  | Refused string

definition pool_name :: "config \<Rightarrow> string option \<Rightarrow> edit_error + string" where
  "pool_name c pool =
     (case pool of
        None \<Rightarrow> Inr (cf_default_pool c)
      | Some p \<Rightarrow> if al_has (cf_pools c) p then Inr p else Inl (NoPoolNamed p))"

definition as_edit :: "cfg_error + 'a \<Rightarrow> edit_error + 'a" where
  "as_edit r = (case r of Inl e \<Rightarrow> Inl (CfgErr e) | Inr x \<Rightarrow> Inr x)"

definition target_pool :: "config \<Rightarrow> string option \<Rightarrow> edit_error + (string \<times> config)" where
  "target_pool c pool =
     (case pool of
        None \<Rightarrow> Inr (cf_default_pool c, c)
      | Some p \<Rightarrow> res_bind (as_edit (ensure_pool p c)) (\<lambda>c'. Inr (p, c')))"

definition locate :: "config \<Rightarrow> string option \<Rightarrow> string \<Rightarrow> edit_error + (string \<times> nat)" where
  "locate c pool needle =
     res_bind
       (case pool of
          Some p \<Rightarrow> res_bind (pool_name c (Some p)) (\<lambda>p.
            res_bind (as_edit (find_account_idx_in c p needle)) (\<lambda>i. Inr (map_option (Pair p) i)))
        | None \<Rightarrow> as_edit (find_account c needle))
       (\<lambda>found. case found of Some x \<Rightarrow> Inr x | None \<Rightarrow> Inl (NoAccountMatches needle))"

definition locate_by :: "config \<Rightarrow> (account_config \<Rightarrow> bool) \<Rightarrow> (string \<times> nat) option" where
  "locate_by c P =
     find_map (\<lambda>p. map_option (Pair p) (Option.bind (config_pool c p) (\<lambda>pc. position P (pc_accounts pc)))) (pool_names c)"

subsection \<open>Writing an account\<close>

definition upd_pool :: "string \<Rightarrow> (pool_config \<Rightarrow> pool_config) \<Rightarrow> config \<Rightarrow> config" where
  "upd_pool name g = cf_pools_update (map (\<lambda>(k, p). if k = name then (k, g p) else (k, p)))"

definition upd_entry :: "string \<Rightarrow> nat \<Rightarrow> (account_config \<Rightarrow> account_config) \<Rightarrow> config \<Rightarrow> config" where
  "upd_entry pool i g = upd_pool pool (pc_accounts_update (\<lambda>as. as[i := g (as ! i)]))"

definition push_account :: "string \<Rightarrow> account_config \<Rightarrow> config \<Rightarrow> config" where
  "push_account pool a c =
     (let p = unwrap_or pool_default (config_pool c pool)
      in c\<lparr>cf_pools := bt_insert pool (pc_accounts_update (\<lambda>as. as @ [a]) p) (cf_pools c)\<rparr>)"

definition remove_at :: "nat \<Rightarrow> 'a list \<Rightarrow> 'a list" where
  "remove_at i xs = take i xs @ drop (Suc i) xs"

definition account_at :: "config \<Rightarrow> string \<Rightarrow> nat \<Rightarrow> account_config" where
  "account_at c pool i = pc_accounts (unwrap_or pool_default (config_pool c pool)) ! i"

definition accounts_in :: "config \<Rightarrow> string \<Rightarrow> nat" where
  "accounts_in c pool = (case config_pool c pool of Some p \<Rightarrow> length (pc_accounts p) | None \<Rightarrow> 0)"

text \<open>\<open>entry_at\<close>: the index of the entry in \<open>pool\<close> and whether it existed before.\<close>

definition entry_at ::
  "string \<Rightarrow> (string \<times> nat) option \<Rightarrow> account_config \<Rightarrow> config \<Rightarrow> config \<times> nat \<times> bool" where
  "entry_at pool found new c =
     (case found of
        Some (src, i) \<Rightarrow>
          if src = pool then (c, i, True)
          else (let c1 = upd_pool src (pc_accounts_update (remove_at i)) c
                in (push_account pool (account_at c src i) c1, accounts_in c1 pool, True))
      | None \<Rightarrow> (push_account pool new c, accounts_in c pool, False))"

definition login_entry :: "string \<Rightarrow> tokens \<Rightarrow> profile option \<Rightarrow> account_config \<Rightarrow> account_config" where
  "login_entry name t prof a0 =
     (let a = a0\<lparr>ac_name := name, ac_kind := Oauth, ac_import_from := None,
                 ac_access_token := Some (tk_access t), ac_refresh_token := tk_refresh t,
                 ac_expires_at := Some (tk_expires_at t), ac_refresh_token_expires_at := tk_refresh_expires_at t\<rparr>
      in (case prof of
            None \<Rightarrow> a
          | Some p \<Rightarrow>
              a\<lparr>ac_account_uuid := opt_or (pr_account_uuid p) (ac_account_uuid a),
                ac_org_uuid := opt_or (pr_org_uuid p) (ac_org_uuid a),
                ac_org_name := opt_or (pr_org_name p) (ac_org_name a),
                ac_email := opt_or (pr_email p) (ac_email a),
                ac_rate_limit_tier := opt_or (pr_rate_limit_tier p) (ac_rate_limit_tier a),
                ac_seat_tier := opt_or (pr_seat_tier p) (ac_seat_tier a)\<rparr>))"

definition login_match :: "config \<Rightarrow> string \<Rightarrow> profile option \<Rightarrow> (string \<times> nat) option" where
  "login_match c name prof =
     opt_or
       (Option.bind prof (\<lambda>p. Option.bind (pr_account_uuid p) (\<lambda>au.
          locate_by c (\<lambda>a. ac_account_uuid a = Some au \<and> (pr_org_uuid p = None \<or> ac_org_uuid a = pr_org_uuid p)))))
       (locate_by c (\<lambda>a. ac_name a = name))"

definition upsert_oauth_at ::
  "string \<Rightarrow> string \<Rightarrow> tokens \<Rightarrow> profile option \<Rightarrow> config \<Rightarrow> config \<times> nat \<times> bool" where
  "upsert_oauth_at pool name t prof c =
     (case entry_at pool (login_match c name prof) (account_config_default\<lparr>ac_name := name, ac_kind := Oauth\<rparr>) c of
        (c', i, updated) \<Rightarrow> (upd_entry pool i (login_entry name t prof) c', i, updated))"

definition apply_import ::
  "string \<Rightarrow> string \<Rightarrow> tokens \<Rightarrow> profile option \<Rightarrow> string option \<Rightarrow> string option \<Rightarrow> config \<Rightarrow> config \<times> nat" where
  "apply_import pool name t prof link_from subscription c =
     (case upsert_oauth_at pool name t prof c of
        (c', i, _) \<Rightarrow>
          (upd_entry pool i (\<lambda>a0.
             let a = (case link_from of
                        Some path \<Rightarrow> a0\<lparr>ac_import_from := Some path, ac_access_token := None, ac_refresh_token := None,
                                        ac_expires_at := None, ac_refresh_token_expires_at := None\<rparr>
                      | None \<Rightarrow> a0)
             in if ac_subscription_type a = None then a\<lparr>ac_subscription_type := subscription\<rparr> else a) c', i))"

definition display_name :: "profile \<Rightarrow> config \<Rightarrow> string" where
  "display_name p c =
     (let email = unwrap_or ''account'' (opt_or (pr_email p) (pr_display_name p));
          other = list_ex (\<lambda>(_, a). ac_email a = Some email \<and> ac_org_uuid a \<noteq> None \<and> ac_org_uuid a \<noteq> pr_org_uuid p)
                    (all_accounts c)
      in (case pr_org_name p of
            Some org \<Rightarrow> if other then email @ '' ('' @ org @ '')'' else email
          | None \<Rightarrow> email))"

subsection \<open>Listen addresses\<close>

definition parse_bind :: "string \<Rightarrow> nat \<Rightarrow> (ip \<times> nat) option" where
  "parse_bind host port =
     (let h = trim_end_matches CHR '']'' (trim_start_matches CHR ''['' (trim host))
      in if eq_ignore_case h ''localhost'' then Some (V4 127 0 0 1, port)
         else map_option (\<lambda>ip. (ip, port)) (parse_ip h))"

definition parse_u16 :: "string \<Rightarrow> nat option" where
  "parse_u16 = parse_unsigned 65535"

definition parse_listen :: "string \<Rightarrow> edit_error + (string option \<times> nat)" where
  "parse_listen addr =
     (let s = trim addr;
          hp = (case parse_u16 s of
                  Some port \<Rightarrow> Some (None, port)
                | None \<Rightarrow>
                    (case rsplit_once CHR '':'' s of
                       None \<Rightarrow> None
                     | Some (h0, p) \<Rightarrow>
                         let h = trim h0
                         in if CHR '':'' \<in> set h \<and> \<not> (starts_with ''['' h \<and> ends_with '']'' h) then None
                            else map_option (\<lambda>port. (if h = [] then None else Some h, port)) (parse_u16 (trim p))))
      in (case hp of
            Some (host, port) \<Rightarrow>
              if s = [] \<or> port = 0 \<or> (case host of Some h \<Rightarrow> parse_bind h port = None | None \<Rightarrow> False) then Inl (NotAHost addr)
              else Inr (host, port)
          | None \<Rightarrow> Inl (NotAHost addr)))"

definition apply_listen_override ::
  "ext \<Rightarrow> string option \<Rightarrow> nat option \<Rightarrow> config \<Rightarrow> edit_error + config" where
  "apply_listen_override E listen port c =
     res_bind
       (case listen of
          None \<Rightarrow> Inr c
        | Some addr \<Rightarrow> res_bind (parse_listen addr) (\<lambda>(host, p).
            Inr (cf_proxy_update (\<lambda>x. x\<lparr>px_host := opt_or host (px_host x), px_port := p\<rparr>) c)))
       (\<lambda>c1.
         let c2 = (case port of Some p \<Rightarrow> cf_proxy_update (px_port_update (\<lambda>_. p)) c1 | None \<Rightarrow> c1)
         in res_bind (as_edit (config_validate E c2)) (\<lambda>_. Inr c2))"

subsection \<open>Where accounts end up\<close>

definition accounts_of :: "(string \<times> pool_config) list \<Rightarrow> account_config multiset" where
  "accounts_of ps = mset (concat (map (\<lambda>(_, p). pc_accounts p) ps))"

lemma accounts_of_Cons [simp]: "accounts_of ((k, p) # ps) = mset (pc_accounts p) + accounts_of ps"
  by (simp add: accounts_of_def)

lemma accounts_of_Nil [simp]: "accounts_of [] = {#}"
  by (simp add: accounts_of_def)

lemma accounts_of_insert:
  "bt_inv ps \<Longrightarrow> accounts_of (bt_insert k q ps) + (case map_of ps k of Some p \<Rightarrow> mset (pc_accounts p) | None \<Rightarrow> {#})
     = accounts_of ps + mset (pc_accounts q)"
proof (induction k q ps rule: bt_insert.induct)
  case (2 k q k' p' ps)
  have inv: "bt_inv ps" "\<forall>x \<in> fst ` set ps. k' < x" using 2(2) by (auto simp: bt_inv_def)
  show ?case
  proof (cases "k < k'")
    case True
    then have "map_of ps k = None" using inv(2) by (force simp: map_of_eq_None_iff)
    moreover have "k \<noteq> k'" using True by simp
    ultimately show ?thesis using True by simp
  next
    case False
    then show ?thesis using 2(1) inv(1) by (cases "k = k'") (auto simp: ac_simps)
  qed
qed simp

lemma accounts_of_upd:
  "bt_inv ps \<Longrightarrow> map_of ps k = Some p \<Longrightarrow>
   accounts_of (map (\<lambda>(k', p). if k' = k then (k', g p) else (k', p)) ps) + mset (pc_accounts p)
     = accounts_of ps + mset (pc_accounts (g p))"
proof (induction ps)
  case (Cons x ps)
  obtain k' p' where x: "x = (k', p')" by fastforce
  have inv: "bt_inv ps" "\<forall>y \<in> fst ` set ps. k' < y" using Cons.prems(1) x by (auto simp: bt_inv_def)
  show ?case
  proof (cases "k' = k")
    case True
    then have "map (\<lambda>(k', p). if k' = k then (k', g p) else (k', p)) ps = ps"
      using inv(2) by (intro map_idI) force
    with True x Cons.prems(2) show ?thesis by (simp add: ac_simps)
  next
    case False
    with Cons inv x show ?thesis by (simp add: ac_simps)
  qed
qed simp

lemma upd_pool_frame [simp]:
  "config_pool (upd_pool k g c) k' = (if k' = k then map_option g (config_pool c k') else config_pool c k')"
  "cf_default_pool (upd_pool k g c) = cf_default_pool c" "cf_proxy (upd_pool k g c) = cf_proxy c"
  "al_keys (cf_pools (upd_pool k g c)) = al_keys (cf_pools c)"
  "bt_inv (cf_pools (upd_pool k g c)) = bt_inv (cf_pools c)"
proof -
  have "map_of (map (\<lambda>(x, p). if x = k then (x, g p) else (x, p)) ps) k' = (if k' = k then map_option g (map_of ps k') else map_of ps k')"
    for ps by (induction ps) auto
  then show "config_pool (upd_pool k g c) k' = (if k' = k then map_option g (config_pool c k') else config_pool c k')"
    by (simp add: upd_pool_def config_pool_def)
  have keys: "map fst (map (\<lambda>(x, p). if x = k then (x, g p) else (x, p)) ps) = map fst ps" for ps
    by (induction ps) auto
  then show "al_keys (cf_pools (upd_pool k g c)) = al_keys (cf_pools c)" "bt_inv (cf_pools (upd_pool k g c)) = bt_inv (cf_pools c)"
    by (simp_all add: upd_pool_def bt_inv_def del: map_map map_eq_conv)
qed (simp_all add: upd_pool_def)

lemma position_append: "position P as = Some i \<Longrightarrow> i < length as \<and> P (as ! i)"
  by (rule position_SomeD)

lemma locate_by_SomeD:
  "locate_by c P = Some (p, i) \<Longrightarrow> \<exists>pc. config_pool c p = Some pc \<and> i < length (pc_accounts pc) \<and> P (pc_accounts pc ! i)"
  by (auto simp: locate_by_def bind_eq_Some_conv dest!: find_map_SomeD position_SomeD)

lemma remove_at_mset: "i < length xs \<Longrightarrow> add_mset (xs ! i) (mset (remove_at i xs)) = mset xs"
proof -
  assume "i < length xs"
  then have "xs = take i xs @ xs ! i # drop (Suc i) xs" by (rule id_take_nth_drop)
  then show ?thesis
    by (metis (no_types) mset_append mset.simps(2) remove_at_def union_mset_add_mset_right)
qed

text \<open>Filing an entry neither loses nor copies an account.\<close>

lemma push_account_mset:
  "bt_inv (cf_pools c) \<Longrightarrow> accounts_of (cf_pools (push_account pool a c)) = add_mset a (accounts_of (cf_pools c))"
  using accounts_of_insert [of "cf_pools c" pool "pc_accounts_update (\<lambda>as. as @ [a]) (unwrap_or pool_default (config_pool c pool))"]
  by (cases "config_pool c pool") (auto simp: push_account_def config_pool_def pool_default_def ac_simps)

lemma push_account_at [simp]:
  "account_at (push_account pool a c) pool (accounts_in c pool) = a"
  "accounts_in (push_account pool a c) pool = Suc (accounts_in c pool)"
  by (auto simp: account_at_def push_account_def config_pool_def accounts_in_def Let_def pool_default_def
      split: option.splits)

lemma entry_at_mset:
  assumes inv: "bt_inv (cf_pools c)" and r: "entry_at pool found new c = (c', i, updated)"
    and found: "\<And>p j. found = Some (p, j) \<Longrightarrow> j < accounts_in c p"
  shows "bt_inv (cf_pools c') \<and> i < accounts_in c' pool \<and> updated = (found \<noteq> None)
    \<and> accounts_of (cf_pools c') = (case found of Some _ \<Rightarrow> accounts_of (cf_pools c) | None \<Rightarrow> add_mset new (accounts_of (cf_pools c)))
    \<and> account_at c' pool i = (case found of Some (p, j) \<Rightarrow> account_at c p j | None \<Rightarrow> new)"
proof (cases found)
  case None
  with r inv show ?thesis
    by (auto simp: entry_at_def push_account_mset) (simp add: push_account_def Let_def bt_inv_insert)
next
  case (Some pj)
  obtain p j where pj: "found = Some (p, j)" using Some by (cases pj) simp
  show ?thesis
  proof (cases "p = pool")
    case True
    with r pj inv found show ?thesis by (auto simp: entry_at_def)
  next
    case False
    let ?c1 = "upd_pool p (pc_accounts_update (remove_at j)) c"
    from found [OF pj] obtain pc where pc: "config_pool c p = Some pc" "j < length (pc_accounts pc)"
      by (auto simp: accounts_in_def split: option.splits)
    have "accounts_of (cf_pools ?c1) + mset (pc_accounts pc) = accounts_of (cf_pools c) + mset (remove_at j (pc_accounts pc))"
      using accounts_of_upd [OF inv, of p pc "pc_accounts_update (remove_at j)"] pc(1)
      by (simp add: upd_pool_def config_pool_def)
    moreover have "mset (pc_accounts pc) = add_mset (pc_accounts pc ! j) (mset (remove_at j (pc_accounts pc)))"
      using remove_at_mset [OF pc(2)] by simp
    ultimately have "add_mset (account_at c p j) (accounts_of (cf_pools ?c1)) = accounts_of (cf_pools c)"
      using pc(1) by (simp add: account_at_def)
    moreover have "bt_inv (cf_pools ?c1)" using inv by simp
    ultimately show ?thesis
      using r pj False
      by (auto simp: entry_at_def Let_def push_account_mset) (simp add: push_account_def Let_def bt_inv_insert)
  qed
qed

lemma upd_entry_mset:
  assumes "bt_inv (cf_pools c)" and "i < accounts_in c pool"
  shows "add_mset (account_at c pool i) (accounts_of (cf_pools (upd_entry pool i g c)))
      = add_mset (account_at (upd_entry pool i g c) pool i) (accounts_of (cf_pools c))
    \<and> account_at (upd_entry pool i g c) pool i = g (account_at c pool i)
    \<and> accounts_in (upd_entry pool i g c) pool = accounts_in c pool"
proof -
  from assms(2) obtain pc where pc: "config_pool c pool = Some pc" "i < length (pc_accounts pc)"
    by (auto simp: accounts_in_def split: option.splits)
  let ?f = "pc_accounts_update (\<lambda>as. as[i := g (as ! i)])"
  have at: "account_at c pool i = pc_accounts pc ! i"
    "account_at (upd_entry pool i g c) pool i = g (pc_accounts pc ! i)"
    "accounts_in (upd_entry pool i g c) pool = accounts_in c pool"
    using pc by (simp_all add: account_at_def upd_entry_def accounts_in_def)
  have "accounts_of (cf_pools (upd_entry pool i g c)) + mset (pc_accounts pc)
      = accounts_of (cf_pools c) + mset ((pc_accounts pc)[i := g (pc_accounts pc ! i)])"
    using accounts_of_upd [OF assms(1), of pool pc ?f] pc(1) by (simp add: upd_entry_def upd_pool_def config_pool_def)
  moreover have "mset ((pc_accounts pc)[i := g (pc_accounts pc ! i)]) + {#pc_accounts pc ! i#}
      = mset (pc_accounts pc) + {#g (pc_accounts pc ! i)#}"
    using pc(2) by (simp add: mset_update)
  ultimately have "accounts_of (cf_pools (upd_entry pool i g c)) + mset (pc_accounts pc) + {#pc_accounts pc ! i#}
      = accounts_of (cf_pools c) + {#g (pc_accounts pc ! i)#} + mset (pc_accounts pc)"
    by (simp add: ac_simps)
  then have "add_mset (pc_accounts pc ! i) (accounts_of (cf_pools (upd_entry pool i g c)))
      = add_mset (g (pc_accounts pc ! i)) (accounts_of (cf_pools c))" by (simp add: ac_simps)
  with at show ?thesis by simp
qed

lemma login_entry_fields [simp]:
  "ac_id (login_entry name t prof a) = ac_id a" "ac_name (login_entry name t prof a) = name"
  "ac_access_token (login_entry name t prof a) = Some (tk_access t)"
  "ac_refresh_token (login_entry name t prof a) = tk_refresh t"
  "ac_import_from (login_entry name t prof a) = None" "ac_kind (login_entry name t prof a) = Oauth"
  "ac_priority (login_entry name t prof a) = ac_priority a" "ac_disabled (login_entry name t prof a) = ac_disabled a"
  "ac_upstream (login_entry name t prof a) = ac_upstream a"
  by (simp_all add: login_entry_def Let_def split: option.split)

lemma login_match_SomeD:
  "login_match c name prof = Some (p, j) \<Longrightarrow> j < accounts_in c p \<and>
     (ac_name (account_at c p j) = name \<or>
      (\<exists>pr au. prof = Some pr \<and> pr_account_uuid pr = Some au \<and> ac_account_uuid (account_at c p j) = Some au
         \<and> (pr_org_uuid pr = None \<or> ac_org_uuid (account_at c p j) = pr_org_uuid pr)))"
  by (auto simp: login_match_def opt_or_def accounts_in_def account_at_def bind_eq_Some_conv
      dest!: locate_by_SomeD split: option.splits)

text \<open>Filing a login ends with exactly one entry that holds the new tokens, in the pool asked for.
  When the profile's account, or failing that the display name, is already configured anywhere,
  that entry is taken over, moved from its pool if need be, with its id, priority and disabled
  flag kept; otherwise one entry is added. No other account is lost, copied or changed.\<close>

theorem upsert_oauth_correct:
  assumes "bt_inv (cf_pools c)" and "upsert_oauth_at pool name t prof c = (c', i, updated)"
  shows "let a = account_at c' pool i in
     i < accounts_in c' pool \<and> ac_name a = name \<and> ac_kind a = Oauth
   \<and> ac_access_token a = Some (tk_access t) \<and> ac_refresh_token a = tk_refresh t \<and> ac_import_from a = None
   \<and> (case login_match c name prof of
        None \<Rightarrow> \<not> updated \<and> ac_id a = None \<and> accounts_of (cf_pools c') = add_mset a (accounts_of (cf_pools c))
      | Some (p, j) \<Rightarrow> updated
          \<and> (let old = account_at c p j in
               ac_id a = ac_id old \<and> ac_priority a = ac_priority old \<and> ac_disabled a = ac_disabled old
             \<and> add_mset old (accounts_of (cf_pools c')) = add_mset a (accounts_of (cf_pools c))))"
proof -
  let ?new = "account_config_default\<lparr>ac_name := name, ac_kind := Oauth\<rparr>"
  obtain d where d: "entry_at pool (login_match c name prof) ?new c = (d, i, updated)"
    and c': "c' = upd_entry pool i (login_entry name t prof) d"
    using assms(2) by (auto simp: upsert_oauth_at_def split: prod.splits)
  note e = entry_at_mset [OF assms(1) d] and m = login_match_SomeD [of c name prof]
  have entry: "bt_inv (cf_pools d)" "i < accounts_in d pool" using e m by (auto split: option.splits)
  note u = upd_entry_mset [OF entry, of "login_entry name t prof", folded c']
  show ?thesis
  proof (cases "login_match c name prof")
    case None
    then have "account_at d pool i = ?new" "accounts_of (cf_pools d) = add_mset ?new (accounts_of (cf_pools c))" "\<not> updated"
      using e by auto
    with None u entry(2) show ?thesis
      by (simp add: Let_def add_mset_commute [of ?new]) (simp add: account_config_default_def)
  next
    case (Some pj)
    obtain p j where pj: "pj = (p, j)" by (cases pj)
    then have "account_at d pool i = account_at c p j" "accounts_of (cf_pools d) = accounts_of (cf_pools c)" updated
      using e m Some by auto
    with Some pj u entry(2) show ?thesis by (simp add: Let_def)
  qed
qed

theorem upsert_oauth_correct_witness:
  "\<exists>c'. upsert_oauth_at ''default'' ''me'' \<lparr>tk_access = ''t'', tk_refresh = None, tk_expires_at = 9, tk_refresh_expires_at = None\<rparr>
       None (config_default ''k'') = (c', 0, False)
     \<and> ac_access_token (account_at c' ''default'' 0) = Some ''t''"
proof -
  let ?t = "\<lparr>tk_access = ''t'', tk_refresh = None, tk_expires_at = 9, tk_refresh_expires_at = None\<rparr>"
  have cfg: "cf_pools (config_default ''k'') = [(''default'', pool_default)]"
    by (simp add: config_default_def DEFAULT_POOL_def)
  have "position P [] = None" for P :: "account_config \<Rightarrow> bool" by (simp add: position_None)
  then have none: "login_match (config_default ''k'') ''me'' None = None"
    by (auto simp: login_match_def locate_by_def config_pool_def cfg pool_default_def bind_eq_None_conv split: if_splits)
  have "fst (snd (upsert_oauth_at ''default'' ''me'' ?t None (config_default ''k''))) = 0"
    by (simp add: upsert_oauth_at_def none entry_at_def accounts_in_def config_pool_def cfg pool_default_def)
  then obtain c' u where r: "upsert_oauth_at ''default'' ''me'' ?t None (config_default ''k'') = (c', 0, u)"
    by (metis prod.collapse)
  have "bt_inv (cf_pools (config_default ''k''))" by (simp add: cfg bt_inv_def)
  from upsert_oauth_correct [OF this r] r none show ?thesis by (auto simp: Let_def)
qed

end
