(* ===== verification/Mitm.thy ===== *)
theory Mitm
  imports Pools_Props Http
begin

text \<open>
  \<open>src/proxy/mitm.rs\<close>, the policy of the CONNECT side: which hosts are intercepted, which get a
  blind tunnel and to which addresses. A name lookup is a parameter. Certificates are not
  modelled.
\<close>

datatype lookup_result = Resolved "(ip \<times> nat) list" | LookupFailed | LookupSlow

type_synonym dns = "string \<Rightarrow> nat \<Rightarrow> lookup_result"

definition TEST_HOST :: string where "TEST_HOST = ''www.example.org''"

datatype host_mode = Intercept | TestMode | Tunnel | Refuse string

definition SESSION_TUNNEL_HOSTS :: "string list" where
  "SESSION_TUNNEL_HOSTS = [''platform.claude.com'', ''mcp-proxy.anthropic.com'']"

definition parse_port :: "string \<Rightarrow> nat option" where
  "parse_port = parse_unsigned 65535"

text \<open>\<open>parse_authority\<close>: every error is \<open>None\<close>.\<close>

definition parse_authority :: "string \<Rightarrow> (string \<times> nat) option" where
  "parse_authority a0 =
     (let a = trim a0
      in (case strip_prefix ''['' a of
            Some rest \<Rightarrow>
              (case find_sub '']:'' rest of
                 None \<Rightarrow> None
               | Some k \<Rightarrow> map_option (Pair (take k rest)) (parse_port (drop (k + 2) rest)))
          | None \<Rightarrow>
              (case rsplit_once CHR '':'' a of
                 None \<Rightarrow> None
               | Some (host, port) \<Rightarrow>
                   if host = [] \<or> list_ex (\<lambda>c. c = CHR ''/'') host then None
                   else map_option (Pair (to_lower host)) (parse_port port))))"

definition is_session_tunnel_host :: "string \<Rightarrow> bool" where
  "is_session_tunnel_host host \<longleftrightarrow>
     (let h = to_lower host in h \<in> set SESSION_TUNNEL_HOSTS \<or> ends_with ''.mcp.claude.com'' h)"

definition host_port :: "string \<Rightarrow> nat \<Rightarrow> string" where
  "host_port host port = host @ '':'' @ show_nat port"

definition tunnel_allowed :: "mitm_config \<Rightarrow> string \<Rightarrow> nat \<Rightarrow> bool" where
  "tunnel_allowed m host port \<longleftrightarrow>
     list_ex (\<lambda>a. eq_ignore_case a (host_port host port) \<or> eq_ignore_case a host) (mc_tunnel_allow m)"

definition host_mode_of :: "string \<Rightarrow> nat \<Rightarrow> string list \<Rightarrow> mitm_config \<Rightarrow> host_mode" where
  "host_mode_of host port intercept m =
     (if eq_ignore_case host TEST_HOST then TestMode
      else if list_ex (\<lambda>h. eq_ignore_case h host) intercept \<and> port = 443 then Intercept
      else if is_session_tunnel_host host \<and> port = 443 then Tunnel
      else if \<not> mc_allow_tunnel m then Refuse ''blind tunnels are disabled (mitm.allowTunnel)''
      else if mc_tunnel_allow m \<noteq> [] \<and> \<not> tunnel_allowed m host port
      then Refuse ''host not in mitm.tunnelAllow''
      else if mc_tunnel_allow m = [] \<and> port \<noteq> 443 then Refuse ''blind tunnels are limited to port 443''
      else if is_loopback_host host then Refuse ''tunnel to loopback refused''
      else (case parse_ip host of
              Some ip \<Rightarrow> if is_private_ip ip then Refuse ''tunnel to private address refused'' else Tunnel
            | None \<Rightarrow> Tunnel))"

definition vet_tunnel_addrs :: "(ip \<times> nat) list \<Rightarrow> string + (ip \<times> nat) list" where
  "vet_tunnel_addrs addrs =
     (if addrs = [] then Inl ''tunnel host did not resolve''
      else if list_ex (\<lambda>a. is_loopback_ip (fst a)) addrs then Inl ''tunnel to loopback refused''
      else if list_ex (\<lambda>a. is_private_ip (fst a)) addrs then Inl ''tunnel to private address refused''
      else Inr addrs)"

text \<open>\<open>None\<close>: not done within the caller's time limit.\<close>

definition resolve_tunnel_target :: "dns \<Rightarrow> string \<Rightarrow> nat \<Rightarrow> (string + (ip \<times> nat) list) option" where
  "resolve_tunnel_target lookup host port =
     (let bare = strip_brackets host
      in (case parse_ip bare of
            Some ip \<Rightarrow> Some (vet_tunnel_addrs [(ip, port)])
          | None \<Rightarrow>
              (case lookup bare port of
                 LookupSlow \<Rightarrow> None
               | LookupFailed \<Rightarrow> Some (Inl ''tunnel host did not resolve'')
               | Resolved addrs \<Rightarrow> Some (vet_tunnel_addrs addrs))))"

definition public_addr :: "ip \<Rightarrow> bool" where
  "public_addr ip \<longleftrightarrow> \<not> is_loopback_ip ip \<and> \<not> is_private_ip ip"

lemma vet_tunnel_addrs_spec:
  "vet_tunnel_addrs addrs = Inr out \<longleftrightarrow> out = addrs \<and> addrs \<noteq> [] \<and> (\<forall>a \<in> set addrs. public_addr (fst a))"
  by (auto simp: vet_tunnel_addrs_def public_addr_def list_ex_iff)

subsection \<open>A CONNECT request\<close>

text \<open>\<open>intercept_hosts\<close> and \<open>handle_connect\<close> of \<open>src/proxy/server.rs\<close>, up to the hand-over of the
  socket. The target is the authority of the request line.\<close>

definition intercept_hosts :: "ext \<Rightarrow> config \<Rightarrow> string list" where
  "intercept_hosts E cfg =
     (let up = (case url_host E (cf_upstream cfg) of Some h \<Rightarrow> [h] | None \<Rightarrow> []);
          api = (if ''api.anthropic.com'' \<in> set up then up else up @ [''api.anthropic.com''])
      in if list_ex (\<lambda>(_, a). is_codex a) (all_accounts cfg) then api @ [CODEX_HOST] else api)"

definition connect_mode :: "ext \<Rightarrow> config \<Rightarrow> string \<Rightarrow> nat \<Rightarrow> host_mode" where
  "connect_mode E cfg host port =
     (if eq_ignore_case host CODEX_NEVER_INTERCEPT
      then (if mc_allow_tunnel (cf_mitm cfg) then Tunnel
            else Refuse ''telemetry host is never intercepted; enable mitm.allowTunnel to pass it through'')
      else host_mode_of host port (intercept_hosts E cfg) (cf_mitm cfg))"

record tunnel_ctx =
  tc_auth :: auth
  tc_pin :: "string option"
  tc_pool :: "string option"
  tc_host :: string

datatype connect_outcome =
    Answer response
  | OpenTunnel "(ip \<times> nat) list"
  | OpenIntercept tunnel_ctx
  | OpenTest tunnel_ctx
  | Panicked

definition proxy_auth_required :: "string \<Rightarrow> response" where
  "proxy_auth_required msg =
     rs_headers_update (hm_insert ''proxy-authenticate'' (''Basic realm='' @ [CHR 0x22] @ ''corrall'' @ [CHR 0x22]))
       (error_response 407 ''authentication_error'' msg)"

record metrics =
  mt_requests_total :: nat
  mt_requests_failed :: nat
  mt_auth_failures :: nat
  mt_connects_total :: nat

definition count_auth_failure :: "metrics \<Rightarrow> metrics" where
  "count_auth_failure m = m\<lparr>mt_auth_failures := u64_inc (mt_auth_failures m)\<rparr>"

definition count_connect :: "metrics \<Rightarrow> metrics" where
  "count_connect m = m\<lparr>mt_connects_total := u64_inc (mt_connects_total m)\<rparr>"

definition no_certificate :: response where
  "no_certificate = error_response 502 ''api_error'' ''MITM certificate unavailable''"

text \<open>What a CONNECT that passed authentication and named a host and port is answered with. \<open>tls\<close>
  is whether \<open>tls_config\<close> finds or makes the certificates.\<close>

definition connect_admitted ::
  "ext \<Rightarrow> config \<Rightarrow> dns \<Rightarrow> bool \<Rightarrow> auth \<Rightarrow> string option \<Rightarrow> string option \<Rightarrow> int \<Rightarrow> registry \<Rightarrow> string \<Rightarrow> nat
   \<Rightarrow> connect_outcome \<times> registry" where
  "connect_admitted E cfg lookup tls auth pin asked now rg host port =
     (case connect_mode E cfg host port of
        Refuse why \<Rightarrow> (Answer (error_response 403 ''permission_error'' why), rg)
      | Tunnel \<Rightarrow>
          (case resolve_tunnel_target lookup host port of
             None \<Rightarrow> (Answer (error_response 502 ''api_error'' ''tunnel host did not resolve in time''), rg)
           | Some (Inl why) \<Rightarrow> (Answer (error_response 403 ''permission_error'' why), rg)
           | Some (Inr addrs) \<Rightarrow> (OpenTunnel addrs, rg))
      | TestMode \<Rightarrow>
          (if \<not> tls then Answer no_certificate
           else OpenTest \<lparr>tc_auth = auth, tc_pin = None, tc_pool = None, tc_host = host\<rparr>, rg)
      | Intercept \<Rightarrow>
          (case resolve_request asked now rg of
             (None, rg') \<Rightarrow> (Panicked, rg')
           | (Some (name, f), rg') \<Rightarrow>
               (if (case pin of Some p \<Rightarrow> resolve_pin f p = None | None \<Rightarrow> False)
                then (Answer (proxy_auth_required ''unknown account pin''), rg')
                else if \<not> tls then (Answer no_certificate, rg')
                else (OpenIntercept \<lparr>tc_auth = auth, tc_pin = pin, tc_pool = Some name, tc_host = host\<rparr>, rg'))))"

definition handle_connect ::
  "ext \<Rightarrow> config \<Rightarrow> dns \<Rightarrow> bool \<Rightarrow> ip \<Rightarrow> header_map \<Rightarrow> string option \<Rightarrow> int \<Rightarrow> metrics \<times> registry
   \<Rightarrow> connect_outcome \<times> metrics \<times> registry" where
  "handle_connect E cfg lookup tls peer h authority now st =
     (let m = count_connect (fst st); rg = snd st;
          (auth, user) = authenticate_connect E (cf_proxy cfg) peer h;
          (pin, asked) = (case user of Some u \<Rightarrow> split_pin_pool u | None \<Rightarrow> (None, None))
      in (case auth of
            Denied why \<Rightarrow> (Answer (proxy_auth_required ''proxy authentication required''), count_auth_failure m, rg)
          | _ \<Rightarrow>
              (case parse_authority (unwrap_or [] authority) of
                 None \<Rightarrow> (Answer (error_response 400 ''invalid_request_error'' ''bad CONNECT authority''), m, rg)
               | Some (host, port) \<Rightarrow>
                   (let (res, rg') = connect_admitted E cfg lookup tls auth pin asked now rg host port
                    in (res, m, rg')))))"

subsection \<open>What a CONNECT can reach\<close>

definition not_denied :: "auth \<Rightarrow> bool" where
  "not_denied a \<longleftrightarrow> (case a of Denied _ \<Rightarrow> False | _ \<Rightarrow> True)"

text \<open>The grounds on which a host gets a blind tunnel.\<close>

definition tunnel_ground :: "config \<Rightarrow> string \<Rightarrow> nat \<Rightarrow> bool" where
  "tunnel_ground cfg host port \<longleftrightarrow>
     is_session_tunnel_host host \<and> port = 443
     \<or> mc_allow_tunnel (cf_mitm cfg) \<and>
         (eq_ignore_case host CODEX_NEVER_INTERCEPT
          \<or> mc_tunnel_allow (cf_mitm cfg) = [] \<and> port = 443
          \<or> tunnel_allowed (cf_mitm cfg) host port)"

lemma connect_mode_tunnel: "connect_mode E cfg host port = Tunnel \<Longrightarrow> tunnel_ground cfg host port"
  by (auto simp: connect_mode_def host_mode_of_def tunnel_ground_def split: if_splits)

lemma connect_mode_intercept:
  "connect_mode E cfg host port = Intercept \<Longrightarrow>
   port = 443 \<and> (\<exists>h \<in> set (intercept_hosts E cfg). eq_ignore_case h host)"
  by (auto simp: connect_mode_def host_mode_of_def list_ex_iff split: if_splits option.splits)

lemma resolve_public:
  "resolve_tunnel_target lookup host port = Some (Inr addrs) \<Longrightarrow>
   addrs \<noteq> [] \<and> (\<forall>a \<in> set addrs. public_addr (fst a))"
  by (auto simp: resolve_tunnel_target_def vet_tunnel_addrs_spec Let_def
      split: option.splits lookup_result.splits)

lemma connect_mode_test: "connect_mode E cfg host port = TestMode \<Longrightarrow> eq_ignore_case host TEST_HOST"
  by (auto simp: connect_mode_def host_mode_of_def split: if_splits option.splits)

text \<open>What each outcome of an admitted CONNECT guarantees.\<close>

definition connect_sound :: "ext \<Rightarrow> config \<Rightarrow> auth \<Rightarrow> int \<Rightarrow> registry \<Rightarrow> string \<Rightarrow> nat \<Rightarrow> connect_outcome \<Rightarrow> bool" where
  "connect_sound E cfg auth now rg host port res \<longleftrightarrow>
     (case res of
        Answer r \<Rightarrow> rs_status r \<in> {403, 407, 502}
      | Panicked \<Rightarrow> connect_mode E cfg host port = Intercept
      | OpenTunnel addrs \<Rightarrow> addrs \<noteq> [] \<and> (\<forall>a \<in> set addrs. public_addr (fst a)) \<and> tunnel_ground cfg host port
      | OpenIntercept t \<Rightarrow> tc_auth t = auth \<and> tc_host t = host \<and> port = 443
          \<and> (\<exists>i \<in> set (intercept_hosts E cfg). eq_ignore_case i host)
          \<and> (\<exists>asked name f. fst (resolve_request asked now rg) = Some (name, f) \<and> tc_pool t = Some name
               \<and> (\<forall>p. tc_pin t = Some p \<longrightarrow> resolve_pin f p \<noteq> None))
      | OpenTest t \<Rightarrow> tc_auth t = auth \<and> tc_host t = host \<and> eq_ignore_case host TEST_HOST)"

lemma connect_admitted_sound:
  assumes "connect_admitted E cfg lookup tls auth pin asked now rg host port = (res, rg')"
  shows "connect_sound E cfg auth now rg host port res"
proof (cases "connect_mode E cfg host port")
  case Intercept
  note m = connect_mode_intercept [OF Intercept]
  obtain picked rg1 where r: "resolve_request asked now rg = (picked, rg1)" by fastforce
  then have f: "\<And>name f. picked = Some (name, f) \<Longrightarrow>
      \<exists>asked. fst (resolve_request asked now rg) = Some (name, f)" by (intro exI [of _ asked]) simp
  show ?thesis
  proof (cases picked)
    case None
    then show ?thesis using assms Intercept r by (simp add: connect_admitted_def connect_sound_def)
  next
    case (Some nf)
    then obtain name fl where nf: "picked = Some (name, fl)" by (cases nf) simp
    show ?thesis
    proof (cases "case pin of Some p \<Rightarrow> resolve_pin fl p = None | None \<Rightarrow> False")
      case True
      then show ?thesis
        using assms Intercept r nf by (auto simp: connect_admitted_def connect_sound_def proxy_auth_required_def)
    next
      case False
      show ?thesis
      proof (cases tls)
        case tls: True
        have "res = OpenIntercept \<lparr>tc_auth = auth, tc_pin = pin, tc_pool = Some name, tc_host = host\<rparr>"
          using assms Intercept r nf False tls by (simp add: connect_admitted_def)
        with m f [OF nf] False show ?thesis
          by (simp add: connect_sound_def split: option.splits) (blast, metis)
      next
        case no: False
        then show ?thesis
          using assms Intercept r nf False by (auto simp: connect_admitted_def connect_sound_def no_certificate_def)
      qed
    qed
  qed
next
  case Tunnel
  then show ?thesis
    using assms connect_mode_tunnel [OF Tunnel] resolve_public [of lookup host port]
    by (auto simp: connect_admitted_def connect_sound_def split: option.splits sum.splits)
qed (use assms connect_mode_test in \<open>auto simp: connect_admitted_def connect_sound_def no_certificate_def split: if_splits\<close>)



end
