(* ===== verification/Upstream.thy ===== *)
theory Upstream
  imports Config_Load Security
begin

text \<open>
  \<open>src/upstream.rs\<close>: which proxy the outbound client goes through and the timers of the
  forwarder. URLs are parsed by the \<open>url\<close> crate, a parameter.
\<close>

record 'u url_ops =
  uo_parse :: "string \<Rightarrow> 'u option"
  uo_host :: "'u \<Rightarrow> string option"
  uo_port :: "'u \<Rightarrow> nat option"
  uo_password :: "'u \<Rightarrow> string option"
  uo_set_password :: "string \<Rightarrow> 'u \<Rightarrow> 'u"
  uo_print :: "'u \<Rightarrow> string"

definition env_ms :: "ext \<Rightarrow> string \<Rightarrow> nat \<Rightarrow> nat" where
  "env_ms E name dflt =
     unwrap_or dflt (opt_filter (\<lambda>v. 0 < v) (Option.bind (getenv E name) (parse_unsigned u64_max)))"

definition headers_timeout :: "ext \<Rightarrow> nat" where
  "headers_timeout E = env_ms E ''CORRALL_UPSTREAM_HEADERS_TIMEOUT_MS'' 120000"

definition body_idle_timeout :: "ext \<Rightarrow> nat" where
  "body_idle_timeout E = env_ms E ''CORRALL_UPSTREAM_BODY_TIMEOUT_MS'' 120000"

definition refresh_timeout :: "ext \<Rightarrow> nat" where
  "refresh_timeout E = env_ms E ''CORRALL_REFRESH_TIMEOUT_MS'' 30000"

datatype proxy_setting = ProxyEnv | ProxyNone | ProxyUrl string

definition resolve_proxy :: "config \<Rightarrow> proxy_setting" where
  "resolve_proxy cfg =
     (case cf_upstream_proxy cfg of
        None \<Rightarrow> ProxyEnv
      | Some u \<Rightarrow>
          if u \<in> {[], ''false'', ''off''} then ProxyNone
          else ProxyUrl (if contains u ''://'' then u else ''http://'' @ u))"

text \<open>What \<open>init\<close> gives the client: the environment's proxies, none, or this one but for the hosts of a
  list. \<open>proxy_ok\<close> is \<open>reqwest::Proxy::all\<close> accepting the URL; \<open>Inl\<close> is the failure to start.\<close>

datatype proxy_choice = FromEnvironment | Direct | Via string "string option"

definition choose_proxy :: "ext \<Rightarrow> 'u url_ops \<Rightarrow> (string \<Rightarrow> bool) \<Rightarrow> config \<Rightarrow> string + proxy_choice" where
  "choose_proxy E U proxy_ok cfg =
     (case resolve_proxy cfg of
        ProxyEnv \<Rightarrow> Inr FromEnvironment
      | ProxyNone \<Rightarrow> Inr Direct
      | ProxyUrl u \<Rightarrow>
          (case uo_parse U u of
             None \<Rightarrow> Inr FromEnvironment
           | Some p \<Rightarrow>
               if is_loopback_host (unwrap_or [] (uo_host U p)) \<and> uo_port U p = Some (px_port (cf_proxy cfg))
               then Inr Direct
               else if \<not> proxy_ok u then Inl ''upstreamProxy is not a valid proxy URL''
               else Inr (Via u (opt_or (cf_no_proxy cfg) (getenv E ''NO_PROXY'')))))"

definition redact_url :: "'u url_ops \<Rightarrow> string \<Rightarrow> string" where
  "redact_url U u =
     (case uo_parse U u of
        Some p \<Rightarrow> uo_print U (if uo_password U p \<noteq> None then uo_set_password U ''***'' p else p)
      | None \<Rightarrow> u)"

definition describe_proxy :: "ext \<Rightarrow> 'u url_ops \<Rightarrow> config \<Rightarrow> string" where
  "describe_proxy E U cfg =
     (case resolve_proxy cfg of
        ProxyEnv \<Rightarrow>
          (case opt_or (getenv E ''HTTPS_PROXY'') (opt_or (getenv E ''https_proxy'') (getenv E ''ALL_PROXY'')) of
             Some v \<Rightarrow> redact_url U v @ '' (from environment)'' | None \<Rightarrow> ''direct'')
      | ProxyNone \<Rightarrow> ''direct (environment ignored)''
      | ProxyUrl u \<Rightarrow> redact_url U u)"

text \<open>The client is never pointed back at the proxy's own listener.\<close>

lemma never_via_itself:
  assumes "choose_proxy E U proxy_ok cfg = Inr (Via u np)" and "uo_parse U u = Some p"
  shows "\<not> (is_loopback_host (unwrap_or [] (uo_host U p)) \<and> uo_port U p = Some (px_port (cf_proxy cfg)))"
  using assms by (auto simp: choose_proxy_def split: proxy_setting.splits option.splits if_splits)

text \<open>What status shows of a proxy hides its password, whatever the URL.\<close>

lemma redacted_password:
  assumes "\<And>p. uo_password U (uo_set_password U ''***'' p) = Some ''***''" and "uo_parse U u = Some p"
  shows "\<exists>q. redact_url U u = uo_print U q \<and> uo_password U q \<in> {None, Some ''***''}"
  using assms by (auto simp: redact_url_def)

lemma timeout_positive: "0 < headers_timeout E" "0 < body_idle_timeout E" "0 < refresh_timeout E"
  by (simp_all add: headers_timeout_def body_idle_timeout_def refresh_timeout_def env_ms_def
      unwrap_or_def split: option.split)

end
