(* ===== verification/Server_State.thy ===== *)
theory Server_State
  imports Account_Edits Prober Mitm Upstream
begin

text \<open>
  The state the handlers of \<open>src/proxy/server.rs\<close> share, and the two ways they change the configuration:
  \<open>Config::update\<close> on the file, and the reload of \<open>src/main.rs\<close> that applies the file to the running
  fleets. What a handler draws or reads from outside (clock, random strings, wording of errors)
  is in \<open>daemon\<close>; \<open>da_uuid k\<close> and \<open>da_now k\<close> are what the \<open>k\<close>-th use of them gives.
\<close>

datatype login_failure = BadCode login_error | ExchangeFailed http_reply | NoTokens

record 'u daemon =
  da_ext :: ext
  da_import :: importer
  da_decode :: "json \<Rightarrow> config option"
  da_encode :: "config \<Rightarrow> string"
  da_key :: string
  da_uuid :: "nat \<Rightarrow> nat \<Rightarrow> string"
  da_legacy :: bool
  da_write_ok :: bool
  da_reload :: bool
  da_prober :: bool
  da_listen :: "string option"
  da_port :: "nat option"
  da_now :: "nat \<Rightarrow> int"
  da_mono :: nat
  \<comment> \<open>what \<open>random_key\<close> draws: the verifier, the state and the flow id of a login\<close>
  da_draw :: "nat \<Rightarrow> string"
  \<comment> \<open>base64url of the SHA-256 of a string\<close>
  da_challenge :: "string \<Rightarrow> string"
  \<comment> \<open>a URL with these query pairs appended\<close>
  da_query_url :: "string \<Rightarrow> (string \<times> string) list \<Rightarrow> string"
  da_exchange :: "json \<Rightarrow> http_reply"
  da_profile :: "string \<Rightarrow> http_reply"
  da_urls :: "'u url_ops"
  da_version :: string
  da_ca_path :: string
  da_error_text :: "edit_error \<Rightarrow> string"
  da_login_text :: "login_failure \<Rightarrow> string"
  \<comment> \<open>\<open>Debug\<close> of a string and \<open>Display\<close> of a number\<close>
  da_debug :: "string \<Rightarrow> string"
  da_show_f64 :: "f64 \<Rightarrow> string"

record pending_flow =
  pf_verifier :: string
  pf_state :: string
  pf_pool :: "string option"
  pf_name :: "string option"
  pf_created_at :: int

record server =
  sv_pools :: registry
  sv_config :: config
  sv_file :: file_read
  sv_metrics :: metrics
  sv_events :: "activity list"
  sv_flows :: "(string \<times> pending_flow) list"
  sv_manual :: "nat option"
  sv_probing :: bool

subsection \<open>Bodies\<close>

text \<open>\<open>Inl True\<close> is too large, \<open>Inl False\<close> unreadable; nothing comes back from a client that stalls.\<close>

fun read_body :: "nat \<Rightarrow> string \<Rightarrow> chunk list \<Rightarrow> (bool + string) option" where
  "read_body limit out [] = Some (Inr out)"
| "read_body limit out (Chunk c # cs) =
     (if limit < length out + length c then Some (Inl True) else read_body limit (out @ c) cs)"
| "read_body limit out (Broken # cs) = Some (Inl False)"
| "read_body limit out (Stalled # cs) = None"

definition CONTROL_BODY_LIMIT :: nat where "CONTROL_BODY_LIMIT = 64 * 1024"

subsection \<open>The file\<close>

definition save_file :: "'u daemon \<Rightarrow> config \<Rightarrow> file_read \<Rightarrow> file_read" where
  "save_file D c file = (if da_write_ok D then file_read.Bytes (da_encode D c) else file)"

definition load_file :: "'u daemon \<Rightarrow> nat \<Rightarrow> file_read \<Rightarrow> (edit_error + config option) \<times> file_read" where
  "load_file D k file =
     (case load_from (da_ext D) (da_decode D) (da_key D) (da_uuid D k) (da_legacy D) file of
        Inl e \<Rightarrow> (Inl (CfgErr e), file)
      | Inr None \<Rightarrow> (Inr None, file)
      | Inr (Some (c, w)) \<Rightarrow> (Inr (Some c), case w of Some c' \<Rightarrow> save_file D c' file | None \<Rightarrow> file))"

text \<open>\<open>Config::update\<close>: nothing is written when the change is refused. The change may answer with a value.\<close>

definition config_update ::
  "'u daemon \<Rightarrow> nat \<Rightarrow> (config \<Rightarrow> edit_error + (config \<times> 'a)) \<Rightarrow> file_read \<Rightarrow> (edit_error + (config \<times> 'a)) \<times> file_read" where
  "config_update D k f file =
     (case load_file D k file of
        (Inl e, file') \<Rightarrow> (Inl e, file')
      | (Inr c0, file') \<Rightarrow>
          (case f (unwrap_or (config_default (da_key D)) c0) of
             Inl e \<Rightarrow> (Inl e, file')
           | Inr (c, x) \<Rightarrow>
               (if da_write_ok D then (Inr (c, x), save_file D c file') else (Inl SaveFailed, file'))))"

subsection \<open>Reload\<close>

definition apply_config :: "'u daemon \<Rightarrow> nat \<Rightarrow> config \<Rightarrow> server \<Rightarrow> nat \<times> server" where
  "apply_config D k c s =
     (case pools_sync (da_import D) (da_uuid D k) c (da_now D k) (sv_pools s) of
        (added, r) \<Rightarrow> (added, s\<lparr>sv_pools := r, sv_config := c\<rparr>))"

definition reload :: "'u daemon \<Rightarrow> nat \<Rightarrow> server \<Rightarrow> (edit_error + nat) \<times> server" where
  "reload D k s =
     (case load_file D k (sv_file s) of
        (r, file) \<Rightarrow>
          let s' = s\<lparr>sv_file := file\<rparr>
          in (case r of
                Inl e \<Rightarrow> (Inl e, s')
              | Inr None \<Rightarrow> (Inl ConfigGone, s')
              | Inr (Some c) \<Rightarrow>
                  (case apply_listen_override (da_ext D) (da_listen D) (da_port D) c of
                     Inl e \<Rightarrow> (Inl e, s')
                   | Inr c' \<Rightarrow> (case apply_config D (Suc k) c' s' of (added, t) \<Rightarrow> (Inr added, t)))))"

text \<open>\<open>reconcile\<close>: a reload that fails is only logged.\<close>

definition reconcile :: "'u daemon \<Rightarrow> nat \<Rightarrow> config \<Rightarrow> server \<Rightarrow> server" where
  "reconcile D k c s = snd (if da_reload D then reload D k s else (Inr 0, snd (apply_config D (Suc k) c s)))"

end
