(* ===== verification/Login.thy ===== *)
theory Login
  imports Server_State
begin

text \<open>
  The two halves of a login over the control plane: \<open>start_manual_login\<close> and \<open>finish_manual_login\<close> of
  \<open>src/oauth.rs\<close>, and the routes \<open>login/start\<close>, \<open>login/submit\<close> and \<open>login/cancel\<close> of
  \<open>src/proxy/server.rs\<close>. The token and the profile endpoint are functions of what they are sent.
\<close>

subsection \<open>OAuth\<close>

definition AUTHORIZE_URL :: string where "AUTHORIZE_URL = ''https://claude.ai/oauth/authorize''"
definition MANUAL_REDIRECT_URI :: string where
  "MANUAL_REDIRECT_URI = ''https://console.anthropic.com/oauth/code/callback''"
definition CLIENT_ID :: string where "CLIENT_ID = ''9d1c250a-e61b-44d9-88ed-5944d1962f5e''"
definition SCOPES :: string where
  "SCOPES = ''org:create_api_key user:profile user:inference user:sessions:claude_code user:mcp_servers user:file_upload''"

definition authorize_url :: "'u daemon \<Rightarrow> string \<Rightarrow> string \<Rightarrow> string \<Rightarrow> string" where
  "authorize_url D challenge state redirect =
     da_query_url D AUTHORIZE_URL
       [(''code'', ''true''), (''client_id'', CLIENT_ID), (''response_type'', ''code''), (''redirect_uri'', redirect),
        (''scope'', SCOPES), (''code_challenge'', challenge), (''code_challenge_method'', ''S256''), (''state'', state)]"

definition start_manual_login :: "'u daemon \<Rightarrow> string \<times> string \<times> string" where
  "start_manual_login D =
     (let verifier = da_draw D 0; state = da_draw D 1
      in (authorize_url D (da_challenge D verifier) state MANUAL_REDIRECT_URI, verifier, state))"

definition exchange_request :: "string \<Rightarrow> string \<Rightarrow> string \<Rightarrow> string \<Rightarrow> json" where
  "exchange_request code state verifier redirect =
     JObj [(''code'', JStr code), (''state'', JStr state), (''grant_type'', JStr ''authorization_code''),
           (''client_id'', JStr CLIENT_ID), (''redirect_uri'', JStr redirect), (''code_verifier'', JStr verifier)]"

definition exchange_code :: "'u daemon \<Rightarrow> string \<Rightarrow> string \<Rightarrow> string \<Rightarrow> string \<Rightarrow> login_failure + tokens" where
  "exchange_code D code state verifier redirect =
     (let r = da_exchange D (exchange_request code state verifier redirect)
      in (case r of
            http_reply.Reply st (Some v) \<Rightarrow>
              (if \<not> is_success st then Inl (ExchangeFailed r)
               else (case tokens_from_response (da_now D 1) v None of Some t \<Rightarrow> Inr t | None \<Rightarrow> Inl NoTokens))
          | _ \<Rightarrow> Inl (ExchangeFailed r)))"

definition finish_manual_login :: "'u daemon \<Rightarrow> pending_flow \<Rightarrow> string \<Rightarrow> login_failure + tokens" where
  "finish_manual_login D p pasted =
     (case parse_auth_code (da_ext D) pasted (pf_state p) of
        Inl e \<Rightarrow> Inl (BadCode e)
      | Inr (code, state) \<Rightarrow> exchange_code D code state (pf_verifier p) MANUAL_REDIRECT_URI)"

definition fetch_profile :: "'u daemon \<Rightarrow> string \<Rightarrow> profile option" where
  "fetch_profile D access =
     (case da_profile D access of
        http_reply.Reply st (Some v) \<Rightarrow> if is_success st then Some (normalize_profile v) else None
      | _ \<Rightarrow> None)"

subsection \<open>Answers of the control plane\<close>

definition ctl_error :: "nat \<Rightarrow> string \<Rightarrow> response" where
  "ctl_error status msg = json_response status (JObj [(''ok'', JBool False), (''error'', JStr msg)])"

definition ctl_ok :: "(string \<times> json) list \<Rightarrow> response" where
  "ctl_ok fs = json_response 200 (JObj ((''ok'', JBool True) # fs))"

definition quoted :: "string \<Rightarrow> string" where
  "quoted s = [CHR 0x22] @ s @ [CHR 0x22]"

definition missing :: "string \<Rightarrow> string" where
  "missing f = ''missing '' @ quoted f"

text \<open>The change of a handler: \<open>Config::update\<close>, then \<open>reconcile\<close> when it was saved.\<close>

definition persist ::
  "'u daemon \<Rightarrow> (config \<Rightarrow> edit_error + (config \<times> 'a)) \<Rightarrow> ('a \<Rightarrow> response) \<Rightarrow> (edit_error \<Rightarrow> response) \<Rightarrow> server
   \<Rightarrow> response \<times> server" where
  "persist D edit yes no s =
     (case config_update D 0 edit (sv_file s) of
        (Inr (c, x), file) \<Rightarrow> (yes x, reconcile D 1 c (s\<lparr>sv_file := file\<rparr>))
      | (Inl e, file) \<Rightarrow> (no e, s\<lparr>sv_file := file\<rparr>))"

text \<open>A string field, trimmed; a blank one counts as absent.\<close>

definition trimmed_field :: "string \<Rightarrow> json \<Rightarrow> string option" where
  "trimmed_field k v = opt_filter (\<lambda>s. s \<noteq> []) (map_option trim (get_str k v))"

subsection \<open>The routes of a login\<close>

definition OAUTH_FLOW_TTL_MS :: int where [time_consts]: "OAUTH_FLOW_TTL_MS = 15 * 60 * 1000"

definition live_flow :: "int \<Rightarrow> pending_flow \<Rightarrow> bool" where
  "live_flow now p \<longleftrightarrow> now - pf_created_at p < OAUTH_FLOW_TTL_MS"

definition sweep_flows :: "int \<Rightarrow> server \<Rightarrow> server" where
  "sweep_flows now = sv_flows_update (filter (\<lambda>(_, p). live_flow now p))"

definition drop_flow :: "string \<Rightarrow> server \<Rightarrow> server" where
  "drop_flow i = sv_flows_update (AList.delete i)"

definition login_start :: "'u daemon \<Rightarrow> json \<Rightarrow> server \<Rightarrow> response \<times> server" where
  "login_start D v s =
     (case start_manual_login D of
        (url, verifier, state) \<Rightarrow>
          let flow = da_draw D 2; now = da_now D 0;
              p = \<lparr>pf_verifier = verifier, pf_state = state, pf_pool = trimmed_field ''pool'' v,
                   pf_name = trimmed_field ''name'' v, pf_created_at = now\<rparr>
          in (ctl_ok [(''flow_id'', JStr flow), (''authorize_url'', JStr url), (''redirect_uri'', JStr MANUAL_REDIRECT_URI)],
              sv_flows_update (AList.update flow p) (sweep_flows now s)))"

text \<open>The change a login makes to the configuration; its answer is the name and whether the entry is new.\<close>

definition login_name :: "pending_flow \<Rightarrow> profile option \<Rightarrow> config \<Rightarrow> string" where
  "login_name p prof c =
     (case pf_name p of
        Some n \<Rightarrow> n
      | None \<Rightarrow> (case prof of Some pr \<Rightarrow> display_name pr c | None \<Rightarrow> ''account''))"

definition file_login ::
  "pending_flow \<Rightarrow> tokens \<Rightarrow> profile option \<Rightarrow> config \<Rightarrow> edit_error + (config \<times> string \<times> bool)" where
  "file_login p t prof c =
     res_bind (target_pool c (pf_pool p)) (\<lambda>(pool, c1).
       let name = login_name p prof c1
       in (case upsert_oauth_at pool name t prof c1 of (c2, _, updated) \<Rightarrow> Inr (c2, name, \<not> updated)))"

text \<open>The exchange lets go of everything; \<open>env\<close> is what other requests do meanwhile.\<close>

definition submit_tokens ::
  "'u daemon \<Rightarrow> pending_flow \<Rightarrow> login_failure + tokens \<Rightarrow> server \<Rightarrow> response \<times> server" where
  "submit_tokens D p r s =
     (case r of
        Inl e \<Rightarrow> (ctl_error 400 (da_login_text D e), s)
      | Inr t \<Rightarrow>
          persist D (file_login p t (fetch_profile D (tk_access t)))
            (\<lambda>(name, created). ctl_ok [(''name'', JStr name), (''created'', JBool created)])
            (\<lambda>e. ctl_error 500 (da_error_text D e)) s)"

definition login_submit ::
  "'u daemon \<Rightarrow> (server \<Rightarrow> server) \<Rightarrow> json \<Rightarrow> server \<Rightarrow> response \<times> server" where
  "login_submit D env v s =
     (case get_str ''flow_id'' v of
        None \<Rightarrow> (ctl_error 400 (missing ''flow_id''), s)
      | Some flow \<Rightarrow>
          (case trimmed_field ''code'' v of
             None \<Rightarrow> (ctl_error 400 (missing ''code''), s)
           | Some code \<Rightarrow>
               let s1 = sweep_flows (da_now D 0) s; s2 = drop_flow flow s1
               in (case map_of (sv_flows s1) flow of
                     None \<Rightarrow> (ctl_error 410 ''login flow not found or expired; start again'', s2)
                   | Some p \<Rightarrow> submit_tokens D p (finish_manual_login D p code) (env s2))))"

definition login_cancel :: "json \<Rightarrow> server \<Rightarrow> response \<times> server" where
  "login_cancel v s = (ctl_ok [], case get_str ''flow_id'' v of Some i \<Rightarrow> drop_flow i s | None \<Rightarrow> s)"

end
