(* ===== verification/Control.thy ===== *)
theory Control
  imports Login Status_Json Activity
begin

text \<open>
  The control plane of \<open>src/proxy/server.rs\<close>: everything under \<open>/corrall/\<close>. The path is the one of
  the request line, as the code reads it. A pool nobody has is the panic of \<open>resolve\<close>; a body that
  stalls is never answered.
\<close>

datatype answered = Answers response | Crashed | Hung

definition put_fleet :: "string \<Rightarrow> fleet \<Rightarrow> registry \<Rightarrow> registry" where
  "put_fleet name f = rg_map_update (AList.update name f)"

definition control_resolve :: "'u daemon \<Rightarrow> string option \<Rightarrow> server \<Rightarrow> (string \<times> fleet) option \<times> server" where
  "control_resolve D asked s =
     (case resolve_request asked (int (da_mono D)) (sv_pools s) of (r, rg) \<Rightarrow> (r, s\<lparr>sv_pools := rg\<rparr>))"

subsection \<open>Bodies\<close>

definition body_json :: "'u daemon \<Rightarrow> string \<Rightarrow> json" where
  "body_json D b = unwrap_or (JObj []) (json_parse (da_ext D) b)"

definition control_body ::
  "'u daemon \<Rightarrow> chunk list \<Rightarrow> (json \<Rightarrow> server \<Rightarrow> answered \<times> server) \<Rightarrow> server \<Rightarrow> answered \<times> server" where
  "control_body D cs k s =
     (case read_body CONTROL_BODY_LIMIT [] cs of
        None \<Rightarrow> (Hung, s)
      | Some (Inl True) \<Rightarrow> (Answers (ctl_error 413 ''request body too large''), s)
      | Some (Inl False) \<Rightarrow> (Answers (ctl_error 400 ''invalid request body''), s)
      | Some (Inr b) \<Rightarrow> k (body_json D b) s)"

definition answer_with :: "(json \<Rightarrow> server \<Rightarrow> response \<times> server) \<Rightarrow> json \<Rightarrow> server \<Rightarrow> answered \<times> server" where
  "answer_with h v s = (case h v s of (r, s') \<Rightarrow> (Answers r, s'))"

subsection \<open>Pools and accounts\<close>

definition apply_pool_knobs :: "string \<Rightarrow> f64 option \<Rightarrow> bool option \<Rightarrow> config \<Rightarrow> config" where
  "apply_pool_knobs name t d =
     upd_pool name (\<lambda>p. p\<lparr>pc_switch_threshold := (case t of Some x \<Rightarrow> Single x | None \<Rightarrow> pc_switch_threshold p),
                          pc_distribute_sessions := unwrap_or (pc_distribute_sessions p) d\<rparr>)"

definition knobs_of :: "json \<Rightarrow> f64 option \<times> bool option" where
  "knobs_of v = (Option.bind (j_get ''switchThreshold'' v) as_f64, Option.bind (j_get ''distributeSessions'' v) as_bool)"

definition pool_create :: "'u daemon \<Rightarrow> json \<Rightarrow> server \<Rightarrow> response \<times> server" where
  "pool_create D v s =
     (case trimmed_field ''name'' v of
        None \<Rightarrow> (ctl_error 400 (missing ''name''), s)
      | Some name \<Rightarrow>
          if al_has (cf_pools (sv_config s)) name
          then (ctl_error 409 (''a pool named '' @ da_debug D name @ '' already exists''), s)
          else persist D
                 (\<lambda>c. res_bind (as_edit (ensure_pool name c)) (\<lambda>c1.
                   Inr (apply_pool_knobs name (fst (knobs_of v)) (snd (knobs_of v)) c1, ())))
                 (\<lambda>_. ctl_ok [(''pool'', JStr name)]) (\<lambda>e. ctl_error 400 (da_error_text D e)) s)"

text \<open>\<open>as i32\<close> of an \<open>i64\<close>.\<close>

definition i32_of :: "int \<Rightarrow> int" where
  "i32_of n = (n + 2147483648) mod 4294967296 - 2147483648"

datatype account_edit = SetDisabled bool | SetPriority int

definition edit_account :: "account_edit \<Rightarrow> account_config \<Rightarrow> account_config" where
  "edit_account e a = (case e of SetDisabled b \<Rightarrow> a\<lparr>ac_disabled := b\<rparr> | SetPriority p \<Rightarrow> a\<lparr>ac_priority := p\<rparr>)"

text \<open>The edit an action asks for, or its refusal.\<close>

definition parse_action :: "string \<Rightarrow> json \<Rightarrow> response + account_edit" where
  "parse_action action v =
     (if action = ''enable'' then Inr (SetDisabled False)
      else if action = ''disable'' then Inr (SetDisabled True)
      else if action = ''priority''
      then (case Option.bind (j_get ''priority'' v) as_i64 of
              Some p \<Rightarrow> Inr (SetPriority (i32_of p))
            | None \<Rightarrow> Inl (ctl_error 400 (''missing or invalid '' @ quoted ''priority'')))
      else Inl (ctl_error 404 ''unknown account action''))"

definition no_pool_named :: "'u daemon \<Rightarrow> string \<Rightarrow> response" where
  "no_pool_named D pool = ctl_error 404 (''no pool named '' @ da_debug D pool)"

definition account_action :: "'u daemon \<Rightarrow> string \<Rightarrow> string \<Rightarrow> string \<Rightarrow> json \<Rightarrow> server \<Rightarrow> response \<times> server" where
  "account_action D pool acct action v s =
     (case parse_action action v of
        Inl r \<Rightarrow> (r, s)
      | Inr e \<Rightarrow>
          if \<not> al_has (cf_pools (sv_config s)) pool then (no_pool_named D pool, s)
          else persist D
                 (\<lambda>c. res_bind (locate c (Some pool) acct) (\<lambda>(p, i).
                   Inr (upd_entry p i (edit_account e) c, ac_name (account_at c p i))))
                 (\<lambda>name. ctl_ok [(''pool'', JStr pool), (''account'', JStr name)])
                 (\<lambda>err. ctl_error 404 (da_error_text D err)) s)"

definition pool_edit :: "'u daemon \<Rightarrow> string \<Rightarrow> json \<Rightarrow> server \<Rightarrow> response \<times> server" where
  "pool_edit D name v s =
     (if \<not> al_has (cf_pools (sv_config s)) name then (no_pool_named D name, s)
      else let new = trimmed_field ''newName'' v
           in (case config_update D 0
                 (\<lambda>c. let c1 = apply_pool_knobs name (fst (knobs_of v)) (snd (knobs_of v)) c
                      in res_bind (case new of Some fresh \<Rightarrow> as_edit (rename_pool name fresh c1) | None \<Rightarrow> Inr c1) (\<lambda>c2. Inr (c2, ())))
                 (sv_file s) of
                 (Inr (c, _), file) \<Rightarrow>
                   (let s1 = s\<lparr>sv_file := file\<rparr>;
                        s2 = (case new of Some fresh \<Rightarrow> sv_pools_update (registry_rename name fresh) s1 | None \<Rightarrow> s1)
                    in (ctl_ok [(''pool'', JStr (unwrap_or name new))], reconcile D 1 c s2))
               | (Inl e, file) \<Rightarrow> (ctl_error 409 (da_error_text D e), s\<lparr>sv_file := file\<rparr>)))"

definition pools_param :: "'u daemon \<Rightarrow> string \<Rightarrow> json \<Rightarrow> server \<Rightarrow> response \<times> server" where
  "pools_param D sub v s =
     (let dec = percent_decode (da_ext D)
      in (case split_on CHR ''/'' sub of
            [pool, sep, acct, action] \<Rightarrow>
              if sep = ''accounts'' then account_action D (dec pool) (dec acct) action v s
              else (ctl_error 404 ''not found'', s)
          | [name] \<Rightarrow> if name = [] then (ctl_error 404 ''not found'', s) else pool_edit D (dec name) v s
          | _ \<Rightarrow> (ctl_error 404 ''not found'', s)))"

subsection \<open>Accounts in use\<close>

definition pool_asked :: "json \<Rightarrow> string option \<Rightarrow> string option" where
  "pool_asked v asked = opt_or (get_str ''pool'' v) asked"

definition names_json :: "fleet list \<Rightarrow> string \<times> json" where
  "names_json fs = (''accounts'', JArr (concat (map (\<lambda>f. map (\<lambda>x. JStr (snd x)) (account_ids f)) fs)))"

definition refuse_naming :: "nat \<Rightarrow> string \<Rightarrow> fleet list \<Rightarrow> response" where
  "refuse_naming status msg fs =
     json_response status (JObj [(''ok'', JBool False), (''error'', JStr msg), names_json fs])"

definition switch_done :: "'u daemon \<Rightarrow> string \<Rightarrow> fleet \<Rightarrow> string \<Rightarrow> server \<Rightarrow> response \<times> server" where
  "switch_done D pool f i s =
     (case switch_to (da_ext D) i (da_now D 0) f of
        (Some (name, reason), g) \<Rightarrow>
          (ctl_ok [(''pool'', JStr pool), (''account'', JStr name), (''effective'', JBool (reason = None)),
                   (''blocked'', j_str reason)],
           s\<lparr>sv_pools := put_fleet pool g (sv_pools s),
             sv_events := sv_events s @ [LogEv (''Switched to account '' @ quoted name @ '' by request'')]\<rparr>)
      | (None, _) \<Rightarrow> (ctl_error 404 ''unknown account'', s))"

definition switch_in ::
  "'u daemon \<Rightarrow> fleet list \<Rightarrow> (string \<Rightarrow> (string \<times> fleet \<times> string) option) \<Rightarrow> json \<Rightarrow> server \<Rightarrow> response \<times> server" where
  "switch_in D fs look v s =
     (case trimmed_field ''account'' v of
        None \<Rightarrow> (refuse_naming 400 (missing ''account'') fs, s)
      | Some target \<Rightarrow>
          (case look target of
             None \<Rightarrow> (refuse_naming 404 ''unknown account'' fs, s)
           | Some (pool, f, i) \<Rightarrow> switch_done D pool f i s))"

definition control_switch :: "'u daemon \<Rightarrow> string option \<Rightarrow> json \<Rightarrow> server \<Rightarrow> answered \<times> server" where
  "control_switch D asked v s =
     (case pool_asked v asked of
        None \<Rightarrow> answer_with (switch_in D (map snd (each_pool (sv_pools s))) (pools_find_account (sv_pools s))) v s
      | Some p \<Rightarrow>
          (case control_resolve D (Some p) s of
             (None, s1) \<Rightarrow> (Crashed, s1)
           | (Some (pool, f), s1) \<Rightarrow>
               answer_with (switch_in D [f] (\<lambda>t. map_option (\<lambda>i. (pool, f, i)) (resolve_pin f t))) v s1))"

definition control_route_pin :: "'u daemon \<Rightarrow> string option \<Rightarrow> json \<Rightarrow> server \<Rightarrow> answered \<times> server" where
  "control_route_pin D asked v s =
     (case get_str ''route'' v of
        None \<Rightarrow> (Answers (ctl_error 400 (missing ''route'')), s)
      | Some route \<Rightarrow>
          (case control_resolve D (pool_asked v asked) s of
             (None, s1) \<Rightarrow> (Crashed, s1)
           | (Some (pool, f), s1) \<Rightarrow>
               let pin = map_option (resolve_pin f) (get_str ''account'' v)
               in if pin = Some None then (Answers (ctl_error 404 ''unknown account''), s1)
                  else (Answers (ctl_ok [(''pool'', JStr pool)]),
                        s1\<lparr>sv_pools := put_fleet pool (set_route_pin route (Option.bind pin (\<lambda>x. x)) f) (sv_pools s1)\<rparr>)))"

text \<open>This route answers 400 to a body that is too large, too.\<close>

definition route_pin_body ::
  "'u daemon \<Rightarrow> chunk list \<Rightarrow> (json \<Rightarrow> server \<Rightarrow> answered \<times> server) \<Rightarrow> server \<Rightarrow> answered \<times> server" where
  "route_pin_body D cs k s =
     (case read_body CONTROL_BODY_LIMIT [] cs of
        None \<Rightarrow> (Hung, s)
      | Some (Inl _) \<Rightarrow> (Answers (ctl_error 400 ''invalid request body''), s)
      | Some (Inr b) \<Rightarrow> k (body_json D b) s)"

subsection \<open>Documents\<close>

definition auth_client :: "auth \<Rightarrow> string option" where
  "auth_client a = (case a of ClientKey n \<Rightarrow> Some n | _ \<Rightarrow> None)"

definition titles_json :: "session_titles \<Rightarrow> json" where
  "titles_json t =
     JObj ([(''enabled'', JBool (ti_enabled t)), (''width'', j_nat (ti_width t))]
       @ (case ti_projects_dir t of Some d \<Rightarrow> [(''projectsDir'', JStr d)] | None \<Rightarrow> []))"

definition control_status :: "'u daemon \<Rightarrow> auth \<Rightarrow> server \<Rightarrow> response" where
  "control_status D a s =
     (let c = sv_config s;
          st = pools_status (da_ext D) (da_version D) (px_session_detail (cf_proxy c)) (da_now D 0) (sv_pools s);
          mitm = JObj [(''caPath'', JStr (da_ca_path D)), (''http1Only'', JBool (mc_http1_only (cf_mitm c))),
                       (''allowTunnel'', JBool (mc_allow_tunnel (cf_mitm c)))]
      in json_response 200 (JObj
           (fold (\<lambda>(k, v). obj_insert k v)
              [(''upstream'', JStr (cf_upstream c)),
               (''upstreamProxy'', JStr (describe_proxy (da_ext D) (da_urls D) c)), (''mitm'', mitm),
               (''client'', j_str (auth_client a)), (''sessionTitles'', titles_json (cf_session_titles c)),
               (''warmupSeconds'', j_nat (cf_warmup_seconds c))] st)))"

definition control_quota :: "'u daemon \<Rightarrow> string option \<Rightarrow> server \<Rightarrow> answered \<times> server" where
  "control_quota D asked s =
     (case control_resolve D asked s of
        (None, s1) \<Rightarrow> (Crashed, s1)
      | (Some (name, f), s1) \<Rightarrow>
          (Answers (json_response 200 (JObj (obj_insert ''pool'' (JStr name) (quota_summary (da_ext D) f (da_now D 0))))), s1))"

definition control_probe :: "'u daemon \<Rightarrow> server \<Rightarrow> response \<times> server" where
  "control_probe D s =
     (if \<not> da_prober D then (ctl_error 501 ''probe not available'', s)
      else (case request_manual (sv_probing s) (da_mono D) (sv_manual s) of
              (r, m) \<Rightarrow>
                (case r of
                   Started \<Rightarrow> ctl_ok [(''result'', JStr ''started'')]
                 | AlreadyRunning \<Rightarrow>
                     json_response 200 (JObj [(''ok'', JBool False), (''result'', JStr ''already-running''),
                       (''error'', JStr ''probe already running'')])
                 | TooSoon secs \<Rightarrow>
                     json_response 200 (JObj [(''ok'', JBool False), (''result'', JStr ''too-soon''),
                       (''waitSeconds'', j_nat secs),
                       (''error'', JStr (''probed moments ago; try again in '' @ show_nat secs @ ''s''))]),
                 s\<lparr>sv_manual := m\<rparr>)))"

definition control_reload :: "'u daemon \<Rightarrow> server \<Rightarrow> response \<times> server" where
  "control_reload D s =
     (if \<not> da_reload D then (ctl_error 501 ''reload not supported'', s)
      else (case reload D 0 s of
              (Inr added, s') \<Rightarrow> (ctl_ok [(''added'', j_nat added)], s')
            | (Inl e, s') \<Rightarrow> (ctl_error 500 ''reload failed; see server log'', s')))"

subsection \<open>The activity feed\<close>

text \<open>What the feed waits for: the next event, word that events were dropped, or the ping. \<open>label\<close> is
  what the session titles call a session.\<close>

datatype feed_item = FeedEvent activity | FeedLagged nat | FeedPing

definition newline :: string where "newline = [CHR 0x0A]"

definition data_frame :: "'u daemon \<Rightarrow> (string \<Rightarrow> string) \<Rightarrow> activity \<Rightarrow> string" where
  "data_frame D label a = ''data: '' @ json_print (da_ext D) (activity_to_json label a) @ newline @ newline"

definition feed_frame :: "'u daemon \<Rightarrow> (string \<Rightarrow> string) \<Rightarrow> feed_item \<Rightarrow> string" where
  "feed_frame D label x =
     (case x of
        FeedEvent a \<Rightarrow> data_frame D label a
      | FeedLagged n \<Rightarrow> data_frame D label (LogEv (''activity feed lagged; '' @ show_nat n @ '' events dropped''))
      | FeedPing \<Rightarrow> '': ping'' @ newline @ newline)"

definition activity_feed :: "'u daemon \<Rightarrow> (string \<Rightarrow> string) \<Rightarrow> feed_item list \<Rightarrow> string" where
  "activity_feed D label xs = ('': corrall activity'' @ newline @ newline) @ concat (map (feed_frame D label) xs)"

definition activity_stream :: response where
  "activity_stream =
     \<lparr>rs_status = 200,
      rs_headers = [(''content-type'', ''text/event-stream''), (''cache-control'', ''no-store''), (''x-accel-buffering'', ''no'')],
      rs_body = Streamed\<rparr>"

subsection \<open>Metrics\<close>

definition esc_label :: "string \<Rightarrow> string" where
  "esc_label = map (\<lambda>c. if c \<in> {CHR 0x22, CHR 0x5C, CHR 0x0A} then CHR ''_'' else c)"

definition type_line :: "string \<Rightarrow> string \<Rightarrow> string" where
  "type_line name kind = ''# TYPE '' @ name @ '' '' @ kind @ newline"

definition pair_label :: "string \<Rightarrow> string \<Rightarrow> string" where
  "pair_label k v = k @ ''='' @ quoted v"

fun commas :: "string list \<Rightarrow> string" where
  "commas [] = []"
| "commas [x] = x"
| "commas (x # y # xs) = x @ '','' @ commas (y # xs)"

definition sample :: "string \<Rightarrow> string list \<Rightarrow> string \<Rightarrow> string" where
  "sample name labels v =
     name @ (if labels = [] then [] else ''{'' @ commas labels @ ''}'') @ '' '' @ v @ newline"

definition account_samples :: "'u daemon \<Rightarrow> string \<Rightarrow> json \<Rightarrow> string" where
  "account_samples D pool a =
     (let ls = [pair_label ''pool'' pool, pair_label ''account'' (esc_label (unwrap_or [] (get_str ''name'' a)))]
      in concat (List.map_filter (\<lambda>b. map_option
             (\<lambda>u. sample ''corrall_account_quota_utilization'' (ls @ [pair_label ''bucket'' b]) (da_show_f64 D u))
             (Option.bind (j_pointer [''quota'', b, ''utilization''] a) as_f64))
           [''unified5h'', ''unified7d'', ''unified7dFable'', ''unified7dSonnet''])
         @ sample ''corrall_account_available'' ls (if j_get ''blocked'' a = Some JNull then ''1'' else ''0'')
         @ sample ''corrall_account_requests_total'' ls
             (show_nat (unwrap_or 0 (Option.bind (j_pointer [''usage'', ''totalRequests''] a) as_u64))))"

definition pool_samples :: "'u daemon \<Rightarrow> string \<times> fleet \<Rightarrow> string \<times> string" where
  "pool_samples D nf =
     (let st = JObj (status_json (da_ext D) (da_version D) (snd nf) (da_now D 0) False); pool = esc_label (fst nf)
      in (concat (map (account_samples D pool) (unwrap_or [] (Option.bind (j_get ''accounts'' st) as_array))),
          sample ''corrall_sessions_active'' [pair_label ''pool'' pool]
            (show_nat (unwrap_or 0 (Option.bind (j_pointer [''sessions'', ''active''] st) as_u64)))))"

definition counter :: "string \<Rightarrow> nat \<Rightarrow> string" where
  "counter name n = type_line name ''counter'' @ sample name [] (show_nat n)"

definition render_metrics :: "'u daemon \<Rightarrow> server \<Rightarrow> string" where
  "render_metrics D s =
     (let m = sv_metrics s; pools = map (pool_samples D) (each_pool (sv_pools s))
      in counter ''corrall_requests_total'' (mt_requests_total m)
         @ counter ''corrall_requests_failed_total'' (mt_requests_failed m)
         @ counter ''corrall_auth_failures_total'' (mt_auth_failures m)
         @ counter ''corrall_connects_total'' (mt_connects_total m)
         @ type_line ''corrall_account_quota_utilization'' ''gauge''
         @ type_line ''corrall_account_available'' ''gauge''
         @ type_line ''corrall_account_requests_total'' ''counter''
         @ concat (map fst pools) @ type_line ''corrall_sessions_active'' ''gauge'' @ concat (map snd pools))"

definition metrics_response :: "'u daemon \<Rightarrow> server \<Rightarrow> response" where
  "metrics_response D s =
     \<lparr>rs_status = 200, rs_headers = [(''content-type'', ''text/plain; version=0.0.4'')], rs_body = Bytes (render_metrics D s)\<rparr>"

subsection \<open>The routes\<close>

definition not_found :: response where "not_found = ctl_error 404 ''not found''"

fun trim_prefix :: "string \<Rightarrow> string \<Rightarrow> nat \<Rightarrow> string" where
  "trim_prefix p s 0 = s"
| "trim_prefix p s (Suc n) = (case strip_prefix p s of Some r \<Rightarrow> trim_prefix p r n | None \<Rightarrow> s)"

definition control_get :: "'u daemon \<Rightarrow> auth \<Rightarrow> string option \<Rightarrow> string \<Rightarrow> server \<Rightarrow> answered \<times> server" where
  "control_get D a asked path s =
     (if path = ''/corrall/health'' then (Answers (ctl_ok [(''version'', JStr (da_version D))]), s)
      else if path = ''/corrall/status'' then (Answers (control_status D a s), s)
      else if path = ''/corrall/quota'' then control_quota D asked s
      else if path = ''/corrall/activity'' then (Answers activity_stream, s)
      else if path = ''/corrall/metrics'' then (Answers (metrics_response D s), s)
      else (Answers not_found, s))"

definition answer_now :: "response \<times> server \<Rightarrow> answered \<times> server" where
  "answer_now rs = (Answers (fst rs), snd rs)"

definition control_post ::
  "'u daemon \<Rightarrow> (server \<Rightarrow> server) \<Rightarrow> string option \<Rightarrow> string \<Rightarrow> chunk list \<Rightarrow> server \<Rightarrow> answered \<times> server" where
  "control_post D env asked path cs s =
     (if path = ''/corrall/probe'' then answer_now (control_probe D s)
      else if path = ''/corrall/reload'' then answer_now (control_reload D s)
      else if path = ''/corrall/switch'' then control_body D cs (control_switch D asked) s
      else if path = ''/corrall/route-pin'' then route_pin_body D cs (control_route_pin D asked) s
      else if path = ''/corrall/pools'' then control_body D cs (answer_with (pool_create D)) s
      else if path = ''/corrall/login/start'' then control_body D cs (answer_with (login_start D)) s
      else if path = ''/corrall/login/submit'' then control_body D cs (answer_with (login_submit D env)) s
      else if path = ''/corrall/login/cancel'' then control_body D cs (answer_with login_cancel) s
      else if starts_with ''/corrall/pools/'' path
      then control_body D cs (answer_with (pools_param D (trim_prefix ''/corrall/pools/'' path (length path)))) s
      else (Answers not_found, s))"

definition control ::
  "'u daemon \<Rightarrow> (server \<Rightarrow> server) \<Rightarrow> auth \<Rightarrow> string option \<Rightarrow> string \<Rightarrow> string \<Rightarrow> chunk list \<Rightarrow> server
   \<Rightarrow> answered \<times> server" where
  "control D env a asked method path cs s =
     (if method = ''GET'' then control_get D a asked path s
      else if method = ''POST'' then control_post D env asked path cs s
      else (Answers not_found, s))"

end
