(* ===== verification/Relay.thy ===== *)
theory Relay
  imports Attempt
begin

text \<open>
  \<open>src/proxy/relay.rs\<close>: the paths that carry the client's own upstream session, and what is sent for
  them. The upstream is a function of the request; a body that stalls past the idle timer, or
  breaks, cuts the relayed stream with an error. The sockets of an upgrade are not modelled
  beyond the two heads.
\<close>

subsection \<open>Which paths\<close>

definition is_connector_path :: "string \<Rightarrow> bool" where
  "is_connector_path path \<longleftrightarrow>
     path = ''/v1/mcp_servers'' \<or> starts_with ''/v1/mcp_servers/'' path
     \<or> (case Option.bind (strip_prefix ''/api/organizations/'' path) (split_once CHR ''/'') of
          Some (org, tail) \<Rightarrow> org \<noteq> [] \<and> (tail = ''mcp'' \<or> starts_with ''mcp/'' tail)
        | None \<Rightarrow> False)"

definition is_passthrough_path :: "string \<Rightarrow> bool" where
  "is_passthrough_path path \<longleftrightarrow>
     path = ''/v1/oauth/token'' \<or> starts_with ''/api/oauth/'' path \<or> starts_with ''/v1/code/'' path
     \<or> is_connector_path path"

definition keep_header :: "string \<Rightarrow> bool" where
  "keep_header n \<longleftrightarrow>
     n \<notin> set HOP_BY_HOP \<and> n \<noteq> ''x-api-key'' \<and> n \<noteq> PROXY_KEY_HEADER \<and> n \<noteq> ''accept-encoding'' \<and> \<not> starts_with '':'' n"

subsection \<open>Plain requests\<close>

definition relay_request :: "string \<Rightarrow> string \<Rightarrow> string option \<Rightarrow> header_map \<Rightarrow> string \<Rightarrow> outgoing" where
  "relay_request upstream method path_query h body =
     (let kept = filter (\<lambda>(n, v). keep_header n \<and> list_all visible_ascii v) h
      in \<lparr>og_method = method, og_url = trim_end_matches CHR ''/'' upstream @ unwrap_or ''/'' path_query,
          og_headers = (if carries_body method then kept @ [(''content-length'', show_nat (length body))] else kept),
          og_body = (if carries_body method then body else [])\<rparr>)"

text \<open>The answer and the chunks still to relay.\<close>

definition passthrough ::
  "(outgoing \<Rightarrow> reply) \<Rightarrow> string \<Rightarrow> string \<Rightarrow> string option \<Rightarrow> header_map \<Rightarrow> string
   \<Rightarrow> response \<times> chunk list" where
  "passthrough up upstream method path_query h body =
     (case up (relay_request upstream method path_query h body) of
        NoHeaders \<Rightarrow> (error_response 504 ''api_error'' ''Upstream did not respond in time'', [])
      | Reply res \<Rightarrow>
          (\<lparr>rs_status = ur_status res, rs_headers = relay_headers (ur_headers res), rs_body = Streamed\<rparr>, ur_chunks res)
      | _ \<Rightarrow> (error_response 502 ''api_error'' ''Upstream unreachable'', []))"

text \<open>What the client receives of the chunks, and whether the stream ends without an error.\<close>

fun relayed :: "chunk list \<Rightarrow> string list \<times> bool" where
  "relayed [] = ([], True)"
| "relayed (Chunk c # cs) = (case relayed cs of (out, ok) \<Rightarrow> (c # out, ok))"
| "relayed (Broken # cs) = ([], False)"
| "relayed (Stalled # cs) = ([], False)"

subsection \<open>Upgrades\<close>

definition crlf :: string where "crlf = [CHR 0x0D, CHR 0x0A]"

definition keep_upgrade :: "string \<Rightarrow> bool" where
  "keep_upgrade n \<longleftrightarrow>
     (n = ''connection'' \<or> n = ''upgrade'' \<or> starts_with ''sec-websocket-'' n \<or> keep_header n) \<and> n \<noteq> ''host''"

definition no_newline :: "string \<Rightarrow> bool" where
  "no_newline v \<longleftrightarrow> list_all (\<lambda>c. c \<noteq> CHR 0x0D \<and> c \<noteq> CHR 0x0A) v"

definition upgrade_fields :: "header_map \<Rightarrow> header_map" where
  "upgrade_fields h = filter (\<lambda>(n, v). keep_upgrade n \<and> list_all visible_ascii v \<and> no_newline v) h"

definition upgrade_head :: "string \<Rightarrow> string option \<Rightarrow> string \<Rightarrow> header_map \<Rightarrow> string" where
  "upgrade_head method path_query host h =
     method @ '' '' @ unwrap_or ''/'' path_query @ '' HTTP/1.1'' @ crlf @ ''Host: '' @ host @ crlf
     @ concat (map (\<lambda>(n, v). n @ '': '' @ v @ crlf) (upgrade_fields h)) @ crlf"

text \<open>\<open>connect\<close>: the address dialled and the \<open>Host\<close> sent. \<open>parts\<close> is what \<open>Url::parse\<close> finds of the
  upstream: scheme, host and explicit port.\<close>

definition upgrade_target :: "(string \<times> string option \<times> nat option) option \<Rightarrow> (string \<times> nat \<times> bool \<times> string) option" where
  "upgrade_target parts =
     (case parts of
        Some (scheme, Some host, port) \<Rightarrow>
          let tls = (scheme = ''https''); p = unwrap_or (if tls then 443 else 80) port
          in Some (host, p, tls, if tls \<and> p = 443 then host else host @ '':'' @ show_nat p)
      | _ \<Rightarrow> None)"

text \<open>The response head, over the reads in order; \<open>Ended\<close> is the end of the stream or the timer. The
  result is the head up to and with its blank line, what was read past it, and the reads left.\<close>

datatype socket_read = Got string | Ended | Failed

definition bad_upgrade :: "string \<Rightarrow> response" where
  "bad_upgrade msg = error_response 502 ''api_error'' msg"

fun read_head :: "string \<Rightarrow> socket_read list \<Rightarrow> response + (string \<times> string \<times> socket_read list)" where
  "read_head buf [] = Inl (bad_upgrade ''Upstream closed during upgrade'')"
| "read_head buf (Ended # rs) = Inl (bad_upgrade ''Upstream closed during upgrade'')"
| "read_head buf (Failed # rs) = Inl (bad_upgrade ''Upstream error during upgrade'')"
| "read_head buf (Got c # rs) =
     (if c = [] then Inl (bad_upgrade ''Upstream closed during upgrade'')
      else (case find_sub (crlf @ crlf) (buf @ c) of
              Some k \<Rightarrow> Inr (take (k + 4) (buf @ c), drop (k + 4) (buf @ c), rs)
            | None \<Rightarrow>
                if 64 * 1024 < length (buf @ c)
                then Inl (bad_upgrade ''Upstream response head too large'')
                else read_head (buf @ c) rs))"

text \<open>\<open>split("\r\n")\<close>.\<close>

function split_crlf :: "string \<Rightarrow> string list" where
  "split_crlf s =
     (case find_sub crlf s of
        None \<Rightarrow> [s]
      | Some k \<Rightarrow> take k s # split_crlf (drop (k + 2) s))"
  by pat_completeness auto

termination split_crlf
  by (relation "measure length") (auto simp: crlf_def dest: find_sub_bound)

declare split_crlf.simps [simp del]

fun words_ws :: "string \<Rightarrow> string list" where
  "words_ws s = filter (\<lambda>w. w \<noteq> []) (foldr (\<lambda>c ws. if is_ws c then [] # ws else
     (case ws of [] \<Rightarrow> [[c]] | w # ws' \<Rightarrow> (c # w) # ws')) s [[]])"

definition status_of_line :: "string \<Rightarrow> nat" where
  "status_of_line l =
     (case words_ws l of _ # w # _ \<Rightarrow> unwrap_or 502 (parse_unsigned 65535 w) | _ \<Rightarrow> 502)"

text \<open>The header lines: the answer's fields and the last content length. \<open>name_ok\<close> is
  \<open>HeaderName::from_bytes\<close> succeeding.\<close>

definition head_line ::
  "(string \<Rightarrow> bool) \<Rightarrow> string \<Rightarrow> header_map \<times> nat option \<Rightarrow> header_map \<times> nat option" where
  "head_line name_ok l acc =
     (case split_once CHR '':'' l of
        None \<Rightarrow> acc
      | Some (k0, v0) \<Rightarrow>
          let k = to_lower (trim k0); v = trim v0; (hs, cl) = acc;
              cl' = (if k = ''content-length'' then parse_unsigned u64_max v else cl)
          in if k = ''transfer-encoding'' \<or> k = ''content-length'' then (hs, cl')
             else (if name_ok k \<and> list_all visible_ascii v then hs @ [(k, v)] else hs, cl'))"

fun read_body_upto :: "nat \<Rightarrow> string \<Rightarrow> socket_read list \<Rightarrow> string" where
  "read_body_upto want body [] = body"
| "read_body_upto want body (r # rs) =
     (if want \<le> length body then body
      else (case r of Got c \<Rightarrow> if c = [] then body else read_body_upto want (body @ c) rs | _ \<Rightarrow> body))"

text \<open>A status outside 100 to 999 is refused by the response builder, whose \<open>unwrap\<close> then panics.
  \<open>Switched\<close> hands the client what was read past the head, then splices the sockets.\<close>

datatype upgrade_result = Answered response | Switched response string | UpgradePanic

definition upgrade_answer :: "(string \<Rightarrow> bool) \<Rightarrow> string \<Rightarrow> string \<Rightarrow> socket_read list \<Rightarrow> upgrade_result" where
  "upgrade_answer name_ok head leftover reads =
     (let lines = split_crlf (utf8_lossy head);
          status = status_of_line (hd lines);
          (hs, cl) = fold (head_line name_ok) (tl lines) ([], None)
      in if status < 100 \<or> 999 < status then UpgradePanic
         else if status = 101
         then Switched \<lparr>rs_status = 101, rs_headers = hs, rs_body = NoBody\<rparr> leftover
         else Answered \<lparr>rs_status = status, rs_headers = hs,
                rs_body = Bytes (read_body_upto (min (unwrap_or 0 cl) (1024 * 1024)) leftover reads)\<rparr>)"

text \<open>\<open>dialled\<close> is the \<open>Host\<close> to send once connected, \<open>wrote\<close> whether the head could be written.\<close>

definition relay_upgrade ::
  "(string \<Rightarrow> bool) \<Rightarrow> string option \<Rightarrow> (string \<Rightarrow> bool) \<Rightarrow> socket_read list
   \<Rightarrow> string \<Rightarrow> string option \<Rightarrow> header_map \<Rightarrow> upgrade_result" where
  "relay_upgrade name_ok dialled wrote reads method path_query h =
     (case dialled of
        None \<Rightarrow> Answered (error_response 502 ''api_error'' ''Upstream unreachable'')
      | Some host \<Rightarrow>
          if \<not> wrote (upgrade_head method path_query host h)
          then Answered (error_response 502 ''api_error'' ''Upstream unreachable'')
          else (case read_head [] reads of
                  Inl r \<Rightarrow> Answered r
                | Inr (head, leftover, rest) \<Rightarrow> upgrade_answer name_ok head leftover rest))"

subsection \<open>What crosses\<close>

text \<open>A passed-through request is the client's own and nothing else: every field the upstream sees
  was sent by the client, save the length of the body; the proxy key header, the API key and the
  hop-by-hop fields stay behind, the method and body are unchanged, and a body goes only with a
  method that carries one. The answer comes back with its status and end-to-end fields.\<close>

theorem passthrough_is_transparent:
  shows "let out = relay_request upstream method pq h body in
     og_method out = method
   \<and> og_body out = (if carries_body method then body else [])
   \<and> (\<forall>n. values_of n (og_headers out) =
        (if n = ''content-length'' then (if carries_body method then [show_nat (length body)] else [])
         else if keep_header n then filter (list_all visible_ascii) (values_of n h) else []))
   \<and> (case up out of
        Attempt.Reply res \<Rightarrow> rs_status (fst (passthrough up upstream method pq h body)) = ur_status res
          \<and> snd (passthrough up upstream method pq h body) = ur_chunks res
      | _ \<Rightarrow> rs_status (fst (passthrough up upstream method pq h body)) \<in> {502, 504})"
proof -
  let ?P = "list_all visible_ascii"
  have vals: "values_of n (filter (\<lambda>(n, v). keep_header n \<and> ?P v) h) = (if keep_header n then filter ?P (values_of n h) else [])"
    for n by (induction h) (auto split: if_splits)
  have "\<not> keep_header ''content-length''" by (simp add: keep_header_def HOP_BY_HOP_def)
  then show ?thesis
    by (auto simp: Let_def relay_request_def passthrough_def vals split: reply.split)
qed

theorem passthrough_is_transparent_witness:
  "values_of PROXY_KEY_HEADER (og_headers (relay_request ''u'' ''GET'' None [(PROXY_KEY_HEADER, ''k'')] [])) = []"
proof -
  have "\<not> keep_header PROXY_KEY_HEADER" "PROXY_KEY_HEADER \<noteq> ''content-length''"
    by (simp_all add: keep_header_def PROXY_KEY_HEADER_def)
  with passthrough_is_transparent [of "''u''" "''GET''" None "[(PROXY_KEY_HEADER, ''k'')]" "[]" "\<lambda>_. NoHeaders"]
  show ?thesis by (simp add: Let_def)
qed

subsection \<open>Heads\<close>

lemma no_newline_append [simp]: "no_newline (a @ b) \<longleftrightarrow> no_newline a \<and> no_newline b"
  by (simp add: no_newline_def)

lemma find_crlf: "no_newline a \<Longrightarrow> find_sub crlf (a @ crlf @ s) = Some (length a)"
  by (induction a) (auto simp: no_newline_def crlf_def starts_with_def)

lemma split_crlf_line: "no_newline a \<Longrightarrow> split_crlf (a @ crlf @ s) = a # split_crlf s"
  by (subst split_crlf.simps) (simp add: find_crlf, simp add: crlf_def)

lemma split_crlf_Nil: "split_crlf [] = [[]]"
  by (subst split_crlf.simps) (simp add: crlf_def)

lemma split_fields:
  assumes "\<forall>(n, v) \<in> set fs. no_newline n \<and> no_newline v"
  shows "split_crlf (concat (map (\<lambda>(n, v). n @ '': '' @ v @ crlf) fs) @ crlf) = map (\<lambda>(n, v). n @ '': '' @ v) fs @ [[], []]"
  using assms
proof (induction fs)
  case Nil
  then show ?case using split_crlf_line [of "[]" "[]"] by (simp add: no_newline_def split_crlf_Nil)
next
  case (Cons x fs)
  obtain n v where x: "x = (n, v)" by fastforce
  have "no_newline (n @ '': '' @ v)" using Cons.prems x by (auto simp: no_newline_def)
  from split_crlf_line [OF this] Cons x show ?case by simp
qed

text \<open>C35: No request is smuggled through an upgrade: read as lines, the head the upstream gets is the
  request line, one \<open>Host\<close> field naming the upstream, one line for each field of the client's that
  is let through, and the blank line that ends it, whatever the values of the fields are: a value with a line
  break in it is not relayed. That the method, the path, the upstream host and the names of the fields hold no
  line break is what the HTTP parser before sees to. The fields named \<open>x-api-key\<close>, \<open>host\<close>,
  \<open>proxy-authorization\<close> and that of the proxy key are never let through. The field
  \<open>authorization\<close> is, and with it a proxy key that the client put there (see the findings).\<close>

theorem upgrade_head_is_one_request:
  assumes "no_newline method" "no_newline (unwrap_or ''/'' pq)" "no_newline host"
    and "\<forall>(n, v) \<in> set h. no_newline n"
  shows "split_crlf (upgrade_head method pq host h) =
      (method @ '' '' @ unwrap_or ''/'' pq @ '' HTTP/1.1'') # (''Host: '' @ host)
      # map (\<lambda>(n, v). n @ '': '' @ v) (upgrade_fields h) @ [[], []]
    \<and> set (upgrade_fields h) \<subseteq> set h
    \<and> (\<forall>n \<in> {''x-api-key'', PROXY_KEY_HEADER, ''host'', ''proxy-authorization''}. values_of n (upgrade_fields h) = [])"
proof -
  have fields: "\<forall>(n, v) \<in> set (upgrade_fields h). no_newline n \<and> no_newline v"
    using assms(4) by (auto simp: upgrade_fields_def)
  have l1: "no_newline (method @ '' '' @ unwrap_or ''/'' pq @ '' HTTP/1.1'')" and l2: "no_newline (''Host: '' @ host)"
    using assms(1-3) by (simp_all add: no_newline_def)
  have head: "upgrade_head method pq host h = (method @ '' '' @ unwrap_or ''/'' pq @ '' HTTP/1.1'') @ crlf
      @ (''Host: '' @ host) @ crlf @ concat (map (\<lambda>(n, v). n @ '': '' @ v @ crlf) (upgrade_fields h)) @ crlf"
    by (simp add: upgrade_head_def)
  have "list_all (\<lambda>n. \<not> keep_upgrade n) [''x-api-key'', PROXY_KEY_HEADER, ''host'', ''proxy-authorization'']"
    by code_simp
  then have "values_of n (upgrade_fields h) = []" if "n \<in> {''x-api-key'', PROXY_KEY_HEADER, ''host'', ''proxy-authorization''}" for n
    using that by (auto simp: values_of_def upgrade_fields_def filter_empty_conv)
  then show ?thesis
    using split_crlf_line [OF l1] split_crlf_line [OF l2] split_fields [OF fields]
    by (auto simp: head upgrade_fields_def)
qed

theorem upgrade_head_is_one_request_witness:
  "split_crlf (upgrade_head ''GET'' (Some ''/v1/code/x'') ''api.anthropic.com'' [(''upgrade'', ''websocket'')]) =
     [''GET /v1/code/x HTTP/1.1'', ''Host: api.anthropic.com'', ''upgrade: websocket'', [], []]"
proof -
  have "upgrade_fields [(''upgrade'', ''websocket'')] = [(''upgrade'', ''websocket'')]" by code_simp
  with upgrade_head_is_one_request [of "''GET''" "Some ''/v1/code/x''" "''api.anthropic.com''" "[(''upgrade'', ''websocket'')]"]
  show ?thesis by (simp add: no_newline_def)
qed

fun got_bytes :: "socket_read list \<Rightarrow> string" where
  "got_bytes [] = []"
| "got_bytes (Got c # rs) = c @ got_bytes rs"
| "got_bytes (_ # rs) = got_bytes rs"

lemma got_bytes_append [simp]: "got_bytes (a @ b) = got_bytes a @ got_bytes b"
  by (induction a rule: got_bytes.induct) auto

lemma got_bytes_map [simp]: "got_bytes (map Got cs) = concat cs"
  by (induction cs) auto

text \<open>The head that is read does not depend on how the socket cut it.\<close>

lemma read_head_cuts:
  assumes "find_sub (crlf @ crlf) (buf @ concat cs) = Some k" and "k + 4 \<le> 64 * 1024" and "[] \<notin> set cs"
    and "find_sub (crlf @ crlf) buf = None"
  shows "\<exists>past rest. read_head buf (map Got cs @ rs) = Inr (take (k + 4) (buf @ concat cs), past, rest)
     \<and> past @ got_bytes rest = drop (k + 4) (buf @ concat cs) @ got_bytes rs"
  using assms
proof (induction cs arbitrary: buf)
  case (Cons c cs)
  have len: "length (crlf @ crlf) = 4" by (simp add: crlf_def)
  show ?case
  proof (cases "find_sub (crlf @ crlf) (buf @ c)")
    case None
    have "length (buf @ c) < k + 4"
      using find_sub_inside [of "crlf @ crlf" "buf @ c" "concat cs" k] Cons.prems(1) None len by fastforce
    moreover have "c \<noteq> []" using Cons.prems(3) by auto
    ultimately show ?thesis using Cons None Cons.IH [of "buf @ c"] by simp
  next
    case (Some j)
    then have jk: "j = k" using find_sub_prefix [OF Some, of "concat cs"] Cons.prems(1) by simp
    have "k + 4 \<le> length (buf @ c)" using find_sub_bound [OF Some] len jk by simp
    moreover have "c \<noteq> []" using Cons.prems(3) by auto
    ultimately show ?thesis using Some jk by simp
  qed
qed simp

end
