(* ===== verification/Server.thy ===== *)
theory Server
  imports Control Relay Forward
begin

text \<open>
  \<open>handle\<close> of \<open>src/proxy/server.rs\<close>: what becomes of every request the listener or a tunnel hands over.
  A request is its method, the path and query of its request line, the scheme and authority of an absolute
  URL, its fields and the chunks of its body. While it is forwarded the others act on its fleet only (the
  worlds of the rounds); \<open>wo_start\<close> and \<open>wo_end\<close> are the clock when the session is begun and ended.
\<close>

record http_request =
  hr_method :: string
  hr_scheme :: "string option"
  hr_authority :: "string option"
  hr_target :: "string option"
  hr_headers :: header_map
  hr_body :: "chunk list"

record world =
  wo_dns :: dns
  wo_tls :: bool
  wo_dashboard :: string
  wo_id :: string
  wo_relay :: "outgoing \<Rightarrow> reply"
  wo_name_ok :: "string \<Rightarrow> bool"
  wo_dialled :: "string \<Rightarrow> string option"
  wo_wrote :: "string \<Rightarrow> bool"
  wo_reads :: "socket_read list"
  wo_rounds :: "nat \<Rightarrow> round_world"
  wo_mono :: int
  wo_start :: int
  wo_end :: int
  wo_others :: "server \<Rightarrow> server"

datatype handled =
    Connected connect_outcome
  | Handled answered
  | Passed response "chunk list"
  | Upgraded upgrade_result
  | Forwarded "req_info \<times> forward_result option"

subsection \<open>Addressing\<close>

definition PIN_PREFIX :: string where "PIN_PREFIX = ''/tc-acct/''"

definition host_header :: "http_request \<Rightarrow> string option" where
  "host_header r = opt_or (hdr_str (hr_headers r) ''host'') (hr_authority r)"

definition path_only :: "string \<Rightarrow> string" where
  "path_only = takeWhile (\<lambda>c. c \<noteq> CHR ''?'' \<and> c \<noteq> CHR ''#'')"

definition uri_path :: "http_request \<Rightarrow> string" where
  "uri_path r = (case hr_target r of Some t \<Rightarrow> takeWhile (\<lambda>c. c \<noteq> CHR ''?'') t | None \<Rightarrow> [])"

definition split_pin :: "ext \<Rightarrow> string \<Rightarrow> (string \<times> string) option" where
  "split_pin E pq =
     Option.bind (strip_prefix PIN_PREFIX pq) (\<lambda>rest.
       map_option (\<lambda>(token, tail). (percent_decode E token, CHR ''/'' # tail)) (split_once CHR ''/'' rest))"

record address =
  ad_pool :: "string option"
  ad_pin :: "string option"
  ad_path :: string
  ad_query :: string

text \<open>The pool keyword and the pin are taken off the path; a tunnel's stand in for those missing.\<close>

definition address_of :: "ext \<Rightarrow> http_request \<Rightarrow> tunnel_ctx option \<Rightarrow> address" where
  "address_of E r t =
     (let pq0 = unwrap_or ''/'' (hr_target r);
          (named, path1, pq1) = (case parse_pool_path pq0 of
             Some (name, rest) \<Rightarrow> (Some name, path_only rest, rest) | None \<Rightarrow> (None, uri_path r, pq0));
          pool = opt_or named (Option.bind t tc_pool)
      in (case split_pin E pq1 of
            Some (tok, rest) \<Rightarrow> \<lparr>ad_pool = pool, ad_pin = Some tok, ad_path = path_only rest, ad_query = rest\<rparr>
          | None \<Rightarrow> \<lparr>ad_pool = pool, ad_pin = Option.bind t tc_pin, ad_path = path1, ad_query = pq1\<rparr>))"

subsection \<open>Requests that go nowhere\<close>

definition dashboard_page :: "string \<Rightarrow> response" where
  "dashboard_page html =
     \<lparr>rs_status = 200,
      rs_headers = [(''content-type'', ''text/html; charset=utf-8''), (''cache-control'', ''no-store''),
        (''content-security-policy'',
         ''default-src 'none'; script-src 'unsafe-inline'; style-src 'unsafe-inline'; connect-src 'self'' @ [CHR 0x27])],
      rs_body = Bytes html\<rparr>"

definition no_forward_proxy :: response where
  "no_forward_proxy = error_response 403 ''permission_error'' ''plain-HTTP forward proxying is not supported''"

definition bad_key :: response where
  "bad_key = error_response 401 ''authentication_error'' ''Invalid proxy API key''"

definition too_large :: response where
  "too_large = error_response 413 ''invalid_request_error'' ''request body too large''"

definition unread_body :: response where
  "unread_body = error_response 400 ''invalid_request_error'' ''could not read request body''"

definition model_blocked :: response where
  "model_blocked = error_response 400 ''invalid_request_error'' ''This model is blocked by the proxy configuration (blockedModels)''"

subsection \<open>The client's own session\<close>

definition is_websocket :: "header_map \<Rightarrow> bool" where
  "is_websocket h = (case hdr_str h ''upgrade'' of Some u \<Rightarrow> eq_ignore_case u ''websocket'' | None \<Rightarrow> False)"

definition note_passthrough :: "http_request \<Rightarrow> string \<Rightarrow> server \<Rightarrow> server" where
  "note_passthrough r path =
     sv_events_update (\<lambda>es. es @ [LogEv (''passthrough '' @ hr_method r @ '' '' @ safe_str path 100)])"

definition pass_through :: "world \<Rightarrow> string \<Rightarrow> http_request \<Rightarrow> handled" where
  "pass_through W upstream r =
     (if is_websocket (hr_headers r)
      then Upgraded (relay_upgrade (wo_name_ok W) (wo_dialled W upstream) (wo_wrote W) (wo_reads W)
             (hr_method r) (hr_target r) (hr_headers r))
      else (case read_body (CONTROL_BODY_LIMIT * 16) [] (hr_body r) of
              None \<Rightarrow> Handled Hung
            | Some (Inl _) \<Rightarrow> Handled (Answers too_large)
            | Some (Inr b) \<Rightarrow>
                (case passthrough (wo_relay W) upstream (hr_method r) (hr_target r) (hr_headers r) b of
                   (res, rest) \<Rightarrow> Passed res rest)))"

subsection \<open>Requests for an account\<close>

definition parsed_body :: "ext \<Rightarrow> provider \<Rightarrow> string \<Rightarrow> obj option" where
  "parsed_body E p body = (if body = [] \<or> p = CodexP then None else parse_body E body)"

definition body_models :: "ext \<Rightarrow> provider \<Rightarrow> string \<Rightarrow> string option \<times> string option" where
  "body_models E p body =
     (case parsed_body E p body of
        Some m \<Rightarrow> (model_of (JObj m), advisor_of (JObj m))
      | None \<Rightarrow> (if p = CodexP then request_model (json_parse E) body else None, None))"

definition dimension_values :: "usage_dimension list \<Rightarrow> header_map \<Rightarrow> (string \<times> string) list" where
  "dimension_values ds h =
     List.map_filter (\<lambda>d. map_option (Pair (ud_name d))
       (opt_filter (\<lambda>v. v \<noteq> []) (map_option (\<lambda>v. safe_str (trim v) 200) (hdr_str h (to_lower (ud_header d)))))) ds"

definition dimension_headers :: "config \<Rightarrow> string list" where
  "dimension_headers c = map (\<lambda>d. to_lower (ud_header d)) (px_usage_dimensions (cf_proxy c))"

definition request_info ::
  "'u daemon \<Rightarrow> world \<Rightarrow> config \<Rightarrow> auth \<Rightarrow> string \<Rightarrow> fleet \<Rightarrow> provider \<Rightarrow> address \<Rightarrow> http_request \<Rightarrow> string \<Rightarrow> req_info" where
  "request_info D W c auth pool f p ad r body =
     (case body_models (da_ext D) p body of
        (model, advisor) \<Rightarrow>
          \<lparr>ri_id = wo_id W, ri_method = hr_method r, ri_path_and_query = ad_query ad,
           ri_model = map_option (\<lambda>m. safe_str m 120) model, ri_advisor = advisor,
           ri_session = opt_filter valid_session_id (hdr_str (hr_headers r) ''x-claude-code-session-id''),
           ri_client = auth_client auth, ri_pin = ad_pin ad, ri_pool = pool,
           ri_hold_ms = min (fl_hold_seconds f * 1000) u64_max, ri_provider = p,
           ri_parsed = parsed_body (da_ext D) p body,
           ri_dimensions = dimension_values (px_usage_dimensions (cf_proxy c)) (hr_headers r)\<rparr>)"

definition is_telemetry :: "string \<Rightarrow> bool" where
  "is_telemetry path = starts_with ''/api/event_logging'' path"

definition start_event :: "req_info \<Rightarrow> string \<Rightarrow> activity" where
  "start_event info path =
     StartEv (ri_id info) (ri_method info) (safe_str path 100) (ri_model info) (ri_session info) (ri_client info) None"

text \<open>\<open>notify_end\<close> counts what it announces.\<close>

definition count_end :: "activity \<Rightarrow> metrics \<Rightarrow> metrics" where
  "count_end e m =
     (case e of
        EndEv _ _ _ _ ok \<Rightarrow>
          m\<lparr>mt_requests_total := u64_inc (mt_requests_total m),
            mt_requests_failed := (if ok then mt_requests_failed m else u64_inc (mt_requests_failed m))\<rparr>
      | _ \<Rightarrow> m)"

definition announce :: "activity list \<Rightarrow> server \<Rightarrow> server" where
  "announce es s = s\<lparr>sv_events := sv_events s @ es, sv_metrics := fold count_end es (sv_metrics s)\<rparr>"

definition forward_request ::
  "'u daemon \<Rightarrow> world \<Rightarrow> config \<Rightarrow> fleet \<Rightarrow> req_info \<Rightarrow> string \<Rightarrow> header_map \<Rightarrow> string \<Rightarrow> server \<Rightarrow> handled \<times> server" where
  "forward_request D W c f info path headers body s =
     (let shown = (if is_telemetry path \<and> cf_event_logging c = EvHide then s else announce [start_event info path] s);
          begun = begin_session_request (ri_session info) (ri_client info) (wo_start W) f
      in (case forward (da_ext D) (da_import D) (dimension_headers c) info (wo_mono W) headers body (wo_rounds W) begun of
            None \<Rightarrow> (Forwarded (info, None), shown\<lparr>sv_pools := put_fleet (ri_pool info) begun (sv_pools shown)\<rparr>)
          | Some res \<Rightarrow>
              let ended = end_session_request (ri_session info) (wo_end W) (fs_fleet (fr_state res))
              in (Forwarded (info, Some res),
                  announce (fs_events (fr_state res)) (shown\<lparr>sv_pools := put_fleet (ri_pool info) ended (sv_pools shown)\<rparr>))))"

definition account_request ::
  "'u daemon \<Rightarrow> world \<Rightarrow> config \<Rightarrow> auth \<Rightarrow> string \<Rightarrow> fleet \<Rightarrow> provider \<Rightarrow> address \<Rightarrow> http_request \<Rightarrow> server
   \<Rightarrow> handled \<times> server" where
  "account_request D W c auth pool f p ad r s =
     (case read_body (px_max_body_bytes (cf_proxy c)) [] (hr_body r) of
        None \<Rightarrow> (Handled Hung, s)
      | Some (Inl big) \<Rightarrow> (Handled (Answers (if big then too_large else unread_body)), s)
      | Some (Inr body) \<Rightarrow>
          if (case fst (body_models (da_ext D) p body) of Some m \<Rightarrow> is_model_blocked f m | None \<Rightarrow> False)
          then (Handled (Answers model_blocked), s)
          else forward_request D W c f (request_info D W c auth pool f p ad r body) (ad_path ad) (hr_headers r) body s)"

definition serve_address ::
  "'u daemon \<Rightarrow> world \<Rightarrow> config \<Rightarrow> auth \<Rightarrow> address \<Rightarrow> http_request \<Rightarrow> tunnel_ctx option \<Rightarrow> server \<Rightarrow> handled \<times> server" where
  "serve_address D W c auth ad r t s =
     (case control_resolve D (ad_pool ad) s of
        (None, s1) \<Rightarrow> (Handled Crashed, s1)
      | (Some (pool, f), s1) \<Rightarrow>
          let p = (case t of Some tc \<Rightarrow> provider_for_host (tc_host tc) | None \<Rightarrow> provider_for_path (ad_path ad))
          in if p = Anthropic \<and> is_passthrough_path (ad_path ad)
             then (pass_through W (cf_upstream c) r, note_passthrough r (ad_path ad) s1)
             else if is_telemetry (ad_path ad) \<and> cf_event_logging c = EvBlock
             then (Handled (Answers (json_response 200 (JObj []))), s1)
             else account_request D W c auth pool f p ad r s1)"

subsection \<open>Every request\<close>

definition request_auth :: "config \<Rightarrow> http_request \<Rightarrow> ip \<Rightarrow> tunnel_ctx option \<Rightarrow> auth" where
  "request_auth c r peer t =
     (case t of Some tc \<Rightarrow> tc_auth tc | None \<Rightarrow> authenticate (cf_proxy c) peer (hr_headers r) (host_header r))"

definition do_connect :: "'u daemon \<Rightarrow> world \<Rightarrow> http_request \<Rightarrow> ip \<Rightarrow> server \<Rightarrow> handled \<times> server" where
  "do_connect D W r peer s =
     (case handle_connect (da_ext D) (sv_config s) (wo_dns W) (wo_tls W) peer (hr_headers r) (hr_authority r)
             (int (da_mono D)) (sv_metrics s, sv_pools s) of
        (res, m, rg) \<Rightarrow> (Connected res, s\<lparr>sv_metrics := m, sv_pools := rg\<rparr>))"

definition serve_admitted ::
  "'u daemon \<Rightarrow> world \<Rightarrow> auth \<Rightarrow> address \<Rightarrow> http_request \<Rightarrow> tunnel_ctx option \<Rightarrow> server \<Rightarrow> handled \<times> server" where
  "serve_admitted D W auth ad r t s =
     (if starts_with ''/corrall/'' (ad_path ad) \<and> t = None
      then (case control D (wo_others W) auth (ad_pool ad) (hr_method r) (uri_path r) (hr_body r) s of
              (a, s') \<Rightarrow> (Handled a, s'))
      else serve_address D W (sv_config s) auth ad r t s)"

definition is_page :: "http_request \<Rightarrow> address \<Rightarrow> tunnel_ctx option \<Rightarrow> bool" where
  "is_page r ad t \<longleftrightarrow> hr_method r = ''GET'' \<and> ad_path ad = ''/corrall/dashboard'' \<and> t = None"

definition handle ::
  "'u daemon \<Rightarrow> world \<Rightarrow> http_request \<Rightarrow> ip \<Rightarrow> tunnel_ctx option \<Rightarrow> server \<Rightarrow> handled \<times> server" where
  "handle D W r peer t s =
     (if hr_method r = ''CONNECT'' then do_connect D W r peer s
      else if hr_scheme r \<noteq> None \<and> t = None then (Handled (Answers no_forward_proxy), s)
      else let ad = address_of (da_ext D) r t
           in if is_page r ad t then (Handled (Answers (dashboard_page (wo_dashboard W))), s)
              else (case request_auth (sv_config s) r peer t of
                      Denied why \<Rightarrow>
                        (Handled (Answers bad_key), s\<lparr>sv_metrics := count_auth_failure (sv_metrics s)\<rparr>)
                    | auth \<Rightarrow> serve_admitted D W auth ad r t s))"

text \<open>The end of a stream \<open>forward\<close> left to the task that relays it: the client takes \<open>n\<close> chunks.\<close>

definition stream_ended ::
  "'u daemon \<Rightarrow> req_info \<Rightarrow> selected \<times> nat \<times> chunk list \<Rightarrow> nat \<Rightarrow> int \<Rightarrow> nat \<Rightarrow> server \<Rightarrow> string list \<times> server" where
  "stream_ended D info st n now elapsed s =
     (case st of (sel, status, cs) \<Rightarrow>
        (case pools_resolve (sv_pools s) (Some (ri_pool info)) of
           None \<Rightarrow> ([], s)
         | Some (pool, f) \<Rightarrow>
             (case finish_stream (da_ext D) info (sel_id sel) n cs now f of
                (got, ok, g) \<Rightarrow>
                  (got, announce [EndEv (ri_id info) (sel_name sel) status elapsed ok]
                          (s\<lparr>sv_pools := put_fleet pool g (sv_pools s)\<rparr>)))))"

text \<open>What \<open>src/main.rs\<close> starts with: a fleet for every pool of the loaded configuration.\<close>

definition boot :: "'u daemon \<Rightarrow> config \<Rightarrow> file_read \<Rightarrow> server" where
  "boot D c file =
     \<lparr>sv_pools = pools_new (da_import D) (da_uuid D 0) c (da_now D 0), sv_config = c, sv_file = file,
      sv_metrics = \<lparr>mt_requests_total = 0, mt_requests_failed = 0, mt_auth_failures = 0, mt_connects_total = 0\<rparr>,
      sv_events = [], sv_flows = [], sv_manual = None, sv_probing = False\<rparr>"

end
