(* ===== verification/Control_Props.thy ===== *)
theory Control_Props
  imports Control
begin

text \<open>
  The control plane and the configuration file: whatever it is asked, the file stays one the daemon loads.
\<close>

subsection \<open>What validation looks at\<close>

definition good_account :: "ext \<Rightarrow> account_config \<Rightarrow> bool" where
  "good_account E a \<longleftrightarrow> validate_account E a = Inr ()"

definition good_pool :: "ext \<Rightarrow> string \<times> pool_config \<Rightarrow> bool" where
  "good_pool E np \<longleftrightarrow> validate_pool E np = Inr ()"

definition good_config :: "ext \<Rightarrow> config \<Rightarrow> bool" where
  "good_config E c \<longleftrightarrow> config_validate E c = Inr ()"

lemma good_account_iff:
  "good_account E a \<longleftrightarrow> (\<forall>u. ac_upstream a = Some u \<longrightarrow> safe_upstream E u) \<and> trim (ac_name a) \<noteq> []"
  by (auto simp: good_account_def validate_account_def validate_upstream_ok split: option.splits)

lemma good_pool_iff:
  "good_pool E (n, p) \<longleftrightarrow>
     validate_pool_name n = Inr () \<and> (\<forall>m. pc_match_rules p = Some m \<longrightarrow> pool_match_validate E m = Inr ())
     \<and> (\<forall>a \<in> set (pc_accounts p). good_account E a)"
  by (auto simp: good_pool_def validate_pool_def try_all_Inr good_account_def split: option.splits)

lemma good_config_iff:
  "good_config E c \<longleftrightarrow>
     (is_loopback_host (bind_host E c) \<or> 16 \<le> length (trim (px_api_key (cf_proxy c))))
     \<and> safe_upstream E (cf_upstream c) \<and> al_has (cf_pools c) (cf_default_pool c)
     \<and> (\<forall>np \<in> set (cf_pools c). good_pool E np)
     \<and> (\<forall>k \<in> set (px_client_keys (cf_proxy c)). 16 \<le> length (ck_key k))
     \<and> (\<forall>d \<in> set (px_usage_dimensions (cf_proxy c)). to_lower (ud_header d) \<notin> set RESERVED_DIMENSION_HEADERS)"
  by (auto simp: good_config_def config_validate_def validate_upstream_ok try_all_Inr good_pool_def)

text \<open>Two configurations that differ in their pools only.\<close>

definition same_but_pools :: "config \<Rightarrow> config \<Rightarrow> bool" where
  "same_but_pools c d \<longleftrightarrow> cf_proxy d = cf_proxy c \<and> cf_upstream d = cf_upstream c"

lemma good_config_pools:
  assumes "good_config E c" and "same_but_pools c d" and "al_has (cf_pools d) (cf_default_pool d)"
    and "\<And>np. np \<in> set (cf_pools d) \<Longrightarrow> good_pool E np"
  shows "good_config E d"
  using assms by (auto simp: good_config_iff same_but_pools_def bind_host_def)

subsection \<open>The edits keep it valid\<close>

lemma set_bt_insert: "set (bt_insert k v m) \<subseteq> insert (k, v) (set m)"
  by (induction k v m rule: bt_insert.induct) auto

lemma good_pool_default: "validate_pool_name n = Inr () \<Longrightarrow> good_pool E (n, pool_default)"
  by (simp add: good_pool_iff pool_default_def)

lemma ensure_pool_good:
  assumes "ensure_pool name c = Inr d" and "good_config E c"
  shows "good_config E d"
proof -
  from assms(1) have n: "validate_pool_name name = Inr ()"
    by (cases "validate_pool_name name") (auto simp: ensure_pool_def)
  with assms(1) have "d = c \<or> d = c\<lparr>cf_pools := bt_insert name pool_default (cf_pools c)\<rparr>"
    by (auto simp: ensure_pool_def split: if_splits)
  then show ?thesis
  proof
    assume d: "d = c\<lparr>cf_pools := bt_insert name pool_default (cf_pools c)\<rparr>"
    have "good_pool E np" if "np \<in> set (cf_pools d)" for np
      using that set_bt_insert [of name pool_default "cf_pools c"] assms(2) good_pool_default [OF n]
      by (auto simp: d good_config_iff)
    then show ?thesis
      using good_config_pools [OF assms(2), of d] assms(2) by (auto simp: same_but_pools_def d good_config_iff)
  qed (use assms(2) in simp)
qed

lemma upd_pool_good:
  assumes "good_config E c" and "\<And>n p. good_pool E (n, p) \<Longrightarrow> good_pool E (n, g p)"
  shows "good_config E (upd_pool k g c)"
proof (rule good_config_pools [OF assms(1)])
  show "same_but_pools c (upd_pool k g c)" by (simp add: same_but_pools_def upd_pool_def)
  have "al_has (cf_pools (upd_pool k g c)) x = al_has (cf_pools c) x" for x
    using upd_pool_frame(1) [of k g c x] by (cases "x = k") (simp_all add: config_pool_def del: upd_pool_frame(1))
  then show "al_has (cf_pools (upd_pool k g c)) (cf_default_pool (upd_pool k g c))"
    using assms(1) by (simp add: good_config_iff)
  show "good_pool E np" if "np \<in> set (cf_pools (upd_pool k g c))" for np
    using that assms by (auto simp: upd_pool_def good_config_iff split: if_splits)
qed

lemma knobs_good: "good_config E c \<Longrightarrow> good_config E (apply_pool_knobs name t d c)"
  unfolding apply_pool_knobs_def by (rule upd_pool_good) (simp_all add: good_pool_iff)

lemma upd_entry_good:
  assumes "good_config E c" and "\<And>a. good_account E a \<Longrightarrow> good_account E (g a)"
  shows "good_config E (upd_entry pool i g c)"
  unfolding upd_entry_def
proof (rule upd_pool_good [OF assms(1)])
  fix n p assume p: "good_pool E (n, p)"
  show "good_pool E (n, pc_accounts_update (\<lambda>as. as[i := g (as ! i)]) p)"
  proof (cases "i < length (pc_accounts p)")
    case True
    with p assms(2) show ?thesis
      by (auto simp: good_pool_iff dest!: subsetD [OF set_update_subset_insert])
  qed (use p in \<open>simp add: good_pool_iff list_update_beyond\<close>)
qed

lemma rename_pool_good:
  assumes "rename_pool old new c = Inr d" and "good_config E c"
  shows "good_config E d"
proof (cases "old = new")
  case False
  with assms(1) obtain p where p: "map_of (cf_pools c) old = Some p" and n: "validate_pool_name new = Inr ()"
    and d: "d = c\<lparr>cf_pools := bt_insert new p (AList.delete old (cf_pools c)),
                 cf_default_pool := (if cf_default_pool c = old then new else cf_default_pool c)\<rparr>"
    by (cases "validate_pool_name new") (auto simp: rename_pool_def split: if_splits option.splits)
  from p assms(2) have "good_pool E (old, p)" by (auto simp: good_config_iff dest: map_of_SomeD)
  with n have new: "good_pool E (new, p)" by (simp add: good_pool_iff)
  have sub: "set (AList.delete old (cf_pools c)) \<subseteq> set (cf_pools c)" by (auto simp: AList.delete_eq)
  have "good_pool E np" if "np \<in> set (cf_pools d)" for np
    using that set_bt_insert [of new p "AList.delete old (cf_pools c)"] sub new assms(2) by (auto simp: d good_config_iff)
  moreover have "al_has (cf_pools d) (cf_default_pool d)"
    using assms(2) by (auto simp: d good_config_iff delete_conv')
  ultimately show ?thesis
    using good_config_pools [OF assms(2), of d] by (simp add: same_but_pools_def d)
qed (use assms in \<open>simp add: rename_pool_def\<close>)

lemma push_account_good:
  assumes "good_config E c" and "good_account E a" and "al_has (cf_pools c) pool"
  shows "good_config E (push_account pool a c)"
proof -
  from assms(3) obtain p where p: "map_of (cf_pools c) pool = Some p" by auto
  let ?p = "pc_accounts_update (\<lambda>as. as @ [a]) p"
  have d: "push_account pool a c = c\<lparr>cf_pools := bt_insert pool ?p (cf_pools c)\<rparr>"
    by (simp add: push_account_def config_pool_def p)
  from p assms(1) have "good_pool E (pool, p)" by (auto simp: good_config_iff dest: map_of_SomeD)
  with assms(2) have new: "good_pool E (pool, ?p)" by (auto simp: good_pool_iff)
  have "good_pool E np" if "np \<in> set (bt_insert pool ?p (cf_pools c))" for np
    using that set_bt_insert [of pool ?p "cf_pools c"] new assms(1) by (auto simp: good_config_iff)
  then show ?thesis
    unfolding d using assms(1) by (intro good_config_pools [OF assms(1)]) (auto simp: same_but_pools_def good_config_iff)
qed

lemma remove_at_subset: "set (remove_at i xs) \<subseteq> set xs"
  by (auto simp: remove_at_def dest: in_set_takeD in_set_dropD)

lemma account_at_good:
  assumes "good_config E c" and "config_pool c p = Some pc" and "i < length (pc_accounts pc)"
  shows "good_account E (account_at c p i)"
proof -
  from assms(1,2) have "good_pool E (p, pc)" by (auto simp: good_config_iff config_pool_def dest: map_of_SomeD)
  with assms(2,3) show ?thesis by (auto simp: good_pool_iff account_at_def)
qed

lemma entry_at_good:
  assumes "entry_at pool found new c = (d, i, u)" and "good_config E c" and "al_has (cf_pools c) pool"
    and "good_account E new"
    and "\<And>p j. found = Some (p, j) \<Longrightarrow> \<exists>pc. config_pool c p = Some pc \<and> j < length (pc_accounts pc)"
  shows "good_config E d"
proof (cases found)
  case None
  with assms show ?thesis by (auto simp: entry_at_def push_account_good)
next
  case (Some pj)
  obtain p j where pj: "found = Some (p, j)" using Some by (cases pj) simp
  from assms(5) [OF pj] account_at_good [OF assms(2)] have a: "good_account E (account_at c p j)" by blast
  let ?c = "upd_pool p (pc_accounts_update (remove_at j)) c"
  have "good_config E ?c"
    by (rule upd_pool_good [OF assms(2)]) (auto simp: good_pool_iff dest: subsetD [OF remove_at_subset])
  moreover have "al_has (cf_pools ?c) pool"
    using assms(3) upd_pool_frame(1) [of p "pc_accounts_update (remove_at j)" c pool]
    by (auto simp: config_pool_def simp del: upd_pool_frame(1))
  ultimately show ?thesis
    using assms(1,2) pj push_account_good [of E ?c, OF _ a] by (auto simp: entry_at_def Let_def split: if_splits)
qed

lemma file_login_good:
  assumes "file_login p t prof c = Inr (d, name, created)" and "good_config E c" and "trim name \<noteq> []"
  shows "good_config E d"
proof -
  from assms(1) obtain pool c1 where t: "target_pool c (pf_pool p) = Inr (pool, c1)"
    by (cases "target_pool c (pf_pool p)") (auto simp: file_login_def)
  let ?new = "account_config_default\<lparr>ac_name := login_name p prof c1, ac_kind := Oauth\<rparr>"
  let ?found = "login_match c1 (login_name p prof c1) prof"
  obtain c2 i u where e: "entry_at pool ?found ?new c1 = (c2, i, u)" by (cases "entry_at pool ?found ?new c1") auto
  from assms(1) t e have d: "d = upd_entry pool i (login_entry name t prof) c2" and n: "name = login_name p prof c1"
    by (auto simp: file_login_def Let_def upsert_oauth_at_def)
  have g1: "good_config E c1 \<and> al_has (cf_pools c1) pool"
  proof (cases "pf_pool p")
    case None
    with t assms(2) show ?thesis by (auto simp: target_pool_def good_config_iff)
  next
    case (Some q)
    with t have q: "ensure_pool q c = Inr c1" "pool = q"
      by (auto simp: target_pool_def as_edit_def split: sum.splits)
    have "al_has (cf_pools c1) q" using q(1) by (auto simp: ensure_pool_def split: if_splits)
    with ensure_pool_good [OF q(1) assms(2)] q(2) show ?thesis by simp
  qed
  have new: "good_account E ?new"
    using assms(3) n by (simp add: good_account_iff account_config_default_def)
  have "\<exists>pc. config_pool c1 q = Some pc \<and> j < length (pc_accounts pc)" if "?found = Some (q, j)" for q j
    using that by (auto simp: login_match_def opt_or_def bind_eq_Some_conv split: option.splits dest!: locate_by_SomeD)
  from entry_at_good [OF e _ _ new this] g1 have "good_config E c2" by simp
  then show ?thesis
    unfolding d using assms(3)
    by (intro upd_entry_good) (auto simp: good_account_iff login_entry_def Let_def split: option.splits)
qed

subsection \<open>What is written\<close>

text \<open>The file is left alone or replaced by a configuration that validates.\<close>

definition written_well :: "'u daemon \<Rightarrow> file_read \<Rightarrow> file_read \<Rightarrow> bool" where
  "written_well D f f' \<longleftrightarrow> f' = f \<or> (\<exists>c. good_config (da_ext D) c \<and> f' = file_read.Bytes (da_encode D c))"

lemma written_well_refl [simp]: "written_well D f f"
  by (simp add: written_well_def)

lemma written_well_trans: "written_well D f g \<Longrightarrow> written_well D g h \<Longrightarrow> written_well D f h"
  by (auto simp: written_well_def)

lemma save_file_well: "good_config (da_ext D) c \<Longrightarrow> written_well D f (save_file D c f)"
  by (auto simp: written_well_def save_file_def)

lemma load_from_good:
  assumes "load_from E decode key uuid legacy file = Inr (Some (c, w))"
  shows "good_config E c \<and> (w = None \<or> w = Some c)"
  using assms
  by (auto simp: load_from_def good_config_def Let_def split: file_read.splits option.splits prod.splits if_splits)

lemma load_file_well:
  assumes "load_file D k f = (r, f')"
  shows "written_well D f f' \<and> (\<forall>c. r = Inr (Some c) \<longrightarrow> good_config (da_ext D) c)"
  using assms load_from_good [of "da_ext D" "da_decode D" "da_key D" "da_uuid D k" "da_legacy D" f]
  by (fastforce simp: load_file_def intro: save_file_well split: sum.splits option.splits prod.splits)

definition edit_ok :: "'u daemon \<Rightarrow> (config \<Rightarrow> edit_error + (config \<times> 'a)) \<Rightarrow> bool" where
  "edit_ok D edit \<longleftrightarrow> (\<forall>c d x. edit c = Inr (d, x) \<longrightarrow> good_config (da_ext D) c \<longrightarrow> good_config (da_ext D) d)"

lemma config_update_well:
  assumes "config_update D k edit f = (r, f')" and "good_config (da_ext D) (config_default (da_key D))" and "edit_ok D edit"
  shows "written_well D f f' \<and> (\<forall>c x. r = Inr (c, x) \<longrightarrow> good_config (da_ext D) c)"
proof -
  obtain r0 f0 where l: "load_file D k f = (r0, f0)" by fastforce
  from load_file_well [OF l] have f0: "written_well D f f0" by simp
  show ?thesis
  proof (cases r0)
    case (Inl e)
    with assms(1) l f0 show ?thesis by (auto simp: config_update_def)
  next
    case (Inr c0)
    let ?c = "unwrap_or (config_default (da_key D)) c0"
    have g: "good_config (da_ext D) ?c" using load_file_well [OF l] Inr assms(2) by (cases c0) auto
    show ?thesis
    proof (cases "edit ?c")
      case (Inl e)
      with assms(1) l Inr f0 show ?thesis by (auto simp: config_update_def)
    next
      case e: (Inr y)
      obtain d x where y: "y = (d, x)" by fastforce
      from assms(3) e y g have d: "good_config (da_ext D) d" by (auto simp: edit_ok_def)
      with f0 have "written_well D f (save_file D d f0)" by (blast intro: written_well_trans save_file_well)
      with assms(1) l Inr e y f0 d show ?thesis by (auto simp: config_update_def split: if_splits)
    qed
  qed
qed

subsection \<open>What a route leaves alone\<close>

text \<open>A route of the control plane writes the file well, counts nothing, ends no request and leaves the
  registry some pool.\<close>

definition keeps :: "'u daemon \<Rightarrow> server \<Rightarrow> server \<Rightarrow> bool" where
  "keeps D s s' \<longleftrightarrow>
     written_well D (sv_file s) (sv_file s') \<and> sv_metrics s' = sv_metrics s
     \<and> filter is_end (sv_events s') = filter is_end (sv_events s)
     \<and> (rg_map (sv_pools s) \<noteq> [] \<longrightarrow> rg_map (sv_pools s') \<noteq> [])"

lemma keeps_refl [simp]: "keeps D s s"
  by (simp add: keeps_def)

lemma keeps_trans: "keeps D s t \<Longrightarrow> keeps D t u \<Longrightarrow> keeps D s u"
  by (auto simp: keeps_def intro: written_well_trans)

lemma bt_insert_not_Nil [simp]: "bt_insert k v m \<noteq> []"
  using set_keys_bt_insert [of k v m] by (metis empty_iff image_empty insertI1 list.set(1))

lemma sync_pool_fold: "snd acc \<noteq> [] \<or> ks \<noteq> [] \<Longrightarrow> snd (fold (sync_pool I u c now) ks acc) \<noteq> []"
proof (induction ks arbitrary: acc)
  case (Cons k ks)
  have "snd (sync_pool I u c now k acc) \<noteq> []"
    by (cases acc) (auto simp: sync_pool_def Let_def split: option.splits prod.splits)
  with Cons.IH show ?case by simp
qed simp

lemma pools_sync_nonempty:
  assumes "good_config E c" shows "rg_map (snd (pools_sync I u c now rg)) \<noteq> []"
proof -
  from assms have "al_keys (cf_pools c) \<noteq> []" by (auto simp: good_config_iff)
  then show ?thesis
    using sync_pool_fold [where I = I and u = u and c = c and now = now and ks = "al_keys (cf_pools c)"]
    by (auto simp: pools_sync_def Let_def split: prod.splits) (metis snd_conv)
qed

lemma apply_config_frame [simp]:
  "sv_file (snd (apply_config D k c s)) = sv_file s" "sv_flows (snd (apply_config D k c s)) = sv_flows s"
  "sv_metrics (snd (apply_config D k c s)) = sv_metrics s" "sv_events (snd (apply_config D k c s)) = sv_events s"
  "sv_pools (snd (apply_config D k c s)) = snd (pools_sync (da_import D) (da_uuid D k) c (da_now D k) (sv_pools s))"
  by (simp_all add: apply_config_def split: prod.splits)

lemma as_edit_Inr [simp]: "as_edit r = Inr x \<longleftrightarrow> r = Inr x"
  by (cases r) (simp_all add: as_edit_def)

lemma listen_override_good: "apply_listen_override E l p c = Inr d \<Longrightarrow> good_config E c \<Longrightarrow> good_config E d"
  by (auto simp: apply_listen_override_def good_config_def Let_def split: if_splits)

lemma reload_keeps:
  assumes "reload D k s = (r, s')"
  shows "keeps D s s' \<and> sv_flows s' = sv_flows s"
proof -
  obtain r0 f0 where l: "load_file D k (sv_file s) = (r0, f0)" by fastforce
  note w = load_file_well [OF l]
  have k0: "keeps D s (s\<lparr>sv_file := f0\<rparr>)" using w by (simp add: keeps_def)
  show ?thesis
  proof (cases "\<exists>c d. r0 = Inr (Some c) \<and> apply_listen_override (da_ext D) (da_listen D) (da_port D) c = Inr d")
    case True
    then obtain c d where c: "r0 = Inr (Some c)" "apply_listen_override (da_ext D) (da_listen D) (da_port D) c = Inr d"
      by blast
    let ?t = "snd (apply_config D (Suc k) d (s\<lparr>sv_file := f0\<rparr>))"
    from assms l c have s': "s' = ?t" by (auto simp: reload_def Let_def split: prod.splits)
    from w c have "good_config (da_ext D) d" by (auto intro: listen_override_good)
    then have "keeps D (s\<lparr>sv_file := f0\<rparr>) ?t" by (simp add: keeps_def pools_sync_nonempty)
    with k0 show ?thesis unfolding s' by (auto intro: keeps_trans)
  next
    case False
    with assms l have "s' = s\<lparr>sv_file := f0\<rparr>"
      by (auto simp: reload_def Let_def split: sum.splits option.splits prod.splits)
    with k0 show ?thesis by simp
  qed
qed

lemma reconcile_keeps:
  assumes "good_config (da_ext D) c"
  shows "keeps D s (reconcile D k c s)" and "sv_flows (reconcile D k c s) = sv_flows s"
  using assms reload_keeps [of D k s] by (auto simp: reconcile_def prod_eq_iff keeps_def pools_sync_nonempty)

text \<open>An update of the file and what follows it.\<close>

lemma persist_keeps:
  assumes "edit_ok D edit" and "good_config (da_ext D) (config_default (da_key D))"
  shows "keeps D s (snd (persist D edit yes no s)) \<and> sv_flows (snd (persist D edit yes no s)) = sv_flows s"
proof -
  obtain r f where u: "config_update D 0 edit (sv_file s) = (r, f)" by fastforce
  note w = config_update_well [OF u assms(2,1)]
  then have k: "keeps D s (s\<lparr>sv_file := f\<rparr>)" by (simp add: keeps_def)
  show ?thesis
  proof (cases r)
    case (Inl e)
    with u k show ?thesis by (simp add: persist_def)
  next
    case (Inr cx)
    obtain c x where cx: "cx = (c, x)" by fastforce
    with w Inr have "good_config (da_ext D) c" by simp
    from keeps_trans [OF k reconcile_keeps(1) [OF this]] reconcile_keeps(2) [OF this] u Inr cx
    show ?thesis by (simp add: persist_def)
  qed
qed

lemma pool_create_keeps:
  assumes "good_config (da_ext D) (config_default (da_key D))"
  shows "keeps D s (snd (pool_create D v s)) \<and> sv_flows (snd (pool_create D v s)) = sv_flows s"
proof -
  have "edit_ok D (\<lambda>c. res_bind (as_edit (ensure_pool name c)) (\<lambda>c1.
      Inr (apply_pool_knobs name (fst (knobs_of v)) (snd (knobs_of v)) c1, ())))" for name
    by (auto simp: edit_ok_def intro: knobs_good ensure_pool_good)
  from persist_keeps [OF this assms] show ?thesis
    by (simp add: pool_create_def split: option.split)
qed

lemma account_action_keeps:
  assumes "good_config (da_ext D) (config_default (da_key D))"
  shows "keeps D s (snd (account_action D pool acct action v s)) \<and> sv_flows (snd (account_action D pool acct action v s)) = sv_flows s"
proof -
  have "edit_ok D (\<lambda>c. res_bind (locate c (Some pool) acct) (\<lambda>(p, i).
      Inr (upd_entry p i (edit_account ed) c, ac_name (account_at c p i))))" for ed
    by (auto intro!: upd_entry_good simp: edit_ok_def good_account_iff edit_account_def split: account_edit.splits)
  from persist_keeps [OF this assms] show ?thesis
    by (simp add: account_action_def split: sum.split)
qed

lemma registry_rename_nonempty: "rg_map rg \<noteq> [] \<Longrightarrow> rg_map (registry_rename old new rg) \<noteq> []"
  by (auto simp: registry_rename_def split: option.splits)

lemma pool_edit_keeps:
  assumes "good_config (da_ext D) (config_default (da_key D))"
  shows "keeps D s (snd (pool_edit D name v s)) \<and> sv_flows (snd (pool_edit D name v s)) = sv_flows s"
proof -
  let ?new = "trimmed_field ''newName'' v"
  let ?e = "\<lambda>c. let c1 = apply_pool_knobs name (fst (knobs_of v)) (snd (knobs_of v)) c
    in res_bind (case ?new of Some fresh \<Rightarrow> as_edit (rename_pool name fresh c1) | None \<Rightarrow> Inr c1) (\<lambda>c2. Inr (c2, ()))"
  have e: "edit_ok D ?e"
    by (auto simp: edit_ok_def Let_def intro: knobs_good dest: rename_pool_good split: option.splits)
  obtain r f where u: "config_update D 0 ?e (sv_file s) = (r, f)" by fastforce
  note w = config_update_well [OF u assms e]
  let ?s1 = "s\<lparr>sv_file := f\<rparr>"
  let ?s2 = "case ?new of Some fresh \<Rightarrow> sv_pools_update (registry_rename name fresh) ?s1 | None \<Rightarrow> ?s1"
  have k: "keeps D s ?s1" "keeps D s ?s2" "sv_flows ?s2 = sv_flows s"
    using w registry_rename_nonempty [of "sv_pools s"] by (auto simp: keeps_def split: option.splits)
  show ?thesis
  proof (cases r)
    case (Inl x)
    then show ?thesis using u k by (simp add: pool_edit_def Let_def)
  next
    case (Inr cx)
    obtain c x where cx: "cx = (c, x)" by (cases cx)
    with w Inr have "good_config (da_ext D) c" by simp
    from keeps_trans [OF k(2) reconcile_keeps(1) [OF this]] reconcile_keeps(2) [OF this] k(3)
    show ?thesis using u Inr cx by (simp add: pool_edit_def Let_def)
  qed
qed

lemma pools_param_keeps:
  assumes "good_config (da_ext D) (config_default (da_key D))"
  shows "keeps D s (snd (pools_param D sub v s)) \<and> sv_flows (snd (pools_param D sub v s)) = sv_flows s"
  using account_action_keeps [OF assms] pool_edit_keeps [OF assms]
  by (auto simp: pools_param_def Let_def split: list.splits)

text \<open>A login in progress has no name or one that is not blank, and only such logins are filed.\<close>

definition flows_named :: "server \<Rightarrow> bool" where
  "flows_named s \<longleftrightarrow> (\<forall>(i, p) \<in> set (sv_flows s). \<forall>n. pf_name p = Some n \<longrightarrow> trim n \<noteq> [])"

definition profiles_named :: "'u daemon \<Rightarrow> bool" where
  "profiles_named D \<longleftrightarrow> (\<forall>a p c. fetch_profile D a = Some p \<longrightarrow> trim (display_name p c) \<noteq> [])"

lemma login_name_not_blank:
  assumes "profiles_named D" and "\<And>n. pf_name p = Some n \<Longrightarrow> trim n \<noteq> []"
  shows "trim (login_name p (fetch_profile D a) c) \<noteq> []"
proof -
  have "trim ''account'' \<noteq> []" by code_simp
  with assms show ?thesis by (auto simp: login_name_def profiles_named_def split: option.split)
qed

lemma submit_tokens_keeps:
  assumes "good_config (da_ext D) (config_default (da_key D))" and "profiles_named D"
    and "\<And>n. pf_name p = Some n \<Longrightarrow> trim n \<noteq> []"
  shows "keeps D s (snd (submit_tokens D p r s)) \<and> sv_flows (snd (submit_tokens D p r s)) = sv_flows s"
proof -
  have "edit_ok D (file_login p t (fetch_profile D (tk_access t)))" for t
    unfolding edit_ok_def
  proof (intro allI impI)
    fix c d x
    assume f: "file_login p t (fetch_profile D (tk_access t)) c = Inr (d, x)" and g: "good_config (da_ext D) c"
    obtain name created where x: "x = (name, created)" by (cases x)
    from f x obtain c1 where "name = login_name p (fetch_profile D (tk_access t)) c1"
      by (fastforce simp: file_login_def Let_def split_beta)
    with login_name_not_blank [OF assms(2,3)] have "trim name \<noteq> []" by simp
    from file_login_good [OF f [unfolded x] g this] show "good_config (da_ext D) d" .
  qed
  from persist_keeps [OF this assms(1)] show ?thesis
    by (simp add: submit_tokens_def split: sum.split)
qed

lemma trim_blank: "trim s = [] \<Longrightarrow> c \<in> set s \<Longrightarrow> is_ws c"
proof -
  assume t: "trim s = []" and c: "c \<in> set s"
  from t have e: "dropWhile is_ws (rev (dropWhile is_ws s)) = []" by (simp add: trim_def trim_end_def trim_start_def)
  then have e': "\<forall>x \<in> set (dropWhile is_ws s). is_ws x" by (simp add: dropWhile_eq_Nil_conv)
  have "set s \<subseteq> set (takeWhile is_ws s) \<union> set (dropWhile is_ws s)" by (metis set_append subset_refl takeWhile_dropWhile_id)
  with c e' show "is_ws c" by (auto dest: set_takeWhileD)
qed

lemma trim_trim_nonempty: "trim s \<noteq> [] \<Longrightarrow> trim (trim s) \<noteq> []"
proof
  assume n: "trim s \<noteq> []" and e: "trim (trim s) = []"
  let ?d = "dropWhile is_ws (rev (trim_start s))"
  have t: "trim s = rev ?d" by (simp add: trim_def trim_end_def)
  with n have d: "?d \<noteq> []" by simp
  from hd_dropWhile [OF d] have "\<not> is_ws (hd ?d)" .
  moreover have "hd ?d \<in> set (trim s)" using d t by simp
  ultimately show False using trim_blank [OF e] by blast
qed

lemma trimmed_field_named: "trimmed_field k v = Some n \<Longrightarrow> trim n \<noteq> []"
  using trim_trim_nonempty by (auto simp: trimmed_field_def split: option.splits if_splits)

lemma flows_update: "set (AList.update k v xs) \<subseteq> insert (k, v) (set xs)"
  by (induction xs) auto

lemma drop_flow_frame [simp]:
  "sv_file (drop_flow i s) = sv_file s" "sv_pools (drop_flow i s) = sv_pools s" "sv_metrics (drop_flow i s) = sv_metrics s"
  "sv_events (drop_flow i s) = sv_events s" "sv_file (sweep_flows now s) = sv_file s" "sv_pools (sweep_flows now s) = sv_pools s"
  "sv_metrics (sweep_flows now s) = sv_metrics s" "sv_events (sweep_flows now s) = sv_events s"
  by (simp_all add: drop_flow_def sweep_flows_def)

lemma sweep_named: "flows_named s \<Longrightarrow> flows_named (sweep_flows now s)"
  by (auto simp: flows_named_def sweep_flows_def)

lemma drop_named: "flows_named s \<Longrightarrow> flows_named (drop_flow i s)"
  by (auto simp: flows_named_def drop_flow_def AList.delete_eq)

lemma login_start_keeps:
  "flows_named s \<Longrightarrow> keeps D s (snd (login_start D v s)) \<and> flows_named (snd (login_start D v s))"
  using sweep_named [of s "da_now D 0"] trimmed_field_named [of "''name''" v]
  by (auto simp: login_start_def start_manual_login_def Let_def keeps_def flows_named_def
      dest!: subsetD [OF flows_update])

lemma login_cancel_keeps:
  "flows_named s \<Longrightarrow> keeps D s (snd (login_cancel v s)) \<and> flows_named (snd (login_cancel v s))"
  using drop_named [of s] by (auto simp: login_cancel_def keeps_def split: option.split)

lemma login_submit_keeps:
  assumes "good_config (da_ext D) (config_default (da_key D))" and "profiles_named D" and "flows_named s"
    and env: "\<And>x. keeps D x (env x) \<and> (flows_named x \<longrightarrow> flows_named (env x))"
  shows "keeps D s (snd (login_submit D env v s)) \<and> flows_named (snd (login_submit D env v s))"
proof (cases "\<exists>flow code. get_str ''flow_id'' v = Some flow \<and> trimmed_field ''code'' v = Some code")
  case False
  with assms(3) show ?thesis by (auto simp: login_submit_def split: option.split)
next
  case True
  then obtain flow code where f: "get_str ''flow_id'' v = Some flow" "trimmed_field ''code'' v = Some code" by blast
  let ?s1 = "sweep_flows (da_now D 0) s"
  let ?s2 = "drop_flow flow ?s1"
  have n1: "flows_named ?s1" by (rule sweep_named [OF assms(3)])
  then have n2: "flows_named ?s2" by (rule drop_named)
  have k2: "keeps D s ?s2" by (simp add: keeps_def)
  show ?thesis
  proof (cases "map_of (sv_flows ?s1) flow")
    case None
    with f n2 k2 show ?thesis by (simp add: login_submit_def Let_def)
  next
    case (Some p)
    then have "(flow, p) \<in> set (sv_flows ?s1)" by (rule map_of_SomeD)
    with n1 have named: "\<And>n. pf_name p = Some n \<Longrightarrow> trim n \<noteq> []" by (auto simp: flows_named_def)
    note sub = submit_tokens_keeps [OF assms(1,2) named, of p "env ?s2" "finish_manual_login D p code"]
    have "keeps D s (env ?s2)" using k2 env keeps_trans by blast
    moreover have "flows_named (env ?s2)" using env n2 by blast
    ultimately show ?thesis
      using f Some sub keeps_trans by (auto simp: login_submit_def Let_def flows_named_def)
  qed
qed

subsection \<open>Every route\<close>

definition routes_keep :: "'u daemon \<Rightarrow> server \<Rightarrow> server \<Rightarrow> bool" where
  "routes_keep D s s' \<longleftrightarrow> keeps D s s' \<and> (flows_named s \<longrightarrow> flows_named s')"

lemma routes_keep_refl [simp]: "routes_keep D s s"
  by (simp add: routes_keep_def)

lemma routes_keepI: "keeps D s s' \<and> sv_flows s' = sv_flows s \<Longrightarrow> routes_keep D s s'"
  by (simp add: routes_keep_def flows_named_def)

lemma put_fleet_nonempty [simp]: "rg_map (put_fleet n f rg) \<noteq> []"
  using update_nonempty by (simp add: put_fleet_def AList.update_nonempty)

lemma resolve_request_map [simp]: "rg_map (snd (resolve_request n now rg)) = rg_map rg"
  by (auto simp: resolve_request_def warn_unknown_def Let_def split: option.splits)

lemma control_resolve_frame:
  "control_resolve D asked s = (x, t) \<Longrightarrow>
   rg_map (sv_pools t) = rg_map (sv_pools s) \<and> sv_file t = sv_file s \<and> sv_flows t = sv_flows s
     \<and> sv_metrics t = sv_metrics s \<and> sv_events t = sv_events s"
  by (auto simp: control_resolve_def split: prod.splits) (metis resolve_request_map snd_conv)

lemma resolve_keeps: "control_resolve D asked s = (x, t) \<Longrightarrow> keeps D s t \<and> sv_flows t = sv_flows s"
  by (drule control_resolve_frame) (simp add: keeps_def)

lemma switch_in_keeps: "keeps D s (snd (switch_in D fs look v s)) \<and> sv_flows (snd (switch_in D fs look v s)) = sv_flows s"
  by (auto simp: switch_in_def switch_done_def keeps_def split: option.split prod.split)

lemma answer_with_snd [simp]: "snd (answer_with h v s) = snd (h v s)"
  by (simp add: answer_with_def split: prod.split)

lemma control_switch_keeps: "routes_keep D s (snd (control_switch D asked v s))"
proof (rule routes_keepI, cases "pool_asked v asked")
  case None
  then show "keeps D s (snd (control_switch D asked v s)) \<and> sv_flows (snd (control_switch D asked v s)) = sv_flows s"
    using switch_in_keeps by (simp add: control_switch_def)
next
  case (Some p)
  obtain x t where r: "control_resolve D (Some p) s = (x, t)" by fastforce
  note k = resolve_keeps [OF r]
  show "keeps D s (snd (control_switch D asked v s)) \<and> sv_flows (snd (control_switch D asked v s)) = sv_flows s"
  proof (cases x)
    case None
    with Some r k show ?thesis by (simp add: control_switch_def)
  next
    case (Some pf)
    obtain pool f where pf: "pf = (pool, f)" by fastforce
    with \<open>pool_asked v asked = Some p\<close> r Some k
      switch_in_keeps [of D t "[f]" "\<lambda>tk. map_option (\<lambda>i. (pool, f, i)) (resolve_pin f tk)" v]
    show ?thesis by (auto simp: control_switch_def intro: keeps_trans)
  qed
qed

lemma control_route_pin_keeps: "routes_keep D s (snd (control_route_pin D asked v s))"
proof -
  obtain x t where r: "control_resolve D (pool_asked v asked) s = (x, t)" by fastforce
  note k = control_resolve_frame [OF r]
  show ?thesis
    using r k by (intro routes_keepI) (auto simp: control_route_pin_def keeps_def Let_def split: option.split)
qed

lemma control_body_keeps:
  "(\<And>v. routes_keep D s (snd (k v s))) \<Longrightarrow> routes_keep D s (snd (control_body D cs k s))"
  "(\<And>v. routes_keep D s (snd (k v s))) \<Longrightarrow> routes_keep D s (snd (route_pin_body D cs k s))"
  by (auto simp: control_body_def route_pin_body_def split: option.split sum.split bool.split)

lemma control_quota_keeps: "routes_keep D s (snd (control_quota D asked s))"
proof -
  obtain x t where r: "control_resolve D asked s = (x, t)" by fastforce
  from resolve_keeps [OF r] r show ?thesis
    by (intro routes_keepI) (simp add: control_quota_def split: option.split prod.split)
qed

lemma keep_if: "routes_keep D s (snd x) \<Longrightarrow> routes_keep D s (snd y) \<Longrightarrow> routes_keep D s (snd (if b then x else y))"
  by simp

lemma control_get_keeps: "routes_keep D s (snd (control_get D a asked path s))"
  unfolding control_get_def by (intro keep_if control_quota_keeps) simp_all

lemma control_probe_keeps: "routes_keep D s (snd (control_probe D s))"
  by (rule routes_keepI) (auto simp: control_probe_def keeps_def split: prod.split)

lemma control_reload_keeps: "routes_keep D s (snd (control_reload D s))"
proof -
  obtain x t where r: "reload D 0 s = (x, t)" by fastforce
  from reload_keeps [OF r] have k: "routes_keep D s t" by (rule routes_keepI)
  show ?thesis
  proof (cases "da_reload D")
    case True
    with r k show ?thesis by (cases x) (simp_all add: control_reload_def)
  qed (simp add: control_reload_def)
qed

lemma control_routes_keep:
  assumes "good_config (da_ext D) (config_default (da_key D))" and "profiles_named D"
    and "\<And>x. routes_keep D x (env x)" and "flows_named s"
  shows "routes_keep D s (snd (control D env a asked method path cs s))"
proof -
  have env: "keeps D x (env x) \<and> (flows_named x \<longrightarrow> flows_named (env x))" for x
    using assms(3) [of x] by (simp add: routes_keep_def)
  note h = control_switch_keeps control_route_pin_keeps
  have p: "routes_keep D s (snd (pool_create D v s))" "routes_keep D s (snd (pools_param D sub v s))" for v sub
    using pool_create_keeps pools_param_keeps assms(1) by (blast intro: routes_keepI)+
  have l: "routes_keep D s (snd (login_start D v s))" "routes_keep D s (snd (login_cancel v s))"
    "routes_keep D s (snd (login_submit D env v s))" for v
    by (simp_all add: routes_keep_def login_start_keeps [OF assms(4)] login_cancel_keeps [OF assms(4)]
      login_submit_keeps [OF assms(1,2,4) env])
  have "routes_keep D s (snd (control_post D env asked path cs s))"
    unfolding control_post_def answer_now_def
    by (intro keep_if control_body_keeps) (simp_all add: h p l control_probe_keeps control_reload_keeps)
  then show ?thesis unfolding control_def by (intro keep_if control_get_keeps) simp_all
qed

text \<open>C6: Whatever the control plane is asked, the configuration file stays one that loads: a request under
  \<open>/corrall/\<close> leaves the file as it was or replaces it by a configuration that passes validation, the
  pool, account and login routes included, and with refused edits, migrations on load and the
  reload that follows. Logins stay named, which is what the entries they add need to validate; the one
  thing relied on is that a profile that is fetched shows some name.\<close>

theorem control_keeps_config_loadable:
  assumes "config_validate (da_ext D) (config_default (da_key D)) = Inr ()" and "profiles_named D"
    and "\<And>x. routes_keep D x (env x)" and "flows_named s"
    and "control D env a asked m path cs s = (r, s')"
  shows "(sv_file s' = sv_file s \<or>
      (\<exists>c. config_validate (da_ext D) c = Inr () \<and> sv_file s' = file_read.Bytes (da_encode D c)))
    \<and> flows_named s'"
  using control_routes_keep [OF _ assms(2-4), of a asked m path cs] assms(1,4,5)
  by (simp add: good_config_def routes_keep_def keeps_def written_well_def)

subsection \<open>A small daemon\<close>

definition demo_daemon :: "unit daemon" where
  "demo_daemon =
     \<lparr>da_ext = ext0\<lparr>json_parse := \<lambda>_. Some (JObj [(''name'', JStr ''work'')])\<rparr>, da_import = no_files,
      da_decode = (\<lambda>_. None), da_encode = (\<lambda>_. ''saved''), da_key = ''k'', da_uuid = (\<lambda>_ _. ''u''), da_legacy = False,
      da_write_ok = True, da_reload = False, da_prober = False, da_listen = None, da_port = None, da_now = (\<lambda>_. 0),
      da_mono = 0, da_draw = (\<lambda>_. ''r''), da_challenge = (\<lambda>s. s), da_query_url = (\<lambda>u _. u),
      da_exchange = (\<lambda>_. NetError), da_profile = (\<lambda>_. NetError),
      da_urls = \<lparr>uo_parse = \<lambda>_. None, uo_host = \<lambda>_. None, uo_port = \<lambda>_. None, uo_password = \<lambda>_. None,
        uo_set_password = \<lambda>_ u. u, uo_print = \<lambda>_. []\<rparr>,
      da_version = ''1'', da_ca_path = [], da_error_text = (\<lambda>_. ''e''), da_login_text = (\<lambda>_. ''e''), da_debug = (\<lambda>s. s),
      da_show_f64 = (\<lambda>_. ''0'')\<rparr>"

definition demo_server :: server where
  "demo_server =
     \<lparr>sv_pools = \<lparr>rg_map = [(''default'', demo_fleet [])], rg_default = ''default'', rg_unknown = []\<rparr>,
      sv_config = config_default ''k'', sv_file = NotFound, sv_metrics = \<lparr>mt_requests_total = 0, mt_requests_failed = 0,
        mt_auth_failures = 0, mt_connects_total = 0\<rparr>, sv_events = [], sv_flows = [], sv_manual = None, sv_probing = False\<rparr>"

lemma demo_good: "config_validate (da_ext demo_daemon) (config_default ''k'') = Inr ()"
proof -
  have "is_loopback_host ''127.0.0.1''" by code_simp
  moreover have "validate_pool_name ''default'' = Inr ()" by code_simp
  ultimately have "good_config (da_ext demo_daemon) (config_default ''k'')"
    by (simp add: good_config_iff demo_daemon_def config_default_def bind_host_def ext0_def proxy_default_def
        safe_upstream_def DEFAULT_UPSTREAM_def DEFAULT_POOL_def good_pool_iff pool_default_def opt_or_def starts_with_Cons)
  then show ?thesis by (simp add: good_config_def)
qed

theorem control_keeps_config_loadable_witness:
  "\<exists>r s'. control demo_daemon (\<lambda>x. x) Shared None ''POST'' ''/corrall/pools'' [] demo_server = (r, s')
     \<and> (sv_file s' = NotFound \<or>
        (\<exists>c. config_validate (da_ext demo_daemon) c = Inr () \<and> sv_file s' = file_read.Bytes (da_encode demo_daemon c)))"
proof -
  obtain r s' where c: "control demo_daemon (\<lambda>x. x) Shared None ''POST'' ''/corrall/pools'' [] demo_server = (r, s')"
    by fastforce
  have "profiles_named demo_daemon" by (simp add: profiles_named_def fetch_profile_def demo_daemon_def)
  moreover have "flows_named demo_server" by (simp add: flows_named_def demo_server_def)
  moreover have "da_key demo_daemon = ''k''" "sv_file demo_server = NotFound"
    by (simp_all add: demo_daemon_def demo_server_def)
  ultimately show ?thesis
    using control_keeps_config_loadable [OF _ _ _ _ c] demo_good c by auto
qed

end
