(* ===== verification/Login_Props.thy ===== *)
theory Login_Props
  imports Control_Props
begin

text \<open>
  A login started over the control plane: its flow is good for one submission within its time, and the
  tokens it files were exchanged with the flow's own verifier and state.
\<close>

lemma reconcile_flows [simp]: "sv_flows (reconcile D k c s) = sv_flows s"
  using reload_keeps [of D k s] by (auto simp: reconcile_def prod_eq_iff)

lemma persist_flows [simp]: "sv_flows (snd (persist D edit yes no s)) = sv_flows s"
  by (auto simp: persist_def split: prod.split sum.split)

lemma submit_tokens_flows [simp]: "sv_flows (snd (submit_tokens D p r s)) = sv_flows s"
  by (simp add: submit_tokens_def split: sum.split)

lemma ctl_status [simp]: "rs_status (ctl_error n m) = n" "rs_status (ctl_ok xs) = 200"
  by (simp_all add: ctl_error_def ctl_ok_def)

lemma persist_status: "rs_status (fst (persist D edit yes no s)) = 200 \<Longrightarrow> (\<And>e. rs_status (no e) \<noteq> 200) \<Longrightarrow>
   \<exists>c x f. config_update D 0 edit (sv_file s) = (Inr (c, x), f)"
  by (cases "config_update D 0 edit (sv_file s)") (auto simp: persist_def split: sum.splits prod.splits)

lemma submit_ok: "rs_status (fst (submit_tokens D p r s)) = 200 \<Longrightarrow> \<exists>t. r = Inr t"
  by (auto simp: submit_tokens_def split: sum.splits)

text \<open>What a pasted text carries, apart from how the code reads it: the code and, if there is one, the
  state. It is a URL with a \<open>code\<close> in its query (the last value counts), or \<open>code#state\<close>, or a bare code.\<close>

definition last_value :: "string \<Rightarrow> (string \<times> string) list \<Rightarrow> string \<Rightarrow> bool" where
  "last_value k ps v \<longleftrightarrow> (\<exists>before after. ps = before @ (k, v) # after \<and> k \<notin> fst ` set after)"

definition no_code_in_url :: "ext \<Rightarrow> string \<Rightarrow> bool" where
  "no_code_in_url E t \<longleftrightarrow> (\<forall>ps. url_query E t = Some ps \<longrightarrow> ''code'' \<notin> fst ` set ps)"

inductive carries :: "ext \<Rightarrow> string \<Rightarrow> string \<Rightarrow> string option \<Rightarrow> bool" for E where
  url_state: "url_query E t = Some ps \<Longrightarrow> last_value ''code'' ps c \<Longrightarrow> last_value ''state'' ps st \<Longrightarrow> carries E t c (Some st)"
| url_alone: "url_query E t = Some ps \<Longrightarrow> last_value ''code'' ps c \<Longrightarrow> ''state'' \<notin> fst ` set ps \<Longrightarrow> carries E t c None"
| hash_state: "no_code_in_url E (c0 @ ''#'' @ st0) \<Longrightarrow> CHR ''#'' \<notin> set c0 \<Longrightarrow> trim c0 \<noteq> [] \<Longrightarrow> trim st0 \<noteq> [] \<Longrightarrow>
    carries E (c0 @ ''#'' @ st0) (trim c0) (Some (trim st0))"
| hash_alone: "no_code_in_url E (c0 @ ''#'' @ st0) \<Longrightarrow> CHR ''#'' \<notin> set c0 \<Longrightarrow> trim c0 \<noteq> [] \<Longrightarrow> trim st0 = [] \<Longrightarrow>
    carries E (c0 @ ''#'' @ st0) (trim c0) None"
| bare: "no_code_in_url E t \<Longrightarrow> t \<noteq> [] \<Longrightarrow> \<forall>ch \<in> set t. is_alnum ch \<or> ch \<in> {CHR ''-'', CHR ''_'', CHR ''.''} \<Longrightarrow> carries E t t None"

lemma last_pair_Some: "last_pair k ps = Some v \<Longrightarrow> last_value k ps v"
proof (induction ps rule: rev_induct)
  case (snoc x ps)
  show ?case
  proof (cases "fst x = k")
    case True
    then have "ps @ [x] = ps @ (k, v) # []" using snoc.prems by (cases x) (simp add: last_pair_def)
    then show ?thesis unfolding last_value_def by fastforce
  next
    case False
    then have "last_pair k ps = Some v" using snoc.prems by (cases x) (simp add: last_pair_def)
    then obtain us vs where "ps = us @ (k, v) # vs" "k \<notin> fst ` set vs"
      using snoc.IH by (auto simp: last_value_def)
    then have "ps @ [x] = us @ (k, v) # (vs @ [x]) \<and> k \<notin> fst ` set (vs @ [x])" using False by auto
    then show ?thesis unfolding last_value_def by blast
  qed
qed (simp add: last_pair_def)

lemma last_pair_None: "last_pair k ps = None \<longleftrightarrow> k \<notin> fst ` set ps"
  by (simp add: last_pair_def map_of_eq_None_iff)

lemma split_once_Some: "split_once d s = Some (a, b) \<Longrightarrow> s = a @ d # b \<and> d \<notin> set a"
  by (induction s arbitrary: a) (auto split: if_splits)

lemma parse_auth_code_carries:
  assumes "parse_auth_code E input expected = Inr (code, state)"
  shows "state = expected \<and> (\<exists>so. carries E (trim input) code so \<and> (so = None \<or> so = Some expected))"
proof (cases "Option.bind (url_query E (trim input)) (\<lambda>ps. map_option (\<lambda>c. (c, last_pair ''state'' ps)) (last_pair ''code'' ps))")
  case (Some cs)
  then obtain ps c where ps: "url_query E (trim input) = Some ps" "last_pair ''code'' ps = Some c" "cs = (c, last_pair ''state'' ps)"
    by (auto simp: bind_eq_Some_conv)
  note c = last_pair_Some [OF ps(2)]
  show ?thesis
  proof (cases "last_pair ''state'' ps")
    case None
    with carries.url_alone [OF ps(1) c] last_pair_None have "carries E (trim input) c None" by blast
    with None Some ps assms show ?thesis by (auto simp: parse_auth_code_def Let_def split: if_splits)
  next
    case (Some st)
    with \<open>Option.bind _ _ = Some cs\<close> ps assms carries.url_state [OF ps(1) c last_pair_Some [OF Some]] show ?thesis
      by (auto simp: parse_auth_code_def Let_def split: if_splits)
  qed
next
  case None
  then have nc: "no_code_in_url E (trim input)"
    by (auto simp: no_code_in_url_def bind_eq_None_conv last_pair_None)
  have ne: "trim input \<noteq> []" using assms by (auto simp: parse_auth_code_def)
  have bare: "list_all code_char (trim input) \<Longrightarrow> carries E (trim input) (trim input) None"
    using nc ne by (intro carries.bare) (auto simp: code_char_def list_all_iff)
  show ?thesis
  proof (cases "split_once CHR ''#'' (trim input)")
    case None
    with \<open>Option.bind _ _ = None\<close> assms ne bare show ?thesis by (auto simp: parse_auth_code_def Let_def split: if_splits)
  next
    case (Some ab)
    obtain c0 st0 where ab: "ab = (c0, st0)" by (rule prod.exhaust)
    with Some split_once_Some have t: "trim input = c0 @ ''#'' @ st0" "CHR ''#'' \<notin> set c0" by fastforce+
    have "carries E (trim input) (trim c0) (if trim st0 = [] then None else Some (trim st0))" if "trim c0 \<noteq> []"
      using nc that t carries.hash_state [of E c0 st0] carries.hash_alone [of E c0 st0] by simp
    with \<open>Option.bind _ _ = None\<close> Some ab assms ne bare show ?thesis
      by (auto simp: parse_auth_code_def Let_def split: if_splits)
  qed
qed

lemma finish_ok:
  assumes "finish_manual_login D p pasted = Inr t"
  shows "\<exists>code so st w. carries (da_ext D) (trim pasted) code so \<and> (so = None \<or> so = Some (pf_state p))
     \<and> da_exchange D (exchange_request code (pf_state p) (pf_verifier p) MANUAL_REDIRECT_URI) = http_reply.Reply st (Some w)
     \<and> is_success st \<and> tokens_from_response (da_now D 1) w None = Some t"
proof -
  from assms obtain code state where p: "parse_auth_code (da_ext D) pasted (pf_state p) = Inr (code, state)"
    by (auto simp: finish_manual_login_def split: sum.splits)
  note c = parse_auth_code_carries [OF p]
  with assms p have "exchange_code D code (pf_state p) (pf_verifier p) MANUAL_REDIRECT_URI = Inr t"
    by (simp add: finish_manual_login_def)
  with c show ?thesis
    by (auto simp: exchange_code_def Let_def split: http_reply.splits option.splits if_splits)
qed

lemma drop_flow_gone [simp]: "map_of (sv_flows (drop_flow f s)) f = None"
  by (simp add: drop_flow_def delete_conv')

lemma sweep_absent: "map_of (sv_flows s) f = None \<Longrightarrow> map_of (sv_flows (sweep_flows now s)) f = None"
  by (auto simp: sweep_flows_def map_of_eq_None_iff)

lemma sweep_live:
  assumes "distinct (al_keys (sv_flows s))" and "map_of (sv_flows (sweep_flows now s)) f = Some p"
  shows "map_of (sv_flows s) f = Some p \<and> live_flow now p"
proof -
  from assms(2) have "(f, p) \<in> set (sv_flows s) \<and> live_flow now p"
    by (auto simp: sweep_flows_def dest!: map_of_SomeD)
  with assms(1) show ?thesis by simp
qed

lemma submit_without_flow:
  assumes "get_str ''flow_id'' v = Some f" and "trimmed_field ''code'' v = Some c" and "map_of (sv_flows s) f = None"
  shows "rs_status (fst (login_submit D env v s)) = 410"
  using assms(1,2) sweep_absent [OF assms(3)] by (simp add: login_submit_def Let_def)

text \<open>C13: A pasted code finishes a login at most once, and only its own. A submission without a flow id or
  with a blank code is refused (400) and changes nothing. Any other one that succeeds found its
  flow, started less than fifteen minutes before, and sent in exchange the code the pasted text carries
  (in a URL, before a \<open>#\<close>, or alone) with the verifier drawn for that flow, the state in the pasted
  text being the flow's own or absent. Whatever such a submission answers, the flow is spent: a second
  one with the same id is told that it is gone. Flow ids are unique in the table, and no other request
  starts a flow under this id meanwhile (ids are drawn at random).\<close>

theorem login_is_one_shot:
  assumes "distinct (al_keys (sv_flows s))"
    and "\<And>x f. get_str ''flow_id'' v = Some f \<Longrightarrow> map_of (sv_flows x) f = None \<Longrightarrow> map_of (sv_flows (env x)) f = None"
    and "login_submit D env v s = (r, s')"
  shows "case (get_str ''flow_id'' v, trimmed_field ''code'' v) of
      (Some f, Some pasted) \<Rightarrow>
        (rs_status r = 200 \<longrightarrow> (\<exists>p code so st w. map_of (sv_flows s) f = Some p
          \<and> da_now D 0 - pf_created_at p < 15 * 60 * 1000
          \<and> carries (da_ext D) (trim pasted) code so \<and> (so = None \<or> so = Some (pf_state p))
          \<and> da_exchange D (exchange_request code (pf_state p) (pf_verifier p) MANUAL_REDIRECT_URI) = http_reply.Reply st (Some w)
          \<and> is_success st))
        \<and> map_of (sv_flows s') f = None
        \<and> rs_status (fst (login_submit D2 env2 v s')) = 410
    | _ \<Rightarrow> rs_status r = 400 \<and> s' = s"
proof (cases "\<exists>f pasted. get_str ''flow_id'' v = Some f \<and> trimmed_field ''code'' v = Some pasted")
  case False
  then show ?thesis using assms(3) by (auto simp: login_submit_def split: option.splits)
next
  case True
  then obtain f pasted where v: "get_str ''flow_id'' v = Some f" "trimmed_field ''code'' v = Some pasted" by blast
  let ?s1 = "sweep_flows (da_now D 0) s"
  let ?s2 = "drop_flow f ?s1"
  have gone: "map_of (sv_flows s') f = None"
    using v assms(2,3) by (auto simp: login_submit_def Let_def split: option.splits dest!: arg_cong [where f = snd])
  have ok: "\<exists>p t. map_of (sv_flows ?s1) f = Some p \<and> finish_manual_login D p pasted = Inr t" if "rs_status r = 200"
    using that v assms(3) submit_ok
    by (fastforce simp: login_submit_def Let_def split: option.splits dest!: arg_cong [where f = fst])
  have "\<exists>p code so st w. map_of (sv_flows s) f = Some p
        \<and> da_now D 0 - pf_created_at p < 15 * 60 * 1000
        \<and> carries (da_ext D) (trim pasted) code so \<and> (so = None \<or> so = Some (pf_state p))
        \<and> da_exchange D (exchange_request code (pf_state p) (pf_verifier p) MANUAL_REDIRECT_URI) = http_reply.Reply st (Some w)
        \<and> is_success st" if "rs_status r = 200"
  proof -
    from ok [OF that] obtain p t where p: "map_of (sv_flows ?s1) f = Some p" "finish_manual_login D p pasted = Inr t" by blast
    from sweep_live [OF assms(1) p(1)] finish_ok [OF p(2)] show ?thesis
      unfolding live_flow_def OAUTH_FLOW_TTL_MS_def by blast
  qed
  with gone submit_without_flow [OF v gone] show ?thesis by (simp add: v)
qed

theorem login_is_one_shot_witness:
  "let v = JObj [(''flow_id'', JStr ''f''), (''code'', JStr ''c'')];
       s = demo_server\<lparr>sv_flows := [(''f'', \<lparr>pf_verifier = ''v'', pf_state = ''s'', pf_pool = None, pf_name = None,
             pf_created_at = 0\<rparr>)]\<rparr>
   in rs_status (fst (login_submit demo_daemon (\<lambda>x. x) v (snd (login_submit demo_daemon (\<lambda>x. x) v s)))) = 410"
proof -
  let ?v = "JObj [(''flow_id'', JStr ''f''), (''code'', JStr ''c'')]"
  let ?s = "demo_server\<lparr>sv_flows := [(''f'', \<lparr>pf_verifier = ''v'', pf_state = ''s'', pf_pool = None, pf_name = None,
             pf_created_at = 0\<rparr>)]\<rparr>"
  have t: "trim ''c'' = ''c''" by code_simp
  obtain r s' where r: "login_submit demo_daemon (\<lambda>x. x) ?v ?s = (r, s')" by fastforce
  have "rs_status (fst (login_submit demo_daemon (\<lambda>x. x) ?v s')) = 410"
    using login_is_one_shot [OF _ _ r, of demo_daemon "\<lambda>x. x"] by (simp add: get_str_def trimmed_field_def t)
  then show ?thesis by (simp add: r)
qed

end
