(* ===== verification/Server_Props.thy ===== *)
theory Server_Props
  imports Server Login_Props Forward_Demo
begin

text \<open>
  The request handler as a whole: who gets as far as an account, and what every run of the server keeps:
  a pool to serve from, and counters that agree with the activity feed.
\<close>

subsection \<open>Bodies\<close>

fun content :: "chunk \<Rightarrow> string" where
  "content (Chunk c) = c"
| "content _ = []"

lemma read_body_whole:
  "read_body limit out cs = Some (Inr b) \<Longrightarrow> length out \<le> limit \<Longrightarrow>
   b = out @ concat (map content cs) \<and> length b \<le> limit \<and> Broken \<notin> set cs \<and> Stalled \<notin> set cs"
  by (induction limit out cs rule: read_body.induct) (auto split: if_splits)

subsection \<open>What is forwarded\<close>

lemma control_resolve_fst: "fst (control_resolve D asked s) = fst (resolve_request asked (int (da_mono D)) (sv_pools s))"
  by (simp add: control_resolve_def split: prod.split)

lemma account_request_forwarded:
  assumes "account_request D W c auth pool f p ad r s = (Forwarded (info, res), s')"
  shows "\<exists>body. info = request_info D W c auth pool f p ad r body \<and> body = concat (map content (hr_body r))
    \<and> length body \<le> px_max_body_bytes (cf_proxy c)
    \<and> (\<forall>m. fst (body_models (da_ext D) p body) = Some m \<longrightarrow> \<not> is_model_blocked f m)"
proof -
  from assms obtain body where b: "read_body (px_max_body_bytes (cf_proxy c)) [] (hr_body r) = Some (Inr body)"
    by (auto simp: account_request_def split: option.splits sum.splits)
  with assms have "forward_request D W c f (request_info D W c auth pool f p ad r body) (ad_path ad) (hr_headers r) body s
      = (Forwarded (info, res), s')"
    and n: "\<not> (case fst (body_models (da_ext D) p body) of Some m \<Rightarrow> is_model_blocked f m | None \<Rightarrow> False)"
    by (auto simp: account_request_def split: if_splits)
  then have "info = request_info D W c auth pool f p ad r body"
    by (auto simp: forward_request_def Let_def split: option.splits)
  with read_body_whole [OF b] n show ?thesis by (auto split: option.splits)
qed

lemma request_info_fields [simp]:
  "ri_pool (request_info D W c auth pool f p ad r body) = pool" "ri_provider (request_info D W c auth pool f p ad r body) = p"
  "ri_client (request_info D W c auth pool f p ad r body) = auth_client auth" "ri_pin (request_info D W c auth pool f p ad r body) = ad_pin ad"
  "ri_path_and_query (request_info D W c auth pool f p ad r body) = ad_query ad"
  by (simp_all add: request_info_def split: prod.split)

lemma serve_address_forwarded:
  assumes "serve_address D W c auth ad r t s = (Forwarded (info, res), s')"
  shows "\<exists>f body. fst (resolve_request (ad_pool ad) (int (da_mono D)) (sv_pools s)) = Some (ri_pool info, f)
    \<and> body = concat (map content (hr_body r)) \<and> length body \<le> px_max_body_bytes (cf_proxy c)
    \<and> (\<forall>m. fst (body_models (da_ext D) (ri_provider info) body) = Some m \<longrightarrow> \<not> is_model_blocked f m)
    \<and> ri_client info = auth_client auth \<and> ri_pin info = ad_pin ad \<and> ri_path_and_query info = ad_query ad
    \<and> \<not> (ri_provider info = Anthropic \<and> is_passthrough_path (ad_path ad))"
proof -
  obtain x s1 where x: "control_resolve D (ad_pool ad) s = (x, s1)" by fastforce
  with assms obtain pool f where pf: "x = Some (pool, f)" by (auto simp: serve_address_def split: option.splits)
  let ?p = "case t of Some tc \<Rightarrow> provider_for_host (tc_host tc) | None \<Rightarrow> provider_for_path (ad_path ad)"
  from assms x pf have a: "account_request D W c auth pool f ?p ad r s1 = (Forwarded (info, res), s')"
    and n: "\<not> (?p = Anthropic \<and> is_passthrough_path (ad_path ad))"
    by (auto simp: serve_address_def Let_def pass_through_def split: if_splits option.splits sum.splits prod.splits)
  have "fst (resolve_request (ad_pool ad) (int (da_mono D)) (sv_pools s)) = Some (pool, f)"
    using x pf control_resolve_fst [of D "ad_pool ad" s] by simp
  with account_request_forwarded [OF a] n show ?thesis by auto
qed

lemma handle_cases [consumes 1, case_names plain page denied admitted]:
  assumes "hr_method r \<noteq> ''CONNECT''"
  obtains (plain) "hr_scheme r \<noteq> None \<and> t = None" "handle D W r peer t s = (Handled (Answers no_forward_proxy), s)"
  | (page) "is_page r (address_of (da_ext D) r t) t"
      "handle D W r peer t s = (Handled (Answers (dashboard_page (wo_dashboard W))), s)"
  | (denied) why where "request_auth (sv_config s) r peer t = Denied why"
      "handle D W r peer t s = (Handled (Answers bad_key), s\<lparr>sv_metrics := count_auth_failure (sv_metrics s)\<rparr>)"
  | (admitted) "not_denied (request_auth (sv_config s) r peer t)" "t = None \<Longrightarrow> hr_scheme r = None"
      "\<not> is_page r (address_of (da_ext D) r t) t"
      "handle D W r peer t s = serve_admitted D W (request_auth (sv_config s) r peer t) (address_of (da_ext D) r t) r t s"
proof -
  let ?ad = "address_of (da_ext D) r t" and ?auth = "request_auth (sv_config s) r peer t"
  consider "hr_scheme r \<noteq> None \<and> t = None" | "\<not> (hr_scheme r \<noteq> None \<and> t = None)" "is_page r ?ad t"
    | "\<not> (hr_scheme r \<noteq> None \<and> t = None)" "\<not> is_page r ?ad t" by blast
  then show thesis
  proof cases
    case 1
    then show thesis using assms by (intro plain) (simp_all add: handle_def)
  next
    case 2
    then have "handle D W r peer t s = (Handled (Answers (dashboard_page (wo_dashboard W))), s)"
      unfolding handle_def Let_def using assms by (simp only: if_False if_True)
    with 2 show thesis by (intro page)
  next
    case 3
    then have h: "handle D W r peer t s =
       (case ?auth of
          Denied why \<Rightarrow> (Handled (Answers bad_key), s\<lparr>sv_metrics := count_auth_failure (sv_metrics s)\<rparr>)
        | auth \<Rightarrow> serve_admitted D W auth ?ad r t s)"
      unfolding handle_def Let_def using assms by (simp only: if_False)
    show thesis
    proof (cases ?auth)
      case (Denied why)
      with h show thesis by (intro denied) simp_all
    qed (use h 3 in \<open>auto intro!: admitted simp: not_denied_def\<close>)
  qed
qed


text \<open>The pool keyword before a control path finds the route but not the handler: the control plane reads the
  path of the request line again, keyword and all.\<close>

lemma pool_control_not_found:
  "control D env a asked ''GET'' ''/pool/work/corrall/quota'' cs s = (Answers not_found, s)"
  by (simp add: control_def control_get_def)

subsection \<open>What every run keeps\<close>

text \<open>An end that was not a success.\<close>

fun is_failed_end :: "activity \<Rightarrow> bool" where
  "is_failed_end (EndEv i a st el ok) = (\<not> ok)"
| "is_failed_end _ = False"

definition counters_agree :: "server \<Rightarrow> bool" where
  "counters_agree s \<longleftrightarrow>
     mt_requests_total (sv_metrics s) = length (filter is_end (sv_events s)) mod 2 ^ 64
     \<and> mt_requests_failed (sv_metrics s) = length (filter is_failed_end (sv_events s)) mod 2 ^ 64"

definition server_ok :: "server \<Rightarrow> bool" where
  "server_ok s \<longleftrightarrow> rg_map (sv_pools s) \<noteq> [] \<and> flows_named s \<and> counters_agree s"

lemma count_ends:
  assumes "mt_requests_total m = a mod 2 ^ 64" and "mt_requests_failed m = b mod 2 ^ 64"
  shows "mt_requests_total (fold count_end es m) = (a + length (filter is_end es)) mod 2 ^ 64
    \<and> mt_requests_failed (fold count_end es m) = (b + length (filter is_failed_end es)) mod 2 ^ 64"
  using assms
proof (induction es arbitrary: m a b)
  case (Cons e es)
  have "mt_requests_total (count_end e m) = (a + length (filter is_end [e])) mod 2 ^ 64
    \<and> mt_requests_failed (count_end e m) = (b + length (filter is_failed_end [e])) mod 2 ^ 64"
    using Cons.prems by (cases e) (auto simp: count_end_def u64_inc_def is_end_def mod_Suc_eq)
  from Cons.IH [OF conjunct1 [OF this] conjunct2 [OF this]] show ?case
    by (auto simp: ac_simps)
qed simp

lemma announce_agree: "counters_agree s \<Longrightarrow> counters_agree (announce es s)"
  unfolding counters_agree_def announce_def
  using count_ends [of "sv_metrics s" "length (filter is_end (sv_events s))" "length (filter is_failed_end (sv_events s))" es]
  by simp

lemma announce_frame [simp]:
  "sv_pools (announce es s) = sv_pools s" "sv_flows (announce es s) = sv_flows s"
  by (simp_all add: announce_def)

lemma routes_keep_ok:
  assumes "routes_keep D s s'" and "server_ok s"
  shows "server_ok s'"
proof -
  have f: "filter is_failed_end es = filter is_failed_end (filter is_end es)" for es
    by (induction es) (auto elim: is_failed_end.elims simp: is_end_def split: activity.splits)
  from assms(1) have "filter is_end (sv_events s') = filter is_end (sv_events s)" by (simp add: routes_keep_def keeps_def)
  then have "length (filter is_failed_end (sv_events s')) = length (filter is_failed_end (sv_events s))"
    by (metis f)
  with assms show ?thesis by (auto simp: routes_keep_def keeps_def server_ok_def counters_agree_def)
qed

text \<open>Changes to the registry that leave it some pool, and notes in the feed.\<close>

lemma server_okI:
  assumes "server_ok s" and "rg_map (sv_pools s') \<noteq> []" and "sv_flows s' = sv_flows s"
    and "sv_events s' = sv_events s" and "mt_requests_total (sv_metrics s') = mt_requests_total (sv_metrics s)"
    and "mt_requests_failed (sv_metrics s') = mt_requests_failed (sv_metrics s)"
  shows "server_ok s'"
  using assms by (simp add: server_ok_def flows_named_def counters_agree_def)

lemma announce_ok: "server_ok s \<Longrightarrow> server_ok (announce es s)"
  using announce_agree by (auto simp: server_ok_def flows_named_def)

lemma put_fleet_ok: "server_ok s \<Longrightarrow> server_ok (s\<lparr>sv_pools := put_fleet n f rg\<rparr>)"
  by (erule server_okI) simp_all

lemma forward_request_ok: "server_ok s \<Longrightarrow> server_ok (snd (forward_request D W c f info path h body s))"
  by (auto simp: forward_request_def Let_def intro!: announce_ok put_fleet_ok split: option.split)

lemma resolve_ok: "control_resolve D asked s = (x, t) \<Longrightarrow> server_ok s \<Longrightarrow> server_ok t \<and> x \<noteq> None"
proof -
  assume r: "control_resolve D asked s = (x, t)" and ok: "server_ok s"
  have "fst (resolve_request asked (int (da_mono D)) (sv_pools s)) \<noteq> None"
    using ok resolve_request_map [of asked "int (da_mono D)" "sv_pools s"]
    by (auto simp: resolve_request_def pools_resolve_def server_ok_def warn_unknown_def Let_def split: option.splits list.splits)
  moreover from control_resolve_frame [OF r] ok have "server_ok t"
    by (intro server_okI [OF ok]) (auto simp: server_ok_def)
  ultimately show ?thesis using r control_resolve_fst [of D asked s] by auto
qed

definition is_crash :: "handled \<Rightarrow> bool" where
  "is_crash h \<longleftrightarrow> h = Handled Crashed \<or> h = Connected Panicked"

lemma account_request_ok:
  "server_ok s \<Longrightarrow> server_ok (snd (account_request D W c auth pool f p ad r s))
     \<and> \<not> is_crash (fst (account_request D W c auth pool f p ad r s))"
  by (auto simp: account_request_def is_crash_def forward_request_ok forward_request_def Let_def
      intro!: announce_ok put_fleet_ok split: option.split sum.split)

lemma note_ok: "server_ok s \<Longrightarrow> server_ok (note_passthrough r path s)"
  by (auto simp: server_ok_def flows_named_def counters_agree_def note_passthrough_def)

lemma serve_address_ok:
  assumes "server_ok s"
  shows "server_ok (snd (serve_address D W c auth ad r t s)) \<and> \<not> is_crash (fst (serve_address D W c auth ad r t s))"
proof -
  obtain x s1 where r: "control_resolve D (ad_pool ad) s = (x, s1)" by fastforce
  from resolve_ok [OF r assms] obtain pool f where x: "x = Some (pool, f)" and ok: "server_ok s1" by auto
  have "\<not> is_crash (pass_through W up r)" for up
    by (auto simp: pass_through_def is_crash_def split: option.split sum.split prod.split)
  moreover have "\<not> is_crash (Handled (Answers q))" for q by (simp add: is_crash_def)
  ultimately show ?thesis
    by (simp add: serve_address_def r x Let_def ok note_ok [OF ok]
        account_request_ok [OF ok, THEN conjunct1] account_request_ok [OF ok, THEN conjunct2])
qed

lemma control_resolve_serves: "rg_map (sv_pools s) \<noteq> [] \<Longrightarrow> fst (control_resolve D asked s) \<noteq> None"
  by (auto simp: control_resolve_fst resolve_request_def pools_resolve_def warn_unknown_def Let_def
      split: option.splits list.splits)

lemma fst_if: "fst x \<noteq> q \<Longrightarrow> fst y \<noteq> q \<Longrightarrow> fst (if b then x else y) \<noteq> q"
  by simp

lemma control_body_safe:
  "(\<And>v. fst (k v s) \<noteq> Crashed) \<Longrightarrow> fst (control_body D cs k s) \<noteq> Crashed"
  "(\<And>v. fst (k v s) \<noteq> Crashed) \<Longrightarrow> fst (route_pin_body D cs k s) \<noteq> Crashed"
  by (auto simp: control_body_def route_pin_body_def split: option.split sum.split bool.split)

lemma answer_safe [simp]: "fst (answer_with h v s) \<noteq> Crashed" "fst (answer_now x) \<noteq> Crashed"
  by (auto simp: answer_with_def answer_now_def split: prod.split)

lemma control_never_crashes:
  assumes "rg_map (sv_pools s) \<noteq> []"
  shows "fst (control D env a asked method path cs s) \<noteq> Crashed"
proof -
  have sw: "fst (control_switch D asked v s) \<noteq> Crashed" for v
  proof (cases "pool_asked v asked")
    case (Some p)
    obtain x t where r: "control_resolve D (Some p) s = (x, t)" by fastforce
    with control_resolve_serves [OF assms, of D "Some p"] obtain pf where "x = Some pf" by auto
    with Some r show ?thesis by (cases pf) (simp add: control_switch_def)
  qed (simp add: control_switch_def)
  have rp: "fst (control_route_pin D asked v s) \<noteq> Crashed" for v
  proof -
    obtain x t where r: "control_resolve D (pool_asked v asked) s = (x, t)" by fastforce
    with control_resolve_serves [OF assms, of D "pool_asked v asked"] obtain pf where "x = Some pf" by auto
    with r show ?thesis by (cases pf) (simp add: control_route_pin_def Let_def split: option.split)
  qed
  have q: "fst (control_quota D asked s) \<noteq> Crashed"
  proof -
    obtain x t where r: "control_resolve D asked s = (x, t)" by fastforce
    with control_resolve_serves [OF assms, of D asked] obtain pf where "x = Some pf" by auto
    with r show ?thesis by (cases pf) (simp add: control_quota_def)
  qed
  have "fst (control_get D a asked path s) \<noteq> Crashed"
    unfolding control_get_def by (intro fst_if q) simp_all
  moreover have "fst (control_post D env asked path cs s) \<noteq> Crashed"
    unfolding control_post_def by (intro fst_if control_body_safe) (simp_all add: sw rp)
  ultimately show ?thesis unfolding control_def by (intro fst_if) simp_all
qed

definition daemon_ok :: "'u daemon \<Rightarrow> bool" where
  "daemon_ok D \<longleftrightarrow> config_validate (da_ext D) (config_default (da_key D)) = Inr () \<and> profiles_named D"

lemma serve_admitted_ok:
  assumes "server_ok s" and "daemon_ok D" and "\<And>x. routes_keep D x (wo_others W x)"
  shows "server_ok (snd (serve_admitted D W auth ad r t s)) \<and> \<not> is_crash (fst (serve_admitted D W auth ad r t s))"
proof (cases "starts_with ''/corrall/'' (ad_path ad) \<and> t = None")
  case True
  obtain a s' where c: "control D (wo_others W) auth (ad_pool ad) (hr_method r) (uri_path r) (hr_body r) s = (a, s')"
    by fastforce
  have "routes_keep D s s'"
    using control_routes_keep [of D "wo_others W" s auth "ad_pool ad" "hr_method r" "uri_path r" "hr_body r"] assms c
    by (simp add: daemon_ok_def good_config_def server_ok_def)
  moreover have "a \<noteq> Crashed"
    using control_never_crashes [of s D "wo_others W" auth "ad_pool ad" "hr_method r" "uri_path r" "hr_body r"] assms(1) c
    by (simp add: server_ok_def)
  ultimately show ?thesis
    using True c routes_keep_ok assms(1) by (auto simp: serve_admitted_def is_crash_def)
next
  case False
  then show ?thesis using serve_address_ok [OF assms(1)] unfolding serve_admitted_def by (simp only: if_False)
qed

lemma connect_ok:
  assumes "server_ok s"
  shows "server_ok (snd (do_connect D W r peer s)) \<and> \<not> is_crash (fst (do_connect D W r peer s))"
proof -
  obtain res m rg where h: "handle_connect (da_ext D) (sv_config s) (wo_dns W) (wo_tls W) peer (hr_headers r) (hr_authority r)
      (int (da_mono D)) (sv_metrics s, sv_pools s) = (res, m, rg)" by (metis prod_cases3)
  have a: "res' \<noteq> Panicked \<and> rg_map rg' = rg_map (sv_pools s)"
    if "connect_admitted E c dns tls auth pin asked now (sv_pools s) host port = (res', rg')" for E c dns tls auth pin asked now host port res' rg'
  proof -
    obtain x u where r: "resolve_request asked now (sv_pools s) = (x, u)" by fastforce
    then have u: "rg_map u = rg_map (sv_pools s)" using resolve_request_map [of asked now "sv_pools s"] by simp
    have "x \<noteq> None"
      using r assms by (auto simp: server_ok_def resolve_request_def pools_resolve_def warn_unknown_def Let_def
          split: option.splits list.splits if_splits)
    then obtain name f where "x = Some (name, f)" by auto
    with that r u show ?thesis
      by (auto simp: connect_admitted_def split: host_mode.splits option.splits sum.splits if_splits)
  qed
  have "res \<noteq> Panicked \<and> rg_map rg = rg_map (sv_pools s) \<and> mt_requests_total m = mt_requests_total (sv_metrics s)
      \<and> mt_requests_failed m = mt_requests_failed (sv_metrics s)"
    using h a
    by (auto simp: handle_connect_def Let_def count_connect_def count_auth_failure_def
        split: prod.splits auth.splits option.splits)
  with h assms show ?thesis
    by (auto simp: do_connect_def is_crash_def server_ok_def flows_named_def counters_agree_def)
qed

lemma handle_ok:
  assumes "server_ok s" and "daemon_ok D" and "\<And>x. routes_keep D x (wo_others W x)"
  shows "server_ok (snd (handle D W r peer t s)) \<and> \<not> is_crash (fst (handle D W r peer t s))"
proof (cases "hr_method r = ''CONNECT''")
  case True
  then have "handle D W r peer t s = do_connect D W r peer s" by (simp add: handle_def)
  with connect_ok [OF assms(1)] show ?thesis by simp
next
  case False
  from False show ?thesis
  proof (cases rule: handle_cases [where D = D and W = W and peer = peer and t = t and s = s])
    case (denied why)
    have "server_ok (s\<lparr>sv_metrics := count_auth_failure (sv_metrics s)\<rparr>)"
      using assms(1) by (intro server_okI [OF assms(1)]) (simp_all add: count_auth_failure_def server_ok_def)
    with denied show ?thesis by (simp add: is_crash_def)
  next
    case admitted
    with serve_admitted_ok [OF assms] show ?thesis by simp
  qed (use assms(1) in \<open>simp_all add: is_crash_def\<close>)
qed

text \<open>A run of the server: requests in any order, from anyone, each with its own clock, draws and worlds
  (\<open>Ds\<close> are the daemons of the run), and streams that end whenever they do.\<close>

inductive server_reach :: "'u daemon set \<Rightarrow> server \<Rightarrow> bool" for Ds where
  start: "D \<in> Ds \<Longrightarrow> config_validate (da_ext D) c = Inr () \<Longrightarrow> server_reach Ds (boot D c file)"
| request: "server_reach Ds s \<Longrightarrow> D \<in> Ds \<Longrightarrow> (\<And>x. routes_keep D x (wo_others W x))
    \<Longrightarrow> server_reach Ds (snd (handle D W r peer t s))"
| stream: "server_reach Ds s \<Longrightarrow> D \<in> Ds \<Longrightarrow> server_reach Ds (snd (stream_ended D info st n now el s))"

lemma stream_ok: "server_ok s \<Longrightarrow> server_ok (snd (stream_ended D info st n now el s))"
  by (auto simp: stream_ended_def intro!: announce_ok put_fleet_ok split: prod.split option.split)

lemma server_reach_ok: "server_reach Ds s \<Longrightarrow> \<forall>D \<in> Ds. daemon_ok D \<Longrightarrow> server_ok s"
proof (induction rule: server_reach.induct)
  case (start D c fl)
  then have "rg_map (sv_pools (boot D c fl)) \<noteq> []"
    by (simp add: boot_def pools_new_def pools_sync_nonempty good_config_def)
  then show ?case by (simp add: server_ok_def boot_def flows_named_def counters_agree_def)
next
  case (request s D W r peer t)
  then show ?case using handle_ok [of s D W r peer t] by blast
next
  case (stream s D info st n now el)
  then show ?case using stream_ok by blast
qed

text \<open>C3: No request brings the server down, whatever came before it, and its counters tell the truth. In every
  state a run reaches, handling any request from anyone ends without the panic of an empty registry, and
  afterwards \<open>requestsTotal\<close> is the number of ends in the activity feed and \<open>requestsFailed\<close> the number of
  those that were not a success, modulo \<open>2^64\<close>.\<close>

theorem server_never_panics:
  assumes "server_reach Ds s" and "\<forall>D \<in> Ds. daemon_ok D" and "D \<in> Ds"
    and "\<And>x. routes_keep D x (wo_others W x)" and "handle D W r peer t s = (h, s')"
  shows "h \<noteq> Handled Crashed \<and> h \<noteq> Connected Panicked
    \<and> mt_requests_total (sv_metrics s') = length (filter is_end (sv_events s')) mod 2 ^ 64
    \<and> mt_requests_failed (sv_metrics s') = length (filter is_failed_end (sv_events s')) mod 2 ^ 64"
  using handle_ok [OF server_reach_ok [OF assms(1,2)] _ assms(4), of r peer t] assms(2,3,5)
  by (simp add: is_crash_def server_ok_def counters_agree_def)

subsection \<open>Closed instances\<close>

definition demo_world :: world where
  "demo_world =
     \<lparr>wo_dns = (\<lambda>_ _. LookupFailed), wo_tls = False, wo_dashboard = [], wo_id = ''r'', wo_relay = (\<lambda>_. ConnectFailed),
      wo_name_ok = (\<lambda>_. True), wo_dialled = (\<lambda>_. None), wo_wrote = (\<lambda>_. False), wo_reads = [],
      wo_rounds = (\<lambda>_. demo_round ConnectFailed), wo_mono = 0, wo_start = 0, wo_end = 0, wo_others = (\<lambda>s. s)\<rparr>"

definition demo_post :: "string \<Rightarrow> http_request" where
  "demo_post target =
     \<lparr>hr_method = ''POST'', hr_scheme = None, hr_authority = None, hr_target = Some target, hr_headers = [], hr_body = []\<rparr>"

lemma demo_admitted:
  "address_of (da_ext demo_daemon) (demo_post ''/v1/messages'') None
     = \<lparr>ad_pool = None, ad_pin = None, ad_path = ''/v1/messages'', ad_query = ''/v1/messages''\<rparr>"
  "request_auth (sv_config demo_server) (demo_post ''/v1/messages'') (V4 127 0 0 1) None = LoopbackPeer"
proof -
  have "parse_pool_path ''/v1/messages'' = None" "strip_prefix PIN_PREFIX ''/v1/messages'' = None"
    "takeWhile (\<lambda>c. c \<noteq> CHR ''?'') ''/v1/messages'' = ''/v1/messages''" by code_simp+
  then show "address_of (da_ext demo_daemon) (demo_post ''/v1/messages'') None
     = \<lparr>ad_pool = None, ad_pin = None, ad_path = ''/v1/messages'', ad_query = ''/v1/messages''\<rparr>"
    by (simp add: address_of_def demo_post_def uri_path_def split_pin_def opt_or_def Let_def)
  have "is_loopback_ip (V4 127 0 0 1)" by code_simp
  moreover have "check_key c None = None" for c by (simp add: check_key_def)
  ultimately show "request_auth (sv_config demo_server) (demo_post ''/v1/messages'') (V4 127 0 0 1) None = LoopbackPeer"
    by (simp add: request_auth_def authenticate_def demo_post_def demo_server_def config_default_def proxy_default_def
        presented_key_def hdr_str_def opt_or_def is_browser_initiated_def host_header_def host_ok_def)
qed

lemma demo_forwarded:
  "\<exists>info res s'. handle demo_daemon demo_world (demo_post ''/v1/messages'') (V4 127 0 0 1) None demo_server
      = (Forwarded (info, res), s')"
proof -
  let ?r = "demo_post ''/v1/messages''"
  let ?ad = "\<lparr>ad_pool = None, ad_pin = None, ad_path = ''/v1/messages'', ad_query = ''/v1/messages''\<rparr>"
  have p: "\<not> starts_with ''/corrall/'' ''/v1/messages''" "provider_for_path ''/v1/messages'' = Anthropic"
    "\<not> is_passthrough_path ''/v1/messages''" "\<not> is_telemetry ''/v1/messages''" by code_simp+
  have "handle demo_daemon demo_world ?r (V4 127 0 0 1) None demo_server
      = serve_admitted demo_daemon demo_world LoopbackPeer ?ad ?r None demo_server"
    using demo_admitted by (simp add: handle_def is_page_def demo_post_def)
  also have "\<dots> = serve_address demo_daemon demo_world (sv_config demo_server) LoopbackPeer ?ad ?r None demo_server"
    unfolding serve_admitted_def address.simps using p(1) by (simp only: if_False simp_thms)
  finally have h: "handle demo_daemon demo_world ?r (V4 127 0 0 1) None demo_server
      = serve_address demo_daemon demo_world (sv_config demo_server) LoopbackPeer ?ad ?r None demo_server" .
  have "fst (control_resolve demo_daemon None demo_server) = Some (''default'', demo_fleet [])"
    by (simp add: control_resolve_fst resolve_request_def pools_resolve_def demo_server_def)
  then obtain s1 where "control_resolve demo_daemon None demo_server = (Some (''default'', demo_fleet []), s1)"
    by (metis prod.collapse)
  then show ?thesis
    unfolding h using p
    by (auto simp: serve_address_def account_request_def forward_request_def demo_post_def body_models_def parsed_body_def Let_def
        split: option.split)
qed


theorem server_never_panics_witness:
  "fst (handle demo_daemon demo_world (demo_post ''/v1/messages'') (V4 8 8 8 8) None
      (boot demo_daemon (config_default ''k'') NotFound)) \<noteq> Handled Crashed"
proof -
  let ?s = "boot demo_daemon (config_default ''k'') NotFound"
  have r: "server_reach {demo_daemon} ?s" by (rule server_reach.start) (use demo_good in auto)
  have "daemon_ok demo_daemon"
    using demo_good by (simp add: daemon_ok_def profiles_named_def fetch_profile_def demo_daemon_def)
  moreover obtain h s' where h: "handle demo_daemon demo_world (demo_post ''/v1/messages'') (V4 8 8 8 8) None ?s = (h, s')"
    by fastforce
  ultimately show ?thesis
    using server_never_panics [OF r _ _ _ h] by (simp add: demo_world_def)
qed

end
