(* ===== verification/Warmer.thy ===== *)
theory Warmer
  imports Server_Props
begin

text \<open>
  \<open>src/warmer.rs\<close>: the keep-warm requests. The command it runs is given the address of this proxy with the
  pool and the pin in its path; what the command sends below that address is its own.
\<close>

definition warm_prefix :: "string \<Rightarrow> string \<Rightarrow> string" where
  "warm_prefix dflt pool = (if pool = dflt then [] else POOL_PREFIX @ pool)"

definition warm_base :: "string \<Rightarrow> string \<Rightarrow> string \<Rightarrow> string" where
  "warm_base authority prefix i = ''http://'' @ authority @ prefix @ ''/tc-acct/'' @ i"

definition warm_env :: "string \<Rightarrow> string \<Rightarrow> (string \<times> string option) list" where
  "warm_env base key =
     map (\<lambda>k. (k, None)) [''TC_ACCT'', ''HTTPS_PROXY'', ''HTTP_PROXY'', ''https_proxy'', ''http_proxy'', ''ANTHROPIC_AUTH_TOKEN'']
     @ [(''ANTHROPIC_BASE_URL'', Some base), (''ANTHROPIC_API_KEY'', Some key)]"

text \<open>How the command ended; the line logged.\<close>

datatype warm_exit = Succeeded | Exited "int option" | CannotRun string | TimedOut

definition warm_line :: "string \<Rightarrow> warm_exit \<Rightarrow> string" where
  "warm_line name e =
     (case e of
        Succeeded \<Rightarrow> ''Keep-warm: warmed '' @ quoted name
      | Exited code \<Rightarrow> ''Keep-warm: claude exited '' @ show_int (unwrap_or (-1) code) @ '' for '' @ quoted name
      | CannotRun why \<Rightarrow> ''Keep-warm: cannot run claude: '' @ why
      | TimedOut \<Rightarrow> ''Keep-warm: timed out warming '' @ quoted name)"

text \<open>One command per candidate, pool by pool: the pool, the account and the environment it gets.\<close>

definition warm_one :: "string \<Rightarrow> string \<Rightarrow> string \<Rightarrow> string \<Rightarrow> string \<Rightarrow> (string \<times> string option) list" where
  "warm_one authority key prefix i name = warm_env (warm_base authority prefix i) key"

definition warm_all ::
  "ext \<Rightarrow> string \<Rightarrow> string \<Rightarrow> int \<Rightarrow> registry \<Rightarrow> (string \<times> string \<times> (string \<times> string option) list) list" where
  "warm_all E authority key now rg =
     concat (map (\<lambda>(pool, f). map (\<lambda>(i, name). (pool, i, warm_one authority key (warm_prefix (rg_default rg) pool) i name))
       (warm_candidates E now f)) (each_pool rg))"

text \<open>The loop: what one turn does with the interval it reads, whether it was on before. The waits are in
  seconds; \<open>None\<close> is a turn that only waits.\<close>

definition warm_turn :: "nat \<Rightarrow> bool \<Rightarrow> bool \<times> bool \<times> nat" where
  "warm_turn secs was_on = (if secs = 0 then (False, False, 5) else (True, \<not> was_on, max secs 60))"

subsection \<open>Where the requests of the command arrive\<close>

lemma split_pin_named:
  "CHR ''/'' \<notin> set i \<Longrightarrow> split_pin E (''/tc-acct/'' @ i @ CHR ''/'' # t) = Some (percent_decode E i, CHR ''/'' # t)"
proof -
  assume i: "CHR ''/'' \<notin> set i"
  have "strip_prefix PIN_PREFIX (''/tc-acct/'' @ x) = Some x" for x
    unfolding PIN_PREFIX_def by (rule strip_prefix_append)
  then show ?thesis by (simp add: split_pin_def split_once_append [OF i])
qed

lemma not_pool_path: "parse_pool_path (''/tc-acct/'' @ x) = None"
  by (simp add: parse_pool_path_def POOL_PREFIX_def strip_prefix_def starts_with_Cons)

text \<open>The address the request line of the command gives: the path of the base and what it adds.\<close>

definition warm_target :: "string \<Rightarrow> string \<Rightarrow> string \<Rightarrow> string \<Rightarrow> string" where
  "warm_target dflt pool i tail = warm_prefix dflt pool @ ''/tc-acct/'' @ i @ tail"

lemma warm_address:
  assumes "pool \<noteq> []" and "\<forall>c \<in> set pool. \<not> name_end c" and "CHR ''/'' \<notin> set i" and "percent_decode E i = i"
    and "hr_target r = Some (warm_target dflt pool i (CHR ''/'' # t))"
  shows "address_of E r None = \<lparr>ad_pool = (if pool = dflt then None else Some pool), ad_pin = Some i,
     ad_path = path_only (CHR ''/'' # t), ad_query = CHR ''/'' # t\<rparr>"
proof (cases "pool = dflt")
  case True
  then show ?thesis
    using assms(4,5) not_pool_path [of "i @ CHR ''/'' # t"] split_pin_named [OF assms(3)]
    by (simp add: address_of_def warm_target_def warm_prefix_def opt_or_def Let_def)
next
  case False
  have "parse_pool_path (warm_target dflt pool i (CHR ''/'' # t)) = Some (pool, ''/tc-acct/'' @ i @ CHR ''/'' # t)"
    using pool_path_named [OF assms(1,2), of "''tc-acct/'' @ i @ CHR ''/'' # t"] False
    by (simp add: warm_target_def warm_prefix_def)
  then show ?thesis
    using assms(4,5) False split_pin_named [OF assms(3), of E t]
    by (simp add: address_of_def opt_or_def Let_def)
qed

lemma each_pool_resolves:
  assumes "(pool, f) \<in> set (each_pool rg)" and "distinct (al_keys (rg_map rg))"
  shows "fst (resolve_request (if pool = rg_default rg then None else Some pool) now rg) = Some (pool, f)"
proof -
  from assms(1) have "(pool, f) \<in> set (rg_map rg)"
    by (auto simp: each_pool_def dest: map_of_SomeD dest!: sym [of "Some _"] split: option.splits)
  with assms(2) have "map_of (rg_map rg) pool = Some f" by simp
  then show ?thesis by (auto simp: resolve_request_def pools_resolve_def)
qed

text \<open>A warm-up warms the account it is meant for. Every command the warmer starts is given an address of
  this proxy such that whatever request it sends below it, with any path and query, is read as a request
  to that account: the pool resolves to the fleet the candidate was chosen from, the pin is the id of an
  account of that fleet which had no reason not to serve, and the path that is forwarded is what the
  command added.\<close>

theorem warm_requests_come_home:
  assumes "(pool, i, env) \<in> set (warm_all E authority key now rg)" and "distinct (al_keys (rg_map rg))"
    and "pool \<noteq> []" and "\<forall>c \<in> set pool. \<not> name_end c" and "CHR ''/'' \<notin> set i" and "percent_decode E i = i"
    and "hr_target r = Some (warm_target (rg_default rg) pool i (CHR ''/'' # t))"
  shows "\<exists>f a. (''ANTHROPIC_BASE_URL'', Some (''http://'' @ authority @ warm_target (rg_default rg) pool i [])) \<in> set env
    \<and> a \<in> set (fl_accounts f) \<and> a_id a = i \<and> unavailable_reason E f a None None now = None
    \<and> fst (resolve_request (ad_pool (address_of E r None)) clk rg) = Some (pool, f)
    \<and> ad_pin (address_of E r None) = Some i \<and> ad_query (address_of E r None) = CHR ''/'' # t"
proof -
  from assms(1) obtain f name where f: "(pool, f) \<in> set (each_pool rg)" and c: "(i, name) \<in> set (warm_candidates E now f)"
    and env: "env = warm_one authority key (warm_prefix (rg_default rg) pool) i name"
    by (auto simp: warm_all_def)
  from c obtain a where a: "a \<in> set (fl_accounts f)" "a_id a = i" "warm_candidate E now f a"
    by (auto simp: warm_candidates_def)
  have "(''ANTHROPIC_BASE_URL'', Some (''http://'' @ authority @ warm_target (rg_default rg) pool i [])) \<in> set env"
    by (simp add: env warm_one_def warm_env_def warm_base_def warm_target_def)
  with a each_pool_resolves [OF f assms(2), of clk] warm_address [OF assms(3-7)] show ?thesis
    by (auto simp: warm_candidate_def)
qed

theorem warm_requests_come_home_witness:
  "let rg = \<lparr>rg_map = [(''default'', demo_fleet []), (''work'', demo_fleet [demo_account ''a'' 0])], rg_default = ''default'',
         rg_unknown = []\<rparr>;
       ad = address_of ext0 (demo_post ''/pool/work/tc-acct/a/v1/messages'') None
   in ad_pin ad = Some ''a'' \<and> ad_query ad = ''/v1/messages'' \<and>
      (\<exists>f a. fst (resolve_request (ad_pool ad) 0 rg) = Some (''work'', f) \<and> a \<in> set (fl_accounts f) \<and> a_id a = ''a'')"
proof -
  let ?f = "demo_fleet [demo_account ''a'' 0]"
  let ?rg = "\<lparr>rg_map = [(''default'', demo_fleet []), (''work'', ?f)], rg_default = ''default'', rg_unknown = []\<rparr>"
  have "warm_candidate ext0 0 ?f (demo_account ''a'' 0)"
    by (simp add: warm_candidate_def oauth_anthropic_def unavailable_reason_def unavailable_reason_for_def
        demo_available quota_default_def bucket_default_def)
  then have w: "(''work'', ''a'', warm_one ''h'' ''k'' (warm_prefix ''default'' ''work'') ''a'' ''a'')
      \<in> set (warm_all ext0 ''h'' ''k'' 0 ?rg)"
    by (simp add: warm_all_def each_pool_def warm_candidates_def)
  have t: "hr_target (demo_post ''/pool/work/tc-acct/a/v1/messages'') = Some (warm_target (rg_default ?rg) ''work'' ''a'' (CHR ''/'' # ''v1/messages''))"
    by (simp add: warm_target_def warm_prefix_def POOL_PREFIX_def demo_post_def)
  have p: "percent_decode ext0 ''a'' = ''a''" by (simp add: ext0_def)
  from warm_requests_come_home [OF w _ _ _ _ p t, where clk = 0] show ?thesis
    by (auto simp: name_end_def Let_def)
qed

end
