(* ===== verification/Cli_Edits.thy ===== *)
theory Cli_Edits
  imports Control
begin

text \<open>
  \<open>src/cli.rs\<close>: the commands that change the configuration. Each is the edit it makes, with the checks of its
  arguments that come before the file is read; \<open>run_command\<close> takes the edit through \<open>Config::update\<close>. A bad
  argument is \<open>Refused\<close>. What the commands print is not modelled.
\<close>

subsection \<open>Arguments\<close>

definition parse_percent :: "string \<Rightarrow> edit_error + f64" where
  "parse_percent v =
     (case parse_f64 v of
        None \<Rightarrow> Inl (Refused ''percent must be a number'')
      | Some p \<Rightarrow> if f_le (Fin 1) p \<and> f_le p (Fin 100) then Inr (f_div p (Fin 100)) else Inl (Refused ''percent must be 1-100''))"

definition threshold_table :: "threshold \<Rightarrow> (string \<times> f64) list" where
  "threshold_table t = (case t of Single x \<Rightarrow> [(''default'', x)] | Table m \<Rightarrow> m)"

definition set_threshold :: "string \<Rightarrow> threshold \<Rightarrow> edit_error + threshold" where
  "set_threshold v t =
     (case split_once CHR ''='' v of
        Some (bucket, pct) \<Rightarrow>
          if pct = ''default'' then Inr (Table (AList.delete bucket (threshold_table t)))
          else res_bind (parse_percent pct) (\<lambda>p. Inr (Table (bt_insert bucket p (threshold_table t))))
      | None \<Rightarrow> res_bind (parse_percent v) (\<lambda>p. Inr (Single p)))"

definition parse_secs :: "string \<Rightarrow> nat \<Rightarrow> edit_error + nat" where
  "parse_secs v least =
     (case (if eq_ignore_case v ''off'' then Some 0 else parse_unsigned u64_max v) of
        None \<Rightarrow> Inl (Refused ''seconds must be a number or off'')
      | Some secs \<Rightarrow> if secs \<noteq> 0 \<and> secs < least then Inl (Refused ''below the minimum'') else Inr secs)"

definition parse_on_off :: "string \<Rightarrow> edit_error + bool" where
  "parse_on_off v =
     (let w = to_lower v
      in if w \<in> {''on'', ''true'', ''1'', ''yes''} then Inr True
         else if w \<in> {''off'', ''false'', ''0'', ''no''} then Inr False
         else Inl (Refused ''expected on or off''))"

text \<open>\<open>as_deref().map(f).transpose()\<close>.\<close>

definition opt_arg :: "('a \<Rightarrow> edit_error + 'b) \<Rightarrow> 'a option \<Rightarrow> edit_error + 'b option" where
  "opt_arg f v = (case v of None \<Rightarrow> Inr None | Some x \<Rightarrow> res_bind (f x) (\<lambda>y. Inr (Some y)))"

subsection \<open>Accounts\<close>

definition edit_remove :: "string \<Rightarrow> string option \<Rightarrow> config \<Rightarrow> edit_error + config" where
  "edit_remove name pool c =
     res_bind (locate c pool name) (\<lambda>(p, i). Inr (upd_pool p (pc_accounts_update (remove_at i)) c))"

definition edit_disabled :: "string \<Rightarrow> bool \<Rightarrow> string option \<Rightarrow> config \<Rightarrow> edit_error + config" where
  "edit_disabled name off pool c =
     res_bind (locate c pool name) (\<lambda>(p, i). Inr (upd_entry p i (edit_account (SetDisabled off)) c))"

definition peers :: "config \<Rightarrow> string \<Rightarrow> int list" where
  "peers c pool = (case config_pool c pool of Some p \<Rightarrow> map ac_priority (pc_accounts p) | None \<Rightarrow> [])"

definition edit_priority ::
  "string \<Rightarrow> int option \<Rightarrow> bool \<Rightarrow> bool \<Rightarrow> string option \<Rightarrow> config \<Rightarrow> edit_error + config" where
  "edit_priority name v first final pool c =
     res_bind (locate c pool name) (\<lambda>(p, i).
     res_bind (if first then Inr (i32_of (unwrap_or 0 (opt_min (peers c p)) - 1))
               else if final then Inr (i32_of (unwrap_or 0 (opt_max (peers c p)) + 1))
               else (case v of Some x \<Rightarrow> Inr x | None \<Rightarrow> Inl (Refused ''give a number, --first or --last'')))
       (\<lambda>x. Inr (upd_entry p i (edit_account (SetPriority x)) c)))"

subsection \<open>Settings\<close>

definition edit_pool_of :: "string option \<Rightarrow> (pool_config \<Rightarrow> edit_error + pool_config) \<Rightarrow> config \<Rightarrow> edit_error + config" where
  "edit_pool_of pool g c =
     res_bind (pool_name c pool) (\<lambda>n.
       case config_pool c n of
         None \<Rightarrow> Inl (NoPoolNamed n)
       | Some p \<Rightarrow> res_bind (g p) (\<lambda>q. Inr (upd_pool n (\<lambda>_. q) c)))"

definition edit_threshold :: "string \<Rightarrow> string option \<Rightarrow> config \<Rightarrow> edit_error + config" where
  "edit_threshold v pool =
     edit_pool_of pool (\<lambda>p. res_bind (set_threshold v (pc_switch_threshold p)) (\<lambda>t. Inr (p\<lparr>pc_switch_threshold := t\<rparr>)))"

definition edit_expiry ::
  "string option \<Rightarrow> f64 option \<Rightarrow> string option \<Rightarrow> string option \<Rightarrow> config \<Rightarrow> edit_error + config" where
  "edit_expiry v tolerance preempt pool =
     edit_pool_of pool (\<lambda>p.
       res_bind (opt_arg parse_on_off v) (\<lambda>on.
       res_bind (case tolerance of
                   Some t \<Rightarrow> if t = NaN \<or> f_lt t (Fin 1) then Inl (Refused ''tolerance must be >= 1.0'') else Inr (Some t)
                 | None \<Rightarrow> Inr None) (\<lambda>t.
       res_bind (opt_arg parse_on_off preempt) (\<lambda>x.
         Inr (pc_expiry_routing_update (\<lambda>e. \<lparr>er_enabled = unwrap_or (er_enabled e) on,
                er_tolerance = unwrap_or (er_tolerance e) t, er_preempt = unwrap_or (er_preempt e) x\<rparr>) p)))))"

subsection \<open>Routes\<close>

definition drop_route :: "string \<Rightarrow> pool_config \<Rightarrow> pool_config" where
  "drop_route name = pc_routes_update (filter (\<lambda>r. rt_name r \<noteq> name))"

definition known_in :: "config \<Rightarrow> string \<Rightarrow> string \<Rightarrow> edit_error + unit" where
  "known_in c owner a =
     res_bind (as_edit (find_account_idx_in c owner a)) (\<lambda>i. ensure (i \<noteq> None) (NoAccountMatches a))"

definition edit_route_add ::
  "string \<Rightarrow> string list \<Rightarrow> string list \<Rightarrow> string option \<Rightarrow> string option \<Rightarrow> string option \<Rightarrow> config \<Rightarrow> edit_error + config" where
  "edit_route_add name pats accounts bucket color pool c =
     res_bind (pool_name c pool) (\<lambda>owner.
     res_bind (try_all (known_in c owner) accounts) (\<lambda>_.
       Inr (upd_pool owner (\<lambda>p. pc_routes_update (\<lambda>rs. rs @
              [\<lparr>rt_name = name, rt_patterns = pats, rt_accounts = accounts, rt_bucket = bucket, rt_color = color\<rparr>])
              (drop_route name p)) c)))"

definition has_route :: "string \<Rightarrow> pool_config \<Rightarrow> bool" where
  "has_route name p \<longleftrightarrow> list_ex (\<lambda>r. rt_name r = name) (pc_routes p)"

definition has_route_in :: "string \<Rightarrow> config \<Rightarrow> string \<Rightarrow> bool" where
  "has_route_in name c p = (case config_pool c p of Some pc \<Rightarrow> has_route name pc | None \<Rightarrow> False)"

definition edit_route_rm :: "string \<Rightarrow> string option \<Rightarrow> config \<Rightarrow> edit_error + config" where
  "edit_route_rm name pool c =
     res_bind (case pool of
                 Some p \<Rightarrow> pool_name c (Some p)
               | None \<Rightarrow> (case List.find (has_route_in name c) (pool_names c) of
                            Some p \<Rightarrow> Inr p | None \<Rightarrow> Inl (Refused ''no route of that name'')))
       (\<lambda>owner. if has_route_in name c owner then Inr (upd_pool owner (drop_route name) c)
                else Inl (Refused ''no route of that name in the pool''))"


subsection \<open>Pools\<close>

record pool_args =
  pa_threshold :: "string option"
  pa_distribute :: "string option"
  pa_probe :: "string option"
  pa_hold :: "nat option"
  pa_account :: "string list"
  pa_make_default :: bool
  pa_match_path :: "string list"
  pa_match_remote :: "string list"
  pa_match_env :: "string list"
  pa_no_match :: bool

definition pool_args_default :: pool_args where
  "pool_args_default =
     \<lparr>pa_threshold = None, pa_distribute = None, pa_probe = None, pa_hold = None, pa_account = [], pa_make_default = False,
      pa_match_path = [], pa_match_remote = [], pa_match_env = [], pa_no_match = False\<rparr>"

definition move_account :: "string \<Rightarrow> string \<Rightarrow> config \<Rightarrow> edit_error + config" where
  "move_account name want c =
     res_bind (locate c None want) (\<lambda>(src, i).
       if src = name then Inr c
       else Inr (push_account name (account_at c src i) (upd_pool src (pc_accounts_update (remove_at i)) c)))"

fun move_accounts :: "string \<Rightarrow> string list \<Rightarrow> config \<Rightarrow> edit_error + config" where
  "move_accounts name [] c = Inr c"
| "move_accounts name (w # ws) c = res_bind (move_account name w c) (move_accounts name ws)"

text \<open>\<open>VAR=REGEX\<close>, or a bare \<open>VAR\<close>; collected into an ordered map.\<close>

definition match_env_arg :: "string \<Rightarrow> string \<times> string" where
  "match_env_arg v = (case split_once CHR ''='' v of Some (k, pat) \<Rightarrow> (trim k, pat) | None \<Rightarrow> (trim v, []))"

definition match_env_map :: "string list \<Rightarrow> (string \<times> string) list" where
  "match_env_map vs = fold (\<lambda>v m. case match_env_arg v of (k, pat) \<Rightarrow> bt_insert k pat m) vs []"

definition match_fields :: "pool_args \<Rightarrow> pool_match \<Rightarrow> pool_match" where
  "match_fields s m =
     \<lparr>pm_paths = (if pa_match_path s = [] then pm_paths m else pa_match_path s),
      pm_remotes = (if pa_match_remote s = [] then pm_remotes m else pa_match_remote s),
      pm_env = (if pa_match_env s = [] then pm_env m else match_env_map (pa_match_env s))\<rparr>"

definition set_match :: "ext \<Rightarrow> pool_args \<Rightarrow> pool_match option \<Rightarrow> edit_error + pool_match option" where
  "set_match E s old =
     (if pa_no_match s then Inr None
      else if pa_match_path s = [] \<and> pa_match_remote s = [] \<and> pa_match_env s = [] then Inr old
      else
        let m = match_fields s (unwrap_or \<lparr>pm_paths = [], pm_remotes = [], pm_env = []\<rparr> old)
        in if pa_match_env s \<noteq> [] \<and> al_has (pm_env m) [] then Inl (Refused ''expected VAR or VAR=REGEX'')
           else res_bind (as_edit (pool_match_validate E m)) (\<lambda>_. Inr (if pool_match_is_empty m then None else Some m)))"

definition pool_settings :: "ext \<Rightarrow> pool_args \<Rightarrow> nat option \<Rightarrow> bool option \<Rightarrow> pool_config \<Rightarrow> edit_error + pool_config" where
  "pool_settings E s probe distribute p =
     res_bind (case pa_threshold s of Some t \<Rightarrow> set_threshold t (pc_switch_threshold p) | None \<Rightarrow> Inr (pc_switch_threshold p)) (\<lambda>t.
     res_bind (set_match E s (pc_match_rules p)) (\<lambda>m.
       Inr (p\<lparr>pc_switch_threshold := t, pc_distribute_sessions := unwrap_or (pc_distribute_sessions p) distribute,
              pc_quota_probe_seconds := unwrap_or (pc_quota_probe_seconds p) probe,
              pc_hold_seconds := unwrap_or (pc_hold_seconds p) (pa_hold s), pc_match_rules := m\<rparr>)))"

definition apply_pool_set :: "ext \<Rightarrow> string \<Rightarrow> pool_args \<Rightarrow> config \<Rightarrow> edit_error + config" where
  "apply_pool_set E name s c =
     res_bind (move_accounts name (pa_account s) c) (\<lambda>c1.
     res_bind (opt_arg (\<lambda>v. parse_secs v 30) (pa_probe s)) (\<lambda>probe.
     res_bind (opt_arg parse_on_off (pa_distribute s)) (\<lambda>distribute.
     res_bind (edit_pool_of (Some name) (pool_settings E s probe distribute) c1) (\<lambda>c2.
       Inr (if pa_make_default s then c2\<lparr>cf_default_pool := name\<rparr> else c2)))))"

definition edit_pool_add :: "ext \<Rightarrow> string \<Rightarrow> pool_args \<Rightarrow> config \<Rightarrow> edit_error + config" where
  "edit_pool_add E name s c = res_bind (as_edit (ensure_pool name c)) (apply_pool_set E name s)"

definition edit_pool_set :: "ext \<Rightarrow> string \<Rightarrow> pool_args \<Rightarrow> config \<Rightarrow> edit_error + config" where
  "edit_pool_set E name s c = res_bind (pool_name c (Some name)) (\<lambda>n. apply_pool_set E n s c)"

definition edit_pool_rm :: "string \<Rightarrow> bool \<Rightarrow> config \<Rightarrow> edit_error + config" where
  "edit_pool_rm name force c =
     res_bind (pool_name c (Some name)) (\<lambda>n.
       if n = cf_default_pool c then Inl (Refused ''the default pool'')
       else if 0 < accounts_in c n \<and> \<not> force then Inl (Refused ''the pool still holds accounts'')
       else Inr (c\<lparr>cf_pools := AList.delete n (cf_pools c)\<rparr>))"

subsection \<open>Adding accounts\<close>

text \<open>The entry a predicate finds anywhere, brought to the target pool, or a new one; then written to.\<close>

definition file_account ::
  "string option \<Rightarrow> (account_config \<Rightarrow> bool) \<Rightarrow> account_config \<Rightarrow> (account_config \<Rightarrow> account_config) \<Rightarrow> config
   \<Rightarrow> edit_error + config" where
  "file_account pool P new g c =
     res_bind (target_pool c pool) (\<lambda>(p, c1).
       case entry_at p (locate_by c1 P) new c1 of (c2, i, _) \<Rightarrow> Inr (upd_entry p i g c2))"

definition api_key_name :: "string \<Rightarrow> string" where
  "api_key_name key = ''api-'' @ drop (length key - 6) key"

definition edit_login_api :: "string \<Rightarrow> string \<Rightarrow> string option \<Rightarrow> config \<Rightarrow> edit_error + config" where
  "edit_login_api name key pool =
     file_account pool (\<lambda>a. ac_name a = name) (account_config_default\<lparr>ac_name := name, ac_kind := Apikey, ac_priority := 10\<rparr>)
       (\<lambda>a. a\<lparr>ac_kind := Apikey, ac_api_key := Some key\<rparr>)"

definition codex_same :: "codex_credentials \<Rightarrow> string \<Rightarrow> account_config \<Rightarrow> bool" where
  "codex_same c name a \<longleftrightarrow>
     is_codex a \<and> (ac_account_id a = cc_account_id c \<and> cc_account_id c \<noteq> None \<or> ac_name a = name)"

definition codex_entry ::
  "codex_credentials \<Rightarrow> string \<Rightarrow> string \<Rightarrow> string option \<Rightarrow> account_config \<Rightarrow> account_config" where
  "codex_entry c name access link a =
     (case link of
        Some path \<Rightarrow> a\<lparr>ac_name := name, ac_import_from := Some path, ac_access_token := None, ac_refresh_token := None,
                       ac_expires_at := None\<rparr>
      | None \<Rightarrow> a\<lparr>ac_name := name, ac_import_from := None, ac_access_token := Some access,
                   ac_refresh_token := cc_refresh c, ac_expires_at := cc_expires_at c\<rparr>)
     \<lparr>ac_account_id := opt_or (cc_account_id c) (ac_account_id a), ac_email := opt_or (cc_email c) (ac_email a),
      ac_plan_type := opt_or (cc_plan_type c) (ac_plan_type a)\<rparr>"

text \<open>\<open>login --codex\<close> passes no link, \<open>import --codex\<close> may.\<close>

definition edit_codex ::
  "codex_credentials \<Rightarrow> string \<Rightarrow> string \<Rightarrow> string option \<Rightarrow> string option \<Rightarrow> config \<Rightarrow> edit_error + config" where
  "edit_codex c name access link pool =
     file_account pool (codex_same c name)
       (account_config_default\<lparr>ac_name := name, ac_kind := Oauth, ac_provider := Some ''codex''\<rparr>) (codex_entry c name access link)"

definition edit_login ::
  "string \<Rightarrow> tokens \<Rightarrow> profile option \<Rightarrow> string option \<Rightarrow> config \<Rightarrow> edit_error + config" where
  "edit_login name t prof pool c =
     res_bind (target_pool c pool) (\<lambda>(p, c1). Inr (fst (upsert_oauth_at p name t prof c1)))"

definition edit_import ::
  "string \<Rightarrow> tokens \<Rightarrow> profile option \<Rightarrow> string option \<Rightarrow> string option \<Rightarrow> string option \<Rightarrow> config \<Rightarrow> edit_error + config" where
  "edit_import name t prof link subscription pool c =
     res_bind (target_pool c pool) (\<lambda>(p, c1). Inr (fst (apply_import p name t prof link subscription c1)))"

definition DEFAULT_CREDENTIALS_PATH :: string where "DEFAULT_CREDENTIALS_PATH = ''~/.claude/.credentials.json''"

definition import_links :: "ext \<Rightarrow> bool \<Rightarrow> bool \<Rightarrow> string \<Rightarrow> string \<Rightarrow> bool" where
  "import_links E link copy path own_file \<longleftrightarrow> \<not> copy \<and> (link \<or> expand_home E path = expand_home E own_file)"

end
