(* ===== verification/Cli.thy ===== *)
theory Cli
  imports Cli_Edits Utf8
begin

text \<open>
  \<open>src/cli.rs\<close>: the commands as a whole, from their arguments to the configuration file, the account
  \<open>corrall api\<close> calls with, and what \<open>config check\<close> shows. Reading a terminal and a browser login are
  what they gave; \<open>da_import\<close> reads credential files.
\<close>

subsection \<open>Commands that edit\<close>

datatype cli_command =
    CmdRemove string "string option"
  | CmdDisable string bool "string option"
  | CmdPriority string "int option" bool bool "string option"
  | CmdThreshold string "string option"
  | CmdDistribute string "string option"
  | CmdProbe string "string option"
  | CmdWarmup string
  | CmdExpiry "string option" "f64 option" "string option" "string option"
  | CmdSoonestReset string "string option"
  | CmdTitles string
  | CmdRouteAdd string "string list" "string list" "string option" "string option" "string option"
  | CmdRouteRm string "string option"
  | CmdPoolAdd string pool_args
  | CmdPoolSet string pool_args
  | CmdPoolRm string bool

text \<open>A command is the checks made before the file is opened, and the edit.\<close>

type_synonym cli_edit = "edit_error + (config \<Rightarrow> edit_error + config)"

definition cmd_distribute :: "string \<Rightarrow> string option \<Rightarrow> cli_edit" where
  "cmd_distribute v pool =
     res_bind (parse_on_off v) (\<lambda>on. Inr (edit_pool_of pool (\<lambda>p. Inr (p\<lparr>pc_distribute_sessions := on\<rparr>))))"

definition cmd_probe :: "string \<Rightarrow> string option \<Rightarrow> cli_edit" where
  "cmd_probe v pool =
     res_bind (parse_secs v 30) (\<lambda>n. Inr (edit_pool_of pool (\<lambda>p. Inr (p\<lparr>pc_quota_probe_seconds := n\<rparr>))))"

definition cmd_warmup :: "string \<Rightarrow> cli_edit" where
  "cmd_warmup v = res_bind (parse_secs v 60) (\<lambda>n. Inr (\<lambda>c. Inr (c\<lparr>cf_warmup_seconds := n\<rparr>)))"

definition cmd_soonest_reset :: "string \<Rightarrow> string option \<Rightarrow> cli_edit" where
  "cmd_soonest_reset v pool =
     res_bind (parse_on_off v) (\<lambda>on. Inr (edit_pool_of pool (\<lambda>p. Inr (p\<lparr>pc_soonest_reset := on\<rparr>))))"

definition cmd_titles :: "string \<Rightarrow> cli_edit" where
  "cmd_titles v =
     res_bind (parse_on_off v) (\<lambda>on. Inr (\<lambda>c. Inr (cf_session_titles_update (ti_enabled_update (\<lambda>_. on)) c)))"

definition cmd_route_add ::
  "string \<Rightarrow> string list \<Rightarrow> string list \<Rightarrow> string option \<Rightarrow> string option \<Rightarrow> string option \<Rightarrow> cli_edit" where
  "cmd_route_add name pats accounts bucket color pool =
     (if pats = [] then Inl (Refused ''--match is required'')
      else if (case bucket of Some b \<Rightarrow> \<not> is_weekly_bucket b | None \<Rightarrow> False) then Inl (Refused ''not a weekly bucket'')
      else Inr (edit_route_add name pats accounts bucket color pool))"

lemmas cmd_defs = cmd_distribute_def cmd_probe_def cmd_warmup_def cmd_soonest_reset_def cmd_titles_def cmd_route_add_def

fun command_edit :: "ext \<Rightarrow> cli_command \<Rightarrow> cli_edit" where
  "command_edit E (CmdRemove name pool) = Inr (edit_remove name pool)"
| "command_edit E (CmdDisable name off pool) = Inr (edit_disabled name off pool)"
| "command_edit E (CmdPriority name v first final pool) = Inr (edit_priority name v first final pool)"
| "command_edit E (CmdThreshold v pool) = Inr (edit_threshold v pool)"
| "command_edit E (CmdDistribute v pool) = cmd_distribute v pool"
| "command_edit E (CmdProbe v pool) = cmd_probe v pool"
| "command_edit E (CmdWarmup v) = cmd_warmup v"
| "command_edit E (CmdExpiry v tolerance preempt pool) = Inr (edit_expiry v tolerance preempt pool)"
| "command_edit E (CmdSoonestReset v pool) = cmd_soonest_reset v pool"
| "command_edit E (CmdTitles v) = cmd_titles v"
| "command_edit E (CmdRouteAdd name pats accounts bucket color pool) = cmd_route_add name pats accounts bucket color pool"
| "command_edit E (CmdRouteRm name pool) = Inr (edit_route_rm name pool)"
| "command_edit E (CmdPoolAdd name s) = Inr (edit_pool_add E name s)"
| "command_edit E (CmdPoolSet name s) = Inr (edit_pool_set E name s)"
| "command_edit E (CmdPoolRm name force) = Inr (edit_pool_rm name force)"

definition cli_update ::
  "'u daemon \<Rightarrow> nat \<Rightarrow> (config \<Rightarrow> edit_error + config) \<Rightarrow> file_read \<Rightarrow> (edit_error + config) \<times> file_read" where
  "cli_update D k f file =
     (case config_update D k (\<lambda>c. res_bind (f c) (\<lambda>d. Inr (d, ()))) file of
        (Inl e, file') \<Rightarrow> (Inl e, file')
      | (Inr (c, _), file') \<Rightarrow> (Inr c, file'))"

definition run_command :: "'u daemon \<Rightarrow> cli_command \<Rightarrow> file_read \<Rightarrow> (edit_error + config) \<times> file_read" where
  "run_command D cmd file =
     (case command_edit (da_ext D) cmd of Inl e \<Rightarrow> (Inl e, file) | Inr f \<Rightarrow> cli_update D 0 f file)"

subsection \<open>Login and import\<close>

text \<open>\<open>Config::load_or_create\<close>: here a save that fails is an error.\<close>

definition open_config :: "'u daemon \<Rightarrow> nat \<Rightarrow> file_read \<Rightarrow> (edit_error + config) \<times> file_read" where
  "open_config D k file =
     (case load_file D k file of
        (Inl e, file') \<Rightarrow> (Inl e, file')
      | (Inr (Some c), file') \<Rightarrow> (Inr c, file')
      | (Inr None, file') \<Rightarrow>
          (let c = config_default (da_key D)
           in if da_write_ok D then (Inr c, save_file D c file') else (Inl SaveFailed, file')))"

text \<open>What follows when the configuration opened: a refusal, or an edit.\<close>

definition with_config ::
  "'u daemon \<Rightarrow> (config \<Rightarrow> edit_error + (config \<Rightarrow> edit_error + config)) \<Rightarrow> file_read
   \<Rightarrow> (edit_error + config) \<times> file_read" where
  "with_config D k file =
     (case open_config D 0 file of
        (Inl e, file') \<Rightarrow> (Inl e, file')
      | (Inr cfg, file') \<Rightarrow> (case k cfg of Inl e \<Rightarrow> (Inl e, file') | Inr f \<Rightarrow> cli_update D 1 f file'))"

definition account_label :: "string option \<Rightarrow> profile option \<Rightarrow> config \<Rightarrow> edit_error + string" where
  "account_label name prof cfg =
     (case (name, prof) of
        (Some n, _) \<Rightarrow> Inr n
      | (None, Some p) \<Rightarrow> Inr (display_name p cfg)
      | (None, None) \<Rightarrow> Inl (Refused ''profile lookup failed''))"

definition token_given :: "string option \<Rightarrow> edit_error + string" where
  "token_given t = (case opt_filter (\<lambda>s. s \<noteq> []) t of Some s \<Rightarrow> Inr s | None \<Rightarrow> Inl (Refused ''no access token''))"

text \<open>What the two kinds of login ask for, and what they got.\<close>

datatype login_source =
    ApiSecret string
  | CodexLogin "codex_credentials option"
  | OauthLogin "tokens option"

definition login_edit ::
  "'u daemon \<Rightarrow> login_source \<Rightarrow> string option \<Rightarrow> string option \<Rightarrow> config \<Rightarrow> edit_error + (config \<Rightarrow> edit_error + config)" where
  "login_edit D src name pool cfg =
     (case src of
        ApiSecret line \<Rightarrow>
          (let key = trim line
           in if \<not> starts_with ''sk-ant-'' key then Inl (Refused ''not an Anthropic API key'')
              else Inr (edit_login_api (unwrap_or (api_key_name key) name) key pool))
      | CodexLogin c \<Rightarrow>
          (case c of
             None \<Rightarrow> Inl (Refused ''sign-in failed'')
           | Some c \<Rightarrow>
               (case cc_access c of
                  None \<Rightarrow> Inl (Refused ''no access token'')
                | Some access \<Rightarrow> Inr (edit_codex c (unwrap_or ''codex'' (opt_or name (cc_email c))) access None pool)))
      | OauthLogin t \<Rightarrow>
          (case t of
             None \<Rightarrow> Inl (Refused ''sign-in failed'')
           | Some t \<Rightarrow>
               let prof = fetch_profile D (tk_access t)
               in res_bind (account_label name prof cfg) (\<lambda>n. Inr (edit_login n t prof pool))))"

definition login_command ::
  "'u daemon \<Rightarrow> login_source \<Rightarrow> string option \<Rightarrow> string option \<Rightarrow> file_read \<Rightarrow> (edit_error + config) \<times> file_read" where
  "login_command D src name pool = with_config D (login_edit D src name pool)"

record import_args =
  ia_from :: string
  ia_link :: bool
  ia_copy :: bool
  ia_codex :: bool
  ia_name :: "string option"
  ia_pool :: "string option"

definition import_codex_edit :: "'u daemon \<Rightarrow> import_args \<Rightarrow> edit_error + (config \<Rightarrow> edit_error + config)" where
  "import_codex_edit D a =
     (let path = (if ia_from a = DEFAULT_CREDENTIALS_PATH then CODEX_CREDENTIALS_PATH else ia_from a);
          link = import_links (da_ext D) (ia_link a) (ia_copy a) path CODEX_CREDENTIALS_PATH
      in (case read_codex (da_import D) path of
            None \<Rightarrow> Inl (Refused ''unreadable credentials'')
          | Some c \<Rightarrow>
              res_bind (token_given (cc_access c)) (\<lambda>access.
                Inr (edit_codex c (unwrap_or ''codex'' (opt_or (ia_name a) (cc_email c))) access
                  (if link then Some path else None) (ia_pool a)))))"

definition import_oauth_edit ::
  "'u daemon \<Rightarrow> import_args \<Rightarrow> config \<Rightarrow> edit_error + (config \<Rightarrow> edit_error + config)" where
  "import_oauth_edit D a cfg =
     (let link = import_links (da_ext D) (ia_link a) (ia_copy a) (ia_from a) DEFAULT_CREDENTIALS_PATH
      in (case read_oauth (da_import D) (ia_from a) of
            None \<Rightarrow> Inl (Refused ''unreadable credentials'')
          | Some c \<Rightarrow>
              res_bind (token_given (im_access c)) (\<lambda>access.
                let prof = fetch_profile D access;
                    t = \<lparr>tk_access = access, tk_refresh = im_refresh c, tk_expires_at = unwrap_or 0 (im_expires_at c),
                         tk_refresh_expires_at = im_refresh_expires_at c\<rparr>
                in res_bind (account_label (ia_name a) prof cfg) (\<lambda>n.
                     Inr (edit_import n t prof (if link then Some (ia_from a) else None) (im_subscription_type c) (ia_pool a))))))"

definition import_command :: "'u daemon \<Rightarrow> import_args \<Rightarrow> file_read \<Rightarrow> (edit_error + config) \<times> file_read" where
  "import_command D a =
     with_config D (\<lambda>cfg. if ia_codex a then import_codex_edit D a else import_oauth_edit D a cfg)"

subsection \<open>The account \<open>corrall api\<close> uses\<close>

definition api_base_for :: "account_config \<Rightarrow> edit_error + string" where
  "api_base_for a =
     (if is_codex a then Inl (Refused ''a Codex account'') else Inr ''https://api.anthropic.com'')"

definition api_account :: "config \<Rightarrow> string option \<Rightarrow> string option \<Rightarrow> edit_error + (string \<times> nat)" where
  "api_account c account pool =
     (case account of
        Some n \<Rightarrow> locate c pool n
      | None \<Rightarrow>
          res_bind (pool_name c pool) (\<lambda>owner.
            case Option.bind (config_pool c owner) (\<lambda>p. position (\<lambda>a. \<not> ac_disabled a) (pc_accounts p)) of
              None \<Rightarrow> Inl (Refused ''no enabled account'')
            | Some i \<Rightarrow> Inr (owner, i)))"

text \<open>The account and the address the credential is sent to.\<close>

definition api_target :: "config \<Rightarrow> string \<Rightarrow> string option \<Rightarrow> string option \<Rightarrow> edit_error + (account_config \<times> string)" where
  "api_target c path account pool =
     (if \<not> starts_with ''/'' path then Inl (Refused ''path must start with /'')
      else res_bind (api_account c account pool) (\<lambda>(owner, i).
        let a = account_at c owner i
        in res_bind (api_base_for a) (\<lambda>base. Inr (a, base @ path))))"

subsection \<open>What is shown\<close>

definition redact_account :: "account_config \<Rightarrow> account_config" where
  "redact_account a =
     a\<lparr>ac_access_token := map_option redact (ac_access_token a),
       ac_refresh_token := map_option redact (ac_refresh_token a), ac_api_key := map_option redact (ac_api_key a)\<rparr>"

definition redact_config :: "config \<Rightarrow> config" where
  "redact_config c =
     c\<lparr>cf_proxy := (cf_proxy c)\<lparr>px_api_key := redact (px_api_key (cf_proxy c)),
                    px_client_keys := map (ck_key_update redact) (px_client_keys (cf_proxy c))\<rparr>,
       cf_pools := map (\<lambda>(n, p). (n, pc_accounts_update (map redact_account) p)) (cf_pools c)\<rparr>"

definition match_summary :: "pool_config \<Rightarrow> string list" where
  "match_summary p =
     (case pc_match_rules p of
        None \<Rightarrow> []
      | Some m \<Rightarrow>
          map (\<lambda>x. ''match: path '' @ safe_str x 60) (pm_paths m)
        @ map (\<lambda>r. ''match: remote ~ '' @ safe_str r 60) (pm_remotes m)
        @ map (\<lambda>(k, pat). let k' = safe_str k 30
                 in if pat = [] then ''match: env '' @ k' @ '' set''
                    else ''match: env '' @ k' @ '' ~ '' @ safe_str pat 40) (pm_env m))"

definition quoted_list :: "string list \<Rightarrow> string" where
  "quoted_list items =
     (let q = map quoted items
      in if q = [] then [] else if butlast q = [] then last q
         else join_with '', '' (butlast q) @ '' and '' @ last q)"


subsection \<open>One invocation\<close>

datatype cli_run =
    EditRun cli_command
  | LoginRun login_source "string option" "string option"
  | ImportRun import_args

fun cli :: "'u daemon \<Rightarrow> cli_run \<Rightarrow> file_read \<Rightarrow> (edit_error + config) \<times> file_read" where
  "cli D (EditRun cmd) file = run_command D cmd file"
| "cli D (LoginRun src name pool) file = login_command D src name pool file"
| "cli D (ImportRun a) file = import_command D a file"

end
