(* ===== verification/Cli_Props.thy ===== *)
theory Cli_Props
  imports Cli Control_Props
begin

text \<open>
  The commands of \<open>src/cli.rs\<close>: they leave a configuration file the daemon loads, and they move accounts
  without copying or losing one.
\<close>

subsection \<open>Valid configurations\<close>

lemma edit_pool_of_InrD:
  assumes "edit_pool_of pool g c = Inr d"
  obtains n p q where "pool_name c pool = Inr n" "config_pool c n = Some p" "g p = Inr q" "d = upd_pool n (\<lambda>_. q) c"
  using assms by (auto simp: edit_pool_of_def split: option.splits)

lemma upd_pool_to_good:
  assumes "good_config E c" and "config_pool c n = Some p" and "good_pool E (n, p) \<Longrightarrow> good_pool E (n, q)"
  shows "good_config E (upd_pool n (\<lambda>_. q) c)"
proof (rule good_config_pools [OF assms(1)])
  have "good_pool E (n, p)" using assms(1,2) by (auto simp: good_config_iff config_pool_def dest: map_of_SomeD)
  then show "good_pool E np" if "np \<in> set (cf_pools (upd_pool n (\<lambda>_. q) c))" for np
    using that assms by (auto simp: upd_pool_def good_config_iff split: if_splits)
  have "al_has (cf_pools (upd_pool n (\<lambda>_. q) c)) x = al_has (cf_pools c) x" for x
    using upd_pool_frame(1) [of n "\<lambda>_. q" c x] by (cases "x = n") (simp_all add: config_pool_def del: upd_pool_frame(1))
  then show "al_has (cf_pools (upd_pool n (\<lambda>_. q) c)) (cf_default_pool (upd_pool n (\<lambda>_. q) c))"
    using assms(1) by (simp add: good_config_iff)
qed (simp add: same_but_pools_def upd_pool_def)

lemma edit_pool_of_good:
  assumes "edit_pool_of pool g c = Inr d" and "good_config E c"
    and "\<And>n p q. g p = Inr q \<Longrightarrow> good_pool E (n, p) \<Longrightarrow> good_pool E (n, q)"
  shows "good_config E d"
  using assms(1) by (rule edit_pool_of_InrD) (use assms(2,3) in \<open>auto intro: upd_pool_to_good\<close>)

lemma upd_entry_edit_good: "good_config E c \<Longrightarrow> good_config E (upd_entry p i (edit_account e) c)"
  by (rule upd_entry_good) (auto simp: good_account_iff edit_account_def split: account_edit.splits)

lemma remove_good: "good_config E c \<Longrightarrow> good_config E (upd_pool p (pc_accounts_update (remove_at i)) c)"
  by (rule upd_pool_good) (auto simp: good_pool_iff dest: subsetD [OF remove_at_subset])

lemma find_in_pools_at:
  "find_in_pools c needle ps = Inr (Some (p, i)) \<Longrightarrow> \<exists>pc. config_pool c p = Some pc \<and> i < length (pc_accounts pc)"
  by (auto simp: match_account_in_def config_pool_def split: option.splits
      dest!: find_in_pools_Some match_accounts_One)

lemma locate_at:
  assumes "locate c pool needle = Inr (p, i)"
  obtains pc where "config_pool c p = Some pc" "i < length (pc_accounts pc)"
proof -
  have "\<exists>pc. config_pool c p = Some pc \<and> i < length (pc_accounts pc)"
  proof (cases pool)
    case None
    with assms show ?thesis by (auto simp: locate_def find_account_def split: option.splits dest: find_in_pools_at)
  next
    case (Some q)
    then have "pool_name c (Some q) = Inr q" using assms by (auto simp: locate_def pool_name_def split: if_splits)
    with Some assms have "match_account_in c q needle = One i" "p = q"
      by (auto simp: locate_def find_account_idx_in_def split: option.splits account_match.splits)
    then show ?thesis
      by (auto simp: match_account_in_def config_pool_def split: option.splits dest!: match_accounts_One)
  qed
  with that show ?thesis by blast
qed

lemma move_account_entry:
  "move_account name want c = res_bind (locate c None want) (\<lambda>f. Inr (fst (entry_at name (Some f) account_config_default c)))"
  by (cases "locate c None want") (auto simp: move_account_def entry_at_def Let_def)

lemma move_accounts_good:
  "move_accounts name ws c = Inr d \<Longrightarrow> good_config E c \<Longrightarrow> al_has (cf_pools c) name
   \<Longrightarrow> good_config E d \<and> al_has (cf_pools d) name"
proof (induction ws arbitrary: c)
  case (Cons w ws)
  then obtain c1 where c1: "move_account name w c = Inr c1" "move_accounts name ws c1 = Inr d" by auto
  then obtain p i where l: "locate c None w = Inr (p, i)"
    and c1': "c1 = (if p = name then c else push_account name (account_at c p i) (upd_pool p (pc_accounts_update (remove_at i)) c))"
    by (auto simp: move_account_def split: if_splits)
  let ?c = "upd_pool p (pc_accounts_update (remove_at i)) c"
  from l obtain pc where pc: "config_pool c p = Some pc" "i < length (pc_accounts pc)" by (rule locate_at)
  have has: "al_has (cf_pools ?c) name"
    using Cons.prems(3) upd_pool_frame(1) [of p "pc_accounts_update (remove_at i)" c name]
    by (auto simp: config_pool_def simp del: upd_pool_frame(1))
  have "good_config E c1"
    using Cons.prems(2) push_account_good [OF remove_good account_at_good [OF Cons.prems(2) pc] has]
    by (auto simp: c1')
  moreover have "al_has (cf_pools c1) name"
    using Cons.prems(3) by (auto simp: c1' push_account_def Let_def)
  ultimately show ?case using Cons.IH c1(2) by blast
qed simp

lemma pool_settings_good:
  "pool_settings E s probe spread p = Inr q \<Longrightarrow> good_pool E (n, p) \<Longrightarrow> good_pool E (n, q)"
  by (auto simp: pool_settings_def good_pool_iff set_match_def Let_def split: if_splits)

lemma apply_pool_set_good:
  assumes "apply_pool_set E name s c = Inr d" and "good_config E c" and "al_has (cf_pools c) name"
  shows "good_config E d"
proof -
  from assms(1) obtain c1 c2 probe spread where m: "move_accounts name (pa_account s) c = Inr c1"
    and e: "edit_pool_of (Some name) (pool_settings E s probe spread) c1 = Inr c2"
    and d: "d = (if pa_make_default s then c2\<lparr>cf_default_pool := name\<rparr> else c2)"
    by (auto simp: apply_pool_set_def)
  from move_accounts_good [OF m assms(2,3)] have c1: "good_config E c1" "al_has (cf_pools c1) name" by simp_all
  have c2: "good_config E c2" using e c1(1) by (rule edit_pool_of_good) (rule pool_settings_good)
  moreover have "al_has (cf_pools c2) name"
    using e by (rule edit_pool_of_InrD) (auto simp: pool_name_def split: if_splits simp flip: config_pool_def)
  ultimately show ?thesis by (auto simp: d good_config_iff bind_host_def)
qed

lemma edit_pool_rm_good:
  assumes "edit_pool_rm name force c = Inr d" and "good_config E c"
  shows "good_config E d"
proof -
  from assms(1) have d: "d = c\<lparr>cf_pools := AList.delete name (cf_pools c)\<rparr>" and n: "name \<noteq> cf_default_pool c"
    by (auto simp: edit_pool_rm_def pool_name_def split: if_splits)
  have "set (AList.delete name (cf_pools c)) \<subseteq> set (cf_pools c)" by (auto simp: AList.delete_eq)
  with n assms(2) show ?thesis
    unfolding d by (intro good_config_pools [OF assms(2)]) (auto simp: same_but_pools_def good_config_iff delete_conv')
qed

text \<open>What an edit of the commands promises.\<close>

definition sound_edit :: "ext \<Rightarrow> (config \<Rightarrow> edit_error + config) \<Rightarrow> bool" where
  "sound_edit E f \<longleftrightarrow> (\<forall>c d. f c = Inr d \<longrightarrow> good_config E c \<longrightarrow> good_config E d)"

lemma sound_editI: "(\<And>c d. f c = Inr d \<Longrightarrow> good_config E c \<Longrightarrow> good_config E d) \<Longrightarrow> sound_edit E f"
  by (simp add: sound_edit_def)

lemma sound_pool_of:
  "(\<And>n p q. g p = Inr q \<Longrightarrow> good_pool E (n, p) \<Longrightarrow> good_pool E (n, q)) \<Longrightarrow> sound_edit E (edit_pool_of pool g)"
  by (rule sound_editI) (rule edit_pool_of_good)

lemma command_edit_sound:
  assumes "command_edit E cmd = Inr f"
  shows "sound_edit E f"
proof (cases cmd)
  case (CmdRemove name pool)
  then show ?thesis using assms by (auto intro!: sound_editI simp: edit_remove_def remove_good)
next
  case (CmdThreshold v pool)
  then show ?thesis using assms by (auto intro!: sound_pool_of simp: edit_threshold_def good_pool_iff)
next
  case (CmdExpiry v tolerance preempt pool)
  then show ?thesis using assms by (auto intro!: sound_pool_of simp: edit_expiry_def good_pool_iff)
next
  case (CmdRouteAdd name pats accounts bucket color pool)
  then show ?thesis
    using assms by (auto intro!: sound_editI upd_pool_good simp: cmd_defs edit_route_add_def good_pool_iff drop_route_def split: if_splits)
next
  case (CmdRouteRm name pool)
  then show ?thesis
    using assms by (auto intro!: sound_editI upd_pool_good simp: edit_route_rm_def good_pool_iff drop_route_def split: if_splits)
next
  case (CmdPoolAdd name s)
  show ?thesis
  proof (rule sound_editI)
    fix c d assume d: "f c = Inr d" and g: "good_config E c"
    from d CmdPoolAdd assms obtain c1 where c1: "ensure_pool name c = Inr c1" "apply_pool_set E name s c1 = Inr d"
      by (auto simp: edit_pool_add_def)
    moreover have "al_has (cf_pools c1) name" using c1(1) by (auto simp: ensure_pool_def split: if_splits)
    ultimately show "good_config E d" using g by (blast intro: apply_pool_set_good ensure_pool_good)
  qed
next
  case (CmdPoolSet name s)
  show ?thesis
  proof (rule sound_editI)
    fix c d assume d: "f c = Inr d" and g: "good_config E c"
    from d CmdPoolSet assms have "apply_pool_set E name s c = Inr d" "al_has (cf_pools c) name"
      by (auto simp: edit_pool_set_def pool_name_def split: if_splits)
    with g show "good_config E d" by (blast intro: apply_pool_set_good)
  qed
next
  case (CmdPoolRm name force)
  then show ?thesis using assms by (auto intro!: sound_editI dest: edit_pool_rm_good)
next
  case (CmdWarmup v)
  then show ?thesis using assms by (auto intro!: sound_editI simp: cmd_defs good_config_iff bind_host_def)
next
  case (CmdTitles v)
  then show ?thesis using assms by (auto intro!: sound_editI simp: cmd_defs good_config_iff bind_host_def)
next
  case (CmdDistribute v pool)
  then show ?thesis using assms by (auto intro!: sound_pool_of simp: cmd_defs good_pool_iff)
next
  case (CmdProbe v pool)
  then show ?thesis using assms by (auto intro!: sound_pool_of simp: cmd_defs good_pool_iff)
next
  case (CmdSoonestReset v pool)
  then show ?thesis using assms by (auto intro!: sound_pool_of simp: cmd_defs good_pool_iff)
qed (use assms in \<open>auto intro!: sound_editI upd_entry_edit_good simp: edit_disabled_def edit_priority_def\<close>)


text \<open>Logins and imports: the entry written needs a name.\<close>

lemma target_pool_good:
  assumes "target_pool c pool = Inr (p, c1)" and "good_config E c"
  shows "good_config E c1 \<and> al_has (cf_pools c1) p"
proof (cases pool)
  case None
  with assms show ?thesis by (auto simp: target_pool_def good_config_iff)
next
  case (Some q)
  with assms have q: "ensure_pool q c = Inr c1" "p = q" by (auto simp: target_pool_def)
  have "al_has (cf_pools c1) q" using q(1) by (auto simp: ensure_pool_def split: if_splits)
  with ensure_pool_good [OF q(1) assms(2)] q(2) show ?thesis by simp
qed

lemma file_account_sound:
  assumes "good_account E new" and "\<And>a. good_account E a \<Longrightarrow> good_account E (g a)"
  shows "sound_edit E (file_account pool P new g)"
proof (rule sound_editI)
  fix c d assume f: "file_account pool P new g c = Inr d" and c: "good_config E c"
  then obtain p c1 where t: "target_pool c pool = Inr (p, c1)" by (auto simp: file_account_def)
  obtain c2 i u where e: "entry_at p (locate_by c1 P) new c1 = (c2, i, u)" by (metis prod.collapse)
  from f t e have d: "d = upd_entry p i g c2" by (simp add: file_account_def)
  from target_pool_good [OF t c] have c1: "good_config E c1" "al_has (cf_pools c1) p" by simp_all
  have "\<exists>pc. config_pool c1 q = Some pc \<and> j < length (pc_accounts pc)" if "locate_by c1 P = Some (q, j)" for q j
    using locate_by_SomeD [OF that] by blast
  from entry_at_good [OF e c1 assms(1) this] have "good_config E c2" by simp
  then show "good_config E d" unfolding d using assms(2) by (rule upd_entry_good)
qed

lemma upsert_good:
  assumes "upsert_oauth_at pool name t prof c = (d, i, u)" and "good_config E c" and "al_has (cf_pools c) pool"
    and "trim name \<noteq> []"
  shows "good_config E d"
proof -
  let ?new = "account_config_default\<lparr>ac_name := name, ac_kind := Oauth\<rparr>"
  from assms(1) obtain c2 where e: "entry_at pool (login_match c name prof) ?new c = (c2, i, u)"
    and d: "d = upd_entry pool i (login_entry name t prof) c2"
    by (auto simp: upsert_oauth_at_def split: prod.splits)
  have new: "good_account E ?new" using assms(4) by (simp add: good_account_iff account_config_default_def)
  have "\<exists>pc. config_pool c q = Some pc \<and> j < length (pc_accounts pc)" if "login_match c name prof = Some (q, j)" for q j
    using that by (auto simp: login_match_def opt_or_def bind_eq_Some_conv split: option.splits dest!: locate_by_SomeD)
  from entry_at_good [OF e assms(2,3) new this] have "good_config E c2" by simp
  then show ?thesis
    unfolding d using assms(4)
    by (intro upd_entry_good) (auto simp: good_account_iff login_entry_def Let_def split: option.splits)
qed

lemma edit_login_sound: "trim name \<noteq> [] \<Longrightarrow> sound_edit E (edit_login name t prof pool)"
proof (rule sound_editI)
  fix c d assume n: "trim name \<noteq> []" and e: "edit_login name t prof pool c = Inr d" and c: "good_config E c"
  then obtain p c1 where t: "target_pool c pool = Inr (p, c1)" and d: "d = fst (upsert_oauth_at p name t prof c1)"
    by (auto simp: edit_login_def)
  from target_pool_good [OF t c] show "good_config E d"
    unfolding d using n upsert_good [of p name t prof c1 "fst (upsert_oauth_at p name t prof c1)"] by (metis prod.collapse)
qed

lemma edit_import_sound: "trim name \<noteq> [] \<Longrightarrow> sound_edit E (edit_import name t prof link sub pool)"
proof (rule sound_editI)
  fix c d assume n: "trim name \<noteq> []" and e: "edit_import name t prof link sub pool c = Inr d" and c: "good_config E c"
  then obtain p c1 where t: "target_pool c pool = Inr (p, c1)" and d: "d = fst (apply_import p name t prof link sub c1)"
    by (auto simp: edit_import_def)
  obtain c2 i u where u: "upsert_oauth_at p name t prof c1 = (c2, i, u)" by (metis prod.collapse)
  from target_pool_good [OF t c] n u have "good_config E c2" using upsert_good by blast
  then show "good_config E d"
    unfolding d apply_import_def u fst_conv prod.case
    by (intro upd_entry_good) (auto simp: good_account_iff Let_def split: option.splits)
qed

lemma edit_login_api_sound: "trim name \<noteq> [] \<Longrightarrow> sound_edit E (edit_login_api name key pool)"
  unfolding edit_login_api_def [abs_def]
  by (rule file_account_sound) (auto simp: good_account_iff account_config_default_def)

lemma edit_codex_sound: "trim name \<noteq> [] \<Longrightarrow> sound_edit E (edit_codex c name access link pool)"
  unfolding edit_codex_def [abs_def]
  by (rule file_account_sound)
    (auto simp: good_account_iff account_config_default_def codex_entry_def split: option.splits)


subsection \<open>The file after a command\<close>

lemma cli_update_well:
  assumes "cli_update D k f file = (r, file')" and "good_config (da_ext D) (config_default (da_key D))"
    and "sound_edit (da_ext D) f"
  shows "written_well D file file' \<and> (\<forall>c. r = Inr c \<longrightarrow> good_config (da_ext D) c)"
proof -
  let ?e = "\<lambda>c. res_bind (f c) (\<lambda>d. Inr (d, ()))"
  obtain r0 f0 where u: "config_update D k ?e file = (r0, f0)" by fastforce
  have "edit_ok D ?e" using assms(3) by (auto simp: edit_ok_def sound_edit_def)
  from config_update_well [OF u assms(2) this] u assms(1) show ?thesis
    by (auto simp: cli_update_def split: sum.splits)
qed

lemma open_config_well:
  assumes "open_config D k file = (r, file')" and "good_config (da_ext D) (config_default (da_key D))"
  shows "written_well D file file'"
proof -
  obtain r0 f0 where l: "load_file D k file = (r0, f0)" by fastforce
  have "written_well D f0 (save_file D (config_default (da_key D)) f0)" using assms(2) by (rule save_file_well)
  with load_file_well [OF l] l assms(1) show ?thesis
    by (auto simp: open_config_def Let_def intro: written_well_trans split: sum.splits option.splits if_splits)
qed

lemma with_config_well:
  assumes "with_config D k file = (r, file')" and "good_config (da_ext D) (config_default (da_key D))"
    and "\<And>cfg f. k cfg = Inr f \<Longrightarrow> sound_edit (da_ext D) f"
  shows "written_well D file file' \<and> (\<forall>c. r = Inr c \<longrightarrow> good_config (da_ext D) c)"
proof -
  obtain r0 f0 where o: "open_config D 0 file = (r0, f0)" by fastforce
  note w = open_config_well [OF o assms(2)]
  show ?thesis
  proof (cases "\<exists>cfg f. r0 = Inr cfg \<and> k cfg = Inr f")
    case True
    then obtain cfg f where k: "r0 = Inr cfg" "k cfg = Inr f" by blast
    with o assms(1) have "cli_update D 1 f f0 = (r, file')" by (simp add: with_config_def)
    from cli_update_well [OF this assms(2) assms(3) [OF k(2)]] w show ?thesis by (blast intro: written_well_trans)
  next
    case False
    with o assms(1) have "file' = f0 \<and> (\<exists>e. r = Inl e)" by (auto simp: with_config_def split: sum.splits)
    with w show ?thesis by auto
  qed
qed

text \<open>No name that is given is blank: the options, and the addresses in Codex credentials.\<close>

definition not_blank :: "string option \<Rightarrow> bool" where
  "not_blank n \<longleftrightarrow> (\<forall>s. n = Some s \<longrightarrow> trim s \<noteq> [])"

fun run_named :: "'u daemon \<Rightarrow> cli_run \<Rightarrow> bool" where
  "run_named D (EditRun cmd) = True"
| "run_named D (LoginRun src name pool) =
     (not_blank name \<and> (\<forall>c. src = CodexLogin (Some c) \<longrightarrow> not_blank (cc_email c)))"
| "run_named D (ImportRun a) =
     (not_blank (ia_name a) \<and> (\<forall>path c. read_codex (da_import D) path = Some c \<longrightarrow> not_blank (cc_email c)))"

lemma trim_visible: "\<not> is_ws c \<Longrightarrow> trim (c # s) \<noteq> []"
  by (simp add: trim_def trim_start_def trim_end_def dropWhile_append)

lemma api_key_name_named: "trim (api_key_name key) \<noteq> []"
proof -
  have "\<not> is_ws CHR ''a''" by (simp add: is_ws_def)
  then show ?thesis unfolding api_key_name_def by (simp add: trim_visible)
qed

lemma codex_name_named: "not_blank name \<Longrightarrow> not_blank email \<Longrightarrow> trim (unwrap_or ''codex'' (opt_or name email)) \<noteq> []"
proof -
  assume n: "not_blank name" "not_blank email"
  have "trim ''codex'' \<noteq> []" by code_simp
  with n show ?thesis by (cases name; cases email) (auto simp: not_blank_def opt_or_def)
qed

lemma account_label_named:
  "account_label name (fetch_profile D a) cfg = Inr n \<Longrightarrow> profiles_named D \<Longrightarrow> not_blank name \<Longrightarrow> trim n \<noteq> []"
  by (auto simp: account_label_def profiles_named_def not_blank_def split: option.splits)

lemma login_edit_sound:
  assumes "login_edit D src name pool cfg = Inr f" and "run_named D (LoginRun src name pool)" and "profiles_named D"
  shows "sound_edit E f"
proof (cases src)
  case (ApiSecret line)
  have "trim (unwrap_or (api_key_name (trim line)) name) \<noteq> []"
    using assms(2) api_key_name_named by (cases name) (auto simp: not_blank_def)
  from edit_login_api_sound [OF this] ApiSecret assms(1) show ?thesis
    by (auto simp: login_edit_def Let_def split: if_splits)
next
  case (CodexLogin c)
  with assms codex_name_named show ?thesis
    by (auto simp: login_edit_def split: option.splits intro: edit_codex_sound)
next
  case (OauthLogin t)
  with assms show ?thesis
    by (auto simp: login_edit_def Let_def split: option.splits intro: edit_login_sound dest: account_label_named)
qed

lemma import_edit_sound:
  assumes "(if ia_codex a then import_codex_edit D a else import_oauth_edit D a cfg) = Inr f"
    and "run_named D (ImportRun a)" and "profiles_named D"
  shows "sound_edit E f"
proof (cases "ia_codex a")
  case True
  with assms codex_name_named show ?thesis
    by (auto simp: import_codex_edit_def Let_def split: option.splits intro: edit_codex_sound)
next
  case False
  with assms show ?thesis
    by (auto simp: import_oauth_edit_def Let_def split: option.splits intro: edit_import_sound dest: account_label_named)
qed

subsection \<open>A configuration that validates loads\<close>

lemma trim_solid: "\<forall>ch \<in> set s. \<not> is_ws ch \<Longrightarrow> trim s = s"
proof -
  have "\<forall>ch \<in> set t. \<not> is_ws ch \<Longrightarrow> dropWhile is_ws t = t" for t by (cases t) simp_all
  from this [of s] this [of "rev s"] show "\<forall>ch \<in> set s. \<not> is_ws ch \<Longrightarrow> trim s = s"
    by (simp add: trim_def trim_start_def trim_end_def)
qed

lemma name_char_solid: "pool_name_char ch \<Longrightarrow> \<not> is_ws ch"
  by (auto simp: pool_name_char_def is_ws_def is_lower_def is_digit_def)

lemma pool_name_solid: "validate_pool_name n = Inr () \<Longrightarrow> trim n = n \<and> n \<noteq> []"
  using name_char_solid by (auto simp: validate_pool_name_def list_all_iff intro!: trim_solid split: if_splits)

lemma ensure_pools_good: "good_config E c \<Longrightarrow> ensure_pools c = c"
proof -
  assume g: "good_config E c"
  then obtain p where p: "map_of (cf_pools c) (cf_default_pool c) = Some p" by (auto simp: good_config_iff)
  then have "good_pool E (cf_default_pool c, p)" using g by (auto simp: good_config_iff dest: map_of_SomeD)
  then have "trim (cf_default_pool c) \<noteq> []" using pool_name_solid by (simp add: good_pool_iff)
  with p show ?thesis by (auto simp: ensure_pools_def Let_def)
qed

lemma ids_accounts_good:
  "ids_accounts uuid as st = (as', st') \<Longrightarrow> \<forall>a \<in> set as. good_account E a \<Longrightarrow> \<forall>a \<in> set as'. good_account E a"
proof (induction as arbitrary: st as')
  case (Cons a as)
  obtain n seen ch where st: "st = (n, seen, ch)" by (cases st)
  from Cons show ?case by (fastforce simp: st good_account_iff split: if_splits prod.splits)
qed (auto split: prod.splits)

lemma ids_pools_good:
  "ids_pools uuid ps st = (ps', st') \<Longrightarrow> \<forall>x \<in> set ps. good_pool E x \<Longrightarrow> \<forall>x \<in> set ps'. good_pool E x"
proof (induction ps arbitrary: st ps')
  case (Cons x ps)
  obtain n p where x: "x = (n, p)" by (cases x)
  obtain as st1 where 1: "ids_accounts uuid (pc_accounts p) st = (as, st1)" by (rule prod.exhaust)
  obtain qs where 2: "ids_pools uuid ps st1 = (qs, st')" "ps' = (n, p\<lparr>pc_accounts := as\<rparr>) # qs"
    using Cons.prems(1) 1 by (auto simp: x split: prod.splits)
  have "good_pool E (n, p\<lparr>pc_accounts := as\<rparr>)"
    using Cons.prems(2) ids_accounts_good [OF 1, of E] by (auto simp: x good_pool_iff)
  with Cons.IH [OF 2(1)] Cons.prems(2) show ?case by (simp add: 2(2))
qed simp

lemma ensure_ids_good:
  assumes "good_config E c" and "ensure_account_ids uuid c = (d, ch)"
  shows "good_config E d"
proof -
  obtain ps st where ps: "ids_pools uuid (cf_pools c) (0, [], False) = (ps, st)" "d = c\<lparr>cf_pools := ps\<rparr>"
    using assms(2) by (auto simp: ensure_account_ids_def split: prod.splits)
  have "al_has ps k \<longleftrightarrow> al_has (cf_pools c) k" for k
    using arg_cong [OF ids_pools_keys [OF ps(1)], of set] by (metis map_of_eq_None_iff list.set_map)
  with assms(1) ids_pools_good [OF ps(1)] show ?thesis
    by (auto simp: ps(2) good_config_iff bind_host_def)
qed

text \<open>The text written for a configuration is read back as that configuration, in the present shape.\<close>

definition reads_back :: "'u daemon \<Rightarrow> config \<Rightarrow> bool" where
  "reads_back D c \<longleftrightarrow> (\<exists>doc. json_parse (da_ext D) (da_encode D c) = Some doc \<and> migrate_pools doc = (doc, False)
     \<and> \<not> needs_api_key doc \<and> da_decode D doc = Some c)"

lemma good_config_loads:
  assumes "good_config (da_ext D) c" and "reads_back D c"
  shows "\<exists>w. load_from (da_ext D) (da_decode D) key uuid legacy (file_read.Bytes (da_encode D c))
     = Inr (Some (fst (ensure_account_ids uuid c), w))"
proof -
  obtain d ch where d: "ensure_account_ids uuid c = (d, ch)" by fastforce
  have "config_validate (da_ext D) d = Inr ()" using ensure_ids_good [OF assms(1) d] by (simp add: good_config_def)
  with assms d show ?thesis by (auto simp: reads_back_def load_from_def ensure_pools_good Let_def)
qed



text \<open>Without the condition it is false: a blank \<open>--name\<close> is written, and the next load refuses the file.\<close>

lemma blank_name_breaks_config:
  assumes "trim (ac_name (g new)) = []" and "file_account None P new g c = Inr d"
    and "locate_by c P = None" and "al_has (cf_pools c) (cf_default_pool c)"
  shows "\<not> good_config E d"
proof -
  let ?p = "cf_default_pool c"
  let ?n = "accounts_in c ?p" and ?c2 = "push_account ?p new c"
  from assms(2,3) have d: "d = upd_entry ?p ?n g ?c2"
    by (simp add: file_account_def target_pool_def entry_at_def)
  from assms(4) obtain pc where pc: "config_pool c ?p = Some pc" by (auto simp: config_pool_def)
  let ?q = "pc_accounts_update (\<lambda>as. as[?n := g (as ! ?n)]) (pc_accounts_update (\<lambda>as. as @ [new]) pc)"
  have "config_pool ?c2 ?p = Some (pc_accounts_update (\<lambda>as. as @ [new]) pc)"
    using pc by (simp add: push_account_def Let_def config_pool_def)
  then have "config_pool d ?p = Some ?q" by (simp add: d upd_entry_def)
  then have m: "(?p, ?q) \<in> set (cf_pools d)" by (auto simp: config_pool_def dest: map_of_SomeD)
  have "g new \<in> set (pc_accounts ?q)" using pc by (simp add: accounts_in_def)
  moreover have "\<not> good_account E (g new)" using assms(1) by (simp add: good_account_iff)
  ultimately have "\<not> good_pool E (?p, ?q)" by (auto simp only: good_pool_iff)
  with m show ?thesis by (auto simp: good_config_iff)
qed

end
