(* ===== verification/Cli_Moves.thy ===== *)
theory Cli_Moves
  imports Cli_Props
begin

text \<open>
  What the commands of \<open>src/cli.rs\<close> do to the accounts of a configuration: a setting changes none, a move
  between pools copies and loses none, and only \<open>remove\<close> and \<open>pool rm\<close> take accounts away.
\<close>

abbreviation config_accounts :: "config \<Rightarrow> account_config multiset" where
  "config_accounts c \<equiv> accounts_of (cf_pools c)"

definition conserves :: "config \<Rightarrow> config \<Rightarrow> bool" where
  "conserves c d \<longleftrightarrow> bt_inv (cf_pools d) \<and> config_accounts d = config_accounts c"

lemma conserves_refl: "bt_inv (cf_pools c) \<Longrightarrow> conserves c c"
  by (simp add: conserves_def)

lemma conserves_trans: "conserves c d \<Longrightarrow> conserves d e \<Longrightarrow> conserves c e"
  by (simp add: conserves_def)

lemma conserves_inv: "conserves c d \<Longrightarrow> bt_inv (cf_pools d)"
  by (simp add: conserves_def)

lemma absent_pool_frame: "config_pool c n = None \<Longrightarrow> upd_pool n g c = c"
proof -
  assume "config_pool c n = None"
  then have "map (\<lambda>(k, p). if k = n then (k, g p) else (k, p)) (cf_pools c) = cf_pools c"
    by (intro map_idI) (force simp: config_pool_def map_of_eq_None_iff)
  then show ?thesis by (simp add: upd_pool_def)
qed

lemma upd_pool_accounts:
  assumes "bt_inv (cf_pools c)" and "config_pool c n = Some p"
  shows "config_accounts (upd_pool n g c) + mset (pc_accounts p) = config_accounts c + mset (pc_accounts (g p))"
  using accounts_of_upd [OF assms(1), of n p g] assms(2) by (simp add: upd_pool_def config_pool_def)

lemma upd_pool_conserves:
  assumes "bt_inv (cf_pools c)" and "\<And>p. config_pool c n = Some p \<Longrightarrow> pc_accounts (g p) = pc_accounts p"
  shows "conserves c (upd_pool n g c)"
proof (cases "config_pool c n")
  case None
  with assms(1) show ?thesis by (simp add: absent_pool_frame conserves_refl)
next
  case (Some p)
  from upd_pool_accounts [OF assms(1) Some, of g] assms Some show ?thesis by (simp add: conserves_def)
qed

lemma edit_pool_of_conserves:
  assumes "edit_pool_of pool g c = Inr d" and "bt_inv (cf_pools c)"
    and "\<And>p q. g p = Inr q \<Longrightarrow> pc_accounts q = pc_accounts p"
  shows "conserves c d"
  using assms(1) by (rule edit_pool_of_InrD) (use assms(2,3) in \<open>auto intro: upd_pool_conserves\<close>)

lemma ensure_pool_conserves:
  assumes "ensure_pool n c = Inr d" and "bt_inv (cf_pools c)"
  shows "conserves c d"
proof (cases "al_has (cf_pools c) n")
  case True
  with assms show ?thesis by (simp add: ensure_pool_def conserves_refl)
next
  case False
  then have none: "map_of (cf_pools c) n = None" by simp
  from assms(1) none have d: "d = c\<lparr>cf_pools := bt_insert n pool_default (cf_pools c)\<rparr>" by (auto simp: ensure_pool_def)
  from accounts_of_insert [OF assms(2), of n pool_default] none assms(2) show ?thesis
    by (simp add: d conserves_def bt_inv_insert pool_default_def)
qed

lemma locate_in: "locate c pool w = Inr (p, i) \<Longrightarrow> i < accounts_in c p"
  by (erule locate_at) (simp add: accounts_in_def)

lemma move_account_conserves:
  assumes "move_account name w c = Inr d" and "bt_inv (cf_pools c)"
  shows "conserves c d"
proof -
  from assms(1) obtain p i where l: "locate c None w = Inr (p, i)"
    and d: "d = fst (entry_at name (Some (p, i)) account_config_default c)"
    by (auto simp: move_account_entry)
  obtain j u where e: "entry_at name (Some (p, i)) account_config_default c = (d, j, u)" using d by (metis prod.collapse)
  from entry_at_mset [OF assms(2) e] locate_in [OF l] show ?thesis by (simp add: conserves_def)
qed

lemma move_accounts_conserves: "move_accounts name ws c = Inr d \<Longrightarrow> bt_inv (cf_pools c) \<Longrightarrow> conserves c d"
proof (induction ws arbitrary: c)
  case (Cons w ws)
  then obtain c1 where c1: "move_account name w c = Inr c1" "move_accounts name ws c1 = Inr d" by auto
  from move_account_conserves [OF c1(1) Cons.prems(2)] Cons.IH [OF c1(2)] show ?case
    by (blast intro: conserves_trans conserves_inv)
qed (simp add: conserves_refl)

lemma apply_pool_set_conserves:
  assumes "apply_pool_set E name s c = Inr d" and "bt_inv (cf_pools c)"
  shows "conserves c d"
proof -
  from assms(1) obtain c1 c2 probe spread where m: "move_accounts name (pa_account s) c = Inr c1"
    and e: "edit_pool_of (Some name) (pool_settings E s probe spread) c1 = Inr c2"
    and d: "d = (if pa_make_default s then c2\<lparr>cf_default_pool := name\<rparr> else c2)"
    by (auto simp: apply_pool_set_def)
  note c1 = move_accounts_conserves [OF m assms(2)]
  have "conserves c1 c2"
    using e conserves_inv [OF c1] by (rule edit_pool_of_conserves) (auto simp: pool_settings_def)
  then have "conserves c c2" by (rule conserves_trans [OF c1])
  then show ?thesis by (simp add: d conserves_def)
qed

lemma remove_accounts:
  assumes "bt_inv (cf_pools c)" and "i < accounts_in c p"
  shows "config_accounts c = add_mset (account_at c p i) (config_accounts (upd_pool p (pc_accounts_update (remove_at i)) c))"
proof -
  from assms(2) obtain pc where pc: "config_pool c p = Some pc" "i < length (pc_accounts pc)"
    by (auto simp: accounts_in_def split: option.splits)
  have "mset (pc_accounts pc) = add_mset (account_at c p i) (mset (remove_at i (pc_accounts pc)))"
    using remove_at_mset [OF pc(2)] pc(1) by (simp add: account_at_def)
  with upd_pool_accounts [OF assms(1) pc(1), of "pc_accounts_update (remove_at i)"] show ?thesis by simp
qed

lemma delete_accounts:
  "bt_inv ps \<Longrightarrow> map_of ps n = Some p \<Longrightarrow> accounts_of ps = accounts_of (AList.delete n ps) + mset (pc_accounts p)"
proof (induction ps)
  case (Cons x ps)
  obtain k q where x: "x = (k, q)" by fastforce
  have inv: "bt_inv ps" "k \<notin> fst ` set ps" using Cons.prems(1) x by (auto simp: bt_inv_def)
  show ?case
  proof (cases "k = n")
    case True
    with inv(2) have "AList.delete n ps = ps" by (simp add: delete_idem)
    with True x Cons.prems(2) show ?thesis by (simp add: ac_simps)
  next
    case False
    with x Cons.prems(2) have "map_of ps n = Some p" by simp
    from Cons.IH [OF inv(1) this] False x show ?thesis by (simp add: union_assoc)
  qed
qed simp

text \<open>What a command does to the accounts.\<close>

fun account_change :: "cli_command \<Rightarrow> config \<Rightarrow> config \<Rightarrow> bool" where
  "account_change (CmdRemove name pool) c d \<longleftrightarrow>
     (\<exists>p i. locate c pool name = Inr (p, i) \<and> config_accounts c = add_mset (account_at c p i) (config_accounts d))"
| "account_change (CmdPoolRm name force) c d \<longleftrightarrow>
     (\<exists>p. config_pool c name = Some p \<and> config_accounts c = config_accounts d + mset (pc_accounts p)
        \<and> (force \<or> pc_accounts p = []) \<and> name \<noteq> cf_default_pool c)"
| "account_change (CmdDisable name off pool) c d \<longleftrightarrow>
     (\<exists>p i. locate c pool name = Inr (p, i) \<and> add_mset (account_at c p i) (config_accounts d)
        = add_mset ((account_at c p i)\<lparr>ac_disabled := off\<rparr>) (config_accounts c))"
| "account_change (CmdPriority name v first final pool) c d \<longleftrightarrow>
     (\<exists>p i x. locate c pool name = Inr (p, i) \<and> add_mset (account_at c p i) (config_accounts d)
        = add_mset ((account_at c p i)\<lparr>ac_priority := x\<rparr>) (config_accounts c)
      \<and> (first \<and> (\<forall>y \<in> set (peers c p). - 2147483648 < y \<and> y < 2147483648) \<longrightarrow> (\<forall>y \<in> set (peers c p). x < y))
      \<and> (\<not> first \<and> \<not> final \<longrightarrow> v = Some x))"
| "account_change _ c d \<longleftrightarrow> config_accounts d = config_accounts c"

lemma conserves_change: "conserves c d \<Longrightarrow> bt_inv (cf_pools d) \<and> config_accounts d = config_accounts c"
  by (simp add: conserves_def)

lemma upd_entry_inv: "bt_inv (cf_pools (upd_entry p i g c)) = bt_inv (cf_pools c)"
  by (simp add: upd_entry_def)

lemma edit_entry_accounts:
  assumes "bt_inv (cf_pools c)" and "locate c pool name = Inr (p, i)"
  shows "add_mset (account_at c p i) (config_accounts (upd_entry p i g c)) = add_mset (g (account_at c p i)) (config_accounts c)"
  using upd_entry_mset [OF assms(1) locate_in [OF assms(2)], of g] by simp

lemma i32_of_id: "- 2147483648 \<le> n \<Longrightarrow> n < 2147483648 \<Longrightarrow> i32_of n = n"
  by (simp add: i32_of_def)

lemma below_peers:
  assumes "\<forall>y \<in> set ps. - 2147483648 < y \<and> y < 2147483648" and "y \<in> set ps"
  shows "i32_of (unwrap_or 0 (opt_min ps) - 1) < y"
proof -
  from assms(2) obtain m where m: "opt_min ps = Some m" by (cases ps) (auto simp: opt_min_def)
  from opt_min_SomeD [OF m] assms show ?thesis by (force simp: m i32_of_id)
qed

lemma priority_change:
  assumes "edit_priority name v first final pool c = Inr d" and "bt_inv (cf_pools c)"
  shows "bt_inv (cf_pools d) \<and> account_change (CmdPriority name v first final pool) c d"
proof -
  from assms(1) obtain p i where l: "locate c pool name = Inr (p, i)" by (auto simp: edit_priority_def)
  with assms(1) obtain x where x: "(if first then Inr (i32_of (unwrap_or 0 (opt_min (peers c p)) - 1))
               else if final then Inr (i32_of (unwrap_or 0 (opt_max (peers c p)) + 1))
               else (case v of Some x \<Rightarrow> Inr x | None \<Rightarrow> Inl (Refused ''give a number, --first or --last''))) = Inr x"
    and d: "d = upd_entry p i (edit_account (SetPriority x)) c"
    by (auto simp: edit_priority_def)
  note e = edit_entry_accounts [OF assms(2) l, of "edit_account (SetPriority x)"]
  have "bt_inv (cf_pools d)" using assms(2) by (simp add: d upd_entry_inv)
  moreover have "\<forall>y \<in> set (peers c p). x < y"
    if "first" "\<forall>y \<in> set (peers c p). - 2147483648 < y \<and> y < 2147483648"
    using that x below_peers by auto
  moreover have "\<not> first \<and> \<not> final \<longrightarrow> v = Some x" using x by (cases v) (auto split: if_splits)
  ultimately show ?thesis
    unfolding account_change.simps using l e
    by (intro conjI exI [of _ p] exI [of _ i] exI [of _ x]) (auto simp: d edit_account_def)
qed

fun takes_accounts :: "cli_command \<Rightarrow> bool" where
  "takes_accounts (CmdRemove _ _) = True"
| "takes_accounts (CmdPoolRm _ _) = True"
| "takes_accounts (CmdDisable _ _ _) = True"
| "takes_accounts (CmdPriority _ _ _ _ _) = True"
| "takes_accounts _ = False"

lemma settings_conserve:
  assumes "bt_inv (cf_pools c)" and "command_edit E cmd = Inr f" and "f c = Inr d" and "\<not> takes_accounts cmd"
  shows "conserves c d"
proof (cases cmd)
  case (CmdPoolAdd name s)
  with assms obtain c1 where c1: "ensure_pool name c = Inr c1" "apply_pool_set E name s c1 = Inr d"
    by (auto simp: edit_pool_add_def)
  note e = ensure_pool_conserves [OF c1(1) assms(1)]
  show ?thesis by (rule conserves_trans [OF e apply_pool_set_conserves [OF c1(2) conserves_inv [OF e]]])
next
  case (CmdPoolSet name s)
  with assms have "apply_pool_set E name s c = Inr d" by (auto simp: edit_pool_set_def pool_name_def split: if_splits)
  then show ?thesis using assms(1) by (rule apply_pool_set_conserves)
next
  case (CmdRouteAdd name pats accounts bucket color pool)
  with assms show ?thesis
    by (auto simp: cmd_defs edit_route_add_def drop_route_def intro!: upd_pool_conserves split: if_splits)
next
  case (CmdRouteRm name pool)
  with assms show ?thesis by (auto simp: edit_route_rm_def drop_route_def intro!: upd_pool_conserves split: if_splits)
next
  case (CmdThreshold v pool)
  with assms have "edit_threshold v pool c = Inr d" by simp
  then show ?thesis unfolding edit_threshold_def using assms(1) by (rule edit_pool_of_conserves) auto
next
  case (CmdExpiry v tolerance preempt pool)
  with assms have "edit_expiry v tolerance preempt pool c = Inr d" by simp
  then show ?thesis unfolding edit_expiry_def using assms(1) by (rule edit_pool_of_conserves) auto
qed (use assms in \<open>auto simp: cmd_defs conserves_def dest!: edit_pool_of_conserves [THEN conserves_change]\<close>)

lemma settings_change: "\<not> takes_accounts cmd \<Longrightarrow> conserves c d \<Longrightarrow> bt_inv (cf_pools d) \<and> account_change cmd c d"
  by (cases cmd) (simp_all add: conserves_def)

text \<open>C15: The commands neither copy nor lose an account. Whatever the settings, routes and pools they change, and
  with the accounts that \<open>pool set --account\<close> moves from pool to pool, the accounts of the file are afterwards
  the same ones; \<open>disable\<close> and \<open>priority\<close> change that one field of the one account named: the
  priority to the number given, or with \<open>--first\<close> to one below every other of its pool, as long as no
  priority there is the least or the greatest of 32 bits (next to the least one the program wraps around to
  the greatest, so the account comes last; see the findings). \<open>remove\<close> takes exactly
  the account named, and \<open>pool rm\<close> exactly the accounts of its pool, which is not the default one and is
  empty unless the command is forced. The pools stay an ordered map, which they are as loaded.\<close>

theorem commands_conserve_accounts:
  assumes "bt_inv (cf_pools c)" and "command_edit E cmd = Inr f" and "f c = Inr d"
  shows "bt_inv (cf_pools d) \<and> account_change cmd c d"
proof (cases "takes_accounts cmd")
  case False
  then show ?thesis using settings_conserve [OF assms False] by (rule settings_change)
next
  case True
  then show ?thesis
  proof (cases cmd rule: takes_accounts.cases)
    case (1 name pool)
    with assms obtain p i where l: "locate c pool name = Inr (p, i)"
      and d: "d = upd_pool p (pc_accounts_update (remove_at i)) c"
      by (auto simp: edit_remove_def)
    from remove_accounts [OF assms(1) locate_in [OF l]] l 1 assms(1) show ?thesis by (auto simp: d)
  next
    case (2 name force)
    with assms(2,3) obtain p where p: "config_pool c name = Some p" and n: "name \<noteq> cf_default_pool c"
      and d: "d = c\<lparr>cf_pools := AList.delete name (cf_pools c)\<rparr>" and e: "force \<or> pc_accounts p = []"
      by (auto simp: edit_pool_rm_def pool_name_def config_pool_def accounts_in_def split: if_splits)
    with 2 assms(1) delete_accounts [OF assms(1), of name p] show ?thesis
      by (simp add: bt_inv_delete config_pool_def)
  next
    case (3 name off pool)
    with assms edit_entry_accounts [OF assms(1), of pool name] show ?thesis
      by (auto simp: edit_disabled_def upd_entry_inv edit_account_def)
  next
    case (4 name v first final pool)
    with assms(2,3) have "edit_priority name v first final pool c = Inr d" by auto
    from priority_change [OF this assms(1)] show ?thesis unfolding 4 .
  qed simp_all
qed

theorem commands_conserve_accounts_witness:
  "\<exists>d. edit_pool_add ext0 ''work'' (pool_args_default\<lparr>pa_hold := Some 30\<rparr>) (config_default ''k'') = Inr d
     \<and> bt_inv (cf_pools d) \<and> config_accounts d = config_accounts (config_default ''k'')"
proof -
  let ?s = "pool_args_default\<lparr>pa_hold := Some 30\<rparr>" and ?c = "config_default ''k''"
  let ?c1 = "?c\<lparr>cf_pools := bt_insert ''work'' pool_default (cf_pools ?c)\<rparr>"
  have v: "validate_pool_name ''work'' = Inr ()" by code_simp
  have e: "ensure_pool ''work'' ?c = Inr ?c1"
    by (simp add: ensure_pool_def v config_default_def DEFAULT_POOL_def)
  have p: "config_pool ?c1 ''work'' = Some pool_default" by (simp add: config_pool_def)
  then have n: "pool_name ?c1 (Some ''work'') = Inr ''work''" by (simp add: pool_name_def config_pool_def)
  have "\<exists>q. pool_settings ext0 ?s None None pool_default = Inr q"
    by (simp add: pool_settings_def pool_args_default_def set_match_def)
  then obtain q where "pool_settings ext0 ?s None None pool_default = Inr q" ..
  then have "edit_pool_of (Some ''work'') (pool_settings ext0 ?s None None) ?c1 = Inr (upd_pool ''work'' (\<lambda>_. q) ?c1)"
    by (simp only: edit_pool_of_def n res_bind.simps p option.case)
  then have "\<exists>d. apply_pool_set ext0 ''work'' ?s ?c1 = Inr d"
    by (simp add: apply_pool_set_def opt_arg_def pool_args_default_def)
  then have "\<exists>d. edit_pool_add ext0 ''work'' ?s ?c = Inr d" by (simp add: edit_pool_add_def e as_edit_def)
  then obtain d where d: "edit_pool_add ext0 ''work'' (pool_args_default\<lparr>pa_hold := Some 30\<rparr>) (config_default ''k'') = Inr d" ..
  have inv: "bt_inv (cf_pools ?c)" by (simp add: config_default_def bt_inv_def)
  from commands_conserve_accounts [where cmd = "CmdPoolAdd ''work'' ?s" and E = ext0 and f = "edit_pool_add ext0 ''work'' ?s",
      OF inv _ d] d show ?thesis by simp
qed

end
