(* ===== verification/Launch.thy ===== *)
theory Launch
  imports Cli Pool_Match Warmer
begin

text \<open>
  \<open>src/cli.rs\<close>, the commands that start a client: \<open>corrall env\<close> prints shell lines that point it at the proxy,
  \<open>corrall run\<close> reads the same lines itself. \<open>enc\<close> is \<open>utf8_percent_encode\<close> of everything that is not a letter or
  digit, \<open>ca\<close> the path of the certificate.
\<close>

subsection \<open>The lines\<close>

datatype key_mode = HeaderKey | ApiKeyVar

definition key_mode_of :: "bool \<Rightarrow> key_mode" where
  "key_mode_of api_key = (if api_key then ApiKeyVar else HeaderKey)"

abbreviation quote_char :: char where "quote_char \<equiv> CHR 0x27"

text \<open>A single quote inside is closed, put in double quotes and opened again.\<close>

definition quote_seq :: string where
  "quote_seq = [quote_char, CHR 0x22, quote_char, CHR 0x22, quote_char]"

definition quote_body :: "string \<Rightarrow> string" where
  "quote_body v = concat (map (\<lambda>c. if c = quote_char then quote_seq else [c]) v)"

definition shell_quote :: "string \<Rightarrow> string" where
  "shell_quote v = quote_char # quote_body v @ [quote_char]"

definition export_line :: "string \<Rightarrow> string \<Rightarrow> string" where
  "export_line k v = ''export '' @ k @ ''='' @ v"

definition unset_line :: "string \<Rightarrow> string" where
  "unset_line k = ''unset '' @ k"

definition env_key :: "ext \<Rightarrow> config \<Rightarrow> string" where
  "env_key E cfg =
     (if is_loopback_host (dial_host E cfg) \<and> \<not> px_require_key_on_loopback (cf_proxy cfg) then []
      else px_api_key (cf_proxy cfg))"

definition api_key_env :: "config \<Rightarrow> key_mode \<Rightarrow> string" where
  "api_key_env cfg mode = (if mode = ApiKeyVar then px_api_key (cf_proxy cfg) else [])"

definition named_pool :: "config \<Rightarrow> string option \<Rightarrow> string option" where
  "named_pool cfg pool = opt_filter (\<lambda>p. p \<noteq> cf_default_pool cfg) pool"

definition mitm_user :: "string option \<Rightarrow> string option \<Rightarrow> string" where
  "mitm_user pin named =
     unwrap_or [] pin @ (case named of Some pool \<Rightarrow> CHR 0x7E # pool | None \<Rightarrow> [])"

definition mitm_url :: "ext \<Rightarrow> (string \<Rightarrow> string) \<Rightarrow> config \<Rightarrow> string option \<Rightarrow> string option \<Rightarrow> string" where
  "mitm_url E enc cfg pin named =
     (let user = mitm_user pin named; key = env_key E cfg;
          userinfo = (if user = [] \<and> key = [] then [] else enc user @ '':'' @ enc key @ ''@'')
      in ''http://'' @ userinfo @ dial_authority E cfg)"

definition pin_part :: "(string \<Rightarrow> string) \<Rightarrow> string option \<Rightarrow> string" where
  "pin_part enc pin = (case pin of Some p \<Rightarrow> ''/tc-acct/'' @ enc p | None \<Rightarrow> [])"

definition base_path :: "(string \<Rightarrow> string) \<Rightarrow> string option \<Rightarrow> string option \<Rightarrow> string" where
  "base_path enc pin named = (case named of Some p \<Rightarrow> POOL_PREFIX @ p | None \<Rightarrow> []) @ pin_part enc pin"

definition PROXY_VARS :: "string list" where
  "PROXY_VARS = [''HTTPS_PROXY'', ''HTTP_PROXY'', ''https_proxy'', ''http_proxy'']"

definition api_key_lines :: "string \<Rightarrow> string list" where
  "api_key_lines k =
     (if k = [] then [] else [unset_line ''ANTHROPIC_AUTH_TOKEN'', export_line ''ANTHROPIC_API_KEY'' (shell_quote k)])"

definition mitm_lines ::
  "ext \<Rightarrow> (string \<Rightarrow> string) \<Rightarrow> string \<Rightarrow> config \<Rightarrow> string option \<Rightarrow> string option \<Rightarrow> key_mode \<Rightarrow> string list" where
  "mitm_lines E enc ca cfg pin named mode =
     map (\<lambda>v. export_line v (shell_quote (mitm_url E enc cfg pin named))) PROXY_VARS
     @ [export_line ''NO_PROXY'' ''localhost,127.0.0.1,::1'', export_line ''no_proxy'' ''localhost,127.0.0.1,::1'',
        export_line ''NODE_EXTRA_CA_CERTS'' (shell_quote ca), unset_line ''ANTHROPIC_BASE_URL'']
     @ api_key_lines (api_key_env cfg mode)"

definition header_lines :: "string \<Rightarrow> string list" where
  "header_lines key =
     (if key = [] then []
      else [unset_line ''ANTHROPIC_AUTH_TOKEN'',
            export_line ''ANTHROPIC_CUSTOM_HEADERS'' (shell_quote (PROXY_KEY_HEADER @ '': '' @ key))])"

definition base_lines ::
  "ext \<Rightarrow> (string \<Rightarrow> string) \<Rightarrow> config \<Rightarrow> string option \<Rightarrow> string option \<Rightarrow> key_mode \<Rightarrow> string list" where
  "base_lines E enc cfg pin named mode =
     [export_line ''ANTHROPIC_BASE_URL'' (''http://'' @ dial_authority E cfg @ base_path enc pin named),
      export_line ''ENABLE_TOOL_SEARCH'' ''auto'', export_line ''_CLAUDE_CODE_ASSUME_FIRST_PARTY_BASE_URL'' ''1'']
     @ (if api_key_env cfg mode \<noteq> [] then api_key_lines (api_key_env cfg mode) else header_lines (env_key E cfg))"

text \<open>A hold of the pool raises the time-out; \<open>u64\<close> arithmetic wraps in a release build.\<close>

definition hold_lines :: "config \<Rightarrow> string option \<Rightarrow> string list" where
  "hold_lines cfg pool =
     (let hold = (case pool_name cfg pool of
                    Inr n \<Rightarrow> (case config_pool cfg n of Some p \<Rightarrow> pc_hold_seconds p | None \<Rightarrow> 0)
                  | Inl _ \<Rightarrow> 0)
      in if hold = 0 then [] else [export_line ''API_TIMEOUT_MS'' (show_nat ((hold * 1000 + 60000) mod 2 ^ 64))])"

definition env_lines_with ::
  "ext \<Rightarrow> (string \<Rightarrow> string) \<Rightarrow> string \<Rightarrow> config \<Rightarrow> bool \<Rightarrow> string option \<Rightarrow> string option \<Rightarrow> key_mode \<Rightarrow> string list" where
  "env_lines_with E enc ca cfg use_mitm pin pool mode =
     (let named = named_pool cfg pool
      in (if use_mitm then mitm_lines E enc ca cfg pin named mode else base_lines E enc cfg pin named mode)
         @ (if pin \<noteq> None then [unset_line ''TC_ACCT''] else [])
         @ (if named \<noteq> None then [unset_line ''TC_POOL''] else [])
         @ hold_lines cfg pool)"

definition env_lines ::
  "ext \<Rightarrow> (string \<Rightarrow> string) \<Rightarrow> string \<Rightarrow> config \<Rightarrow> bool \<Rightarrow> string option \<Rightarrow> string option \<Rightarrow> string list" where
  "env_lines E enc ca cfg use_mitm pin pool = env_lines_with E enc ca cfg use_mitm pin pool HeaderKey"

subsection \<open>The pin and the pool\<close>

definition launch_pool :: "ext \<Rightarrow> launch_env \<Rightarrow> config \<Rightarrow> string option \<Rightarrow> edit_error + string option" where
  "launch_pool E env cfg flag =
     (case opt_or flag (opt_filter (\<lambda>s. trim s \<noteq> []) (getenv E ''TC_POOL'')) of
        Some p \<Rightarrow> res_bind (pool_name cfg (Some p)) (\<lambda>n. Inr (Some n))
      | None \<Rightarrow> (let ch = pool_resolve E cfg env in Inr (if ch_matched ch then Some (ch_pool ch) else None)))"

definition launch_target ::
  "ext \<Rightarrow> launch_env \<Rightarrow> config \<Rightarrow> string option \<Rightarrow> edit_error + (string option \<times> string option)" where
  "launch_target E env cfg flag =
     res_bind (launch_pool E env cfg flag) (\<lambda>pool.
       case opt_filter (\<lambda>s. trim s \<noteq> []) (getenv E ''TC_ACCT'') of
         None \<Rightarrow> Inr (None, pool)
       | Some p \<Rightarrow>
           res_bind (as_edit (find_account_idx_in cfg (unwrap_or (cf_default_pool cfg) pool) p)) (\<lambda>i.
             if i = None then Inl (NoAccountMatches p) else Inr (Some p, pool)))"

record launch_args =
  la_no_mitm :: bool
  la_api_key :: bool
  la_pool :: "string option"

definition launch_lines ::
  "ext \<Rightarrow> (string \<Rightarrow> string) \<Rightarrow> string \<Rightarrow> bool \<Rightarrow> launch_env \<Rightarrow> config option \<Rightarrow> launch_args \<Rightarrow> edit_error + string list" where
  "launch_lines E enc ca certs env cfg args =
     (case cfg of
        None \<Rightarrow> Inl ConfigGone
      | Some cfg \<Rightarrow>
          res_bind (launch_target E env cfg (la_pool args)) (\<lambda>(pin, pool).
            if \<not> la_no_mitm args \<and> \<not> certs then Inl (Refused ''no certificates'')
            else Inr (env_lines_with E enc ca cfg (\<not> la_no_mitm args) pin pool (key_mode_of (la_api_key args)))))"

subsection \<open>Running the client\<close>

datatype env_op = SetVar string string | DropVar string

fun apply_op :: "env_op \<Rightarrow> (string \<rightharpoonup> string) \<Rightarrow> (string \<rightharpoonup> string)" where
  "apply_op (SetVar k v) m = m(k \<mapsto> v)"
| "apply_op (DropVar k) m = m(k := None)"

text \<open>\<open>str::replace\<close>, on a pattern that is not empty.\<close>

function replace_str :: "string \<Rightarrow> string \<Rightarrow> string \<Rightarrow> string" where
  "replace_str pat rep s =
     (if s = [] \<or> pat = [] then s
      else if starts_with pat s then rep @ replace_str pat rep (drop (length pat) s)
      else hd s # replace_str pat rep (tl s))"
  by auto

termination replace_str
  by (relation "measure (\<lambda>(_, _, s). length s)") auto

declare replace_str.simps [simp del]

definition trim_matches :: "char \<Rightarrow> string \<Rightarrow> string" where
  "trim_matches c s = trim_end_matches c (trim_start_matches c s)"

definition run_value :: "string \<Rightarrow> string" where
  "run_value v = replace_str quote_seq [quote_char] (trim_matches quote_char v)"

definition run_line :: "string \<Rightarrow> env_op option" where
  "run_line line =
     (case strip_prefix ''export '' line of
        Some rest \<Rightarrow> map_option (\<lambda>(k, v). SetVar k (run_value v)) (split_once CHR ''='' rest)
      | None \<Rightarrow> map_option DropVar (strip_prefix ''unset '' line))"

text \<open>What \<open>run\<close> does to the environment of the client, \<open>up\<close> when the proxy answered.\<close>

definition run_ops ::
  "ext \<Rightarrow> (string \<Rightarrow> string) \<Rightarrow> string \<Rightarrow> bool \<Rightarrow> launch_env \<Rightarrow> config option \<Rightarrow> bool \<Rightarrow> bool \<Rightarrow> launch_args
   \<Rightarrow> edit_error + env_op list" where
  "run_ops E enc ca certs env cfg up auto_fallback args =
     (case cfg of
        None \<Rightarrow> Inl ConfigGone
      | Some _ \<Rightarrow>
          let drops = [DropVar ''TC_ACCT'', DropVar ''TC_POOL'']
          in if \<not> up then (if auto_fallback then Inr drops else Inl (Refused ''proxy is not running''))
             else res_bind (launch_lines E enc ca certs env cfg args) (\<lambda>lines.
                    Inr (drops @ List.map_filter run_line lines)))"

end
