(* ===== verification/Launch_Props.thy ===== *)
theory Launch_Props
  imports Launch
begin

text \<open>
  What the lines of \<open>corrall env\<close> mean to a shell, that \<open>corrall run\<close> means the same by them, where the
  requests of the client arrive and that they are let in.
\<close>

subsection \<open>The shell\<close>

text \<open>How a POSIX shell reads the word after \<open>export K=\<close>: single quotes keep everything, double quotes keep what
  is not special in them, and outside of quotes only characters that mean nothing to it are read.\<close>

datatype sh_mode = Bare | InSingle | InDouble

definition sh_plain :: "char \<Rightarrow> bool" where
  "sh_plain c \<longleftrightarrow> is_alnum c \<or> c \<in> set ''%+,-./:=@_[]''"

fun sh_word :: "sh_mode \<Rightarrow> string \<Rightarrow> string option" where
  "sh_word Bare [] = Some []"
| "sh_word _ [] = None"
| "sh_word Bare (c # s) =
     (if c = quote_char then sh_word InSingle s
      else if c = CHR 0x22 then sh_word InDouble s
      else if sh_plain c then map_option ((#) c) (sh_word Bare s) else None)"
| "sh_word InSingle (c # s) =
     (if c = quote_char then sh_word Bare s else map_option ((#) c) (sh_word InSingle s))"
| "sh_word InDouble (c # s) =
     (if c = CHR 0x22 then sh_word Bare s
      else if c \<in> {CHR ''$'', CHR 0x60, CHR 0x5C} then None
      else map_option ((#) c) (sh_word InDouble s))"

definition sh_line :: "string \<Rightarrow> env_op option" where
  "sh_line line =
     (case strip_prefix ''export '' line of
        Some rest \<Rightarrow>
          (case split_once CHR ''='' rest of
             Some (k, v) \<Rightarrow> map_option (SetVar k) (sh_word Bare v) | None \<Rightarrow> None)
      | None \<Rightarrow> map_option DropVar (strip_prefix ''unset '' line))"

lemma quote_body_simps [simp]:
  "quote_body [] = []"
  "quote_body (c # v) = (if c = quote_char then quote_seq else [c]) @ quote_body v"
  by (simp_all add: quote_body_def)

lemma sh_word_quoted: "sh_word InSingle (quote_body v @ quote_char # s) = map_option ((@) v) (sh_word Bare s)"
proof (induction v)
  case Nil
  then show ?case by (cases "sh_word Bare s") simp_all
next
  case (Cons c v)
  then show ?case by (cases "sh_word Bare s") (simp_all add: quote_seq_def)
qed

lemma sh_word_shell_quote: "sh_word Bare (shell_quote v) = Some v"
  by (simp add: shell_quote_def sh_word_quoted)

lemma sh_plain_facts: "sh_plain c \<Longrightarrow> c \<noteq> quote_char \<and> c \<noteq> CHR 0x22"
  by (auto simp: sh_plain_def is_alnum_def is_upper_def is_lower_def is_digit_def)

lemma sh_word_plain: "list_all sh_plain v \<Longrightarrow> sh_word Bare v = Some v"
  by (induction v) (auto dest: sh_plain_facts)

subsection \<open>What \<open>run\<close> makes of a value\<close>

lemma replace_str_Nil [simp]: "replace_str p r [] = []"
  by (simp add: replace_str.simps)

lemma replace_hit: "p \<noteq> [] \<Longrightarrow> replace_str p r (p @ s) = r @ replace_str p r s"
  by (subst replace_str.simps) simp

lemma replace_miss: "p \<noteq> [] \<Longrightarrow> \<not> starts_with p (c # s) \<Longrightarrow> replace_str p r (c # s) = c # replace_str p r s"
  by (subst replace_str.simps) simp

lemma quote_seq_facts: "quote_seq \<noteq> []" "c \<noteq> quote_char \<Longrightarrow> \<not> starts_with quote_seq (c # s)"
  by (simp_all add: quote_seq_def)

lemma replace_quoted: "replace_str quote_seq [quote_char] (quote_body v) = v"
proof (induction v)
  case (Cons c v)
  then show ?case by (simp add: replace_hit replace_miss quote_seq_facts)
qed simp

lemma replace_absent: "quote_char \<notin> set v \<Longrightarrow> replace_str quote_seq [quote_char] v = v"
  by (induction v) (auto simp: replace_miss quote_seq_facts)

lemma trim_matches_id: "v = [] \<or> hd v \<noteq> c \<and> last v \<noteq> c \<Longrightarrow> trim_matches c v = v"
proof -
  assume a: "v = [] \<or> hd v \<noteq> c \<and> last v \<noteq> c"
  have "dropWhile (\<lambda>x. x = c) v = v" using a by (cases v) auto
  moreover have "dropWhile (\<lambda>x. x = c) (rev v) = rev v" using a by (cases v rule: rev_cases) auto
  ultimately show ?thesis by (simp add: trim_matches_def trim_start_matches_def trim_end_matches_def)
qed

lemma trim_matches_between:
  "v = [] \<or> hd v \<noteq> c \<and> last v \<noteq> c \<Longrightarrow> trim_matches c (c # v @ [c]) = v"
proof -
  assume a: "v = [] \<or> hd v \<noteq> c \<and> last v \<noteq> c"
  show ?thesis
  proof (cases "v = []")
    case False
    with a have "dropWhile (\<lambda>x. x = c) (v @ [c]) = v @ [c]" by (cases v) auto
    moreover have "dropWhile (\<lambda>x. x = c) (rev v) = rev v" using a by (cases v rule: rev_cases) auto
    ultimately show ?thesis by (simp add: trim_matches_def trim_start_matches_def trim_end_matches_def)
  qed (simp add: trim_matches_def trim_start_matches_def trim_end_matches_def)
qed

text \<open>A value that begins or ends with a single quote, which \<open>trim_matches\<close> takes for its own.\<close>

definition quote_ends :: "string \<Rightarrow> bool" where
  "quote_ends v \<longleftrightarrow> v \<noteq> [] \<and> (hd v = quote_char \<or> last v = quote_char)"

lemma quote_body_append [simp]: "quote_body (v @ w) = quote_body v @ quote_body w"
  by (simp add: quote_body_def)

lemma quote_body_ends: "\<not> quote_ends v \<Longrightarrow> quote_body v = [] \<or> hd (quote_body v) \<noteq> quote_char \<and> last (quote_body v) \<noteq> quote_char"
proof (cases v)
  case (Cons c w)
  assume a: "\<not> quote_ends v"
  from Cons have "v = butlast v @ [last v]" by simp
  then have "quote_body v = quote_body (butlast v) @ quote_body [last v]" by (metis quote_body_append)
  with a Cons show ?thesis by (auto simp: quote_ends_def)
qed simp

lemma run_value_quoted: "\<not> quote_ends v \<Longrightarrow> run_value (shell_quote v) = v"
  using trim_matches_between [OF quote_body_ends] by (simp add: run_value_def shell_quote_def replace_quoted)

lemma run_value_plain: "list_all sh_plain v \<Longrightarrow> run_value v = v"
proof -
  assume "list_all sh_plain v"
  then have q: "quote_char \<notin> set v" by (auto simp: list_all_iff dest: sh_plain_facts)
  then have "v = [] \<or> hd v \<noteq> quote_char \<and> last v \<noteq> quote_char" by (metis hd_in_set last_in_set)
  from trim_matches_id [OF this] replace_absent [OF q] show ?thesis by (simp add: run_value_def)
qed

text \<open>Lines that both read, and alike.\<close>

definition read_alike :: "string \<Rightarrow> bool" where
  "read_alike l \<longleftrightarrow> (\<exists>op. run_line l = Some op \<and> sh_line l = Some op)"

lemma export_not_unset: "strip_prefix ''export '' (unset_line k) = None"
  by (simp add: unset_line_def strip_prefix_def starts_with_Cons)

lemma strip_unset: "strip_prefix ''unset '' (unset_line k) = Some k"
  unfolding unset_line_def by (rule strip_prefix_append)

lemma strip_export: "strip_prefix ''export '' (export_line k v) = Some (k @ CHR ''='' # v)"
proof -
  have "export_line k v = ''export '' @ k @ CHR ''='' # v" by (simp add: export_line_def)
  then show ?thesis by (simp only: strip_prefix_append)
qed

lemma read_unset: "read_alike (unset_line k)"
  by (simp add: read_alike_def run_line_def sh_line_def export_not_unset strip_unset)

lemma read_export:
  assumes "CHR ''='' \<notin> set k" and "run_value v = w" and "sh_word Bare v = Some w"
  shows "read_alike (export_line k v)"
  using assms by (simp add: read_alike_def run_line_def sh_line_def strip_export split_once_append)

lemma read_quoted: "CHR ''='' \<notin> set k \<Longrightarrow> \<not> quote_ends v \<Longrightarrow> read_alike (export_line k (shell_quote v))"
  by (rule read_export [where w = v]) (simp_all add: run_value_quoted sh_word_shell_quote)

lemma read_plain: "CHR ''='' \<notin> set k \<Longrightarrow> list_all sh_plain v \<Longrightarrow> read_alike (export_line k v)"
  by (rule read_export [where w = v]) (simp_all add: run_value_plain sh_word_plain)


subsection \<open>What the names are made of\<close>

lemma plain_no_quote_ends: "list_all sh_plain v \<Longrightarrow> \<not> quote_ends v"
  unfolding quote_ends_def by (metis hd_in_set last_in_set list_all_iff sh_plain_facts)

lemma sh_plain_digits: "list_all sh_plain (show_nat n)"
  using show_nat_digits [of n] by (auto simp: list_all_iff sh_plain_def is_alnum_def)

lemma valid_pool_chars:
  assumes "validate_pool_name n = Inr ()"
  shows "n \<noteq> []" "list_all sh_plain n" "\<forall>c \<in> set n. \<not> name_end c"
proof -
  have n: "n \<noteq> []" "list_all pool_name_char n" using assms by (auto simp: validate_pool_name_def split: if_splits)
  then show "n \<noteq> []" by simp
  show "list_all sh_plain n"
    using n(2) by (auto simp: list_all_iff pool_name_char_def sh_plain_def is_alnum_def)
  have "\<not> name_end c" if "pool_name_char c" for c
    using that by (auto simp: pool_name_char_def name_end_def is_lower_def is_digit_def)
  with n(2) show "\<forall>c \<in> set n. \<not> name_end c" by (auto simp: list_all_iff)
qed

lemma validated_pools:
  "config_validate E cfg = Inr () \<Longrightarrow> al_has (cf_pools cfg) n \<Longrightarrow> validate_pool_name n = Inr ()"
proof -
  assume "config_validate E cfg = Inr ()" and "al_has (cf_pools cfg) n"
  then obtain p where "good_pool E (n, p)"
    by (auto simp: good_config_def [symmetric] good_config_iff dest!: map_of_SomeD)
  then show ?thesis by (simp add: good_pool_iff)
qed

lemma resolve_among_configured:
  "ch_matched (resolve_among E d env ps) \<Longrightarrow> al_has ps (ch_pool (resolve_among E d env ps))"
  by (induction E d env ps rule: resolve_among.induct) (auto split: option.splits if_splits)

lemma launch_pool_configured:
  "launch_pool E env cfg flag = Inr (Some p) \<Longrightarrow> al_has (cf_pools cfg) p"
  using resolve_among_configured [of E "cf_default_pool cfg" env "cf_pools cfg"]
  by (auto simp: launch_pool_def pool_name_def pool_resolve_def Let_def split: option.splits if_splits)

lemma launch_targetD:
  assumes "launch_target E env cfg flag = Inr (pin, pool)"
  shows "launch_pool E env cfg flag = Inr pool"
    and "pin = Some p \<Longrightarrow> \<exists>i. find_account_idx_in cfg (unwrap_or (cf_default_pool cfg) pool) p = Inr (Some i)"
  using assms by (auto simp: launch_target_def split: option.splits if_splits)

subsection \<open>\<open>run\<close> does what \<open>eval\<close> does\<close>

lemma no_eq_names:
  "\<forall>k \<in> set (PROXY_VARS @ [''NO_PROXY'', ''no_proxy'', ''NODE_EXTRA_CA_CERTS'', ''ANTHROPIC_API_KEY'',
     ''ANTHROPIC_CUSTOM_HEADERS'', ''ANTHROPIC_BASE_URL'', ''ENABLE_TOOL_SEARCH'', ''_CLAUDE_CODE_ASSUME_FIRST_PARTY_BASE_URL'',
     ''API_TIMEOUT_MS'']). CHR ''='' \<notin> set k"
  by (simp add: PROXY_VARS_def)

lemma plain_words:
  "list_all sh_plain ''localhost,127.0.0.1,::1''" "list_all sh_plain ''auto''" "list_all sh_plain ''1''"
  "list_all sh_plain ''http://''" "list_all sh_plain ''/tc-acct/''" "list_all sh_plain '':''" "list_all sh_plain ''@''"
  "list_all sh_plain POOL_PREFIX"
  by code_simp+

lemma api_key_lines_alike: "\<not> quote_ends k \<Longrightarrow> \<forall>l \<in> set (api_key_lines k). read_alike l"
  using no_eq_names by (auto simp: api_key_lines_def intro: read_unset read_quoted)

lemma header_lines_alike: "\<not> quote_ends k \<Longrightarrow> \<forall>l \<in> set (header_lines k). read_alike l"
proof -
  assume k: "\<not> quote_ends k"
  have "\<not> quote_ends (PROXY_KEY_HEADER @ '': '' @ k)" if "k \<noteq> []"
    using k that by (auto simp: quote_ends_def PROXY_KEY_HEADER_def)
  then show ?thesis using no_eq_names by (auto simp: header_lines_def intro: read_unset read_quoted)
qed

lemma mitm_url_plain:
  assumes "\<And>s. list_all sh_plain (enc s)" and "list_all sh_plain (dial_authority E cfg)"
  shows "list_all sh_plain (mitm_url E enc cfg pin named)"
  using assms plain_words by (simp add: mitm_url_def Let_def)

lemma base_url_plain:
  assumes "\<And>s. list_all sh_plain (enc s)" and "list_all sh_plain (dial_authority E cfg)"
    and "\<And>p. named = Some p \<Longrightarrow> list_all sh_plain p"
  shows "list_all sh_plain (''http://'' @ dial_authority E cfg @ base_path enc pin named)"
proof -
  have "list_all sh_plain (base_path enc pin named)"
    unfolding base_path_def pin_part_def list_all_append using assms(1,3) plain_words(5,8) by (auto split: option.split)
  with assms(2) plain_words(4) show ?thesis by (simp only: list_all_append)
qed

lemma env_lines_alike:
  assumes enc: "\<And>s. list_all sh_plain (enc s)" and auth: "list_all sh_plain (dial_authority E cfg)"
    and pool: "\<And>p. pool = Some p \<Longrightarrow> list_all sh_plain p"
    and key: "\<not> quote_ends (px_api_key (cf_proxy cfg))" and ca: "\<not> quote_ends ca"
    and l: "l \<in> set (env_lines_with E enc ca cfg use_mitm pin pool mode)"
  shows "read_alike l"
proof -
  let ?named = "named_pool cfg pool"
  have keys: "\<not> quote_ends (env_key E cfg)" "\<not> quote_ends (api_key_env cfg mode)"
    using key by (auto simp: env_key_def api_key_env_def quote_ends_def)
  have named: "list_all sh_plain p" if "?named = Some p" for p
    using that pool by (cases pool) (auto simp: named_pool_def opt_filter_def split: if_splits)
  have "\<forall>l \<in> set (mitm_lines E enc ca cfg pin ?named mode). read_alike l"
    using plain_no_quote_ends [OF mitm_url_plain [OF enc auth]] ca api_key_lines_alike [OF keys(2)] no_eq_names plain_words(1)
    by (auto simp: mitm_lines_def intro: read_unset read_quoted read_plain)
  moreover have "\<forall>l \<in> set (base_lines E enc cfg pin ?named mode). read_alike l"
    using base_url_plain [OF enc auth named] api_key_lines_alike [OF keys(2)] header_lines_alike [OF keys(1)]
      no_eq_names plain_words(2,3)
    by (auto simp del: append_Cons simp: base_lines_def intro: read_plain)
  moreover have "\<forall>l \<in> set (hold_lines cfg pool). read_alike l"
    using no_eq_names sh_plain_digits by (auto simp: hold_lines_def Let_def intro: read_plain)
  ultimately show ?thesis
    using l by (auto simp: env_lines_with_def Let_def intro: read_unset split: if_splits)
qed

text \<open>C34: \<open>corrall run\<close> gives the client the environment that evaluating the output of \<open>corrall env\<close> in a shell
  gives it: every line is one a shell reads, and \<open>run\<close> takes from it the same variable with the same value, for
  every configuration that validates, every pin and pool the launch context chooses and both ways of handing
  over the key. The key and the certificate's path must not begin or end with a single quote, which
  \<open>run\<close> would strip; what is percent-encoded and the address of the proxy are plain.\<close>

theorem run_does_what_eval_does:
  assumes "config_validate E cfg = Inr ()"
    and "\<And>s. list_all sh_plain (enc s)" and "list_all sh_plain (dial_authority E cfg)"
    and "\<not> quote_ends (px_api_key (cf_proxy cfg))" and "\<not> quote_ends ca"
    and "launch_lines E enc ca certs env (Some cfg) args = Inr lines"
  shows "(\<forall>l \<in> set lines. sh_line l \<noteq> None)
    \<and> run_ops E enc ca certs env (Some cfg) True fallback args
        = Inr ([DropVar ''TC_ACCT'', DropVar ''TC_POOL''] @ map (\<lambda>l. the (sh_line l)) lines)"
proof -
  from assms(6) obtain pin pool where t: "launch_target E env cfg (la_pool args) = Inr (pin, pool)"
    and lines: "lines = env_lines_with E enc ca cfg (\<not> la_no_mitm args) pin pool (key_mode_of (la_api_key args))"
    by (auto simp: launch_lines_def split: if_splits)
  have pool: "list_all sh_plain p" if "pool = Some p" for p
  proof -
    from launch_targetD(1) [OF t] that have "al_has (cf_pools cfg) p" by (simp add: launch_pool_configured)
    with assms(1) show ?thesis by (intro valid_pool_chars(2) validated_pools)
  qed
  have alike: "\<forall>l \<in> set lines. read_alike l"
    unfolding lines by (intro ballI) (rule env_lines_alike [OF assms(2,3) pool assms(4,5)])
  then have "List.map_filter run_line lines = map (\<lambda>l. the (sh_line l)) lines"
    by (induction lines) (auto simp: read_alike_def List.map_filter_simps)
  with alike assms(6) show ?thesis by (auto simp: run_ops_def read_alike_def)
qed


subsection \<open>Where the requests arrive\<close>

text \<open>A path of the API: it starts with a slash and with neither keyword.\<close>

definition api_path :: "ext \<Rightarrow> string \<Rightarrow> bool" where
  "api_path E s \<longleftrightarrow> (\<exists>u. s = CHR ''/'' # u) \<and> parse_pool_path s = None \<and> split_pin E s = None"

lemma api_path_v1: "api_path E (''/v1/'' @ t)"
proof -
  have "strip_prefix POOL_PREFIX (''/v1/'' @ t) = None" "strip_prefix PIN_PREFIX (''/v1/'' @ t) = None"
    by (simp_all add: POOL_PREFIX_def PIN_PREFIX_def strip_prefix_def starts_with_Cons)
  then show ?thesis by (simp add: api_path_def parse_pool_path_def split_pin_def)
qed

lemma pin_part_read:
  assumes "api_path E s" and "\<And>s. percent_decode E (enc s) = s \<and> CHR ''/'' \<notin> set (enc s)"
  shows "split_pin E (pin_part enc pin @ s) = map_option (\<lambda>p. (p, s)) pin"
    and "parse_pool_path (pin_part enc pin @ s) = None"
    and "\<exists>u. pin_part enc pin @ s = CHR ''/'' # u"
proof -
  from assms(1) obtain u where u: "s = CHR ''/'' # u" by (auto simp: api_path_def)
  have pinned: "split_pin E (''/tc-acct/'' @ enc p @ s) = Some (p, s)" for p
  proof -
    from assms(2) have "CHR ''/'' \<notin> set (enc p)" "percent_decode E (enc p) = p" by blast+
    with split_pin_named [of "enc p" E u] show ?thesis unfolding u by metis
  qed
  show "split_pin E (pin_part enc pin @ s) = map_option (\<lambda>p. (p, s)) pin"
  proof (cases pin)
    case None
    with assms(1) show ?thesis by (simp add: pin_part_def api_path_def)
  next
    case (Some p)
    then show ?thesis by (simp only: pin_part_def option.case append_assoc pinned option.map)
  qed
  show "parse_pool_path (pin_part enc pin @ s) = None"
  proof (cases pin)
    case None
    with assms(1) show ?thesis by (simp add: pin_part_def api_path_def)
  next
    case (Some p)
    then show ?thesis by (simp only: pin_part_def option.case append_assoc not_pool_path)
  qed
  show "\<exists>u. pin_part enc pin @ s = CHR ''/'' # u"
    using u by (cases pin) (simp_all add: pin_part_def)
qed

lemma launch_address:
  assumes "hr_target r = Some (base_path enc pin named @ s)" and s: "api_path E s"
    and "\<And>p. named = Some p \<Longrightarrow> p \<noteq> [] \<and> (\<forall>c \<in> set p. \<not> name_end c)"
    and enc: "\<And>s. percent_decode E (enc s) = s \<and> CHR ''/'' \<notin> set (enc s)"
  shows "ad_pool (address_of E r None) = named \<and> ad_pin (address_of E r None) = pin \<and> ad_query (address_of E r None) = s"
proof -
  note pin = pin_part_read [OF s enc, of pin]
  show ?thesis
  proof (cases named)
    case None
    with assms(1) have "hr_target r = Some (pin_part enc pin @ s)" by (simp add: base_path_def)
    with None pin(1,2) show ?thesis by (cases pin) (simp_all add: address_of_def opt_or_def Let_def pin_part_def)
  next
    case (Some p)
    with assms(1) have t: "hr_target r = Some (POOL_PREFIX @ p @ pin_part enc pin @ s)" by (simp add: base_path_def)
    from pin(3) obtain u where u: "pin_part enc pin @ s = CHR ''/'' # u" ..
    from assms(3) [OF Some] have "parse_pool_path (POOL_PREFIX @ p @ pin_part enc pin @ s) = Some (p, pin_part enc pin @ s)"
      unfolding u by (intro pool_path_named) simp_all
    with Some t pin(1) show ?thesis by (cases pin) (simp_all add: address_of_def opt_or_def Let_def pin_part_def)
  qed
qed

lemma mitm_user_read:
  assumes "\<And>p. pin = Some p \<Longrightarrow> p \<noteq> [] \<and> trim p = p \<and> CHR 0x7E \<notin> set p"
    and "\<And>p. named = Some p \<Longrightarrow> p \<noteq> [] \<and> trim p = p"
  shows "split_pin_pool (mitm_user pin named) = (pin, named)"
proof (cases named)
  case None
  with assms(1) show ?thesis
    by (cases pin) (auto simp: mitm_user_def split_pin_pool_def clean_part_def opt_filter_def split_once_None [THEN iffD2])
next
  case (Some n)
  with assms show ?thesis
    by (cases pin) (auto simp: mitm_user_def split_pin_pool_def clean_part_def opt_filter_def split_once_append)
qed

text \<open>A handle with the separator in it is cut: the rest of the pin is read as the pool.\<close>

lemma tilde_pin_misread: "split_pin_pool (mitm_user (Some ''a~b'') None) = (Some ''a'', Some ''b'')"
  by code_simp

text \<open>C32: A launched client is served from where it was launched for. When \<open>corrall env\<close> or \<open>run\<close> settles on a pin and a
  pool, the pin is a handle of exactly one account of that pool; and a request that a client with the base
  address of the lines sends to the API is read by the server as one for that pool's fleet and that pin, with
  the path the client asked for. What this needs of the server is that its registry was synced with the
  configuration the lines were made from, and of the encoder that the decoder undoes it and that it leaves
  no slash.\<close>

theorem launched_requests_come_home:
  assumes "config_validate E cfg = Inr ()" and "launch_target E env cfg flag = Inr (pin, pool)"
    and "\<And>s. percent_decode E (enc s) = s \<and> CHR ''/'' \<notin> set (enc s)"
    and "rg_default rg = cf_default_pool cfg" and "\<And>n. al_has (cf_pools cfg) n \<Longrightarrow> map_of (rg_map rg) n \<noteq> None"
    and "hr_target r = Some (base_path enc pin (named_pool cfg pool) @ ''/v1/'' @ t)"
  shows "export_line ''ANTHROPIC_BASE_URL'' (''http://'' @ dial_authority E cfg @ base_path enc pin (named_pool cfg pool))
      \<in> set (env_lines_with E enc ca cfg False pin pool mode)
    \<and> (\<exists>f. fst (resolve_request (ad_pool (address_of E r None)) now rg) = Some (unwrap_or (cf_default_pool cfg) pool, f)
         \<and> map_of (rg_map rg) (unwrap_or (cf_default_pool cfg) pool) = Some f)
    \<and> ad_pin (address_of E r None) = pin \<and> ad_query (address_of E r None) = ''/v1/'' @ t
    \<and> (\<forall>p. pin = Some p \<longrightarrow> (\<exists>i. find_account_idx_in cfg (unwrap_or (cf_default_pool cfg) pool) p = Inr (Some i)))"
proof -
  let ?n = "unwrap_or (cf_default_pool cfg) pool" and ?named = "named_pool cfg pool"
  have line: "export_line ''ANTHROPIC_BASE_URL'' (''http://'' @ dial_authority E cfg @ base_path enc pin ?named)
      \<in> set (env_lines_with E enc ca cfg False pin pool mode)"
    by (simp add: env_lines_with_def base_lines_def Let_def)
  have has: "al_has (cf_pools cfg) ?n"
  proof (cases pool)
    case None
    with assms(1) show ?thesis by (simp add: good_config_def [symmetric] good_config_iff)
  next
    case (Some p)
    with launch_targetD(1) [OF assms(2)] show ?thesis by (simp add: launch_pool_configured)
  qed
  have "p \<noteq> [] \<and> (\<forall>c \<in> set p. \<not> name_end c)" if "?named = Some p" for p
  proof -
    from that have "p = ?n" by (cases pool) (auto simp: named_pool_def opt_filter_def split: if_splits)
    with valid_pool_chars(1,3) [OF validated_pools [OF assms(1) has]] show ?thesis by simp
  qed
  note ad = launch_address [OF assms(6) api_path_v1 this assms(3)]
  from assms(5) [OF has] obtain f where f: "map_of (rg_map rg) ?n = Some f" by auto
  then have "fst (resolve_request ?named now rg) = Some (?n, f)"
    using assms(4) by (cases pool) (auto simp: named_pool_def opt_filter_def resolve_request_def pools_resolve_def)
  with line ad f launch_targetD(2) [OF assms(2)] show ?thesis by simp
qed

subsection \<open>Percent-encoding, for closed examples\<close>

definition hex_digit :: "nat \<Rightarrow> char" where
  "hex_digit n = ''0123456789ABCDEF'' ! n"

definition demo_encode :: "string \<Rightarrow> string" where
  "demo_encode s = concat (map (\<lambda>c. if is_alnum c then [c]
     else let n = of_char c in [CHR ''%'', hex_digit (n div 16), hex_digit (n mod 16)]) s)"

fun demo_decode :: "string \<Rightarrow> string" where
  "demo_decode [] = []"
| "demo_decode (c # s) =
     (case s of
        a # b # r \<Rightarrow>
          if c = CHR ''%'' then char_of (16 * the (hex_val a) + the (hex_val b) :: nat) # demo_decode r
          else c # demo_decode s
      | _ \<Rightarrow> c # demo_decode s)"

lemma hex_digit_facts:
  assumes "n < 16" shows "hex_val (hex_digit n) = Some n \<and> is_alnum (hex_digit n)"
proof -
  have "list_all (\<lambda>n. hex_val (hex_digit n) = Some n \<and> is_alnum (hex_digit n)) [0..<16]" by code_simp
  with assms show ?thesis by (simp add: list_all_iff)
qed

lemma demo_decode_alnum: "is_alnum c \<Longrightarrow> demo_decode (c # s) = c # demo_decode s"
proof -
  assume "is_alnum c"
  then have "c \<noteq> CHR ''%''" by (auto simp: is_alnum_def is_upper_def is_lower_def is_digit_def)
  then show ?thesis by (simp split: list.split)
qed

lemma demo_decode_encode: "demo_decode (demo_encode s) = s"
proof (induction s)
  case (Cons c s)
  show ?case
  proof (cases "is_alnum c")
    case True
    with Cons show ?thesis by (simp add: demo_encode_def demo_decode_alnum del: demo_decode.simps)
  next
    case False
    let ?n = "of_char c :: nat"
    have "?n < 256" by simp
    then have n: "?n div 16 < 16" by (simp add: div_less_iff_less_mult)
    from Cons False hex_digit_facts [OF n] hex_digit_facts [of "?n mod 16"] show ?thesis
      by (simp add: demo_encode_def Let_def mult_div_mod_eq)
  qed
qed (simp add: demo_encode_def)

lemma demo_encode_chars: "c \<in> set (demo_encode s) \<Longrightarrow> is_alnum c \<or> c = CHR ''%''"
proof -
  have n: "(of_char x :: nat) div 16 < 16" for x :: char
  proof -
    have "(of_char x :: nat) < 256" by simp
    then show ?thesis by (simp add: div_less_iff_less_mult)
  qed
  assume "c \<in> set (demo_encode s)"
  then show ?thesis
    using n hex_digit_facts by (auto simp: demo_encode_def Let_def split: if_splits)
qed

lemma demo_encode_plain: "list_all sh_plain (demo_encode s)" "CHR ''/'' \<notin> set (demo_encode s)"
proof -
  show "list_all sh_plain (demo_encode s)"
    unfolding list_all_iff by (auto simp: sh_plain_def dest: demo_encode_chars)
  have "\<not> is_alnum CHR ''/''" by code_simp
  then show "CHR ''/'' \<notin> set (demo_encode s)" by (auto dest: demo_encode_chars)
qed

lemma demo_config_valid: "config_validate ext0 (config_default ''k'') = Inr ()"
proof -
  have "is_loopback_host ''127.0.0.1''" by code_simp
  moreover have "validate_pool_name ''default'' = Inr ()" by code_simp
  ultimately have "good_config ext0 (config_default ''k'')"
    by (simp add: good_config_iff config_default_def bind_host_def ext0_def proxy_default_def safe_upstream_def
        DEFAULT_UPSTREAM_def DEFAULT_POOL_def good_pool_iff pool_default_def opt_or_def starts_with_Cons)
  then show ?thesis by (simp add: good_config_def)
qed

lemma getenv_ext0: "getenv ext0 k = None"
  by (simp add: ext0_def)

lemma demo_launch:
  "pool_resolve ext0 (config_default ''k'') env = \<lparr>ch_pool = ''default'', ch_matched = False, ch_reason = ''no rule matched''\<rparr>"
  by (simp add: pool_resolve_def config_default_def DEFAULT_POOL_def)

lemma demo_authority: "dial_authority ext0 (config_default ''k'') = ''127.0.0.1:3456''"
proof -
  have "bind_host ext0 (config_default ''k'') = ''127.0.0.1''"
    by (simp add: bind_host_def ext0_def config_default_def proxy_default_def opt_or_def)
  moreover have "strip_brackets ''127.0.0.1'' = ''127.0.0.1''" by code_simp
  moreover have "parse_ip ''127.0.0.1'' = Some (V4 127 0 0 1)" by code_simp
  moreover have "eq_ignore_case ''127.0.0.1'' ''localhost'' = False" by code_simp
  ultimately have "dial_host ext0 (config_default ''k'') = ''127.0.0.1''"
    by (simp add: dial_host_def is_unspecified_def)
  moreover have "contains ''127.0.0.1'' '':'' = False" by code_simp
  moreover have "show_nat 3456 = ''3456''"
    using show_nat.simps [of 3456] show_nat.simps [of 345] show_nat.simps [of 34] show_nat.simps [of 3]
    by (simp add: char_of_def bit_0)
  ultimately show ?thesis by (simp add: dial_authority_def Let_def config_default_def proxy_default_def)
qed

definition demo_env :: launch_env where
  "demo_env = \<lparr>le_cwd = ''/x'', le_current = ''/x'', le_getenv = (\<lambda>_. None), le_remote = (\<lambda>_. None)\<rparr>"

theorem run_does_what_eval_does_witness:
  "\<exists>lines. launch_lines ext0 demo_encode ''/ca.pem'' True demo_env (Some (config_default ''k''))
       \<lparr>la_no_mitm = True, la_api_key = False, la_pool = None\<rparr> = Inr lines
     \<and> run_ops ext0 demo_encode ''/ca.pem'' True demo_env (Some (config_default ''k'')) True False
         \<lparr>la_no_mitm = True, la_api_key = False, la_pool = None\<rparr>
       = Inr ([DropVar ''TC_ACCT'', DropVar ''TC_POOL''] @ map (\<lambda>l. the (sh_line l)) lines)"
proof -
  let ?a = "\<lparr>la_no_mitm = True, la_api_key = False, la_pool = None\<rparr>"
  have "\<exists>lines. launch_lines ext0 demo_encode ''/ca.pem'' True demo_env (Some (config_default ''k'')) ?a = Inr lines"
    by (simp add: launch_lines_def launch_target_def launch_pool_def demo_launch getenv_ext0 opt_or_def)
  then obtain lines where l: "launch_lines ext0 demo_encode ''/ca.pem'' True demo_env (Some (config_default ''k'')) ?a = Inr lines" ..
  have a: "list_all sh_plain (dial_authority ext0 (config_default ''k''))" unfolding demo_authority by code_simp
  have q: "\<not> quote_ends (px_api_key (cf_proxy (config_default ''k'')))" "\<not> quote_ends ''/ca.pem''"
    by (simp_all add: quote_ends_def config_default_def proxy_default_def)
  from run_does_what_eval_does [OF demo_config_valid demo_encode_plain(1) a q l] l show ?thesis by blast
qed


theorem launched_requests_come_home_witness:
  "let E = ext0\<lparr>percent_decode := demo_decode\<rparr>; cfg = config_default ''k'';
       rg = \<lparr>rg_map = [(''default'', demo_fleet [])], rg_default = ''default'', rg_unknown = []\<rparr>;
       ad = address_of E (demo_post ''/v1/messages'') None
   in launch_target E demo_env cfg None = Inr (None, None)
      \<and> fst (resolve_request (ad_pool ad) 0 rg) = Some (''default'', demo_fleet []) \<and> ad_pin ad = None"
proof -
  let ?E = "ext0\<lparr>percent_decode := demo_decode\<rparr>" and ?c = "config_default ''k''"
  let ?rg = "\<lparr>rg_map = [(''default'', demo_fleet [])], rg_default = ''default'', rg_unknown = []\<rparr>"
  have v: "config_validate ?E ?c = Inr ()"
  proof -
    have "is_loopback_host ''127.0.0.1''" by code_simp
    moreover have "validate_pool_name ''default'' = Inr ()" by code_simp
    ultimately have "good_config ?E ?c"
      by (simp add: good_config_iff config_default_def bind_host_def ext0_def proxy_default_def safe_upstream_def
          DEFAULT_UPSTREAM_def DEFAULT_POOL_def good_pool_iff pool_default_def opt_or_def starts_with_Cons)
    then show ?thesis by (simp add: good_config_def)
  qed
  have "pool_resolve ?E ?c demo_env = \<lparr>ch_pool = ''default'', ch_matched = False, ch_reason = ''no rule matched''\<rparr>"
    by (simp add: pool_resolve_def config_default_def DEFAULT_POOL_def)
  moreover have "getenv ?E k = None" for k by (simp add: ext0_def)
  ultimately have t: "launch_target ?E demo_env ?c None = Inr (None, None)"
    by (simp add: launch_target_def launch_pool_def opt_or_def)
  have h: "hr_target (demo_post ''/v1/messages'') = Some (base_path demo_encode None (named_pool ?c None) @ ''/v1/'' @ ''messages'')"
    by (simp add: demo_post_def base_path_def pin_part_def named_pool_def)
  have enc: "percent_decode ?E (demo_encode s) = s \<and> CHR ''/'' \<notin> set (demo_encode s)" for s
    by (simp add: demo_decode_encode demo_encode_plain)
  have d: "rg_default ?rg = cf_default_pool ?c" "\<And>n. al_has (cf_pools ?c) n \<Longrightarrow> map_of (rg_map ?rg) n \<noteq> None"
    by (simp_all add: config_default_def DEFAULT_POOL_def split: if_splits)
  from launched_requests_come_home [OF v t enc d h, where now = 0] t show ?thesis
    by (simp add: Let_def config_default_def DEFAULT_POOL_def)
qed

subsection \<open>The client is let in\<close>

text \<open>What is relied on of the client: it sends the headers of \<open>ANTHROPIC_CUSTOM_HEADERS\<close>, and an API key of its
  environment as \<open>x-api-key\<close>; it is no browser.\<close>

definition sends_what_it_is_told :: "env_op list \<Rightarrow> header_map \<Rightarrow> bool" where
  "sends_what_it_is_told ops h \<longleftrightarrow>
     (\<forall>k v. SetVar ''ANTHROPIC_CUSTOM_HEADERS'' (k @ '': '' @ v) \<in> set ops \<longrightarrow> map_of h k = Some v)
     \<and> (\<forall>v. SetVar ''ANTHROPIC_API_KEY'' v \<in> set ops \<longrightarrow> map_of h ''x-api-key'' = Some v)
     \<and> \<not> is_browser_initiated h"

definition denied :: "auth \<Rightarrow> bool" where
  "denied a \<longleftrightarrow> (\<exists>why. a = Denied why)"

lemma check_key_shared:
  assumes "16 \<le> length (px_api_key p)" and "trim (px_api_key p) = px_api_key p"
  shows "check_key p (Some (px_api_key p)) = Some Shared"
proof -
  have "px_api_key p \<noteq> []" using assms(1) by auto
  with assms show ?thesis by (simp add: check_key_def Let_def ct_eq_iff)
qed

lemma check_key_lets_in: "check_key p k = Some a \<Longrightarrow> \<not> denied a"
  by (auto simp: denied_def check_key_def Let_def split: option.splits if_splits)

lemma shared_header_lets_in:
  assumes "16 \<le> length (px_api_key p)" and "trim (px_api_key p) = px_api_key p" and "list_all visible_ascii (px_api_key p)"
    and "map_of h PROXY_KEY_HEADER = Some (px_api_key p)"
  shows "\<not> denied (authenticate p peer h host)"
proof -
  have "presented_key h = Some (px_api_key p)"
    using assms(3,4) by (simp add: presented_key_def hdr_str_def opt_filter_def opt_or_def)
  with check_key_shared [OF assms(1,2)] show ?thesis by (simp add: authenticate_def denied_def)
qed

lemma loopback_lets_in:
  assumes "is_loopback_ip peer" and "\<not> px_require_key_on_loopback p" and "\<not> is_browser_initiated h" and "host_ok host"
  shows "\<not> denied (authenticate p peer h host)"
proof (cases "check_key p (presented_key h)")
  case (Some a)
  then show ?thesis using check_key_lets_in [OF Some] by (simp add: authenticate_def)
next
  case None
  with assms show ?thesis by (simp add: authenticate_def denied_def)
qed


lemma sh_line_quoted: "CHR ''='' \<notin> set k \<Longrightarrow> sh_line (export_line k (shell_quote v)) = Some (SetVar k v)"
  by (simp add: sh_line_def strip_export split_once_append sh_word_shell_quote)

lemma sh_line_plain: "CHR ''='' \<notin> set k \<Longrightarrow> list_all sh_plain v \<Longrightarrow> sh_line (export_line k v) = Some (SetVar k v)"
  by (simp add: sh_line_def strip_export split_once_append sh_word_plain)

lemma read_op: "l \<in> set ls \<Longrightarrow> sh_line l = Some op \<Longrightarrow> op \<in> set (List.map_filter sh_line ls)"
  by (induction ls) (auto simp: List.map_filter_simps split: option.splits)

lemma key_stays_out:
  assumes "mode = HeaderKey \<and> is_loopback_host (dial_host E cfg) \<and> \<not> px_require_key_on_loopback (cf_proxy cfg)"
  shows "env_lines_with E enc ca cfg use_mitm pin pool mode =
    env_lines_with E enc ca (cf_proxy_update (px_api_key_update (\<lambda>_. other)) cfg) use_mitm pin pool mode"
proof -
  let ?c = "cf_proxy_update (px_api_key_update (\<lambda>_. other)) cfg"
  have "pool_name ?c pool = pool_name cfg pool" "config_pool ?c = config_pool cfg"
    by (cases pool) (simp_all add: pool_name_def config_pool_def fun_eq_iff)
  then have "hold_lines ?c pool = hold_lines cfg pool" by (cases "pool_name cfg pool") (simp_all add: hold_lines_def)
  moreover have "named_pool ?c pool = named_pool cfg pool" by (simp add: named_pool_def)
  moreover have "mitm_lines E enc ca ?c pin n mode = mitm_lines E enc ca cfg pin n mode" for n
    using assms by (simp add: mitm_lines_def mitm_url_def api_key_env_def env_key_def dial_authority_def dial_host_def bind_host_def)
  moreover have "base_lines E enc ?c pin n mode = base_lines E enc cfg pin n mode" for n
    using assms by (simp add: base_lines_def api_key_env_def env_key_def dial_authority_def dial_host_def bind_host_def)
  ultimately show ?thesis by (simp add: env_lines_with_def Let_def)
qed

lemma short_key_locks_out:
  "px_require_key_on_loopback p \<Longrightarrow> length (px_api_key p) < 16 \<Longrightarrow> px_client_keys p = [] \<Longrightarrow>
   denied (authenticate p peer h host)"
  by (auto simp: denied_def authenticate_def check_key_def Let_def split: option.splits)

text \<open>C33: The client that is started is let in. When its environment is the one the lines of the base-URL mode set and
  it sends what that tells it to, the proxy does not refuse it: on loopback the exemption applies and the key
  stays out of the environment, elsewhere, or when keys are required there too, the key travels in the header
  the proxy reads first, and in API-key mode as \<open>x-api-key\<close>. The key has the sixteen visible characters the
  validation of an address off loopback asks for; requiring one on loopback does not check that.\<close>

theorem launched_client_is_admitted:
  assumes "16 \<le> length (px_api_key (cf_proxy cfg))" and "trim (px_api_key (cf_proxy cfg)) = px_api_key (cf_proxy cfg)"
    and "list_all visible_ascii (px_api_key (cf_proxy cfg))"
    and "sends_what_it_is_told (List.map_filter sh_line (env_lines_with E enc ca cfg False pin pool mode)) h"
    and "mode = ApiKeyVar \<Longrightarrow> map_of h PROXY_KEY_HEADER = None"
    and "is_loopback_host (dial_host E cfg) \<Longrightarrow> is_loopback_ip peer \<and> host_ok host"
  shows "\<not> denied (authenticate (cf_proxy cfg) peer h host)
    \<and> (mode = HeaderKey \<and> is_loopback_host (dial_host E cfg) \<and> \<not> px_require_key_on_loopback (cf_proxy cfg) \<longrightarrow>
        env_lines_with E enc ca cfg False pin pool mode =
        env_lines_with E enc ca (cf_proxy_update (px_api_key_update (\<lambda>_. other)) cfg) False pin pool mode)"
proof -
  let ?k = "px_api_key (cf_proxy cfg)" and ?ls = "env_lines_with E enc ca cfg False pin pool mode"
  have k: "?k \<noteq> []" using assms(1) by auto
  have not_browser: "\<not> is_browser_initiated h" using assms(4) by (simp add: sends_what_it_is_told_def)
  have "\<not> denied (authenticate (cf_proxy cfg) peer h host)"
  proof (cases mode)
    case ApiKeyVar
    then have "export_line ''ANTHROPIC_API_KEY'' (shell_quote ?k) \<in> set ?ls"
      using k by (simp add: env_lines_with_def base_lines_def api_key_env_def api_key_lines_def Let_def)
    from read_op [OF this sh_line_quoted] have "SetVar ''ANTHROPIC_API_KEY'' ?k \<in> set (List.map_filter sh_line ?ls)" by simp
    with assms(4) have "map_of h ''x-api-key'' = Some ?k" by (simp add: sends_what_it_is_told_def)
    with assms(3) assms(5) [OF ApiKeyVar] have "presented_key h = Some ?k"
      by (simp add: presented_key_def hdr_str_def opt_filter_def opt_or_def)
    with check_key_shared [OF assms(1,2)] show ?thesis by (simp add: authenticate_def denied_def)
  next
    case HeaderKey
    show ?thesis
    proof (cases "is_loopback_host (dial_host E cfg) \<and> \<not> px_require_key_on_loopback (cf_proxy cfg)")
      case True
      with assms(6) not_browser show ?thesis by (intro loopback_lets_in) simp_all
    next
      case False
      then have "export_line ''ANTHROPIC_CUSTOM_HEADERS'' (shell_quote (PROXY_KEY_HEADER @ '': '' @ ?k)) \<in> set ?ls"
        using HeaderKey k
        by (auto simp: env_lines_with_def base_lines_def api_key_env_def env_key_def header_lines_def Let_def)
      from read_op [OF this sh_line_quoted]
      have "SetVar ''ANTHROPIC_CUSTOM_HEADERS'' (PROXY_KEY_HEADER @ '': '' @ ?k) \<in> set (List.map_filter sh_line ?ls)" by simp
      with assms(4) have "map_of h PROXY_KEY_HEADER = Some ?k" unfolding sends_what_it_is_told_def by blast
      with assms(1-3) show ?thesis by (intro shared_header_lets_in)
    qed
  qed
  with key_stays_out show ?thesis by blast
qed

theorem launched_client_is_admitted_witness:
  "\<not> denied (authenticate (cf_proxy (config_default ''0123456789abcdef'')) (V4 127 0 0 1) [] (Some ''127.0.0.1:3456''))"
proof -
  let ?c = "config_default ''0123456789abcdef''"
  have "dial_authority ext0 ?c = dial_authority ext0 (config_default ''k'')" "dial_host ext0 ?c = dial_host ext0 (config_default ''k'')"
    by (simp_all add: dial_authority_def dial_host_def bind_host_def config_default_def proxy_default_def)
  then have a: "dial_authority ext0 ?c = ''127.0.0.1:3456''" by (simp add: demo_authority)
  have lb: "is_loopback_host (dial_host ext0 ?c)"
  proof -
    have "bind_host ext0 ?c = ''127.0.0.1''"
      by (simp add: bind_host_def ext0_def config_default_def proxy_default_def opt_or_def)
    moreover have "is_loopback_host (let h = strip_brackets ''127.0.0.1'';
          wildcard = (h = [] \<or> (case parse_ip h of Some ip \<Rightarrow> is_unspecified ip | None \<Rightarrow> False))
      in if wildcard \<or> eq_ignore_case h ''localhost'' then ''127.0.0.1'' else h)" by code_simp
    ultimately show ?thesis by (simp add: dial_host_def)
  qed
  have p: "list_all sh_plain (''http://'' @ ''127.0.0.1:3456'')" by code_simp
  have ls: "env_lines_with ext0 demo_encode [] ?c False None None HeaderKey =
      [export_line ''ANTHROPIC_BASE_URL'' (''http://'' @ ''127.0.0.1:3456''),
       export_line ''ENABLE_TOOL_SEARCH'' ''auto'', export_line ''_CLAUDE_CODE_ASSUME_FIRST_PARTY_BASE_URL'' ''1'']"
    using lb by (simp add: env_lines_with_def base_lines_def a base_path_def pin_part_def named_pool_def api_key_env_def
        env_key_def header_lines_def hold_lines_def pool_name_def config_pool_def Let_def)
      (simp add: config_default_def proxy_default_def pool_default_def)
  have "sends_what_it_is_told (List.map_filter sh_line (env_lines_with ext0 demo_encode [] ?c False None None HeaderKey)) []"
    unfolding ls using sh_line_plain [OF _ p] sh_line_plain [OF _ plain_words(2)] sh_line_plain [OF _ plain_words(3)]
    by (simp add: List.map_filter_simps sends_what_it_is_told_def is_browser_initiated_def hdr_str_def)
  moreover have "host_ok (Some ''127.0.0.1:3456'')" "is_loopback_ip (V4 127 0 0 1)" by code_simp+
  moreover have "trim ''0123456789abcdef'' = ''0123456789abcdef''" "list_all visible_ascii ''0123456789abcdef''" by code_simp+
  moreover have "px_api_key (cf_proxy ?c) = ''0123456789abcdef''" by (simp add: config_default_def proxy_default_def)
  ultimately show ?thesis
    using launched_client_is_admitted [of ?c ext0 demo_encode "[]" None None HeaderKey "[]" "V4 127 0 0 1" "Some ''127.0.0.1:3456''"]
    by simp
qed

end
