(* ===== verification/Update.thy ===== *)
theory Update
  imports Pool_Match Usage_Stream
begin

text \<open>
  \<open>src/update.rs\<close>: \<open>corrall update\<close> downloads a release, verifies it and puts it in the place of the binary;
  the passive check only reads the latest tag. The programs it starts (\<open>gh\<close>, \<open>cosign\<close>, \<open>tar\<close>, \<open>systemctl\<close>, the
  downloaded binary), the calls into the file system that can fail, the hash and the health endpoint are
  parameters. Messages on the terminal are left out. A path is the list of its components from the root.
\<close>

type_synonym path = "string list"
type_synonym disk = "path \<rightharpoonup> string"

subsection \<open>Versions and release assets\<close>

datatype version_order = SameVersion | Upgrade | MajorUpgrade | Downgrade | UnknownVersion

definition parse_version :: "string \<Rightarrow> (nat \<times> nat \<times> nat) option" where
  "parse_version v =
     (let core = takeWhile (\<lambda>c. c \<noteq> CHR ''-'' \<and> c \<noteq> CHR ''+'') (trim_start_matches CHR ''v'' (trim v))
      in case map (parse_unsigned u64_max) (split_on CHR ''.'' core) of
           Some a # Some b # Some c # _ \<Rightarrow> Some (a, b, c)
         | _ \<Rightarrow> None)"

fun version_less :: "nat \<times> nat \<times> nat \<Rightarrow> nat \<times> nat \<times> nat \<Rightarrow> bool" where
  "version_less (a, b, c) (a', b', c') \<longleftrightarrow> a < a' \<or> a = a' \<and> (b < b' \<or> b = b' \<and> c < c')"

definition compare_versions :: "string \<Rightarrow> string \<Rightarrow> version_order" where
  "compare_versions current candidate =
     (case (parse_version current, parse_version candidate) of
        (Some c, Some n) \<Rightarrow>
          if n = c then SameVersion
          else if version_less n c then Downgrade
          else if fst c < fst n then MajorUpgrade
          else Upgrade
      | _ \<Rightarrow> UnknownVersion)"

definition strip_tag :: "string \<Rightarrow> string" where
  "strip_tag s = trim_start_matches CHR ''v'' (trim s)"

definition same_version :: "string \<Rightarrow> string \<Rightarrow> bool" where
  "same_version a b \<longleftrightarrow> trim a \<noteq> [] \<and> strip_tag a = strip_tag b"

definition target_triple :: "string \<Rightarrow> string \<Rightarrow> string option" where
  "target_triple os arch =
     (if os = ''linux'' \<and> arch = ''x86_64'' then Some ''x86_64-unknown-linux-musl''
      else if os = ''linux'' \<and> arch = ''aarch64'' then Some ''aarch64-unknown-linux-musl''
      else if os = ''macos'' \<and> arch = ''x86_64'' then Some ''x86_64-apple-darwin''
      else if os = ''macos'' \<and> arch = ''aarch64'' then Some ''aarch64-apple-darwin''
      else None)"

definition asset_name :: "string \<Rightarrow> string \<Rightarrow> string" where
  "asset_name tag triple = ''corrall-'' @ tag @ ''-'' @ triple @ ''.tar.gz''"

definition split_ws :: "string \<Rightarrow> (string \<times> string) option" where
  "split_ws s =
     (case dropWhile (\<lambda>c. \<not> is_ws c) s of [] \<Rightarrow> None | _ # r \<Rightarrow> Some (takeWhile (\<lambda>c. \<not> is_ws c) s, r))"

definition sum_line :: "string \<Rightarrow> string \<Rightarrow> string option" where
  "sum_line asset line =
     Option.bind (split_ws line) (\<lambda>(digest, name).
       if trim_start_matches CHR ''*'' (trim name) = asset \<and> length digest = 64 then Some digest else None)"

definition expected_sha256 :: "string \<Rightarrow> string \<Rightarrow> string option" where
  "expected_sha256 listing asset = find_map (sum_line asset) (text_lines listing)"

definition hex_lower :: "nat \<Rightarrow> char" where
  "hex_lower n = ''0123456789abcdef'' ! n"

definition hex :: "string \<Rightarrow> string" where
  "hex bytes = concat (map (\<lambda>b. [hex_lower (byte b div 16), hex_lower (byte b mod 16)]) bytes)"

definition in_cargo_target :: "path \<Rightarrow> bool" where
  "in_cargo_target exe =
     (case rev exe of
        _ # profile # t # _ \<Rightarrow> (profile = ''debug'' \<or> profile = ''release'') \<and> t = ''target''
      | _ \<Rightarrow> False)"

subsection \<open>The machine\<close>

datatype cmd_out = NoProgram | NoStart | Finished (co_ok: bool) (co_stdout: string) (co_stderr: string)

datatype io_err = PermissionDenied | OtherIo

datatype health_reply = Replied nat "json option" | NoReply string

text \<open>\<open>tl_exec\<close> is told every command that ran before, so it may answer the same command differently later.
  A copy that fails may leave something at its destination.\<close>

record tools =
  tl_exec :: "string list list \<Rightarrow> string list \<Rightarrow> disk \<Rightarrow> cmd_out \<times> disk"
  tl_copy :: "path \<Rightarrow> path \<Rightarrow> disk \<Rightarrow> (io_err \<times> string option) option"
  tl_chmod :: "path \<Rightarrow> io_err option"
  tl_rename :: "path \<Rightarrow> path \<Rightarrow> io_err option"
  tl_tempdir :: "path option"
  tl_random :: string
  tl_exe :: "path option"
  tl_os :: string
  tl_arch :: string
  tl_debug :: bool
  tl_sha256 :: "string \<Rightarrow> string"
  tl_client_ok :: bool
  tl_poll :: "string \<Rightarrow> nat \<Rightarrow> health_reply \<times> nat"

record machine =
  mc_disk :: disk
  mc_ran :: "string list list"

datatype last_answer = NoAnswer | LastStatus nat | LastError string

datatype update_error =
    NoExe | GhMissing | GhBroken | GhFailed "string list" string | NoLatest string
  | SourceBuild path | OlderLatest string | NewMajor string | Incomparable string
  | NoAsset string string | NoTempdir | NoSums | NotListed string | NoArchive | SumMismatch string string string
  | BadSignature string | CosignBroken | TarBroken | TarFailed string | NoBinary string
  | TrialBroken | TrialFailed | CannotWrite path io_err
  | NotHealthy last_answer | RestoreFailed | RolledBack | NoBackup

type_synonym 'a step = "machine \<Rightarrow> (update_error + 'a) \<times> machine"

definition step_bind :: "'a step \<Rightarrow> ('a \<Rightarrow> 'b step) \<Rightarrow> 'b step" where
  "step_bind p k m = (case p m of (Inl e, m') \<Rightarrow> (Inl e, m') | (Inr a, m') \<Rightarrow> k a m')"

definition run_cmd :: "tools \<Rightarrow> string list \<Rightarrow> machine \<Rightarrow> cmd_out \<times> machine" where
  "run_cmd T cmd m =
     (let (out, d) = tl_exec T (mc_ran m) cmd (mc_disk m) in (out, \<lparr>mc_disk = d, mc_ran = mc_ran m @ [cmd]\<rparr>))"

text \<open>A file copied onto itself is opened for writing, and so emptied, before anything is read.\<close>

definition copy_file :: "tools \<Rightarrow> path \<Rightarrow> path \<Rightarrow> machine \<Rightarrow> (io_err + unit) \<times> machine" where
  "copy_file T a b m =
     (case tl_copy T a b (mc_disk m) of
        Some (e, left) \<Rightarrow> (Inl e, m\<lparr>mc_disk := (mc_disk m)(b := left)\<rparr>)
      | None \<Rightarrow>
          (case mc_disk m a of
             None \<Rightarrow> (Inl OtherIo, m)
           | Some x \<Rightarrow> (Inr (), m\<lparr>mc_disk := (mc_disk m)(b \<mapsto> (if a = b then [] else x))\<rparr>)))"

definition rename_file :: "tools \<Rightarrow> path \<Rightarrow> path \<Rightarrow> machine \<Rightarrow> (io_err + unit) \<times> machine" where
  "rename_file T a b m =
     (case tl_rename T a b of
        Some e \<Rightarrow> (Inl e, m)
      | None \<Rightarrow>
          (case mc_disk m a of
             None \<Rightarrow> (Inl OtherIo, m)
           | Some x \<Rightarrow> (Inr (), m\<lparr>mc_disk := (mc_disk m)(a := None, b \<mapsto> x)\<rparr>)))"

definition remove_file :: "path \<Rightarrow> machine \<Rightarrow> machine" where
  "remove_file p m = m\<lparr>mc_disk := (mc_disk m)(p := None)\<rparr>"

definition under :: "path \<Rightarrow> path \<Rightarrow> bool" where
  "under dir p \<longleftrightarrow> take (length dir) p = dir"

definition remove_dir :: "path \<Rightarrow> machine \<Rightarrow> machine" where
  "remove_dir dir m = m\<lparr>mc_disk := (\<lambda>p. if under dir p then None else mc_disk m p)\<rparr>"

definition path_text :: "path \<Rightarrow> string" where
  "path_text p = concat (map (\<lambda>c. CHR ''/'' # c) p)"

definition path_join :: "path \<Rightarrow> string \<Rightarrow> path" where
  "path_join p s = p @ filter (\<lambda>c. c \<noteq> [] \<and> c \<noteq> ''.'') (split_on CHR ''/'' s)"

text \<open>\<open>with_extension("prev")\<close>.\<close>

definition file_stem :: "string \<Rightarrow> string" where
  "file_stem n = (case rsplit_once CHR ''.'' n of Some (b, _) \<Rightarrow> if b = [] then n else b | None \<Rightarrow> n)"

definition backup_path :: "path \<Rightarrow> path" where
  "backup_path p =
     (if p = [] \<or> last p = ''..'' then p else butlast p @ [file_stem (last p) @ ''.prev''])"

subsection \<open>Steps\<close>

definition gh :: "tools \<Rightarrow> string list \<Rightarrow> string step" where
  "gh T args m =
     (case run_cmd T (''gh'' # args) m of
        (NoProgram, m) \<Rightarrow> (Inl GhMissing, m)
      | (NoStart, m) \<Rightarrow> (Inl GhBroken, m)
      | (Finished good out err, m) \<Rightarrow>
          if good then (Inr (utf8_lossy out), m)
          else (let msg = safe_str (trim (utf8_lossy err)) 400
                in (Inl (GhFailed args (if msg = [] then ''no output'' else msg)), m)))"

definition latest_tag :: "tools \<Rightarrow> string \<Rightarrow> string step" where
  "latest_tag T repo =
     step_bind (gh T [''release'', ''view'', ''-R'', repo, ''--json'', ''tagName'', ''--jq'', ''.tagName''])
       (\<lambda>out m. if trim out = [] then (Inl (NoLatest repo), m) else (Inr (trim out), m))"

definition bundle_name :: string where "bundle_name = ''SHA256SUMS.sigstore.json''"

definition cosign_args :: "string \<Rightarrow> path \<Rightarrow> string list" where
  "cosign_args repo dir =
     [''cosign'', ''verify-blob'', ''--bundle'', path_text (dir @ [bundle_name]),
      ''--certificate-identity-regexp'', ''github.com/'' @ repo @ ''/'',
      ''--certificate-oidc-issuer'', ''https://token.actions.githubusercontent.com'',
      path_text (dir @ [''SHA256SUMS''])]"

definition verify_signature :: "tools \<Rightarrow> string \<Rightarrow> path \<Rightarrow> unit step" where
  "verify_signature T repo dir m =
     (if mc_disk m (dir @ [bundle_name]) = None then (Inr (), m)
      else (case run_cmd T (cosign_args repo dir) m of
              (NoProgram, m) \<Rightarrow> (Inr (), m)
            | (NoStart, m) \<Rightarrow> (Inl CosignBroken, m)
            | (Finished good out err, m) \<Rightarrow>
                if good then (Inr (), m)
                else (Inl (BadSignature (safe_str (trim (utf8_lossy err)) 300)), m)))"

text \<open>Reading a text file fails when it is not UTF-8.\<close>

definition verify_checksum :: "tools \<Rightarrow> string \<Rightarrow> path \<Rightarrow> unit step" where
  "verify_checksum T asset dir m =
     (case opt_filter (\<lambda>s. utf8_lossy s = s) (mc_disk m (dir @ [''SHA256SUMS''])) of
        None \<Rightarrow> (Inl NoSums, m)
      | Some listing \<Rightarrow>
          (case expected_sha256 listing asset of
             None \<Rightarrow> (Inl (NotListed asset), m)
           | Some want \<Rightarrow>
               (case mc_disk m (path_join dir asset) of
                  None \<Rightarrow> (Inl NoArchive, m)
                | Some archive \<Rightarrow>
                    (let got = hex (tl_sha256 T archive)
                     in if eq_ignore_case got want then (Inr (), m) else (Inl (SumMismatch asset want got), m)))))"

definition new_binary :: "path \<Rightarrow> string \<Rightarrow> path" where
  "new_binary dir asset = path_join dir (trim_end_str ''.tar.gz'' asset) @ [''corrall'']"

definition unpack :: "tools \<Rightarrow> string \<Rightarrow> path \<Rightarrow> unit step" where
  "unpack T asset dir m =
     (case run_cmd T [''tar'', ''-C'', path_text dir, ''-xzf'', path_text (path_join dir asset)] m of
        (Finished good _ _, m) \<Rightarrow> (if good then Inr () else Inl (TarFailed asset), m)
      | (_, m) \<Rightarrow> (Inl TarBroken, m))"

definition trial_run :: "tools \<Rightarrow> string \<Rightarrow> path \<Rightarrow> path step" where
  "trial_run T asset dir m =
     (let bin = new_binary dir asset
      in if mc_disk m bin = None then (Inl (NoBinary asset), m)
         else (case run_cmd T [path_text bin, ''--version''] m of
                 (Finished good _ _, m) \<Rightarrow> (if good then Inr bin else Inl TrialFailed, m)
               | (_, m) \<Rightarrow> (Inl TrialBroken, m)))"

definition download :: "tools \<Rightarrow> string \<Rightarrow> string \<Rightarrow> string \<Rightarrow> path \<Rightarrow> string step" where
  "download T repo tag asset dir =
     gh T [''release'', ''download'', tag, ''-R'', repo, ''-D'', path_text dir, ''-p'', asset,
           ''-p'', ''SHA256SUMS'', ''-p'', bundle_name]"

definition fetch_verified :: "tools \<Rightarrow> string \<Rightarrow> string \<Rightarrow> string \<Rightarrow> path \<Rightarrow> path step" where
  "fetch_verified T repo tag asset dir =
     step_bind (download T repo tag asset dir) (\<lambda>_.
     step_bind (verify_checksum T asset dir) (\<lambda>_.
     step_bind (verify_signature T repo dir) (\<lambda>_.
     step_bind (unpack T asset dir) (\<lambda>_. trial_run T asset dir))))"

definition staging_path :: "tools \<Rightarrow> path \<Rightarrow> path" where
  "staging_path T target = butlast target @ [''.corrall-update-'' @ tl_random T]"

definition replace_binary :: "tools \<Rightarrow> path \<Rightarrow> path \<Rightarrow> unit step" where
  "replace_binary T new target m =
     (let dir = butlast target; tmp = staging_path T target
      in case copy_file T new tmp m of
           (Inl e, m) \<Rightarrow> (Inl (CannotWrite dir e), m)
         | (Inr _, m) \<Rightarrow>
             (case tl_chmod T tmp of
                Some e \<Rightarrow> (Inl (CannotWrite dir e), m)
              | None \<Rightarrow>
                  (case rename_file T tmp target m of
                     (Inl e, m) \<Rightarrow> (Inl (CannotWrite dir e), remove_file tmp m)
                   | (Inr _, m) \<Rightarrow> (Inr (), m))))"

text \<open>A backup that could not be made is no error.\<close>

definition keep_backup :: "tools \<Rightarrow> path \<Rightarrow> machine \<Rightarrow> path option \<times> machine" where
  "keep_backup T target m =
     (if mc_disk m target = None then (None, m)
      else (case copy_file T target (backup_path target) m of
              (Inr _, m) \<Rightarrow> (Some (backup_path target), m)
            | (Inl _, m) \<Rightarrow> (None, m)))"

definition install :: "tools \<Rightarrow> path \<Rightarrow> path \<Rightarrow> path option step" where
  "install T new target m =
     (let (kept, m) = keep_backup T target m
      in step_bind (replace_binary T new target) (\<lambda>_ m. (Inr kept, m)) m)"

definition apply_update :: "tools \<Rightarrow> string \<Rightarrow> string \<Rightarrow> path \<Rightarrow> path option step" where
  "apply_update T repo tag target m =
     (case target_triple (tl_os T) (tl_arch T) of
        None \<Rightarrow> (Inl (NoAsset (tl_os T) (tl_arch T)), m)
      | Some triple \<Rightarrow>
          (case tl_tempdir T of
             None \<Rightarrow> (Inl NoTempdir, m)
           | Some dir \<Rightarrow>
               (let (r, m) = step_bind (fetch_verified T repo tag (asset_name tag triple) dir)
                      (\<lambda>new. install T new target) m
                in (r, remove_dir dir m))))"

subsection \<open>Restart and health\<close>

definition UNIT_NAME :: string where "UNIT_NAME = ''corrall.service''"

definition cmd_succeeds :: "cmd_out \<Rightarrow> bool" where
  "cmd_succeeds out = (case out of Finished good _ _ \<Rightarrow> good | _ \<Rightarrow> False)"

definition restart_service :: "tools \<Rightarrow> machine \<Rightarrow> bool \<times> machine" where
  "restart_service T m =
     (if tl_os T \<noteq> ''linux'' then (False, m)
      else (let (active, m) = run_cmd T [''systemctl'', ''--user'', ''is-active'', ''--quiet'', UNIT_NAME] m
            in if \<not> cmd_succeeds active then (False, m)
               else (let (r, m) = run_cmd T [''systemctl'', ''--user'', ''restart'', UNIT_NAME] m
                     in (cmd_succeeds r, m))))"

definition health_url :: "ext \<Rightarrow> config option \<Rightarrow> string" where
  "health_url E cfg =
     ''http://'' @ (case cfg of Some c \<Rightarrow> dial_authority E c | None \<Rightarrow> ''127.0.0.1:'' @ show_nat 3456)
       @ ''/corrall/health''"

definition version_of :: "json option \<Rightarrow> string" where
  "version_of body = unwrap_or ''ok'' (Option.bind body (\<lambda>j. Option.bind (j_get ''version'' j) as_str))"

text \<open>One round asks once, which takes at most the time-out of two seconds, and sleeps half a second.\<close>

function wait_healthy_at :: "(nat \<Rightarrow> health_reply \<times> nat) \<Rightarrow> nat \<Rightarrow> nat \<Rightarrow> last_answer \<Rightarrow> last_answer + string" where
  "wait_healthy_at poll deadline now seen =
     (if deadline \<le> now then Inl seen
      else (case poll now of
              (Replied status body, took) \<Rightarrow>
                if 200 \<le> status \<and> status < 300 then Inr (version_of body)
                else wait_healthy_at poll deadline (now + took + 500) (LastStatus status)
            | (NoReply e, took) \<Rightarrow> wait_healthy_at poll deadline (now + took + 500) (LastError (safe_str e 120))))"
  by auto

termination wait_healthy_at
  by (relation "measure (\<lambda>(_, deadline, now, _). deadline - now)") auto

declare wait_healthy_at.simps [simp del]

definition wait_healthy :: "ext \<Rightarrow> tools \<Rightarrow> config option \<Rightarrow> last_answer + string" where
  "wait_healthy E T cfg =
     (if tl_client_ok T then wait_healthy_at (tl_poll T (health_url E cfg)) 20000 0 NoAnswer else Inl NoAnswer)"

subsection \<open>The command\<close>

record update_args =
  ua_check :: bool
  ua_version :: "string option"
  ua_binary :: "path option"
  ua_allow_major :: bool
  ua_no_restart :: bool
  ua_no_health_check :: bool

datatype update_outcome =
    UpToDate | Available string | AlreadyCurrent | NotRestarting | NothingRestarted | Unchecked | Healthy string

definition update_repo :: "ext \<Rightarrow> string" where
  "update_repo E = unwrap_or ''NodeSpy/corrall'' (opt_filter (\<lambda>s. trim s \<noteq> []) (getenv E ''CORRALL_REPO''))"

definition is_source_build :: "tools \<Rightarrow> path \<Rightarrow> bool" where
  "is_source_build T exe \<longleftrightarrow> tl_debug T \<or> in_cargo_target exe"

definition version_fence :: "update_args \<Rightarrow> string \<Rightarrow> string \<Rightarrow> update_error + unit" where
  "version_fence args current latest =
     (if ua_version args \<noteq> None then Inr ()
      else (case compare_versions current latest of
              Downgrade \<Rightarrow> Inl (OlderLatest latest)
            | MajorUpgrade \<Rightarrow> if ua_allow_major args then Inr () else Inl (NewMajor latest)
            | UnknownVersion \<Rightarrow> Inl (Incomparable latest)
            | _ \<Rightarrow> Inr ()))"

definition roll_back :: "tools \<Rightarrow> path option \<Rightarrow> path \<Rightarrow> update_outcome step" where
  "roll_back T backup target m =
     (case opt_filter (\<lambda>b. mc_disk m b \<noteq> None) backup of
        None \<Rightarrow> (Inl NoBackup, m)
      | Some b \<Rightarrow>
          (case rename_file T b target m of
             (Inl _, m) \<Rightarrow> (Inl RestoreFailed, m)
           | (Inr _, m) \<Rightarrow> (Inl RolledBack, snd (restart_service T m))))"

text \<open>\<open>cfg\<close> is what the configuration file holds when the health check reads it, \<open>None\<close> when it does not load.\<close>

definition after_swap :: "ext \<Rightarrow> tools \<Rightarrow> config option \<Rightarrow> update_args \<Rightarrow> path \<Rightarrow> path option \<Rightarrow> update_outcome step" where
  "after_swap E T cfg args target backup m =
     (if ua_no_restart args then (Inr NotRestarting, m)
      else (let (restarted, m) = restart_service T m
            in if \<not> restarted then (Inr NothingRestarted, m)
               else if ua_no_health_check args then (Inr Unchecked, m)
               else (case wait_healthy E T cfg of
                       Inr v \<Rightarrow> (Inr (Healthy v), m)
                     | Inl _ \<Rightarrow> roll_back T backup target m)))"

definition latest_wanted :: "tools \<Rightarrow> string \<Rightarrow> update_args \<Rightarrow> string step" where
  "latest_wanted T repo args m =
     (case ua_version args of Some v \<Rightarrow> (Inr (trim v), m) | None \<Rightarrow> latest_tag T repo m)"

definition update_to ::
  "ext \<Rightarrow> tools \<Rightarrow> config option \<Rightarrow> string \<Rightarrow> update_args \<Rightarrow> path \<Rightarrow> string \<Rightarrow> update_outcome step" where
  "update_to E T cfg current args target latest m =
     (if ua_check args then (Inr (if same_version current latest then UpToDate else Available latest), m)
      else if ua_version args = None \<and> same_version current latest then (Inr AlreadyCurrent, m)
      else if ua_binary args = None \<and> is_source_build T target then (Inl (SourceBuild target), m)
      else (case version_fence args current latest of
              Inl e \<Rightarrow> (Inl e, m)
            | Inr _ \<Rightarrow> step_bind (apply_update T (update_repo E) latest target) (after_swap E T cfg args target) m))"

definition update_target :: "tools \<Rightarrow> update_args \<Rightarrow> path option" where
  "update_target T args = opt_or (ua_binary args) (tl_exe T)"

definition update_run :: "ext \<Rightarrow> tools \<Rightarrow> config option \<Rightarrow> string \<Rightarrow> update_args \<Rightarrow> update_outcome step" where
  "update_run E T cfg current args m =
     (case update_target T args of
        None \<Rightarrow> (Inl NoExe, m)
      | Some target \<Rightarrow>
          step_bind (latest_wanted T (update_repo E) args) (update_to E T cfg current args target) m)"

subsection \<open>The passive check\<close>

definition latest_tag_quiet :: "ext \<Rightarrow> tools \<Rightarrow> machine \<Rightarrow> string option \<times> machine" where
  "latest_tag_quiet E T m =
     (if getenv E ''CORRALL_DISABLE_UPDATE_CHECK'' \<noteq> None then (None, m)
      else (case latest_tag T (update_repo E) m of (Inr t, m) \<Rightarrow> (Some t, m) | (Inl _, m) \<Rightarrow> (None, m)))"

definition CACHE_TTL_MS :: int where "CACHE_TTL_MS = 60 * 60 * 1000"

definition read_tag_cache :: "ext \<Rightarrow> string option \<Rightarrow> (int \<times> string option) option" where
  "read_tag_cache E raw =
     Option.bind (opt_filter (\<lambda>s. utf8_lossy s = s) raw) (\<lambda>s.
     Option.bind (json_parse E s) (\<lambda>v.
     Option.bind (Option.bind (j_get ''checkedAt'' v) as_i64) (\<lambda>checked.
       Some (checked, Option.bind (j_get ''tag'' v) as_str))))"

definition write_tag_cache :: "ext \<Rightarrow> int \<Rightarrow> string option \<Rightarrow> string" where
  "write_tag_cache E now tag =
     json_print E (JObj [(''checkedAt'', JInt now), (''tag'', case tag of Some t \<Rightarrow> JStr t | None \<Rightarrow> JNull)])"

text \<open>Writing is tried; \<open>writable\<close> says whether it worked. The difference of two times wraps in a release build.\<close>

definition refresh_tag :: "ext \<Rightarrow> tools \<Rightarrow> path \<Rightarrow> bool \<Rightarrow> int \<Rightarrow> machine \<Rightarrow> string option \<times> machine" where
  "refresh_tag E T cache writable now m =
     (let (tag, m) = latest_tag_quiet E T m
      in (tag, if writable then m\<lparr>mc_disk := (mc_disk m)(cache \<mapsto> write_tag_cache E now tag)\<rparr> else m))"

definition latest_tag_cached ::
  "ext \<Rightarrow> tools \<Rightarrow> path \<Rightarrow> bool \<Rightarrow> int \<Rightarrow> machine \<Rightarrow> string option \<times> machine" where
  "latest_tag_cached E T cache writable now m =
     (if getenv E ''CORRALL_DISABLE_UPDATE_CHECK'' \<noteq> None then (None, m)
      else (case read_tag_cache E (mc_disk m cache) of
              Some (checked, tag) \<Rightarrow>
                if i64_wrap (now - checked) < CACHE_TTL_MS then (tag, m) else refresh_tag E T cache writable now m
            | None \<Rightarrow> refresh_tag E T cache writable now m))"

end
