(* ===== verification/Update_Props.thy ===== *)
theory Update_Props
  imports Update
begin

text \<open>
  What the update does to the binary: it is replaced only by one that was verified and ran, and a failure leaves
  the old one in place.
\<close>

subsection \<open>Steps that keep away from a file\<close>

text \<open>What is relied on of the programs that are started: none of them writes these files.\<close>

definition hands_off :: "tools \<Rightarrow> path set \<Rightarrow> bool" where
  "hands_off T ps \<longleftrightarrow> (\<forall>before cmd d. \<forall>p \<in> ps. snd (tl_exec T before cmd d) p = d p)"

definition quiet :: "path set \<Rightarrow> 'a step \<Rightarrow> bool" where
  "quiet ps p \<longleftrightarrow> (\<forall>m r m'. p m = (r, m') \<longrightarrow> (\<forall>f \<in> ps. mc_disk m' f = mc_disk m f))"

named_theorems quiet_rules

lemma quietD: "quiet ps p \<Longrightarrow> p m = (r, m') \<Longrightarrow> f \<in> ps \<Longrightarrow> mc_disk m' f = mc_disk m f"
  by (simp add: quiet_def)

lemma run_cmd_keeps:
  assumes "hands_off T ps" and "run_cmd T cmd m = (out, m')" and "f \<in> ps" shows "mc_disk m' f = mc_disk m f"
proof -
  from assms have "snd (tl_exec T (mc_ran m) cmd (mc_disk m)) f = mc_disk m f" by (simp add: hands_off_def)
  with assms(2) show ?thesis by (auto simp: run_cmd_def split: prod.splits)
qed

lemma quiet_bind [quiet_rules]:
  assumes "quiet ps p" and "\<And>a. quiet ps (k a)"
  shows "quiet ps (step_bind p k)"
  using assms by (fastforce simp: quiet_def step_bind_def split: prod.splits sum.splits)

lemma quiet_gh [quiet_rules]: "hands_off T ps \<Longrightarrow> quiet ps (gh T args)"
  by (auto simp: quiet_def gh_def Let_def run_cmd_keeps split: prod.splits cmd_out.splits if_splits)

lemma quiet_latest [quiet_rules]: "hands_off T ps \<Longrightarrow> quiet ps (latest_tag T repo)"
  unfolding latest_tag_def by (intro quiet_bind quiet_gh) (auto simp: quiet_def split: if_splits)

lemma quiet_wanted [quiet_rules]: "hands_off T ps \<Longrightarrow> quiet ps (latest_wanted T repo args)"
  using quiet_latest [of T ps repo] by (auto simp: quiet_def latest_wanted_def split: option.splits)

lemma quiet_signature [quiet_rules]: "hands_off T ps \<Longrightarrow> quiet ps (verify_signature T repo dir)"
  by (auto simp: quiet_def verify_signature_def run_cmd_keeps split: prod.splits cmd_out.splits if_splits)

lemma quiet_checksum [quiet_rules]: "quiet ps (verify_checksum T asset dir)"
  by (auto simp: quiet_def verify_checksum_def Let_def split: option.splits if_splits)

lemma quiet_unpack [quiet_rules]: "hands_off T ps \<Longrightarrow> quiet ps (unpack T asset dir)"
  by (auto simp: quiet_def unpack_def run_cmd_keeps split: prod.splits cmd_out.splits if_splits)

lemma quiet_trial [quiet_rules]: "hands_off T ps \<Longrightarrow> quiet ps (trial_run T asset dir)"
  by (auto simp: quiet_def trial_run_def Let_def run_cmd_keeps split: prod.splits cmd_out.splits if_splits)

lemma quiet_fetch [quiet_rules]: "hands_off T ps \<Longrightarrow> quiet ps (fetch_verified T repo tag asset dir)"
  unfolding fetch_verified_def download_def by (intro quiet_rules)

lemma restart_keeps:
  assumes "hands_off T ps" and "f \<in> ps" shows "mc_disk (snd (restart_service T m)) f = mc_disk m f"
  using assms by (auto simp: restart_service_def Let_def run_cmd_keeps split: prod.splits)

subsection \<open>What a fetched binary has been through\<close>

definition vouched :: "tools \<Rightarrow> string \<Rightarrow> string \<Rightarrow> string \<Rightarrow> path \<Rightarrow> machine \<Rightarrow> string \<Rightarrow> bool" where
  "vouched T repo tag asset dir m x \<longleftrightarrow>
     (let m1 = snd (download T repo tag asset dir m);
          m2 = snd (verify_signature T repo dir m1);
          untar = run_cmd T [''tar'', ''-C'', path_text dir, ''-xzf'', path_text (path_join dir asset)] m2;
          trial = run_cmd T [path_text (new_binary dir asset), ''--version''] (snd untar);
          signature = fst (run_cmd T (cosign_args repo dir) m1)
      in (\<exists>listing want archive. mc_disk m1 (dir @ [''SHA256SUMS'']) = Some listing
            \<and> expected_sha256 listing asset = Some want
            \<and> mc_disk m1 (path_join dir asset) = Some archive \<and> eq_ignore_case (hex (tl_sha256 T archive)) want)
       \<and> (mc_disk m1 (dir @ [bundle_name]) = None \<or> signature = NoProgram \<or> cmd_succeeds signature)
       \<and> cmd_succeeds (fst untar) \<and> cmd_succeeds (fst trial)
       \<and> mc_disk (snd trial) (new_binary dir asset) = Some x)"

lemma bind_Inr:
  "step_bind p k m = (Inr b, m') \<longleftrightarrow> (\<exists>a m1. p m = (Inr a, m1) \<and> k a m1 = (Inr b, m'))"
  by (auto simp: step_bind_def split: prod.splits sum.splits)

lemma checksum_Inr:
  "verify_checksum T asset dir m = (Inr u, m') \<longleftrightarrow> m' = m \<and>
     (\<exists>listing want archive. mc_disk m (dir @ [''SHA256SUMS'']) = Some listing \<and> utf8_lossy listing = listing
        \<and> expected_sha256 listing asset = Some want
        \<and> mc_disk m (path_join dir asset) = Some archive \<and> eq_ignore_case (hex (tl_sha256 T archive)) want)"
  by (auto simp: verify_checksum_def Let_def opt_filter_def split: option.splits if_splits)

lemma signature_Inr:
  "verify_signature T repo dir m = (Inr u, m') \<Longrightarrow>
     (mc_disk m (dir @ [bundle_name]) = None \<or> fst (run_cmd T (cosign_args repo dir) m) = NoProgram
       \<or> cmd_succeeds (fst (run_cmd T (cosign_args repo dir) m)))"
  by (auto simp: verify_signature_def cmd_succeeds_def split: prod.splits cmd_out.splits if_splits)

lemma unpack_Inr:
  "unpack T asset dir m = (Inr u, m') \<Longrightarrow>
     run_cmd T [''tar'', ''-C'', path_text dir, ''-xzf'', path_text (path_join dir asset)] m = (out, m1) \<Longrightarrow>
     cmd_succeeds out \<and> m' = m1"
  by (auto simp: unpack_def cmd_succeeds_def split: prod.splits cmd_out.splits if_splits)

lemma trial_Inr:
  "trial_run T asset dir m = (Inr bin, m') \<Longrightarrow>
     bin = new_binary dir asset \<and> cmd_succeeds (fst (run_cmd T [path_text bin, ''--version''] m))
     \<and> m' = snd (run_cmd T [path_text bin, ''--version''] m)"
  by (auto simp: trial_run_def Let_def cmd_succeeds_def split: prod.splits cmd_out.splits if_splits)

lemma fetch_vouched:
  assumes "fetch_verified T repo tag asset dir m = (Inr bin, m')" and "mc_disk m' bin = Some x"
  shows "bin = new_binary dir asset \<and> vouched T repo tag asset dir m x"
proof -
  from assms(1) obtain t m1 u2 m2 u3 m3 u4 m4 where
    d: "download T repo tag asset dir m = (Inr t, m1)" and c: "verify_checksum T asset dir m1 = (Inr u2, m2)"
    and s: "verify_signature T repo dir m2 = (Inr u3, m3)" and u: "unpack T asset dir m3 = (Inr u4, m4)"
    and v: "trial_run T asset dir m4 = (Inr bin, m')"
    unfolding fetch_verified_def bind_Inr by blast
  from c have m2: "m2 = m1" by (simp add: checksum_Inr)
  obtain out m5 where tar: "run_cmd T [''tar'', ''-C'', path_text dir, ''-xzf'', path_text (path_join dir asset)] m3 = (out, m5)"
    by fastforce
  from unpack_Inr [OF u tar] tar trial_Inr [OF v] signature_Inr [OF s] c assms(2)
  show ?thesis by (auto simp: vouched_def Let_def d s m2 [symmetric] checksum_Inr)
qed

subsection \<open>The swap\<close>

text \<open>The files of an installation keep apart: the directory for the download, the backup and the staging copy are
  no part of one another.\<close>

definition apart :: "tools \<Rightarrow> path \<Rightarrow> bool" where
  "apart T target \<longleftrightarrow> backup_path target \<noteq> target \<and> staging_path T target \<noteq> target
     \<and> staging_path T target \<noteq> backup_path target
     \<and> (case tl_tempdir T of None \<Rightarrow> True
        | Some dir \<Rightarrow> \<not> under dir target \<and> \<not> under dir (backup_path target) \<and> \<not> under dir (staging_path T target))"

lemma backup_keeps:
  assumes "keep_backup T target m = (kept, m')" and "f \<noteq> backup_path target"
  shows "mc_disk m' f = mc_disk m f"
  using assms by (auto simp: keep_backup_def copy_file_def split: if_splits option.splits sum.splits prod.splits)

lemma backup_kept:
  assumes "keep_backup T target m = (Some b, m')" and "backup_path target \<noteq> target"
  shows "b = backup_path target \<and> mc_disk m' b = mc_disk m target \<and> mc_disk m target \<noteq> None"
  using assms by (auto simp: keep_backup_def copy_file_def split: if_splits option.splits sum.splits prod.splits)

lemma replace_keeps:
  assumes "replace_binary T new target m = (r, m')" and "f \<noteq> target" and "f \<noteq> staging_path T target"
  shows "mc_disk m' f = mc_disk m f"
  using assms
  by (auto simp: replace_binary_def copy_file_def rename_file_def remove_file_def Let_def
      split: if_splits option.splits sum.splits prod.splits)

lemma replace_target:
  assumes "replace_binary T new target m = (r, m')" and "staging_path T target \<noteq> target" and "new \<noteq> staging_path T target"
  shows "mc_disk m' target = (case r of Inl _ \<Rightarrow> mc_disk m target | Inr _ \<Rightarrow> mc_disk m new)
    \<and> (\<forall>u. r = Inr u \<longrightarrow> mc_disk m new \<noteq> None)"
  using assms
  by (auto simp: replace_binary_def copy_file_def rename_file_def remove_file_def Let_def
      split: if_splits option.splits sum.splits prod.splits)

lemma install_target:
  assumes "install T new target m = (r, m')" and ne: "backup_path target \<noteq> target" "staging_path T target \<noteq> target"
    "staging_path T target \<noteq> backup_path target" "new \<noteq> staging_path T target" "new \<noteq> backup_path target"
  shows "case r of Inl _ \<Rightarrow> mc_disk m' target = mc_disk m target
    | Inr kept \<Rightarrow> mc_disk m' target = mc_disk m new \<and> mc_disk m new \<noteq> None
        \<and> (\<forall>b. kept = Some b \<longrightarrow> b = backup_path target \<and> mc_disk m' b = mc_disk m target)"
proof -
  obtain kept m1 where k: "keep_backup T target m = (kept, m1)" by fastforce
  obtain q m2 where q: "replace_binary T new target m1 = (q, m2)" by fastforce
  have r: "r = (case q of Inl e \<Rightarrow> Inl e | Inr _ \<Rightarrow> Inr kept)" "m' = m2"
    using assms(1) by (auto simp: install_def k step_bind_def q split: sum.splits)
  note same = backup_keeps [OF k]
  have new: "mc_disk m1 new = mc_disk m new" and old: "mc_disk m1 target = mc_disk m target"
    using same ne by auto
  show ?thesis
  proof (cases q)
    case (Inl e)
    with replace_target [OF q ne(2,4)] old r show ?thesis by simp
  next
    case (Inr u)
    have "b = backup_path target \<and> mc_disk m2 b = mc_disk m target" if "kept = Some b" for b
    proof -
      from backup_kept [OF k [unfolded that] ne(1)] have b: "b = backup_path target" "mc_disk m1 b = mc_disk m target" by auto
      then have "mc_disk m2 b = mc_disk m1 b" using ne by (intro replace_keeps [OF q]) auto
      with b show ?thesis by simp
    qed
    with replace_target [OF q ne(2,4)] new r Inr show ?thesis by simp
  qed
qed

lemma under_new: "under dir (new_binary dir asset)"
  by (simp add: under_def new_binary_def path_join_def)

lemma remove_dir_keeps [simp]: "\<not> under dir f \<Longrightarrow> mc_disk (remove_dir dir m) f = mc_disk m f"
  by (simp add: remove_dir_def)

lemma swap_target:
  assumes run: "step_bind (fetch_verified T repo tag asset dir) (\<lambda>new. install T new target) m = (r, m')"
    and off: "hands_off T {target, backup_path target}" and apart: "apart T target" and dir: "tl_tempdir T = Some dir"
  shows "case r of Inl _ \<Rightarrow> mc_disk m' target = mc_disk m target
    | Inr kept \<Rightarrow> (\<exists>x. mc_disk m' target = Some x \<and> vouched T repo tag asset dir m x)
        \<and> (\<forall>b. kept = Some b \<longrightarrow> b = backup_path target \<and> mc_disk m' b = mc_disk m target)"
proof -
  obtain q m1 where q: "fetch_verified T repo tag asset dir m = (q, m1)" by fastforce
  have same: "mc_disk m1 f = mc_disk m f" if "f \<in> {target, backup_path target}" for f
    using quietD [OF quiet_fetch [OF off] q that] .
  from apart dir have ne: "backup_path target \<noteq> target" "staging_path T target \<noteq> target"
      "staging_path T target \<noteq> backup_path target"
    and out: "\<not> under dir (backup_path target)" "\<not> under dir (staging_path T target)"
    by (simp_all add: apart_def)
  show ?thesis
  proof (cases q)
    case (Inl e)
    with run q same show ?thesis by (auto simp: step_bind_def)
  next
    case (Inr new)
    have "new = new_binary dir asset"
      using q Inr unfolding fetch_verified_def by (auto simp: bind_Inr dest!: trial_Inr)
    then have "new \<noteq> staging_path T target" "new \<noteq> backup_path target" using out under_new [of dir asset] by auto
    moreover have "install T new target m1 = (r, m')" using run q Inr by (simp add: step_bind_def)
    ultimately have i: "case r of Inl _ \<Rightarrow> mc_disk m' target = mc_disk m1 target
      | Inr kept \<Rightarrow> mc_disk m' target = mc_disk m1 new \<and> mc_disk m1 new \<noteq> None
          \<and> (\<forall>b. kept = Some b \<longrightarrow> b = backup_path target \<and> mc_disk m' b = mc_disk m1 target)"
      using ne by (intro install_target) auto
    with fetch_vouched [OF q [unfolded Inr]] same show ?thesis by (cases r) auto
  qed
qed

lemma apply_target:
  assumes run: "apply_update T repo tag target m = (r, m')" and off: "hands_off T {target, backup_path target}"
    and apart: "apart T target"
  shows "case r of Inl _ \<Rightarrow> mc_disk m' target = mc_disk m target
    | Inr kept \<Rightarrow> (\<exists>dir triple x. tl_tempdir T = Some dir \<and> target_triple (tl_os T) (tl_arch T) = Some triple
          \<and> mc_disk m' target = Some x \<and> vouched T repo tag (asset_name tag triple) dir m x)
        \<and> (\<forall>b. kept = Some b \<longrightarrow> b = backup_path target \<and> mc_disk m' b = mc_disk m target)"
proof (cases "target_triple (tl_os T) (tl_arch T) = None \<or> tl_tempdir T = None")
  case True
  with run show ?thesis by (auto simp: apply_update_def split: option.splits)
next
  case False
  then obtain triple dir where t: "target_triple (tl_os T) (tl_arch T) = Some triple" and dir: "tl_tempdir T = Some dir"
    by auto
  let ?p = "step_bind (fetch_verified T repo tag (asset_name tag triple) dir) (\<lambda>new. install T new target)"
  obtain m1 where p: "?p m = (r, m1)" and m': "m' = remove_dir dir m1"
    using run t dir by (auto simp: apply_update_def split: prod.splits)
  have "mc_disk m' f = mc_disk m1 f" if "f = target \<or> f = backup_path target" for f
    using apart dir that by (auto simp: apart_def m')
  note same = this [of target] this [of "backup_path target"] and sw = swap_target [OF p off apart dir]
  show ?thesis
  proof (cases r)
    case (Inl e)
    with sw same show ?thesis by simp
  next
    case (Inr kept)
    from sw [unfolded Inr sum.case] same(1) have "\<exists>x. mc_disk m' target = Some x \<and> vouched T repo tag (asset_name tag triple) dir m x"
      by simp
    moreover from sw [unfolded Inr sum.case] same(2)
    have "\<forall>b. kept = Some b \<longrightarrow> b = backup_path target \<and> mc_disk m' b = mc_disk m target" by metis
    ultimately show ?thesis unfolding Inr sum.case using t dir by blast
  qed
qed

lemma after_swap_target:
  assumes "after_swap E T cfg args target kept m = (r, m')" and off: "hands_off T {target, backup_path target}"
    and kept: "\<And>b. kept = Some b \<Longrightarrow> b = backup_path target \<and> mc_disk m b = old"
    and "backup_path target \<noteq> target"
  shows "mc_disk m' target = mc_disk m target \<and> (\<forall>e. r = Inl e \<longrightarrow> e = NoBackup \<or> e = RestoreFailed) \<or> mc_disk m' target = old"
proof -
  obtain ok m1 where s: "restart_service T m = (ok, m1)" by fastforce
  have same: "mc_disk m1 f = mc_disk m f" if "f \<in> {target, backup_path target}" for f
    using restart_keeps [OF off that, of m] by (simp add: s)
  show ?thesis
  proof (cases "\<not> ua_no_restart args \<and> ok \<and> \<not> ua_no_health_check args \<and> (\<exists>e. wait_healthy E T cfg = Inl e)")
    case False
    with assms(1) same show ?thesis by (auto simp: after_swap_def s split: if_splits sum.splits)
  next
    case True
    with assms(1) have b: "roll_back T kept target m1 = (r, m')" by (auto simp: after_swap_def s split: if_splits)
    have again: "mc_disk (snd (restart_service T m2)) target = mc_disk m2 target" for m2
      using restart_keeps [OF off, of target] by simp
    show ?thesis
    proof (cases "opt_filter (\<lambda>b. mc_disk m1 b \<noteq> None) kept")
      case None
      with b same show ?thesis by (auto simp: roll_back_def)
    next
      case (Some p)
      then have p: "kept = Some p" by (cases kept) (auto simp: opt_filter_def split: if_splits)
      then have "p = backup_path target" "mc_disk m1 p = old" using kept [OF p] same by auto
      with b Some same again show ?thesis
        by (auto simp: roll_back_def rename_file_def split: option.splits sum.splits prod.splits)
    qed
  qed
qed

subsection \<open>The version fence\<close>

lemma version_fence_iff:
  "version_fence args current tag = Inr () \<and> ua_version args = None \<Longrightarrow>
     \<exists>c n. parse_version current = Some c \<and> parse_version tag = Some n \<and> \<not> version_less n c
       \<and> (fst n = fst c \<or> ua_allow_major args)"
  by (cases "parse_version current"; cases "parse_version tag")
    (auto simp: version_fence_def compare_versions_def split: if_splits)

subsection \<open>The command as a whole\<close>

definition admissible :: "tools \<Rightarrow> string \<Rightarrow> update_args \<Rightarrow> path \<Rightarrow> string \<Rightarrow> bool" where
  "admissible T current args target tag \<longleftrightarrow>
     \<not> ua_check args \<and> (ua_binary args = None \<longrightarrow> \<not> is_source_build T target)
     \<and> (ua_version args = None \<longrightarrow>
          (\<exists>c n. parse_version current = Some c \<and> parse_version tag = Some n \<and> \<not> version_less n c
             \<and> (fst n = fst c \<or> ua_allow_major args)))"

lemma update_to_target:
  assumes run: "update_to E T cfg current args target tag m = (r, m')"
    and off: "hands_off T {target, backup_path target}" and apart: "apart T target"
  shows "mc_disk m' target = mc_disk m target
    \<or> (\<exists>dir triple x. tl_tempdir T = Some dir \<and> target_triple (tl_os T) (tl_arch T) = Some triple
         \<and> mc_disk m' target = Some x \<and> vouched T (update_repo E) tag (asset_name tag triple) dir m x
         \<and> admissible T current args target tag)
      \<and> (\<forall>e. r = Inl e \<longrightarrow> e = NoBackup \<or> e = RestoreFailed)"
proof (cases "\<not> ua_check args \<and> \<not> (ua_version args = None \<and> same_version current tag)
    \<and> \<not> (ua_binary args = None \<and> is_source_build T target) \<and> version_fence args current tag = Inr ()")
  case False
  with run show ?thesis by (auto simp: update_to_def split: if_splits sum.splits)
next
  case True
  obtain q m1 where q: "apply_update T (update_repo E) tag target m = (q, m1)" by fastforce
  note ap = apply_target [OF q off apart]
  from True run q have rest: "(case q of Inl e \<Rightarrow> (Inl e, m1) | Inr kept \<Rightarrow> after_swap E T cfg args target kept m1) = (r, m')"
    by (simp add: update_to_def step_bind_def split: if_splits sum.splits)
  show ?thesis
  proof (cases q)
    case (Inl e)
    with ap rest show ?thesis by simp
  next
    case (Inr kept)
    with ap obtain dir triple x where x: "tl_tempdir T = Some dir" "target_triple (tl_os T) (tl_arch T) = Some triple"
        "mc_disk m1 target = Some x" "vouched T (update_repo E) tag (asset_name tag triple) dir m x"
      and kept: "\<And>b. kept = Some b \<Longrightarrow> b = backup_path target \<and> mc_disk m1 b = mc_disk m target" by auto
    have "admissible T current args target tag"
      unfolding admissible_def using True version_fence_iff [of args current tag] by blast
    moreover have "backup_path target \<noteq> target" using apart by (simp add: apart_def)
    moreover have "after_swap E T cfg args target kept m1 = (r, m')" using rest Inr by simp
    ultimately show ?thesis using after_swap_target [OF _ off kept] x by metis
  qed
qed

lemma update_run_target:
  assumes "update_target T args = Some target" and off: "hands_off T {target, backup_path target}" and apart: "apart T target"
    and run: "update_run E T cfg current args m = (r, m')"
  shows "mc_disk m' target = mc_disk m target
    \<or> (\<exists>tag m0 dir triple x. latest_wanted T (update_repo E) args m = (Inr tag, m0)
         \<and> tl_tempdir T = Some dir \<and> target_triple (tl_os T) (tl_arch T) = Some triple
         \<and> mc_disk m' target = Some x \<and> vouched T (update_repo E) tag (asset_name tag triple) dir m0 x
         \<and> admissible T current args target tag)
      \<and> (\<forall>e. r = Inl e \<longrightarrow> e = NoBackup \<or> e = RestoreFailed)"
proof -
  obtain q m0 where q: "latest_wanted T (update_repo E) args m = (q, m0)" by fastforce
  have same: "mc_disk m0 target = mc_disk m target" using quietD [OF quiet_wanted [OF off] q] by simp
  show ?thesis
  proof (cases q)
    case (Inl e)
    with run assms(1) q same show ?thesis by (simp add: update_run_def step_bind_def)
  next
    case (Inr tag)
    with run assms(1) q have "update_to E T cfg current args target tag m0 = (r, m')"
      by (simp add: update_run_def step_bind_def)
    from update_to_target [OF this off apart] same q Inr show ?thesis by auto
  qed
qed

subsection \<open>Health, backup and cache\<close>

text \<open>A good health check rests on one successful answer before the deadline, from whoever listens there.\<close>

definition saw_success :: "(nat \<Rightarrow> health_reply \<times> nat) \<Rightarrow> nat \<Rightarrow> nat \<Rightarrow> string \<Rightarrow> bool" where
  "saw_success poll deadline now v \<longleftrightarrow>
     (\<exists>t status body took. now \<le> t \<and> t < deadline \<and> poll t = (Replied status body, took)
        \<and> 200 \<le> status \<and> status < 300 \<and> v = version_of body)"

lemma saw_success_later: "saw_success poll deadline (now + k) v \<Longrightarrow> saw_success poll deadline now v"
  unfolding saw_success_def using add_leD1 by blast

lemma wait_healthy_late: "deadline \<le> now \<Longrightarrow> wait_healthy_at poll deadline now seen = Inl seen"
  by (simp add: wait_healthy_at.simps)

lemma wait_healthy_step:
  "now < deadline \<Longrightarrow> wait_healthy_at poll deadline now seen =
     (case poll now of
        (Replied status body, took) \<Rightarrow>
          if 200 \<le> status \<and> status < 300 then Inr (version_of body)
          else wait_healthy_at poll deadline (now + took + 500) (LastStatus status)
      | (NoReply e, took) \<Rightarrow> wait_healthy_at poll deadline (now + took + 500) (LastError (safe_str e 120)))"
  by (subst wait_healthy_at.simps) simp

lemma wait_healthy_saw: "wait_healthy_at poll deadline now seen = Inr v \<Longrightarrow> saw_success poll deadline now v"
proof (induction "deadline - now" arbitrary: now seen rule: less_induct)
  case less
  have now: "now < deadline" using less.prems wait_healthy_late [of deadline now poll seen] by (cases "now < deadline") simp_all
  have later: "saw_success poll deadline now v" if "wait_healthy_at poll deadline (now + took + 500) l = Inr v" for took l
    using less.hyps [OF _ that] now saw_success_later [of poll deadline now "took + 500" v] by (simp add: add.assoc)
  obtain reply took where p: "poll now = (reply, took)" by fastforce
  note step = less.prems [unfolded wait_healthy_step [OF now] p]
  show ?case
  proof (cases reply)
    case (Replied status body)
    show ?thesis
    proof (cases "200 \<le> status \<and> status < 300")
      case True
      with step Replied have "v = version_of body" by simp
      with True p [unfolded Replied] now show ?thesis unfolding saw_success_def by blast
    next
      case False
      with step Replied have "wait_healthy_at poll deadline (now + took + 500) (LastStatus status) = Inr v" by (simp split: if_splits)
      then show ?thesis by (rule later)
    qed
  next
    case (NoReply e)
    with step have "wait_healthy_at poll deadline (now + took + 500) (LastError (safe_str e 120)) = Inr v" by simp
    then show ?thesis by (rule later)
  qed
qed

text \<open>A binary whose name ends in \<open>.prev\<close> is its own backup: making it empties the file, and putting it back
  would leave the new one.\<close>

lemma prev_binary_emptied:
  assumes "backup_path p = p" and "mc_disk m p = Some x" and "\<And>d. tl_copy T p p d = None"
  shows "fst (keep_backup T p m) = Some p \<and> mc_disk (snd (keep_backup T p m)) p = Some []"
  using assms by (simp add: keep_backup_def copy_file_def)

lemma prev_binary: "backup_path [''bin'', ''corrall.prev''] = [''bin'', ''corrall.prev'']"
  by code_simp

lemma tag_cache_roundtrip:
  assumes "\<And>v. json_parse E (json_print E v) = Some v" and "\<And>v. utf8_lossy (json_print E v) = json_print E v" and "i64_range now"
  shows "read_tag_cache E (Some (write_tag_cache E now tag)) = Some (now, tag)"
  using assms by (cases tag) (simp_all add: read_tag_cache_def write_tag_cache_def opt_filter_def)

text \<open>An entry from the future, left by a clock that was set back, is trusted until that time has passed.\<close>

lemma future_entry_trusted:
  assumes "getenv E ''CORRALL_DISABLE_UPDATE_CHECK'' = None" and "read_tag_cache E (mc_disk m cache) = Some (checked, tag)"
    and "now \<le> checked" and "0 \<le> now" and "i64_range checked"
  shows "latest_tag_cached E T cache w now m = (tag, m)"
proof -
  have "i64_wrap (now - checked) = now - checked"
    using assms(3-5) by (intro i64_wrap_id) (auto simp: i64_range_def i64_min_def i64_max_def)
  with assms show ?thesis by (simp add: latest_tag_cached_def CACHE_TTL_MS_def)
qed

text \<open>C29: The binary is only ever replaced by a verified one. Whatever the tools answer and whichever file operation
  fails, the file that is updated either keeps what it held, or holds the program of a release whose archive
  hashes to what \<open>SHA256SUMS\<close> lists for exactly that asset, whose signature was checked when there is one and
  a verifier is installed, and which was run on this machine first; and the release is one that was asked
  for by its tag, or neither older than the running version nor, without \<open>--allow-major\<close>, of a new major version.
  Two things are assumed: that the programs the update starts (\<open>gh\<close>, \<open>tar\<close>, the verifier, the new
  binary) do not themselves write the installed file or its backup, and that the installed file, its backup,
  its staging copy and the download directory are separate files. The last excludes a binary whose own
  name ends in \<open>.prev\<close>, which is its own backup (see the findings).\<close>

theorem update_replaces_only_verified:
  assumes "update_target T args = Some target" and "hands_off T {target, backup_path target}" and "apart T target"
    and "update_run E T cfg current args m = (r, m')" and "mc_disk m' target \<noteq> mc_disk m target"
  shows "\<exists>tag m0 dir triple x. latest_wanted T (update_repo E) args m = (Inr tag, m0)
    \<and> tl_tempdir T = Some dir \<and> target_triple (tl_os T) (tl_arch T) = Some triple
    \<and> mc_disk m' target = Some x \<and> vouched T (update_repo E) tag (asset_name tag triple) dir m0 x
    \<and> admissible T current args target tag"
  using update_run_target [OF assms(1-4)] assms(5) by blast

text \<open>C30: A failed update changes nothing. When \<open>corrall update\<close> ends with an error, the binary is the old one, the
  failed health check after the swap included, from which the backup is put back; the two exceptions are that
  no backup could be made and that the backup could not be put back. This is for a binary that is separate from
  its backup, its staging copy and the download directory, and for tools that leave the binary and
  its backup alone. It does not cover a binary whose name ends in \<open>.prev\<close>: that one is its own
  backup, which empties it (see the findings).\<close>

theorem failed_update_keeps_binary:
  assumes "update_target T args = Some target" and "hands_off T {target, backup_path target}" and "apart T target"
    and "update_run E T cfg current args m = (Inl e, m')" and "e \<noteq> NoBackup" and "e \<noteq> RestoreFailed"
  shows "mc_disk m' target = mc_disk m target"
  using update_run_target [OF assms(1-4)] assms(5,6) by blast

subsection \<open>Closed examples\<close>

definition demo_asset :: string where
  "demo_asset = ''corrall-v2-x86_64-unknown-linux-musl.tar.gz''"

definition demo_exec :: "string list list \<Rightarrow> string list \<Rightarrow> disk \<Rightarrow> cmd_out \<times> disk" where
  "demo_exec before cmd d =
     (if cmd = [] then (NoProgram, d)
      else if hd cmd = ''gh'' then
        (Finished True [] [], d([''t'', ''SHA256SUMS''] \<mapsto> replicate 64 CHR ''0'' @ ''  '' @ demo_asset, [''t'', demo_asset] \<mapsto> ''archive''))
      else if hd cmd = ''tar'' then (Finished True [] [], d(new_binary [''t''] demo_asset \<mapsto> ''new''))
      else (Finished True [] [], d))"

definition demo_tools :: "bool \<Rightarrow> tools" where
  "demo_tools client = \<lparr>tl_exec = demo_exec, tl_copy = (\<lambda>_ _ _. None), tl_chmod = (\<lambda>_. None), tl_rename = (\<lambda>_ _. None),
     tl_tempdir = Some [''t''], tl_random = ''r'', tl_exe = Some [''bin'', ''corrall''], tl_os = ''linux'', tl_arch = ''x86_64'',
     tl_debug = False, tl_sha256 = (\<lambda>_. replicate 32 (CHR 0x00)), tl_client_ok = client, tl_poll = (\<lambda>_ _. (NoReply [], 2000))\<rparr>"

definition demo_machine :: machine where
  "demo_machine = \<lparr>mc_disk = (\<lambda>p. if p = [''bin'', ''corrall''] then Some ''old'' else None), mc_ran = []\<rparr>"

definition demo_args :: "bool \<Rightarrow> update_args" where
  "demo_args no_restart = \<lparr>ua_check = False, ua_version = Some ''v2'', ua_binary = None, ua_allow_major = False,
     ua_no_restart = no_restart, ua_no_health_check = False\<rparr>"

lemma demo_off: "hands_off (demo_tools client) {[''bin'', ''corrall''], backup_path [''bin'', ''corrall'']}"
proof -
  have "backup_path [''bin'', ''corrall''] = [''bin'', ''corrall.prev'']" by code_simp
  then show ?thesis by (simp add: hands_off_def demo_tools_def demo_exec_def new_binary_def path_join_def demo_asset_def)
qed

lemma demo_apart: "apart (demo_tools client) [''bin'', ''corrall'']"
proof -
  have "backup_path [''bin'', ''corrall''] = [''bin'', ''corrall.prev'']" by code_simp
  then show ?thesis by (simp add: apart_def staging_path_def under_def demo_tools_def)
qed

lemma demo_target: "update_target (demo_tools client) (demo_args b) = Some [''bin'', ''corrall'']"
  by (simp add: update_target_def demo_tools_def demo_args_def opt_or_def)

theorem update_replaces_only_verified_witness:
  "\<exists>m0 dir. vouched (demo_tools True) (update_repo ext0) ''v2'' demo_asset dir m0 ''new''"
proof -
  obtain r m' where run: "update_run ext0 (demo_tools True) None ''1.0.0'' (demo_args True) demo_machine = (r, m')" by fastforce
  have "mc_disk (snd (update_run ext0 (demo_tools True) None ''1.0.0'' (demo_args True) demo_machine)) [''bin'', ''corrall''] = Some ''new''"
    by code_simp
  then have new: "mc_disk m' [''bin'', ''corrall''] = Some ''new''" by (simp add: run)
  then have "mc_disk m' [''bin'', ''corrall''] \<noteq> mc_disk demo_machine [''bin'', ''corrall'']" by (simp add: demo_machine_def)
  from update_replaces_only_verified [OF demo_target demo_off demo_apart run this] new
  obtain tag m0 dir triple where v: "latest_wanted (demo_tools True) (update_repo ext0) (demo_args True) demo_machine = (Inr tag, m0)"
      "target_triple ''linux'' ''x86_64'' = Some triple"
      "vouched (demo_tools True) (update_repo ext0) tag (asset_name tag triple) dir m0 ''new''"
    by (auto simp: demo_tools_def)
  have "trim ''v2'' = ''v2''" by code_simp
  with v(1) have "tag = ''v2''" by (simp add: latest_wanted_def demo_args_def)
  moreover have "asset_name ''v2'' triple = demo_asset"
    using v(2) by (simp add: target_triple_def asset_name_def demo_asset_def split: if_splits)
  ultimately show ?thesis using v(3) by auto
qed

theorem failed_update_keeps_binary_witness:
  "mc_disk (snd (update_run ext0 (demo_tools False) None ''1.0.0'' (demo_args False) demo_machine)) [''bin'', ''corrall''] = Some ''old''"
proof -
  obtain r m' where run: "update_run ext0 (demo_tools False) None ''1.0.0'' (demo_args False) demo_machine = (r, m')" by fastforce
  have "fst (update_run ext0 (demo_tools False) None ''1.0.0'' (demo_args False) demo_machine) = Inl RolledBack"
    by code_simp
  then have "r = Inl RolledBack" by (simp add: run)
  with failed_update_keeps_binary [OF demo_target demo_off demo_apart run [unfolded this]]
  have "mc_disk m' [''bin'', ''corrall''] = mc_disk demo_machine [''bin'', ''corrall'']" by simp
  with run show ?thesis by (simp only: snd_conv) (simp add: demo_machine_def)
qed

end
