(* ===== verification/Migrate.thy ===== *)
theory Migrate
  imports Cli Update
begin

text \<open>
  \<open>src/migrate.rs\<close> and \<open>corrall import-claudeacrobat\<close> of \<open>src/cli.rs\<close>: the accounts of another proxy, one JSON
  file each, are mapped to accounts of the configuration and filed there. The directory listing, the file
  contents and the reading of a file by serde are parameters; nothing writes the other program's files.
\<close>

subsection \<open>The other program's files\<close>

record acrobat_profile =
  ap_account_uuid :: "string option"
  ap_email :: "string option"
  ap_display_name :: "string option"
  ap_org_uuid :: "string option"
  ap_org_name :: "string option"
  ap_subscription_type :: "string option"
  ap_rate_limit_tier :: "string option"

record acrobat_tokens =
  at_access_token :: string
  at_refresh_token :: "string option"
  at_expires_at :: int
  at_subscription_type :: "string option"
  at_rate_limit_tier :: "string option"

record account_file =
  af_name :: string
  af_kind :: string
  af_priority :: int
  af_disabled :: bool
  af_credentials_file :: "string option"
  af_profile :: acrobat_profile
  af_oauth :: "acrobat_tokens option"

datatype skip_reason =
    Unreadable | NotAnAccountFile | NoName | NoAccessToken | NoCredentialsFile | UnknownKind string
  | PoolUnnameable string cfg_error

definition some_text :: "string option \<Rightarrow> string option" where
  "some_text s = opt_filter (\<lambda>s. s \<noteq> []) (map_option trim s)"

definition map_credential :: "account_file \<Rightarrow> account_config \<Rightarrow> skip_reason + account_config" where
  "map_credential file a =
     (if af_kind file = ''owned'' then
        (case opt_filter (\<lambda>t. trim (at_access_token t) \<noteq> []) (af_oauth file) of
           None \<Rightarrow> Inl NoAccessToken
         | Some t \<Rightarrow> Inr (a\<lparr>ac_access_token := Some (at_access_token t), ac_refresh_token := some_text (at_refresh_token t),
             ac_expires_at := (if 0 < at_expires_at t then Some (at_expires_at t) else None),
             ac_subscription_type := some_text (at_subscription_type t),
             ac_rate_limit_tier := some_text (at_rate_limit_tier t)\<rparr>))
      else if af_kind file = ''linked'' then
        (case some_text (af_credentials_file file) of
           None \<Rightarrow> Inl NoCredentialsFile
         | Some f \<Rightarrow> Inr (a\<lparr>ac_import_from := Some f\<rparr>))
      else Inl (UnknownKind (af_kind file)))"

definition map_profile :: "acrobat_profile \<Rightarrow> account_config \<Rightarrow> account_config" where
  "map_profile p a =
     a\<lparr>ac_account_uuid := some_text (ap_account_uuid p), ac_org_uuid := some_text (ap_org_uuid p),
       ac_org_name := some_text (ap_org_name p),
       ac_email := opt_or (some_text (ap_email p)) (some_text (ap_display_name p)),
       ac_subscription_type := opt_or (ac_subscription_type a) (some_text (ap_subscription_type p)),
       ac_rate_limit_tier := opt_or (ac_rate_limit_tier a) (some_text (ap_rate_limit_tier p))\<rparr>"

definition map_account :: "account_file \<Rightarrow> skip_reason + account_config" where
  "map_account file =
     (let name = trim (af_name file)
      in if name = [] then Inl NoName
         else res_bind
           (map_credential file (account_config_default\<lparr>ac_name := name, ac_kind := Oauth, ac_priority := af_priority file,
                                   ac_disabled := af_disabled file\<rparr>))
           (\<lambda>a. Inr (map_profile (af_profile file) a)))"

subsection \<open>Reading a state directory\<close>

text \<open>An entry of a directory: \<open>en_dir\<close> is the type of the entry itself, \<open>en_file\<close> follows a link.\<close>

record dir_entry =
  en_name :: string
  en_dir :: bool
  en_file :: bool

record acrobat_fs =
  fs_is_dir :: "path \<Rightarrow> bool"
  fs_list :: "path \<Rightarrow> dir_entry list option"
  fs_read :: "path \<Rightarrow> string option"
  fs_account :: "string \<Rightarrow> account_file option"

record mapped =
  mp_pool :: "string option"
  mp_account :: account_config

definition mapped_kind :: "mapped \<Rightarrow> string" where
  "mapped_kind m = (if ac_import_from (mp_account m) \<noteq> None then ''linked'' else ''owned'')"

record skipped =
  sk_name :: string
  sk_reason :: skip_reason

record acrobat_plan =
  pl_accounts :: "mapped list"
  pl_skipped :: "skipped list"

definition plan_empty :: acrobat_plan where
  "plan_empty = \<lparr>pl_accounts = [], pl_skipped = []\<rparr>"

text \<open>\<open>Path::extension\<close>: what follows the last dot, when something comes before it.\<close>

definition path_extension :: "string \<Rightarrow> string option" where
  "path_extension n = (case rsplit_once CHR ''.'' n of Some (b, e) \<Rightarrow> if b = [] then None else Some e | None \<Rightarrow> None)"

text \<open>A directory that cannot be read is empty. Names that are not UTF-8 are no pools.\<close>

definition acrobat_pools :: "acrobat_fs \<Rightarrow> path \<Rightarrow> string list" where
  "acrobat_pools F pools =
     (case fs_list F pools of
        None \<Rightarrow> []
      | Some es \<Rightarrow> sort (filter (\<lambda>n. utf8_lossy n = n) (map en_name (filter en_dir es))))"

definition account_files :: "acrobat_fs \<Rightarrow> path \<Rightarrow> string list" where
  "account_files F accounts =
     (case fs_list F accounts of
        None \<Rightarrow> []
      | Some es \<Rightarrow> sort (map en_name (filter (\<lambda>e. path_extension (en_name e) = Some ''json'' \<and> en_file e) es)))"

definition read_account :: "acrobat_fs \<Rightarrow> path \<Rightarrow> skip_reason + account_config" where
  "read_account F p =
     (case fs_read F p of
        None \<Rightarrow> Inl Unreadable
      | Some raw \<Rightarrow> (case fs_account F raw of None \<Rightarrow> Inl NotAnAccountFile | Some f \<Rightarrow> map_account f))"

definition collect_file :: "acrobat_fs \<Rightarrow> path \<Rightarrow> string option \<Rightarrow> string \<Rightarrow> acrobat_plan \<Rightarrow> acrobat_plan" where
  "collect_file F accounts pool name p =
     (case read_account F (accounts @ [name]) of
        Inr a \<Rightarrow> p\<lparr>pl_accounts := pl_accounts p @ [\<lparr>mp_pool = pool, mp_account = a\<rparr>]\<rparr>
      | Inl reason \<Rightarrow> p\<lparr>pl_skipped := pl_skipped p @ [\<lparr>sk_name = utf8_lossy name, sk_reason = reason\<rparr>]\<rparr>)"

definition collect_accounts :: "acrobat_fs \<Rightarrow> path \<Rightarrow> string option \<Rightarrow> acrobat_plan \<Rightarrow> acrobat_plan" where
  "collect_accounts F accounts pool = fold (collect_file F accounts pool) (account_files F accounts)"

definition plan_pool :: "acrobat_fs \<Rightarrow> path \<Rightarrow> string \<Rightarrow> acrobat_plan \<Rightarrow> acrobat_plan" where
  "plan_pool F dir name p =
     (let accounts = dir @ [''pools'', name, ''accounts'']
      in case validate_pool_name name of
           Inl e \<Rightarrow> p\<lparr>pl_skipped := pl_skipped p
               @ map (\<lambda>f. \<lparr>sk_name = utf8_lossy f, sk_reason = PoolUnnameable name e\<rparr>) (account_files F accounts)\<rparr>
         | Inr _ \<Rightarrow> collect_accounts F accounts (Some name) p)"

definition migration_plan :: "acrobat_fs \<Rightarrow> path \<Rightarrow> acrobat_plan option" where
  "migration_plan F dir =
     (if \<not> fs_is_dir F dir then None
      else Some (fold (plan_pool F dir) (acrobat_pools F (dir @ [''pools'']))
             (collect_accounts F (dir @ [''accounts'']) None plan_empty)))"

subsection \<open>Where the directory is\<close>

definition DEFAULT_STATE_DIR :: string where
  "DEFAULT_STATE_DIR = ''~/.local/state/claudeacrobat''"

definition acrobat_config_path :: "ext \<Rightarrow> string" where
  "acrobat_config_path E =
     unwrap_or ''.'' (opt_or (opt_filter (starts_with ''/'') (getenv E ''XDG_CONFIG_HOME''))
       (map_option (\<lambda>h. h @ ''/.config'') (home_dir E)))
     @ ''/claudeacrobat/config.json''"

definition state_dir_of :: "ext \<Rightarrow> string option \<Rightarrow> string option" where
  "state_dir_of E raw =
     Option.bind raw (\<lambda>s. Option.bind (json_parse E s) (\<lambda>doc.
       map_option (expand_home E) (opt_filter (\<lambda>d. d \<noteq> []) (map_option trim (get_str ''state_dir'' doc)))))"

definition default_state_dir :: "ext \<Rightarrow> (string \<Rightarrow> string option) \<Rightarrow> string" where
  "default_state_dir E read =
     unwrap_or (expand_home E DEFAULT_STATE_DIR) (state_dir_of E (read (acrobat_config_path E)))"

subsection \<open>Filing the accounts\<close>

definition is_anthropic_oauth :: "account_config \<Rightarrow> bool" where
  "is_anthropic_oauth a \<longleftrightarrow> ac_kind a = Oauth \<and> \<not> is_codex a"

definition acrobat_match :: "account_config \<Rightarrow> config \<Rightarrow> (string \<times> nat) option" where
  "acrobat_match src c =
     opt_or
       (Option.bind (ac_account_uuid src) (\<lambda>au.
          locate_by c (\<lambda>a. is_anthropic_oauth a \<and> ac_account_uuid a = Some au
            \<and> (ac_org_uuid src = None \<or> ac_org_uuid a = ac_org_uuid src))))
       (locate_by c (\<lambda>a. is_anthropic_oauth a \<and> ac_name a = ac_name src))"

definition acrobat_entry :: "account_config \<Rightarrow> account_config \<Rightarrow> account_config" where
  "acrobat_entry src a =
     a\<lparr>ac_name := ac_name src, ac_kind := Oauth, ac_priority := ac_priority src, ac_disabled := ac_disabled src,
       ac_import_from := ac_import_from src, ac_access_token := ac_access_token src,
       ac_refresh_token := ac_refresh_token src, ac_expires_at := ac_expires_at src,
       ac_account_uuid := opt_or (ac_account_uuid src) (ac_account_uuid a),
       ac_org_uuid := opt_or (ac_org_uuid src) (ac_org_uuid a),
       ac_org_name := opt_or (ac_org_name src) (ac_org_name a),
       ac_email := opt_or (ac_email src) (ac_email a),
       ac_subscription_type := opt_or (ac_subscription_type src) (ac_subscription_type a),
       ac_rate_limit_tier := opt_or (ac_rate_limit_tier src) (ac_rate_limit_tier a)\<rparr>"

definition upsert_acrobat :: "string \<Rightarrow> account_config \<Rightarrow> config \<Rightarrow> config \<times> bool" where
  "upsert_acrobat pool src c =
     (case entry_at pool (acrobat_match src c) src c of
        (c1, i, updated) \<Rightarrow> (upd_entry pool i (acrobat_entry src) c1, updated))"

record acrobat_row =
  ar_pool :: string
  ar_account :: account_config

record acrobat_args =
  aa_from :: "string option"
  aa_pool :: "string option"
  aa_dry_run :: bool

text \<open>An account of the same name and of another kind is left alone.\<close>

definition acrobat_taken :: "config \<Rightarrow> account_config \<Rightarrow> bool" where
  "acrobat_taken cfg src =
     (case locate_by cfg (\<lambda>a. ac_name a = ac_name src) of
        None \<Rightarrow> False
      | Some (p, i) \<Rightarrow> \<not> is_anthropic_oauth (account_at cfg p i))"

definition acrobat_rows :: "acrobat_args \<Rightarrow> config \<Rightarrow> acrobat_plan \<Rightarrow> acrobat_row list" where
  "acrobat_rows args cfg plan =
     map (\<lambda>m. \<lparr>ar_pool = unwrap_or (cf_default_pool cfg) (opt_or (aa_pool args) (mp_pool m)), ar_account = mp_account m\<rparr>)
       (filter (\<lambda>m. \<not> acrobat_taken cfg (mp_account m)) (pl_accounts plan))"

fun acrobat_upserts :: "acrobat_row list \<Rightarrow> config \<Rightarrow> edit_error + config" where
  "acrobat_upserts [] c = Inr c"
| "acrobat_upserts (r # rs) c =
     res_bind (target_pool c (Some (ar_pool r))) (\<lambda>(pool, c1).
       acrobat_upserts rs (fst (upsert_acrobat pool (ar_account r) c1)))"

definition acrobat_edit :: "ext \<Rightarrow> (nat \<Rightarrow> string) \<Rightarrow> acrobat_row list \<Rightarrow> config \<Rightarrow> edit_error + config" where
  "acrobat_edit E uuid rows c =
     res_bind (acrobat_upserts rows c) (\<lambda>d.
       let d' = fst (ensure_account_ids uuid d)
       in res_bind (as_edit (config_validate E d')) (\<lambda>_. Inr d'))"

text \<open>What the command does to the file; \<open>None\<close> of the result is a run that found nothing or was dry.\<close>

definition import_claudeacrobat ::
  "'u daemon \<Rightarrow> acrobat_fs \<Rightarrow> (string \<Rightarrow> path) \<Rightarrow> (string \<Rightarrow> string option) \<Rightarrow> acrobat_args \<Rightarrow> file_read
   \<Rightarrow> (edit_error + config option) \<times> file_read" where
  "import_claudeacrobat D F components read args file =
     (let E = da_ext D
      in case open_config D 0 file of
           (Inl e, file1) \<Rightarrow> (Inl e, file1)
         | (Inr cfg, file1) \<Rightarrow>
             (let dir = (case aa_from args of Some d \<Rightarrow> expand_home E d | None \<Rightarrow> default_state_dir E read)
              in case migration_plan F (components dir) of
                   None \<Rightarrow> (Inl (Refused ''no state directory''), file1)
                 | Some plan \<Rightarrow>
                     (let rows = acrobat_rows args cfg plan
                      in if rows = [] \<or> aa_dry_run args then (Inr None, file1)
                         else (case cli_update D 1 (acrobat_edit E (da_uuid D 2) rows) file1 of
                                 (Inl e, file2) \<Rightarrow> (Inl e, file2)
                               | (Inr c, file2) \<Rightarrow> (Inr (Some c), file2)))))"

end
