(* ===== verification/Migrate_Props.thy ===== *)
theory Migrate_Props
  imports Migrate Cli_Moves Launch_Props
begin

text \<open>
  Every file of the other program is accounted for, and filing its accounts touches none of another kind.
\<close>

subsection \<open>The plan\<close>

text \<open>The reference: the files of a state directory, with the pool each is for.\<close>

definition pool_sources :: "acrobat_fs \<Rightarrow> path \<Rightarrow> string \<Rightarrow> (string option \<times> path) list" where
  "pool_sources F dir n = map (\<lambda>f. (Some n, dir @ [''pools'', n, ''accounts'', f])) (account_files F (dir @ [''pools'', n, ''accounts'']))"

definition plan_sources :: "acrobat_fs \<Rightarrow> path \<Rightarrow> (string option \<times> path) list" where
  "plan_sources F dir =
     map (\<lambda>f. (None, dir @ [''accounts'', f])) (account_files F (dir @ [''accounts'']))
     @ concat (map (pool_sources F dir) (acrobat_pools F (dir @ [''pools''])))"

definition nameable :: "string option \<Rightarrow> bool" where
  "nameable pool = (case pool of None \<Rightarrow> True | Some n \<Rightarrow> validate_pool_name n = Inr ())"

fun taken_from :: "acrobat_fs \<Rightarrow> string option \<times> path \<Rightarrow> mapped option" where
  "taken_from F (pool, p) =
     (if nameable pool then (case read_account F p of Inr a \<Rightarrow> Some \<lparr>mp_pool = pool, mp_account = a\<rparr> | Inl _ \<Rightarrow> None)
      else None)"

definition left_out :: "acrobat_fs \<Rightarrow> string option \<times> path \<Rightarrow> string option" where
  "left_out F x = (if taken_from F x = None then Some (utf8_lossy (last (snd x))) else None)"

definition plan_holds :: "acrobat_fs \<Rightarrow> (string option \<times> path) list \<Rightarrow> acrobat_plan \<Rightarrow> bool" where
  "plan_holds F xs p \<longleftrightarrow>
     pl_accounts p = List.map_filter (taken_from F) xs \<and> map sk_name (pl_skipped p) = List.map_filter (left_out F) xs"

lemma map_filter_append: "List.map_filter f (xs @ ys) = List.map_filter f xs @ List.map_filter f ys"
  by (simp add: List.map_filter_def)

lemma collect_file_holds:
  "plan_holds F xs p \<Longrightarrow> nameable pool \<Longrightarrow>
     plan_holds F (xs @ [(pool, accounts @ [f])]) (collect_file F accounts pool f p)"
  by (auto simp: plan_holds_def collect_file_def left_out_def map_filter_append List.map_filter_simps split: sum.splits)

lemma collect_files_holds:
  "plan_holds F xs p \<Longrightarrow> nameable pool \<Longrightarrow>
     plan_holds F (xs @ map (\<lambda>f. (pool, accounts @ [f])) fs) (fold (collect_file F accounts pool) fs p)"
proof (induction fs arbitrary: xs p)
  case (Cons f fs)
  from Cons.IH [OF collect_file_holds [OF Cons.prems, of accounts f] Cons.prems(2)] show ?case by simp
qed simp

lemma unnameable_holds:
  assumes "plan_holds F xs p" and "validate_pool_name n = Inl e"
  shows "plan_holds F (xs @ map (\<lambda>f. (Some n, accounts @ [f])) fs)
    (p\<lparr>pl_skipped := pl_skipped p @ map (\<lambda>f. \<lparr>sk_name = utf8_lossy f, sk_reason = PoolUnnameable n e\<rparr>) fs\<rparr>)"
proof -
  have "List.map_filter (taken_from F) (map (\<lambda>f. (Some n, accounts @ [f])) fs) = []"
    using assms(2) by (induction fs) (simp_all add: List.map_filter_simps nameable_def)
  moreover have "List.map_filter (left_out F) (map (\<lambda>f. (Some n, accounts @ [f])) fs) = map utf8_lossy fs"
    using assms(2) by (induction fs) (simp_all add: List.map_filter_simps nameable_def left_out_def)
  ultimately show ?thesis using assms(1) by (simp add: plan_holds_def map_filter_append comp_def)
qed

lemma plan_pool_holds: "plan_holds F xs p \<Longrightarrow> plan_holds F (xs @ pool_sources F dir n) (plan_pool F dir n p)"
  using collect_files_holds [of F xs p "Some n" "dir @ [''pools'', n, ''accounts'']"]
    unnameable_holds [of F xs p n _ "dir @ [''pools'', n, ''accounts'']"]
  by (auto simp: plan_pool_def pool_sources_def collect_accounts_def Let_def nameable_def split: sum.splits)

lemma plan_pools_holds: "plan_holds F xs p \<Longrightarrow> plan_holds F (xs @ concat (map (pool_sources F dir) ns)) (fold (plan_pool F dir) ns p)"
proof (induction ns arbitrary: xs p)
  case (Cons n ns)
  from Cons.IH [OF plan_pool_holds [OF Cons.prems]] show ?case by simp
qed simp

lemma plan_sources_hold:
  assumes "migration_plan F dir = Some p" shows "plan_holds F (plan_sources F dir) p"
proof -
  have "plan_holds F [] plan_empty" by (simp add: plan_holds_def plan_empty_def List.map_filter_simps)
  from collect_files_holds [OF this, of None "dir @ [''accounts'']"]
  have "plan_holds F (map (\<lambda>f. (None, dir @ [''accounts'', f])) (account_files F (dir @ [''accounts''])))
      (collect_accounts F (dir @ [''accounts'']) None plan_empty)" by (simp add: nameable_def collect_accounts_def)
  from plan_pools_holds [OF this] assms show ?thesis
    by (auto simp: migration_plan_def plan_sources_def split: if_splits)
qed

text \<open>What a mapped account is.\<close>

definition well_mapped :: "account_config \<Rightarrow> bool" where
  "well_mapped a \<longleftrightarrow> is_anthropic_oauth a \<and> trim (ac_name a) \<noteq> [] \<and> ac_id a = None
     \<and> (ac_access_token a = None) = (ac_import_from a \<noteq> None)
     \<and> (\<forall>t. ac_access_token a = Some t \<longrightarrow> trim t \<noteq> []) \<and> (\<forall>f. ac_import_from a = Some f \<longrightarrow> f \<noteq> [])"

lemma some_text_nonempty: "some_text s = Some t \<Longrightarrow> t \<noteq> []"
  by (auto simp: some_text_def opt_filter_def split: if_splits option.splits)

lemma map_account_well: "map_account f = Inr a \<Longrightarrow> well_mapped a"
  by (auto simp: map_account_def map_credential_def map_profile_def well_mapped_def is_anthropic_oauth_def is_codex_def
      account_config_default_def Let_def opt_filter_def trim_trim_nonempty split: if_splits option.splits dest: some_text_nonempty)

lemma read_account_well: "read_account F p = Inr a \<Longrightarrow> well_mapped a"
  by (auto simp: read_account_def split: option.splits dest: map_account_well)


subsection \<open>Accounts of another kind\<close>

definition erase_id :: "account_config \<Rightarrow> account_config" where
  "erase_id a = a\<lparr>ac_id := None\<rparr>"

lemma oauth_erase [simp]: "is_anthropic_oauth (erase_id a) = is_anthropic_oauth a"
  by (simp add: erase_id_def is_anthropic_oauth_def is_codex_def)

definition others :: "config \<Rightarrow> account_config multiset" where
  "others c = filter_mset (\<lambda>a. \<not> is_anthropic_oauth a) (image_mset erase_id (config_accounts c))"

lemma acrobat_match_SomeD:
  "acrobat_match src c = Some (p, i) \<Longrightarrow> i < accounts_in c p \<and> is_anthropic_oauth (account_at c p i)"
  by (auto simp: acrobat_match_def opt_or_def accounts_in_def account_at_def bind_eq_Some_conv
      dest!: locate_by_SomeD split: option.splits)

lemma acrobat_entry_oauth: "is_anthropic_oauth a \<Longrightarrow> is_anthropic_oauth (acrobat_entry src a)"
  by (simp add: is_anthropic_oauth_def is_codex_def acrobat_entry_def)

lemma account_at_in:
  assumes "i < accounts_in c p" shows "account_at c p i \<in># config_accounts c"
proof -
  from assms obtain pc where pc: "map_of (cf_pools c) p = Some pc" "i < length (pc_accounts pc)"
    by (auto simp: accounts_in_def config_pool_def split: option.splits)
  have "pc_accounts pc ! i \<in> set (pc_accounts pc)" using pc(2) by (rule nth_mem)
  with map_of_SomeD [OF pc(1)] have "pc_accounts pc ! i \<in># config_accounts c" unfolding accounts_of_def by auto
  with pc(1) show ?thesis by (simp add: account_at_def config_pool_def)
qed

lemma upsert_acrobat_spares:
  assumes inv: "bt_inv (cf_pools c)" and src: "is_anthropic_oauth src" and r: "upsert_acrobat pool src c = (d, u)"
  shows "bt_inv (cf_pools d) \<and> others d = others c
    \<and> size (config_accounts d) = size (config_accounts c) + (if u then 0 else 1)
    \<and> (\<exists>a \<in># config_accounts d. ac_name a = ac_name src \<and> ac_access_token a = ac_access_token src
         \<and> ac_refresh_token a = ac_refresh_token src \<and> ac_import_from a = ac_import_from src)"
proof -
  obtain c1 i where e: "entry_at pool (acrobat_match src c) src c = (c1, i, u)" and d: "d = upd_entry pool i (acrobat_entry src) c1"
    using r by (auto simp: upsert_acrobat_def split: prod.splits)
  have "j < accounts_in c p" if "acrobat_match src c = Some (p, j)" for p j using acrobat_match_SomeD [OF that] by simp
  note m = entry_at_mset [OF inv e this]
  have at: "bt_inv (cf_pools c1)" "i < accounts_in c1 pool" using m by blast+
  have old: "is_anthropic_oauth (account_at c1 pool i)"
    and acc: "config_accounts c1 = (if u then config_accounts c else add_mset src (config_accounts c))"
    using m src acrobat_match_SomeD [of src c] by (cases "acrobat_match src c"; auto)+
  let ?o = "account_at c1 pool i"
  from upd_entry_mset [OF at, of "acrobat_entry src", folded d]
  have ch: "add_mset ?o (config_accounts d) = add_mset (acrobat_entry src ?o) (config_accounts c1)" by simp
  from arg_cong [OF ch, of "\<lambda>M. filter_mset (\<lambda>a. \<not> is_anthropic_oauth a) (image_mset erase_id M)"]
  have "others d = others c" using old acrobat_entry_oauth [OF old, of src] src acc
    by (simp add: others_def split: if_splits)
  moreover from arg_cong [OF ch, of size] have "size (config_accounts d) = size (config_accounts c) + (if u then 0 else 1)"
    using acc by (simp split: if_splits)
  moreover have "bt_inv (cf_pools d)" using at(1) by (simp add: d upd_entry_inv)
  moreover have "account_at d pool i = acrobat_entry src ?o" "i < accounts_in d pool"
    using upd_entry_mset [OF at, of "acrobat_entry src", folded d] at(2) by simp_all
  then have "\<exists>a \<in># config_accounts d. ac_name a = ac_name src \<and> ac_access_token a = ac_access_token src
         \<and> ac_refresh_token a = ac_refresh_token src \<and> ac_import_from a = ac_import_from src"
    using account_at_in [of i d pool] by (intro bexI [of _ "account_at d pool i"]) (simp_all add: acrobat_entry_def)
  ultimately show ?thesis by blast
qed


lemma target_pool_conserves: "target_pool c pool = Inr (p, d) \<Longrightarrow> bt_inv (cf_pools c) \<Longrightarrow> conserves c d"
  by (auto simp: target_pool_def conserves_refl as_edit_def intro: ensure_pool_conserves split: option.splits sum.splits)

lemma upserts_spare:
  "acrobat_upserts rows c = Inr d \<Longrightarrow> bt_inv (cf_pools c) \<Longrightarrow> list_all (\<lambda>r. is_anthropic_oauth (ar_account r)) rows \<Longrightarrow>
     bt_inv (cf_pools d) \<and> others d = others c \<and> size (config_accounts c) \<le> size (config_accounts d)
     \<and> size (config_accounts d) \<le> size (config_accounts c) + length rows"
proof (induction rows arbitrary: c)
  case (Cons r rs)
  from Cons.prems(1) obtain p c1 where t: "target_pool c (Some (ar_pool r)) = Inr (p, c1)"
    and u: "acrobat_upserts rs (fst (upsert_acrobat p (ar_account r) c1)) = Inr d" by auto
  from target_pool_conserves [OF t Cons.prems(2)] have c1: "bt_inv (cf_pools c1)" "config_accounts c1 = config_accounts c"
    by (simp_all add: conserves_def)
  obtain c2 q where r: "upsert_acrobat p (ar_account r) c1 = (c2, q)" by fastforce
  have "is_anthropic_oauth (ar_account r)" using Cons.prems(3) by simp
  from upsert_acrobat_spares [OF c1(1) this r] have c2: "bt_inv (cf_pools c2)" "others c2 = others c"
    "size (config_accounts c2) = size (config_accounts c) + (if q then 0 else 1)"
    using c1(2) by (simp_all add: others_def)
  have "acrobat_upserts rs c2 = Inr d" "list_all (\<lambda>r. is_anthropic_oauth (ar_account r)) rs" using u r Cons.prems(3) by simp_all
  from Cons.IH [OF this(1) c2(1) this(2)] c2 show ?case by (simp split: if_splits)
qed simp

lemma ids_accounts_erase: "ids_accounts uuid xs st = (ys, st') \<Longrightarrow> map erase_id ys = map erase_id xs"
  by (induction uuid xs st arbitrary: ys st' rule: ids_accounts.induct) (auto simp: erase_id_def split: prod.splits if_splits)

lemma ids_pools_erase:
  "ids_pools uuid ps st = (qs, st') \<Longrightarrow> image_mset erase_id (accounts_of qs) = image_mset erase_id (accounts_of ps)"
proof (induction ps arbitrary: st qs st')
  case (Cons x ps)
  obtain n p where x: "x = (n, p)" by fastforce
  obtain ys st1 where a: "ids_accounts uuid (pc_accounts p) st = (ys, st1)" by (metis prod.exhaust)
  obtain rs st2 where r: "ids_pools uuid ps st1 = (rs, st2)" by (metis prod.exhaust)
  have "image_mset erase_id (mset ys) = image_mset erase_id (mset (pc_accounts p))"
    using ids_accounts_erase [OF a] by (metis mset_map)
  moreover have "qs = (n, p\<lparr>pc_accounts := ys\<rparr>) # rs" using Cons.prems by (simp add: x a r)
  ultimately show ?case using Cons.IH [OF r] by (simp add: x)
qed simp

lemma ids_erase:
  "image_mset erase_id (config_accounts (fst (ensure_account_ids uuid c))) = image_mset erase_id (config_accounts c)"
proof -
  obtain qs n seen ch where r: "ids_pools uuid (cf_pools c) (0, [], False) = (qs, n, seen, ch)" by (metis prod.exhaust)
  from ids_pools_erase [OF r] show ?thesis by (simp add: ensure_account_ids_def r)
qed

subsection \<open>The command\<close>


text \<open>The plan accounts for every file. Of the account files of a state directory, those of pools corrall can name
  that hold a usable account are taken, in the order default pool first, then pools and files by name, each
  with the pool it came from; the rest are reported by name. What is taken is an Anthropic account with a
  name and with exactly one source of credentials, an access token or the file it is linked to.\<close>

theorem plan_accounts_for_every_file:
  assumes "migration_plan F dir = Some p"
  shows "pl_accounts p = List.map_filter (taken_from F) (plan_sources F dir)
    \<and> map sk_name (pl_skipped p) = List.map_filter (left_out F) (plan_sources F dir)
    \<and> length (pl_accounts p) + length (pl_skipped p) = length (plan_sources F dir)
    \<and> list_all (\<lambda>m. well_mapped (mp_account m) \<and> nameable (mp_pool m)) (pl_accounts p)"
proof -
  have h: "pl_accounts p = List.map_filter (taken_from F) (plan_sources F dir)"
      "map sk_name (pl_skipped p) = List.map_filter (left_out F) (plan_sources F dir)"
    using plan_sources_hold [OF assms] by (simp_all add: plan_holds_def)
  have "length (List.map_filter (taken_from F) xs) + length (List.map_filter (left_out F) xs) = length xs" for xs
    by (induction xs) (auto simp: List.map_filter_simps left_out_def split: option.splits)
  with h have "length (pl_accounts p) + length (pl_skipped p) = length (plan_sources F dir)" by (metis length_map)
  moreover have "well_mapped (mp_account m) \<and> nameable (mp_pool m)" if "taken_from F x = Some m" for x m
    using that read_account_well [of F "snd x"] by (cases x) (auto split: if_splits sum.splits)
  then have "list_all (\<lambda>m. well_mapped (mp_account m) \<and> nameable (mp_pool m)) (pl_accounts p)"
    unfolding h(1) by (auto simp: list_all_iff List.map_filter_def)
  ultimately show ?thesis using h by blast
qed

text \<open>\<open>corrall login\<close> looks for the name among all accounts. Under the name of a Codex account it takes that
  account over and leaves its provider: the entry then is a Codex account with the Anthropic tokens.\<close>

lemma login_takes_over_codex:
  assumes "bt_inv (cf_pools c)" and "login_match c name prof = Some (p, j)" and "is_codex (account_at c p j)"
    and "upsert_oauth_at pool name t prof c = (d, i, u)"
  shows "is_codex (account_at d pool i) \<and> ac_access_token (account_at d pool i) = Some (tk_access t)"
proof -
  let ?new = "account_config_default\<lparr>ac_name := name, ac_kind := Oauth\<rparr>"
  obtain c1 where e: "entry_at pool (login_match c name prof) ?new c = (c1, i, u)" and d: "d = upd_entry pool i (login_entry name t prof) c1"
    using assms(4) by (auto simp: upsert_oauth_at_def split: prod.splits)
  have "j' < accounts_in c p'" if "login_match c name prof = Some (p', j')" for p' j' using login_match_SomeD [OF that] by simp
  note m = entry_at_mset [OF assms(1) e this]
  then have at: "bt_inv (cf_pools c1)" "i < accounts_in c1 pool" "account_at c1 pool i = account_at c p j"
    using assms(2) by auto
  from upd_entry_mset [OF at(1,2), of "login_entry name t prof", folded d] at(3)
  have "account_at d pool i = login_entry name t prof (account_at c p j)" by simp
  with assms(3) show ?thesis by (cases prof) (simp_all add: is_codex_def login_entry_def Let_def)
qed


subsection \<open>Closed examples\<close>

definition demo_file :: account_file where
  "demo_file = \<lparr>af_name = ''me'', af_kind = ''owned'', af_priority = 3, af_disabled = False, af_credentials_file = None,
     af_profile = \<lparr>ap_account_uuid = None, ap_email = None, ap_display_name = None, ap_org_uuid = None, ap_org_name = None,
       ap_subscription_type = None, ap_rate_limit_tier = None\<rparr>,
     af_oauth = Some \<lparr>at_access_token = ''t'', at_refresh_token = None, at_expires_at = 0, at_subscription_type = None,
       at_rate_limit_tier = None\<rparr>\<rparr>"

definition demo_fs :: acrobat_fs where
  "demo_fs = \<lparr>fs_is_dir = (\<lambda>_. True),
     fs_list = (\<lambda>p. if p = [''s'', ''accounts''] then Some [\<lparr>en_name = ''a.json'', en_dir = False, en_file = True\<rparr>,
       \<lparr>en_name = ''notes.txt'', en_dir = False, en_file = True\<rparr>] else None),
     fs_read = (\<lambda>_. Some ''raw''), fs_account = (\<lambda>_. Some demo_file)\<rparr>"

definition demo_mapped :: account_config where
  "demo_mapped = account_config_default\<lparr>ac_name := ''me'', ac_priority := 3, ac_access_token := Some ''t''\<rparr>"

lemma demo_sources: "plan_sources demo_fs [''s''] = [(None, [''s'', ''accounts'', ''a.json''])]"
  by code_simp

lemma demo_plan: "migration_plan demo_fs [''s''] = Some \<lparr>pl_accounts = [\<lparr>mp_pool = None, mp_account = demo_mapped\<rparr>], pl_skipped = []\<rparr>"
  by code_simp

theorem plan_accounts_for_every_file_witness:
  "\<exists>p. migration_plan demo_fs [''s''] = Some p \<and> length (pl_accounts p) + length (pl_skipped p) = 1"
proof -
  let ?p = "\<lparr>pl_accounts = [\<lparr>mp_pool = None, mp_account = demo_mapped\<rparr>], pl_skipped = []\<rparr>"
  have "length (pl_accounts ?p) + length (pl_skipped ?p) = length (plan_sources demo_fs [''s''])"
    using plan_accounts_for_every_file [OF demo_plan] by blast
  with demo_plan show ?thesis unfolding demo_sources by auto
qed

lemma demo_edit:
  "\<exists>d. acrobat_edit ext0 (\<lambda>_. ''id'') [\<lparr>ar_pool = ''default'', ar_account = demo_mapped\<rparr>] (config_default ''k'') = Inr d"
proof -
  let ?c = "config_default ''k''" and ?a = "(acrobat_entry demo_mapped demo_mapped)\<lparr>ac_id := Some ''id''\<rparr>"
  have v: "validate_pool_name ''default'' = Inr ()" by code_simp
  have cfg: "cf_pools ?c = [(''default'', pool_default)]" by (simp add: config_default_def DEFAULT_POOL_def)
  have "position P [] = None" for P :: "account_config \<Rightarrow> bool" by (simp add: position_None)
  then have none: "acrobat_match demo_mapped ?c = None"
    by (auto simp: acrobat_match_def locate_by_def config_pool_def cfg pool_default_def bind_eq_None_conv split: if_splits)
  have "target_pool ?c (Some ''default'') = Inr (''default'', ?c)"
    using v by (simp add: target_pool_def as_edit_def ensure_pool_def cfg)
  then have "acrobat_upserts [\<lparr>ar_pool = ''default'', ar_account = demo_mapped\<rparr>] ?c
      = Inr (upd_entry ''default'' 0 (acrobat_entry demo_mapped) (push_account ''default'' demo_mapped ?c))"
    by (simp add: upsert_acrobat_def none entry_at_def accounts_in_def config_pool_def cfg pool_default_def)
  moreover have "fst (ensure_account_ids (\<lambda>_. ''id'') (upd_entry ''default'' 0 (acrobat_entry demo_mapped) (push_account ''default'' demo_mapped ?c)))
      = ?c\<lparr>cf_pools := [(''default'', pool_default\<lparr>pc_accounts := [?a]\<rparr>)]\<rparr>"
    by (simp add: ensure_account_ids_def upd_entry_def upd_pool_def push_account_def config_pool_def cfg id_is_fresh_def
        pool_default_def acrobat_entry_def demo_mapped_def account_config_default_def)
  moreover have "good_config ext0 (?c\<lparr>cf_pools := [(''default'', pool_default\<lparr>pc_accounts := [?a]\<rparr>)]\<rparr>)"
  proof (rule good_config_pools [of ext0 ?c])
    show "good_config ext0 ?c" using demo_config_valid by (simp add: good_config_def)
    have "trim ''me'' \<noteq> []" by code_simp
    then have "good_account ext0 ?a" by (simp add: good_account_iff acrobat_entry_def demo_mapped_def account_config_default_def)
    with v show "good_pool ext0 np" if "np \<in> set (cf_pools (?c\<lparr>cf_pools := [(''default'', pool_default\<lparr>pc_accounts := [?a]\<rparr>)]\<rparr>))" for np
      using that by (simp add: good_pool_iff) (simp add: pool_default_def)
  qed (simp_all add: same_but_pools_def config_default_def DEFAULT_POOL_def)
  ultimately show ?thesis by (simp add: acrobat_edit_def Let_def as_edit_def good_config_def del: acrobat_upserts.simps)
qed


end
