(* ===== verification/Forward_Balance.thy ===== *)
theory Forward_Balance
  imports Forward_Props
begin

text \<open>
  The slots and open requests a request takes, and that it gives them back on every way out of
  \<open>forward\<close>: \<open>SlotGuard\<close> and \<open>OpenRequest\<close> of \<open>src/manager.rs\<close> drop on every path of
  \<open>src/proxy/forward.rs\<close>, except that a stream keeps its open request until its relay ends.
\<close>

text \<open>What an account has taken: the slots in flight and the open requests.\<close>

definition load :: "fleet \<Rightarrow> string \<Rightarrow> (nat \<times> nat) option" where
  "load f i = map_option (\<lambda>a. (a_in_flight a, a_open a)) (fleet_account f i)"

definition steady :: "(fleet \<Rightarrow> fleet) \<Rightarrow> bool" where
  "steady h \<longleftrightarrow> (\<forall>f. load (h f) = load f)"

definition steady_try :: "attempt_world \<Rightarrow> bool" where
  "steady_try w \<longleftrightarrow> (\<forall>k. steady (aw_env w k))"

definition steady_round :: "round_world \<Rightarrow> bool" where
  "steady_round rw \<longleftrightarrow> steady (rw_env rw) \<and> steady (rw_env_end rw) \<and> steady_try (rw_try rw)"

lemma steady_worlds [simp]:
  "steady h \<Longrightarrow> load (h f) = load f"
  "steady_try w \<Longrightarrow> load (aw_env w k f) = load f"
  "steady_round rw \<Longrightarrow> load (rw_env rw f) = load f" "steady_round rw \<Longrightarrow> load (rw_env_end rw f) = load f"
  by (simp_all add: steady_def steady_try_def steady_round_def)

subsection \<open>The operations that take nothing\<close>

lemma load_upd:
  assumes "\<And>a. a_id (g a) = a_id a \<and> a_in_flight (g a) = a_in_flight a \<and> a_open (g a) = a_open a"
  shows "load (upd_account i g f) = load f"
  using assms by (auto simp: load_def fun_eq_iff fleet_account_upd option.map_comp comp_def)

lemma load_frame [simp]:
  "load (fl_probe_update u f) = load f" "load (fl_dimension_usage_update d f) = load f"
  "load (fl_client_usage_update c f) = load f" "load (fl_sessions_update s f) = load f"
  by (simp_all add: load_def fleet_account_def fun_eq_iff)

lemma observe_load:
  "a_in_flight (observe_account E th h now a) = a_in_flight a \<and> a_open (observe_account E th h now a) = a_open a"
  by (simp add: observe_account_def learn_weekly_def count_answered_def read_quota_headers_def Let_def
      split: provider.split option.split)

lemma load_reports [simp]:
  "load (snd (update_quota E i h now f)) = load f" "load (hold i secs quot now f) = load f"
  "load (mark_rate_limited i secs now f) = load f" "load (mark_quota_exhausted i secs now f) = load f"
  "load (snd (note_headerless_429 i now f)) = load f" "load (clear_rate_limited i f) = load f"
  "load (mark_entitlement_denied i now f) = load f" "load (mark_error i m f) = load f"
  "load (record_failure i f) = load f" "load (record_session session i model now f) = load f"
  "load (record_token_usage_dims E i session client dims model usage now f) = load f"
  "load (bill_usage E info i u now f) = load f"
  using observe_load observe_fn.g_id
  by (simp_all add: update_quota_def hold_def mark_rate_limited_def mark_quota_exhausted_def note_headerless_429_def
      clear_rate_limited_def lift_hold_def hold_account_def mark_entitlement_denied_def mark_error_def record_failure_def
      count_failed_def record_session_def record_token_usage_dims_def bill_usage_def load_upd Let_def split: option.split)

lemma token_fn_load:
  "a_in_flight (error_account m a) = a_in_flight a \<and> a_open (error_account m a) = a_open a"
  "a_in_flight (install_tokens rt t now a) = a_in_flight a \<and> a_open (install_tokens rt t now a) = a_open a"
  "a_in_flight (reject_account on_fail rt now a) = a_in_flight a \<and> a_open (reject_account on_fail rt now a) = a_open a"
  "a_in_flight (adopt_file fresh a) = a_in_flight a \<and> a_open (adopt_file fresh a) = a_open a"
  by (simp_all add: error_account_def install_tokens_def reject_account_def adopt_file_def revive_account_def)

lemma load_token_steps [simp]:
  "load (snd (refresh_prepare i force on_fail now f)) = load f" "load (refresh_settle i on_fail rt r now f) = load f"
  "load (snd (reread_settle i path held fresh now f)) = load f"
  by (simp_all add: refresh_prepare_def refresh_settle_def reread_settle_def load_upd token_fn_load Let_def
      split: option.split sum.split)

lemma load_token:
  assumes "steady e1" "steady e2"
  shows "load (rr_fleet (ensure_token_fresh I refresh e1 e2 t0 t1 t2 i force on_fail f)) = load f"
proof -
  have link: "load (snd (reread_linked I i path force t0 t1 e1 f)) = load f" for path
    using assms(1) by (simp add: reread_linked_def split: option.split)
  obtain rt h where p: "refresh_prepare i force on_fail t0 f = (rt, h)" by fastforce
  have "load h = load f" using load_token_steps(1) [of i force on_fail t0 f] by (simp add: p)
  with link assms show ?thesis
    by (simp add: ensure_token_fresh_def p case_prod_unfold Let_def split: option.split bool.split)
qed

lemma load_try_token [simp]:
  "steady_try w \<Longrightarrow>
   load (rr_fleet (ensure_token_fresh I refresh (aw_env w a) (aw_env w b) t0 t1 t2 i force on_fail f)) = load f"
  by (intro load_token) (simp_all add: steady_try_def)

lemma load_core: "fleet_core f = fleet_core g \<Longrightarrow> load f = load g"
proof -
  assume c: "fleet_core f = fleet_core g"
  have "load h i = map_option (\<lambda>a. (a_in_flight a, a_open a)) (fleet_account (fleet_core h) i)" for h i
    by (cases "fleet_account h i") (simp_all add: load_def core_fleet_account, simp add: core_def)
  with c show "load f = load g" by (auto simp: fun_eq_iff)
qed

lemma load_select [simp]:
  assumes "distinct (fleet_ids f)"
  shows "load (snd (select_account E req now f)) = load f"
proof -
  have "a_in_flight (clear_expired_account E th now a) = a_in_flight a \<and> a_open (clear_expired_account E th now a) = a_open a"
    for th a by (cases "a_rate_limited_until a") (simp_all add: clear_expired_account_def Let_def)
  then have "load (clear_expired_all E now f) = load f"
    by (simp add: load_def fun_eq_iff fleet_account_clear option.map_comp comp_def)
  with load_core [OF select_account_core [OF assms]] show ?thesis by simp
qed

subsection \<open>A slot and an open request\<close>

definition taken :: "nat \<Rightarrow> nat \<Rightarrow> string \<Rightarrow> fleet \<Rightarrow> string \<Rightarrow> (nat \<times> nat) option" where
  "taken n k i f = (load f)(i := map_option (\<lambda>(a, b). (a + n, b + k)) (load f i))"

lemma taken_none [simp]: "taken 0 0 i f = load f"
  by (cases "load f i") (auto simp: taken_def fun_eq_iff)

text \<open>No account is at the top of a 32-bit counter.\<close>

definition in_range :: "fleet \<Rightarrow> bool" where
  "in_range f \<longleftrightarrow> (\<forall>i a b. load f i = Some (a, b) \<longrightarrow> a < 2 ^ 32 - 1 \<and> b < 2 ^ 32 - 1)"

lemma in_range_load: "load g = load f \<Longrightarrow> in_range g = in_range f"
  by (simp add: in_range_def)

lemma load_upd_at:
  assumes "\<And>a. a_id (g a) = a_id a" and "\<And>a. (a_in_flight (g a), a_open (g a)) = u (a_in_flight a, a_open a)"
  shows "load (upd_account i g f) = (load f)(i := map_option u (load f i))"
  using assms by (auto simp: load_def fun_eq_iff fleet_account_upd option.map_comp comp_def)

lemma slot_loads:
  "load (upd_account i admit_account f) = (load f)(i := map_option (\<lambda>(a, b). (u32_inc a, b)) (load f i))"
  "load (upd_account i admit_end_ramp f) = (load f)(i := map_option (\<lambda>(a, b). (u32_inc a, b)) (load f i))"
  "load (release_slot i f) = (load f)(i := map_option (\<lambda>(a, b). (a - 1, b)) (load f i))"
  "load (open_request i f) = (load f)(i := map_option (\<lambda>(a, b). (a, u32_inc b)) (load f i))"
  "load (close_request i f) = (load f)(i := map_option (\<lambda>(a, b). (a, b - 1)) (load f i))"
  by (simp_all add: load_upd_at release_slot_def open_request_def close_request_def admit_account_def
      admit_end_ramp_def drop_slot_def)

lemma u32_inc_small: "n < 2 ^ 32 - 1 \<Longrightarrow> u32_inc n = Suc n"
  by (simp add: u32_inc_def)

lemma try_admit_load:
  assumes "in_range f"
  shows "case try_admit i now f of ((ok, _), g) \<Rightarrow> load g = (if ok then taken 1 0 i f else load f)"
proof -
  have inc: "(load f)(i := map_option (\<lambda>(a, b). (u32_inc a, b)) (load f i)) = taken 1 0 i f"
    using assms by (cases "load f i") (auto simp: taken_def in_range_def u32_inc_small fun_eq_iff)
  have "load f = taken 1 0 i f" if "fleet_account f i = None"
    using that by (auto simp: taken_def load_def fun_eq_iff)
  with inc show ?thesis by (simp add: try_admit_def slot_loads Let_def split: option.split)
qed

lemma admit_load: "in_range f \<Longrightarrow> load (admit i now f) = taken 1 0 i f"
proof -
  have "in_range f \<Longrightarrow> admit_loop n i now f = Some (t, g) \<Longrightarrow> load g = taken 1 0 i f" for n now t f g
  proof (induction n arbitrary: now f)
    case (Suc n)
    obtain ok k h where r: "try_admit i now f = ((ok, k), h)" by (metis prod.collapse)
    note h = try_admit_load [OF Suc.prems(1), of i now, unfolded r]
    show ?case
    proof (cases ok)
      case True
      with Suc.prems(2) h show ?thesis by (simp add: r)
    next
      case False
      with h have "load h = load f" by simp
      with Suc.IH [of h "now + int k"] Suc.prems False show ?thesis
        by (simp add: r in_range_load [of h f] taken_def)
    qed
  qed simp
  with admit_granted [of i now f] show "in_range f \<Longrightarrow> load (admit i now f) = taken 1 0 i f" by blast
qed

lemma release_load: "load g = taken 1 k i f \<Longrightarrow> load (release_slot i g) = taken 0 k i f"
  by (cases "load f i") (auto simp: slot_loads taken_def fun_eq_iff)

lemma open_load: "in_range f \<Longrightarrow> load g = taken n 0 i f \<Longrightarrow> load (open_request i g) = taken n 1 i f"
  by (cases "load f i") (auto simp: slot_loads taken_def fun_eq_iff in_range_def u32_inc_small)

lemma close_load: "load g = taken 0 1 i f \<Longrightarrow> load (close_request i g) = load f"
  by (cases "load f i") (auto simp: slot_loads taken_def fun_eq_iff)

subsection \<open>A try\<close>

lemma load_error_body [simp]:
  "(\<And>b. load (ar_fleet (k b)) = load f) \<Longrightarrow> load (ar_fleet (with_error_body res f k)) = load f"
  by (simp add: with_error_body_def split: option.split)

lemma load_on_reply:
  assumes "steady_try w"
  shows "load (ar_fleet (on_reply E I info w sel rep f)) = load f"
proof -
  note w [simp] = assms
  have rate: "load (ar_fleet (on_rate_limit E info w i parsed f)) = load f" for i parsed f
    by (simp add: on_rate_limit_def at_section_def case_prod_unfold Let_def)
  have "load (read_reply E w i res f) = load f" for i res f
    by (simp add: read_reply_def at_section_def Let_def)
  moreover have "load (ar_fleet (on_429 E info w i res f)) = load f" for i res f
    using rate by (simp add: on_429_def at_section_def Let_def)
  moreover have "load (ar_fleet (on_401 I w sel res f)) = load f" for res f
    by (simp add: on_401_def Let_def split: option.split)
  moreover have "load (ar_fleet (on_403 E info w i res f)) = load f" for i res f
    by (simp add: on_403_def at_section_def)
  moreover have "load (ar_fleet (on_5xx info res f)) = load f" for res f
    by (simp add: on_5xx_def)
  moreover have "load (ar_fleet (on_relay E info w i res f)) = load f" for i res f
    by (simp add: on_relay_def at_section_def Let_def split: option.split)
  ultimately show ?thesis by (simp add: on_reply_def on_status_def Let_def split: reply.split)
qed

lemma no_stream:
  "ar_stream (on_rate_limit E info w i parsed f) = None" "ar_stream (on_401 I w sel res f) = None"
  "ar_stream (on_403 E info w i res f) = None" "ar_stream (on_5xx info res f) = None"
  by (simp_all add: on_rate_limit_def on_401_def on_403_def on_5xx_def with_error_body_def Let_def case_prod_unfold
      split: option.split)

lemma no_stream_429: "ar_stream (on_429 E info w i res f) = None"
  by (simp add: on_429_def with_error_body_def no_stream Let_def split: option.split)

lemma relay_stream_done:
  "ar_stream (on_relay E info w i res f) \<noteq> None \<Longrightarrow> \<exists>r. ar_outcome (on_relay E info w i res f) = Some (Done r)"
  by (cases "is_sse res"; cases "read_buffered (ur_chunks res)") (simp_all add: on_relay_def Let_def)

lemma stream_is_done:
  "ar_stream (on_reply E I info w sel rep f) \<noteq> None \<Longrightarrow> \<exists>r. ar_outcome (on_reply E I info w sel rep f) = Some (Done r)"
  using relay_stream_done
  by (cases rep) (auto simp: on_reply_def on_status_def no_stream no_stream_429 Let_def split: if_splits)

lemma stream_outcome:
  "ar_stream (run_attempt E I info w sel headers body f) \<noteq> None \<Longrightarrow>
   \<exists>r. ar_outcome (run_attempt E I info w sel headers body f) = Some (Done r)"
  by (cases E I info w sel headers body f rule: run_attempt_cases) (auto intro!: stream_is_done)

text \<open>A try gives back what it took, except for the open request of the stream it leaves.\<close>

lemma run_attempt_load:
  assumes "steady_try w" and "in_range f" and "ar_outcome (run_attempt E I info w sel headers body f) \<noteq> None"
  shows "load (ar_fleet (run_attempt E I info w sel headers body f)) =
      (if ar_stream (run_attempt E I info w sel headers body f) = None then load f else taken 0 1 (sel_id sel) f)"
proof -
  note w [simp] = assms(1)
  let ?i = "sel_id sel"
  obtain c g where g: "fresh_credential I w sel f = (c, g)" by fastforce
  have "load g = load f" using g by (auto simp: fresh_credential_def Let_def split: account_type.splits)
  then have rg: "in_range (aw_env w 3 g)" and tg: "taken n k i (aw_env w 3 g) = taken n k i f" for n k i
    using assms(2) in_range_load [of "aw_env w 3 g" f] by (simp_all add: taken_def)
  let ?a = "at_section w 3 (admit ?i) g"
  have a: "load ?a = taken 1 0 ?i f" using admit_load [OF rg] tg by (simp add: at_section_def)
  show ?thesis
  proof (cases c)
    case None
    with g \<open>load g = load f\<close> show ?thesis by (simp add: run_attempt_def)
  next
    case (Some cred)
    show ?thesis
    proof (cases "at_section w 4 (recheck_slot E info ?i) ?a")
      case (Some why)
      have "load (release_slot ?i (aw_env w 4 ?a)) = taken 0 0 ?i f" using a by (intro release_load) simp
      with Some g \<open>c = Some cred\<close> show ?thesis by (simp add: run_attempt_def Let_def)
    next
      case None
      let ?o = "open_request ?i (aw_env w 5 (aw_env w 4 ?a))"
      let ?h = "release_slot ?i (aw_env w 6 ?o)"
      let ?rep = "aw_reply w (outgoing_request E info sel cred headers body)"
      let ?r = "on_reply E I info w sel ?rep ?h"
      have "load ?o = taken 1 1 ?i f" using a by (intro open_load assms(2)) simp
      then have h: "load ?h = taken 0 1 ?i f" by (intro release_load) simp
      have run: "run_attempt E I info w sel headers body f =
          (close_open w ?i ?r)\<lparr>ar_sent := Some (outgoing_request E info sel cred headers body), ar_reply := Some ?rep\<rparr>"
        using None g \<open>c = Some cred\<close> by (simp add: run_attempt_def Let_def)
      have "load (close_request ?i (aw_env w 14 (ar_fleet ?r))) = load f"
        using h load_on_reply [OF w] by (intro close_load) simp
      moreover have "ar_outcome ?r \<noteq> None" using assms(3) run by simp
      ultimately show ?thesis using h load_on_reply [OF w] unfolding run by (auto simp: close_open_def)
    qed
  qed
qed

subsection \<open>A request\<close>

text \<open>The load a request leaves: that of the fleet it started on, and the open request of its stream.\<close>

definition left_load :: "fleet \<Rightarrow> forward_result \<Rightarrow> bool" where
  "left_load f r \<longleftrightarrow>
     load (fs_fleet (fr_state r)) = (case fr_stream r of None \<Rightarrow> load f | Some (sel, _) \<Rightarrow> taken 0 1 (sel_id sel) f)
     \<and> (case fr_stream r of None \<Rightarrow> True | Some (sel, _) \<Rightarrow> load f (sel_id sel) \<noteq> None)"

lemma after_try_load:
  assumes "steady_round rw" and "ar_outcome run \<noteq> None \<Longrightarrow> load (ar_fleet run) =
      (if ar_stream run = None then load f else taken 0 1 (sel_id sel) f)"
    and "ar_stream run \<noteq> None \<Longrightarrow> \<exists>r. ar_outcome run = Some (Done r)" and "fs_fleet st = ar_fleet run"
    and "load f (sel_id sel) \<noteq> None"
  shows "case after_try info rw sel run st of
      Return r \<Rightarrow> left_load f r | Continue st' \<Rightarrow> load (fs_fleet st') = load f | Never \<Rightarrow> True"
  using assms
  by (cases "ar_stream run"; cases "ar_outcome run")
    (auto simp: after_try_def conclude_def left_load_def Let_def split: option.split attempt.split)

lemma step_load:
  assumes "steady_round rw" "round_ok E I rw" "fleet_wf f0" "moves E I f0 (fs_fleet st)" "in_range f"
    and "load (fs_fleet st) = load f"
  shows "case forward_step E I info deadline headers body rw st of
      Return r \<Rightarrow> left_load f r | Continue st' \<Rightarrow> load (fs_fleet st') = load f | Never \<Rightarrow> True"
proof -
  obtain s g where s: "round_select E info rw st = (s, g)" by fastforce
  have d: "distinct (fleet_ids (rw_env rw (fs_fleet st)))"
    using moves_wf [OF move_world(2) [OF assms(2,4)] assms(3)] by (simp add: fleet_wf_def)
  from load_select [OF d, of E "round_request info (fs_tried st)" "rw_now rw"] s assms(1,6)
  have g: "load g = load f" by (simp add: round_select_def)
  show ?thesis
  proof (cases s)
    case (SelAccount sel)
    let ?run = "run_attempt E I info (rw_try rw) sel headers body g"
    have r: "in_range g" and t: "taken 0 1 i g = taken 0 1 i f" for i
      using assms(5) g in_range_load [OF g] by (simp_all add: taken_def)
    have st: "steady_try (rw_try rw)" using assms(1) by (simp add: steady_round_def)
    have "load (ar_fleet ?run) = (if ar_stream ?run = None then load f else taken 0 1 (sel_id sel) f)"
      if "ar_outcome ?run \<noteq> None"
      using run_attempt_load [OF st r that] g t by simp
    moreover have "load f (sel_id sel) \<noteq> None"
      using selected_snapshot [OF d s [unfolded SelAccount]] g [symmetric] by (auto simp: load_def)
    ultimately show ?thesis
      using after_try_load [OF assms(1) _ stream_outcome, where f = f and sel = sel and info = info and
          st = "tried_state info sel ?run (after_select g st)"]
      by (simp add: forward_step_eq s SelAccount Let_def)
  qed (use g in \<open>auto simp: forward_step_eq s when_exhausted_def left_load_def Let_def\<close>)
qed

interpretation load_inv: round_invariant E I info deadline headers body its
  "\<lambda>_ st. (\<forall>k. round_ok E I (its k) \<and> steady_round (its k)) \<and> fleet_wf f \<and> in_range f \<longrightarrow>
     moves E I f (fs_fleet st) \<and> load (fs_fleet st) = load f"
  "\<lambda>r. (\<forall>k. round_ok E I (its k) \<and> steady_round (its k)) \<and> fleet_wf f \<and> in_range f \<longrightarrow> left_load f r"
  for E I info deadline headers body its f
proof (unfold_locales, goal_cases)
  case (1 n st r)
  then show ?case using step_load [of "its (Suc n)" E I f st f info deadline headers body] by auto
next
  case (2 n st st')
  then show ?case
    using step_load [of "its (Suc n)" E I f st f info deadline headers body]
      move_step [of E I "its (Suc n)" f st info deadline headers body] by auto
qed (simp add: left_load_def)

text \<open>C11: A request gives back what it took. Whatever the upstream answers, however often the request
  fails over, refreshes tokens, waits or is billed, when \<open>forward\<close> returns every account has the
  slots in flight and the open requests it had before; only the account whose stream is still being
  relayed has one open request more, and the relay gives that back when it ends, however it ends and
  however much the client has read. So no slot leaks and no account is left looking busier than it is.
  Two things are assumed: what the other requests do between the critical sections of this one leaves
  the counts as they were (each gives back what it took), and no count is at the top of its 32 bits,
  where it would wrap.\<close>

theorem forward_gives_back:
  assumes "\<And>k. round_ok E I (its k)" and "\<And>k. steady_round (its k)" and "fleet_wf f" and "in_range f"
    and "forward E I strip info started headers body its f = Some r"
  shows "case fr_stream r of
      None \<Rightarrow> load (fs_fleet (fr_state r)) = load f
    | Some (sel, status, chunks) \<Rightarrow>
        (\<exists>a b. load f (sel_id sel) = Some (a, b)
           \<and> load (fs_fleet (fr_state r)) = (load f)(sel_id sel \<mapsto> (a, b + 1)))
        \<and> (\<forall>n cs now g. load g = load (fs_fleet (fr_state r)) \<longrightarrow>
             load (snd (snd (finish_stream E info (sel_id sel) n cs now g))) = load f)"
proof -
  have left: "left_load f r"
    using load_inv.loop_result [OF _ assms(5) [unfolded forward_def], of f] assms(1-4) by (simp add: forward_start_def)
  show ?thesis
  proof (cases "fr_stream r")
    case None
    with left show ?thesis by (simp add: left_load_def)
  next
    case (Some x)
    obtain sel rest where x: "x = (sel, rest)" by (rule prod.exhaust)
    from left Some x have l: "load (fs_fleet (fr_state r)) = taken 0 1 (sel_id sel) f" "load f (sel_id sel) \<noteq> None"
      by (simp_all add: left_load_def)
    have "load (snd (snd (finish_stream E info (sel_id sel) n cs now g))) = load f"
      if "load g = load (fs_fleet (fr_state r))" for n cs now g
      using that l(1) by (simp add: finish_stream_def case_prod_unfold close_load)
    with l Some x show ?thesis by (auto simp: taken_def split: prod.split)
  qed
qed

theorem forward_gives_back_witness:
  "\<exists>r. forward ext0 no_files [] (demo_info (Some ''a'')) 0 [] [] (\<lambda>_. demo_round ConnectFailed) one_account = Some r
     \<and> load one_account ''a'' = Some (0, 0) \<and> (fr_stream r = None \<longrightarrow> load (fs_fleet (fr_state r)) ''a'' = Some (0, 0))"
proof -
  obtain r where r: "forward ext0 no_files [] (demo_info (Some ''a'')) 0 [] [] (\<lambda>_. demo_round ConnectFailed) one_account = Some r"
    using demo_forward by blast
  have a: "load one_account i = (if i = ''a'' then Some (0, 0) else None)" for i
    by (simp add: load_def one_account_def fleet_account_def)
  then have "in_range one_account" by (simp add: in_range_def)
  moreover have "steady_round (demo_round rep)" for rep
    by (simp add: steady_round_def steady_try_def steady_def)
  ultimately show ?thesis
    using forward_gives_back [OF demo_round_ok _ one_account_wf _ r] r a by auto
qed

end
