(* ===== verification/Attach.thy ===== *)
theory Attach
  imports Control Cli
begin

text \<open>
  \<open>src/attach.rs\<close>: a dashboard process that watches a daemon through its control API and reads the feed of
  \<open>activity_stream\<close>. Replies of the daemon are parameters of the operations; times are milliseconds, delays
  seconds.
\<close>

subsection \<open>Reading the feed\<close>

definition LINE_MAX :: nat where "LINE_MAX = 2 ^ 20"

record sse_parser =
  sp_buf :: string
  sp_data :: "string list"

definition sse_parser0 :: sse_parser where
  "sse_parser0 = \<lparr>sp_buf = [], sp_data = []\<rparr>"

definition end_event :: "ext \<Rightarrow> string list \<Rightarrow> json list" where
  "end_event E data =
     (if data = [] then []
      else (case json_parse E (join_with [CHR 0x0A] data) of Some v \<Rightarrow> [v] | None \<Rightarrow> []))"

definition sse_line :: "ext \<Rightarrow> string \<Rightarrow> string list \<times> json list \<Rightarrow> string list \<times> json list" where
  "sse_line E raw st =
     (let line = trim_end_matches (CHR 0x0D) (utf8_lossy raw)
      in if line = [] then ([], snd st @ end_event E (fst st))
         else (case strip_prefix ''data:'' line of
                 Some d \<Rightarrow> (fst st @ [unwrap_or d (strip_prefix '' '' d)], snd st)
               | None \<Rightarrow> st))"

function sse_lines :: "ext \<Rightarrow> string \<Rightarrow> string list \<times> json list \<Rightarrow> string \<times> string list \<times> json list" where
  "sse_lines E buf st =
     (case split_once (CHR 0x0A) buf of
        None \<Rightarrow> (buf, st)
      | Some (line, rest) \<Rightarrow> sse_lines E rest (sse_line E line st))"
  by auto

lemma split_once_shorter: "split_once c s = Some (a, b) \<Longrightarrow> length b < length s"
  by (induction s arbitrary: a) (fastforce split: if_splits)+

termination sse_lines
  by (relation "measure (\<lambda>(_, buf, _). length buf)") (auto dest: split_once_shorter)

declare sse_lines.simps [simp del]

definition sse_feed :: "ext \<Rightarrow> string \<Rightarrow> sse_parser \<Rightarrow> json list \<times> sse_parser" where
  "sse_feed E chunk p =
     (case sse_lines E (sp_buf p @ chunk) (sp_data p, []) of
        (rest, data, out) \<Rightarrow>
          (out, if LINE_MAX < length rest then sse_parser0 else \<lparr>sp_buf = rest, sp_data = data\<rparr>))"

fun sse_run :: "ext \<Rightarrow> string list \<Rightarrow> sse_parser \<Rightarrow> json list \<times> sse_parser" where
  "sse_run E [] p = ([], p)"
| "sse_run E (c # cs) p =
     (case sse_feed E c p of (out, p1) \<Rightarrow> (case sse_run E cs p1 of (out', p2) \<Rightarrow> (out @ out', p2)))"

text \<open>\<open>pump\<close>: what one connection passes on.\<close>

definition pump :: "ext \<Rightarrow> string list \<Rightarrow> activity list" where
  "pump E chunks = List.map_filter activity_from_json (fst (sse_run E chunks sse_parser0))"

subsection \<open>The link to the daemon\<close>

datatype attach_reply = Unreached string | Reply nat "json option"

datatype attach_error = KeyRefused | BadStatus nat | Unreachable string | Declined string

record link_snap =
  sn_status :: json
  sn_fetched :: "nat option"
  sn_error :: "string option"

record remote =
  rm_base :: string
  rm_key :: string
  rm_snap :: link_snap

definition remote_new :: "string \<Rightarrow> string \<Rightarrow> remote option" where
  "remote_new base key =
     (let base = trim_end_matches CHR ''/'' base
      in if \<not> (starts_with ''http://'' base \<or> starts_with ''https://'' base) then None
         else Some \<lparr>rm_base = base, rm_key = key, rm_snap = \<lparr>sn_status = JNull, sn_fetched = None, sn_error = None\<rparr>\<rparr>)"

text \<open>Where a call goes and the headers it carries.\<close>

definition attach_request :: "remote \<Rightarrow> string \<Rightarrow> string \<times> (string \<times> string) list" where
  "attach_request r path = (rm_base r @ path, [(''x-api-key'', rm_key r)])"

definition json_of :: "attach_reply \<Rightarrow> attach_error + json" where
  "json_of reply =
     (case reply of
        Unreached e \<Rightarrow> Inl (Unreachable e)
      | Reply status body \<Rightarrow>
          if status = 401 then Inl KeyRefused
          else (let v = unwrap_or JNull body
                in if \<not> (200 \<le> status \<and> status < 300) \<and> j_get ''error'' v = None then Inl (BadStatus status)
                   else Inr v))"

text \<open>\<open>status_text\<close> is how the http crate prints a status code.\<close>

definition attach_error_text :: "(nat \<Rightarrow> string) \<Rightarrow> attach_error \<Rightarrow> string" where
  "attach_error_text status_text e =
     (case e of
        KeyRefused \<Rightarrow> ''HTTP 401: the proxy key was refused (pass --key)''
      | BadStatus s \<Rightarrow> ''HTTP '' @ status_text s
      | Unreachable m \<Rightarrow> m
      | Declined m \<Rightarrow> m)"

definition fetch_status :: "(nat \<Rightarrow> string) \<Rightarrow> nat \<Rightarrow> attach_reply \<Rightarrow> remote \<Rightarrow> (string + json) \<times> remote" where
  "fetch_status txt now reply r =
     (case json_of reply of
        Inr v \<Rightarrow> (Inr v, r\<lparr>rm_snap := \<lparr>sn_status = v, sn_fetched = Some now, sn_error = None\<rparr>\<rparr>)
      | Inl e \<Rightarrow>
          (let msg = safe_str (attach_error_text txt e) 120
           in (Inl msg, r\<lparr>rm_snap := (rm_snap r)\<lparr>sn_error := Some msg\<rparr>\<rparr>)))"

datatype link_state = Fresh nat | Lost nat string | Connecting

definition link :: "nat \<Rightarrow> remote \<Rightarrow> link_state" where
  "link now r =
     (case (sn_error (rm_snap r), sn_fetched (rm_snap r)) of
        (None, Some t) \<Rightarrow> Fresh (now - t)
      | (Some why, Some t) \<Rightarrow> Lost (now - t) why
      | (Some why, None) \<Rightarrow> Lost 0 why
      | (None, None) \<Rightarrow> Connecting)"

definition answered_ok :: "json \<Rightarrow> bool" where
  "answered_ok v = unwrap_or False (Option.bind (j_get ''ok'' v) as_bool)"

definition or_error :: "string \<Rightarrow> json \<Rightarrow> string" where
  "or_error d v = unwrap_or d (get_str ''error'' v)"

definition switch_body :: "string \<Rightarrow> string \<Rightarrow> json" where
  "switch_body pool i = JObj [(''account'', JStr i), (''pool'', JStr pool)]"

definition switch_answer :: "string \<Rightarrow> attach_reply \<Rightarrow> attach_error + (string \<times> string option)" where
  "switch_answer i reply =
     res_bind (json_of reply) (\<lambda>v.
       if \<not> answered_ok v then Inl (Declined (or_error ''switch failed'' v))
       else Inr (unwrap_or i (get_str ''account'' v), get_str ''blocked'' v))"

definition reload_answer :: "attach_reply \<Rightarrow> attach_error + nat" where
  "reload_answer reply =
     res_bind (json_of reply) (\<lambda>v.
       if \<not> answered_ok v then Inl (Declined (or_error ''reload failed'' v))
       else Inr (unwrap_or 0 (Option.bind (j_get ''added'' v) as_u64)))"

text \<open>The first text ends in an ellipsis, three bytes of UTF-8.\<close>

definition probe_answer :: "attach_reply \<Rightarrow> attach_error + string" where
  "probe_answer reply =
     res_bind (json_of reply) (\<lambda>v.
       Inr (if answered_ok v then ''probing all OAuth accounts'' @ ellipsis else or_error ''probe refused'' v))"

subsection \<open>Following the feed\<close>

definition RECONNECT_MIN :: nat where "RECONNECT_MIN = 1"
definition RECONNECT_MAX :: nat where "RECONNECT_MAX = 10"

text \<open>What one attempt to open the feed came to; \<open>TailOpen\<close> carries the chunks and why it ended.\<close>

datatype tail_result = TailOpen "string list" string | TailStatus nat | TailFailed string

record tail_state =
  tl_delay :: nat
  tl_was_up :: bool

definition tail_state0 :: tail_state where
  "tail_state0 = \<lparr>tl_delay = RECONNECT_MIN, tl_was_up = False\<rparr>"

definition said :: "string \<Rightarrow> activity" where "said l = LogEv l"

text \<open>One round of the loop: what reaches the pane, how long the loop then sleeps, and the next state.\<close>

definition tail_round ::
  "ext \<Rightarrow> (nat \<Rightarrow> string) \<Rightarrow> tail_result \<Rightarrow> tail_state \<Rightarrow> activity list \<times> nat \<times> tail_state" where
  "tail_round E txt r s =
     (let retry = ''; retrying in '' @ show_nat (tl_delay s) @ ''s'';
          next = (\<lambda>d up. \<lparr>tl_delay = min (2 * d) RECONNECT_MAX, tl_was_up = up\<rparr>)
      in case r of
           TailOpen chunks why \<Rightarrow>
             ((if tl_was_up s then [said ''attach: activity feed reconnected''] else []) @ pump E chunks
               @ [said (''WARN attach: activity feed dropped ('' @ why @ ''); reconnecting'')],
              RECONNECT_MIN, next RECONNECT_MIN True)
         | TailStatus status \<Rightarrow>
             ([said ((if status = 404
                      then ''WARN attach: this server predates /corrall/activity; update and restart it for a live pane''
                      else ''WARN attach: activity feed refused (HTTP '' @ txt status @ '')'') @ retry)],
              tl_delay s, next (tl_delay s) (tl_was_up s))
         | TailFailed e \<Rightarrow>
             ((if tl_was_up s then [said (''WARN attach: activity feed unreachable ('' @ safe_str e 80 @ '')'' @ retry)] else []),
              tl_delay s, next (tl_delay s) (tl_was_up s)))"

fun tail_rounds :: "ext \<Rightarrow> (nat \<Rightarrow> string) \<Rightarrow> tail_result list \<Rightarrow> tail_state \<Rightarrow> (activity list \<times> nat) list" where
  "tail_rounds E txt [] s = []"
| "tail_rounds E txt (r # rs) s =
     (case tail_round E txt r s of (out, slept, s') \<Rightarrow> (out, slept) # tail_rounds E txt rs s')"

subsection \<open>The command\<close>

definition proxy_base :: "ext \<Rightarrow> config \<Rightarrow> string" where
  "proxy_base E c = ''http://'' @ dial_authority E c"

record attach_args =
  ta_url :: "string option"
  ta_key :: "string option"

datatype attach_refusal = NoTerminal | NoConfig | BadUrl | NoDaemon string

definition attach_start ::
  "ext \<Rightarrow> (nat \<Rightarrow> string) \<Rightarrow> bool \<Rightarrow> config option \<Rightarrow> attach_args \<Rightarrow> nat \<Rightarrow> attach_reply \<Rightarrow> attach_refusal + remote" where
  "attach_start E txt terminal cfg args now reply =
     (if \<not> terminal then Inl NoTerminal
      else (case cfg of
              None \<Rightarrow> Inl NoConfig
            | Some c \<Rightarrow>
                (case remote_new (unwrap_or (proxy_base E c) (ta_url args)) (unwrap_or (px_api_key (cf_proxy c)) (ta_key args)) of
                   None \<Rightarrow> Inl BadUrl
                 | Some r \<Rightarrow>
                     (case fetch_status txt now reply r of
                        (Inl msg, _) \<Rightarrow> Inl (NoDaemon msg)
                      | (Inr _, r') \<Rightarrow> Inr r'))))"

end
