(* ===== verification/Titles.thy ===== *)
theory Titles
  imports Session_Tracker Credentials Usage_Stream
begin

text \<open>
  \<open>src/titles.rs\<close>: what the activity log calls a session, read from files of Claude Code and cached. The
  contents of the files are a parameter; \<open>label\<close> never reads, it says whether a read is to be started.
\<close>

definition TITLE_TTL_MS :: int where "TITLE_TTL_MS = 30000"
definition TAIL_BYTES :: nat where "TAIL_BYTES = 64 * 1024"

definition is_hexdigit :: "char \<Rightarrow> bool" where
  "is_hexdigit c \<longleftrightarrow> hex_val c \<noteq> None"

definition is_uuid :: "string \<Rightarrow> bool" where
  "is_uuid s \<longleftrightarrow> length s = 36 \<and>
     list_all (\<lambda>(i, c). if i \<in> {8, 13, 18, 23} then c = CHR ''-'' else is_hexdigit c) (zip [0..<36] s)"

subsection \<open>The cache\<close>

record titles =
  tt_enabled :: bool
  tt_width :: nat
  tt_dir :: string
  tt_cache :: "(string \<times> (string option \<times> int)) list"
  tt_pending :: "string list"

definition titles_dir :: "ext \<Rightarrow> session_titles \<Rightarrow> string" where
  "titles_dir E cfg =
     (case ti_projects_dir cfg of
        Some d \<Rightarrow> expand_home E d
      | None \<Rightarrow> (case home_dir E of Some h \<Rightarrow> h @ ''/'' | None \<Rightarrow> []) @ ''.claude/projects'')"

definition titles_new :: "ext \<Rightarrow> session_titles \<Rightarrow> titles" where
  "titles_new E cfg =
     \<lparr>tt_enabled = ti_enabled cfg, tt_width = max 6 (ti_width cfg), tt_dir = titles_dir E cfg, tt_cache = [], tt_pending = []\<rparr>"

definition titles_configure :: "ext \<Rightarrow> session_titles \<Rightarrow> titles \<Rightarrow> titles" where
  "titles_configure E cfg t =
     (let dir = titles_dir E cfg
      in t\<lparr>tt_enabled := ti_enabled cfg, tt_width := max 6 (ti_width cfg),
           tt_cache := (if dir \<noteq> tt_dir t then [] else tt_cache t), tt_dir := dir\<rparr>)"

definition first_chars :: "nat \<Rightarrow> string \<Rightarrow> string" where
  "first_chars n s = utf8_bytes (take n (utf8_chars s))"

text \<open>The label, and the directory and session of the read that is started, if one is.\<close>

definition title_label :: "string option \<Rightarrow> int \<Rightarrow> titles \<Rightarrow> string \<times> (string \<times> string) option \<times> titles" where
  "title_label session now t =
     (case session of
        None \<Rightarrow> ([], None, t)
      | Some sid \<Rightarrow>
          (let short = first_chars 6 sid; hit = map_of (tt_cache t) sid
           in if \<not> tt_enabled t \<or> \<not> is_uuid sid then (short, None, t)
              else (let stale = (case hit of Some (_, since) \<Rightarrow> TITLE_TTL_MS \<le> now - since | None \<Rightarrow> True);
                        start = stale \<and> sid \<notin> set (tt_pending t);
                        shown = (case hit of Some (Some title, _) \<Rightarrow> title | _ \<Rightarrow> short)
                    in if start then (shown, Some (tt_dir t, sid), t\<lparr>tt_pending := sid # tt_pending t\<rparr>)
                       else (shown, None, t))))"

text \<open>A read that was started ends here; a large cache drops what was not read for as long as a session is known.\<close>

definition title_read :: "string \<Rightarrow> string option \<Rightarrow> int \<Rightarrow> titles \<Rightarrow> titles" where
  "title_read sid title now t =
     (let cache = AList.update sid (title, now) (tt_cache t)
      in t\<lparr>tt_cache := (if 5000 < length cache
              then filter (\<lambda>(_, _, since). now - SESSION_KNOWN_TTL_MS < since) cache else cache),
           tt_pending := removeAll sid (tt_pending t)\<rparr>)"

subsection \<open>Looking a title up\<close>

definition clean_title :: "json option \<Rightarrow> string option" where
  "clean_title v =
     (case map_option trim (Option.bind v as_str) of
        None \<Rightarrow> None
      | Some s \<Rightarrow> if s = [] then None else Some (safe_str s 80))"

text \<open>One project: the file beside the transcript, and the transcript. Either may be missing.\<close>

record project_files =
  pf_is_dir :: bool
  pf_sidecar :: "string \<Rightarrow> string option"
  pf_transcript :: "string \<Rightarrow> string option"

datatype title_scan = Found string | Best "string option"

definition sidecar_title :: "ext \<Rightarrow> string option \<Rightarrow> string option" where
  "sidecar_title E raw =
     Option.bind (Option.bind raw (json_parse E)) (\<lambda>v. clean_title (opt_or (j_get ''customTitle'' v) (j_get ''title'' v)))"

definition title_record :: "ext \<Rightarrow> string \<Rightarrow> json option" where
  "title_record E line =
     (if starts_with ''{'' line \<and> contains line (''-title'' @ [CHR 0x22]) then json_parse E line else None)"

fun scan_lines :: "ext \<Rightarrow> string list \<Rightarrow> string option \<Rightarrow> title_scan" where
  "scan_lines E [] generated = Best generated"
| "scan_lines E (l # ls) generated =
     (case title_record E l of
        None \<Rightarrow> scan_lines E ls generated
      | Some rec \<Rightarrow>
          (let kind = get_str ''type'' rec
           in if kind = Some ''custom-title'' then
                (case clean_title (j_get ''customTitle'' rec) of Some t \<Rightarrow> Found t | None \<Rightarrow> scan_lines E ls generated)
              else if kind = Some ''ai-title'' \<and> generated = None then scan_lines E ls (clean_title (j_get ''aiTitle'' rec))
              else scan_lines E ls generated))"

definition transcript_tail :: "string \<Rightarrow> string" where
  "transcript_tail raw = drop (length raw - TAIL_BYTES) raw"

fun lookup_title :: "ext \<Rightarrow> string \<Rightarrow> project_files list \<Rightarrow> string option \<Rightarrow> string option" where
  "lookup_title E sid [] generated = generated"
| "lookup_title E sid (p # ps) generated =
     (if \<not> pf_is_dir p then lookup_title E sid ps generated
      else (case sidecar_title E (pf_sidecar p sid) of
              Some t \<Rightarrow> Some t
            | None \<Rightarrow>
                (case pf_transcript p sid of
                   None \<Rightarrow> lookup_title E sid ps generated
                 | Some raw \<Rightarrow>
                     (case scan_lines E (rev (text_lines (utf8_lossy (transcript_tail raw)))) generated of
                        Found t \<Rightarrow> Some t
                      | Best (Some t) \<Rightarrow> Some t
                      | Best None \<Rightarrow> lookup_title E sid ps None))))"

text \<open>\<open>lookup\<close>: \<open>None\<close> of the listing is a directory that cannot be read.\<close>

definition title_lookup :: "ext \<Rightarrow> (string \<Rightarrow> project_files list option) \<Rightarrow> string \<Rightarrow> string \<Rightarrow> string option" where
  "title_lookup E list dir sid = Option.bind (list dir) (\<lambda>ps. lookup_title E sid ps None)"

subsection \<open>What holds\<close>

lemma hexdigit_safe: "is_hexdigit c \<Longrightarrow> c \<noteq> CHR ''/'' \<and> c \<noteq> CHR ''.''"
proof -
  have "\<not> is_hexdigit CHR ''/''" "\<not> is_hexdigit CHR ''.''" by code_simp+
  then show "is_hexdigit c \<Longrightarrow> ?thesis" by auto
qed

text \<open>A session that is looked up is no path: its name has neither slash nor dot.\<close>

lemma uuid_is_no_path:
  assumes "is_uuid s" shows "CHR ''/'' \<notin> set s \<and> CHR ''.'' \<notin> set s"
proof -
  have "s ! i \<noteq> CHR ''/'' \<and> s ! i \<noteq> CHR ''.''" if "i < length s" for i
  proof -
    have "zip [0..<36] s ! i = (i, s ! i)" using assms that by (simp add: is_uuid_def)
    then have "(i, s ! i) \<in> set (zip [0..<36] s)" using assms that nth_mem [of i "zip [0..<36] s"] by (simp add: is_uuid_def)
    with assms have "if i \<in> {8, 13, 18, 23} then s ! i = CHR ''-'' else is_hexdigit (s ! i)"
      by (auto simp: is_uuid_def list_all_iff)
    with hexdigit_safe show ?thesis by (auto split: if_splits)
  qed
  then show ?thesis by (metis in_set_conv_nth)
qed

lemma label_reads_only_uuids:
  "title_label session now t = (l, Some (dir, sid), t') \<Longrightarrow>
     session = Some sid \<and> is_uuid sid \<and> dir = tt_dir t \<and> tt_enabled t \<and> sid \<notin> set (tt_pending t) \<and> sid \<in> set (tt_pending t')"
  by (auto simp: title_label_def Let_def split: option.splits if_splits)

text \<open>A title that was read is shown, and not read again before its time is up.\<close>

lemma label_after_read:
  assumes "tt_enabled t" and "is_uuid sid" and "later < now + TITLE_TTL_MS" and "length (tt_cache t) < 5000"
  shows "title_label (Some sid) later (title_read sid (Some title) now t) = (title, None, title_read sid (Some title) now t)"
proof -
  have "length (AList.update sid v xs) \<le> Suc (length xs)" for v :: "string option \<times> int" and xs
    by (induction xs) auto
  from this [of "(Some title, now)" "tt_cache t"]
  have "\<not> 5000 < length (AList.update sid (Some title, now) (tt_cache t))" using assms(4) by simp
  with assms show ?thesis by (simp add: title_label_def title_read_def Let_def TITLE_TTL_MS_def update_conv')
qed

end
