(* ===== verification/Tui.thy ===== *)
theory Tui
  imports Attach Titles Prober
begin

text \<open>
  \<open>src/tui.rs\<close>: the state of the dashboard, what events and keys do to it, and the texts it shows. Layout and
  colours are the terminal library's. Local time, elapsed times and the decimal printing of floating-point
  numbers are parameters.
\<close>

record formats =
  fm_clock :: string
  \<comment> \<open>\<open>{:.1}\<close> of milliseconds as seconds, \<open>{:>3.0}\<close> of a ratio as per cent\<close>
  fm_secs :: "nat \<Rightarrow> string"
  fm_pct :: "f64 \<Rightarrow> string"

definition glyph :: "nat \<Rightarrow> string" where "glyph n = utf8_bytes [n]"

subsection \<open>Lines and their severity\<close>

datatype severity = Info | Warn | ErrorLine

definition WARN_WORDS :: "string list" where
  "WARN_WORDS = [''429'', ''failed'', ''rejected'', ''rate-limited'', ''exhausted'', ''not persisted'', ''login expires'']"

definition severity_of :: "string \<Rightarrow> severity" where
  "severity_of line =
     (let t = trim_start line
      in if starts_with ''ERROR'' t then ErrorLine
         else if starts_with ''WARN'' t then Warn
         else if list_ex (contains t) WARN_WORDS then Warn
         else Info)"

subsection \<open>Lines of the process itself\<close>

definition BACKLOG_MAX :: nat where "BACKLOG_MAX = 100"

text \<open>\<open>emit\<close>: what is sent and what is kept while nobody listens.\<close>

definition emit_line :: "nat \<Rightarrow> string \<Rightarrow> string list \<Rightarrow> activity list \<times> string list" where
  "emit_line listeners raw backlog =
     (let line = trim raw
      in if line = [] then ([], backlog)
         else if listeners = 0 then ([], if length backlog < BACKLOG_MAX then backlog @ [line] else backlog)
         else (map LogEv backlog @ [LogEv line], []))"

definition drain_sink :: "nat \<Rightarrow> string \<Rightarrow> string list \<Rightarrow> activity list \<times> string list" where
  "drain_sink listeners buf backlog =
     fold (\<lambda>l (sent, b). case emit_line listeners l b of (s, b') \<Rightarrow> (sent @ s, b')) (text_lines (utf8_lossy buf)) ([], backlog)"

subsection \<open>The state\<close>

record in_flight =
  fi_id :: string
  fi_started :: nat
  fi_line :: string
  fi_account :: string

record tui =
  tu_log :: "(string \<times> severity) list"
  tu_inflight :: "in_flight list"
  tu_selecting :: "nat option"
  tu_message :: "string option"

definition tui_new :: tui where
  "tui_new = \<lparr>tu_log = [], tu_inflight = [], tu_selecting = None, tu_message = None\<rparr>"

definition LOG_MAX :: nat where "LOG_MAX = 500"
definition INFLIGHT_MAX_AGE :: nat where "INFLIGHT_MAX_AGE = 30 * 60 * 1000"

definition push_log :: "string \<Rightarrow> severity \<Rightarrow> tui \<Rightarrow> tui" where
  "push_log line sev = tu_log_update (\<lambda>l. take LOG_MAX ((safe_str line 300, sev) # l))"

text \<open>The label of a session and the width of its column: in the server from the cache of titles, attached from
  the event and the status document.\<close>

datatype source_of_facts = InServer titles int | Attached

definition session_label :: "source_of_facts \<Rightarrow> json \<Rightarrow> string option \<Rightarrow> string option \<Rightarrow> string \<times> nat" where
  "session_label src st session label =
     (case src of
        InServer t now \<Rightarrow>
          (unwrap_or (fst (title_label session now t)) label, if tt_enabled t then tt_width t else 6)
      | Attached \<Rightarrow>
          (let ts = j_get ''sessionTitles'' st;
               enabled = unwrap_or False (Option.bind (Option.bind ts (j_get ''enabled'')) as_bool);
               width = (if enabled then unwrap_or 18 (Option.bind (Option.bind ts (j_get ''width'')) as_u64) else 6)
           in (unwrap_or (unwrap_or [] (map_option (first_chars 6) session)) label, width)))"

definition char_count :: "string \<Rightarrow> nat" where "char_count s = length (utf8_chars s)"

definition pad_right :: "nat \<Rightarrow> string \<Rightarrow> string" where
  "pad_right w s = s @ replicate (w - char_count s) CHR '' ''"

definition start_line ::
  "string \<times> nat \<Rightarrow> string \<Rightarrow> string \<Rightarrow> string option \<Rightarrow> string option \<Rightarrow> string" where
  "start_line lw meth path model client =
     (let (label, width) = lw; sess = (if width < char_count label then first_chars width label else label)
      in (case client of Some c \<Rightarrow> ''['' @ c @ ''] '' | None \<Rightarrow> []) @ pad_right width sess @ '' '' @ meth @ '' '' @ path
         @ (case model of Some m \<Rightarrow> '' ('' @ m @ '')'' | None \<Rightarrow> []))"

definition end_line :: "formats \<Rightarrow> in_flight \<Rightarrow> string \<Rightarrow> nat \<Rightarrow> nat \<Rightarrow> bool \<Rightarrow> string" where
  "end_line F f account status elapsed good =
     glyph (if good then 0x2713 else 0x2717) @ '' '' @ fm_clock F @ ''  '' @ fi_line f @ '' '' @ glyph 0x2192 @ '' ''
       @ safe_str account 40 @ '' '' @ show_nat status @ '' ('' @ fm_secs F elapsed @ ''s)''"

fun on_activity :: "formats \<Rightarrow> source_of_facts \<Rightarrow> json \<Rightarrow> nat \<Rightarrow> activity \<Rightarrow> tui \<Rightarrow> tui" where
  "on_activity F src st now (StartEv i meth path model session client label) t =
     t\<lparr>tu_inflight := tu_inflight t @
        [\<lparr>fi_id = i, fi_started = now,
          fi_line = safe_str (start_line (session_label src st session label) meth path model client) 200, fi_account = []\<rparr>]\<rparr>"
| "on_activity F src st now (AccountEv i account) t =
     (case position (\<lambda>f. fi_id f = i) (tu_inflight t) of
        None \<Rightarrow> t
      | Some k \<Rightarrow> t\<lparr>tu_inflight := (tu_inflight t)[k := (tu_inflight t ! k)\<lparr>fi_account := safe_str account 40\<rparr>]\<rparr>)"
| "on_activity F src st now (EndEv i account status elapsed good) t =
     (case position (\<lambda>f. fi_id f = i) (tu_inflight t) of
        None \<Rightarrow> t
      | Some k \<Rightarrow>
          push_log (end_line F (tu_inflight t ! k) account status elapsed good) (if good then Info else Warn)
            (t\<lparr>tu_inflight := remove_at k (tu_inflight t)\<rparr>))"
| "on_activity F src st now (LogEv l) t =
     push_log (''  '' @ fm_clock F @ ''  '' @ l) (severity_of l) t"

definition drop_stale :: "nat \<Rightarrow> tui \<Rightarrow> tui" where
  "drop_stale now = tu_inflight_update (filter (\<lambda>f. now - fi_started f < INFLIGHT_MAX_AGE))"

subsection \<open>Keys\<close>

definition arr :: "string \<Rightarrow> json \<Rightarrow> json list" where
  "arr k v = unwrap_or [] (Option.bind (j_get k v) as_array)"

definition flat_accounts :: "json \<Rightarrow> (string \<times> json) list" where
  "flat_accounts st =
     concat (map (\<lambda>p. map (Pair (unwrap_or [] (get_str ''pool'' p))) (arr ''accounts'' p)) (arr ''pools'' st))"

datatype key = CtrlC | KeyEsc | KeyUp | KeyDown | KeyEnter | KeyChar char | KeyOther

text \<open>What a key makes the dashboard do besides changing its state.\<close>

datatype key_effect = Nothing | Quit | DoSwitch string string | DoReload | DoProbe

definition select_key :: "json \<Rightarrow> nat \<Rightarrow> key \<Rightarrow> tui \<Rightarrow> key_effect \<times> tui" where
  "select_key st sel k t =
     (let flat = flat_accounts st
      in case k of
           KeyEsc \<Rightarrow> (Nothing, t\<lparr>tu_selecting := None\<rparr>)
         | KeyUp \<Rightarrow> (Nothing, t\<lparr>tu_selecting := Some (sel - 1)\<rparr>)
         | KeyDown \<Rightarrow> (Nothing, t\<lparr>tu_selecting := Some (min (sel + 1) (length flat - 1))\<rparr>)
         | KeyEnter \<Rightarrow>
             (if sel < length flat
              then DoSwitch (fst (flat ! sel)) (unwrap_or [] (get_str ''id'' (snd (flat ! sel)))) else Nothing,
              t\<lparr>tu_selecting := None\<rparr>)
         | KeyChar c \<Rightarrow>
             (Nothing,
              if c = CHR ''q'' then t\<lparr>tu_selecting := None\<rparr>
              else if c = CHR ''k'' then t\<lparr>tu_selecting := Some (sel - 1)\<rparr>
              else if c = CHR ''j'' then t\<lparr>tu_selecting := Some (min (sel + 1) (length flat - 1))\<rparr>
              else t)
         | _ \<Rightarrow> (Nothing, t))"

definition tui_key :: "json \<Rightarrow> key \<Rightarrow> tui \<Rightarrow> key_effect \<times> tui" where
  "tui_key st k t =
     (if k = CtrlC then (Quit, t)
      else (case tu_selecting t of
              Some sel \<Rightarrow> select_key st sel k t
            | None \<Rightarrow>
                (case k of
                   KeyChar c \<Rightarrow>
                     if c = CHR ''q'' then (Quit, t)
                     else if c = CHR ''R'' \<or> c = CHR ''r'' then (DoReload, t)
                     else if c = CHR ''s'' then (Nothing, t\<lparr>tu_selecting := Some 0\<rparr>)
                     else if c = CHR ''p'' then (DoProbe, t)
                     else (Nothing, t)
                 | _ \<Rightarrow> (Nothing, t))))"

text \<open>The answers of the backend: an error is the text of one.\<close>

definition switched_message :: "string + (string \<times> string option) option \<Rightarrow> string option" where
  "switched_message r =
     (case r of
        Inr (Some (name, None)) \<Rightarrow> Some (''switched to '' @ safe_str name 40)
      | Inr (Some (name, Some b)) \<Rightarrow> Some (''switched to '' @ safe_str name 40 @ '' (currently '' @ safe_str b 40 @ '')'')
      | Inr None \<Rightarrow> None
      | Inl e \<Rightarrow> Some (''switch failed: '' @ safe_str e 80))"

definition reloaded_message :: "(string + nat) option \<Rightarrow> tui \<Rightarrow> tui" where
  "reloaded_message r t =
     (case r of
        None \<Rightarrow> t
      | Some (Inr n) \<Rightarrow> t\<lparr>tu_message := Some (''config reloaded ('' @ show_nat n @ '' added)'')\<rparr>
      | Some (Inl e) \<Rightarrow> t\<lparr>tu_message := Some (''reload failed: '' @ safe_str e 80)\<rparr>)"

definition probe_message :: "manual_probe + (string + string) \<Rightarrow> string" where
  "probe_message r =
     (case r of
        Inl Started \<Rightarrow> ''probing all OAuth accounts'' @ ellipsis
      | Inl AlreadyRunning \<Rightarrow> ''probe already running''
      | Inl (TooSoon wait) \<Rightarrow> ''probed moments ago; try again in '' @ show_nat wait @ ''s''
      | Inr (Inr m) \<Rightarrow> m
      | Inr (Inl e) \<Rightarrow> ''probe failed: '' @ safe_str e 80)"

subsection \<open>What is shown\<close>

definition flag_at :: "string list \<Rightarrow> json \<Rightarrow> bool" where
  "flag_at path v = unwrap_or False (Option.bind (j_pointer path v) as_bool)"

definition j_time :: "ext \<Rightarrow> json option \<Rightarrow> int option" where
  "j_time E v =
     (case v of
        None \<Rightarrow> None
      | Some x \<Rightarrow> (case as_i64 x of Some n \<Rightarrow> Some n | None \<Rightarrow> Option.bind (as_str x) (parse_iso_ms E)))"

definition routing_summary :: "json \<Rightarrow> string" where
  "routing_summary st =
     (let names = map fst (filter snd
            [(''soonest-reset'', flag_at [''soonestReset''] st), (''expiry'', flag_at [''expiryRouting'', ''enabled''] st),
             (''distribute'', flag_at [''distributeSessions''] st)])
      in if names = [] then ''sticky'' else join_with '' + '' names)"

definition probe_summary :: "ext \<Rightarrow> json \<Rightarrow> int \<Rightarrow> string" where
  "probe_summary E st now =
     (let interval = unwrap_or 0 (Option.bind (j_pointer [''probe'', ''intervalSeconds''] st) as_u64); every = show_nat interval @ ''s''
      in if interval = 0 then ''off''
         else if flag_at [''probe'', ''running''] st then every @ '', running''
         else (case j_time E (j_pointer [''probe'', ''nextRunAt''] st) of
                 Some next \<Rightarrow> if now < next then every @ '', next '' @ format_duration (i64_wrap (next - now)) else every
               | None \<Rightarrow> every))"

definition probe_cell :: "ext \<Rightarrow> json \<Rightarrow> int \<Rightarrow> string" where
  "probe_cell E account now =
     (case j_get ''probe'' account of
        None \<Rightarrow> ''never''
      | Some p \<Rightarrow>
          (let status = unwrap_or ''never'' (get_str ''status'' p);
               ago = (case j_time E (opt_or (j_get ''lastProbedAt'' p) (j_get ''startedAt'' p)) of
                        Some t \<Rightarrow> format_duration (max (i64_wrap (now - t)) 0) | None \<Rightarrow> [])
           in if status = ''not-applicable'' then ''-''
              else if status = ''never'' then ''never''
              else if status = ''running'' then ''running''
              else if status = ''skipped'' then ''skipped''
              else if status = ''rate-limited'' then ''429 '' @ ago
              else safe_str status 10 @ '' '' @ ago))"

definition count_at :: "string list \<Rightarrow> json \<Rightarrow> string" where
  "count_at path v = show_nat (unwrap_or 0 (Option.bind (j_pointer path v) as_u64))"

definition header_text :: "ext \<Rightarrow> json \<Rightarrow> int \<Rightarrow> string" where
  "header_text E st now =
     '' Corrall v'' @ unwrap_or ''?'' (get_str ''version'' st) @ ''   current: '' @ unwrap_or ''-'' (get_str ''current'' st)
     @ ''   routing: '' @ routing_summary st @ ''   sessions: '' @ count_at [''sessions'', ''active''] st @ '' active / ''
     @ count_at [''sessions'', ''known''] st @ '' known   threshold: ''
     @ (case j_get ''switchThreshold'' st of Some t \<Rightarrow> json_print E t | None \<Rightarrow> [])
     @ ''   probe: '' @ probe_summary E st now
     @ (case get_str ''updateAvailable'' st of
          Some tag \<Rightarrow> ''   UPDATE '' @ tag @ '' available (corrall update)''
        | None \<Rightarrow> [])"

definition link_warning :: "nat \<Rightarrow> remote \<Rightarrow> string option" where
  "link_warning now r =
     (case link now r of
        Fresh _ \<Rightarrow> None
      | Connecting \<Rightarrow> Some (''connecting'' @ ellipsis)
      | Lost since why \<Rightarrow>
          Some (''DAEMON UNREACHABLE for '' @ format_duration (int since) @ '' ('' @ why @ ''); showing last known state''))"

text \<open>\<open>(u.clamp(0.0, 1.0) * width as f64).round() as usize\<close>.\<close>

definition cells_filled :: "f64 \<Rightarrow> nat \<Rightarrow> nat" where
  "cells_filled u width =
     nat (f_to_i64 (f_add (f_mul (f_clamp u (f_of_int 0) (f_of_int 1)) (f_of_int (int width))) (Fin (1 / 2))))"

definition bar_text :: "f64 option \<Rightarrow> nat \<Rightarrow> string" where
  "bar_text v width =
     (case opt_filter is_finite v of
        None \<Rightarrow> concat (replicate width (glyph 0xB7))
      | Some u \<Rightarrow>
          (let filled = cells_filled u width
           in concat (replicate filled (glyph 0x2588)) @ concat (replicate (width - filled) (glyph 0x2591))))"

definition quota_cell :: "formats \<Rightarrow> string \<Rightarrow> json \<Rightarrow> string" where
  "quota_cell F bucket a =
     (let u = Option.bind (j_pointer [''quota'', bucket, ''utilization''] a) as_f64
      in bar_text u 10 @ '' '' @ (case u of Some x \<Rightarrow> fm_pct F x @ ''%'' | None \<Rightarrow> ''  ?%'') @ '' ''
         @ countdown (Option.bind (j_pointer [''quota'', bucket, ''resetInSeconds''] a) as_i64))"

definition login_expiry :: "ext \<Rightarrow> json \<Rightarrow> int \<Rightarrow> int option" where
  "login_expiry E account now =
     Option.bind (j_time E (j_get ''loginExpiresAt'' account)) (\<lambda>e.
       let left = i64_wrap (e - now) in if left \<le> LOGIN_EXPIRY_WARN_MS then Some left else None)"

definition state_cell :: "ext \<Rightarrow> json \<Rightarrow> int \<Rightarrow> string" where
  "state_cell E a now =
     (if flag_at [''disabled''] a then ''disabled''
      else (case get_str ''blocked'' a of
              Some b \<Rightarrow> safe_str b 30
            | None \<Rightarrow>
                (case opt_filter (\<lambda>l. 0 < l) (login_expiry E a now) of
                   Some left \<Rightarrow> ''ready, login expires '' @ format_duration left
                 | None \<Rightarrow> ''ready'')))"

definition account_row :: "ext \<Rightarrow> formats \<Rightarrow> json \<Rightarrow> int \<Rightarrow> string list" where
  "account_row E F a now =
     [if flag_at [''current''] a then glyph 0x25BA else '' '', safe_str (unwrap_or ''?'' (get_str ''name'' a)) 28,
      show_int (unwrap_or 0 (Option.bind (j_get ''priority'' a) as_i64)),
      quota_cell F ''unified5h'' a, quota_cell F ''unified7d'' a, quota_cell F ''unified7dFable'' a,
      probe_cell E a now, state_cell E a now]"

definition pool_row :: "string \<Rightarrow> string list" where
  "pool_row pool = [[], ''pool '' @ safe_str pool 24]"

text \<open>With more than one pool each block of accounts is headed by its pool.\<close>

fun table_rows :: "ext \<Rightarrow> formats \<Rightarrow> int \<Rightarrow> bool \<Rightarrow> string option \<Rightarrow> (string \<times> json) list \<Rightarrow> string list list" where
  "table_rows E F now multi shown [] = []"
| "table_rows E F now multi shown ((pool, a) # as) =
     (if multi \<and> shown \<noteq> Some pool then pool_row pool # account_row E F a now # table_rows E F now multi (Some pool) as
      else account_row E F a now # table_rows E F now multi shown as)"

definition table_text :: "ext \<Rightarrow> formats \<Rightarrow> int \<Rightarrow> json \<Rightarrow> string list list" where
  "table_text E F now st = table_rows E F now (1 < length (arr ''pools'' st)) None (flat_accounts st)"

definition activity_lines :: "formats \<Rightarrow> nat \<Rightarrow> nat \<Rightarrow> tui \<Rightarrow> string list" where
  "activity_lines F now height t =
     map (\<lambda>f. glyph 0x280B @ '' '' @ fm_clock F @ ''  '' @ fi_line f
            @ (if fi_account f = [] then [] else '' '' @ glyph 0x2192 @ '' '' @ fi_account f)
            @ '' ('' @ fm_secs F (now - fi_started f) @ ''s'' @ ellipsis @ '')'') (tu_inflight t)
     @ map fst (take height (tu_log t))"

definition footer_text :: "string \<Rightarrow> tui \<Rightarrow> string" where
  "footer_text where_line t =
     (case (tu_selecting t, tu_message t) of
        (Some _, _) \<Rightarrow> '' '' @ glyph 0x2191 @ ''/'' @ glyph 0x2193 @ '' choose account, Enter switch, Esc cancel''
      | (None, Some m) \<Rightarrow> '' '' @ m @ ''   |   q quit  R reload  s switch  p probe''
      | (None, None) \<Rightarrow> '' q quit   R reload config   s switch account   p probe quota   '' @ where_line)"

end
