(* ===== verification/Attach_Props.thy ===== *)
theory Attach_Props
  imports Attach Control_Props
begin

text \<open>
  The feed survives the wire: whatever way its bytes are cut, the attached dashboard sees the events the daemon
  emitted; and the reconnecting loop waits within its bounds.
\<close>

abbreviation line_feed :: char where "line_feed \<equiv> CHR 0x0A"

subsection \<open>Cuts\<close>

lemma sse_lines_None: "split_once line_feed buf = None \<Longrightarrow> sse_lines E buf st = (buf, st)"
  by (simp add: sse_lines.simps)

lemma sse_lines_Some: "split_once line_feed buf = Some (l, r) \<Longrightarrow> sse_lines E buf st = sse_lines E r (sse_line E l st)"
  by (simp add: sse_lines.simps)

lemma split_once_more: "split_once c s = Some (l, r) \<Longrightarrow> split_once c (s @ t) = Some (l, r @ t)"
  by (induction s arbitrary: l) (auto split: if_splits)

lemma sse_lines_append:
  "sse_lines E (a @ b) st = (case sse_lines E a st of (rest, st') \<Rightarrow> sse_lines E (rest @ b) st')"
proof (induction E a st rule: sse_lines.induct)
  case (1 E a st)
  show ?case
  proof (cases "split_once line_feed a")
    case None
    then show ?thesis by (simp add: sse_lines_None)
  next
    case (Some lr)
    then obtain l r where lr: "split_once line_feed a = Some (l, r)" by (cases lr) simp
    with 1 [OF lr refl] show ?thesis by (simp add: sse_lines_Some [OF lr] sse_lines_Some [OF split_once_more [OF lr]])
  qed
qed

lemma sse_line_out: "sse_line E l (d, o1) = (fst (sse_line E l (d, [])), o1 @ snd (sse_line E l (d, [])))"
  by (simp add: sse_line_def Let_def split: option.split)

lemma sse_lines_out:
  "sse_lines E buf (d, o1) = (case sse_lines E buf (d, []) of (rest, d', o2) \<Rightarrow> (rest, d', o1 @ o2))"
proof (induction "length buf" arbitrary: buf d o1 rule: less_induct)
  case less
  show ?case
  proof (cases "split_once line_feed buf")
    case None
    then show ?thesis by (simp add: sse_lines_None)
  next
    case (Some lr)
    then obtain l r where lr: "split_once line_feed buf = Some (l, r)" by (cases lr) simp
    obtain d1 out1 where q: "sse_line E l (d, []) = (d1, out1)" by fastforce
    obtain rest d2 o2 where s: "sse_lines E r (d1, []) = (rest, d2, o2)" by (metis prod.exhaust)
    note IH = less [OF split_once_shorter [OF lr], of d1]
    from IH [of "o1 @ out1"] IH [of out1] s show ?thesis
      by (simp add: sse_lines_Some [OF lr] sse_line_out [of E l d o1] q)
  qed
qed

text \<open>Lines the parser has room for, \<open>n\<close> bytes into the first.\<close>

fun short_lines :: "nat \<Rightarrow> string \<Rightarrow> bool" where
  "short_lines n [] \<longleftrightarrow> True"
| "short_lines n (c # s) \<longleftrightarrow> (if c = line_feed then short_lines 0 s else n < LINE_MAX \<and> short_lines (Suc n) s)"

lemma short_lines_take: "short_lines n (a @ b) \<Longrightarrow> short_lines n a"
  by (induction a arbitrary: n) auto

lemma short_lines_open: "short_lines n a \<Longrightarrow> split_once line_feed a = None \<Longrightarrow> n \<le> LINE_MAX \<Longrightarrow> n + length a \<le> LINE_MAX"
  by (induction a arbitrary: n) (fastforce split: if_splits)+

lemma short_lines_rest: "short_lines n a \<Longrightarrow> split_once line_feed a = Some (l, r) \<Longrightarrow> short_lines 0 r"
  by (induction a arbitrary: n l) (auto split: if_splits)

lemma sse_lines_short: "short_lines 0 a \<Longrightarrow> length (fst (sse_lines E a st)) \<le> LINE_MAX"
proof (induction E a st rule: sse_lines.induct)
  case (1 E a st)
  show ?case
  proof (cases "split_once line_feed a")
    case None
    with short_lines_open [OF 1(2) None] show ?thesis by (simp add: sse_lines_None)
  next
    case (Some lr)
    then obtain l r where lr: "split_once line_feed a = Some (l, r)" by (cases lr) simp
    with 1(1) [OF lr refl] short_lines_rest [OF 1(2) lr] show ?thesis by (simp add: sse_lines_Some [OF lr])
  qed
qed

lemma sse_lines_tail: "short_lines 0 (a @ b) \<Longrightarrow> short_lines 0 (fst (sse_lines E a st) @ b)"
proof (induction E a st rule: sse_lines.induct)
  case (1 E a st)
  show ?case
  proof (cases "split_once line_feed a")
    case None
    with 1(2) show ?thesis by (simp add: sse_lines_None)
  next
    case (Some lr)
    then obtain l r where lr: "split_once line_feed a = Some (l, r)" by (cases lr) simp
    with 1(1) [OF lr refl] short_lines_rest [OF 1(2) split_once_more [OF lr]] show ?thesis by (simp add: sse_lines_Some [OF lr])
  qed
qed

lemma sse_lines_left: "split_once line_feed (fst (sse_lines E a st)) = None"
proof (induction E a st rule: sse_lines.induct)
  case (1 E a st)
  show ?case
  proof (cases "split_once line_feed a")
    case None
    then show ?thesis by (simp add: sse_lines_None)
  next
    case (Some lr)
    then obtain l r where lr: "split_once line_feed a = Some (l, r)" by (cases lr) simp
    with 1 [OF lr refl] show ?thesis by (simp add: sse_lines_Some [OF lr])
  qed
qed

lemma sse_run_whole:
  "short_lines 0 (sp_buf p @ concat cs) \<Longrightarrow> split_once line_feed (sp_buf p) = None \<Longrightarrow>
     sse_run E cs p = (case sse_lines E (sp_buf p @ concat cs) (sp_data p, []) of
       (rest, data, out) \<Rightarrow> (out, \<lparr>sp_buf = rest, sp_data = data\<rparr>))"
proof (induction cs arbitrary: p)
  case Nil
  then show ?case by (simp add: sse_lines_None)
next
  case (Cons c cs)
  obtain rest data1 o1 where s: "sse_lines E (sp_buf p @ c) (sp_data p, []) = (rest, data1, o1)" by (metis prod.exhaust)
  have whole: "short_lines 0 ((sp_buf p @ c) @ concat cs)" using Cons.prems(1) by simp
  have "length rest \<le> LINE_MAX" using sse_lines_short [OF short_lines_take [OF whole], of E "(sp_data p, [])"] by (simp add: s)
  then have f: "sse_feed E c p = (o1, \<lparr>sp_buf = rest, sp_data = data1\<rparr>)" by (simp add: sse_feed_def s)
  obtain rest2 data2 o2 where s2: "sse_lines E (rest @ concat cs) (data1, []) = (rest2, data2, o2)" by (metis prod.exhaust)
  have "short_lines 0 (rest @ concat cs)" using sse_lines_tail [OF whole, of E "(sp_data p, [])"] by (simp add: s)
  moreover have "split_once line_feed rest = None" using sse_lines_left [of E "sp_buf p @ c" "(sp_data p, [])"] by (simp add: s)
  ultimately have "sse_run E cs \<lparr>sp_buf = rest, sp_data = data1\<rparr> = (o2, \<lparr>sp_buf = rest2, sp_data = data2\<rparr>)"
    using Cons.IH [of "\<lparr>sp_buf = rest, sp_data = data1\<rparr>"] by (simp add: s2)
  moreover have "sse_lines E (sp_buf p @ concat (c # cs)) (sp_data p, []) = (rest2, data2, o1 @ o2)"
    using sse_lines_append [of E "sp_buf p @ c" "concat cs" "(sp_data p, [])"] sse_lines_out [of E "rest @ concat cs" data1 o1]
    by (simp add: s s2)
  ultimately show ?case by (simp add: f)
qed

subsection \<open>Frames\<close>

text \<open>What is relied on of the JSON printer and parser: a value is printed on one line of UTF-8 and read back, and it
  fits in a line.\<close>

definition prints_line :: "ext \<Rightarrow> json \<Rightarrow> bool" where
  "prints_line E v \<longleftrightarrow>
     (let t = json_print E v
      in json_parse E t = Some v \<and> utf8_lossy t = t \<and> line_feed \<notin> set t \<and> CHR 0x0D \<notin> set t \<and> length t + 6 \<le> LINE_MAX)"

definition lag_note :: "nat \<Rightarrow> activity" where
  "lag_note n = LogEv (''activity feed lagged; '' @ show_nat n @ '' events dropped'')"

definition sent_event :: "feed_item \<Rightarrow> activity option" where
  "sent_event item = (case item of FeedEvent a \<Rightarrow> Some a | FeedLagged n \<Rightarrow> Some (lag_note n) | FeedPing \<Rightarrow> None)"

definition frame_ok :: "ext \<Rightarrow> (string \<Rightarrow> string) \<Rightarrow> feed_item \<Rightarrow> bool" where
  "frame_ok E label item = (case sent_event item of Some a \<Rightarrow> prints_line E (activity_to_json label a) | None \<Rightarrow> True)"

lemma feed_frame_eq:
  "feed_frame D label item = (case sent_event item of Some a \<Rightarrow> data_frame D label a | None \<Rightarrow> '': ping'' @ newline @ newline)"
  by (cases item) (simp_all add: feed_frame_def sent_event_def lag_note_def)

lemma ascii_lossy: "byte c < 128 \<Longrightarrow> utf8_lossy (c # s) = c # utf8_lossy s"
  by (simp add: piece_def utf8_width_def)

lemma data_lossy: "utf8_lossy (''data: '' @ t) = ''data: '' @ utf8_lossy t"
  by (simp add: ascii_lossy del: utf8_lossy.simps(2))

lemma trim_end_other: "c \<notin> set s \<Longrightarrow> trim_end_matches c s = s"
  by (cases "rev s") (auto simp: trim_end_matches_def rev_swap)

lemma trim_end_append: "c \<notin> set t \<Longrightarrow> c \<notin> set s \<Longrightarrow> trim_end_matches c (s @ t) = s @ t"
  by (rule trim_end_other) auto

lemma data_line:
  assumes "prints_line E v" shows "sse_line E (''data: '' @ json_print E v) (d, out) = (d @ [json_print E v], out)"
proof -
  have "trim_end_matches (CHR 0x0D) (''data: '' @ json_print E v) = ''data: '' @ json_print E v"
    using assms by (intro trim_end_append) (auto simp: prints_line_def Let_def)
  moreover have "strip_prefix ''data:'' (''data:'' @ '' '' @ json_print E v) = Some ('' '' @ json_print E v)"
    unfolding strip_prefix_append ..
  moreover have "strip_prefix '' '' ('' '' @ json_print E v) = Some (json_print E v)" unfolding strip_prefix_append ..
  moreover have "utf8_lossy (''data: '' @ json_print E v) = ''data: '' @ json_print E v"
    using assms unfolding data_lossy by (simp add: prints_line_def Let_def)
  ultimately show ?thesis by (simp add: sse_line_def)
qed

lemma blank_sse_line: "sse_line E [] (d, out) = ([], out @ end_event E d)"
  by (simp add: sse_line_def trim_end_matches_def)

lemma comment_line:
  assumes "utf8_lossy l = l" and "trim_end_matches (CHR 0x0D) l = l" and "l \<noteq> []" and "\<not> starts_with ''data:'' l"
  shows "sse_line E l st = st"
  using assms by (simp add: sse_line_def strip_prefix_def)

lemma comments: "sse_line E '': ping'' st = st" "sse_line E '': corrall activity'' st = st"
proof -
  have "utf8_lossy '': ping'' = '': ping''" "trim_end_matches (CHR 0x0D) '': ping'' = '': ping''"
    "utf8_lossy '': corrall activity'' = '': corrall activity''"
    "trim_end_matches (CHR 0x0D) '': corrall activity'' = '': corrall activity''"
    "\<not> starts_with ''data:'' '': ping''" "\<not> starts_with ''data:'' '': corrall activity''" by code_simp+
  then show "sse_line E '': ping'' st = st" "sse_line E '': corrall activity'' st = st"
    by (intro comment_line; simp)+
qed

lemma two_lines:
  assumes "line_feed \<notin> set l"
  shows "sse_lines E (l @ newline @ newline @ rest) st = sse_lines E rest (sse_line E [] (sse_line E l st))"
proof -
  have "split_once line_feed (l @ line_feed # line_feed # rest) = Some (l, line_feed # rest)"
    using assms by (rule split_once_append)
  from sse_lines_Some [OF this] sse_lines_Some [of "line_feed # rest" "[]" rest E] show ?thesis by (simp add: newline_def)
qed

lemma data_frame_lines:
  assumes "prints_line (da_ext D) (activity_to_json label a)"
  shows "sse_lines (da_ext D) (data_frame D label a @ rest) ([], out) = sse_lines (da_ext D) rest ([], out @ [activity_to_json label a])"
proof -
  let ?E = "da_ext D" and ?j = "json_print (da_ext D) (activity_to_json label a)"
  have "line_feed \<notin> set (''data: '' @ ?j)" using assms by (simp add: prints_line_def Let_def)
  from two_lines [OF this, of ?E rest "([], out)"]
  have "sse_lines ?E (data_frame D label a @ rest) ([], out) = sse_lines ?E rest (sse_line ?E [] (sse_line ?E (''data: '' @ ?j) ([], out)))"
    unfolding data_frame_def by simp
  moreover have "end_event ?E [?j] = [activity_to_json label a]"
    using assms by (simp add: end_event_def join_with_def prints_line_def Let_def)
  ultimately show ?thesis unfolding data_line [OF assms] by (simp add: blank_sse_line)
qed

definition sent_json :: "(string \<Rightarrow> string) \<Rightarrow> feed_item \<Rightarrow> json option" where
  "sent_json label item = map_option (activity_to_json label) (sent_event item)"

lemma frame_lines:
  assumes "frame_ok (da_ext D) label item"
  shows "sse_lines (da_ext D) (feed_frame D label item @ rest) ([], out)
    = sse_lines (da_ext D) rest ([], out @ (case sent_json label item of Some j \<Rightarrow> [j] | None \<Rightarrow> []))"
proof (cases "sent_event item")
  case (Some a)
  with assms data_frame_lines [of D label a rest out] show ?thesis by (simp add: frame_ok_def sent_json_def feed_frame_eq)
next
  case None
  have "sse_lines (da_ext D) ('': ping'' @ newline @ newline @ rest) ([], out) = sse_lines (da_ext D) rest ([], out)"
    by (subst two_lines) (simp_all only: comments blank_sse_line, simp_all add: end_event_def)
  with None show ?thesis by (simp add: sent_json_def feed_frame_eq)
qed

lemma frames_lines:
  "list_all (frame_ok (da_ext D) label) items \<Longrightarrow>
     sse_lines (da_ext D) (concat (map (feed_frame D label) items)) ([], out)
       = ([], [], out @ List.map_filter (sent_json label) items)"
proof (induction items arbitrary: out)
  case Nil
  then show ?case by (simp add: sse_lines_None List.map_filter_simps)
next
  case (Cons i items)
  from frame_lines [of D label i "concat (map (feed_frame D label) items)" out] Cons show ?case
    by (simp add: List.map_filter_simps split: option.split)
qed

lemma short_line: "line_feed \<notin> set l \<Longrightarrow> n + length l \<le> LINE_MAX \<Longrightarrow> short_lines n (l @ line_feed # rest) = short_lines 0 rest"
  by (induction l arbitrary: n) auto

lemma short_event:
  "prints_line (da_ext D) (activity_to_json label a) \<Longrightarrow> short_lines 0 (data_frame D label a @ rest) = short_lines 0 rest"
  using short_line [of "''data: '' @ json_print (da_ext D) (activity_to_json label a)" 0 "line_feed # rest"]
  by (simp add: data_frame_def newline_def prints_line_def Let_def)

lemma short_comments:
  "short_lines 0 ('': ping'' @ newline @ newline @ rest) = short_lines 0 rest"
  "short_lines 0 ('': corrall activity'' @ newline @ newline @ rest) = short_lines 0 rest"
  using short_line [of "'': ping''" 0 "line_feed # rest"] short_line [of "'': corrall activity''" 0 "line_feed # rest"]
  by (simp_all add: newline_def LINE_MAX_def)

lemma short_frame: "frame_ok (da_ext D) label i \<Longrightarrow> short_lines 0 (feed_frame D label i @ rest) = short_lines 0 rest"
  by (cases "sent_event i") (simp only: feed_frame_eq option.case append_assoc short_comments,
    simp add: feed_frame_eq frame_ok_def short_event)

lemma short_frames: "list_all (frame_ok (da_ext D) label) items \<Longrightarrow> short_lines 0 (concat (map (feed_frame D label) items))"
  by (induction items) (simp_all add: short_frame)

text \<open>What the watcher is to see of an item.\<close>

definition shown :: "(string \<Rightarrow> string) \<Rightarrow> feed_item \<Rightarrow> activity option" where
  "shown label item = map_option (as_watched label) (sent_event item)"

lemma pump_shows:
  assumes "list_all (frame_ok (da_ext D) label) items" and "concat chunks = activity_feed D label items"
  shows "pump (da_ext D) chunks = List.map_filter (shown label) items"
proof -
  let ?E = "da_ext D"
  have "short_lines 0 (concat chunks)" unfolding assms(2) activity_feed_def append_assoc short_comments
    by (rule short_frames [OF assms(1)])
  moreover have "sse_lines ?E (concat chunks) ([], []) = ([], [], List.map_filter (sent_json label) items)"
    unfolding assms(2) activity_feed_def append_assoc
    by (subst two_lines) (simp, simp only: comments blank_sse_line, simp add: end_event_def frames_lines [OF assms(1)])
  ultimately have "fst (sse_run ?E chunks sse_parser0) = List.map_filter (sent_json label) items"
    using sse_run_whole [of sse_parser0 chunks ?E] by (simp add: sse_parser0_def)
  moreover have "List.map_filter activity_from_json (List.map_filter (sent_json label) items) = List.map_filter (shown label) items"
    by (induction items)
      (simp_all add: List.map_filter_simps sent_json_def shown_def activity_json_fields option.map_comp split: option.split)
  ultimately show ?thesis by (simp add: pump_def)
qed

text \<open>C19: An attached dashboard sees what the daemon emitted. However the connection cuts the bytes of the feed, the
  events that come out at the other end are those that went in, in order, each with its fields intact and the
  session's title resolved on the daemon's side; pings leave no trace, and a note stands where events were dropped.\<close>

theorem attached_sees_what_was_emitted:
  assumes "list_all (frame_ok (da_ext D) label) items" and "concat chunks = activity_feed D label items"
  shows "pump (da_ext D) chunks = List.map_filter (shown label) items"
  using assms by (rule pump_shows)

theorem attached_sees_what_was_emitted_witness:
  "let j = activity_to_json id (LogEv ''hello'');
       D = demo_daemon\<lparr>da_ext := ext0\<lparr>json_print := (\<lambda>_. ''{}''), json_parse := (\<lambda>_. Some j)\<rparr>\<rparr>;
       body = activity_feed D id [FeedEvent (LogEv ''hello''), FeedPing]
   in pump (da_ext D) [take 30 body, drop 30 body] = [LogEv ''hello'']"
proof -
  let ?j = "activity_to_json id (LogEv ''hello'')"
  let ?D = "demo_daemon\<lparr>da_ext := ext0\<lparr>json_print := (\<lambda>_. ''{}''), json_parse := (\<lambda>_. Some ?j)\<rparr>\<rparr>"
  let ?b = "activity_feed ?D id [FeedEvent (LogEv ''hello''), FeedPing]"
  have "utf8_lossy ''{}'' = ''{}''" by code_simp
  then have "list_all (frame_ok (da_ext ?D) id) [FeedEvent (LogEv ''hello''), FeedPing]"
    by (simp add: frame_ok_def sent_event_def prints_line_def LINE_MAX_def)
  from attached_sees_what_was_emitted [OF this, of "[take 30 ?b, drop 30 ?b]"]
  show ?thesis by (simp add: Let_def List.map_filter_simps shown_def sent_event_def del: activity_to_json.simps)
qed

subsection \<open>The link\<close>

lemma tail_waits: "RECONNECT_MIN \<le> tl_delay s \<and> tl_delay s \<le> RECONNECT_MAX \<Longrightarrow>
   list_all (\<lambda>(_, slept). RECONNECT_MIN \<le> slept \<and> slept \<le> RECONNECT_MAX) (tail_rounds E txt rs s)"
proof (induction rs arbitrary: s)
  case (Cons r rs)
  obtain out slept s' where t: "tail_round E txt r s = (out, slept, s')" by (metis prod.exhaust)
  have "RECONNECT_MIN \<le> slept \<and> slept \<le> RECONNECT_MAX \<and> RECONNECT_MIN \<le> tl_delay s' \<and> tl_delay s' \<le> RECONNECT_MAX"
    using t Cons.prems by (cases r) (auto simp: tail_round_def Let_def RECONNECT_MIN_def RECONNECT_MAX_def)
  with Cons.IH [of s'] t show ?case by simp
qed simp

lemma failed_fetch_keeps_status:
  "fetch_status txt now reply r = (Inl msg, r') \<Longrightarrow>
     sn_status (rm_snap r') = sn_status (rm_snap r) \<and> (\<exists>age. link now r' = Lost age msg)"
  by (auto simp: fetch_status_def link_def Let_def split: sum.splits option.splits)

text \<open>An error status whose body has an \<open>error\<close> field counts as a status document: it replaces the last good one
  and the link looks fresh.\<close>

lemma error_reply_is_a_status:
  assumes "status \<noteq> 401" and "j_get ''error'' v \<noteq> None"
  shows "fetch_status txt now (Reply status (Some v)) r =
    (Inr v, r\<lparr>rm_snap := \<lparr>sn_status = v, sn_fetched = Some now, sn_error = None\<rparr>\<rparr>)"
  using assms by (auto simp: fetch_status_def json_of_def Let_def)

end
