(* ===== verification/Tui_Props.thy ===== *)
theory Tui_Props
  imports Tui Attach_Props
begin

text \<open>
  The dashboard keeps the requests that are under way and no others, its pane stays bounded, and a switch goes to
  the account that is highlighted.
\<close>

subsection \<open>Requests under way\<close>

text \<open>The reference: an id per start, taken away by the first end that names it.\<close>

fun open_ids :: "activity \<Rightarrow> string list \<Rightarrow> string list" where
  "open_ids (StartEv i _ _ _ _ _ _) ids = ids @ [i]"
| "open_ids (EndEv i _ _ _ _) ids = remove1 i ids"
| "open_ids _ ids = ids"

definition row_ids :: "tui \<Rightarrow> string list" where
  "row_ids t = map fi_id (tu_inflight t)"

lemma push_log_frame [simp]:
  "tu_inflight (push_log l s t) = tu_inflight t" "tu_selecting (push_log l s t) = tu_selecting t"
  "tu_message (push_log l s t) = tu_message t"
  by (simp_all add: push_log_def)

lemma push_log_bound: "length (tu_log (push_log l s t)) \<le> LOG_MAX"
  by (simp add: push_log_def)

lemma position_Cons: "position P (x # xs) = (if P x then Some 0 else map_option Suc (position P xs))"
proof -
  have "[0..<length (x # xs)] = 0 # map Suc [0..<length xs]"
    by (simp add: upt_conv_Cons map_Suc_upt del: upt_Suc)
  moreover have "List.find (\<lambda>i. P ((x # xs) ! i)) (map Suc ks) = map_option Suc (List.find (\<lambda>i. P (xs ! i)) ks)" for ks
    by (induction ks) simp_all
  ultimately show ?thesis by (simp add: position_def del: upt_Suc)
qed

lemma remove_at_position:
  "position (\<lambda>f. g f = i) xs = Some k \<Longrightarrow> map g (remove_at k xs) = remove1 i (map g xs)"
  by (induction xs arbitrary: k) (auto simp: position_None remove_at_def position_Cons split: if_splits)

lemma position_absent: "position (\<lambda>f. g f = i) xs = None \<Longrightarrow> i \<notin> set (map g xs)"
  by (auto simp: position_None)

lemma row_ids_step: "row_ids (on_activity F src st now a t) = open_ids a (row_ids t)"
proof (cases a)
  case (AccountEv i account)
  then show ?thesis
    by (auto simp: row_ids_def map_update split: option.split) (metis in_flight.simps(5) list_update_id map_update nth_map position_SomeD)
next
  case (EndEv i account status elapsed good)
  then show ?thesis
    by (auto simp: row_ids_def remove1_idem remove_at_position dest: position_absent split: option.split)
qed (simp_all add: row_ids_def)

lemma rows_follow_events:
  "row_ids (fold (\<lambda>(F, src, st, now, a). on_activity F src st now a) xs t)
     = fold open_ids (map (\<lambda>(F, src, st, now, a). a) xs) (row_ids t)"
  by (induction xs arbitrary: t) (auto simp: row_ids_step)

lemma log_bounded: "length (tu_log t) \<le> LOG_MAX \<Longrightarrow> length (tu_log (on_activity F src st now a t)) \<le> LOG_MAX"
  by (cases a) (auto simp: push_log_bound split: option.split)

lemma watched_ids: "open_ids (as_watched label a) = open_ids a"
  by (cases a) auto

text \<open>An attached dashboard has open rows for exactly the requests the daemon started and did not end.\<close>

lemma attached_rows:
  assumes "list_all (frame_ok (da_ext D) label) items" and "concat chunks = activity_feed D label items"
  shows "row_ids (fold (on_activity F Attached st now) (pump (da_ext D) chunks) tui_new)
    = fold open_ids (List.map_filter sent_event items) []"
proof -
  have "row_ids (fold (on_activity F Attached st now) as t) = fold open_ids as (row_ids t)" for as t
    by (induction as arbitrary: t) (simp_all add: row_ids_step)
  moreover have "fold open_ids (List.map_filter (shown label) items) ids = fold open_ids (List.map_filter sent_event items) ids" for ids
    by (induction items arbitrary: ids) (simp_all add: List.map_filter_simps shown_def watched_ids split: option.split)
  ultimately show ?thesis using pump_shows [OF assms] by (simp add: row_ids_def tui_new_def)
qed

subsection \<open>Keys\<close>

text \<open>The selection stays on a row of the table, and Enter switches to the account of that row, in its own pool.\<close>

lemma selection_in_range:
  assumes "tu_selecting t = Some sel" and "sel < length (flat_accounts st)" and "tui_key st k t = (eff, t')"
  shows "(case tu_selecting t' of Some s \<Rightarrow> s < length (flat_accounts st) | None \<Rightarrow> True)
    \<and> (\<forall>pool i. eff = DoSwitch pool i \<longrightarrow>
         k = KeyEnter \<and> (\<exists>a. flat_accounts st ! sel = (pool, a) \<and> i = unwrap_or [] (get_str ''id'' a)))"
  using assms by (cases k) (auto simp: tui_key_def select_key_def Let_def split: if_splits, metis prod.collapse)

subsection \<open>Lines of the process itself\<close>

lemma backlog_delivered:
  assumes "list_all (\<lambda>l. trim l \<noteq> []) ls" and "length b + length ls \<le> BACKLOG_MAX" and "trim l \<noteq> []" and "0 < n"
  shows "emit_line n l (fold (\<lambda>l b. snd (emit_line 0 l b)) ls b) = (map LogEv (b @ map trim ls @ [trim l]), [])"
  using assms(1,2)
proof (induction ls arbitrary: b)
  case Nil
  with assms(3,4) show ?case by (simp add: emit_line_def Let_def)
next
  case (Cons x ls)
  then have "snd (emit_line 0 x b) = b @ [trim x]" by (simp add: emit_line_def Let_def)
  with Cons.IH [of "b @ [trim x]"] Cons.prems show ?case by simp
qed

end
