(* ===== verification/Spec2Isabelle.thy ===== *)
theory Spec2Isabelle
  imports Pool_Match Forward_Answers Prober_Props Request_Log Status_Props Warmer Cli_Moves Launch_Props Update_Props Migrate_Props
    Forward_Balance Tui_Props
begin

text \<open>
  A verification development for corrall, a local proxy that spreads the requests of Claude Code and Codex
  clients over several accounts. The root theory only binds the library together.

  \<^bold>\<open>The program.\<close> A listener (\<open>src/proxy/server.rs\<close>) takes requests from local clients, in plain HTTP or
  inside an intercepted CONNECT tunnel. \<open>handle\<close> finds the pool and the pin named in the path, checks the key
  (\<open>src/proxy/auth.rs\<close>) and sends the request to the control plane, to the client's own upstream session
  (\<open>src/proxy/relay.rs\<close>) or to \<open>forward\<close> (\<open>src/proxy/forward.rs\<close>), which selects an account of the pool's fleet
  (\<open>src/manager.rs\<close>), tries the request on it and moves on to another one when that fails. What the upstream
  answers feeds the quota of the account (\<open>src/quota.rs\<close>) and the affinity of the session
  (\<open>src/session.rs\<close>). A prober asks for usage in the background (\<open>src/prober.rs\<close>), a warmer starts idle
  windows (\<open>src/warmer.rs\<close>), and \<open>Config::update\<close> with the reload of \<open>src/main.rs\<close> changes the configuration
  (\<open>src/config.rs\<close>, \<open>src/cli.rs\<close>) under the running fleets (\<open>src/pools.rs\<close>).

  \<^bold>\<open>Conventions.\<close> Records are the structs of the code with a prefix per record (\<open>a_\<close> account, \<open>fl_\<close> fleet,
  \<open>sv_\<close> server). A function that mutates its argument takes the state last and returns it. Errors are
  \<open>Inl\<close> of a sum, absent values \<open>None\<close>, panics and waits that never end values of their own (\<open>Crashed\<close>, \<open>Hung\<close>,
  \<open>None\<close> of \<open>forward\<close>). Strings are byte strings; where the code works on characters, \<open>Utf8\<close> decodes them. Machine
  integers are \<open>int\<close> or \<open>nat\<close> with the wrap or saturation written out; \<open>f64\<close> is \<open>Float64\<close>: exact rationals, the
  two infinities and NaN, so that comparisons behave as in IEEE and rounding is not modelled (a sum or quotient is
  exact where the code rounds). Trimming and lower case are those of ASCII where Rust's are Unicode's. Paths are compared by
  name: links between files are not modelled. Clocks, random
  draws, the token endpoints, the upstream, DNS, parsing of URLs, dates, JSON text and regular expressions are
  parameters (\<open>ext\<close>, \<open>importer\<close>, \<open>daemon\<close>, and the worlds). Where the code lets go of a lock, a function \<open>env\<close>
  stands for whatever the others do before it is taken again.

  \<^bold>\<open>Theories.\<close>
  \<^item> Foundations: \<open>Prelude\<close> (results, association lists, ordered maps and the interfaces stated as locales),
    \<open>Rust_Std\<close>, \<open>Float64\<close>, \<open>Json_Value\<close>, \<open>Utf8\<close>, \<open>Environment\<close>, \<open>Http\<close>.
  \<^item> Models, quota and security: \<open>Model_Family\<close> (\<open>model.rs\<close>), \<open>Quota\<close> (\<open>quota.rs\<close>), \<open>Security\<close> (\<open>security.rs\<close>),
    \<open>Credentials\<close> and \<open>Codex\<close> (\<open>oauth.rs\<close>, \<open>codex.rs\<close>).
  \<^item> Configuration: \<open>Config\<close>, \<open>Config_Ops\<close>, \<open>Config_Load\<close> (\<open>config.rs\<close>: document, migration, ids, validation, load,
    saved state), \<open>Account_Edits\<close> (the edits of \<open>cli.rs\<close> the daemon shares), \<open>Pool_Match\<close> (\<open>pool_match.rs\<close>).
  \<^item> A fleet (\<open>manager.rs\<close>): \<open>Account\<close>, \<open>Session_Tracker\<close> (\<open>session.rs\<close>), \<open>Fleet\<close> (why an account cannot serve),
    \<open>Ranking\<close>, \<open>Selection\<close>, \<open>Admission\<close>, \<open>Manager_Ops\<close>, \<open>Tokens\<close> (refresh), \<open>Sync\<close> (configuration sync and saved
    state), \<open>Status_Json\<close>; their theorems in \<open>Ranking_Facts\<close>, \<open>Selection_Facts\<close>, \<open>Selection_Props\<close>, \<open>Manager_Props\<close>,
    \<open>Token_Props\<close>, \<open>Sync_Props\<close>, \<open>Fleet_Reach\<close> (all fleets a run reaches) and \<open>Status_Props\<close>.
  \<^item> Pools: \<open>Pools\<close>, \<open>Pools_Props\<close> (\<open>pools.rs\<close>).
  \<^item> The proxy: \<open>Proxy_Auth\<close>, \<open>Body\<close>, \<open>Usage_Stream\<close>, \<open>Attempt\<close> (one try), \<open>Forward\<close> (the loop), \<open>Activity\<close> (the feed),
    \<open>Relay\<close>, \<open>Mitm\<close> (CONNECT), \<open>Request_Log\<close>, \<open>Upstream\<close>; theorems in \<open>Forward_Facts\<close>, \<open>Forward_Props\<close>, \<open>Forward_Bounds\<close>,
    \<open>Forward_Answers\<close>, \<open>Forward_Balance\<close> (slots and open requests).
  \<^item> The server: \<open>Server_State\<close> (shared state, update and reload), \<open>Login\<close>, \<open>Control\<close> (the routes under \<open>/corrall/\<close>),
    \<open>Server\<close> (\<open>handle\<close>), with \<open>Control_Props\<close>, \<open>Login_Props\<close>, \<open>Server_Props\<close> (all states a run of the server reaches).
  \<^item> Background: \<open>Prober\<close>, \<open>Prober_Props\<close>, \<open>Warmer\<close>.
  \<^item> The command line (\<open>cli.rs\<close>): \<open>Cli_Edits\<close> (the edits of each command), \<open>Cli\<close> (the commands, the configuration
    cycle around them, login and import), with \<open>Cli_Props\<close> and \<open>Cli_Moves\<close>; \<open>Launch\<close> (the lines of \<open>corrall env\<close>
    and what \<open>corrall run\<close> makes of them) with \<open>Launch_Props\<close>.
  \<^item> \<open>Update\<close>, \<open>Update_Props\<close> (\<open>update.rs\<close>: the download, its verification, the swap, the health check and the
    roll-back; the cached passive check) and \<open>Migrate\<close>, \<open>Migrate_Props\<close> (\<open>migrate.rs\<close> and \<open>import-claudeacrobat\<close>).
  \<^item> The dashboard: \<open>Attach\<close> (\<open>attach.rs\<close>: the reader of the feed, the link, the control calls), \<open>Titles\<close>
    (\<open>titles.rs\<close>), \<open>Tui\<close> (\<open>tui.rs\<close>: its state, events, keys and texts), with \<open>Attach_Props\<close> and \<open>Tui_Props\<close>.

  \<^bold>\<open>What is shown.\<close> Selection: an answer is an account that may serve the request, with its own credential and an
  upstream that may see it; a pin never fails over; \<open>exhausted\<close> is told only when nothing is left, with the
  earliest time something changes (with expiry routing on, as long as no reading is NaN). Forwarding: the loop is a
  sequence of the fleet's own steps (\<open>move_step\<close>) and gives back the slots and open requests it took; the client's
  credentials never leave, and what is sent instead is the credential of the account chosen; nothing is resent once it may have been processed; the tries and waits are bounded; it returns
  unless an upstream stalls inside an error body; every unpinned request ends once in the feed. The server:
  only admitted requests are forwarded; no reachable state panics on any request and the counters agree
  with the feed; the control plane leaves the configuration file loadable; a login flow is good once; status
  documents do not depend on secrets. The background: probes of an account keep their distance; warm-up
  requests arrive at the account they are for. The command line: every command leaves a configuration that validates, which
  loads when its JSON text reads back, and only a removal loses an account; \<open>run\<close> reads the lines of \<open>env\<close> as a shell does, and a client launched by
  them is admitted and served from the pool and the account it was launched for. An update replaces the binary
  only by a verified one and a failed one leaves the old, for a binary that is not its own backup; an import from claudeacrobat touches no account of
  another kind. An attached dashboard sees the events the daemon emitted, however the connection cuts them, and its
  rows are the requests that are open. Below these, each component has its invariant (sessions,
  fleets, registries, configurations), its error behaviour and its round trips.

  \<^bold>\<open>Bounds.\<close> \<open>forward\<close> runs \<open>MAX_ATTEMPTS * 3 = 18\<close> rounds, the limit of the code. \<open>admit\<close> tries until the ramp window
  is over (\<open>admit_tries\<close>), after which it is granted, so the fuel is never the reason it stops. \<open>trim_prefix\<close>
  runs once per character of its argument.

  \<^bold>\<open>Not modelled.\<close> The text of \<open>corrall status\<close> (\<open>status.rs\<close>), the layout and colours of the terminal and the
  page of \<open>dashboard.rs\<close> are presentation. Of \<open>cli.rs\<close> the prompts, the output and the management of the service are left out. Sockets,
  TLS, certificates and the tasks of the runtime are outside: two requests are interleaved at the points
  where the code releases the state, not inside a critical section.
\<close>

end
